(* ===== verification/Prelude.thy ===== *)
theory Prelude
  imports Complex_Main "HOL-Library.Code_Target_Nat"
begin

text \<open>
  Vocabulary shared by every component: the exceptions of the Python code as
  values, state-passing computations that may raise, JSON values as the tools
  exchange them, and the SQL statements on a table kept as a list of rows.

  Texts are Isabelle strings (code points below 256). Identifiers are the
  canonical texts of UUIDs; \<open>str(uuid)\<close> and \<open>UUID(text)\<close> on such a text are the
  identity and do not appear in the model. Another spelling of an identifier, which
  the database would read as the same one, is a different text here.
\<close>

named_theorems io_simps "equations of the state-passing computations"
named_theorems table_simps "equations of the table statements"
named_theorems tool_defs "definitions of the governed tools"
named_theorems service_defs "definitions of the services"

section \<open>Exceptions and computations\<close>

type_synonym uuid = string

datatype exn =
    ValueError string
  | TypeError string
  | KeyError string
  | RuntimeError string
  | AttributeError string
  | NoResultFound
  | MultipleResultsFound
  | IntegrityError string
  | DataError string
  | HTTPError string
  | HTTPException nat
  | PolicyDenied string
  | OverflowError
  | StaffConflictError
  | AssertionError string
  | UnicodeError
  | CsvError string

type_synonym 'a result = "exn + 'a"

type_synonym ('w, 'a) io = "'w \<Rightarrow> 'a result \<times> 'w"

definition ret :: "'a \<Rightarrow> ('w, 'a) io" where
  "ret x = (\<lambda>w. (Inr x, w))"

definition raise :: "exn \<Rightarrow> ('w, 'a) io" where
  "raise e = (\<lambda>w. (Inl e, w))"

definition bind_io :: "('w, 'a) io \<Rightarrow> ('a \<Rightarrow> ('w, 'b) io) \<Rightarrow> ('w, 'b) io" where
  "bind_io m k = (\<lambda>w. case m w of (Inl e, w1) \<Rightarrow> (Inl e, w1) | (Inr x, w1) \<Rightarrow> k x w1)"

definition catch_io :: "('w, 'a) io \<Rightarrow> (exn \<Rightarrow> ('w, 'a) io) \<Rightarrow> ('w, 'a) io" where
  "catch_io m h = (\<lambda>w. case m w of (Inl e, w1) \<Rightarrow> h e w1 | (Inr x, w1) \<Rightarrow> (Inr x, w1))"

definition gets_io :: "('w \<Rightarrow> 'a) \<Rightarrow> ('w, 'a) io" where
  "gets_io f = (\<lambda>w. (Inr (f w), w))"

definition modify_io :: "('w \<Rightarrow> 'w) \<Rightarrow> ('w, unit) io" where
  "modify_io f = (\<lambda>w. (Inr (), f w))"

definition lift_result :: "'a result \<Rightarrow> ('w, 'a) io" where
  "lift_result r = (\<lambda>w. (r, w))"

primrec fold_io :: "('a \<Rightarrow> 's \<Rightarrow> ('w, 's) io) \<Rightarrow> 'a list \<Rightarrow> 's \<Rightarrow> ('w, 's) io" where
  "fold_io f [] s = ret s"
| "fold_io f (x # xs) s = bind_io (f x s) (fold_io f xs)"

lemma ret_apply [io_simps, simp]: "ret x w = (Inr x, w)"
  by (simp add: ret_def)

lemma raise_apply [io_simps, simp]: "raise e w = (Inl e, w)"
  by (simp add: raise_def)

lemma gets_io_apply [io_simps, simp]: "gets_io f w = (Inr (f w), w)"
  by (simp add: gets_io_def)

lemma modify_io_apply [io_simps, simp]: "modify_io f w = (Inr (), f w)"
  by (simp add: modify_io_def)

lemma lift_result_apply [io_simps, simp]: "lift_result r w = (r, w)"
  by (simp add: lift_result_def)

lemma bind_io_apply [io_simps]:
  "bind_io m k w = (case m w of (Inl e, w1) \<Rightarrow> (Inl e, w1) | (Inr x, w1) \<Rightarrow> k x w1)"
  by (simp add: bind_io_def)

lemma bind_io_Inl [simp]: "m w = (Inl e, w1) \<Longrightarrow> bind_io m k w = (Inl e, w1)"
  by (simp add: bind_io_def)

lemma bind_io_Inr [simp]: "m w = (Inr x, w1) \<Longrightarrow> bind_io m k w = k x w1"
  by (simp add: bind_io_def)

lemma catch_io_apply [io_simps]:
  "catch_io m h w = (case m w of (Inl e, w1) \<Rightarrow> h e w1 | (Inr x, w1) \<Rightarrow> (Inr x, w1))"
  by (simp add: catch_io_def)

lemma bind_io_Inr_iff:
  "bind_io m k w = (Inr y, w') \<longleftrightarrow> (\<exists>x w1. m w = (Inr x, w1) \<and> k x w1 = (Inr y, w'))"
  by (auto simp: bind_io_def split: prod.splits sum.splits)

lemma bind_io_Inl_iff:
  "bind_io m k w = (Inl e, w') \<longleftrightarrow>
     m w = (Inl e, w') \<or> (\<exists>x w1. m w = (Inr x, w1) \<and> k x w1 = (Inl e, w'))"
  by (auto simp: bind_io_def split: prod.splits sum.splits)

text \<open>A property of the world that every computation of a sequence keeps.\<close>

definition keeps :: "('w \<Rightarrow> bool) \<Rightarrow> ('w, 'a) io \<Rightarrow> bool" where
  "keeps P m \<longleftrightarrow> (\<forall>w. P w \<longrightarrow> P (snd (m w)))"

lemma keepsI: "(\<And>w. P w \<Longrightarrow> P (snd (m w))) \<Longrightarrow> keeps P m"
  by (simp add: keeps_def)

lemma keepsD: "keeps P m \<Longrightarrow> P w \<Longrightarrow> m w = (r, w') \<Longrightarrow> P w'"
  by (metis keeps_def snd_conv)

lemma keeps_ret [intro, simp]: "keeps P (ret x)"
  by (simp add: keeps_def)

lemma keeps_raise [intro, simp]: "keeps P (raise e)"
  by (simp add: keeps_def)

lemma keeps_bind [intro]: "keeps P m \<Longrightarrow> (\<And>x. keeps P (k x)) \<Longrightarrow> keeps P (bind_io m k)"
  by (fastforce simp: keeps_def bind_io_def split: prod.splits sum.splits)

lemma keeps_fold [intro]: "(\<And>x s. keeps P (f x s)) \<Longrightarrow> keeps P (fold_io f xs s)"
  by (induction xs arbitrary: s) auto

section \<open>JSON values\<close>

datatype json =
    JNull
  | JBool bool
  | JInt int
  | JFloat rat
  | JStr string
  | JList "json list"
  | JObj "(string \<times> json) list"

definition json_get :: "string \<Rightarrow> (string \<times> json) list \<Rightarrow> json" where
  "json_get k o' = (case map_of o' k of None \<Rightarrow> JNull | Some v \<Rightarrow> v)"

lemma json_get_Cons [simp]:
  "json_get k ((k', v) # o') = (if k = k' then v else json_get k o')"
  by (simp add: json_get_def)

lemma json_get_Nil [simp]: "json_get k [] = JNull"
  by (simp add: json_get_def)

section \<open>Tables\<close>

text \<open>
  A table is the list of its rows in insertion order. \<open>rows_where\<close> is SELECT,
  \<open>first_where\<close> the first row of a SELECT or None, \<open>update_where\<close> UPDATE and
  \<open>delete_where\<close> DELETE; INSERT appends after the unique-key checks of the
  statement's table.
\<close>

definition rows_where :: "('r \<Rightarrow> bool) \<Rightarrow> 'r list \<Rightarrow> 'r list" where
  "rows_where p t = filter p t"

definition first_where :: "('r \<Rightarrow> bool) \<Rightarrow> 'r list \<Rightarrow> 'r option" where
  "first_where p t = List.find p t"

definition update_where :: "('r \<Rightarrow> bool) \<Rightarrow> ('r \<Rightarrow> 'r) \<Rightarrow> 'r list \<Rightarrow> 'r list" where
  "update_where p f t = map (\<lambda>r. if p r then f r else r) t"

definition delete_where :: "('r \<Rightarrow> bool) \<Rightarrow> 'r list \<Rightarrow> 'r list" where
  "delete_where p t = filter (\<lambda>r. \<not> p r) t"

lemma rows_where_simps [table_simps, simp]:
  "rows_where p [] = []"
  "rows_where p (r # t) = (if p r then r # rows_where p t else rows_where p t)"
  by (simp_all add: rows_where_def)

lemma first_where_simps [table_simps, simp]:
  "first_where p [] = None"
  "first_where p (r # t) = (if p r then Some r else first_where p t)"
  by (simp_all add: first_where_def)

lemma update_where_simps [table_simps, simp]:
  "update_where p f [] = []"
  "update_where p f (r # t) = (if p r then f r else r) # update_where p f t"
  by (simp_all add: update_where_def)

lemma delete_where_simps [table_simps, simp]:
  "delete_where p [] = []"
  "delete_where p (r # t) = (if p r then delete_where p t else r # delete_where p t)"
  by (simp_all add: delete_where_def)

lemma update_where_append [simp]:
  "update_where p f (t @ u) = update_where p f t @ update_where p f u"
  by (simp add: update_where_def)

lemma first_where_append:
  "first_where p (t @ u) = (case first_where p t of None \<Rightarrow> first_where p u | Some r \<Rightarrow> Some r)"
  by (induction t) auto

lemma length_update_where [simp]: "length (update_where p f t) = length t"
  by (simp add: update_where_def)

lemma set_rows_where [simp]: "set (rows_where p t) = {r \<in> set t. p r}"
  by (simp add: rows_where_def)

lemma first_where_Some: "first_where p t = Some r \<Longrightarrow> r \<in> set t \<and> p r"
  by (induction t) (auto split: if_splits)

lemma first_where_None: "first_where p t = None \<longleftrightarrow> (\<forall>r \<in> set t. \<not> p r)"
  by (induction t) auto

lemma first_where_key_None: "first_where (\<lambda>r. key r = k) t = None \<longleftrightarrow> k \<notin> key ` set t"
  by (induction t) auto

lemma rows_where_None: "rows_where p t = [] \<longleftrightarrow> (\<forall>r \<in> set t. \<not> p r)"
  by (simp add: rows_where_def filter_empty_conv)

lemma map_update_where [simp]:
  "(\<And>r. g (f r) = g r) \<Longrightarrow> map g (update_where p f t) = map g t"
  by (simp add: update_where_def)

lemma update_where_none:
  "(\<And>r. r \<in> set t \<Longrightarrow> \<not> p r) \<Longrightarrow> update_where p f t = t"
  by (induction t) auto

lemma in_update_where:
  "r \<in> set (update_where p f t) \<longleftrightarrow> (\<exists>q \<in> set t. r = (if p q then f q else q))"
  by (auto simp: update_where_def)

text \<open>A key column: at most one row has a given key.\<close>

definition key_unique :: "('r \<Rightarrow> 'k) \<Rightarrow> 'r list \<Rightarrow> bool" where
  "key_unique key t = distinct (map key t)"

lemma key_unique_update [simp]:
  "(\<And>r. key (f r) = key r) \<Longrightarrow> key_unique key (update_where p f t) = key_unique key t"
  by (simp add: key_unique_def)

lemma key_unique_append:
  "key_unique key (t @ [r]) \<longleftrightarrow> key_unique key t \<and> key r \<notin> key ` set t"
  by (auto simp: key_unique_def)

lemma key_unique_Cons:
  "key_unique key (r # t) \<longleftrightarrow> (\<forall>q \<in> set t. key q \<noteq> key r) \<and> key_unique key t"
  by (auto simp: key_unique_def image_iff)

lemma key_unique_same:
  "key_unique key t \<Longrightarrow> r \<in> set t \<Longrightarrow> q \<in> set t \<Longrightarrow> key r = key q \<Longrightarrow> r = q"
  by (metis distinct_map inj_onD key_unique_def)

lemma first_where_key:
  "key_unique key t \<Longrightarrow> r \<in> set t \<Longrightarrow> first_where (\<lambda>q. key q = key r) t = Some r"
  by (induction t) (auto simp: key_unique_def)

lemma first_where_update_key:
  assumes "\<And>r. key (f r) = key r"
  shows "first_where (\<lambda>r. key r = k) (update_where (\<lambda>r. key r = k') f t) =
    (if k = k' then map_option f (first_where (\<lambda>r. key r = k) t)
     else first_where (\<lambda>r. key r = k) t)"
  using assms by (induction t) auto

lemma rows_where_key:
  assumes "key_unique key t"
  shows "rows_where (\<lambda>r. key r = k) t = (case first_where (\<lambda>r. key r = k) t of None \<Rightarrow> [] | Some r \<Rightarrow> [r])"
  using assms
proof (induction t)
  case (Cons r t)
  show ?case
  proof (cases "key r = k")
    case True
    then have "\<forall>q \<in> set t. key q \<noteq> k"
      using Cons.prems by (auto simp: key_unique_Cons)
    then show ?thesis
      using True rows_where_None[of "\<lambda>r. key r = k" t] by simp
  next
    case False
    then show ?thesis
      using Cons by (simp add: key_unique_def)
  qed
qed simp

lemma image_update_where:
  "(\<And>r. g (f r) = g r) \<Longrightarrow> g ` set (update_where p f t) = g ` set t"
  by (metis list.set_map map_update_where)

lemma list_all_update_where:
  "list_all P t \<Longrightarrow> (\<And>r. P r \<Longrightarrow> p r \<Longrightarrow> P (f r)) \<Longrightarrow> list_all P (update_where p f t)"
  by (auto simp: list_all_iff in_update_where)

text \<open>ORDER BY: rows in the order of a comparison, equal rows in the order of the table.\<close>

primrec insert_row :: "('r \<Rightarrow> 'r \<Rightarrow> bool) \<Rightarrow> 'r \<Rightarrow> 'r list \<Rightarrow> 'r list" where
  "insert_row le r [] = [r]"
| "insert_row le r (q # t) = (if le r q then r # q # t else q # insert_row le r t)"

definition order_by :: "('r \<Rightarrow> 'r \<Rightarrow> bool) \<Rightarrow> 'r list \<Rightarrow> 'r list" where
  "order_by le t = foldr (insert_row le) t []"

lemma set_insert_row [simp]: "set (insert_row le r t) = insert r (set t)"
  by (induction t) auto

lemma order_by_simps [simp]: "order_by le [] = []" "order_by le (r # t) = insert_row le r (order_by le t)"
  by (simp_all add: order_by_def)

lemma set_order_by [simp]: "set (order_by le t) = set t"
  by (induction t) auto

lemma distinct_insert_row: "distinct (map f (insert_row le r t)) \<longleftrightarrow> f r \<notin> f ` set t \<and> distinct (map f t)"
  by (induction t) auto

lemma key_unique_order_by [simp]: "key_unique key (order_by le t) = key_unique key t"
  unfolding key_unique_def by (induction t) (auto simp: distinct_insert_row)

lemma sum_list_order_by [simp]:
  fixes g :: "'r \<Rightarrow> int"
  shows "sum_list (map g (order_by le t)) = sum_list (map g t)"
proof -
  have "sum_list (map g (insert_row le r t)) = g r + sum_list (map g t)" for r t
    by (induction t) auto
  then show ?thesis by (induction t) auto
qed

section \<open>Small facts about options and lists\<close>

lemma map_of_mem: "map_of xs k = Some v \<Longrightarrow> k \<in> set (map fst xs)"
  by (induction xs) (auto split: if_splits)

lemma sum_list_update_where:
  fixes g :: "'r \<Rightarrow> int"
  assumes "key_unique key t" "first_where (\<lambda>r. key r = k) t = Some r0"
  shows "sum_list (map g (update_where (\<lambda>r. key r = k) f t)) = sum_list (map g t) - g r0 + g (f r0)"
  using assms
proof (induction t)
  case (Cons r t)
  show ?case
  proof (cases "key r = k")
    case True
    then have "\<forall>q \<in> set t. key q \<noteq> k"
      using Cons.prems by (auto simp: key_unique_Cons)
    then have "update_where (\<lambda>r. key r = k) f t = t"
      by (simp add: update_where_none)
    then show ?thesis
      using Cons.prems True by simp
  next
    case False
    then show ?thesis
      using Cons by (auto simp: key_unique_def)
  qed
qed simp

end
