(* ===== verification/Nano_VM.thy ===== *)
theory Nano_VM
  imports Prelude
begin

text \<open>
  The governed programs and what the services rely on of the execution VM.

  Programs are data (app/programs). The VM itself, the governed tool executor
  and the program validator are third-party packages (llm-nano-vm,
  nano-vm-mcp) and parameters of the services; the locale \<open>execution_vm\<close> states
  the documented behaviour that the services rely on: a run starts at the
  first step, a TOOL step calls the registered tool, a raising tool ends the
  run as FAILED, a terminal step ends it as SUCCESS, a CONDITION step compares
  the output of an earlier step with a number, and outputs are indexed by the
  id of the step (README, "Architectural scars"): an unresolved reference in
  an argument stays the literal text, and nothing is assumed about which branch
  a CONDITION takes on an unresolved reference.
\<close>

section \<open>Programs\<close>

datatype arg =
    Lit json
  | CtxVar string
  | OutputOf string

datatype comparison = Less_Than int | At_Least int

fun compare_output :: "comparison \<Rightarrow> int \<Rightarrow> bool" where
  "compare_output (Less_Than n) v = (v < n)"
| "compare_output (At_Least n) v = (v \<ge> n)"

datatype step =
    ToolStep (step_id: string) (step_tool: string) (step_args: "(string \<times> arg) list")
      (output_key: string) (next_step: "string option")
  | ConditionStep (step_id: string) (cond_ref: string) (cond_test: comparison)
      (then_step: string) (otherwise_step: string)
  | LlmStep (step_id: string) (output_key: string) (next_step: "string option")

text \<open>
  A TOOL step without a next step is the \<open>is_terminal=True\<close> step of the code;
  no program of the repository has a non-terminal step without \<open>next_step\<close>.
\<close>

record program =
  program_name :: string
  program_steps :: "step list"

fun successors :: "step \<Rightarrow> string list" where
  "successors (ToolStep _ _ _ _ nxt) = (case nxt of None \<Rightarrow> [] | Some n \<Rightarrow> [n])"
| "successors (ConditionStep _ _ _ t e) = [t, e]"
| "successors (LlmStep _ _ nxt) = (case nxt of None \<Rightarrow> [] | Some n \<Rightarrow> [n])"

fun step_index :: "string \<Rightarrow> step list \<Rightarrow> nat option" where
  "step_index n [] = None"
| "step_index n (s # ss) = (if step_id s = n then Some 0 else map_option Suc (step_index n ss))"

text \<open>
  The programs of the repository list their steps so that every successor
  exists and stands after the step, hence every run ends.
\<close>

definition forward_program :: "program \<Rightarrow> bool" where
  "forward_program p \<longleftrightarrow> program_steps p \<noteq> [] \<and>
     list_all (\<lambda>i. list_all (\<lambda>n. case step_index n (program_steps p) of
                                  None \<Rightarrow> False | Some j \<Rightarrow> i < j)
                 (successors (program_steps p ! i)))
       [0..<length (program_steps p)]"

fun tools_called :: "step list \<Rightarrow> string list" where
  "tools_called [] = []"
| "tools_called (ToolStep _ t _ _ _ # ss) = t # tools_called ss"
| "tools_called (_ # ss) = tools_called ss"

section \<open>Tools and their environment\<close>

type_synonym kwargs = "(string \<times> json) list"
type_synonym 'w tool = "kwargs \<Rightarrow> ('w, json) io"
type_synonym outputs = "(string \<times> json) list"

definition resolve_arg :: "kwargs \<Rightarrow> outputs \<Rightarrow> arg \<Rightarrow> json" where
  "resolve_arg ctx outs a =
     (case a of
        Lit v \<Rightarrow> v
      | CtxVar x \<Rightarrow> (case map_of ctx x of None \<Rightarrow> JStr (CHR ''$'' # x) | Some v \<Rightarrow> v)
      | OutputOf s \<Rightarrow> (case map_of outs s of
            None \<Rightarrow> JStr (CHR ''$'' # s @ ''.output'') | Some v \<Rightarrow> v))"

definition resolve_args :: "kwargs \<Rightarrow> outputs \<Rightarrow> (string \<times> arg) list \<Rightarrow> kwargs" where
  "resolve_args ctx outs as = map (\<lambda>(k, a). (k, resolve_arg ctx outs a)) as"

text \<open>A keyword argument that the tool takes as text.\<close>

definition str_arg :: "string \<Rightarrow> kwargs \<Rightarrow> ('w, string) io" where
  "str_arg k kw =
     (case map_of kw k of
        Some (JStr s) \<Rightarrow> ret s
      | Some _ \<Rightarrow> raise (AttributeError k)
      | None \<Rightarrow> raise (TypeError k))"

lemma resolve_arg_simps [simp]:
  "resolve_arg ctx outs (Lit v) = v"
  "map_of ctx x = Some v \<Longrightarrow> resolve_arg ctx outs (CtxVar x) = v"
  "map_of outs s = Some v \<Longrightarrow> resolve_arg ctx outs (OutputOf s) = v"
  by (simp_all add: resolve_arg_def)

lemma resolve_args_simps [simp]:
  "resolve_args ctx outs [] = []"
  "resolve_args ctx outs ((k, a) # as) = (k, resolve_arg ctx outs a) # resolve_args ctx outs as"
  by (simp_all add: resolve_args_def)

lemma str_arg_simps [simp]:
  "str_arg k ((k, JStr s) # kw) = ret s"
  "k \<noteq> k' \<Longrightarrow> str_arg k ((k', v) # kw) = str_arg k kw"
  by (simp_all add: str_arg_def)

text \<open>
  \<open>_governed_tool\<close>: the executor's check runs before the tool. \<open>permits\<close> is the
  executor's decision for a policy's capabilities.
\<close>

type_synonym capabilities = "(string \<times> string list) list"

definition governed_tool ::
  "(capabilities \<Rightarrow> string \<Rightarrow> bool) \<Rightarrow> capabilities \<Rightarrow> string \<Rightarrow> 'w tool \<Rightarrow> 'w tool" where
  "governed_tool permits caps name fn =
     (\<lambda>kw. if permits caps name then fn kw else raise (PolicyDenied name))"

definition register_tools ::
  "(capabilities \<Rightarrow> string \<Rightarrow> bool) \<Rightarrow> capabilities \<Rightarrow> (string \<times> 'w tool) list
     \<Rightarrow> string \<Rightarrow> 'w tool option" where
  "register_tools permits caps tools name = map_option (governed_tool permits caps name) (map_of tools name)"

lemma register_tools_simps [simp]:
  "register_tools permits caps [] name = None"
  "register_tools permits caps ((n, f) # ts) name =
     (if name = n then Some (governed_tool permits caps n f) else register_tools permits caps ts name)"
  by (simp_all add: register_tools_def)

lemma governed_tool_permitted [simp]:
  "permits caps name \<Longrightarrow> governed_tool permits caps name fn = fn"
  by (simp add: governed_tool_def)

section \<open>Traces\<close>

datatype trace_status = SUCCESS | FAILED

record trace =
  trace_id :: string
  trace_program_name :: string
  trace_status :: trace_status
  trace_steps :: outputs
  trace_error :: "string option"

section \<open>Runs\<close>

inductive vm_exec ::
  "(string \<Rightarrow> 'w tool option) \<Rightarrow> step list \<Rightarrow> kwargs \<Rightarrow> nat \<Rightarrow> outputs \<Rightarrow> 'w
     \<Rightarrow> trace_status \<Rightarrow> outputs \<Rightarrow> 'w \<Rightarrow> bool"
  for tools :: "string \<Rightarrow> 'w tool option" and steps :: "step list" and ctx :: kwargs
  where
  tool_terminal:
    "\<lbrakk>i < length steps; steps ! i = ToolStep sid tn as ok None; tools tn = Some f;
      f (resolve_args ctx outs as) w = (Inr v, w')\<rbrakk>
     \<Longrightarrow> vm_exec tools steps ctx i outs w SUCCESS ((sid, v) # outs) w'"
| tool_next:
    "\<lbrakk>i < length steps; steps ! i = ToolStep sid tn as ok (Some nx); tools tn = Some f;
      f (resolve_args ctx outs as) w = (Inr v, w1); step_index nx steps = Some j;
      vm_exec tools steps ctx j ((sid, v) # outs) w1 st outs' w'\<rbrakk>
     \<Longrightarrow> vm_exec tools steps ctx i outs w st outs' w'"
| tool_raise:
    "\<lbrakk>i < length steps; steps ! i = ToolStep sid tn as ok nxt; tools tn = Some f;
      f (resolve_args ctx outs as) w = (Inl e, w')\<rbrakk>
     \<Longrightarrow> vm_exec tools steps ctx i outs w FAILED outs w'"
| tool_unknown:
    "\<lbrakk>i < length steps; steps ! i = ToolStep sid tn as ok nxt; tools tn = None\<rbrakk>
     \<Longrightarrow> vm_exec tools steps ctx i outs w FAILED outs w"
| cond_then:
    "\<lbrakk>i < length steps; steps ! i = ConditionStep sid r c t e;
      case map_of outs r of Some (JInt n) \<Rightarrow> compare_output c n | _ \<Rightarrow> True;
      step_index t steps = Some j; vm_exec tools steps ctx j outs w st outs' w'\<rbrakk>
     \<Longrightarrow> vm_exec tools steps ctx i outs w st outs' w'"
| cond_otherwise:
    "\<lbrakk>i < length steps; steps ! i = ConditionStep sid r c t e;
      case map_of outs r of Some (JInt n) \<Rightarrow> \<not> compare_output c n | _ \<Rightarrow> True;
      step_index e steps = Some j; vm_exec tools steps ctx j outs w st outs' w'\<rbrakk>
     \<Longrightarrow> vm_exec tools steps ctx i outs w st outs' w'"
| llm_next:
    "\<lbrakk>i < length steps; steps ! i = LlmStep sid ok (Some nx); step_index nx steps = Some j;
      vm_exec tools steps ctx j ((sid, JStr answer) # outs) w st outs' w'\<rbrakk>
     \<Longrightarrow> vm_exec tools steps ctx i outs w st outs' w'"
| llm_failed:
    "\<lbrakk>i < length steps; steps ! i = LlmStep sid ok nxt\<rbrakk>
     \<Longrightarrow> vm_exec tools steps ctx i outs w FAILED outs w"

text \<open>One step of a run, by the kind of the step it stands on.\<close>

lemma vm_exec_tool_iff:
  assumes "i < length steps" "steps ! i = ToolStep sid tn as ok nxt"
  shows "vm_exec tools steps ctx i outs w st outs' w' \<longleftrightarrow>
    (case tools tn of
       None \<Rightarrow> st = FAILED \<and> outs' = outs \<and> w' = w
     | Some f \<Rightarrow>
        (case f (resolve_args ctx outs as) w of
           (Inl e, w1) \<Rightarrow> st = FAILED \<and> outs' = outs \<and> w' = w1
         | (Inr v, w1) \<Rightarrow>
            (case nxt of
               None \<Rightarrow> st = SUCCESS \<and> outs' = (sid, v) # outs \<and> w' = w1
             | Some nx \<Rightarrow> \<exists>j. step_index nx steps = Some j
                 \<and> vm_exec tools steps ctx j ((sid, v) # outs) w1 st outs' w')))"
  (is "?L = ?R")
proof
  assume ?L
  then show ?R
    using assms by cases auto
next
  assume R: ?R
  show ?L
  proof (cases "tools tn")
    case None
    then show ?thesis using R assms by (auto intro: vm_exec.tool_unknown)
  next
    case (Some f)
    obtain r w1 where f: "f (resolve_args ctx outs as) w = (r, w1)" by fastforce
    show ?thesis
    proof (cases r)
      case (Inl e)
      then show ?thesis using R f Some assms by (auto intro: vm_exec.tool_raise)
    next
      case (Inr v)
      then show ?thesis
        using R f Some assms
        by (cases nxt) (auto intro: vm_exec.tool_terminal vm_exec.tool_next)
    qed
  qed
qed

lemma vm_exec_cond_iff:
  assumes "i < length steps" "steps ! i = ConditionStep sid r c t e"
  shows "vm_exec tools steps ctx i outs w st outs' w' \<longleftrightarrow>
    (\<exists>b. (case map_of outs r of Some (JInt n) \<Rightarrow> b = compare_output c n | _ \<Rightarrow> True)
       \<and> (\<exists>j. step_index (if b then t else e) steps = Some j
           \<and> vm_exec tools steps ctx j outs w st outs' w'))"
  (is "?L = ?R")
proof
  assume ?L
  then show ?R
    using assms
  proof cases
    case (cond_then sid' r' c' t' e' j)
    then show ?thesis
      using assms by (intro exI[of _ True]) (auto split: option.splits json.splits)
  next
    case (cond_otherwise sid' r' c' t' e' j)
    then show ?thesis
      using assms by (intro exI[of _ False]) (auto split: option.splits json.splits)
  qed auto
next
  assume ?R
  then obtain b j where b: "case map_of outs r of Some (JInt n) \<Rightarrow> b = compare_output c n | _ \<Rightarrow> True"
      "step_index (if b then t else e) steps = Some j" "vm_exec tools steps ctx j outs w st outs' w'"
    by blast
  show ?L
  proof (cases b)
    case True
    then show ?thesis
      using b by (intro vm_exec.cond_then[OF assms]) (auto split: option.splits json.splits)
  next
    case False
    then show ?thesis
      using b by (intro vm_exec.cond_otherwise[OF assms]) (auto split: option.splits json.splits)
  qed
qed

lemma vm_exec_llm_iff:
  assumes "i < length steps" "steps ! i = LlmStep sid ok nxt"
  shows "vm_exec tools steps ctx i outs w st outs' w' \<longleftrightarrow>
    (st = FAILED \<and> outs' = outs \<and> w' = w) \<or>
    (\<exists>nx j answer. nxt = Some nx \<and> step_index nx steps = Some j
       \<and> vm_exec tools steps ctx j ((sid, JStr answer) # outs) w st outs' w')"
  (is "?L = ?R")
proof
  assume ?L
  then show ?R
    using assms by cases auto
next
  assume ?R
  then show ?L
    using assms by (auto intro: vm_exec.llm_next vm_exec.llm_failed)
qed

text \<open>The same as one equation, to run a concrete program symbolically.\<close>

lemma vm_exec_iff:
  assumes "i < length steps"
  shows "vm_exec tools steps ctx i outs w st outs' w' \<longleftrightarrow>
    (case steps ! i of
       ToolStep sid tn as ok nxt \<Rightarrow>
         (case tools tn of
            None \<Rightarrow> st = FAILED \<and> outs' = outs \<and> w' = w
          | Some f \<Rightarrow>
              (case f (resolve_args ctx outs as) w of
                 (Inl e, w1) \<Rightarrow> st = FAILED \<and> outs' = outs \<and> w' = w1
               | (Inr v, w1) \<Rightarrow>
                  (case nxt of
                     None \<Rightarrow> st = SUCCESS \<and> outs' = (sid, v) # outs \<and> w' = w1
                   | Some nx \<Rightarrow> \<exists>j. step_index nx steps = Some j
                       \<and> vm_exec tools steps ctx j ((sid, v) # outs) w1 st outs' w')))
     | ConditionStep sid r c t e \<Rightarrow>
         (\<exists>b. (case map_of outs r of Some (JInt n) \<Rightarrow> b = compare_output c n | _ \<Rightarrow> True)
            \<and> (\<exists>j. step_index (if b then t else e) steps = Some j
                \<and> vm_exec tools steps ctx j outs w st outs' w'))
     | LlmStep sid ok nxt \<Rightarrow>
         (st = FAILED \<and> outs' = outs \<and> w' = w) \<or>
         (\<exists>nx j answer. nxt = Some nx \<and> step_index nx steps = Some j
            \<and> vm_exec tools steps ctx j ((sid, JStr answer) # outs) w st outs' w'))"
proof (cases "steps ! i")
  case (ToolStep sid tn as ok nxt)
  then show ?thesis by (simp add: vm_exec_tool_iff[OF assms ToolStep])
next
  case (ConditionStep sid r c t e)
  then show ?thesis by (simp add: vm_exec_cond_iff[OF assms ConditionStep])
next
  case (LlmStep sid ok nxt)
  then show ?thesis by (simp add: vm_exec_llm_iff[OF assms LlmStep])
qed

text \<open>
  What every tool of a registry keeps, a run keeps: the invariant rule of the
  governed programs.
\<close>

lemma vm_exec_invariant:
  assumes "vm_exec tools steps ctx i outs w st outs' w'"
    and "\<And>tn f kw. tools tn = Some f \<Longrightarrow> tn \<in> set (tools_called steps) \<Longrightarrow> keeps P (f kw)"
    and "P w"
  shows "P w'"
proof -
  have called: "tn \<in> set (tools_called steps)"
    if "i < length steps" "steps ! i = ToolStep sid tn as ok nxt" for i sid tn as ok nxt
    using that
  proof (induction steps arbitrary: i rule: tools_called.induct)
    case (2 s t a o' n ss)
    then show ?case by (cases i) auto
  qed (auto simp: nth_Cons split: nat.splits)
  show ?thesis
    using assms(1) \<open>P w\<close>
  proof (induction rule: vm_exec.induct)
    case (tool_next i sid tn as ok nx f outs w v w1 j st outs' w')
    then show ?case using assms(2) called keepsD by metis
  qed (use assms(2) called keepsD in \<open>metis+\<close>)
qed

section \<open>The contract\<close>

type_synonym 'w vm_run = "(string \<Rightarrow> 'w tool option) \<Rightarrow> program \<Rightarrow> kwargs \<Rightarrow> 'w \<Rightarrow> trace \<times> 'w"

locale execution_vm =
  fixes run :: "(string \<Rightarrow> 'w tool option) \<Rightarrow> program \<Rightarrow> kwargs \<Rightarrow> 'w \<Rightarrow> trace \<times> 'w"
    and permits :: "capabilities \<Rightarrow> string \<Rightarrow> bool"
    and validates :: "program \<Rightarrow> bool"
  assumes run_exec:
      "forward_program p \<Longrightarrow>
         vm_exec tools (program_steps p) ctx 0 [] w
           (trace_status (fst (run tools p ctx w))) (trace_steps (fst (run tools p ctx w)))
           (snd (run tools p ctx w))"
    and run_name: "trace_program_name (fst (run tools p ctx w)) = program_name p"
    and deny_by_default: "permits caps name \<longleftrightarrow> name \<in> fst ` set caps"
    and validates_forward: "forward_program p \<Longrightarrow> validates p"
begin

lemma run_cases:
  assumes "forward_program p" "run tools p ctx w = (tr, w')"
  shows "vm_exec tools (program_steps p) ctx 0 [] w (trace_status tr) (trace_steps tr) w'"
  using run_exec[OF assms(1), of tools ctx w] assms(2) by simp

lemma run_keeps:
  assumes "forward_program p" "run tools p ctx w = (tr, w')" "P w"
    and "\<And>tn f kw. tools tn = Some f \<Longrightarrow> tn \<in> set (tools_called (program_steps p)) \<Longrightarrow> keeps P (f kw)"
  shows "P w'"
  by (rule vm_exec_invariant[where P = P, OF run_cases[OF assms(1,2)]]) (use assms(3,4) in blast)+

lemma register_permitted:
  "map_of tools name = Some fn \<Longrightarrow> name \<in> fst ` set caps \<Longrightarrow>
     register_tools permits caps tools name = Some fn"
  by (simp add: register_tools_def deny_by_default)

lemma register_denied:
  "map_of tools name = Some fn \<Longrightarrow> name \<notin> fst ` set caps \<Longrightarrow>
     register_tools permits caps tools name = Some (\<lambda>_. raise (PolicyDenied name))"
  by (simp add: register_tools_def governed_tool_def deny_by_default)

end

section \<open>A reference interpreter\<close>

text \<open>
  An executable interpreter of programs that meets the contract, with the
  given answer for LLM steps and the \<open>otherwise\<close> branch for an unresolved
  condition. Its fuel is the number of steps: a forward program never
  needs more, since every step moves the position forward.
\<close>

fun vm_eval ::
  "string \<Rightarrow> (string \<Rightarrow> 'w tool option) \<Rightarrow> step list \<Rightarrow> kwargs \<Rightarrow> nat \<Rightarrow> nat \<Rightarrow> outputs \<Rightarrow> 'w
     \<Rightarrow> (trace_status \<times> outputs \<times> 'w) option" where
  "vm_eval answer tools steps ctx 0 i outs w = None"
| "vm_eval answer tools steps ctx (Suc n) i outs w =
     (if i < length steps then
        (case steps ! i of
           ToolStep sid tn as _ nxt \<Rightarrow>
             (case tools tn of
                None \<Rightarrow> Some (FAILED, outs, w)
              | Some f \<Rightarrow>
                  (case f (resolve_args ctx outs as) w of
                     (Inl e, w1) \<Rightarrow> Some (FAILED, outs, w1)
                   | (Inr v, w1) \<Rightarrow>
                       (case nxt of
                          None \<Rightarrow> Some (SUCCESS, (sid, v) # outs, w1)
                        | Some nx \<Rightarrow>
                            (case step_index nx steps of
                               None \<Rightarrow> None
                             | Some j \<Rightarrow> vm_eval answer tools steps ctx n j ((sid, v) # outs) w1))))
         | ConditionStep sid r c t e \<Rightarrow>
             (case step_index
                (if (case map_of outs r of Some (JInt m) \<Rightarrow> compare_output c m | _ \<Rightarrow> False)
                 then t else e) steps of
                None \<Rightarrow> None
              | Some j \<Rightarrow> vm_eval answer tools steps ctx n j outs w)
         | LlmStep sid _ nxt \<Rightarrow>
             (case nxt of
                None \<Rightarrow> Some (FAILED, outs, w)
              | Some nx \<Rightarrow>
                  (case step_index nx steps of
                     None \<Rightarrow> None
                   | Some j \<Rightarrow> vm_eval answer tools steps ctx n j ((sid, JStr answer) # outs) w)))
      else None)"

lemma vm_eval_sound:
  "vm_eval answer tools steps ctx n i outs w = Some (st, outs', w') \<Longrightarrow>
     vm_exec tools steps ctx i outs w st outs' w'"
proof (induction n arbitrary: i outs w)
  case (Suc n)
  then have i: "i < length steps"
    by (auto split: if_splits)
  show ?case
  proof (cases "steps ! i")
    case (ToolStep sid tn as ok nxt)
    then show ?thesis
      using Suc.prems Suc.IH i
      by (auto simp: vm_exec_tool_iff[OF i ToolStep] split: option.splits prod.splits sum.splits)
  next
    case (ConditionStep sid r c t e)
    let ?b = "case map_of outs r of Some (JInt m) \<Rightarrow> compare_output c m | _ \<Rightarrow> False"
    from Suc.prems i ConditionStep obtain j where
      "step_index (if ?b then t else e) steps = Some j" "vm_exec tools steps ctx j outs w st outs' w'"
      using Suc.IH by (auto split: option.splits)
    then show ?thesis
      unfolding vm_exec_cond_iff[OF i ConditionStep]
      by (intro exI[of _ ?b]) (auto split: option.splits json.splits)
  next
    case (LlmStep sid ok nxt)
    then show ?thesis
      using Suc.prems Suc.IH i
      by (auto simp: vm_exec_llm_iff[OF i LlmStep] split: option.splits)
  qed
qed simp

lemma forward_step:
  assumes "forward_program p" "i < length (program_steps p)"
    "n \<in> set (successors (program_steps p ! i))"
  shows "\<exists>j. step_index n (program_steps p) = Some j \<and> i < j"
proof -
  have "case step_index n (program_steps p) of None \<Rightarrow> False | Some j \<Rightarrow> i < j"
    using assms by (auto simp: forward_program_def list_all_iff)
  then show ?thesis by (auto split: option.splits)
qed

lemma step_index_less: "step_index n ss = Some j \<Longrightarrow> j < length ss"
  by (induction ss arbitrary: j) (auto split: if_splits)

lemma vm_eval_enough:
  assumes "forward_program p"
  shows "i < length (program_steps p) \<Longrightarrow> length (program_steps p) - i \<le> n \<Longrightarrow>
    vm_eval answer tools (program_steps p) ctx n i outs w \<noteq> None"
proof (induction n arbitrary: i outs w)
  case (Suc n)
  let ?ss = "program_steps p"
  have next_ok: "vm_eval answer tools ?ss ctx n j outs1 w1 \<noteq> None"
    if "step_index nx ?ss = Some j" "nx \<in> set (successors (?ss ! i))" for nx j outs1 w1
  proof -
    have "i < j" "j < length ?ss"
      using forward_step[OF assms Suc.prems(1) that(2)] that(1) step_index_less by auto
    then show ?thesis using Suc.IH[of j] Suc.prems(2) by simp
  qed
  note fwd = forward_step[OF assms Suc.prems(1)]
  show ?case
  proof (cases "?ss ! i")
    case (ToolStep sid tn as ok nxt)
    then show ?thesis
      using Suc.prems(1) next_ok fwd by (fastforce split: option.splits prod.splits sum.splits)
  next
    case (ConditionStep sid r c t e)
    then show ?thesis
      using Suc.prems(1) next_ok[of t] next_ok[of e] fwd[of t] fwd[of e]
      by (auto split: option.splits)
  next
    case (LlmStep sid ok nxt)
    then show ?thesis
      using Suc.prems(1) next_ok fwd by (fastforce split: option.splits)
  qed
qed simp

definition ref_run :: "string \<Rightarrow> string \<Rightarrow> (string \<Rightarrow> 'w tool option) \<Rightarrow> program \<Rightarrow> kwargs \<Rightarrow> 'w \<Rightarrow> trace \<times> 'w" where
  "ref_run answer tid tools p ctx w =
     (case vm_eval answer tools (program_steps p) ctx (length (program_steps p)) 0 [] w of
        None \<Rightarrow> (\<lparr>trace_id = tid, trace_program_name = program_name p, trace_status = FAILED,
                   trace_steps = [], trace_error = None\<rparr>, w)
      | Some (st, outs, w') \<Rightarrow>
          (\<lparr>trace_id = tid, trace_program_name = program_name p, trace_status = st,
             trace_steps = outs, trace_error = None\<rparr>, w'))"

definition ref_permits :: "capabilities \<Rightarrow> string \<Rightarrow> bool" where
  "ref_permits caps name \<longleftrightarrow> map_of caps name \<noteq> None"

interpretation ref_vm: execution_vm "ref_run answer tid" ref_permits forward_program
proof
  fix p :: program and tools :: "string \<Rightarrow> 'a tool option" and ctx w
  assume fp: "forward_program p"
  then have "vm_eval answer tools (program_steps p) ctx (length (program_steps p)) 0 [] w \<noteq> None"
    by (intro vm_eval_enough) (auto simp: forward_program_def)
  then show "vm_exec tools (program_steps p) ctx 0 [] w
      (trace_status (fst (ref_run answer tid tools p ctx w)))
      (trace_steps (fst (ref_run answer tid tools p ctx w)))
      (snd (ref_run answer tid tools p ctx w))"
    by (auto simp: ref_run_def intro: vm_eval_sound)
next
  show "trace_program_name (fst (ref_run answer tid tools p ctx w)) = program_name p"
    for p tools ctx and w :: 'a
    by (auto simp: ref_run_def split: option.splits)
  show "ref_permits caps name = (name \<in> fst ` set caps)" for caps name
    by (simp add: ref_permits_def map_of_eq_None_iff)
qed

end
