(* ===== verification/Policy_Snapshot.thy ===== *)
theory Policy_Snapshot
  imports Nano_VM
begin

text \<open>
  The capability dictionaries of the governed tool executor
  (app/policy/policy_snapshot.py). A tool that is not a key of the dictionary of
  its VM is denied by default.
\<close>

definition ORDERS_TOOL_CAPABILITIES :: capabilities where
  "ORDERS_TOOL_CAPABILITIES =
     [(''validate_order_items'', [''orders:read'']),
      (''transition_order_state'', [''orders:write'']),
      (''write_order_state_payment_pending'', [''orders:write'']),
      (''write_order_state_paid'', [''orders:write'']),
      (''write_order_state_payment_failed'', [''orders:write'']),
      (''write_order_state_cooking'', [''orders:write'']),
      (''reserve_inventory_items'', [''inventory:write'']),
      (''create_kitchen_ticket'', [''kitchen:write'']),
      (''log_validation_failure'', [''orders:write'']),
      (''notify_inventory_insufficient'', [''notifications:send'']),
      (''notify_staff_new_kitchen_ticket'', [''notifications:send'']),
      (''yookassa_create_payment'', [''payment:write'']),
      (''yookassa_verify_payment'', [''payment:read''])]"

definition KITCHEN_TOOL_CAPABILITIES :: capabilities where
  "KITCHEN_TOOL_CAPABILITIES =
     [(''write_kitchen_state_queued'', [''kitchen:write'']),
      (''write_kitchen_state_preparing'', [''kitchen:write'']),
      (''write_kitchen_state_ready'', [''kitchen:write'']),
      (''write_kitchen_state_handed_off'', [''kitchen:write''])]"

definition DELIVERY_TOOL_CAPABILITIES :: capabilities where
  "DELIVERY_TOOL_CAPABILITIES =
     []"

definition NOTIFICATION_TOOL_CAPABILITIES :: capabilities where
  "NOTIFICATION_TOOL_CAPABILITIES =
     [(''notify_order_confirmed'', [''notifications:send'']),
      (''notify_payment_received'', [''notifications:send'']),
      (''notify_order_cooking'', [''notifications:send'']),
      (''notify_order_delivered'', [''notifications:send'']),
      (''notify_order_failed'', [''notifications:send''])]"

definition INVENTORY_TOOL_CAPABILITIES :: capabilities where
  "INVENTORY_TOOL_CAPABILITIES =
     [(''check_inventory_stock'', [''inventory:read'']),
      (''decrement_inventory'', [''inventory:write'']),
      (''increment_inventory'', [''inventory:write'']),
      (''set_inventory_state'', [''inventory:write''])]"

definition ORDER_AGENT_TOOL_CAPABILITIES :: capabilities where
  "ORDER_AGENT_TOOL_CAPABILITIES =
     [(''validate_order_command'', [''orders:read'']),
      (''collect_order_command'', [''orders:write'']),
      (''report_collect_failure'', [''orders:read''])]"

definition MENU_AGENT_TOOL_CAPABILITIES :: capabilities where
  "MENU_AGENT_TOOL_CAPABILITIES =
     [(''validate_menu_command'', [''menu:read'']),
      (''collect_menu_command'', [''menu:write'']),
      (''report_collect_failure'', [''menu:read''])]"

definition MENU_AGENT_APPLY_TOOL_CAPABILITIES :: capabilities where
  "MENU_AGENT_APPLY_TOOL_CAPABILITIES =
     [(''validate_apply_command'', [''menu:read'']),
      (''apply_menu_command'', [''menu:write'']),
      (''report_invalid_command'', [''menu:read''])]"

definition MENU_AGENT_APPLY_CATEGORY_TOOL_CAPABILITIES :: capabilities where
  "MENU_AGENT_APPLY_CATEGORY_TOOL_CAPABILITIES =
     [(''validate_apply_category_command'', [''menu:read'']),
      (''apply_category_command'', [''menu:write'']),
      (''report_invalid_category_command'', [''menu:read''])]"

definition MENU_AGENT_UPDATE_PRODUCT_TOOL_CAPABILITIES :: capabilities where
  "MENU_AGENT_UPDATE_PRODUCT_TOOL_CAPABILITIES =
     [(''validate_update_product_command'', [''menu:read'']),
      (''apply_update_product_command'', [''menu:write'']),
      (''report_invalid_update_product_command'', [''menu:read''])]"

definition SCHEDULE_AGENT_TOOL_CAPABILITIES :: capabilities where
  "SCHEDULE_AGENT_TOOL_CAPABILITIES =
     [(''validate_schedule_command'', [''schedule:read'']),
      (''collect_schedule_command'', [''schedule:write'']),
      (''report_collect_failure'', [''schedule:read''])]"

definition SCHEDULE_AGENT_APPLY_TOOL_CAPABILITIES :: capabilities where
  "SCHEDULE_AGENT_APPLY_TOOL_CAPABILITIES =
     [(''validate_apply_schedule_command'', [''schedule:read'']),
      (''apply_schedule_command'', [''schedule:write'']),
      (''report_invalid_schedule_command'', [''schedule:read''])]"

definition ZONE_AGENT_TOOL_CAPABILITIES :: capabilities where
  "ZONE_AGENT_TOOL_CAPABILITIES =
     [(''validate_zone_command'', [''delivery:read'']),
      (''collect_zone_command'', [''delivery:write'']),
      (''report_collect_failure'', [''delivery:read''])]"

definition ZONE_AGENT_APPLY_TOOL_CAPABILITIES :: capabilities where
  "ZONE_AGENT_APPLY_TOOL_CAPABILITIES =
     [(''validate_apply_zone_command'', [''delivery:read'']),
      (''apply_zone_command'', [''delivery:write'']),
      (''report_invalid_zone_command'', [''delivery:read''])]"

definition PROMOTION_AGENT_TOOL_CAPABILITIES :: capabilities where
  "PROMOTION_AGENT_TOOL_CAPABILITIES =
     [(''validate_promotion_command'', [''promotion:read'']),
      (''collect_promotion_command'', [''promotion:write'']),
      (''report_collect_failure'', [''promotion:read''])]"

definition SUPPORT_AGENT_TOOL_CAPABILITIES :: capabilities where
  "SUPPORT_AGENT_TOOL_CAPABILITIES =
     [(''validate_support_command'', [''support:read'']),
      (''collect_support_command'', [''support:write'']),
      (''report_collect_failure'', [''support:read''])]"

definition PROMOTION_AGENT_APPLY_TOOL_CAPABILITIES :: capabilities where
  "PROMOTION_AGENT_APPLY_TOOL_CAPABILITIES =
     [(''validate_apply_promotion_command'', [''promotion:read'']),
      (''apply_promotion_command'', [''promotion:write'']),
      (''report_invalid_promotion_command'', [''promotion:read''])]"

definition INVENTORY_AGENT_TOOL_CAPABILITIES :: capabilities where
  "INVENTORY_AGENT_TOOL_CAPABILITIES =
     [(''validate_restock_command'', [''inventory:read'']),
      (''collect_restock_command'', [''inventory:write'']),
      (''report_collect_failure'', [''inventory:read''])]"

definition INVENTORY_AGENT_APPLY_TOOL_CAPABILITIES :: capabilities where
  "INVENTORY_AGENT_APPLY_TOOL_CAPABILITIES =
     [(''validate_apply_restock_command'', [''inventory:read'']),
      (''apply_restock_command'', [''inventory:write'']),
      (''report_invalid_restock_command'', [''inventory:read''])]"

definition MENU_AGENT_UPDATE_CATEGORY_TOOL_CAPABILITIES :: capabilities where
  "MENU_AGENT_UPDATE_CATEGORY_TOOL_CAPABILITIES =
     [(''validate_update_category_command'', [''menu:read'']),
      (''apply_update_category_command'', [''menu:write'']),
      (''report_invalid_update_category_command'', [''menu:read''])]"

definition MENU_IMPORT_TOOL_CAPABILITIES :: capabilities where
  "MENU_IMPORT_TOOL_CAPABILITIES =
     [(''apply_menu_import'', [''menu:write''])]"

text \<open>Every agent denies or permits by the same rule: the tools a dictionary names.\<close>

definition capability_names :: "capabilities \<Rightarrow> string list" where
  "capability_names caps = map fst caps"

text \<open>A program is covered by a dictionary when every tool it calls has an entry.\<close>

definition covered_by :: "program \<Rightarrow> capabilities \<Rightarrow> bool" where
  "covered_by p caps \<longleftrightarrow> list_all (\<lambda>t. t \<in> set (capability_names caps)) (tools_called (program_steps p))"

lemma covered_byD: "covered_by p caps \<Longrightarrow> t \<in> set (tools_called (program_steps p)) \<Longrightarrow> t \<in> fst ` set caps"
  by (auto simp: covered_by_def capability_names_def list_all_iff)

end
