(* ===== verification/Fsm_Core.thy ===== *)
theory Fsm_Core
  imports Prelude
begin

text \<open>
  The event-driven transition executor (app/fsm/core/base.py): the result of a
  transition, the executor every domain machine uses, and the generic theory
  of a transition table given as a dictionary from states to event/state
  pairs in key order.
\<close>

section \<open>Results\<close>

datatype ('s, 'e) reason =
    EventNotAllowed 'e 's
  | Reason string

record ('s, 'e) TransitionResult =
  success :: bool
  new_state :: "'s option"
  rejected_event :: "'e option"
  reason :: "('s, 'e) reason option"

definition accepted :: "'s \<Rightarrow> ('s, 'e) TransitionResult" where
  "accepted s = \<lparr>success = True, new_state = Some s, rejected_event = None, reason = None\<rparr>"

definition rejected :: "'e \<Rightarrow> ('s, 'e) reason \<Rightarrow> ('s, 'e) TransitionResult" where
  "rejected e r = \<lparr>success = False, new_state = None, rejected_event = Some e, reason = Some r\<rparr>"

lemma accepted_sel [simp]:
  "success (accepted s)" "new_state (accepted s) = Some s"
  "rejected_event (accepted s) = None" "reason (accepted s) = None"
  by (simp_all add: accepted_def)

lemma rejected_sel [simp]:
  "\<not> success (rejected e r)" "new_state (rejected e r) = None"
  "rejected_event (rejected e r) = Some e" "reason (rejected e r) = Some r"
  by (simp_all add: rejected_def)

lemma accepted_neq [simp]:
  "accepted s \<noteq> rejected e r" "rejected e r \<noteq> accepted s"
  "accepted s = accepted s' \<longleftrightarrow> s = s'"
  by (auto simp: accepted_def rejected_def)

section \<open>The executor\<close>

type_synonym ('s, 'e) graph = "'s \<Rightarrow> ('e \<times> 's) list"

definition allowed_events :: "('s, 'e) graph \<Rightarrow> 's \<Rightarrow> 'e list" where
  "allowed_events T s = map fst (T s)"

definition fsm_transition ::
  "('s, 'e) graph \<Rightarrow> (uuid \<Rightarrow> ('w, 's) io) \<Rightarrow> (uuid \<Rightarrow> 's \<Rightarrow> ('w, unit) io)
     \<Rightarrow> uuid \<Rightarrow> 'e \<Rightarrow> ('w, ('s, 'e) TransitionResult) io" where
  "fsm_transition T fetch store eid ev =
     bind_io (fetch eid) (\<lambda>current.
       case map_of (T current) ev of
         None \<Rightarrow> ret (rejected ev (EventNotAllowed ev current))
       | Some s' \<Rightarrow> bind_io (store eid s') (\<lambda>_. ret (accepted s')))"

definition handle_event ::
  "('s, 'e) graph \<Rightarrow> (uuid \<Rightarrow> ('w, 's) io) \<Rightarrow> (uuid \<Rightarrow> 's \<Rightarrow> ('w, unit) io)
     \<Rightarrow> uuid \<Rightarrow> 'e \<Rightarrow> ('w, ('s, 'e) TransitionResult) io" where
  "handle_event T fetch store eid ev = fsm_transition T fetch store eid ev"

section \<open>Runs of a table\<close>

text \<open>The state after a list of events, None when one of them is rejected.\<close>

fun fsm_run :: "('s, 'e) graph \<Rightarrow> 's \<Rightarrow> 'e list \<Rightarrow> 's option" where
  "fsm_run T s [] = Some s"
| "fsm_run T s (e # es) =
     (case map_of (T s) e of None \<Rightarrow> None | Some s' \<Rightarrow> fsm_run T s' es)"

definition fsm_terminal :: "('s, 'e) graph \<Rightarrow> 's \<Rightarrow> bool" where
  "fsm_terminal T s \<longleftrightarrow> T s = []"

lemma fsm_run_append:
  "fsm_run T s (es @ fs) = (case fsm_run T s es of None \<Rightarrow> None | Some s' \<Rightarrow> fsm_run T s' fs)"
  by (induction T s es rule: fsm_run.induct) (auto split: option.splits)

lemma fsm_run_invariant:
  assumes "\<And>s e s'. P s \<Longrightarrow> map_of (T s) e = Some s' \<Longrightarrow> P s'"
  shows "fsm_run T s es = Some s' \<Longrightarrow> P s \<Longrightarrow> P s'"
  by (induction es arbitrary: s) (auto split: option.splits intro: assms)

lemma fsm_run_terminal:
  "fsm_terminal T s \<Longrightarrow> fsm_run T s es = Some s' \<Longrightarrow> es = [] \<and> s' = s"
  by (cases es) (auto simp: fsm_terminal_def)

text \<open>
  The interface of a transition table: a dictionary has every event once per
  state. \<open>ranked_graph\<close> adds a measure that every transition decreases, which
  bounds the length of every run.
\<close>

locale fsm_graph =
  fixes T :: "'s \<Rightarrow> ('e \<times> 's) list"
  assumes distinct_events: "distinct (map fst (T s))"
begin

lemma edge_iff: "map_of (T s) e = Some s' \<longleftrightarrow> (e, s') \<in> set (T s)"
  by (simp add: distinct_events)

lemma allowed_iff: "e \<in> set (allowed_events T s) \<longleftrightarrow> (\<exists>s'. map_of (T s) e = Some s')"
  by (force simp: allowed_events_def edge_iff)

lemma transition_accepts_iff:
  assumes "fetch eid w = (Inr s, w)" "\<And>s'. fst (store eid s' w) = Inr ()"
  shows "(\<exists>s' w'. fsm_transition T fetch store eid e w = (Inr (accepted s'), w'))
    \<longleftrightarrow> e \<in> set (allowed_events T s)"
proof -
  have st: "store eid s' w = (Inr (), snd (store eid s' w))" for s'
    by (metis assms(2) prod.collapse)
  show ?thesis
  proof (cases "map_of (T s) e")
    case (Some s')
    then have "fsm_transition T fetch store eid e w = (Inr (accepted s'), snd (store eid s' w))"
      using assms(1) st[of s'] by (simp add: fsm_transition_def bind_io_Inr)
    then show ?thesis using Some by (auto simp: allowed_iff)
  qed (auto simp: fsm_transition_def assms(1) allowed_iff)
qed

lemma transition_edge:
  assumes "fsm_transition T fetch store eid e w = (Inr (accepted s'), w')"
  shows "\<exists>s w1. fetch eid w = (Inr s, w1) \<and> (e, s') \<in> set (T s) \<and> store eid s' w1 = (Inr (), w')"
  using assms
  by (auto simp: fsm_transition_def bind_io_Inr_iff edge_iff split: option.splits)

lemma transition_rejects:
  assumes "fsm_transition T fetch store eid e w = (Inr (rejected e' r), w')"
  shows "\<exists>s. fetch eid w = (Inr s, w') \<and> e \<notin> set (allowed_events T s) \<and> r = EventNotAllowed e s"
  using assms
  by (auto simp: fsm_transition_def bind_io_Inr_iff allowed_iff rejected_def accepted_def
      split: option.splits)

end

locale ranked_graph = fsm_graph T for T :: "'s \<Rightarrow> ('e \<times> 's) list" +
  fixes rank :: "'s \<Rightarrow> nat"
  assumes rank_decreases: "(e, s') \<in> set (T s) \<Longrightarrow> rank s' < rank s"
begin

lemma run_bound: "fsm_run T s es = Some s' \<Longrightarrow> length es + rank s' \<le> rank s"
proof (induction es arbitrary: s)
  case (Cons e es)
  then obtain t where t: "map_of (T s) e = Some t" "fsm_run T t es = Some s'"
    by (auto split: option.splits)
  have "rank t < rank s"
    using t(1) rank_decreases edge_iff by blast
  then show ?case
    using Cons.IH[OF t(2)] by simp
qed simp

lemma no_return: "fsm_run T s (e # es) \<noteq> Some s"
  using run_bound[of s "e # es" s] by auto

end

text \<open>
  The interface of the stores the machines read and write through: a written
  state is the one read back, and writing one entity leaves the others alone.
\<close>

locale state_cell =
  fixes fetch :: "uuid \<Rightarrow> ('w, 's) io"
    and store :: "uuid \<Rightarrow> 's \<Rightarrow> ('w, unit) io"
  assumes fetch_pure: "snd (fetch eid w) = w"
    and store_ok: "fst (store eid s w) = Inr ()"
    and fetch_store_same: "fst (fetch eid w) = Inr s0 \<Longrightarrow> fst (fetch eid (snd (store eid s w))) = Inr s"
    and fetch_store_other: "eid \<noteq> eid' \<Longrightarrow> fst (fetch eid' (snd (store eid s w))) = fst (fetch eid' w)"
begin

lemma transition_eq:
  assumes "fst (fetch eid w) = Inr s"
  shows "fsm_transition T fetch store eid e w =
    (case map_of (T s) e of
       None \<Rightarrow> (Inr (rejected e (EventNotAllowed e s)), w)
     | Some s' \<Rightarrow> (Inr (accepted s'), snd (store eid s' w)))"
proof -
  have r: "fetch eid w = (Inr s, w)"
    by (metis assms prod.collapse fetch_pure)
  show ?thesis
  proof (cases "map_of (T s) e")
    case (Some s')
    obtain w1 where "store eid s' w = (Inr (), w1)"
      by (metis prod.collapse store_ok)
    then show ?thesis
      using r Some by (simp add: fsm_transition_def)
  qed (simp add: fsm_transition_def r)
qed

lemma transition_result:
  assumes "fst (fetch eid w) = Inr s"
  shows "fst (fsm_transition T fetch store eid e w) =
    Inr (case map_of (T s) e of None \<Rightarrow> rejected e (EventNotAllowed e s) | Some s' \<Rightarrow> accepted s')"
  by (simp add: transition_eq[OF assms] split: option.splits)

lemma transition_state:
  assumes "fst (fetch eid w) = Inr s"
  shows "fst (fetch eid (snd (fsm_transition T fetch store eid e w))) =
    Inr (case map_of (T s) e of None \<Rightarrow> s | Some s' \<Rightarrow> s')"
  using fetch_store_same[OF assms]
  by (simp add: transition_eq[OF assms] assms split: option.splits)

lemma transition_other:
  assumes "eid \<noteq> eid'" "fst (fetch eid w) = Inr s"
  shows "fst (fetch eid' (snd (fsm_transition T fetch store eid e w))) = fst (fetch eid' w)"
  using fetch_store_other[OF assms(1)]
  by (simp add: transition_eq[OF assms(2)] split: option.splits)

end

end
