(* ===== verification/Order_Domain.thy ===== *)
theory Order_Domain
  imports Fsm_Core
begin

text \<open>
  The order domain (app/domains/orders): states, events and transition table
  of an order, the request and snapshot models of the checkout, and OrderFSM.
\<close>

section \<open>States, events, graph\<close>

datatype OrderState =
    DRAFT | CONFIRMED | PAYMENT_PENDING | PAID | COOKING | PACKING
  | COURIER_ASSIGNED | DELIVERING | DELIVERED | CLOSED | CANCELLED

datatype OrderEvent =
    CONFIRM | REQUEST_PAYMENT | PAYMENT_CONFIRMED | PAYMENT_FAILED | START_COOKING
  | START_PACKING | ASSIGN_COURIER | PICKUP | DELIVER | CLOSE | CANCEL

fun OrderState_value :: "OrderState \<Rightarrow> string" where
  "OrderState_value OrderState.DRAFT = ''DRAFT''"
| "OrderState_value OrderState.CONFIRMED = ''CONFIRMED''"
| "OrderState_value OrderState.PAYMENT_PENDING = ''PAYMENT_PENDING''"
| "OrderState_value OrderState.PAID = ''PAID''"
| "OrderState_value OrderState.COOKING = ''COOKING''"
| "OrderState_value OrderState.PACKING = ''PACKING''"
| "OrderState_value OrderState.COURIER_ASSIGNED = ''COURIER_ASSIGNED''"
| "OrderState_value OrderState.DELIVERING = ''DELIVERING''"
| "OrderState_value OrderState.DELIVERED = ''DELIVERED''"
| "OrderState_value OrderState.CLOSED = ''CLOSED''"
| "OrderState_value OrderState.CANCELLED = ''CANCELLED''"

definition OrderState_members :: "OrderState list" where
  "OrderState_members =
     [OrderState.DRAFT, OrderState.CONFIRMED, OrderState.PAYMENT_PENDING, OrderState.PAID,
      OrderState.COOKING, OrderState.PACKING, OrderState.COURIER_ASSIGNED,
      OrderState.DELIVERING, OrderState.DELIVERED, OrderState.CLOSED, OrderState.CANCELLED]"

text \<open>\<open>OrderState(text)\<close> of the code: ValueError for a text that names no state.\<close>

definition OrderState_of :: "string \<Rightarrow> OrderState result" where
  "OrderState_of v =
     (case List.find (\<lambda>s. OrderState_value s = v) OrderState_members of
        None \<Rightarrow> Inl (ValueError v)
      | Some s \<Rightarrow> Inr s)"

fun OrderEvent_value :: "OrderEvent \<Rightarrow> string" where
  "OrderEvent_value OrderEvent.CONFIRM = ''CONFIRM''"
| "OrderEvent_value OrderEvent.REQUEST_PAYMENT = ''REQUEST_PAYMENT''"
| "OrderEvent_value OrderEvent.PAYMENT_CONFIRMED = ''PAYMENT_CONFIRMED''"
| "OrderEvent_value OrderEvent.PAYMENT_FAILED = ''PAYMENT_FAILED''"
| "OrderEvent_value OrderEvent.START_COOKING = ''START_COOKING''"
| "OrderEvent_value OrderEvent.START_PACKING = ''START_PACKING''"
| "OrderEvent_value OrderEvent.ASSIGN_COURIER = ''ASSIGN_COURIER''"
| "OrderEvent_value OrderEvent.PICKUP = ''PICKUP''"
| "OrderEvent_value OrderEvent.DELIVER = ''DELIVER''"
| "OrderEvent_value OrderEvent.CLOSE = ''CLOSE''"
| "OrderEvent_value OrderEvent.CANCEL = ''CANCEL''"

definition OrderEvent_members :: "OrderEvent list" where
  "OrderEvent_members =
     [OrderEvent.CONFIRM, OrderEvent.REQUEST_PAYMENT, OrderEvent.PAYMENT_CONFIRMED,
      OrderEvent.PAYMENT_FAILED, OrderEvent.START_COOKING, OrderEvent.START_PACKING,
      OrderEvent.ASSIGN_COURIER, OrderEvent.PICKUP, OrderEvent.DELIVER, OrderEvent.CLOSE,
      OrderEvent.CANCEL]"

definition OrderEvent_of :: "string \<Rightarrow> OrderEvent result" where
  "OrderEvent_of v =
     (case List.find (\<lambda>e. OrderEvent_value e = v) OrderEvent_members of
        None \<Rightarrow> Inl (ValueError v)
      | Some e \<Rightarrow> Inr e)"

fun ORDER_TRANSITIONS :: "OrderState \<Rightarrow> (OrderEvent \<times> OrderState) list" where
  "ORDER_TRANSITIONS OrderState.DRAFT =
     [(OrderEvent.CONFIRM, OrderState.CONFIRMED), (OrderEvent.CANCEL, OrderState.CANCELLED)]"
| "ORDER_TRANSITIONS OrderState.CONFIRMED =
     [(OrderEvent.REQUEST_PAYMENT, OrderState.PAYMENT_PENDING),
      (OrderEvent.START_COOKING, OrderState.COOKING),
      (OrderEvent.CANCEL, OrderState.CANCELLED)]"
| "ORDER_TRANSITIONS OrderState.PAYMENT_PENDING =
     [(OrderEvent.PAYMENT_CONFIRMED, OrderState.PAID),
      (OrderEvent.PAYMENT_FAILED, OrderState.CONFIRMED),
      (OrderEvent.CANCEL, OrderState.CANCELLED)]"
| "ORDER_TRANSITIONS OrderState.PAID =
     [(OrderEvent.START_COOKING, OrderState.COOKING), (OrderEvent.CANCEL, OrderState.CANCELLED)]"
| "ORDER_TRANSITIONS OrderState.COOKING = [(OrderEvent.START_PACKING, OrderState.PACKING)]"
| "ORDER_TRANSITIONS OrderState.PACKING =
     [(OrderEvent.ASSIGN_COURIER, OrderState.COURIER_ASSIGNED),
      (OrderEvent.CLOSE, OrderState.CLOSED)]"
| "ORDER_TRANSITIONS OrderState.COURIER_ASSIGNED = [(OrderEvent.PICKUP, OrderState.DELIVERING)]"
| "ORDER_TRANSITIONS OrderState.DELIVERING = [(OrderEvent.DELIVER, OrderState.DELIVERED)]"
| "ORDER_TRANSITIONS OrderState.DELIVERED = [(OrderEvent.CLOSE, OrderState.CLOSED)]"
| "ORDER_TRANSITIONS OrderState.CLOSED = []"
| "ORDER_TRANSITIONS OrderState.CANCELLED = []"

section \<open>Checkout models\<close>

record OrderItem =
  oi_product_id :: uuid
  oi_name :: string
  oi_price_rub :: int
  oi_qty :: int

record CheckoutItem =
  ci_product_id :: uuid
  ci_qty :: int

text \<open>\<open>Field(gt=0)\<close> of \<open>CheckoutItem.qty\<close>.\<close>

definition CheckoutItem_valid :: "CheckoutItem \<Rightarrow> bool" where
  "CheckoutItem_valid ci \<longleftrightarrow> 0 < ci_qty ci"

record CheckoutRequest =
  cr_name :: string
  cr_phone :: string
  cr_address :: "string option"
  cr_comment :: "string option"
  cr_delivery_mode :: string
  cr_delivery_slot :: "string option"
  cr_delivery_date :: "string option"
  cr_payment_method :: string
  cr_zone_id :: "uuid option"
  cr_items :: "CheckoutItem list"
  cr_idempotency_key :: string
  cr_client_max_uid :: "int option"
  cr_client_zalo_uid :: "string option"
  cr_client_telegram_uid :: "int option"
  cr_promo_code :: "string option"

record OrderRead =
  or_id :: uuid
  or_customer_id :: uuid
  or_state :: OrderState
  or_items :: "OrderItem list"
  or_delivery_address :: string
  or_delivery_mode :: "string option"
  or_payment_method :: "string option"
  or_comment :: "string option"
  or_customer_name :: "string option"
  or_customer_phone :: "string option"
  or_trace_id :: "string option"
  or_total_rub :: "int option"
  or_discount_rub :: "int option"
  or_created_at :: "int option"

section \<open>OrderFSM\<close>

definition OrderFSM_get_allowed_events :: "OrderState \<Rightarrow> OrderEvent list" where
  "OrderFSM_get_allowed_events s = allowed_events ORDER_TRANSITIONS s"

definition OrderFSM_transition ::
  "(uuid \<Rightarrow> ('w, OrderState) io) \<Rightarrow> (uuid \<Rightarrow> OrderState \<Rightarrow> ('w, unit) io)
     \<Rightarrow> uuid \<Rightarrow> OrderEvent \<Rightarrow> ('w, (OrderState, OrderEvent) TransitionResult) io" where
  "OrderFSM_transition fetch store eid ev = fsm_transition ORDER_TRANSITIONS fetch store eid ev"

section \<open>Lemmas\<close>

lemma OrderState_members_all [simp]: "s \<in> set OrderState_members"
  by (cases s) (simp_all add: OrderState_members_def)

lemma OrderState_of_value [simp]: "OrderState_of (OrderState_value s) = Inr s"
  by (cases s) (simp_all add: OrderState_of_def OrderState_members_def)

lemma OrderEvent_of_value [simp]: "OrderEvent_of (OrderEvent_value e) = Inr e"
  by (cases e) (simp_all add: OrderEvent_of_def OrderEvent_members_def)

lemma OrderState_of_Inr: "OrderState_of v = Inr s \<Longrightarrow> v = OrderState_value s"
  by (auto simp: OrderState_of_def find_Some_iff split: option.splits)

lemma OrderState_of_iff: "OrderState_of v = Inr s \<longleftrightarrow> v = OrderState_value s"
  using OrderState_of_Inr by auto

lemma OrderState_value_inject [simp]: "OrderState_value s = OrderState_value t \<longleftrightarrow> s = t"
  by (metis OrderState_of_value sum.inject(2))

text \<open>
  \<open>for s in OrderState\<close>: the members of a Python enumeration make it an enumeration type, so
  that statements about all states and events of the table evaluate.
\<close>

instantiation OrderState :: enum
begin

definition enum_OrderState :: "OrderState list" where
  "enum_OrderState = OrderState_members"

definition enum_all_OrderState :: "(OrderState \<Rightarrow> bool) \<Rightarrow> bool" where
  "enum_all_OrderState P = list_all P OrderState_members"

definition enum_ex_OrderState :: "(OrderState \<Rightarrow> bool) \<Rightarrow> bool" where
  "enum_ex_OrderState P = list_ex P OrderState_members"

instance
proof
  show "(UNIV :: OrderState set) = set Enum.enum" by (auto simp: enum_OrderState_def)
  show "distinct (Enum.enum :: OrderState list)" by (simp add: enum_OrderState_def OrderState_members_def)
qed (auto simp: enum_all_OrderState_def enum_ex_OrderState_def list_all_iff list_ex_iff)

end

instantiation OrderEvent :: enum
begin

definition enum_OrderEvent :: "OrderEvent list" where
  "enum_OrderEvent = OrderEvent_members"

definition enum_all_OrderEvent :: "(OrderEvent \<Rightarrow> bool) \<Rightarrow> bool" where
  "enum_all_OrderEvent P = list_all P OrderEvent_members"

definition enum_ex_OrderEvent :: "(OrderEvent \<Rightarrow> bool) \<Rightarrow> bool" where
  "enum_ex_OrderEvent P = list_ex P OrderEvent_members"

instance
proof
  have all: "e \<in> set OrderEvent_members" for e by (cases e) (simp_all add: OrderEvent_members_def)
  show "(UNIV :: OrderEvent set) = set Enum.enum" by (auto simp: enum_OrderEvent_def all)
  show "distinct (Enum.enum :: OrderEvent list)" by (simp add: enum_OrderEvent_def OrderEvent_members_def)
  show "Enum.enum_all P = Ball UNIV P" for P :: "OrderEvent \<Rightarrow> bool"
    by (auto simp: enum_all_OrderEvent_def list_all_iff all)
  show "Enum.enum_ex P = Bex UNIV P" for P :: "OrderEvent \<Rightarrow> bool"
    by (auto simp: enum_ex_OrderEvent_def list_ex_iff all)
qed

end

lemma order_table_facts:
  "\<forall>s. distinct (map fst (ORDER_TRANSITIONS s))"
  "\<forall>s. (\<forall>e. map_of (ORDER_TRANSITIONS s) e = None) \<longleftrightarrow> s = OrderState.CLOSED \<or> s = OrderState.CANCELLED"
  by code_simp+

interpretation og: fsm_graph ORDER_TRANSITIONS
  by unfold_locales (simp add: order_table_facts(1))

text \<open>Every event but the failed payment moves an order forward in this order.\<close>

fun order_rank :: "OrderState \<Rightarrow> nat" where
  "order_rank OrderState.DRAFT = 9"
| "order_rank OrderState.CONFIRMED = 8"
| "order_rank OrderState.PAYMENT_PENDING = 7"
| "order_rank OrderState.PAID = 6"
| "order_rank OrderState.COOKING = 5"
| "order_rank OrderState.PACKING = 4"
| "order_rank OrderState.COURIER_ASSIGNED = 3"
| "order_rank OrderState.DELIVERING = 2"
| "order_rank OrderState.DELIVERED = 1"
| "order_rank OrderState.CLOSED = 0"
| "order_rank OrderState.CANCELLED = 0"

lemma order_rank_step:
  "map_of (ORDER_TRANSITIONS s) e = Some s' \<Longrightarrow>
     order_rank s' < order_rank s + (if e = OrderEvent.PAYMENT_FAILED then 2 else 0)"
  by (cases s) (auto split: if_splits)

lemma order_run_bound:
  "fsm_run ORDER_TRANSITIONS s es = Some s' \<Longrightarrow>
     length es + order_rank s' \<le> order_rank s + 2 * count_list es OrderEvent.PAYMENT_FAILED"
proof (induction es arbitrary: s)
  case (Cons e es)
  then obtain t where t: "map_of (ORDER_TRANSITIONS s) e = Some t"
      "fsm_run ORDER_TRANSITIONS t es = Some s'"
    by (auto split: option.splits)
  show ?case
    using Cons.IH[OF t(2)] order_rank_step[OF t(1)] by (auto split: if_splits)
qed simp

text \<open>The states from which an order has been handed to the kitchen.\<close>

definition in_kitchen :: "OrderState \<Rightarrow> bool" where
  "in_kitchen s \<longleftrightarrow> s \<in> {OrderState.COOKING, OrderState.PACKING, OrderState.COURIER_ASSIGNED,
     OrderState.DELIVERING, OrderState.DELIVERED, OrderState.CLOSED}"

lemma in_kitchen_step:
  "map_of (ORDER_TRANSITIONS s) e = Some s' \<Longrightarrow>
     in_kitchen s' \<longleftrightarrow> in_kitchen s \<or> e = OrderEvent.START_COOKING"
  by (cases s) (auto simp: in_kitchen_def split: if_splits)

lemma start_cooking_step:
  "map_of (ORDER_TRANSITIONS s) OrderEvent.START_COOKING = Some s' \<Longrightarrow> \<not> in_kitchen s"
  by (cases s) (auto simp: in_kitchen_def)

lemma in_kitchen_run:
  "fsm_run ORDER_TRANSITIONS s es = Some s' \<Longrightarrow>
     in_kitchen s' \<longleftrightarrow> in_kitchen s \<or> OrderEvent.START_COOKING \<in> set es"
proof (induction es arbitrary: s)
  case (Cons e es)
  then obtain t where t: "map_of (ORDER_TRANSITIONS s) e = Some t"
      "fsm_run ORDER_TRANSITIONS t es = Some s'"
    by (auto split: option.splits)
  show ?case
    using Cons.IH[OF t(2)] in_kitchen_step[OF t(1)] by auto
qed simp

lemma start_cooking_once:
  "fsm_run ORDER_TRANSITIONS s es = Some s' \<Longrightarrow>
     count_list es OrderEvent.START_COOKING = (if in_kitchen s' \<and> \<not> in_kitchen s then 1 else 0)"
proof (induction es arbitrary: s)
  case (Cons e es)
  then obtain t where t: "map_of (ORDER_TRANSITIONS s) e = Some t"
      "fsm_run ORDER_TRANSITIONS t es = Some s'"
    by (auto split: option.splits)
  have "in_kitchen t \<Longrightarrow> in_kitchen s'"
    using in_kitchen_run[OF t(2)] by simp
  then show ?case
    using Cons.IH[OF t(2)] in_kitchen_step[OF t(1)] start_cooking_step t(1)
    by (auto split: if_splits)
qed simp

end
