(* ===== verification/Kitchen_Domain.thy ===== *)
theory Kitchen_Domain
  imports Fsm_Core
begin

text \<open>The kitchen ticket machine (app/domains/kitchen/fsm.py).\<close>

datatype KitchenState = NEW | QUEUED | PREPARING | READY | HANDED_OFF

datatype KitchenEvent = QUEUE | START_PREP | MARK_READY | HAND_OFF

fun KitchenState_value :: "KitchenState \<Rightarrow> string" where
  "KitchenState_value KitchenState.NEW = ''NEW''"
| "KitchenState_value KitchenState.QUEUED = ''QUEUED''"
| "KitchenState_value KitchenState.PREPARING = ''PREPARING''"
| "KitchenState_value KitchenState.READY = ''READY''"
| "KitchenState_value KitchenState.HANDED_OFF = ''HANDED_OFF''"

definition KitchenState_of :: "string \<Rightarrow> KitchenState result" where
  "KitchenState_of v =
     (case List.find (\<lambda>s. KitchenState_value s = v)
        [KitchenState.NEW, KitchenState.QUEUED, KitchenState.PREPARING, KitchenState.READY,
         KitchenState.HANDED_OFF] of
        None \<Rightarrow> Inl (ValueError v)
      | Some s \<Rightarrow> Inr s)"

fun KitchenEvent_value :: "KitchenEvent \<Rightarrow> string" where
  "KitchenEvent_value KitchenEvent.QUEUE = ''QUEUE''"
| "KitchenEvent_value KitchenEvent.START_PREP = ''START_PREP''"
| "KitchenEvent_value KitchenEvent.MARK_READY = ''MARK_READY''"
| "KitchenEvent_value KitchenEvent.HAND_OFF = ''HAND_OFF''"

definition KitchenEvent_of :: "string \<Rightarrow> KitchenEvent result" where
  "KitchenEvent_of v =
     (case List.find (\<lambda>e. KitchenEvent_value e = v)
        [KitchenEvent.QUEUE, KitchenEvent.START_PREP, KitchenEvent.MARK_READY,
         KitchenEvent.HAND_OFF] of
        None \<Rightarrow> Inl (ValueError v)
      | Some e \<Rightarrow> Inr e)"

fun KITCHEN_TRANSITIONS :: "KitchenState \<Rightarrow> (KitchenEvent \<times> KitchenState) list" where
  "KITCHEN_TRANSITIONS KitchenState.NEW = [(KitchenEvent.QUEUE, KitchenState.QUEUED)]"
| "KITCHEN_TRANSITIONS KitchenState.QUEUED = [(KitchenEvent.START_PREP, KitchenState.PREPARING)]"
| "KITCHEN_TRANSITIONS KitchenState.PREPARING = [(KitchenEvent.MARK_READY, KitchenState.READY)]"
| "KITCHEN_TRANSITIONS KitchenState.READY = [(KitchenEvent.HAND_OFF, KitchenState.HANDED_OFF)]"
| "KITCHEN_TRANSITIONS KitchenState.HANDED_OFF = []"

definition KitchenFSM_transition ::
  "(uuid \<Rightarrow> ('w, KitchenState) io) \<Rightarrow> (uuid \<Rightarrow> KitchenState \<Rightarrow> ('w, unit) io)
     \<Rightarrow> uuid \<Rightarrow> KitchenEvent \<Rightarrow> ('w, (KitchenState, KitchenEvent) TransitionResult) io" where
  "KitchenFSM_transition fetch store eid ev = fsm_transition KITCHEN_TRANSITIONS fetch store eid ev"

fun kitchen_rank :: "KitchenState \<Rightarrow> nat" where
  "kitchen_rank KitchenState.NEW = 4"
| "kitchen_rank KitchenState.QUEUED = 3"
| "kitchen_rank KitchenState.PREPARING = 2"
| "kitchen_rank KitchenState.READY = 1"
| "kitchen_rank KitchenState.HANDED_OFF = 0"

interpretation kg: ranked_graph KITCHEN_TRANSITIONS kitchen_rank
proof
  show "distinct (map fst (KITCHEN_TRANSITIONS s))" for s
    by (cases s) simp_all
  show "(e, s') \<in> set (KITCHEN_TRANSITIONS s) \<Longrightarrow> kitchen_rank s' < kitchen_rank s" for e s s'
    by (cases s) auto
qed

lemma KitchenState_of_value [simp]: "KitchenState_of (KitchenState_value s) = Inr s"
  by (cases s) (simp_all add: KitchenState_of_def)

lemma KitchenEvent_of_value [simp]: "KitchenEvent_of (KitchenEvent_value e) = Inr e"
  by (cases e) (simp_all add: KitchenEvent_of_def)

lemma KitchenState_of_iff: "KitchenState_of v = Inr s \<longleftrightarrow> v = KitchenState_value s"
proof
  show "KitchenState_of v = Inr s \<Longrightarrow> v = KitchenState_value s"
    by (auto simp: KitchenState_of_def split: option.splits if_splits)
qed simp

lemma KitchenState_value_inject [simp]: "KitchenState_value s = KitchenState_value t \<longleftrightarrow> s = t"
  by (metis KitchenState_of_value sum.inject(2))

text \<open>The events that are still ahead of a ticket, in the order they must come.\<close>

fun kitchen_plan :: "KitchenState \<Rightarrow> KitchenEvent list" where
  "kitchen_plan KitchenState.NEW =
     [KitchenEvent.QUEUE, KitchenEvent.START_PREP, KitchenEvent.MARK_READY, KitchenEvent.HAND_OFF]"
| "kitchen_plan KitchenState.QUEUED =
     [KitchenEvent.START_PREP, KitchenEvent.MARK_READY, KitchenEvent.HAND_OFF]"
| "kitchen_plan KitchenState.PREPARING = [KitchenEvent.MARK_READY, KitchenEvent.HAND_OFF]"
| "kitchen_plan KitchenState.READY = [KitchenEvent.HAND_OFF]"
| "kitchen_plan KitchenState.HANDED_OFF = []"

lemma kitchen_plan_step:
  "map_of (KITCHEN_TRANSITIONS s) e = Some s' \<longleftrightarrow> kitchen_plan s = e # kitchen_plan s'"
  by (cases s; cases s') auto

lemma kitchen_run_plan:
  "fsm_run KITCHEN_TRANSITIONS s es = Some s' \<longleftrightarrow> kitchen_plan s = es @ kitchen_plan s'"
proof (induction es arbitrary: s)
  case Nil
  then show ?case by (cases s; cases s') auto
next
  case (Cons e es)
  show ?case
  proof (cases "map_of (KITCHEN_TRANSITIONS s) e")
    case None
    then show ?thesis by (cases s) (auto split: if_splits)
  next
    case (Some t)
    then show ?thesis using Cons.IH[of t] kitchen_plan_step[of s e t] by auto
  qed
qed

end
