(* ===== verification/Py_Text.thy ===== *)
theory Py_Text
  imports Prelude
begin

text \<open>
  The built-in text operations of Python that the code uses, on texts of code
  points below 256: strip, lower, int(), str() of an int, truth of a value
  and UUID().
\<close>

section \<open>Characters\<close>

definition code :: "char \<Rightarrow> nat" where
  "code c = of_char c"

definition py_isspace :: "char \<Rightarrow> bool" where
  "py_isspace c \<longleftrightarrow> (9 \<le> code c \<and> code c \<le> 13) \<or> (28 \<le> code c \<and> code c \<le> 32)
     \<or> code c = 133 \<or> code c = 160"

definition is_digit :: "char \<Rightarrow> bool" where
  "is_digit c \<longleftrightarrow> 48 \<le> code c \<and> code c \<le> 57"

definition lower_char :: "char \<Rightarrow> char" where
  "lower_char c =
     (if (65 \<le> code c \<and> code c \<le> 90) \<or> (192 \<le> code c \<and> code c \<le> 222 \<and> code c \<noteq> 215)
      then char_of (code c + 32) else c)"

lemma code_less: "code c < 256"
  unfolding code_def by (rule nat_of_char_less_256)

lemma code_char_of [simp]: "n < 256 \<Longrightarrow> code (char_of n) = n"
  by (simp add: code_def)

lemma lower_char_idem [simp]: "lower_char (lower_char c) = lower_char c"
proof (cases "(65 \<le> code c \<and> code c \<le> 90) \<or> (192 \<le> code c \<and> code c \<le> 222 \<and> code c \<noteq> 215)")
  case True
  then have "code (lower_char c) = code c + 32"
    using code_less[of c] by (auto simp: lower_char_def)
  then show ?thesis
    using True by (auto simp: lower_char_def)
qed (auto simp: lower_char_def)

section \<open>strip and lower\<close>

definition py_lstrip :: "string \<Rightarrow> string" where
  "py_lstrip s = dropWhile py_isspace s"

definition py_rstrip :: "string \<Rightarrow> string" where
  "py_rstrip s = rev (dropWhile py_isspace (rev s))"

definition py_strip :: "string \<Rightarrow> string" where
  "py_strip s = py_rstrip (py_lstrip s)"

definition py_lower :: "string \<Rightarrow> string" where
  "py_lower s = map lower_char s"

lemma py_lower_idem [simp]: "py_lower (py_lower s) = py_lower s"
  by (simp add: py_lower_def)

lemma py_rstrip_prefix: "py_rstrip (c # s) = [] \<or> (\<exists>t. py_rstrip (c # s) = c # t)"
proof -
  have "dropWhile py_isspace (rev s @ [c]) =
      (if \<forall>x \<in> set s. py_isspace x then dropWhile py_isspace [c]
       else dropWhile py_isspace (rev s) @ [c])"
    by (auto simp: dropWhile_append)
  then have "py_rstrip (c # s) = [] \<or> py_rstrip (c # s) = [c]
      \<or> py_rstrip (c # s) = c # rev (dropWhile py_isspace (rev s))"
    by (auto simp: py_rstrip_def split: if_splits)
  then show ?thesis by blast
qed

lemma py_lstrip_id: "s = [] \<or> \<not> py_isspace (hd s) \<Longrightarrow> py_lstrip s = s"
  by (cases s) (auto simp: py_lstrip_def)

lemma py_lstrip_hd: "py_lstrip s = [] \<or> \<not> py_isspace (hd (py_lstrip s))"
  unfolding py_lstrip_def using hd_dropWhile[of py_isspace s] by blast

lemma py_rstrip_idem [simp]: "py_rstrip (py_rstrip s) = py_rstrip s"
  by (simp add: py_rstrip_def)

lemma py_strip_idem [simp]: "py_strip (py_strip s) = py_strip s"
proof -
  have "py_strip s = [] \<or> \<not> py_isspace (hd (py_strip s))"
  proof (cases "py_lstrip s")
    case Nil
    then show ?thesis by (simp add: py_strip_def py_rstrip_def)
  next
    case (Cons c t)
    then show ?thesis
      using py_lstrip_hd[of s] py_rstrip_prefix[of c t] by (auto simp: py_strip_def)
  qed
  then have "py_lstrip (py_strip s) = py_strip s"
    by (rule py_lstrip_id)
  then show ?thesis
    by (metis py_rstrip_idem py_strip_def)
qed

lemma py_strip_Nil [simp]: "py_strip [] = []"
  by (simp add: py_strip_def py_lstrip_def py_rstrip_def)

section \<open>Integers as text\<close>

fun digits_value :: "nat \<Rightarrow> string \<Rightarrow> nat" where
  "digits_value acc [] = acc"
| "digits_value acc (c # cs) = digits_value (acc * 10 + (code c - 48)) cs"

text \<open>Decimal digits with single underscores between digits, as int() accepts them.\<close>

fun digit_groups :: "string \<Rightarrow> string option" where
  "digit_groups [] = None"
| "digit_groups [c] = (if is_digit c then Some [c] else None)"
| "digit_groups (c # d # cs) =
     (if is_digit c then
        (if d = CHR ''_'' then map_option (\<lambda>r. c # r) (digit_groups cs)
         else map_option (\<lambda>r. c # r) (digit_groups (d # cs)))
      else None)"

definition parse_int :: "string \<Rightarrow> int result" where
  "parse_int s =
     (let t = py_strip s;
          neg = (t \<noteq> [] \<and> hd t = CHR ''-'');
          body = (if t \<noteq> [] \<and> (hd t = CHR ''-'' \<or> hd t = CHR ''+'') then tl t else t)
      in case digit_groups body of
           None \<Rightarrow> Inl (ValueError s)
         | Some ds \<Rightarrow> Inr (if neg then - int (digits_value 0 ds) else int (digits_value 0 ds)))"

fun nat_str :: "nat \<Rightarrow> string" where
  "nat_str n = (if n < 10 then [char_of (48 + n)] else nat_str (n div 10) @ [char_of (48 + n mod 10)])"

declare nat_str.simps [simp del]

definition int_str :: "int \<Rightarrow> string" where
  "int_str n = (if n < 0 then CHR ''-'' # nat_str (nat (- n)) else nat_str (nat n))"

lemma digits_value_append: "digits_value acc (s @ [c]) = digits_value acc s * 10 + (code c - 48)"
  by (induction acc s rule: digits_value.induct) auto

lemma nat_str_digits: "nat_str n \<noteq> [] \<and> (\<forall>c \<in> set (nat_str n). is_digit c) \<and> digits_value 0 (nat_str n) = n"
proof (induction n rule: nat_str.induct)
  case (1 n)
  show ?case
  proof (cases "n < 10")
    case True
    then have "nat_str n = [char_of (48 + n)]" by (simp add: nat_str.simps)
    then show ?thesis using True by (simp add: is_digit_def)
  next
    case False
    then have "nat_str n = nat_str (n div 10) @ [char_of (48 + n mod 10)]"
      by (simp add: nat_str.simps[of n])
    then show ?thesis
      using 1 False by (auto simp: digits_value_append is_digit_def)
  qed
qed

lemma digit_groups_digits: "s \<noteq> [] \<Longrightarrow> \<forall>c \<in> set s. is_digit c \<Longrightarrow> digit_groups s = Some s"
  by (induction s rule: digit_groups.induct) (auto simp: is_digit_def code_def)

section \<open>Values\<close>

fun py_truthy :: "json \<Rightarrow> bool" where
  "py_truthy JNull = False"
| "py_truthy (JBool b) = b"
| "py_truthy (JInt n) = (n \<noteq> 0)"
| "py_truthy (JFloat r) = (r \<noteq> 0)"
| "py_truthy (JStr s) = (s \<noteq> [])"
| "py_truthy (JList xs) = (xs \<noteq> [])"
| "py_truthy (JObj kvs) = (kvs \<noteq> [])"

fun py_int :: "json \<Rightarrow> int result" where
  "py_int (JInt n) = Inr n"
| "py_int (JBool b) = Inr (if b then 1 else 0)"
| "py_int (JFloat r) = Inr (if r < 0 then - \<lfloor>- r\<rfloor> else \<lfloor>r\<rfloor>)"
| "py_int (JStr s) = parse_int s"
| "py_int _ = Inl (TypeError ''int()'')"

text \<open>str() of a scalar; \<open>repr\<close> stands for the repr of floats and containers.\<close>

fun py_str :: "(json \<Rightarrow> string) \<Rightarrow> json \<Rightarrow> string" where
  "py_str repr JNull = ''None''"
| "py_str repr (JBool b) = (if b then ''True'' else ''False'')"
| "py_str repr (JInt n) = int_str n"
| "py_str repr (JStr s) = s"
| "py_str repr v = repr v"

section \<open>UUID()\<close>

definition hex_value :: "char \<Rightarrow> nat option" where
  "hex_value c =
     (if is_digit c then Some (code c - 48)
      else if 97 \<le> code c \<and> code c \<le> 102 then Some (code c - 87)
      else if 65 \<le> code c \<and> code c \<le> 70 then Some (code c - 55)
      else None)"

definition hex_char :: "char \<Rightarrow> char option" where
  "hex_char c = map_option (\<lambda>n. if n < 10 then char_of (48 + n) else char_of (87 + n)) (hex_value c)"

fun remove_text :: "string \<Rightarrow> string \<Rightarrow> string" where
  "remove_text p [] = []"
| "remove_text p (c # cs) =
     (if p \<noteq> [] \<and> take (length p) (c # cs) = p then remove_text p (drop (length p) (c # cs))
      else c # remove_text p cs)"

definition strip_braces :: "string \<Rightarrow> string" where
  "strip_braces s = (let p = (\<lambda>c. c = CHR ''{'' \<or> c = CHR ''}'') in
     rev (dropWhile p (rev (dropWhile p s))))"

definition hyphenate :: "string \<Rightarrow> string" where
  "hyphenate h = take 8 h @ ''-'' @ take 4 (drop 8 h) @ ''-'' @ take 4 (drop 12 h) @ ''-''
     @ take 4 (drop 16 h) @ ''-'' @ drop 20 h"

text \<open>
  \<open>str(UUID(text))\<close>: the canonical text or ValueError. Of the 32-character
  bodies only plain hexadecimal digits are accepted here (int(_, 16) would also
  take underscores, blanks and a sign among the 32 characters).
\<close>

definition parse_uuid :: "string \<Rightarrow> uuid result" where
  "parse_uuid s =
     (let h = remove_text ''-'' (strip_braces (remove_text ''uuid:'' (remove_text ''urn:'' s)))
      in if length h \<noteq> 32 then Inl (ValueError ''badly formed hexadecimal UUID string'')
         else case those (map hex_char h) of
                None \<Rightarrow> Inl (ValueError ''invalid literal for int() with base 16'')
              | Some cs \<Rightarrow> Inr (hyphenate cs))"

end
