(* ===== verification/Programs.thy ===== *)
theory Programs
  imports Policy_Snapshot Order_Domain Kitchen_Domain Py_Text
begin

text \<open>
  The programs of the order and kitchen transitions
  (app/programs/order_programs.py, app/programs/kitchen_programs.py) as data.
\<close>

section \<open>Order programs\<close>

definition PROGRAM_REQUEST_PAYMENT :: program where
  "PROGRAM_REQUEST_PAYMENT = \<lparr>program_name = ''order_request_payment'', program_steps =
     [ToolStep ''validate_order'' ''validate_order_items'' [(''order_id'', CtxVar ''order_id'')]
        ''validation_result'' (Some ''check_validation''),
      ConditionStep ''check_validation'' ''validation_result'' (Less_Than 1)
        ''validation_failed'' ''create_payment'',
      ToolStep ''create_payment'' ''yookassa_create_payment''
        [(''order_id'', CtxVar ''order_id''), (''amount'', CtxVar ''amount''), (''currency'', Lit (JStr ''RUB''))]
        ''payment_result'' (Some ''write_payment_state''),
      ToolStep ''write_payment_state'' ''write_order_state_payment_pending''
        [(''order_id'', CtxVar ''order_id''), (''payment_id'', OutputOf ''create_payment'')]
        ''write_result'' None,
      ToolStep ''validation_failed'' ''log_validation_failure'' [(''order_id'', CtxVar ''order_id'')]
        ''fail_result'' None]\<rparr>"

definition PROGRAM_PAYMENT_CONFIRMATION :: program where
  "PROGRAM_PAYMENT_CONFIRMATION = \<lparr>program_name = ''payment_confirmation'', program_steps =
     [ToolStep ''verify_payment'' ''yookassa_verify_payment''
        [(''order_id'', CtxVar ''order_id''), (''payment_id'', CtxVar ''payment_id'')]
        ''verify_result'' (Some ''check_verify''),
      ConditionStep ''check_verify'' ''verify_result'' (Less_Than 1) ''payment_failed'' ''write_paid_state'',
      ToolStep ''write_paid_state'' ''write_order_state_paid'' [(''order_id'', CtxVar ''order_id'')]
        ''write_result'' None,
      ToolStep ''payment_failed'' ''write_order_state_payment_failed'' [(''order_id'', CtxVar ''order_id'')]
        ''fail_result'' None]\<rparr>"

definition PROGRAM_START_COOKING :: program where
  "PROGRAM_START_COOKING = \<lparr>program_name = ''order_start_cooking'', program_steps =
     [ToolStep ''reserve_inventory'' ''reserve_inventory_items'' [(''order_id'', CtxVar ''order_id'')]
        ''inventory_result'' (Some ''check_inventory_alert''),
      ConditionStep ''check_inventory_alert'' ''inventory_result'' (At_Least 1)
        ''notify_inventory_below_zero'' ''create_kitchen_ticket'',
      ToolStep ''notify_inventory_below_zero'' ''notify_inventory_insufficient''
        [(''order_id'', CtxVar ''order_id'')] ''notify_result'' (Some ''create_kitchen_ticket''),
      ToolStep ''create_kitchen_ticket'' ''create_kitchen_ticket'' [(''order_id'', CtxVar ''order_id'')]
        ''ticket_id'' (Some ''write_cooking_state''),
      ToolStep ''write_cooking_state'' ''write_order_state_cooking''
        [(''order_id'', CtxVar ''order_id''), (''ticket_id'', OutputOf ''create_kitchen_ticket'')]
        ''write_result'' (Some ''notify_staff_kitchen_ticket''),
      ToolStep ''notify_staff_kitchen_ticket'' ''notify_staff_new_kitchen_ticket''
        [(''order_id'', CtxVar ''order_id''), (''ticket_id'', OutputOf ''create_kitchen_ticket'')]
        ''notify_staff_result'' None]\<rparr>"

definition PROGRAM_CONFIRM :: program where
  "PROGRAM_CONFIRM = \<lparr>program_name = ''order_confirm'', program_steps =
     [ToolStep ''write_confirmed'' ''transition_order_state''
        [(''order_id'', CtxVar ''order_id''), (''from_state'', Lit (JStr ''DRAFT'')),
         (''to_state'', Lit (JStr ''CONFIRMED''))] ''write_result'' None]\<rparr>"

definition PROGRAM_PAYMENT_FAILED :: program where
  "PROGRAM_PAYMENT_FAILED = \<lparr>program_name = ''order_payment_failed'', program_steps =
     [ToolStep ''write_rollback'' ''transition_order_state''
        [(''order_id'', CtxVar ''order_id''), (''from_state'', Lit (JStr ''PAYMENT_PENDING'')),
         (''to_state'', Lit (JStr ''CONFIRMED''))] ''write_result'' None]\<rparr>"

definition PROGRAM_CANCEL :: program where
  "PROGRAM_CANCEL = \<lparr>program_name = ''order_cancel'', program_steps =
     [ToolStep ''write_cancelled'' ''transition_order_state''
        [(''order_id'', CtxVar ''order_id''), (''from_state'', CtxVar ''from_state''),
         (''to_state'', Lit (JStr ''CANCELLED''))] ''write_result'' None]\<rparr>"

definition EVENT_PROGRAM_MAP :: "(string \<times> program) list" where
  "EVENT_PROGRAM_MAP =
     [(''CONFIRM'', PROGRAM_CONFIRM),
      (''REQUEST_PAYMENT'', PROGRAM_REQUEST_PAYMENT),
      (''PAYMENT_CONFIRMED'', PROGRAM_PAYMENT_CONFIRMATION),
      (''PAYMENT_FAILED'', PROGRAM_PAYMENT_FAILED),
      (''START_COOKING'', PROGRAM_START_COOKING),
      (''CANCEL'', PROGRAM_CANCEL)]"

definition build_simple_program :: "string \<Rightarrow> string \<Rightarrow> string \<Rightarrow> program" where
  "build_simple_program event_name from_state to_state =
     \<lparr>program_name = ''order_'' @ py_lower event_name, program_steps =
       [ToolStep ''write_state'' ''transition_order_state''
          [(''order_id'', CtxVar ''order_id''), (''from_state'', Lit (JStr from_state)),
           (''to_state'', Lit (JStr to_state))] ''write_result'' None]\<rparr>"

section \<open>Kitchen programs\<close>

definition PROGRAM_KITCHEN_QUEUE :: program where
  "PROGRAM_KITCHEN_QUEUE = \<lparr>program_name = ''kitchen_queue'', program_steps =
     [ToolStep ''write_state'' ''write_kitchen_state_queued'' [(''ticket_id'', CtxVar ''ticket_id'')]
        ''write_result'' None]\<rparr>"

definition PROGRAM_KITCHEN_START_PREP :: program where
  "PROGRAM_KITCHEN_START_PREP = \<lparr>program_name = ''kitchen_start_prep'', program_steps =
     [ToolStep ''write_state'' ''write_kitchen_state_preparing'' [(''ticket_id'', CtxVar ''ticket_id'')]
        ''write_result'' None]\<rparr>"

definition PROGRAM_KITCHEN_MARK_READY :: program where
  "PROGRAM_KITCHEN_MARK_READY = \<lparr>program_name = ''kitchen_mark_ready'', program_steps =
     [ToolStep ''write_state'' ''write_kitchen_state_ready'' [(''ticket_id'', CtxVar ''ticket_id'')]
        ''write_result'' None]\<rparr>"

definition PROGRAM_KITCHEN_HAND_OFF :: program where
  "PROGRAM_KITCHEN_HAND_OFF = \<lparr>program_name = ''kitchen_hand_off'', program_steps =
     [ToolStep ''write_state'' ''write_kitchen_state_handed_off'' [(''ticket_id'', CtxVar ''ticket_id'')]
        ''write_result'' None]\<rparr>"

definition KITCHEN_EVENT_PROGRAM_MAP :: "(string \<times> program) list" where
  "KITCHEN_EVENT_PROGRAM_MAP =
     [(''QUEUE'', PROGRAM_KITCHEN_QUEUE),
      (''START_PREP'', PROGRAM_KITCHEN_START_PREP),
      (''MARK_READY'', PROGRAM_KITCHEN_MARK_READY),
      (''HAND_OFF'', PROGRAM_KITCHEN_HAND_OFF)]"

section \<open>Structure of the programs\<close>

lemmas order_program_defs = PROGRAM_REQUEST_PAYMENT_def PROGRAM_PAYMENT_CONFIRMATION_def
  PROGRAM_START_COOKING_def PROGRAM_CONFIRM_def PROGRAM_PAYMENT_FAILED_def PROGRAM_CANCEL_def

lemmas kitchen_program_defs = PROGRAM_KITCHEN_QUEUE_def PROGRAM_KITCHEN_START_PREP_def
  PROGRAM_KITCHEN_MARK_READY_def PROGRAM_KITCHEN_HAND_OFF_def

lemma forward_single:
  "forward_program \<lparr>program_name = n, program_steps = [ToolStep sid t as ok None]\<rparr>"
  by (simp add: forward_program_def)

lemma forward_simple [simp]: "forward_program (build_simple_program e a b)"
  unfolding build_simple_program_def by (rule forward_single)

lemma forward_order_programs [simp]:
  "forward_program PROGRAM_REQUEST_PAYMENT" "forward_program PROGRAM_PAYMENT_CONFIRMATION"
  "forward_program PROGRAM_START_COOKING" "forward_program PROGRAM_CONFIRM"
  "forward_program PROGRAM_PAYMENT_FAILED" "forward_program PROGRAM_CANCEL"
  by (simp_all add: order_program_defs forward_program_def upt_rec[of _ "Suc _"] nth_Cons')

lemma forward_kitchen_programs [simp]:
  "forward_program PROGRAM_KITCHEN_QUEUE" "forward_program PROGRAM_KITCHEN_START_PREP"
  "forward_program PROGRAM_KITCHEN_MARK_READY" "forward_program PROGRAM_KITCHEN_HAND_OFF"
  unfolding kitchen_program_defs by (rule forward_single)+

lemma order_programs_covered:
  "list_all (\<lambda>(_, p). covered_by p ORDERS_TOOL_CAPABILITIES) EVENT_PROGRAM_MAP"
  "covered_by (build_simple_program e a b) ORDERS_TOOL_CAPABILITIES"
  by (simp_all add: EVENT_PROGRAM_MAP_def order_program_defs build_simple_program_def covered_by_def
      capability_names_def ORDERS_TOOL_CAPABILITIES_def)

lemma kitchen_programs_covered:
  "list_all (\<lambda>(_, p). covered_by p KITCHEN_TOOL_CAPABILITIES) KITCHEN_EVENT_PROGRAM_MAP"
  by (simp add: KITCHEN_EVENT_PROGRAM_MAP_def kitchen_program_defs covered_by_def
      capability_names_def KITCHEN_TOOL_CAPABILITIES_def)

end
