(* ===== verification/Aux_Domains.thy ===== *)
theory Aux_Domains
  imports Fsm_Core
begin

text \<open>
  The smaller domain machines: delivery tasks, inventory, promotions, customer
  data (privacy) and the business schedule, and the staff roles. Tables keyed
  by (state, event) pairs are association lists on the pair, as in the code.
\<close>

section \<open>Delivery tasks (app/domains/delivery/fsm.py)\<close>

datatype DeliveryState = UNASSIGNED | ASSIGNED | PICKED_UP | ON_ROUTE | DELIVERED | FAILED

datatype DeliveryEvent = ASSIGN | PICKUP | START_ROUTE | COMPLETE | FAIL

fun DeliveryState_value :: "DeliveryState \<Rightarrow> string" where
  "DeliveryState_value DeliveryState.UNASSIGNED = ''UNASSIGNED''"
| "DeliveryState_value DeliveryState.ASSIGNED = ''ASSIGNED''"
| "DeliveryState_value DeliveryState.PICKED_UP = ''PICKED_UP''"
| "DeliveryState_value DeliveryState.ON_ROUTE = ''ON_ROUTE''"
| "DeliveryState_value DeliveryState.DELIVERED = ''DELIVERED''"
| "DeliveryState_value DeliveryState.FAILED = ''FAILED''"

definition DeliveryState_of :: "string \<Rightarrow> DeliveryState result" where
  "DeliveryState_of v =
     (case List.find (\<lambda>s. DeliveryState_value s = v)
        [DeliveryState.UNASSIGNED, DeliveryState.ASSIGNED, DeliveryState.PICKED_UP,
         DeliveryState.ON_ROUTE, DeliveryState.DELIVERED, DeliveryState.FAILED] of
        None \<Rightarrow> Inl (ValueError v)
      | Some s \<Rightarrow> Inr s)"

fun DELIVERY_TRANSITIONS :: "DeliveryState \<Rightarrow> (DeliveryEvent \<times> DeliveryState) list" where
  "DELIVERY_TRANSITIONS DeliveryState.UNASSIGNED = [(DeliveryEvent.ASSIGN, DeliveryState.ASSIGNED)]"
| "DELIVERY_TRANSITIONS DeliveryState.ASSIGNED =
     [(DeliveryEvent.PICKUP, DeliveryState.PICKED_UP), (DeliveryEvent.FAIL, DeliveryState.FAILED)]"
| "DELIVERY_TRANSITIONS DeliveryState.PICKED_UP =
     [(DeliveryEvent.START_ROUTE, DeliveryState.ON_ROUTE)]"
| "DELIVERY_TRANSITIONS DeliveryState.ON_ROUTE =
     [(DeliveryEvent.COMPLETE, DeliveryState.DELIVERED), (DeliveryEvent.FAIL, DeliveryState.FAILED)]"
| "DELIVERY_TRANSITIONS DeliveryState.DELIVERED = []"
| "DELIVERY_TRANSITIONS DeliveryState.FAILED = []"

definition DeliveryFSM_transition ::
  "(uuid \<Rightarrow> ('w, DeliveryState) io) \<Rightarrow> (uuid \<Rightarrow> DeliveryState \<Rightarrow> ('w, unit) io)
     \<Rightarrow> uuid \<Rightarrow> DeliveryEvent \<Rightarrow> ('w, (DeliveryState, DeliveryEvent) TransitionResult) io" where
  "DeliveryFSM_transition fetch store eid ev = fsm_transition DELIVERY_TRANSITIONS fetch store eid ev"

fun delivery_rank :: "DeliveryState \<Rightarrow> nat" where
  "delivery_rank DeliveryState.UNASSIGNED = 4"
| "delivery_rank DeliveryState.ASSIGNED = 3"
| "delivery_rank DeliveryState.PICKED_UP = 2"
| "delivery_rank DeliveryState.ON_ROUTE = 1"
| "delivery_rank DeliveryState.DELIVERED = 0"
| "delivery_rank DeliveryState.FAILED = 0"

interpretation dg: ranked_graph DELIVERY_TRANSITIONS delivery_rank
proof
  show "distinct (map fst (DELIVERY_TRANSITIONS s))" for s
    by (cases s) simp_all
  show "(e, s') \<in> set (DELIVERY_TRANSITIONS s) \<Longrightarrow> delivery_rank s' < delivery_rank s" for e s s'
    by (cases s) auto
qed

lemma DeliveryState_of_value [simp]: "DeliveryState_of (DeliveryState_value s) = Inr s"
  by (cases s) (simp_all add: DeliveryState_of_def)

lemma DeliveryState_of_iff: "DeliveryState_of v = Inr s \<longleftrightarrow> v = DeliveryState_value s"
proof
  show "DeliveryState_of v = Inr s \<Longrightarrow> v = DeliveryState_value s"
    by (auto simp: DeliveryState_of_def split: option.splits if_splits)
qed simp

section \<open>Tables keyed by state and event\<close>

text \<open>
  The graph of a table \<open>{(state, event): state}\<close>: the events of a state are the
  comprehension of \<open>get_allowed_events\<close>, in the order of the table.
\<close>

definition pair_graph :: "(('s \<times> 'e) \<times> 's) list \<Rightarrow> 's \<Rightarrow> ('e \<times> 's) list" where
  "pair_graph tbl s = map (\<lambda>((_, e), s'). (e, s')) (filter (\<lambda>((s1, _), _). s1 = s) tbl)"

lemma pair_graph_simps [simp]:
  "pair_graph [] s = []"
  "pair_graph (((s1, e), s') # tbl) s =
     (if s1 = s then (e, s') # pair_graph tbl s else pair_graph tbl s)"
  by (simp_all add: pair_graph_def)

lemma map_of_pair_graph: "map_of (pair_graph tbl s) e = map_of tbl (s, e)"
  by (induction tbl) auto

section \<open>Inventory (app/domains/inventory)\<close>

datatype InventoryState = AVAILABLE | LOW_STOCK | CRITICAL | OUT_OF_STOCK

datatype InventoryEvent =
    STOCK_DECREASED | STOCK_LOW | STOCK_CRITICAL | STOCK_DEPLETED | STOCK_REPLENISHED

fun InventoryState_value :: "InventoryState \<Rightarrow> string" where
  "InventoryState_value InventoryState.AVAILABLE = ''AVAILABLE''"
| "InventoryState_value InventoryState.LOW_STOCK = ''LOW_STOCK''"
| "InventoryState_value InventoryState.CRITICAL = ''CRITICAL''"
| "InventoryState_value InventoryState.OUT_OF_STOCK = ''OUT_OF_STOCK''"

definition InventoryState_of :: "string \<Rightarrow> InventoryState result" where
  "InventoryState_of s =
     (case List.find (\<lambda>t. InventoryState_value t = s)
             [InventoryState.AVAILABLE, InventoryState.LOW_STOCK, InventoryState.CRITICAL, InventoryState.OUT_OF_STOCK] of
        Some t \<Rightarrow> Inr t
      | None \<Rightarrow> Inl (ValueError s))"

lemma InventoryState_of_value [simp]: "InventoryState_of (InventoryState_value t) = Inr t"
  by (cases t) (simp_all add: InventoryState_of_def)

definition INVENTORY_TRANSITIONS :: "((InventoryState \<times> InventoryEvent) \<times> InventoryState) list" where
  "INVENTORY_TRANSITIONS =
     [((InventoryState.AVAILABLE, InventoryEvent.STOCK_DECREASED), InventoryState.LOW_STOCK),
      ((InventoryState.AVAILABLE, InventoryEvent.STOCK_LOW), InventoryState.LOW_STOCK),
      ((InventoryState.AVAILABLE, InventoryEvent.STOCK_CRITICAL), InventoryState.CRITICAL),
      ((InventoryState.LOW_STOCK, InventoryEvent.STOCK_CRITICAL), InventoryState.CRITICAL),
      ((InventoryState.LOW_STOCK, InventoryEvent.STOCK_DEPLETED), InventoryState.OUT_OF_STOCK),
      ((InventoryState.LOW_STOCK, InventoryEvent.STOCK_REPLENISHED), InventoryState.AVAILABLE),
      ((InventoryState.CRITICAL, InventoryEvent.STOCK_DEPLETED), InventoryState.OUT_OF_STOCK),
      ((InventoryState.CRITICAL, InventoryEvent.STOCK_REPLENISHED), InventoryState.AVAILABLE),
      ((InventoryState.OUT_OF_STOCK, InventoryEvent.STOCK_REPLENISHED), InventoryState.AVAILABLE)]"

definition InventoryFSM_transition ::
  "(uuid \<Rightarrow> ('w, InventoryState) io) \<Rightarrow> (uuid \<Rightarrow> InventoryState \<Rightarrow> ('w, unit) io)
     \<Rightarrow> uuid \<Rightarrow> InventoryEvent \<Rightarrow> ('w, (InventoryState, InventoryEvent) TransitionResult) io" where
  "InventoryFSM_transition fetch store eid ev =
     fsm_transition (pair_graph INVENTORY_TRANSITIONS) fetch store eid ev"

interpretation ig: fsm_graph "pair_graph INVENTORY_TRANSITIONS"
proof
  show "distinct (map fst (pair_graph INVENTORY_TRANSITIONS s))" for s
    by (cases s) (simp_all add: INVENTORY_TRANSITIONS_def)
qed

section \<open>Promotions (app/domains/promotions)\<close>

datatype PromotionState = CREATED | ACTIVE | EXPIRED | ARCHIVED

datatype PromotionEvent = ACTIVATE | EXPIRE | ARCHIVE

fun PromotionState_value :: "PromotionState \<Rightarrow> string" where
  "PromotionState_value PromotionState.CREATED = ''CREATED''"
| "PromotionState_value PromotionState.ACTIVE = ''ACTIVE''"
| "PromotionState_value PromotionState.EXPIRED = ''EXPIRED''"
| "PromotionState_value PromotionState.ARCHIVED = ''ARCHIVED''"

definition PromotionState_of :: "string \<Rightarrow> PromotionState result" where
  "PromotionState_of s =
     (case List.find (\<lambda>t. PromotionState_value t = s)
             [PromotionState.CREATED, PromotionState.ACTIVE, PromotionState.EXPIRED, PromotionState.ARCHIVED] of
        Some t \<Rightarrow> Inr t
      | None \<Rightarrow> Inl (ValueError s))"

lemma PromotionState_of_value [simp]: "PromotionState_of (PromotionState_value t) = Inr t"
  by (cases t) (simp_all add: PromotionState_of_def)

lemma PromotionState_of_Inr: "PromotionState_of s = Inr t \<longleftrightarrow> s = PromotionState_value t"
  by (cases t) (auto simp: PromotionState_of_def split: if_splits)

definition PROMOTION_TRANSITIONS :: "((PromotionState \<times> PromotionEvent) \<times> PromotionState) list" where
  "PROMOTION_TRANSITIONS =
     [((PromotionState.CREATED, PromotionEvent.ACTIVATE), PromotionState.ACTIVE),
      ((PromotionState.ACTIVE, PromotionEvent.EXPIRE), PromotionState.EXPIRED),
      ((PromotionState.EXPIRED, PromotionEvent.ARCHIVE), PromotionState.ARCHIVED)]"

definition PromotionFSM_transition ::
  "(uuid \<Rightarrow> ('w, PromotionState) io) \<Rightarrow> (uuid \<Rightarrow> PromotionState \<Rightarrow> ('w, unit) io)
     \<Rightarrow> uuid \<Rightarrow> PromotionEvent \<Rightarrow> ('w, (PromotionState, PromotionEvent) TransitionResult) io" where
  "PromotionFSM_transition fetch store eid ev =
     fsm_transition (pair_graph PROMOTION_TRANSITIONS) fetch store eid ev"

fun promotion_rank :: "PromotionState \<Rightarrow> nat" where
  "promotion_rank PromotionState.CREATED = 3"
| "promotion_rank PromotionState.ACTIVE = 2"
| "promotion_rank PromotionState.EXPIRED = 1"
| "promotion_rank PromotionState.ARCHIVED = 0"

interpretation pg: ranked_graph "pair_graph PROMOTION_TRANSITIONS" promotion_rank
proof
  show "distinct (map fst (pair_graph PROMOTION_TRANSITIONS s))" for s
    by (cases s) (simp_all add: PROMOTION_TRANSITIONS_def)
  show "(e, s') \<in> set (pair_graph PROMOTION_TRANSITIONS s) \<Longrightarrow> promotion_rank s' < promotion_rank s"
    for e s s'
    by (cases s) (auto simp: PROMOTION_TRANSITIONS_def)
qed

section \<open>Customer data (app/domains/privacy)\<close>

datatype CustomerDataState = ACTIVE | RETAINED | ANONYMIZED | DELETED

datatype CustomerDataEvent = RETAIN | ANONYMIZE | GDPR_ERASE

definition CUSTOMER_DATA_TRANSITIONS ::
  "((CustomerDataState \<times> CustomerDataEvent) \<times> CustomerDataState) list" where
  "CUSTOMER_DATA_TRANSITIONS =
     [((CustomerDataState.ACTIVE, CustomerDataEvent.RETAIN), CustomerDataState.RETAINED),
      ((CustomerDataState.RETAINED, CustomerDataEvent.ANONYMIZE), CustomerDataState.ANONYMIZED),
      ((CustomerDataState.ANONYMIZED, CustomerDataEvent.GDPR_ERASE), CustomerDataState.DELETED)]"

definition CustomerDataFSM_transition ::
  "(uuid \<Rightarrow> ('w, CustomerDataState) io) \<Rightarrow> (uuid \<Rightarrow> CustomerDataState \<Rightarrow> ('w, unit) io)
     \<Rightarrow> uuid \<Rightarrow> CustomerDataEvent
     \<Rightarrow> ('w, (CustomerDataState, CustomerDataEvent) TransitionResult) io" where
  "CustomerDataFSM_transition fetch store eid ev =
     fsm_transition (pair_graph CUSTOMER_DATA_TRANSITIONS) fetch store eid ev"

fun customer_data_rank :: "CustomerDataState \<Rightarrow> nat" where
  "customer_data_rank CustomerDataState.ACTIVE = 3"
| "customer_data_rank CustomerDataState.RETAINED = 2"
| "customer_data_rank CustomerDataState.ANONYMIZED = 1"
| "customer_data_rank CustomerDataState.DELETED = 0"

interpretation cg: ranked_graph "pair_graph CUSTOMER_DATA_TRANSITIONS" customer_data_rank
proof
  show "distinct (map fst (pair_graph CUSTOMER_DATA_TRANSITIONS s))" for s
    by (cases s) (simp_all add: CUSTOMER_DATA_TRANSITIONS_def)
  show "(e, s') \<in> set (pair_graph CUSTOMER_DATA_TRANSITIONS s) \<Longrightarrow>
      customer_data_rank s' < customer_data_rank s" for e s s'
    by (cases s) (auto simp: CUSTOMER_DATA_TRANSITIONS_def)
qed

section \<open>Business schedule (app/domains/schedule/fsm.py)\<close>

datatype BusinessScheduleState = OPEN | CLOSING_SOON | CLOSED

datatype BusinessScheduleEvent = CLOSING_WARNING | CLOSE | OPEN

fun SCHEDULE_TRANSITIONS ::
  "BusinessScheduleState \<Rightarrow> (BusinessScheduleEvent \<times> BusinessScheduleState) list" where
  "SCHEDULE_TRANSITIONS BusinessScheduleState.OPEN =
     [(BusinessScheduleEvent.CLOSING_WARNING, BusinessScheduleState.CLOSING_SOON)]"
| "SCHEDULE_TRANSITIONS BusinessScheduleState.CLOSING_SOON =
     [(BusinessScheduleEvent.CLOSE, BusinessScheduleState.CLOSED)]"
| "SCHEDULE_TRANSITIONS BusinessScheduleState.CLOSED =
     [(BusinessScheduleEvent.OPEN, BusinessScheduleState.OPEN)]"

definition BusinessScheduleFSM_transition ::
  "(uuid \<Rightarrow> ('w, BusinessScheduleState) io) \<Rightarrow> (uuid \<Rightarrow> BusinessScheduleState \<Rightarrow> ('w, unit) io)
     \<Rightarrow> uuid \<Rightarrow> BusinessScheduleEvent
     \<Rightarrow> ('w, (BusinessScheduleState, BusinessScheduleEvent) TransitionResult) io" where
  "BusinessScheduleFSM_transition fetch store eid ev =
     fsm_transition SCHEDULE_TRANSITIONS fetch store eid ev"

interpretation sg: fsm_graph SCHEDULE_TRANSITIONS
proof
  show "distinct (map fst (SCHEDULE_TRANSITIONS s))" for s
    by (cases s) simp_all
qed

text \<open>The schedule has no terminal state: a run of any length exists.\<close>

lemma schedule_live: "\<exists>es. length es = n \<and> fsm_run SCHEDULE_TRANSITIONS s es \<noteq> None"
proof (induction n arbitrary: s)
  case (Suc n)
  have "map_of (SCHEDULE_TRANSITIONS s) (fst (hd (SCHEDULE_TRANSITIONS s)))
      = Some (snd (hd (SCHEDULE_TRANSITIONS s)))"
    by (cases s) simp_all
  then obtain e t where "map_of (SCHEDULE_TRANSITIONS s) e = Some t"
    by blast
  moreover obtain es where "length es = n" "fsm_run SCHEDULE_TRANSITIONS t es \<noteq> None"
    using Suc by blast
  ultimately show ?case
    by (intro exI[of _ "e # es"]) simp
qed simp

section \<open>Staff roles (app/domains/staff/models.py)\<close>

datatype StaffRole = kitchen | courier | admin | staff

fun StaffRole_value :: "StaffRole \<Rightarrow> string" where
  "StaffRole_value StaffRole.kitchen = ''kitchen''"
| "StaffRole_value StaffRole.courier = ''courier''"
| "StaffRole_value StaffRole.admin = ''admin''"
| "StaffRole_value StaffRole.staff = ''staff''"

definition StaffRole_of :: "string \<Rightarrow> StaffRole result" where
  "StaffRole_of v =
     (case List.find (\<lambda>r. StaffRole_value r = v)
        [StaffRole.kitchen, StaffRole.courier, StaffRole.admin, StaffRole.staff] of
        None \<Rightarrow> Inl (ValueError v)
      | Some r \<Rightarrow> Inr r)"

lemma StaffRole_of_value [simp]: "StaffRole_of (StaffRole_value r) = Inr r"
  by (cases r) (simp_all add: StaffRole_of_def)

end
