(* ===== verification/Database.thy ===== *)
theory Database
  imports Order_Domain Kitchen_Domain Aux_Domains Nano_VM
begin

text \<open>
  The stored state: one record per table of src/migrations, the database as
  the record of its tables, and the world a request runs in.

  A session works on \<open>db\<close>, its view of the database; \<open>committed\<close> is what other
  sessions see. \<open>commit\<close> publishes the view and leaving a session without
  commit drops it (rollback). Functions of the code that open a short session
  of their own while another one is running read \<open>committed\<close>. Message
  references of the MAX cards are only ever touched by such short committing
  sessions and are a field of their own.

  Columns of type TEXT/VARCHAR are strings, NUMERIC is rat, INTEGER is int
  with the 32-bit bound checked by the statements that compute a new value,
  TIMESTAMPTZ is a number of seconds, JSONB is json.
\<close>

section \<open>Rows\<close>

record order_row =
  o_id :: uuid
  o_customer_id :: uuid
  o_state :: string
  o_items :: "json list"
  o_delivery_address :: string
  o_payment_id :: "string option"
  o_trace_id :: "string option"
  o_created_at :: int
  o_delivery_mode :: "string option"
  o_zone_id :: "uuid option"
  o_comment :: "string option"
  o_client_max_uid :: "int option"
  o_client_zalo_uid :: "string option"
  o_client_telegram_uid :: "int option"
  o_total_rub :: "int option"
  o_payment_method :: "string option"
  o_promo_code :: "string option"
  o_discount_rub :: int

record kitchen_ticket_row =
  kt_id :: uuid
  kt_order_id :: uuid
  kt_state :: string
  kt_created_at :: int

record delivery_task_row =
  dt_id :: uuid
  dt_order_id :: uuid
  dt_state :: string
  dt_created_at :: int

record inventory_row =
  inv_sku :: string
  inv_name :: string
  inv_quantity :: int
  inv_state :: string

record movement_row =
  mv_sku :: string
  mv_delta :: int
  mv_reason :: string
  mv_source_type :: "string option"
  mv_source_id :: "string option"
  mv_below_zero :: bool
  mv_created_at :: int

record payment_row =
  pay_id :: uuid
  pay_order_id :: uuid
  pay_provider_id :: string
  pay_amount :: rat
  pay_currency :: string
  pay_state :: string

record idempotency_row =
  ik_key :: string
  ik_payload :: json

record customer_row =
  cu_id :: uuid
  cu_name :: string
  cu_phone :: string

record product_row =
  p_id :: uuid
  p_name :: string
  p_category_id :: "uuid option"
  p_time_period_override :: "string option"
  p_price_rub :: "int option"
  p_description :: "string option"
  p_image_url :: "string option"
  p_is_active :: bool
  p_sku :: "string option"
  p_sort :: int

record category_row =
  cat_id :: uuid
  cat_external_id :: "string option"
  cat_name :: string
  cat_parent_id :: "uuid option"
  cat_time_period :: string
  cat_fulfillment_scope :: string
  cat_sort :: int
  cat_is_active :: bool

record zone_row =
  z_id :: uuid
  z_external_id :: "string option"
  z_name :: string
  z_delivery_time_minutes :: int
  z_is_active :: bool
  z_delivery_fee_rub :: int

record promotion_row =
  pr_id :: uuid
  pr_name :: string
  pr_discount :: rat
  pr_state :: string
  pr_effect_type :: string
  pr_trigger_code :: "string option"
  pr_created_at :: int

record schedule_row =
  sw_id :: uuid
  sw_period :: string
  sw_start_time :: int
  sw_end_time :: int
  sw_is_active :: bool
  sw_effective_date :: "int option"

record staff_row =
  st_id :: uuid
  st_name :: string
  st_role :: string
  st_max_user_id :: "int option"
  st_telegram_user_id :: "int option"
  st_zalo_user_id :: "string option"
  st_active :: bool
  st_created_at :: int

record message_ref_row =
  mr_entity_kind :: string
  mr_entity_id :: string
  mr_max_user_id :: int
  mr_message_id :: string

record database =
  orders :: "order_row list"
  kitchen_tickets :: "kitchen_ticket_row list"
  delivery_tasks :: "delivery_task_row list"
  inventory :: "inventory_row list"
  inventory_movements :: "movement_row list"
  payments :: "payment_row list"
  idempotency_keys :: "idempotency_row list"
  customers :: "customer_row list"
  products :: "product_row list"
  categories :: "category_row list"
  delivery_zones :: "zone_row list"
  promotions :: "promotion_row list"
  schedule_windows :: "schedule_row list"
  staff_members :: "staff_row list"

definition empty_db :: database where
  "empty_db = \<lparr>orders = [], kitchen_tickets = [], delivery_tasks = [], inventory = [],
     inventory_movements = [], payments = [], idempotency_keys = [], customers = [],
     products = [], categories = [], delivery_zones = [], promotions = [],
     schedule_windows = [], staff_members = []\<rparr>"

section \<open>Messages\<close>

text \<open>
  What leaves the system: the cards of the staff chat and the pushes to
  customers. Texts are kept as their structured content (the labels are
  Russian literals of the code and carry no other information).
\<close>

datatype detail_line =
    CompositionLine "(json \<times> json) list"
  | AddressLine string
  | PhoneLine string
  | CommentLine string
  | OnlinePaymentLine string bool
  | CashLine

datatype card_text =
    KitchenCard string KitchenState "detail_line list"
  | CourierCard string OrderState "detail_line list"
  | AdminCard string OrderState "KitchenState option" "detail_line list"
  | StaffCard string OrderState "KitchenState option" "detail_line list"

datatype button_payload = Button (btn_kind: string) (btn_id: uuid) (btn_event: string)

datatype message =
    MaxSend int card_text "button_payload list list"
  | MaxEdit string card_text "button_payload list list"
  | CustomerPush string string string
  | TelegramText string string
  | CallbackAnswer json string

section \<open>The world\<close>

record trace_event =
  te_trace_id :: string
  te_entity_id :: string
  te_domain :: string
  te_event :: string
  te_from_state :: string
  te_to_state :: string
  te_metadata :: json

text \<open>
  \<open>uuids\<close> is the sequence of identifiers that \<open>uuid_generate_v4()\<close> and
  \<open>uuid4()\<close> will return and \<open>uuid_next\<close> the position in it. \<open>edit_accepted\<close> and
  \<open>sent_message_id\<close> are the answers of the MAX API to the next call, given the
  number of messages sent so far. \<open>diagnostics\<close> is the side channel in which the
  validators of an agent program leave the reason of a rejection; every run of
  an agent starts with an empty one.
\<close>

record world =
  db :: database
  committed :: database
  message_refs :: "message_ref_row list"
  outbox :: "message list"
  saved_traces :: "trace list"
  trace_log :: "trace_event list"
  uuids :: "nat \<Rightarrow> uuid"
  uuid_next :: nat
  now :: int
  edit_accepted :: "nat \<Rightarrow> bool"
  sent_message_id :: "nat \<Rightarrow> string option"
  diagnostics :: "string option"

definition commit :: "(world, unit) io" where
  "commit = modify_io (\<lambda>w. w\<lparr>committed := db w\<rparr>)"

definition with_session :: "(world, 'a) io \<Rightarrow> (world, 'a) io" where
  "with_session m =
     (\<lambda>w. case m (w\<lparr>db := committed w\<rparr>) of (r, w1) \<Rightarrow> (r, w1\<lparr>db := committed w1\<rparr>))"

definition new_uuid :: "(world, uuid) io" where
  "new_uuid = (\<lambda>w. (Inr (uuids w (uuid_next w)), w\<lparr>uuid_next := Suc (uuid_next w)\<rparr>))"

definition select_db :: "(database \<Rightarrow> 'a) \<Rightarrow> (world, 'a) io" where
  "select_db f = gets_io (\<lambda>w. f (db w))"

definition update_db :: "(database \<Rightarrow> database) \<Rightarrow> (world, unit) io" where
  "update_db f = modify_io (\<lambda>w. w\<lparr>db := f (db w)\<rparr>)"

definition select_committed :: "(database \<Rightarrow> 'a) \<Rightarrow> (world, 'a) io" where
  "select_committed f = gets_io (\<lambda>w. f (committed w))"

definition save_trace :: "trace \<Rightarrow> (world, unit) io" where
  "save_trace tr =
     modify_io (\<lambda>w. if trace_id tr = [] then w else w\<lparr>saved_traces := saved_traces w @ [tr]\<rparr>)"

text \<open>INTEGER columns: a computed value outside 32 bits is an error of the statement.\<close>

definition int4 :: "int \<Rightarrow> bool" where
  "int4 n \<longleftrightarrow> - (2 ^ 31) \<le> n \<and> n < 2 ^ 31"

definition check_int4 :: "int \<Rightarrow> (world, unit) io" where
  "check_int4 n = (if int4 n then ret () else raise (DataError ''integer out of range''))"

text \<open>BIGINT parameters and VARCHAR(n) columns: out of range or too long is an error as well.\<close>

definition int8 :: "int \<Rightarrow> bool" where
  "int8 n \<longleftrightarrow> - (2 ^ 63) \<le> n \<and> n < 2 ^ 63"

definition check_int8 :: "int \<Rightarrow> (world, unit) io" where
  "check_int8 n = (if int8 n then ret () else raise (DataError ''value out of int64 range''))"

definition check_varchar :: "nat \<Rightarrow> string \<Rightarrow> (world, unit) io" where
  "check_varchar n s = (if length s \<le> n then ret () else raise (DataError ''value too long''))"

text \<open>A check of a nullable column.\<close>

definition check_opt :: "('a \<Rightarrow> (world, unit) io) \<Rightarrow> 'a option \<Rightarrow> (world, unit) io" where
  "check_opt check v = (case v of None \<Rightarrow> ret () | Some x \<Rightarrow> check x)"

text \<open>
  A value bound to a column: NULL in a NOT NULL column is an IntegrityError, a
  value of another type an error of the driver.
\<close>

definition text_param :: "json \<Rightarrow> string result" where
  "text_param v = (case v of
       JStr s \<Rightarrow> Inr s
     | JNull \<Rightarrow> Inl (IntegrityError ''not null'')
     | _ \<Rightarrow> Inl (DataError ''expected str''))"

definition opt_text_param :: "json \<Rightarrow> string option result" where
  "opt_text_param v = (case v of JNull \<Rightarrow> Inr None | JStr s \<Rightarrow> Inr (Some s) | _ \<Rightarrow> Inl (DataError ''expected str''))"

lemma commit_apply [io_simps, simp]: "commit w = (Inr (), w\<lparr>committed := db w\<rparr>)"
  by (simp add: commit_def)

lemma new_uuid_apply [io_simps, simp]:
  "new_uuid w = (Inr (uuids w (uuid_next w)), w\<lparr>uuid_next := Suc (uuid_next w)\<rparr>)"
  by (simp add: new_uuid_def)

lemma select_db_apply [io_simps, simp]: "select_db f w = (Inr (f (db w)), w)"
  by (simp add: select_db_def)

lemma update_db_apply [io_simps, simp]: "update_db f w = (Inr (), w\<lparr>db := f (db w)\<rparr>)"
  by (simp add: update_db_def)

lemma select_committed_apply [io_simps, simp]: "select_committed f w = (Inr (f (committed w)), w)"
  by (simp add: select_committed_def)

lemma save_trace_apply [io_simps, simp]:
  "save_trace tr w = (Inr (), if trace_id tr = [] then w else w\<lparr>saved_traces := saved_traces w @ [tr]\<rparr>)"
  by (simp add: save_trace_def)

lemma check_int4_apply [io_simps]:
  "check_int4 n w = (if int4 n then (Inr (), w) else (Inl (DataError ''integer out of range''), w))"
  by (simp add: check_int4_def)

lemma check_int8_apply [io_simps]:
  "check_int8 n w = (if int8 n then (Inr (), w) else (Inl (DataError ''value out of int64 range''), w))"
  by (simp add: check_int8_def)

lemma check_varchar_apply [io_simps]:
  "check_varchar n s w = (if length s \<le> n then (Inr (), w) else (Inl (DataError ''value too long''), w))"
  by (simp add: check_varchar_def)

lemma check_opt_None [simp]: "check_opt check None = ret ()"
  by (simp add: check_opt_def)

lemma check_opt_Some [simp]: "check_opt check (Some x) = check x"
  by (simp add: check_opt_def)

lemma check_opt_apply [io_simps]:
  "check_opt check_int4 v w =
     (if pred_option int4 v then (Inr (), w) else (Inl (DataError ''integer out of range''), w))"
  "check_opt (check_varchar n) t w =
     (if pred_option (\<lambda>s. length s \<le> n) t then (Inr (), w) else (Inl (DataError ''value too long''), w))"
  by (cases v; simp add: check_int4_apply) (cases t; simp add: check_varchar_apply)

lemma check_Inr_iff:
  "check_int4 n w = (Inr u, w') \<longleftrightarrow> int4 n \<and> w' = w"
  "check_int8 n w = (Inr u, w') \<longleftrightarrow> int8 n \<and> w' = w"
  "check_varchar m s w = (Inr u, w') \<longleftrightarrow> length s \<le> m \<and> w' = w"
  by (auto simp: check_int4_apply check_int8_apply check_varchar_apply)

lemma with_session_apply [io_simps]:
  "with_session m w =
     (case m (w\<lparr>db := committed w\<rparr>) of (r, w1) \<Rightarrow> (r, w1\<lparr>db := committed w1\<rparr>))"
  by (simp add: with_session_def)

text \<open>
  Between requests no session is open: the view is the committed database.
\<close>

definition idle :: "world \<Rightarrow> bool" where
  "idle w \<longleftrightarrow> db w = committed w"

lemma with_session_idle: "with_session m w = (r, w') \<Longrightarrow> idle w'"
  by (auto simp: with_session_def idle_def split: prod.splits)

lemma with_session_eq: "idle w \<Longrightarrow>
  with_session m w = (case m w of (r, w1) \<Rightarrow> (r, w1\<lparr>db := committed w1\<rparr>))"
proof -
  assume "idle w"
  then have "w\<lparr>db := committed w\<rparr> = w" by (cases w) (simp add: idle_def)
  then show ?thesis by (simp add: with_session_def)
qed

text \<open>
  A computation that leaves the committed database alone: what it did to the
  session's view is lost when the session ends.
\<close>

definition no_commit :: "(world, 'a) io \<Rightarrow> bool" where
  "no_commit m \<longleftrightarrow> (\<forall>w. committed (snd (m w)) = committed w)"

lemma no_commitD: "no_commit m \<Longrightarrow> m w = (r, w') \<Longrightarrow> committed w' = committed w"
  by (metis no_commit_def snd_conv)

named_theorems no_commit_intros "computations that do not commit"

lemma no_commit_basic [no_commit_intros, intro, simp]:
  "no_commit (ret x)" "no_commit (raise e)" "no_commit new_uuid" "no_commit (select_db f)"
  "no_commit (update_db g)" "no_commit (select_committed f)" "no_commit (save_trace tr)"
  "no_commit (check_int4 n)" "no_commit (check_int8 n)" "no_commit (check_varchar m s)"
  by (simp_all add: no_commit_def check_int4_apply check_int8_apply check_varchar_apply)

lemma no_commit_check_opt [no_commit_intros, intro]:
  "(\<And>x. no_commit (check x)) \<Longrightarrow> no_commit (check_opt check v)"
  by (cases v) auto

lemma no_commit_bind [no_commit_intros, intro]:
  "no_commit m \<Longrightarrow> (\<And>x. no_commit (k x)) \<Longrightarrow> no_commit (bind_io m k)"
proof -
  assume m: "no_commit m" and k: "\<And>x. no_commit (k x)"
  have "committed (snd (bind_io m k w)) = committed w" for w
  proof (cases "m w")
    case (Pair r w1)
    then have "committed w1 = committed w" using m no_commitD by blast
    then show ?thesis
      using Pair k by (cases r) (simp_all add: no_commit_def)
  qed
  then show ?thesis by (simp add: no_commit_def)
qed

lemma no_commit_fold [no_commit_intros, intro]:
  "(\<And>x s. no_commit (f x s)) \<Longrightarrow> no_commit (fold_io f xs s)"
  by (induction xs arbitrary: s) auto

lemma no_commit_session [no_commit_intros, intro]:
  assumes "no_commit m"
  shows "no_commit (with_session m)"
  unfolding no_commit_def
proof
  fix w
  obtain r w1 where m: "m (w\<lparr>db := committed w\<rparr>) = (r, w1)" by fastforce
  then show "committed (snd (with_session m w)) = committed w"
    using no_commitD[OF assms m] by (simp add: with_session_apply)
qed

lemma no_commit_catch [no_commit_intros, intro]:
  assumes "no_commit m" "\<And>e. no_commit (h e)"
  shows "no_commit (catch_io m h)"
  unfolding no_commit_def
proof
  fix w
  obtain r w1 where m: "m w = (r, w1)" by fastforce
  then show "committed (snd (catch_io m h w)) = committed w"
    using no_commitD[OF assms(1) m] assms(2) by (cases r) (simp_all add: catch_io_def no_commit_def)
qed

lemma no_commit_branch [no_commit_intros, intro]:
  "no_commit m \<Longrightarrow> no_commit n \<Longrightarrow> no_commit (if b then m else n)"
  "no_commit m \<Longrightarrow> (\<And>y. no_commit (k y)) \<Longrightarrow> no_commit (case x of None \<Rightarrow> m | Some y \<Rightarrow> k y)"
  by (auto split: option.splits)

lemma no_commit_cases [no_commit_intros, intro]:
  "(\<And>e. no_commit (f e)) \<Longrightarrow> (\<And>y. no_commit (g y)) \<Longrightarrow> no_commit (case r of Inl e \<Rightarrow> f e | Inr y \<Rightarrow> g y)"
  "no_commit m \<Longrightarrow> (\<And>y ys. no_commit (h y ys)) \<Longrightarrow> no_commit (case l of [] \<Rightarrow> m | y # ys \<Rightarrow> h y ys)"
  "(\<And>a b. no_commit (k a b)) \<Longrightarrow> no_commit (case q of (a, b) \<Rightarrow> k a b)"
  by (auto split: sum.splits list.splits prod.splits)

lemma no_commit_json [no_commit_intros]:
  "no_commit a \<Longrightarrow> (\<And>x. no_commit (f1 x)) \<Longrightarrow> (\<And>x. no_commit (f2 x)) \<Longrightarrow> (\<And>x. no_commit (f3 x)) \<Longrightarrow>
     (\<And>x. no_commit (f4 x)) \<Longrightarrow> (\<And>x. no_commit (f5 x)) \<Longrightarrow> (\<And>x. no_commit (f6 x)) \<Longrightarrow>
     no_commit (case v of JNull \<Rightarrow> a | JBool x \<Rightarrow> f1 x | JInt x \<Rightarrow> f2 x | JFloat x \<Rightarrow> f3 x | JStr x \<Rightarrow> f4 x
       | JList x \<Rightarrow> f5 x | JObj x \<Rightarrow> f6 x)"
  by (cases v) simp_all

lemma no_commit_keeps: "no_commit m \<longleftrightarrow> (\<forall>c. keeps (\<lambda>w. committed w = c) m)"
  by (auto simp: no_commit_def keeps_def)

section \<open>State of a stored entity\<close>

definition order_state_in :: "database \<Rightarrow> uuid \<Rightarrow> string option" where
  "order_state_in d i = map_option o_state (first_where (\<lambda>r. o_id r = i) (orders d))"

definition ticket_state_in :: "database \<Rightarrow> uuid \<Rightarrow> string option" where
  "ticket_state_in d i = map_option kt_state (first_where (\<lambda>r. kt_id r = i) (kitchen_tickets d))"

definition quantity_in :: "database \<Rightarrow> string \<Rightarrow> int option" where
  "quantity_in d s = map_option inv_quantity (first_where (\<lambda>r. inv_sku r = s) (inventory d))"

text \<open>The primary and unique keys that the statements of the model rely on.\<close>

definition keys_unique :: "database \<Rightarrow> bool" where
  "keys_unique d \<longleftrightarrow> key_unique o_id (orders d) \<and> key_unique kt_id (kitchen_tickets d)
     \<and> key_unique inv_sku (inventory d) \<and> key_unique pay_id (payments d)
     \<and> key_unique ik_key (idempotency_keys d) \<and> key_unique p_id (products d)"

end
