(* ===== verification/Platform.thy ===== *)
theory Platform
  imports Database Py_Text
begin

text \<open>
  What a request finds around it and does not own: the settings
  (app/config.py), the execution VM with its executor and validator, the HTTP
  API of the payment provider, the repr of compound Python values, the lower()
  of the database, the validation of a stored order item (pydantic's
  model_validate), HMAC-SHA256, URL decoding, JSON parsing and compact JSON texts,
  the profile lookup of the Zalo API (None is ZaloProfileError), SHA-256, the check
  of a password against its hash (passlib), the offset of the menu's time
  zone from UTC at a moment, in seconds, and the collation of the database, which
  orders texts. Every service takes this record as its
  first argument.
\<close>

record settings =
  YOOKASSA_SHOP_ID :: string
  YOOKASSA_SECRET_KEY :: string
  YOOKASSA_RETURN_URL :: string
  DELIVERY_FEE :: int
  MAX_BOT_TOKEN :: string
  TELEGRAM_BOT_TOKEN :: string
  MAX_WEBHOOK_SECRET :: string
  ZALO_API_KEY :: string
  DASHBOARD_USER :: string
  DASHBOARD_PASSWORD_HASH :: string
  TELEGRAM_WEBHOOK_SECRET :: string
  MENU_MORNING_END_HOUR :: int

record platform =
  cfg :: settings
  run_vm :: "world vm_run"
  permits :: "capabilities \<Rightarrow> string \<Rightarrow> bool"
  validates :: "program \<Rightarrow> bool"
  http_post :: "string \<Rightarrow> json \<Rightarrow> json result"
  http_get :: "string \<Rightarrow> json result"
  repr_of :: "json \<Rightarrow> string"
  db_lower :: "string \<Rightarrow> string"
  parse_order_item :: "json \<Rightarrow> OrderItem option"
  hmac_sha256 :: "string \<Rightarrow> string \<Rightarrow> string"
  url_unquote :: "string \<Rightarrow> string"
  json_loads :: "string \<Rightarrow> json result"
  json_dumps :: "json \<Rightarrow> string"
  zalo_profile :: "string \<Rightarrow> json option"
  sha256_hex :: "string \<Rightarrow> string"
  verify_password :: "string \<Rightarrow> string \<Rightarrow> bool"
  utc_offset :: "int \<Rightarrow> int"
  db_le :: "string \<Rightarrow> string \<Rightarrow> bool"

text \<open>The hypothesis of the properties that run governed programs.\<close>

definition vm_ok :: "platform \<Rightarrow> bool" where
  "vm_ok pf \<longleftrightarrow> execution_vm (run_vm pf) (permits pf) (validates pf)"

text \<open>The item a checkout stores, and a validation that reads exactly such items back.\<close>

definition dump_order_item :: "OrderItem \<Rightarrow> json" where
  "dump_order_item it = JObj [(''product_id'', JStr (oi_product_id it)), (''name'', JStr (oi_name it)),
     (''price_rub'', JInt (oi_price_rub it)), (''qty'', JInt (oi_qty it))]"

definition ref_order_item :: "json \<Rightarrow> OrderItem option" where
  "ref_order_item j = (case j of
       JObj kvs \<Rightarrow>
         (case (map_of kvs ''product_id'', map_of kvs ''name'', map_of kvs ''price_rub'', map_of kvs ''qty'') of
            (Some (JStr p), Some (JStr n), Some (JInt r), Some (JInt q)) \<Rightarrow>
              Some \<lparr>oi_product_id = p, oi_name = n, oi_price_rub = r, oi_qty = q\<rparr>
          | _ \<Rightarrow> None)
     | _ \<Rightarrow> None)"

lemma ref_order_item_dump [simp]: "ref_order_item (dump_order_item it) = Some it"
  by (simp add: ref_order_item_def dump_order_item_def)

text \<open>
  A platform for evaluation: the reference interpreter, a provider without
  credentials, and settings with the default delivery fee.
\<close>

fun text_le :: "string \<Rightarrow> string \<Rightarrow> bool" where
  "text_le [] t = True"
| "text_le (c # s) [] = False"
| "text_le (c # s) (d # t) = (if c = d then text_le s t else code c < code d)"

definition ref_platform :: platform where
  "ref_platform = \<lparr>
     cfg = \<lparr>YOOKASSA_SHOP_ID = [], YOOKASSA_SECRET_KEY = [], YOOKASSA_RETURN_URL = [],
            DELIVERY_FEE = 99, MAX_BOT_TOKEN = ''max'', TELEGRAM_BOT_TOKEN = [],
            MAX_WEBHOOK_SECRET = ''secret'',
            ZALO_API_KEY = ''zkey'', DASHBOARD_USER = ''boss'', DASHBOARD_PASSWORD_HASH = ''hash'',
            TELEGRAM_WEBHOOK_SECRET = ''tg'', MENU_MORNING_END_HOUR = 16\<rparr>,
     run_vm = ref_run ''{}'' ''trace'',
     permits = ref_permits,
     validates = forward_program,
     http_post = (\<lambda>_ _. Inl (HTTPError ''unreachable'')),
     http_get = (\<lambda>_. Inl (HTTPError ''unreachable'')),
     repr_of = (\<lambda>_. ''...''),
     db_lower = py_lower,
     parse_order_item = ref_order_item,
     hmac_sha256 = (\<lambda>k m. take 4 m @ take 4 k),
     url_unquote = (\<lambda>s. s),
     json_loads = (\<lambda>s. if s = ''{\"id\":7}'' then Inr (JObj [(''id'', JInt 7)]) else Inl (ValueError s)),
     json_dumps = (\<lambda>_. ''{}''),
     zalo_profile = (\<lambda>t. if t = ''ztok'' then Some (JObj [(''id'', JStr ''z7'')]) else None),
     sha256_hex = (\<lambda>s. take 8 (rev s)),
     verify_password = (\<lambda>p h. h = ''hash'' \<and> p = ''pw''),
     utc_offset = (\<lambda>_. 25200),
     db_le = text_le\<rparr>"

lemma ref_platform_sel [simp]:
  "run_vm ref_platform = ref_run ''{}'' ''trace''"
  "permits ref_platform = ref_permits"
  "validates ref_platform = forward_program"
  "cfg ref_platform = \<lparr>YOOKASSA_SHOP_ID = [], YOOKASSA_SECRET_KEY = [], YOOKASSA_RETURN_URL = [],
            DELIVERY_FEE = 99, MAX_BOT_TOKEN = ''max'', TELEGRAM_BOT_TOKEN = [],
            MAX_WEBHOOK_SECRET = ''secret'',
            ZALO_API_KEY = ''zkey'', DASHBOARD_USER = ''boss'', DASHBOARD_PASSWORD_HASH = ''hash'',
            TELEGRAM_WEBHOOK_SECRET = ''tg'', MENU_MORNING_END_HOUR = 16\<rparr>"
  "http_get ref_platform u = Inl (HTTPError ''unreachable'')"
  "http_post ref_platform u b = Inl (HTTPError ''unreachable'')"
  "db_lower ref_platform = py_lower"
  "parse_order_item ref_platform = ref_order_item"
  by (simp_all add: ref_platform_def)

lemma vm_ok_ref [simp]: "vm_ok ref_platform"
  unfolding vm_ok_def ref_platform_sel by (rule ref_vm.execution_vm_axioms)

text \<open>Every service builds its registry with the platform's executor.\<close>

definition governed :: "platform \<Rightarrow> capabilities \<Rightarrow> (string \<times> world tool) list \<Rightarrow> string \<Rightarrow> world tool option" where
  "governed pf caps tools = register_tools (permits pf) caps tools"

lemma governed_permitted:
  assumes "vm_ok pf" "map_of tools name = Some fn" "name \<in> fst ` set caps"
  shows "governed pf caps tools name = Some fn"
  unfolding governed_def
  using assms execution_vm.register_permitted unfolding vm_ok_def by blast

lemma run_vm_exec:
  assumes "vm_ok pf" "forward_program p" "run_vm pf tools p ctx w = (tr, w')"
  shows "vm_exec tools (program_steps p) ctx 0 [] w (trace_status tr) (trace_steps tr) w'"
  by (rule execution_vm.run_cases[OF assms(1)[unfolded vm_ok_def] assms(2,3)])

lemma validates_forward: "vm_ok pf \<Longrightarrow> forward_program p \<Longrightarrow> validates pf p"
  unfolding vm_ok_def by (rule execution_vm.validates_forward)

text \<open>
  What the governed tools of a registry keep, a governed run keeps. The
  executor's denial does not touch the world, so no capability is needed.
\<close>

lemma run_vm_keeps:
  assumes "vm_ok pf" "forward_program p" "run_vm pf (governed pf caps tools) p ctx w = (tr, w')"
    and "\<And>tn f kw. map_of tools tn = Some f \<Longrightarrow> tn \<in> set (tools_called (program_steps p)) \<Longrightarrow> keeps P (f kw)"
    and "P w"
  shows "P w'"
proof (rule vm_exec_invariant[where P = P, OF run_vm_exec[OF assms(1-3)]])
  fix tn f kw
  assume "governed pf caps tools tn = Some f" "tn \<in> set (tools_called (program_steps p))"
  then show "keeps P (f kw)"
    using assms(4) by (auto simp: governed_def register_tools_def governed_tool_def)
qed (rule assms(5))

end
