(* ===== verification/Inventory_Tools.thy ===== *)
theory Inventory_Tools
  imports Platform
begin

text \<open>
  Stock: the movement ledger (app/services/inventory_ledger.py), the inventory
  tools (app/tools/inventory_tools.py) and the reservation tool of the order
  programs (reserve_inventory_items in app/tools/order_tools.py).
\<close>

section \<open>Ledger\<close>

definition record_movement ::
  "string \<Rightarrow> int \<Rightarrow> string \<Rightarrow> string option \<Rightarrow> string option \<Rightarrow> bool \<Rightarrow> (world, unit) io" where
  "record_movement sku delta rsn source_type source_id below_zero =
     bind_io (check_int4 delta) (\<lambda>_.
     modify_io (\<lambda>w. w\<lparr>db := (db w)\<lparr>inventory_movements := inventory_movements (db w) @
       [\<lparr>mv_sku = sku, mv_delta = delta, mv_reason = rsn, mv_source_type = source_type,
         mv_source_id = source_id, mv_below_zero = below_zero, mv_created_at = now w\<rparr>]\<rparr>\<rparr>))"

definition quantity_for_update :: "string \<Rightarrow> (world, int option) io" where
  "quantity_for_update sku = select_db (\<lambda>d. quantity_in d sku)"

definition write_quantity :: "string \<Rightarrow> int \<Rightarrow> (world, unit) io" where
  "write_quantity sku q =
     bind_io (check_int4 q) (\<lambda>_.
     update_db (\<lambda>d. d\<lparr>inventory := update_where (\<lambda>r. inv_sku r = sku) (\<lambda>r. r\<lparr>inv_quantity := q\<rparr>) (inventory d)\<rparr>))"

definition write_inventory_state :: "string \<Rightarrow> string \<Rightarrow> (world, unit) io" where
  "write_inventory_state sku st =
     update_db (\<lambda>d. d\<lparr>inventory := update_where (\<lambda>r. inv_sku r = sku) (\<lambda>r. r\<lparr>inv_state := st\<rparr>) (inventory d)\<rparr>)"

section \<open>Inventory tools\<close>

definition check_inventory_stock :: "string \<Rightarrow> (world, int) io" where
  "check_inventory_stock sku =
     bind_io (quantity_for_update sku) (\<lambda>q. ret (case q of None \<Rightarrow> 0 | Some n \<Rightarrow> n))"

definition decrement_inventory :: "string \<Rightarrow> int \<Rightarrow> (world, int) io" where
  "decrement_inventory sku quantity =
     bind_io (quantity_for_update sku) (\<lambda>current.
       case current of
         None \<Rightarrow> ret 0
       | Some n \<Rightarrow>
           if n < quantity then ret 0
           else bind_io (check_int4 quantity) (\<lambda>_.
                bind_io (write_quantity sku (n - quantity)) (\<lambda>_.
                bind_io (record_movement sku (- quantity) ''ADJUSTMENT'' None None False) (\<lambda>_.
                ret 1))))"

definition increment_inventory ::
  "string \<Rightarrow> int \<Rightarrow> string option \<Rightarrow> string option \<Rightarrow> string option \<Rightarrow> (world, string) io" where
  "increment_inventory sku quantity rsn source_type source_id =
     bind_io (quantity_for_update sku) (\<lambda>current.
       case current of
         None \<Rightarrow> raise (ValueError (''sku not found: '' @ sku))
       | Some n \<Rightarrow>
           bind_io (check_int4 quantity) (\<lambda>_.
           bind_io (write_quantity sku (n + quantity)) (\<lambda>_.
           bind_io (record_movement sku quantity
                      (case rsn of
                         Some r \<Rightarrow> if r = ''RESTOCK_MANUAL'' \<or> r = ''RESTOCK_AGENT'' then r
                                  else ''RESTOCK_MANUAL''
                       | None \<Rightarrow> ''RESTOCK_MANUAL'')
                      (case source_type of Some t \<Rightarrow> if t = [] then None else Some t | None \<Rightarrow> None)
                      (case source_id of Some t \<Rightarrow> if t = [] then None else Some t | None \<Rightarrow> None)
                      False) (\<lambda>_.
           ret ''OK''))))"

definition set_inventory_quantity :: "string \<Rightarrow> int \<Rightarrow> (world, string) io" where
  "set_inventory_quantity sku quantity =
     bind_io (quantity_for_update sku) (\<lambda>current.
       case current of
         None \<Rightarrow> raise (ValueError (''sku not found: '' @ sku))
       | Some n \<Rightarrow>
           bind_io (write_quantity sku quantity) (\<lambda>_.
           bind_io (if quantity - n \<noteq> 0
                    then record_movement sku (quantity - n) ''ADJUSTMENT'' None None False
                    else ret ()) (\<lambda>_.
           ret ''OK'')))"

definition state_for_quantity :: "int \<Rightarrow> InventoryState" where
  "state_for_quantity qty =
     (if qty \<le> 0 then InventoryState.OUT_OF_STOCK
      else if qty < 5 then InventoryState.CRITICAL
      else if qty < 20 then InventoryState.LOW_STOCK
      else InventoryState.AVAILABLE)"

definition set_inventory_state :: "string \<Rightarrow> (world, string) io" where
  "set_inventory_state sku =
     bind_io (quantity_for_update sku) (\<lambda>current.
       case current of
         None \<Rightarrow> raise (ValueError (''sku not found: '' @ sku))
       | Some n \<Rightarrow>
           bind_io (write_inventory_state sku (InventoryState_value (state_for_quantity n))) (\<lambda>_.
           ret ''OK''))"

section \<open>Reservation for an order\<close>

definition item_field :: "string \<Rightarrow> json \<Rightarrow> json option" where
  "item_field k item = (case item of JObj kvs \<Rightarrow> map_of kvs k | _ \<Rightarrow> None)"

text \<open>The sku of an item: its own, or that of the product it names; empty when neither.\<close>

definition item_sku :: "platform \<Rightarrow> json \<Rightarrow> (world, json) io" where
  "item_sku pf item =
     (let own = (case item_field ''sku'' item of None \<Rightarrow> JNull | Some v \<Rightarrow> v) in
      if py_truthy own then ret own
      else case item_field ''product_id'' item of
             None \<Rightarrow> ret own
           | Some pid \<Rightarrow>
               if \<not> py_truthy pid then ret own
               else bind_io (lift_result (parse_uuid (py_str (repr_of pf) pid))) (\<lambda>u.
                    select_db (\<lambda>d. case first_where (\<lambda>r. p_id r = u) (products d) of
                        Some r \<Rightarrow> (case p_sku r of Some s \<Rightarrow> JStr s | None \<Rightarrow> JStr [])
                      | None \<Rightarrow> JStr [])))"

definition item_qty :: "json \<Rightarrow> int result" where
  "item_qty item = (case item of
       JObj kvs \<Rightarrow> (case map_of kvs ''qty'' of None \<Rightarrow> Inr 1 | Some v \<Rightarrow> py_int v)
     | _ \<Rightarrow> Inr 1)"

definition reserve_sku :: "uuid \<Rightarrow> string \<Rightarrow> int \<Rightarrow> bool \<Rightarrow> (world, bool) io" where
  "reserve_sku order_id sku qty any_below =
     bind_io (quantity_for_update sku) (\<lambda>stock_row.
       case stock_row of
         None \<Rightarrow> ret any_below
       | Some n \<Rightarrow>
           bind_io (check_int4 qty) (\<lambda>_.
           bind_io (write_quantity sku (n - qty)) (\<lambda>_.
           bind_io (record_movement sku (- qty) ''SALE'' (Some ''order'') (Some order_id) (n - qty < 0)) (\<lambda>_.
           ret (any_below \<or> n - qty < 0)))))"

definition reserve_item :: "platform \<Rightarrow> uuid \<Rightarrow> json \<Rightarrow> bool \<Rightarrow> (world, bool) io" where
  "reserve_item pf order_id item any_below =
     bind_io (lift_result (item_qty item)) (\<lambda>qty.
     bind_io (item_sku pf item) (\<lambda>sku.
       if \<not> py_truthy sku then ret any_below
       else case sku of
              JStr s \<Rightarrow> reserve_sku order_id s qty any_below
            | _ \<Rightarrow> raise (DataError ''invalid input for query argument'')))"

definition reserve_items :: "platform \<Rightarrow> uuid \<Rightarrow> (world, int) io" where
  "reserve_items pf order_id =
     bind_io (select_db (\<lambda>d. map_option o_items (first_where (\<lambda>r. o_id r = order_id) (orders d)))) (\<lambda>row.
       case row of
         None \<Rightarrow> raise (ValueError (''order not found: '' @ order_id))
       | Some items \<Rightarrow>
           bind_io (fold_io (reserve_item pf order_id) items False) (\<lambda>any_below.
           ret (if any_below then 1 else 0)))"

section \<open>The ledger invariant\<close>

text \<open>
  The quantity of a sku is what it was before the ledger plus the sum of its
  movements: the base of a sku is a constant of every operation of this theory. A
  sku without a row has quantity 0.
\<close>

definition ledger_sum :: "database \<Rightarrow> string \<Rightarrow> int" where
  "ledger_sum d s = sum_list (map mv_delta (rows_where (\<lambda>m. mv_sku m = s) (inventory_movements d)))"

definition stock_base :: "database \<Rightarrow> string \<Rightarrow> int" where
  "stock_base d s = (case quantity_in d s of None \<Rightarrow> 0 | Some q \<Rightarrow> q) - ledger_sum d s"

definition same_base :: "(string \<Rightarrow> int) \<Rightarrow> world \<Rightarrow> bool" where
  "same_base b w \<longleftrightarrow> key_unique inv_sku (inventory (db w)) \<and> stock_base (db w) = b"

text \<open>One booked change: the quantity of a sku moves by delta and the ledger gets the row.\<close>

definition booked :: "string \<Rightarrow> int \<Rightarrow> movement_row \<Rightarrow> database \<Rightarrow> database" where
  "booked s q m d = d\<lparr>
     inventory := update_where (\<lambda>r. inv_sku r = s) (\<lambda>r. r\<lparr>inv_quantity := q\<rparr>) (inventory d),
     inventory_movements := inventory_movements d @ [m]\<rparr>"

lemma quantity_in_update:
  "quantity_in (d\<lparr>inventory := update_where (\<lambda>r. inv_sku r = s') (\<lambda>r. r\<lparr>inv_quantity := q\<rparr>) (inventory d)\<rparr>) s =
    (if s = s' then map_option (\<lambda>_. q) (quantity_in d s) else quantity_in d s)"
  by (simp add: quantity_in_def first_where_update_key option.map_comp comp_def)

lemma ledger_sum_append:
  "ledger_sum (d\<lparr>inventory_movements := inventory_movements d @ [m]\<rparr>) s =
    ledger_sum d s + (if mv_sku m = s then mv_delta m else 0)"
  by (simp add: ledger_sum_def rows_where_def)

lemma stock_base_booked:
  assumes "quantity_in d s = Some n" "mv_sku m = s" "mv_delta m = q - n"
  shows "stock_base (booked s q m d) = stock_base d"
proof
  fix t
  have "quantity_in (booked s q m d) t = (if t = s then map_option (\<lambda>_. q) (quantity_in d t) else quantity_in d t)"
    using quantity_in_update[where d = d and s = t and s' = s and q = q] by (simp add: booked_def quantity_in_def)
  moreover have "ledger_sum (booked s q m d) t = ledger_sum d t + (if s = t then q - n else 0)"
    using assms ledger_sum_append[where d = d and m = m and s = t] by (simp add: booked_def ledger_sum_def)
  ultimately show "stock_base (booked s q m d) t = stock_base d t"
    using assms(1) by (auto simp: stock_base_def split: option.splits)
qed

text \<open>
  The common body of the delta operations: write the quantity, then book the
  movement. Either both happen or the statement raises and the session is left
  without commit.
\<close>

lemma write_then_record:
  assumes "quantity_in (db w) s = Some n" "same_base b w"
    "bind_io (write_quantity s q) (\<lambda>_. record_movement s (q - n) rsn ty i below) w = (Inr u, w')"
  shows "same_base b w'"
proof -
  have "w' = w\<lparr>db := booked s q \<lparr>mv_sku = s, mv_delta = q - n, mv_reason = rsn, mv_source_type = ty,
      mv_source_id = i, mv_below_zero = below, mv_created_at = now w\<rparr> (db w)\<rparr>"
    using assms(3)
    by (auto simp: write_quantity_def record_movement_def bind_io_Inr_iff check_int4_apply booked_def
        split: if_splits)
  then show ?thesis
    using assms(1,2) stock_base_booked[OF assms(1)]
    by (simp add: same_base_def booked_def)
qed

lemma no_commit_inventory [no_commit_intros, intro, simp]:
  "no_commit (record_movement sku delta rsn ty i below)"
  "no_commit (quantity_for_update sku)" "no_commit (write_quantity sku q)"
  "no_commit (write_inventory_state sku st)"
  by (auto simp: record_movement_def quantity_for_update_def write_quantity_def
      write_inventory_state_def no_commit_def bind_io_def check_int4_def split: if_splits)

lemma no_commit_reserve [no_commit_intros, intro, simp]:
  "no_commit (reserve_item pf oid item b)" "no_commit (reserve_items pf oid)"
proof -
  have sku: "no_commit (item_sku pf item)" for item
    by (auto simp: item_sku_def Let_def no_commit_def bind_io_def split: option.splits sum.splits)
  have rs: "no_commit (reserve_sku oid s q b)" for s q b
    unfolding reserve_sku_def by (intro no_commit_intros)
  have item: "no_commit (reserve_item pf oid item b)" for item b
    unfolding reserve_item_def
    by (intro no_commit_bind sku) (auto simp: no_commit_def rs[unfolded no_commit_def] split: json.splits)
  show "no_commit (reserve_item pf oid item b)" by (rule item)
  show "no_commit (reserve_items pf oid)"
    unfolding reserve_items_def
    by (auto intro!: no_commit_bind no_commit_fold item split: option.splits)
qed

section \<open>Reservation: effect\<close>

text \<open>
  \<open>reserved oid w w' ms\<close>: between w and w' only the quantities changed and the
  rows ms were appended to the ledger, all of them sales of the order.
\<close>

definition is_sale_of :: "uuid \<Rightarrow> movement_row \<Rightarrow> bool" where
  "is_sale_of oid m \<longleftrightarrow> mv_reason m = ''SALE'' \<and> mv_source_type m = Some ''order''
     \<and> mv_source_id m = Some oid"

definition reserved :: "uuid \<Rightarrow> world \<Rightarrow> world \<Rightarrow> movement_row list \<Rightarrow> bool" where
  "reserved oid w w' ms \<longleftrightarrow> list_all (is_sale_of oid) ms \<and>
     (\<exists>inv. w' = w\<lparr>db := (db w)\<lparr>inventory := inv,
                     inventory_movements := inventory_movements (db w) @ ms\<rparr>\<rparr>
        \<and> map inv_sku inv = map inv_sku (inventory (db w))
        \<and> map inv_state inv = map inv_state (inventory (db w)))"

lemma reserved_refl: "reserved oid w w []"
  by (auto simp: reserved_def intro: exI[of _ "inventory (db w)"])

lemma reserved_trans: "reserved oid w w1 ms \<Longrightarrow> reserved oid w1 w2 ns \<Longrightarrow> reserved oid w w2 (ms @ ns)"
  by (auto simp: reserved_def)

lemma reserved_frame:
  assumes "reserved oid w w' ms"
  shows "products (db w') = products (db w)" "orders (db w') = orders (db w)"
    "kitchen_tickets (db w') = kitchen_tickets (db w)" "committed w' = committed w"
    "uuids w' = uuids w" "uuid_next w' = uuid_next w" "outbox w' = outbox w"
    "key_unique inv_sku (inventory (db w')) = key_unique inv_sku (inventory (db w))"
    "inventory_movements (db w') = inventory_movements (db w) @ ms"
  using assms by (auto simp: reserved_def key_unique_def)

text \<open>The sku and quantity an item of an order asks for, as functions of the database.\<close>

definition item_sku_in :: "platform \<Rightarrow> product_row list \<Rightarrow> json \<Rightarrow> json result" where
  "item_sku_in pf ps item =
     (let own = (case item_field ''sku'' item of None \<Rightarrow> JNull | Some v \<Rightarrow> v) in
      if py_truthy own then Inr own
      else case item_field ''product_id'' item of
             None \<Rightarrow> Inr own
           | Some pid \<Rightarrow>
               if \<not> py_truthy pid then Inr own
               else case parse_uuid (py_str (repr_of pf) pid) of
                      Inl e \<Rightarrow> Inl e
                    | Inr u \<Rightarrow> (case first_where (\<lambda>r. p_id r = u) ps of
                        Some r \<Rightarrow> (case p_sku r of Some s \<Rightarrow> Inr (JStr s) | None \<Rightarrow> Inr (JStr []))
                      | None \<Rightarrow> Inr (JStr [])))"

lemma item_sku_eq: "item_sku pf item w = (item_sku_in pf (products (db w)) item, w)"
  by (auto simp: item_sku_def item_sku_in_def Let_def bind_io_apply split: option.splits sum.splits)

definition item_demand :: "platform \<Rightarrow> product_row list \<Rightarrow> string \<Rightarrow> json \<Rightarrow> int" where
  "item_demand pf ps s item =
     (if s \<noteq> [] \<and> item_sku_in pf ps item = Inr (JStr s)
      then (case item_qty item of Inr q \<Rightarrow> q | Inl _ \<Rightarrow> 0) else 0)"

definition demand :: "platform \<Rightarrow> product_row list \<Rightarrow> json list \<Rightarrow> string \<Rightarrow> int" where
  "demand pf ps items s = sum_list (map (item_demand pf ps s) items)"

lemma reserve_sku_effect:
  assumes "reserve_sku oid s qty b w = (Inr b', w')"
  shows "\<exists>ms. reserved oid w w' ms \<and> (b' \<longleftrightarrow> b \<or> (\<exists>m \<in> set ms. mv_below_zero m))
    \<and> (\<forall>t. quantity_in (db w') t = map_option (\<lambda>q. if t = s then q - qty else q) (quantity_in (db w) t))
    \<and> (\<forall>B. same_base B w \<longrightarrow> same_base B w')"
proof (cases "quantity_in (db w) s")
  case None
  then have "w' = w" "b' = b"
    using assms by (auto simp: reserve_sku_def quantity_for_update_def)
  moreover have "map_option (\<lambda>q. if t = s then q - qty else q) (quantity_in (db w) t) = quantity_in (db w) t" for t
    using None by (cases "quantity_in (db w) t") auto
  ultimately show ?thesis
    using reserved_refl[of oid w] by (intro exI[of _ "[]"]) auto
next
  case (Some n)
  let ?m = "\<lparr>mv_sku = s, mv_delta = - qty, mv_reason = ''SALE'', mv_source_type = Some ''order'',
      mv_source_id = Some oid, mv_below_zero = (n - qty < 0), mv_created_at = now w\<rparr>"
  have w': "w' = w\<lparr>db := booked s (n - qty) ?m (db w)\<rparr>" and b': "b' = (b \<or> n - qty < 0)"
    using assms Some
    by (auto simp: reserve_sku_def quantity_for_update_def write_quantity_def record_movement_def
        bind_io_Inr_iff check_int4_apply booked_def split: if_splits)
  have "reserved oid w w' [?m]"
    using w' by (auto simp: reserved_def is_sale_of_def booked_def)
  moreover have "quantity_in (db w') t = map_option (\<lambda>q. if t = s then q - qty else q) (quantity_in (db w) t)" for t
    using quantity_in_update[where d = "db w" and s = t and s' = s and q = "n - qty"] Some
    by (cases "quantity_in (db w) t") (auto simp: w' booked_def quantity_in_def)
  moreover have "same_base B w'" if "same_base B w" for B
    using that stock_base_booked[OF Some, of ?m "n - qty"] by (simp add: w' same_base_def booked_def)
  ultimately show ?thesis
    using b' by (intro exI[of _ "[?m]"]) auto
qed

lemma reserve_item_effect:
  assumes "reserve_item pf oid item b w = (Inr b', w')"
  shows "\<exists>ms. reserved oid w w' ms \<and> (b' \<longleftrightarrow> b \<or> (\<exists>m \<in> set ms. mv_below_zero m))
    \<and> (\<forall>t. quantity_in (db w') t =
          map_option (\<lambda>q. q - item_demand pf (products (db w)) t item) (quantity_in (db w) t))
    \<and> (\<forall>B. same_base B w \<longrightarrow> same_base B w')"
proof -
  obtain qty where q: "item_qty item = Inr qty"
    using assms by (auto simp: reserve_item_def bind_io_Inr_iff)
  obtain sku where s: "item_sku_in pf (products (db w)) item = Inr sku"
    using assms q by (auto simp: reserve_item_def bind_io_Inr_iff item_sku_eq)
  show ?thesis
  proof (cases "\<exists>t. sku = JStr t \<and> t \<noteq> []")
    case True
    then obtain t where t: "sku = JStr t" "t \<noteq> []" by blast
    have "reserve_sku oid t qty b w = (Inr b', w')"
      using assms q s t by (simp add: reserve_item_def item_sku_eq)
    from reserve_sku_effect[OF this] show ?thesis
      using q s t by (auto simp: item_demand_def)
  next
    case False
    then have "w' = w" "b' = b"
      using assms q s by (auto simp: reserve_item_def item_sku_eq split: if_splits json.splits)
    moreover have "item_demand pf (products (db w)) t item = 0" for t
      using False s by (auto simp: item_demand_def)
    ultimately show ?thesis
      using reserved_refl[of oid w] by (intro exI[of _ "[]"]) (auto simp: option.map_ident)
  qed
qed

lemma reserve_fold_effect:
  assumes "fold_io (reserve_item pf oid) items b w = (Inr b', w')"
  shows "\<exists>ms. reserved oid w w' ms \<and> (b' \<longleftrightarrow> b \<or> (\<exists>m \<in> set ms. mv_below_zero m))
    \<and> (\<forall>t. quantity_in (db w') t =
          map_option (\<lambda>q. q - demand pf (products (db w)) items t) (quantity_in (db w) t))
    \<and> (\<forall>B. same_base B w \<longrightarrow> same_base B w')"
  using assms
proof (induction items arbitrary: b w)
  case Nil
  then show ?case
    using reserved_refl[of oid w] by (intro exI[of _ "[]"]) (auto simp: demand_def option.map_ident)
next
  case (Cons item items)
  then obtain b1 w1 where 1: "reserve_item pf oid item b w = (Inr b1, w1)"
      and 2: "fold_io (reserve_item pf oid) items b1 w1 = (Inr b', w')"
    by (auto simp: bind_io_Inr_iff)
  from reserve_item_effect[OF 1] obtain ms where ms: "reserved oid w w1 ms"
      "b1 \<longleftrightarrow> b \<or> (\<exists>m \<in> set ms. mv_below_zero m)"
      "\<And>t. quantity_in (db w1) t =
         map_option (\<lambda>q. q - item_demand pf (products (db w)) t item) (quantity_in (db w) t)"
      "\<And>B. same_base B w \<Longrightarrow> same_base B w1"
    by blast
  from Cons.IH[OF 2] obtain ns where ns: "reserved oid w1 w' ns"
      "b' \<longleftrightarrow> b1 \<or> (\<exists>m \<in> set ns. mv_below_zero m)"
      "\<And>t. quantity_in (db w') t =
         map_option (\<lambda>q. q - demand pf (products (db w1)) items t) (quantity_in (db w1) t)"
      "\<And>B. same_base B w1 \<Longrightarrow> same_base B w'"
    by blast
  have "quantity_in (db w') t =
      map_option (\<lambda>q. q - demand pf (products (db w)) (item # items) t) (quantity_in (db w) t)" for t
    by (simp add: ns(3) ms(3) reserved_frame(1)[OF ms(1)] demand_def option.map_comp comp_def
        algebra_simps)
  then show ?case
    using reserved_trans[OF ms(1) ns(1)] ms(2,4) ns(2,4) by (intro exI[of _ "ms @ ns"]) auto
qed

lemma reserve_items_effect:
  assumes "reserve_items pf oid w = (Inr n, w')"
  shows "\<exists>r ms. first_where (\<lambda>r. o_id r = oid) (orders (db w)) = Some r
    \<and> reserved oid w w' ms \<and> n = (if \<exists>m \<in> set ms. mv_below_zero m then 1 else 0)
    \<and> (\<forall>t. quantity_in (db w') t =
          map_option (\<lambda>q. q - demand pf (products (db w)) (o_items r) t) (quantity_in (db w) t))
    \<and> (\<forall>B. same_base B w \<longrightarrow> same_base B w')"
proof -
  obtain r where r: "first_where (\<lambda>r. o_id r = oid) (orders (db w)) = Some r"
    using assms by (cases "first_where (\<lambda>r. o_id r = oid) (orders (db w))") (auto simp: reserve_items_def)
  then obtain b where f: "fold_io (reserve_item pf oid) (o_items r) False w = (Inr b, w')"
      and n: "n = (if b then 1 else 0)"
    using assms by (auto simp: reserve_items_def bind_io_Inr_iff)
  from reserve_fold_effect[OF f] r n show ?thesis by auto
qed

end
