(* ===== verification/Order_Tools.thy ===== *)
theory Order_Tools
  imports Inventory_Tools
begin

text \<open>
  The governed tools of the order programs (app/tools/order_tools.py) and the
  repository of the orders table (app/repositories/order_repo.py). A tool reads
  its keyword arguments and works on the session's view of the database; it
  never commits.
\<close>

section \<open>Statements on orders\<close>

definition select_order_state :: "uuid \<Rightarrow> (world, string option) io" where
  "select_order_state oid = select_db (\<lambda>d. order_state_in d oid)"

definition set_order_state :: "uuid \<Rightarrow> string \<Rightarrow> database \<Rightarrow> database" where
  "set_order_state oid st d = d\<lparr>orders := update_where (\<lambda>r. o_id r = oid) (\<lambda>r. r\<lparr>o_state := st\<rparr>) (orders d)\<rparr>"

definition OrderRepository_get_state :: "uuid \<Rightarrow> (world, OrderState) io" where
  "OrderRepository_get_state oid =
     bind_io (select_order_state oid) (\<lambda>row.
       case row of None \<Rightarrow> raise NoResultFound | Some v \<Rightarrow> lift_result (OrderState_of v))"

definition OrderRepository_write_state :: "uuid \<Rightarrow> OrderState \<Rightarrow> (world, unit) io" where
  "OrderRepository_write_state oid s = update_db (set_order_state oid (OrderState_value s))"

section \<open>Validation\<close>

definition validate_order_items :: "world tool" where
  "validate_order_items kw =
     bind_io (str_arg ''order_id'' kw) (\<lambda>order_id.
     bind_io (select_db (\<lambda>d. map_option o_items (first_where (\<lambda>r. o_id r = order_id) (orders d)))) (\<lambda>row.
       case row of
         None \<Rightarrow> ret (JInt 0)
       | Some items \<Rightarrow> ret (JInt (if items = [] then 0 else 1))))"

section \<open>Payment provider tools\<close>

definition credentials_missing :: "platform \<Rightarrow> bool" where
  "credentials_missing pf \<longleftrightarrow> YOOKASSA_SHOP_ID (cfg pf) = [] \<or> YOOKASSA_SECRET_KEY (cfg pf) = []"

definition response_field :: "string \<Rightarrow> json \<Rightarrow> json \<Rightarrow> (world, json) io" where
  "response_field k absent data = (case data of
       JObj kvs \<Rightarrow> ret (case map_of kvs k of None \<Rightarrow> absent | Some v \<Rightarrow> v)
     | _ \<Rightarrow> raise (AttributeError ''get''))"

definition yookassa_create_payment :: "platform \<Rightarrow> world tool" where
  "yookassa_create_payment pf kw =
     bind_io (str_arg ''order_id'' kw) (\<lambda>order_id.
     bind_io (case map_of kw ''amount'' of None \<Rightarrow> raise (TypeError ''amount'') | Some a \<Rightarrow> ret a) (\<lambda>amount.
     let currency = (case map_of kw ''currency'' of None \<Rightarrow> JStr ''RUB'' | Some c \<Rightarrow> c);
         trace_id = (case map_of kw ''trace_id'' of None \<Rightarrow> [] | Some t \<Rightarrow> py_str (repr_of pf) t)
     in if credentials_missing pf then ret (JStr ''payment_placeholder_id'')
        else bind_io (lift_result (http_post pf ''https://api.yookassa.ru/v3/payments''
               (JObj [(''amount'', JObj [(''value'', amount), (''currency'', currency)]),
                      (''confirmation'', JObj [(''type'', JStr ''redirect''),
                                               (''return_url'', JStr (YOOKASSA_RETURN_URL (cfg pf)))]),
                      (''capture'', JBool True),
                      (''description'', JStr (''Order '' @ order_id)),
                      (''metadata'', JObj [(''order_id'', JStr order_id), (''trace_id'', JStr trace_id)])]))) (\<lambda>data.
             bind_io (response_field ''id'' (JStr ''payment_placeholder_id'') data) (\<lambda>pid.
             ret (JStr (py_str (repr_of pf) pid))))))"

definition yookassa_verify_payment :: "platform \<Rightarrow> world tool" where
  "yookassa_verify_payment pf kw =
     bind_io (str_arg ''order_id'' kw) (\<lambda>order_id.
     bind_io (str_arg ''payment_id'' kw) (\<lambda>payment_id.
       if credentials_missing pf then ret (JInt 1)
       else bind_io (lift_result (http_get pf (''https://api.yookassa.ru/v3/payments/'' @ payment_id))) (\<lambda>data.
            bind_io (response_field ''status'' (JStr []) data) (\<lambda>status.
            ret (JInt (if status = JStr ''succeeded'' then 1 else 0))))))"

section \<open>Terminal tools\<close>

text \<open>
  The guard the terminal tools open with: the row is read FOR UPDATE and must
  be in one of the expected states.
\<close>

definition expect_order_state :: "uuid \<Rightarrow> string list \<Rightarrow> string \<Rightarrow> (world, unit) io" where
  "expect_order_state oid expected label =
     bind_io (select_order_state oid) (\<lambda>current.
       case current of
         None \<Rightarrow> raise (ValueError (''order not found: '' @ oid))
       | Some s \<Rightarrow>
           if s \<in> set expected then ret ()
           else raise (ValueError (''invalid state transition: expected '' @ label @ '', got '' @ s)))"

definition write_order_state_payment_pending :: "world tool" where
  "write_order_state_payment_pending kw =
     bind_io (str_arg ''order_id'' kw) (\<lambda>order_id.
     bind_io (str_arg ''payment_id'' kw) (\<lambda>payment_id.
     bind_io (expect_order_state order_id [OrderState_value OrderState.CONFIRMED] ''CONFIRMED'') (\<lambda>_.
     bind_io (update_db (\<lambda>d. d\<lparr>orders := update_where (\<lambda>r. o_id r = order_id)
        (\<lambda>r. r\<lparr>o_state := OrderState_value OrderState.PAYMENT_PENDING,
               o_payment_id := Some payment_id\<rparr>) (orders d)\<rparr>)) (\<lambda>_.
     ret (JStr ''OK'')))))"

definition write_order_state_paid :: "world tool" where
  "write_order_state_paid kw =
     bind_io (str_arg ''order_id'' kw) (\<lambda>order_id.
     bind_io (expect_order_state order_id [OrderState_value OrderState.PAYMENT_PENDING] ''PAYMENT_PENDING'') (\<lambda>_.
     bind_io (update_db (set_order_state order_id (OrderState_value OrderState.PAID))) (\<lambda>_.
     ret (JStr ''OK''))))"

definition write_order_state_payment_failed :: "world tool" where
  "write_order_state_payment_failed kw =
     bind_io (str_arg ''order_id'' kw) (\<lambda>order_id.
     bind_io (expect_order_state order_id [OrderState_value OrderState.PAYMENT_PENDING] ''PAYMENT_PENDING'') (\<lambda>_.
     bind_io (update_db (set_order_state order_id (OrderState_value OrderState.CONFIRMED))) (\<lambda>_.
     ret (JStr ''OK''))))"

definition write_order_state_cooking :: "world tool" where
  "write_order_state_cooking kw =
     bind_io (str_arg ''order_id'' kw) (\<lambda>order_id.
     bind_io (str_arg ''ticket_id'' kw) (\<lambda>ticket_id.
     bind_io (expect_order_state order_id
        [OrderState_value OrderState.PAID, OrderState_value OrderState.CONFIRMED] ''PAID or CONFIRMED'') (\<lambda>_.
     bind_io (update_db (set_order_state order_id (OrderState_value OrderState.COOKING))) (\<lambda>_.
     bind_io (update_db (\<lambda>d. d\<lparr>kitchen_tickets := update_where (\<lambda>r. kt_id r = ticket_id)
        (\<lambda>r. r\<lparr>kt_order_id := order_id\<rparr>) (kitchen_tickets d)\<rparr>)) (\<lambda>_.
     ret (JStr ''OK''))))))"

definition transition_order_state :: "world tool" where
  "transition_order_state kw =
     bind_io (str_arg ''order_id'' kw) (\<lambda>order_id.
     bind_io (str_arg ''from_state'' kw) (\<lambda>from_state.
     bind_io (str_arg ''to_state'' kw) (\<lambda>to_state.
     bind_io (expect_order_state order_id [from_state] from_state) (\<lambda>_.
     bind_io (update_db (set_order_state order_id to_state)) (\<lambda>_.
     ret (JStr ''OK''))))))"

section \<open>Inventory and kitchen\<close>

definition reserve_inventory_items :: "platform \<Rightarrow> world tool" where
  "reserve_inventory_items pf kw =
     bind_io (str_arg ''order_id'' kw) (\<lambda>order_id.
     bind_io (reserve_items pf order_id) (\<lambda>n. ret (JInt n)))"

text \<open>
  INSERT INTO kitchen_tickets ... RETURNING id: the primary key must be new and
  the order must exist (REFERENCES orders).
\<close>

definition insert_kitchen_ticket :: "uuid \<Rightarrow> string \<Rightarrow> (world, uuid) io" where
  "insert_kitchen_ticket order_id st =
     bind_io new_uuid (\<lambda>tid.
     bind_io (select_db (\<lambda>d. first_where (\<lambda>r. kt_id r = tid) (kitchen_tickets d) \<noteq> None)) (\<lambda>dup.
     bind_io (select_db (\<lambda>d. first_where (\<lambda>r. o_id r = order_id) (orders d) = None)) (\<lambda>orphan.
       if dup then raise (IntegrityError ''kitchen_tickets_pkey'')
       else if orphan then raise (IntegrityError ''kitchen_tickets_order_id_fkey'')
       else bind_io (modify_io (\<lambda>w. w\<lparr>db := (db w)\<lparr>kitchen_tickets := kitchen_tickets (db w) @
              [\<lparr>kt_id = tid, kt_order_id = order_id, kt_state = st, kt_created_at = now w\<rparr>]\<rparr>\<rparr>)) (\<lambda>_.
            ret tid))))"

definition create_kitchen_ticket :: "world tool" where
  "create_kitchen_ticket kw =
     bind_io (str_arg ''order_id'' kw) (\<lambda>order_id.
     bind_io (insert_kitchen_ticket order_id ''NEW'') (\<lambda>tid. ret (JStr tid)))"

definition log_validation_failure :: "world tool" where
  "log_validation_failure kw = bind_io (str_arg ''order_id'' kw) (\<lambda>_. ret (JStr ''LOGGED''))"

definition notify_inventory_insufficient :: "world tool" where
  "notify_inventory_insufficient kw = bind_io (str_arg ''order_id'' kw) (\<lambda>_. ret (JStr ''NOTIFIED''))"

section \<open>Lemmas\<close>

lemma no_commit_str_arg [no_commit_intros, intro, simp]: "no_commit (str_arg k kw)"
  by (auto simp: str_arg_def split: option.splits json.splits)

lemma no_commit_option [no_commit_intros]:
  "no_commit m \<Longrightarrow> (\<And>x. no_commit (k x)) \<Longrightarrow> no_commit (case o' of None \<Rightarrow> m | Some x \<Rightarrow> k x)"
  by (cases o') auto

lemma no_commit_if [no_commit_intros]:
  "no_commit m \<Longrightarrow> no_commit k \<Longrightarrow> no_commit (if b then m else k)"
  by simp

lemma no_commit_lift [no_commit_intros, intro, simp]:
  "no_commit (lift_result r)" "no_commit (gets_io f)"
  by (simp_all add: no_commit_def)

lemma no_commit_order_statements [no_commit_intros, intro, simp]:
  "no_commit (select_order_state oid)" "no_commit (OrderRepository_get_state oid)"
  "no_commit (OrderRepository_write_state oid s)" "no_commit (expect_order_state oid xs l)"
  by (auto simp: select_order_state_def OrderRepository_get_state_def OrderRepository_write_state_def
      expect_order_state_def intro!: no_commit_bind no_commit_option)

lemma no_commit_insert_ticket [no_commit_intros, intro, simp]: "no_commit (insert_kitchen_ticket oid st)"
  unfolding insert_kitchen_ticket_def
  by (intro no_commit_bind no_commit_if no_commit_basic) (simp add: no_commit_def)

lemma no_commit_response_field [no_commit_intros, intro, simp]: "no_commit (response_field k d x)"
  by (simp add: response_field_def split: json.splits)

lemma no_commit_order_tools [no_commit_intros, intro, simp]:
  "no_commit (validate_order_items kw)" "no_commit (yookassa_create_payment pf kw)"
  "no_commit (yookassa_verify_payment pf kw)" "no_commit (write_order_state_payment_pending kw)"
  "no_commit (write_order_state_paid kw)" "no_commit (write_order_state_payment_failed kw)"
  "no_commit (write_order_state_cooking kw)" "no_commit (transition_order_state kw)"
  "no_commit (reserve_inventory_items pf kw)" "no_commit (create_kitchen_ticket kw)"
  "no_commit (log_validation_failure kw)" "no_commit (notify_inventory_insufficient kw)"
  unfolding validate_order_items_def yookassa_create_payment_def yookassa_verify_payment_def
    write_order_state_payment_pending_def write_order_state_paid_def
    write_order_state_payment_failed_def write_order_state_cooking_def transition_order_state_def
    reserve_inventory_items_def create_kitchen_ticket_def log_validation_failure_def
    notify_inventory_insufficient_def Let_def
  by (intro no_commit_bind no_commit_option no_commit_if no_commit_basic no_commit_str_arg
      no_commit_order_statements no_commit_lift no_commit_response_field no_commit_reserve
      no_commit_insert_ticket)+

subsection \<open>The state column\<close>

lemma order_state_in_set:
  "order_state_in (set_order_state oid st d) i =
     (if i = oid then map_option (\<lambda>_. st) (order_state_in d i) else order_state_in d i)"
  by (simp add: order_state_in_def set_order_state_def first_where_update_key option.map_comp comp_def)

lemma OrderRepository_get_state_Inr:
  "OrderRepository_get_state oid w = (Inr s, w') \<longleftrightarrow>
     w' = w \<and> order_state_in (db w) oid = Some (OrderState_value s)"
  by (auto simp: OrderRepository_get_state_def select_order_state_def OrderState_of_iff split: option.splits)

lemma get_state_pure: "snd (OrderRepository_get_state oid w) = w"
  by (auto simp: OrderRepository_get_state_def select_order_state_def split: option.splits)

lemma expect_order_state_Inr:
  "expect_order_state oid xs l w = (Inr u, w') \<longleftrightarrow>
     w' = w \<and> (\<exists>s. order_state_in (db w) oid = Some s \<and> s \<in> set xs)"
  by (auto simp: expect_order_state_def select_order_state_def split: option.splits)

lemma expect_order_state_cases:
  "expect_order_state oid xs l w =
     (case order_state_in (db w) oid of
        None \<Rightarrow> (Inl (ValueError (''order not found: '' @ oid)), w)
      | Some s \<Rightarrow> if s \<in> set xs then (Inr (), w)
          else (Inl (ValueError (''invalid state transition: expected '' @ l @ '', got '' @ s)), w))"
  by (simp add: expect_order_state_def select_order_state_def split: option.splits)

lemma transition_order_state_run:
  assumes "str_arg ''order_id'' kw w = (Inr oid, w)" "str_arg ''from_state'' kw w = (Inr a, w)"
    "str_arg ''to_state'' kw w = (Inr b, w)"
  shows "transition_order_state kw w =
    (case order_state_in (db w) oid of
       None \<Rightarrow> (Inl (ValueError (''order not found: '' @ oid)), w)
     | Some s \<Rightarrow> if s = a then (Inr (JStr ''OK''), w\<lparr>db := set_order_state oid b (db w)\<rparr>)
         else (Inl (ValueError (''invalid state transition: expected '' @ a @ '', got '' @ s)), w))"
  using assms
  by (auto simp: transition_order_state_def bind_io_apply expect_order_state_cases split: option.splits)

text \<open>The repository is a store for the order machine.\<close>

interpretation order_cell: state_cell OrderRepository_get_state OrderRepository_write_state
proof
  show "snd (OrderRepository_get_state eid w) = w" for eid w
    by (rule get_state_pure)
  show "fst (OrderRepository_write_state eid s w) = Inr ()" for eid s w
    by (simp add: OrderRepository_write_state_def)
  show "fst (OrderRepository_get_state eid (snd (OrderRepository_write_state eid s w))) = Inr s"
    if "fst (OrderRepository_get_state eid w) = Inr s0" for eid w s s0
  proof -
    have "order_state_in (db w) eid = Some (OrderState_value s0)"
      using that OrderRepository_get_state_Inr[of eid w s0] by (metis get_state_pure prod.collapse)
    then have "OrderRepository_get_state eid (snd (OrderRepository_write_state eid s w)) =
        (Inr s, snd (OrderRepository_write_state eid s w))"
      by (simp add: OrderRepository_get_state_Inr OrderRepository_write_state_def order_state_in_set)
    then show ?thesis by simp
  qed
  show "fst (OrderRepository_get_state eid' (snd (OrderRepository_write_state eid s w))) =
      fst (OrderRepository_get_state eid' w)" if "eid \<noteq> eid'" for eid eid' s w
    using that
    by (auto simp: OrderRepository_get_state_def OrderRepository_write_state_def
        select_order_state_def order_state_in_set split: option.splits)
qed

lemma insert_kitchen_ticket_Inr:
  "insert_kitchen_ticket oid st w = (Inr tid, w') \<longleftrightarrow>
     tid = uuids w (uuid_next w) \<and> tid \<notin> kt_id ` set (kitchen_tickets (db w))
     \<and> order_state_in (db w) oid \<noteq> None
     \<and> w' = w\<lparr>uuid_next := Suc (uuid_next w), db := (db w)\<lparr>kitchen_tickets := kitchen_tickets (db w) @
              [\<lparr>kt_id = tid, kt_order_id = oid, kt_state = st, kt_created_at = now w\<rparr>]\<rparr>\<rparr>"
proof -
  have dup: "(\<exists>y. first_where (\<lambda>r. kt_id r = t) ts = Some y) \<longleftrightarrow> t \<in> kt_id ` set ts" for t ts
    using first_where_key_None[of kt_id t ts] by (cases "first_where (\<lambda>r. kt_id r = t) ts") auto
  show ?thesis
    by (auto simp: insert_kitchen_ticket_def bind_io_Inr_iff order_state_in_def dup split: if_splits)
qed

end
