(* ===== verification/Kitchen_Tools.thy ===== *)
theory Kitchen_Tools
  imports Order_Tools
begin

text \<open>
  The four terminal tools of the kitchen programs (app/tools/kitchen_tools.py)
  and the repository of the kitchen_tickets table.
\<close>

definition select_ticket_state :: "uuid \<Rightarrow> (world, string option) io" where
  "select_ticket_state tid = select_db (\<lambda>d. ticket_state_in d tid)"

definition set_ticket_state :: "uuid \<Rightarrow> string \<Rightarrow> database \<Rightarrow> database" where
  "set_ticket_state tid st d =
     d\<lparr>kitchen_tickets := update_where (\<lambda>r. kt_id r = tid) (\<lambda>r. r\<lparr>kt_state := st\<rparr>) (kitchen_tickets d)\<rparr>"

definition KitchenRepository_get_state :: "uuid \<Rightarrow> (world, KitchenState) io" where
  "KitchenRepository_get_state tid =
     bind_io (select_ticket_state tid) (\<lambda>row.
       case row of None \<Rightarrow> raise NoResultFound | Some v \<Rightarrow> lift_result (KitchenState_of v))"

definition KitchenRepository_write_state :: "uuid \<Rightarrow> KitchenState \<Rightarrow> (world, unit) io" where
  "KitchenRepository_write_state tid s = update_db (set_ticket_state tid (KitchenState_value s))"

definition KitchenRepository_create :: "uuid \<Rightarrow> (world, uuid) io" where
  "KitchenRepository_create order_id = insert_kitchen_ticket order_id (KitchenState_value KitchenState.NEW)"

definition expect_ticket_state :: "uuid \<Rightarrow> KitchenState \<Rightarrow> (world, unit) io" where
  "expect_ticket_state tid s =
     bind_io (select_ticket_state tid) (\<lambda>current.
       case current of
         None \<Rightarrow> raise (ValueError (''ticket not found: '' @ tid))
       | Some v \<Rightarrow>
           if v = KitchenState_value s then ret ()
           else raise (ValueError (''invalid state transition: expected '' @ KitchenState_value s
                                   @ '', got '' @ v)))"

definition write_kitchen_state_queued :: "world tool" where
  "write_kitchen_state_queued kw =
     bind_io (str_arg ''ticket_id'' kw) (\<lambda>ticket_id.
     bind_io (expect_ticket_state ticket_id KitchenState.NEW) (\<lambda>_.
     bind_io (update_db (set_ticket_state ticket_id (KitchenState_value KitchenState.QUEUED))) (\<lambda>_.
     ret (JStr ''OK''))))"

definition write_kitchen_state_preparing :: "world tool" where
  "write_kitchen_state_preparing kw =
     bind_io (str_arg ''ticket_id'' kw) (\<lambda>ticket_id.
     bind_io (expect_ticket_state ticket_id KitchenState.QUEUED) (\<lambda>_.
     bind_io (update_db (set_ticket_state ticket_id (KitchenState_value KitchenState.PREPARING))) (\<lambda>_.
     ret (JStr ''OK''))))"

definition write_kitchen_state_ready :: "world tool" where
  "write_kitchen_state_ready kw =
     bind_io (str_arg ''ticket_id'' kw) (\<lambda>ticket_id.
     bind_io (expect_ticket_state ticket_id KitchenState.PREPARING) (\<lambda>_.
     bind_io (update_db (set_ticket_state ticket_id (KitchenState_value KitchenState.READY))) (\<lambda>_.
     ret (JStr ''OK''))))"

definition write_kitchen_state_handed_off :: "world tool" where
  "write_kitchen_state_handed_off kw =
     bind_io (str_arg ''ticket_id'' kw) (\<lambda>ticket_id.
     bind_io (expect_ticket_state ticket_id KitchenState.READY) (\<lambda>_.
     bind_io (update_db (set_ticket_state ticket_id (KitchenState_value KitchenState.HANDED_OFF))) (\<lambda>_.
     ret (JStr ''OK''))))"

section \<open>Lemmas\<close>

lemma no_commit_kitchen_statements [no_commit_intros, intro, simp]:
  "no_commit (select_ticket_state tid)" "no_commit (KitchenRepository_get_state tid)"
  "no_commit (KitchenRepository_write_state tid s)" "no_commit (expect_ticket_state tid s)"
  "no_commit (KitchenRepository_create oid)"
  by (auto simp: select_ticket_state_def KitchenRepository_get_state_def
      KitchenRepository_write_state_def expect_ticket_state_def KitchenRepository_create_def
      intro!: no_commit_bind no_commit_option)

lemma no_commit_kitchen_tools [no_commit_intros, intro, simp]:
  "no_commit (write_kitchen_state_queued kw)" "no_commit (write_kitchen_state_preparing kw)"
  "no_commit (write_kitchen_state_ready kw)" "no_commit (write_kitchen_state_handed_off kw)"
  unfolding write_kitchen_state_queued_def write_kitchen_state_preparing_def
    write_kitchen_state_ready_def write_kitchen_state_handed_off_def
  by (intro no_commit_bind no_commit_basic no_commit_str_arg no_commit_kitchen_statements)+

lemma ticket_state_in_set:
  "ticket_state_in (set_ticket_state tid st d) i =
     (if i = tid then map_option (\<lambda>_. st) (ticket_state_in d i) else ticket_state_in d i)"
  by (simp add: ticket_state_in_def set_ticket_state_def first_where_update_key option.map_comp comp_def)

lemma KitchenRepository_get_state_Inr:
  "KitchenRepository_get_state tid w = (Inr s, w') \<longleftrightarrow>
     w' = w \<and> ticket_state_in (db w) tid = Some (KitchenState_value s)"
  by (auto simp: KitchenRepository_get_state_def select_ticket_state_def KitchenState_of_iff
      split: option.splits)

lemma ticket_get_state_pure: "snd (KitchenRepository_get_state tid w) = w"
  by (auto simp: KitchenRepository_get_state_def select_ticket_state_def split: option.splits)

lemma expect_ticket_state_cases:
  "expect_ticket_state tid s w =
     (case ticket_state_in (db w) tid of
        None \<Rightarrow> (Inl (ValueError (''ticket not found: '' @ tid)), w)
      | Some v \<Rightarrow> if v = KitchenState_value s then (Inr (), w)
          else (Inl (ValueError (''invalid state transition: expected '' @ KitchenState_value s
                                   @ '', got '' @ v)), w))"
  by (simp add: expect_ticket_state_def select_ticket_state_def split: option.splits)

text \<open>The tool that a kitchen event's program calls, on its state before and after.\<close>

definition kitchen_writer :: "KitchenEvent \<Rightarrow> world tool" where
  "kitchen_writer ev = (case ev of
       KitchenEvent.QUEUE \<Rightarrow> write_kitchen_state_queued
     | KitchenEvent.START_PREP \<Rightarrow> write_kitchen_state_preparing
     | KitchenEvent.MARK_READY \<Rightarrow> write_kitchen_state_ready
     | KitchenEvent.HAND_OFF \<Rightarrow> write_kitchen_state_handed_off)"

lemma kitchen_writer_run:
  assumes "map_of (KITCHEN_TRANSITIONS s) ev = Some s'"
    "ticket_state_in (db w) tid = Some (KitchenState_value s)"
  shows "kitchen_writer ev [(''ticket_id'', JStr tid)] w =
    (Inr (JStr ''OK''), w\<lparr>db := set_ticket_state tid (KitchenState_value s') (db w)\<rparr>)"
  using assms
  by (cases s)
     (auto simp: kitchen_writer_def write_kitchen_state_queued_def write_kitchen_state_preparing_def
       write_kitchen_state_ready_def write_kitchen_state_handed_off_def bind_io_apply
       expect_ticket_state_cases split: if_splits)

interpretation kitchen_cell: state_cell KitchenRepository_get_state KitchenRepository_write_state
proof
  show "snd (KitchenRepository_get_state eid w) = w" for eid w
    by (rule ticket_get_state_pure)
  show "fst (KitchenRepository_write_state eid s w) = Inr ()" for eid s w
    by (simp add: KitchenRepository_write_state_def)
  show "fst (KitchenRepository_get_state eid (snd (KitchenRepository_write_state eid s w))) = Inr s"
    if "fst (KitchenRepository_get_state eid w) = Inr s0" for eid w s s0
  proof -
    have "ticket_state_in (db w) eid = Some (KitchenState_value s0)"
      using that KitchenRepository_get_state_Inr[of eid w s0]
      by (metis ticket_get_state_pure prod.collapse)
    then have "KitchenRepository_get_state eid (snd (KitchenRepository_write_state eid s w)) =
        (Inr s, snd (KitchenRepository_write_state eid s w))"
      by (simp add: KitchenRepository_get_state_Inr KitchenRepository_write_state_def ticket_state_in_set)
    then show ?thesis by simp
  qed
  show "fst (KitchenRepository_get_state eid' (snd (KitchenRepository_write_state eid s w))) =
      fst (KitchenRepository_get_state eid' w)" if "eid \<noteq> eid'" for eid eid' s w
    using that
    by (auto simp: KitchenRepository_get_state_def KitchenRepository_write_state_def
        select_ticket_state_def ticket_state_in_set split: option.splits)
qed

end
