(* ===== verification/Staff_Notify.thy ===== *)
theory Staff_Notify
  imports Kitchen_Tools
begin

text \<open>
  Cards and pushes: the staff cards of the MAX chat
  (app/services/max_staff_notify.py with app/services/max_message_refs.py and
  the role lookup of app/services/staff_service.py), the customer pushes
  (app/services/customer_notify.py) and the notification tool of the cooking
  program (app/tools/notification_tools.py).

  Every function here opens its own short sessions: it reads the committed
  database, never the caller's uncommitted view.
\<close>

section \<open>Keyboards\<close>

text \<open>What a role is offered on an order card (\<open>_ORDER_ROLE_EVENTS\<close> of max_staff_notify.py).\<close>

definition offered_order_events :: "StaffRole \<Rightarrow> OrderEvent list" where
  "offered_order_events role = (case role of
       StaffRole.courier \<Rightarrow> [OrderEvent.ASSIGN_COURIER, OrderEvent.PICKUP, OrderEvent.DELIVER]
     | StaffRole.admin \<Rightarrow> [OrderEvent.CANCEL]
     | StaffRole.staff \<Rightarrow> [OrderEvent.ASSIGN_COURIER, OrderEvent.PICKUP, OrderEvent.DELIVER, OrderEvent.CANCEL]
     | StaffRole.kitchen \<Rightarrow> [])"

definition kitchen_keyboard :: "uuid \<Rightarrow> KitchenState \<Rightarrow> button_payload list list" where
  "kitchen_keyboard ticket_id st =
     (let row = map (\<lambda>(e, _). Button ''kitchen'' ticket_id (KitchenEvent_value e)) (KITCHEN_TRANSITIONS st)
      in if row = [] then [] else [row])"

definition order_keyboard :: "uuid \<Rightarrow> OrderState \<Rightarrow> StaffRole \<Rightarrow> button_payload list list" where
  "order_keyboard order_id st role =
     (let row = map (\<lambda>(e, _). Button ''order'' order_id (OrderEvent_value e))
                  (filter (\<lambda>(e, _). e \<in> set (offered_order_events role)) (ORDER_TRANSITIONS st))
      in if row = [] then [] else [row])"

definition combine_keyboards :: "button_payload list list list \<Rightarrow> button_payload list list" where
  "combine_keyboards kbs = concat kbs"

section \<open>Details of an order\<close>

definition PAID_OR_LATER_STATES :: "OrderState list" where
  "PAID_OR_LATER_STATES = [OrderState.PAID, OrderState.COOKING, OrderState.PACKING,
     OrderState.COURIER_ASSIGNED, OrderState.DELIVERING, OrderState.DELIVERED, OrderState.CLOSED]"

definition optional_line :: "(string \<Rightarrow> detail_line) \<Rightarrow> string option \<Rightarrow> detail_line list" where
  "optional_line f t = (case t of Some s \<Rightarrow> if s = [] then [] else [f s] | None \<Rightarrow> [])"

definition composition_lines :: "json list \<Rightarrow> detail_line list" where
  "composition_lines items =
     (let parts = List.map_filter (\<lambda>item. case item of
            JObj kvs \<Rightarrow> Some (case map_of kvs ''name'' of None \<Rightarrow> JStr ''?'' | Some v \<Rightarrow> v,
                             case map_of kvs ''qty'' of None \<Rightarrow> JStr ''?'' | Some v \<Rightarrow> v)
          | _ \<Rightarrow> None) items
      in if parts = [] then [] else [CompositionLine parts])"

definition payment_lines :: "string option \<Rightarrow> string \<Rightarrow> detail_line list" where
  "payment_lines payment_method order_state =
     (if payment_method = Some ''yookassa_sbp'' \<or> payment_method = Some ''yookassa_sberbank''
      then [OnlinePaymentLine (the payment_method)
              (case OrderState_of order_state of Inr s \<Rightarrow> s \<in> set PAID_OR_LATER_STATES | Inl _ \<Rightarrow> False)]
      else if payment_method = Some ''cash'' then [CashLine] else [])"

definition order_details :: "database \<Rightarrow> uuid \<Rightarrow> detail_line list" where
  "order_details d order_id =
     (case first_where (\<lambda>r. o_id r = order_id) (orders d) of
        None \<Rightarrow> []
      | Some r \<Rightarrow>
          composition_lines (o_items r)
          @ optional_line AddressLine (Some (o_delivery_address r))
          @ optional_line PhoneLine
              (map_option cu_phone (first_where (\<lambda>c. cu_id c = o_customer_id r) (customers d)))
          @ optional_line CommentLine (o_comment r)
          @ payment_lines (o_payment_method r) (o_state r))"

definition fetch_order_details :: "uuid \<Rightarrow> (world, detail_line list) io" where
  "fetch_order_details order_id = select_committed (\<lambda>d. order_details d order_id)"

definition fetch_order_state :: "uuid \<Rightarrow> (world, OrderState option) io" where
  "fetch_order_state order_id = select_committed (\<lambda>d.
     case order_state_in d order_id of
       None \<Rightarrow> None
     | Some v \<Rightarrow> (case OrderState_of v of Inr s \<Rightarrow> Some s | Inl _ \<Rightarrow> None))"

text \<open>ORDER BY created_at DESC LIMIT 1: the newest ticket, the first of several equally new ones.\<close>

fun newest :: "('r \<Rightarrow> int) \<Rightarrow> 'r list \<Rightarrow> 'r option" where
  "newest t [] = None"
| "newest t (r # rs) = (case newest t rs of None \<Rightarrow> Some r | Some q \<Rightarrow> if t q > t r then Some q else Some r)"

definition fetch_kitchen_ticket_for_order :: "uuid \<Rightarrow> (world, (uuid \<times> KitchenState) option) io" where
  "fetch_kitchen_ticket_for_order order_id = select_committed (\<lambda>d.
     case newest kt_created_at (rows_where (\<lambda>r. kt_order_id r = order_id) (kitchen_tickets d)) of
       None \<Rightarrow> None
     | Some r \<Rightarrow> (case KitchenState_of (kt_state r) of Inr s \<Rightarrow> Some (kt_id r, s) | Inl _ \<Rightarrow> None))"

section \<open>Sending\<close>

definition get_message_ref :: "string \<Rightarrow> string \<Rightarrow> int \<Rightarrow> (world, string option) io" where
  "get_message_ref kind eid uid = gets_io (\<lambda>w. map_option mr_message_id
     (first_where (\<lambda>r. mr_entity_kind r = kind \<and> mr_entity_id r = eid \<and> mr_max_user_id r = uid) (message_refs w)))"

definition save_message_ref :: "string \<Rightarrow> string \<Rightarrow> int \<Rightarrow> string \<Rightarrow> (world, unit) io" where
  "save_message_ref kind eid uid mid = modify_io (\<lambda>w.
     let key = (\<lambda>r. mr_entity_kind r = kind \<and> mr_entity_id r = eid \<and> mr_max_user_id r = uid) in
     case first_where key (message_refs w) of
       None \<Rightarrow> w\<lparr>message_refs := message_refs w @
         [\<lparr>mr_entity_kind = kind, mr_entity_id = eid, mr_max_user_id = uid, mr_message_id = mid\<rparr>]\<rparr>
     | Some _ \<Rightarrow> w\<lparr>message_refs := update_where key (\<lambda>r. r\<lparr>mr_message_id := mid\<rparr>) (message_refs w)\<rparr>)"

definition max_edit_message :: "string \<Rightarrow> card_text \<Rightarrow> button_payload list list \<Rightarrow> (world, bool) io" where
  "max_edit_message mid txt kb = (\<lambda>w.
     (Inr (edit_accepted w (length (outbox w))), w\<lparr>outbox := outbox w @ [MaxEdit mid txt kb]\<rparr>))"

definition max_send_message :: "int \<Rightarrow> card_text \<Rightarrow> button_payload list list \<Rightarrow> (world, string option) io" where
  "max_send_message uid txt kb = (\<lambda>w.
     (Inr (sent_message_id w (length (outbox w))), w\<lparr>outbox := outbox w @ [MaxSend uid txt kb]\<rparr>))"

definition send_or_edit ::
  "string \<Rightarrow> string \<Rightarrow> int \<Rightarrow> card_text \<Rightarrow> button_payload list list \<Rightarrow> (world, unit) io" where
  "send_or_edit kind eid uid txt kb =
     bind_io (get_message_ref kind eid uid) (\<lambda>existing.
     bind_io (case existing of None \<Rightarrow> ret False | Some mid \<Rightarrow> max_edit_message mid txt kb) (\<lambda>edited.
       if edited then ret ()
       else bind_io (max_send_message uid txt kb) (\<lambda>new_mid.
            case new_mid of
              None \<Rightarrow> ret ()
            | Some mid \<Rightarrow> if mid = [] then ret () else save_message_ref kind eid uid mid)))"

definition list_active_by_role :: "StaffRole \<Rightarrow> (world, staff_row list) io" where
  "list_active_by_role role =
     select_committed (\<lambda>d. rows_where (\<lambda>r. st_role r = StaffRole_value role \<and> st_active r) (staff_members d))"

text \<open>The loop every notify function ends with: one card per linked member of the role.\<close>

definition broadcast ::
  "StaffRole \<Rightarrow> string \<Rightarrow> string \<Rightarrow> card_text \<Rightarrow> button_payload list list \<Rightarrow> (world, unit) io" where
  "broadcast role kind eid txt kb =
     bind_io (list_active_by_role role) (\<lambda>recipients.
     fold_io (\<lambda>m _. case st_max_user_id m of
                      None \<Rightarrow> ret ()
                    | Some uid \<Rightarrow> send_or_edit kind eid uid txt kb) recipients ())"

section \<open>Staff cards\<close>

definition notify_kitchen_ticket_state :: "uuid \<Rightarrow> uuid \<Rightarrow> KitchenState \<Rightarrow> (world, unit) io" where
  "notify_kitchen_ticket_state ticket_id order_id st =
     bind_io (fetch_order_details order_id) (\<lambda>details.
     broadcast StaffRole.kitchen ''kitchen'' ticket_id (KitchenCard (take 8 order_id) st details)
       (kitchen_keyboard ticket_id st))"

definition notify_courier_order_state :: "uuid \<Rightarrow> OrderState \<Rightarrow> (world, unit) io" where
  "notify_courier_order_state order_id st =
     bind_io (fetch_order_details order_id) (\<lambda>details.
     broadcast StaffRole.courier ''order'' order_id (CourierCard (take 8 order_id) st details)
       (order_keyboard order_id st StaffRole.courier))"

definition build_admin_card ::
  "uuid \<Rightarrow> OrderState \<Rightarrow> KitchenState option \<Rightarrow> (world, card_text \<times> button_payload list list) io" where
  "build_admin_card order_id order_state kitchen_state =
     bind_io (fetch_order_details order_id) (\<lambda>details.
     bind_io (case kitchen_state of
                Some k \<Rightarrow> ret (Some k)
              | None \<Rightarrow> bind_io (fetch_kitchen_ticket_for_order order_id) (\<lambda>t. ret (map_option snd t))) (\<lambda>resolved.
     ret (AdminCard (take 8 order_id) order_state resolved details,
          order_keyboard order_id order_state StaffRole.admin)))"

definition notify_admin_order_state :: "uuid \<Rightarrow> OrderState \<Rightarrow> (world, unit) io" where
  "notify_admin_order_state order_id st =
     bind_io (build_admin_card order_id st None) (\<lambda>(txt, kb).
     broadcast StaffRole.admin ''order'' order_id txt kb)"

definition notify_admin_kitchen_ticket_state :: "uuid \<Rightarrow> uuid \<Rightarrow> KitchenState \<Rightarrow> (world, unit) io" where
  "notify_admin_kitchen_ticket_state ticket_id order_id st =
     bind_io (fetch_order_state order_id) (\<lambda>order_state.
       case order_state of
         None \<Rightarrow> ret ()
       | Some os \<Rightarrow>
           bind_io (build_admin_card order_id os (Some st)) (\<lambda>(txt, kb).
           broadcast StaffRole.admin ''order'' order_id txt kb))"

definition build_staff_card ::
  "uuid \<Rightarrow> OrderState \<Rightarrow> uuid option \<Rightarrow> KitchenState option
     \<Rightarrow> (world, card_text \<times> button_payload list list) io" where
  "build_staff_card order_id order_state ticket_id kitchen_state =
     (let order_kb = order_keyboard order_id order_state StaffRole.staff;
          kitchen_kb = (case (ticket_id, kitchen_state) of
              (Some t, Some k) \<Rightarrow> kitchen_keyboard t k | _ \<Rightarrow> []);
          keyboard = combine_keyboards [kitchen_kb, order_kb]
      in bind_io (fetch_order_details order_id) (\<lambda>details.
         ret (StaffCard (take 8 order_id) order_state kitchen_state details, keyboard)))"

definition notify_staff_card ::
  "uuid \<Rightarrow> OrderState option \<Rightarrow> uuid option \<Rightarrow> KitchenState option \<Rightarrow> (world, unit) io" where
  "notify_staff_card order_id order_state ticket_id kitchen_state =
     bind_io (case order_state of None \<Rightarrow> fetch_order_state order_id | Some s \<Rightarrow> ret (Some s)) (\<lambda>resolved.
       case resolved of
         None \<Rightarrow> ret ()
       | Some os \<Rightarrow>
           bind_io (if ticket_id = None \<or> kitchen_state = None
                    then bind_io (fetch_kitchen_ticket_for_order order_id) (\<lambda>t.
                           ret (case t of None \<Rightarrow> (ticket_id, kitchen_state)
                                | Some (i, k) \<Rightarrow> (Some i, Some k)))
                    else ret (ticket_id, kitchen_state)) (\<lambda>(tid, ks).
           bind_io (build_staff_card order_id os tid ks) (\<lambda>(txt, kb).
           broadcast StaffRole.staff ''order'' order_id txt kb)))"

section \<open>Customer pushes\<close>

definition customer_state_text :: "string \<Rightarrow> bool" where
  "customer_state_text raw \<longleftrightarrow> raw \<in> set [OrderState_value OrderState.COOKING,
     OrderState_value OrderState.DELIVERING, OrderState_value OrderState.DELIVERED,
     OrderState_value OrderState.CANCELLED, ''PAYMENT_FAILED'']"

definition notify_customer_order_state :: "platform \<Rightarrow> uuid \<Rightarrow> string \<Rightarrow> (world, unit) io" where
  "notify_customer_order_state pf order_id raw =
     (let max_configured = (MAX_BOT_TOKEN (cfg pf) \<noteq> []);
          tg_configured = (TELEGRAM_BOT_TOKEN (cfg pf) \<noteq> [])
      in if \<not> customer_state_text raw \<or> \<not> (max_configured \<or> tg_configured) then ret ()
         else bind_io (select_committed (\<lambda>d. first_where (\<lambda>r. o_id r = order_id) (orders d))) (\<lambda>row.
           case row of
             None \<Rightarrow> ret ()
           | Some r \<Rightarrow>
               bind_io (case o_client_max_uid r of
                          Some uid \<Rightarrow> if max_configured
                            then modify_io (\<lambda>w. w\<lparr>outbox := outbox w @ [CustomerPush (int_str uid) raw (take 8 order_id)]\<rparr>)
                            else ret ()
                        | None \<Rightarrow> ret ()) (\<lambda>_.
               case o_client_telegram_uid r of
                 Some uid \<Rightarrow> if tg_configured
                   then modify_io (\<lambda>w. w\<lparr>outbox := outbox w @ [TelegramText (int_str uid) raw]\<rparr>)
                   else ret ()
               | None \<Rightarrow> ret ())))"

section \<open>The notification tool\<close>

definition notify_staff_new_kitchen_ticket :: "world tool" where
  "notify_staff_new_kitchen_ticket kw =
     bind_io (str_arg ''order_id'' kw) (\<lambda>order_id.
     bind_io (str_arg ''ticket_id'' kw) (\<lambda>ticket_id.
     bind_io (catch_io (notify_kitchen_ticket_state ticket_id order_id KitchenState.NEW) (\<lambda>_. ret ())) (\<lambda>_.
     bind_io (catch_io (notify_admin_kitchen_ticket_state ticket_id order_id KitchenState.NEW) (\<lambda>_. ret ())) (\<lambda>_.
     bind_io (catch_io (notify_staff_card order_id None (Some ticket_id) (Some KitchenState.NEW)) (\<lambda>_. ret ())) (\<lambda>_.
     ret (JStr ''NOTIFIED''))))))"

section \<open>Notifications never raise and touch only the messages\<close>

definition messages_only :: "world \<Rightarrow> world \<Rightarrow> bool" where
  "messages_only w w' \<longleftrightarrow> w' = w\<lparr>message_refs := message_refs w', outbox := outbox w'\<rparr>"

lemma messages_only_refl [intro, simp]: "messages_only w w"
  by (simp add: messages_only_def)

lemma messages_only_trans: "messages_only w w1 \<Longrightarrow> messages_only w1 w2 \<Longrightarrow> messages_only w w2"
  by (cases w; cases w1; cases w2) (simp add: messages_only_def)

lemma messages_only_frame:
  assumes "messages_only w w'"
  shows "db w' = db w" "committed w' = committed w" "uuids w' = uuids w"
    "uuid_next w' = uuid_next w" "saved_traces w' = saved_traces w" "trace_log w' = trace_log w"
    "now w' = now w"
  by (subst assms[unfolded messages_only_def], simp)+

definition quiet :: "(world, 'a) io \<Rightarrow> bool" where
  "quiet m \<longleftrightarrow> (\<forall>w. \<exists>x w'. m w = (Inr x, w') \<and> messages_only w w')"

lemma quietE:
  assumes "quiet m"
  obtains x w' where "m w = (Inr x, w')" "messages_only w w'"
  using assms unfolding quiet_def by blast

lemma quietD: "quiet m \<Longrightarrow> m w = (r, w') \<Longrightarrow> messages_only w w' \<and> (\<exists>x. r = Inr x)"
  unfolding quiet_def by (metis prod.inject)

lemma quiet_ret [intro, simp]: "quiet (ret x)" "quiet (select_committed f)" "quiet (gets_io g)"
  by (auto simp: quiet_def)

lemma quiet_bind [intro]:
  assumes "quiet m" "\<And>x. quiet (k x)"
  shows "quiet (bind_io m k)"
  unfolding quiet_def
proof
  fix w
  obtain x w1 where 1: "m w = (Inr x, w1)" "messages_only w w1"
    using assms(1) by (rule quietE)
  obtain y w2 where 2: "k x w1 = (Inr y, w2)" "messages_only w1 w2"
    using assms(2) by (rule quietE)
  show "\<exists>y w'. bind_io m k w = (Inr y, w') \<and> messages_only w w'"
    using 1 2 messages_only_trans by auto
qed

lemma quiet_fold [intro]: "(\<And>x s. quiet (f x s)) \<Longrightarrow> quiet (fold_io f xs s)"
  by (induction xs arbitrary: s) auto

lemma quiet_option [intro]:
  "quiet m \<Longrightarrow> (\<And>x. quiet (k x)) \<Longrightarrow> quiet (case o' of None \<Rightarrow> m | Some x \<Rightarrow> k x)"
  by (cases o') auto

lemma quiet_if [intro]: "quiet m \<Longrightarrow> quiet k \<Longrightarrow> quiet (if b then m else k)"
  by simp

lemma quiet_prod [intro]: "(\<And>x y. quiet (k x y)) \<Longrightarrow> quiet (case p of (x, y) \<Rightarrow> k x y)"
  by (cases p) auto

lemma quiet_catch [intro]:
  assumes "quiet m"
  shows "quiet (catch_io m h)"
  unfolding quiet_def
proof
  fix w
  obtain x w1 where "m w = (Inr x, w1)" "messages_only w w1"
    using assms by (rule quietE)
  then show "\<exists>x w'. catch_io m h w = (Inr x, w') \<and> messages_only w w'"
    by (simp add: catch_io_def)
qed

lemmas quiet_intros = quiet_bind quiet_fold quiet_option quiet_if quiet_prod quiet_catch quiet_ret

lemma quiet_send [intro, simp]:
  "quiet (get_message_ref kind eid uid)" "quiet (save_message_ref kind eid uid mid)"
  "quiet (max_edit_message mid txt kb)" "quiet (max_send_message uid txt kb)"
  "quiet (send_or_edit kind eid uid txt kb)" "quiet (list_active_by_role role)"
  "quiet (broadcast role kind eid txt kb)"
proof -
  show save: "quiet (save_message_ref kind eid uid mid)" for kind eid uid mid
    by (auto simp: quiet_def save_message_ref_def messages_only_def Let_def split: option.splits)
  show edit: "quiet (max_edit_message mid txt kb)" for mid txt kb
    by (auto simp: quiet_def max_edit_message_def messages_only_def)
  show send: "quiet (max_send_message uid txt kb)" for uid txt kb
    by (auto simp: quiet_def max_send_message_def messages_only_def)
  show get: "quiet (get_message_ref kind eid uid)" for kind eid uid
    by (simp add: get_message_ref_def)
  show soe: "quiet (send_or_edit kind eid uid txt kb)" for kind eid uid txt kb
    unfolding send_or_edit_def
    by (intro quiet_intros get edit send save)
  show list: "quiet (list_active_by_role role)" for role
    by (simp add: list_active_by_role_def)
  show "quiet (broadcast role kind eid txt kb)"
    unfolding broadcast_def by (intro quiet_bind list quiet_fold quiet_option quiet_ret soe)
qed

lemma quiet_fetch [intro, simp]:
  "quiet (fetch_order_details oid)" "quiet (fetch_order_state oid)"
  "quiet (fetch_kitchen_ticket_for_order oid)"
  by (simp_all add: fetch_order_details_def fetch_order_state_def fetch_kitchen_ticket_for_order_def)

lemma quiet_cards [intro, simp]:
  "quiet (build_admin_card oid os ks)" "quiet (build_staff_card oid os tid ks)"
  unfolding build_admin_card_def build_staff_card_def Let_def
  by (intro quiet_intros quiet_fetch)+

lemma quiet_notify [intro, simp]:
  "quiet (notify_kitchen_ticket_state tid oid ks)" "quiet (notify_courier_order_state oid os)"
  "quiet (notify_admin_order_state oid os)" "quiet (notify_admin_kitchen_ticket_state tid oid ks)"
  "quiet (notify_staff_card oid oos otid oks)"
  unfolding notify_kitchen_ticket_state_def notify_courier_order_state_def notify_admin_order_state_def
    notify_admin_kitchen_ticket_state_def notify_staff_card_def
  by (intro quiet_intros quiet_fetch quiet_cards quiet_send)+

lemma quiet_customer [intro, simp]: "quiet (notify_customer_order_state pf oid raw)"
proof -
  have "quiet (modify_io (\<lambda>w. w\<lparr>outbox := outbox w @ [m]\<rparr>))" for m
    by (auto simp: quiet_def messages_only_def)
  then show ?thesis
    unfolding notify_customer_order_state_def Let_def by (intro quiet_intros)
qed

lemma notify_tool_run:
  "\<exists>w'. notify_staff_new_kitchen_ticket [(''order_id'', JStr oid), (''ticket_id'', JStr tid)] w =
     (Inr (JStr ''NOTIFIED''), w') \<and> messages_only w w'"
proof -
  have "quiet (bind_io (catch_io (notify_kitchen_ticket_state tid oid KitchenState.NEW) (\<lambda>_. ret ())) (\<lambda>_.
     bind_io (catch_io (notify_admin_kitchen_ticket_state tid oid KitchenState.NEW) (\<lambda>_. ret ())) (\<lambda>_.
     catch_io (notify_staff_card oid None (Some tid) (Some KitchenState.NEW)) (\<lambda>_. ret ()))))"
    by (intro quiet_bind quiet_catch quiet_notify)
  then obtain x w' where "bind_io (catch_io (notify_kitchen_ticket_state tid oid KitchenState.NEW) (\<lambda>_. ret ())) (\<lambda>_.
     bind_io (catch_io (notify_admin_kitchen_ticket_state tid oid KitchenState.NEW) (\<lambda>_. ret ())) (\<lambda>_.
     catch_io (notify_staff_card oid None (Some tid) (Some KitchenState.NEW)) (\<lambda>_. ret ()))) w = (Inr x, w')"
     "messages_only w w'"
    by (rule quietE)
  then show ?thesis
    by (auto simp: notify_staff_new_kitchen_ticket_def bind_io_Inr_iff)
qed

lemma quiet_no_commit: "quiet m \<Longrightarrow> no_commit m"
  unfolding no_commit_def using messages_only_frame(2) by (metis quietD prod.collapse)

lemma no_commit_notify_tool [no_commit_intros, intro, simp]:
  "no_commit (notify_staff_new_kitchen_ticket kw)"
  unfolding notify_staff_new_kitchen_ticket_def
  by (intro no_commit_bind no_commit_str_arg no_commit_basic quiet_no_commit quiet_catch quiet_notify)

section \<open>What a keyboard offers\<close>

lemma concat_row [simp]: "concat (if row = [] then [] else [row]) = row"
  by simp

lemma order_keyboard_buttons:
  "b \<in> set (concat (order_keyboard oid s role)) \<longleftrightarrow>
     (\<exists>e s'. b = Button ''order'' oid (OrderEvent_value e)
        \<and> e \<in> set (offered_order_events role) \<and> map_of (ORDER_TRANSITIONS s) e = Some s')"
  unfolding og.edge_iff order_keyboard_def Let_def concat_row by force

lemma kitchen_keyboard_buttons:
  "b \<in> set (concat (kitchen_keyboard tid s)) \<longleftrightarrow>
     (\<exists>e s'. b = Button ''kitchen'' tid (KitchenEvent_value e) \<and> map_of (KITCHEN_TRANSITIONS s) e = Some s')"
  unfolding kg.edge_iff kitchen_keyboard_def Let_def concat_row by force

end
