(* ===== verification/Order_Service.thy ===== *)
theory Order_Service
  imports Programs Staff_Notify
begin

text \<open>
  OrderService (app/services/order_service.py): the tool registry of the order
  VM, the governed transition of an order, the ungoverned entry handle_event,
  creation and reading of orders.
\<close>

section \<open>The VM of the order programs\<close>

definition ORDER_TOOLS :: "platform \<Rightarrow> (string \<times> world tool) list" where
  "ORDER_TOOLS pf =
     [(''validate_order_items'', validate_order_items),
      (''yookassa_create_payment'', yookassa_create_payment pf),
      (''yookassa_verify_payment'', yookassa_verify_payment pf),
      (''write_order_state_payment_pending'', write_order_state_payment_pending),
      (''write_order_state_paid'', write_order_state_paid),
      (''write_order_state_payment_failed'', write_order_state_payment_failed),
      (''write_order_state_cooking'', write_order_state_cooking),
      (''reserve_inventory_items'', reserve_inventory_items pf),
      (''create_kitchen_ticket'', create_kitchen_ticket),
      (''log_validation_failure'', log_validation_failure),
      (''notify_inventory_insufficient'', notify_inventory_insufficient),
      (''notify_staff_new_kitchen_ticket'', notify_staff_new_kitchen_ticket),
      (''transition_order_state'', transition_order_state)]"

definition build_vm :: "platform \<Rightarrow> string \<Rightarrow> world tool option" where
  "build_vm pf = governed pf ORDERS_TOOL_CAPABILITIES (ORDER_TOOLS pf)"

definition run_program ::
  "platform \<Rightarrow> (string \<Rightarrow> world tool option) \<Rightarrow> program \<Rightarrow> kwargs \<Rightarrow> (world, trace) io" where
  "run_program pf tools p ctx = (\<lambda>w. case run_vm pf tools p ctx w of (tr, w') \<Rightarrow> (Inr tr, w'))"

section \<open>Transitions\<close>

definition can_transition :: "uuid \<Rightarrow> OrderEvent \<Rightarrow> OrderState \<Rightarrow> bool" where
  "can_transition order_id event current_state = True"

definition select_program :: "OrderEvent \<Rightarrow> OrderState \<Rightarrow> OrderState \<Rightarrow> program" where
  "select_program event current_state next_state =
     (if event = OrderEvent.START_COOKING then the (map_of EVENT_PROGRAM_MAP ''START_COOKING'')
      else if map_of EVENT_PROGRAM_MAP (OrderEvent_value event) \<noteq> None
              \<and> (OrderEvent_value event = ''REQUEST_PAYMENT'' \<or> OrderEvent_value event = ''PAYMENT_CONFIRMED'')
      then build_simple_program (OrderEvent_value event) (OrderState_value current_state) (OrderState_value next_state)
      else case map_of EVENT_PROGRAM_MAP (OrderEvent_value event) of
             Some p \<Rightarrow> p
           | None \<Rightarrow> build_simple_program (OrderEvent_value event)
                      (OrderState_value current_state) (OrderState_value next_state))"

definition transition_context :: "uuid \<Rightarrow> OrderEvent \<Rightarrow> OrderState \<Rightarrow> kwargs" where
  "transition_context order_id event current_state =
     (''order_id'', JStr order_id) #
     (if event = OrderEvent.CANCEL then [(''from_state'', JStr (OrderState_value current_state))] else [])"

definition failure_reason :: "trace \<Rightarrow> (OrderState, OrderEvent) reason" where
  "failure_reason tr = Reason (case trace_error tr of
       Some e \<Rightarrow> if e = [] then ''Execution failed'' else e
     | None \<Rightarrow> ''Execution failed'')"

definition on_cooking :: "uuid \<Rightarrow> (world, unit) io" where
  "on_cooking order_id = bind_io (KitchenRepository_create order_id) (\<lambda>_. ret ())"

definition set_order_trace :: "uuid \<Rightarrow> string \<Rightarrow> database \<Rightarrow> database" where
  "set_order_trace order_id tid d =
     d\<lparr>orders := update_where (\<lambda>r. o_id r = order_id) (\<lambda>r. r\<lparr>o_trace_id := Some tid\<rparr>) (orders d)\<rparr>"

definition transition_order ::
  "platform \<Rightarrow> uuid \<Rightarrow> OrderEvent \<Rightarrow> (world, (OrderState, OrderEvent) TransitionResult) io" where
  "transition_order pf order_id event = with_session (
     bind_io (OrderRepository_get_state order_id) (\<lambda>current_state.
       if \<not> can_transition order_id event current_state
       then ret (rejected event (Reason ''Blocked by policy''))
       else case map_of (ORDER_TRANSITIONS current_state) event of
         None \<Rightarrow> ret (rejected event (EventNotAllowed event current_state))
       | Some next_state \<Rightarrow>
           let program = select_program event current_state next_state;
               context = transition_context order_id event current_state
           in if \<not> validates pf program then raise (RuntimeError (program_name program))
              else bind_io (run_program pf (build_vm pf) program context) (\<lambda>tr.
                   bind_io (save_trace tr) (\<lambda>_.
                     if trace_status tr = trace_status.SUCCESS then
                       bind_io (if trace_id tr \<noteq> [] then update_db (set_order_trace order_id (trace_id tr))
                                else ret ()) (\<lambda>_.
                       bind_io (if next_state = OrderState.COOKING \<and> event = OrderEvent.START_COOKING then ret ()
                                else if next_state = OrderState.COOKING then on_cooking order_id
                                else ret ()) (\<lambda>_.
                       bind_io commit (\<lambda>_. ret (accepted next_state))))
                     else ret (rejected event (failure_reason tr))))))"

definition order_handle_event ::
  "platform \<Rightarrow> uuid \<Rightarrow> OrderEvent \<Rightarrow> (world, (OrderState, OrderEvent) TransitionResult) io" where
  "order_handle_event pf order_id event = with_session (
     bind_io (OrderRepository_get_state order_id) (\<lambda>current_state.
       case map_of (ORDER_TRANSITIONS current_state) event of
         None \<Rightarrow> ret (rejected event (EventNotAllowed event current_state))
       | Some next_state \<Rightarrow>
           let program = select_program event current_state next_state;
               context = transition_context order_id event current_state
           in if \<not> validates pf program then raise (RuntimeError (program_name program))
              else bind_io (run_program pf (build_vm pf) program context) (\<lambda>tr.
                   bind_io (save_trace tr) (\<lambda>_.
                     if trace_status tr = trace_status.SUCCESS
                     then bind_io commit (\<lambda>_. ret (accepted next_state))
                     else ret (rejected event (failure_reason tr))))))"

section \<open>Creating and reading orders\<close>

definition coerce_item :: "platform \<Rightarrow> json \<Rightarrow> (world, OrderItem) io" where
  "coerce_item pf raw = (case raw of
       JObj kvs \<Rightarrow>
         (case parse_order_item pf raw of
            Some it \<Rightarrow> ret it
          | None \<Rightarrow>
              bind_io new_uuid (\<lambda>u.
              bind_io (lift_result (py_int (case map_of kvs ''price_rub'' of Some v \<Rightarrow> v | None \<Rightarrow> JInt 0))) (\<lambda>price.
              bind_io (lift_result (py_int (case map_of kvs ''qty'' of Some v \<Rightarrow> v | None \<Rightarrow> JInt 1))) (\<lambda>qty.
              ret \<lparr>oi_product_id = u,
                   oi_name = py_str (repr_of pf) (case map_of kvs ''sku'' of Some v \<Rightarrow> v
                       | None \<Rightarrow> (case map_of kvs ''product_id'' of Some v \<Rightarrow> v | None \<Rightarrow> JStr ''unknown'')),
                   oi_price_rub = price, oi_qty = qty\<rparr>))))
     | _ \<Rightarrow> bind_io new_uuid (\<lambda>u.
             ret \<lparr>oi_product_id = u, oi_name = ''unknown'', oi_price_rub = 0, oi_qty = 1\<rparr>))"

definition coerce_items :: "platform \<Rightarrow> json list \<Rightarrow> (world, OrderItem list) io" where
  "coerce_items pf raws =
     fold_io (\<lambda>raw acc. bind_io (coerce_item pf raw) (\<lambda>it. ret (acc @ [it]))) raws []"

definition draft_row :: "uuid \<Rightarrow> uuid \<Rightarrow> json list \<Rightarrow> string \<Rightarrow> int \<Rightarrow> order_row" where
  "draft_row i customer_id items address t =
     \<lparr>o_id = i, o_customer_id = customer_id, o_state = OrderState_value OrderState.DRAFT, o_items = items,
      o_delivery_address = address, o_payment_id = None, o_trace_id = None, o_created_at = t,
      o_delivery_mode = None, o_zone_id = None, o_comment = None, o_client_max_uid = None,
      o_client_zalo_uid = None, o_client_telegram_uid = None, o_total_rub = None,
      o_payment_method = None, o_promo_code = None, o_discount_rub = 0\<rparr>"

text \<open>INSERT INTO orders: a new primary key, and an existing zone when one is given.\<close>

definition insert_order :: "(uuid \<Rightarrow> int \<Rightarrow> order_row) \<Rightarrow> (world, order_row) io" where
  "insert_order mk =
     bind_io new_uuid (\<lambda>i.
     bind_io (gets_io (\<lambda>w. mk i (now w))) (\<lambda>row.
     bind_io (select_db (\<lambda>d. first_where (\<lambda>r. o_id r = i) (orders d) \<noteq> None)) (\<lambda>dup.
     bind_io (select_db (\<lambda>d. case o_zone_id row of None \<Rightarrow> False
                | Some z \<Rightarrow> first_where (\<lambda>r. z_id r = z) (delivery_zones d) = None)) (\<lambda>orphan.
       if dup then raise (IntegrityError ''orders_pkey'')
       else if orphan then raise (IntegrityError ''orders_zone_id_fkey'')
       else bind_io (update_db (\<lambda>d. d\<lparr>orders := orders d @ [row]\<rparr>)) (\<lambda>_. ret row)))))"

definition read_row :: "platform \<Rightarrow> order_row \<Rightarrow> (world, OrderState \<times> OrderItem list) io" where
  "read_row pf r =
     bind_io (lift_result (OrderState_of (o_state r))) (\<lambda>s.
     bind_io (coerce_items pf (o_items r)) (\<lambda>items. ret (s, items)))"

definition create_order :: "platform \<Rightarrow> uuid \<Rightarrow> json list \<Rightarrow> string \<Rightarrow> (world, OrderRead) io" where
  "create_order pf customer_id items delivery_address = with_session (
     bind_io (insert_order (\<lambda>i t. draft_row i customer_id items delivery_address t)) (\<lambda>row.
     bind_io commit (\<lambda>_.
     bind_io (read_row pf row) (\<lambda>(s, its).
     ret \<lparr>or_id = o_id row, or_customer_id = o_customer_id row, or_state = s, or_items = its,
          or_delivery_address = o_delivery_address row, or_delivery_mode = None,
          or_payment_method = None, or_comment = None, or_customer_name = None,
          or_customer_phone = None, or_trace_id = o_trace_id row, or_total_rub = None,
          or_discount_rub = None, or_created_at = Some (o_created_at row)\<rparr>))))"

definition create_order_from_checkout ::
  "platform \<Rightarrow> CheckoutRequest \<Rightarrow> uuid \<Rightarrow> OrderItem list \<Rightarrow> int \<Rightarrow> string option \<Rightarrow> int \<Rightarrow> (world, OrderRead) io" where
  "create_order_from_checkout pf data customer_id items total_rub promo_code discount_rub = with_session (
     bind_io (check_varchar 32 (cr_delivery_mode data)) (\<lambda>_.
     bind_io (check_int4 total_rub) (\<lambda>_.
     bind_io (check_int4 discount_rub) (\<lambda>_.
     bind_io (check_opt check_int4 (cr_client_max_uid data)) (\<lambda>_.
     bind_io (check_opt check_int4 (cr_client_telegram_uid data)) (\<lambda>_.
     bind_io (check_opt (check_varchar 64) (cr_client_zalo_uid data)) (\<lambda>_.
     bind_io (check_opt (check_varchar 64) promo_code) (\<lambda>_.
     bind_io (insert_order (\<lambda>i t.
        (draft_row i customer_id (map dump_order_item items)
           (case cr_address data of Some a \<Rightarrow> a | None \<Rightarrow> []) t)
        \<lparr>o_delivery_mode := Some (cr_delivery_mode data), o_zone_id := cr_zone_id data,
         o_comment := cr_comment data, o_client_max_uid := cr_client_max_uid data,
         o_client_zalo_uid := cr_client_zalo_uid data,
         o_client_telegram_uid := cr_client_telegram_uid data, o_total_rub := Some total_rub,
         o_payment_method := Some (cr_payment_method data), o_promo_code := promo_code,
         o_discount_rub := discount_rub\<rparr>)) (\<lambda>row.
     bind_io commit (\<lambda>_.
     bind_io (read_row pf row) (\<lambda>(s, its).
     ret \<lparr>or_id = o_id row, or_customer_id = o_customer_id row, or_state = s, or_items = its,
          or_delivery_address = o_delivery_address row, or_delivery_mode = Some (cr_delivery_mode data),
          or_payment_method = Some (cr_payment_method data), or_comment = cr_comment data,
          or_customer_name = None, or_customer_phone = None, or_trace_id = o_trace_id row,
          or_total_rub = Some total_rub, or_discount_rub = Some discount_rub,
          or_created_at = Some (o_created_at row)\<rparr>)))))))))))"

definition customer_of :: "database \<Rightarrow> order_row \<Rightarrow> customer_row option" where
  "customer_of d r = first_where (\<lambda>c. cu_id c = o_customer_id r) (customers d)"

definition get_order :: "platform \<Rightarrow> uuid \<Rightarrow> (world, OrderRead option) io" where
  "get_order pf order_id = with_session (
     bind_io (select_db (\<lambda>d. map_option (\<lambda>r. (r, customer_of d r)) (first_where (\<lambda>r. o_id r = order_id) (orders d)))) (\<lambda>row.
       case row of
         None \<Rightarrow> ret None
       | Some (r, c) \<Rightarrow>
           bind_io (read_row pf r) (\<lambda>(s, its).
           ret (Some \<lparr>or_id = o_id r, or_customer_id = o_customer_id r, or_state = s, or_items = its,
                or_delivery_address = o_delivery_address r, or_delivery_mode = o_delivery_mode r,
                or_payment_method = o_payment_method r, or_comment = o_comment r,
                or_customer_name = map_option cu_name c, or_customer_phone = map_option cu_phone c,
                or_trace_id = o_trace_id r, or_total_rub = o_total_rub r,
                or_discount_rub = Some (o_discount_rub r), or_created_at = Some (o_created_at r)\<rparr>))))"

definition fetch_orders :: "platform \<Rightarrow> OrderState option \<Rightarrow> (world, OrderRead list) io" where
  "fetch_orders pf state_filter = with_session (
     bind_io (select_db (\<lambda>d. map (\<lambda>r. (r, customer_of d r))
        (sort_key (\<lambda>r. - o_created_at r)
          (rows_where (\<lambda>r. case state_filter of None \<Rightarrow> True | Some s \<Rightarrow> o_state r = OrderState_value s) (orders d))))) (\<lambda>rows.
     fold_io (\<lambda>(r, c) acc.
        bind_io (read_row pf r) (\<lambda>(s, its).
        ret (acc @ [\<lparr>or_id = o_id r, or_customer_id = o_customer_id r, or_state = s, or_items = its,
                or_delivery_address = o_delivery_address r, or_delivery_mode = o_delivery_mode r,
                or_payment_method = o_payment_method r, or_comment = o_comment r,
                or_customer_name = map_option cu_name c, or_customer_phone = map_option cu_phone c,
                or_trace_id = o_trace_id r, or_total_rub = None, or_discount_rub = None,
                or_created_at = Some (o_created_at r)\<rparr>]))) rows []))"

definition clear_client_zalo_uid :: "string \<Rightarrow> (world, nat) io" where
  "clear_client_zalo_uid zalo_user_id = with_session (
     bind_io (select_db (\<lambda>d. length (rows_where (\<lambda>r. o_client_zalo_uid r = Some zalo_user_id) (orders d)))) (\<lambda>n.
     bind_io (update_db (\<lambda>d. d\<lparr>orders := update_where (\<lambda>r. o_client_zalo_uid r = Some zalo_user_id)
        (\<lambda>r. r\<lparr>o_client_zalo_uid := None\<rparr>) (orders d)\<rparr>)) (\<lambda>_.
     bind_io commit (\<lambda>_. ret n))))"

section \<open>Runs of the programs\<close>

lemma order_tool:
  assumes "vm_ok pf" "map_of (ORDER_TOOLS pf) name = Some f" "name \<in> fst ` set ORDERS_TOOL_CAPABILITIES"
  shows "build_vm pf name = Some f"
  unfolding build_vm_def by (rule governed_permitted[OF assms])

lemma build_vm_tools:
  assumes "vm_ok pf"
  shows "build_vm pf ''transition_order_state'' = Some transition_order_state"
    "build_vm pf ''reserve_inventory_items'' = Some (reserve_inventory_items pf)"
    "build_vm pf ''notify_inventory_insufficient'' = Some notify_inventory_insufficient"
    "build_vm pf ''create_kitchen_ticket'' = Some create_kitchen_ticket"
    "build_vm pf ''write_order_state_cooking'' = Some write_order_state_cooking"
    "build_vm pf ''notify_staff_new_kitchen_ticket'' = Some notify_staff_new_kitchen_ticket"
  by (rule order_tool[OF assms]; simp add: ORDER_TOOLS_def ORDERS_TOOL_CAPABILITIES_def)+

lemma no_commit_ORDER_TOOLS: "map_of (ORDER_TOOLS pf) tn = Some f \<Longrightarrow> no_commit (f kw)"
  by (drule map_of_SomeD) (auto simp: ORDER_TOOLS_def)

lemma select_program_START_COOKING [simp]:
  "select_program OrderEvent.START_COOKING s s' = PROGRAM_START_COOKING"
  by (simp add: select_program_def EVENT_PROGRAM_MAP_def)

lemma select_program_single:
  assumes "map_of (ORDER_TRANSITIONS s) ev = Some s'" "ev \<noteq> OrderEvent.START_COOKING"
  shows "\<exists>n sid ok fs. select_program ev s s' = \<lparr>program_name = n, program_steps =
      [ToolStep sid ''transition_order_state''
        [(''order_id'', CtxVar ''order_id''), (''from_state'', fs),
         (''to_state'', Lit (JStr (OrderState_value s')))] ok None]\<rparr>
    \<and> (fs = Lit (JStr (OrderState_value s)) \<or> ev = OrderEvent.CANCEL \<and> fs = CtxVar ''from_state'')"
proof (cases "ev \<in> {OrderEvent.CONFIRM, OrderEvent.CANCEL, OrderEvent.PAYMENT_FAILED}")
  case True
  then show ?thesis
    using assms
    by (elim insertE emptyE; cases s)
       (simp_all add: select_program_def EVENT_PROGRAM_MAP_def PROGRAM_CONFIRM_def PROGRAM_CANCEL_def
         PROGRAM_PAYMENT_FAILED_def)
next
  case False
  then have "select_program ev s s' = build_simple_program (OrderEvent_value ev) (OrderState_value s) (OrderState_value s')"
    using assms(2) by (cases ev) (simp_all add: select_program_def EVENT_PROGRAM_MAP_def)
  then show ?thesis by (simp add: build_simple_program_def)
qed

lemma forward_select_program:
  assumes "map_of (ORDER_TRANSITIONS s) ev = Some s'"
  shows "forward_program (select_program ev s s')"
proof (cases "ev = OrderEvent.START_COOKING")
  case False
  then show ?thesis
    using select_program_single[OF assms] by (auto simp: forward_single)
qed simp

text \<open>
  A single-step program: the run is the guarded write of the generic tool.
\<close>

lemma run_single_step:
  assumes "vm_ok pf" "map_of (ORDER_TRANSITIONS s) ev = Some s'" "ev \<noteq> OrderEvent.START_COOKING"
    and "run_vm pf (build_vm pf) (select_program ev s s') (transition_context oid ev s) w = (tr, w')"
  shows "case order_state_in (db w) oid of
      None \<Rightarrow> trace_status tr = trace_status.FAILED \<and> w' = w
    | Some v \<Rightarrow>
        if v = OrderState_value s
        then trace_status tr = trace_status.SUCCESS \<and> w' = w\<lparr>db := set_order_state oid (OrderState_value s') (db w)\<rparr>
        else trace_status tr = trace_status.FAILED \<and> w' = w"
proof -
  obtain n sid ok fs where p: "select_program ev s s' = \<lparr>program_name = n, program_steps =
      [ToolStep sid ''transition_order_state''
        [(''order_id'', CtxVar ''order_id''), (''from_state'', fs),
         (''to_state'', Lit (JStr (OrderState_value s')))] ok None]\<rparr>"
    and fs: "fs = Lit (JStr (OrderState_value s)) \<or> ev = OrderEvent.CANCEL \<and> fs = CtxVar ''from_state''"
    using select_program_single[OF assms(2,3)] by blast
  have "resolve_args (transition_context oid ev s) []
        [(''order_id'', CtxVar ''order_id''), (''from_state'', fs), (''to_state'', Lit (JStr (OrderState_value s')))]
      = [(''order_id'', JStr oid), (''from_state'', JStr (OrderState_value s)),
         (''to_state'', JStr (OrderState_value s'))]"
    using fs by (auto simp: transition_context_def)
  moreover note run_vm_exec[OF assms(1) forward_select_program[OF assms(2)] assms(4)]
  ultimately show ?thesis
    using transition_order_state_run[of "[(''order_id'', JStr oid), (''from_state'', JStr (OrderState_value s)),
         (''to_state'', JStr (OrderState_value s'))]" w oid "OrderState_value s" "OrderState_value s'"]
    by (auto simp: p vm_exec_iff build_vm_tools[OF assms(1)] split: option.splits if_splits)
qed

text \<open>
  The cooking program: the steps run in this order, a raising one ends the run
  as FAILED, the notification cannot fail, and the alert branch changes nothing.
\<close>

definition cooking_steps :: "platform \<Rightarrow> uuid \<Rightarrow> (world, uuid) io" where
  "cooking_steps pf oid =
     bind_io (reserve_items pf oid) (\<lambda>_.
     bind_io (insert_kitchen_ticket oid ''NEW'') (\<lambda>tid.
     bind_io (write_order_state_cooking [(''order_id'', JStr oid), (''ticket_id'', JStr tid)]) (\<lambda>_.
     ret tid)))"

lemma cooking_layout:
  fixes S defines "S \<equiv> program_steps PROGRAM_START_COOKING"
  shows "length S = 6"
    "S ! 0 = ToolStep ''reserve_inventory'' ''reserve_inventory_items'' [(''order_id'', CtxVar ''order_id'')]
        ''inventory_result'' (Some ''check_inventory_alert'')"
    "S ! 1 = ConditionStep ''check_inventory_alert'' ''inventory_result'' (At_Least 1)
        ''notify_inventory_below_zero'' ''create_kitchen_ticket''"
    "S ! 2 = ToolStep ''notify_inventory_below_zero'' ''notify_inventory_insufficient''
        [(''order_id'', CtxVar ''order_id'')] ''notify_result'' (Some ''create_kitchen_ticket'')"
    "S ! 3 = ToolStep ''create_kitchen_ticket'' ''create_kitchen_ticket'' [(''order_id'', CtxVar ''order_id'')]
        ''ticket_id'' (Some ''write_cooking_state'')"
    "S ! 4 = ToolStep ''write_cooking_state'' ''write_order_state_cooking''
        [(''order_id'', CtxVar ''order_id''), (''ticket_id'', OutputOf ''create_kitchen_ticket'')]
        ''write_result'' (Some ''notify_staff_kitchen_ticket'')"
    "S ! 5 = ToolStep ''notify_staff_kitchen_ticket'' ''notify_staff_new_kitchen_ticket''
        [(''order_id'', CtxVar ''order_id''), (''ticket_id'', OutputOf ''create_kitchen_ticket'')]
        ''notify_staff_result'' None"
    "step_index ''check_inventory_alert'' S = Some 1" "step_index ''notify_inventory_below_zero'' S = Some 2"
    "step_index ''create_kitchen_ticket'' S = Some 3" "step_index ''write_cooking_state'' S = Some 4"
    "step_index ''notify_staff_kitchen_ticket'' S = Some 5"
  by (simp_all add: S_def PROGRAM_START_COOKING_def)

lemma run_start_cooking:
  assumes "vm_ok pf"
    and "run_vm pf (build_vm pf) PROGRAM_START_COOKING
           (transition_context oid OrderEvent.START_COOKING s) w = (tr, w')"
  shows "case cooking_steps pf oid w of
      (Inl e, w1) \<Rightarrow> trace_status tr = trace_status.FAILED \<and> w' = w1
    | (Inr tid, w1) \<Rightarrow> trace_status tr = trace_status.SUCCESS \<and> messages_only w1 w'"
proof -
  let ?S = "program_steps PROGRAM_START_COOKING"
  let ?ctx = "[(''order_id'', JStr oid)]"
  note step = vm_exec_iff[of _ ?S, unfolded cooking_layout(1)] cooking_layout(2-) build_vm_tools[OF assms(1)]
  have notify: "st = trace_status.SUCCESS \<and> messages_only w3 w''"
    if "vm_exec (build_vm pf) ?S ?ctx 5 outs w3 st outs' w''"
      "map_of outs ''create_kitchen_ticket'' = Some (JStr tid)" for outs w3 st outs' w'' tid
    using that notify_tool_run[of oid tid w3]
    by (auto simp: step)
  have written: "case write_order_state_cooking [(''order_id'', JStr oid), (''ticket_id'', JStr tid)] w2 of
        (Inl e, w3) \<Rightarrow> st = trace_status.FAILED \<and> w'' = w3
      | (Inr v, w3) \<Rightarrow> st = trace_status.SUCCESS \<and> messages_only w3 w''"
    if "vm_exec (build_vm pf) ?S ?ctx 4 outs w2 st outs' w''"
      "map_of outs ''create_kitchen_ticket'' = Some (JStr tid)" for outs w2 st outs' w'' tid
  proof (cases "write_order_state_cooking [(''order_id'', JStr oid), (''ticket_id'', JStr tid)] w2")
    case (Pair r w3)
    have "case r of Inl e \<Rightarrow> st = trace_status.FAILED \<and> w'' = w3
      | Inr v \<Rightarrow> vm_exec (build_vm pf) ?S ?ctx 5 ((''write_cooking_state'', v) # outs) w3 st outs' w''"
      using that Pair
      by (cases r) (simp_all add: step(1)[of 4] step(2-))
    then show ?thesis
      using notify[of "(''write_cooking_state'', projr r) # outs" w3 st outs' w'' tid] that(2) Pair
      by (cases r) simp_all
  qed
  have ticket: "case insert_kitchen_ticket oid ''NEW'' w1 of
        (Inl e, w2) \<Rightarrow> st = trace_status.FAILED \<and> w'' = w2
      | (Inr tid, w2) \<Rightarrow>
          (case write_order_state_cooking [(''order_id'', JStr oid), (''ticket_id'', JStr tid)] w2 of
             (Inl e, w3) \<Rightarrow> st = trace_status.FAILED \<and> w'' = w3
           | (Inr v, w3) \<Rightarrow> st = trace_status.SUCCESS \<and> messages_only w3 w'')"
    if "vm_exec (build_vm pf) ?S ?ctx 3 outs w1 st outs' w''" for outs w1 st outs' w''
  proof (cases "insert_kitchen_ticket oid ''NEW'' w1")
    case (Pair r w2)
    have "case r of Inl e \<Rightarrow> st = trace_status.FAILED \<and> w'' = w2
      | Inr tid \<Rightarrow> vm_exec (build_vm pf) ?S ?ctx 4 ((''create_kitchen_ticket'', JStr tid) # outs) w2 st outs' w''"
      using that Pair
      by (cases r) (simp_all add: step(1)[of 3] step(2-) create_kitchen_ticket_def)
    then show ?thesis
      using written[of "(''create_kitchen_ticket'', JStr (projr r)) # outs" w2 st outs' w'' "projr r"] Pair
      by (cases r) simp_all
  qed
  have alert: "vm_exec (build_vm pf) ?S ?ctx 3 outs w1 st outs' w''
      \<or> (\<exists>outs1. vm_exec (build_vm pf) ?S ?ctx 3 outs1 w1 st outs' w'')"
    if "vm_exec (build_vm pf) ?S ?ctx 1 outs w1 st outs' w''" for outs w1 st outs' w''
  proof -
    have "(\<exists>j \<in> {2, 3}. vm_exec (build_vm pf) ?S ?ctx j outs w1 st outs' w'')"
      using that by (auto simp: step(1)[of 1] step(2-) simp del: One_nat_def split: if_splits)
    moreover have "\<exists>outs1. vm_exec (build_vm pf) ?S ?ctx 3 outs1 w1 st outs' w''"
      if "vm_exec (build_vm pf) ?S ?ctx 2 outs w1 st outs' w''"
      using that
      by (auto simp: step(1)[of 2] step(2-) notify_inventory_insufficient_def)
    ultimately show ?thesis by auto
  qed
  have start: "vm_exec (build_vm pf) ?S ?ctx 0 [] w (trace_status tr) (trace_steps tr) w'"
    using run_vm_exec[OF assms(1) _ assms(2)] by (simp add: transition_context_def)
  show ?thesis
  proof (cases "reserve_items pf oid w")
    case (Pair r w1)
    have ran: "case r of Inl e \<Rightarrow> trace_status tr = trace_status.FAILED \<and> w' = w1
      | Inr n \<Rightarrow> vm_exec (build_vm pf) ?S ?ctx 1 [(''reserve_inventory'', JInt n)] w1
                   (trace_status tr) (trace_steps tr) w'"
      using start Pair
      by (cases r) (simp_all add: step(1)[of 0] step(2-) reserve_inventory_items_def)
    show ?thesis
    proof (cases r)
      case (Inl e)
      then show ?thesis using Pair ran by (simp add: cooking_steps_def)
    next
      case (Inr n)
      then obtain outs1 where
        "vm_exec (build_vm pf) ?S ?ctx 3 outs1 w1 (trace_status tr) (trace_steps tr) w'"
        using ran alert by (simp del: One_nat_def) blast
      from ticket[OF this] show ?thesis
        using Pair Inr by (auto simp: cooking_steps_def bind_io_apply split: sum.splits prod.splits)
    qed
  qed
qed

section \<open>Outcome of a transition\<close>

text \<open>The state write of a transition, up to the trace id stored beside it.\<close>

definition stamped :: "uuid \<Rightarrow> database \<Rightarrow> database \<Rightarrow> bool" where
  "stamped oid d d' \<longleftrightarrow> d' = d \<or> (\<exists>t. d' = set_order_trace oid t d)"

lemma order_state_in_trace [simp]: "order_state_in (set_order_trace oid t d) i = order_state_in d i"
  by (simp add: order_state_in_def set_order_trace_def first_where_update_key option.map_comp comp_def)

lemma stamped_frame:
  assumes "stamped oid d d'"
  shows "order_state_in d' i = order_state_in d i" "kitchen_tickets d' = kitchen_tickets d"
    "inventory d' = inventory d" "inventory_movements d' = inventory_movements d"
    "payments d' = payments d" "map o_id (orders d') = map o_id (orders d)"
    "idempotency_keys d' = idempotency_keys d"
  using assms by (auto simp: stamped_def) (simp_all add: set_order_trace_def)

lemma transition_order_unknown:
  assumes "order_state_in (committed w) oid = None"
  shows "transition_order pf oid ev w = (Inl NoResultFound, w\<lparr>db := committed w\<rparr>)"
  using assms
  by (simp add: transition_order_def with_session_apply bind_io_apply OrderRepository_get_state_def
      select_order_state_def)

lemma transition_order_rejects:
  assumes "order_state_in (committed w) oid = Some (OrderState_value s)"
    "map_of (ORDER_TRANSITIONS s) ev = None"
  shows "transition_order pf oid ev w = (Inr (rejected ev (EventNotAllowed ev s)), w\<lparr>db := committed w\<rparr>)"
  using assms
  by (simp add: transition_order_def with_session_apply bind_io_apply OrderRepository_get_state_def
      select_order_state_def can_transition_def)

lemma transition_order_simple:
  assumes "vm_ok pf" "order_state_in (committed w) oid = Some (OrderState_value s)"
    "map_of (ORDER_TRANSITIONS s) ev = Some s'" "ev \<noteq> OrderEvent.START_COOKING"
    "transition_order pf oid ev w = (r, w')"
  shows "r = Inr (accepted s') \<and> stamped oid (set_order_state oid (OrderState_value s') (committed w)) (committed w')
    \<and> db w' = committed w' \<and> outbox w' = outbox w"
proof -
  let ?w = "w\<lparr>db := committed w\<rparr>"
  obtain tr w1 where run: "run_vm pf (build_vm pf) (select_program ev s s') (transition_context oid ev s) ?w = (tr, w1)"
    by fastforce
  have ok: "trace_status tr = trace_status.SUCCESS" "w1 = w\<lparr>db := set_order_state oid (OrderState_value s') (committed w)\<rparr>"
    using run_single_step[OF assms(1,3,4) run] assms(2) by simp_all
  have "s' \<noteq> OrderState.COOKING"
    using assms(3,4) by (cases s) (auto split: if_splits)
  moreover have "OrderRepository_get_state oid ?w = (Inr s, ?w)"
    using assms(2) by (simp add: OrderRepository_get_state_Inr)
  ultimately have "transition_order pf oid ev w =
      (Inr (accepted s'), let d = (if trace_id tr \<noteq> [] then set_order_trace oid (trace_id tr) (db w1) else db w1) in
         (if trace_id tr = [] then w1 else w1\<lparr>saved_traces := saved_traces w1 @ [tr]\<rparr>)\<lparr>db := d, committed := d\<rparr>)"
    using assms(3) ok(1) run validates_forward[OF assms(1) forward_select_program[OF assms(3)]]
    by (simp add: transition_order_def with_session_apply bind_io_apply can_transition_def Let_def run_program_def)
  then show ?thesis
    using assms(5) ok(2) by (auto simp: stamped_def Let_def split: if_splits)
qed

lemma transition_order_cooking:
  assumes "vm_ok pf" "order_state_in (committed w) oid = Some (OrderState_value s)"
    "map_of (ORDER_TRANSITIONS s) OrderEvent.START_COOKING = Some s'"
    "transition_order pf oid OrderEvent.START_COOKING w = (r, w')"
  shows "case cooking_steps pf oid (w\<lparr>db := committed w\<rparr>) of
      (Inl e, w1) \<Rightarrow> (\<exists>x. r = Inr (rejected OrderEvent.START_COOKING (Reason x))) \<and> committed w' = committed w
    | (Inr tid, w1) \<Rightarrow> r = Inr (accepted OrderState.COOKING) \<and> stamped oid (db w1) (committed w')
        \<and> db w' = committed w'"
proof -
  let ?w = "w\<lparr>db := committed w\<rparr>"
  let ?ev = OrderEvent.START_COOKING
  obtain tr w2 where run: "run_vm pf (build_vm pf) PROGRAM_START_COOKING (transition_context oid ?ev s) ?w = (tr, w2)"
    by fastforce
  have s': "s' = OrderState.COOKING"
    using assms(3) by (cases s) auto
  have get: "OrderRepository_get_state oid ?w = (Inr s, ?w)"
    using assms(2) by (simp add: OrderRepository_get_state_Inr)
  note trans = transition_order_def with_session_apply bind_io_apply can_transition_def Let_def run_program_def
  obtain c w1 where c: "cooking_steps pf oid ?w = (c, w1)" by fastforce
  have keep: "committed w1 = committed w"
  proof -
    have "no_commit (cooking_steps pf oid)"
      unfolding cooking_steps_def
      by (intro no_commit_bind no_commit_reserve no_commit_insert_ticket no_commit_order_tools no_commit_basic)
    then show ?thesis using no_commitD[where m = "cooking_steps pf oid" and w = ?w] c by simp
  qed
  note ran = run_start_cooking[OF assms(1) run, unfolded c, simplified]
  show ?thesis
  proof (cases c)
    case (Inl e)
    then have "trace_status tr = trace_status.FAILED" "w2 = w1" using ran by simp_all
    then show ?thesis
      using Inl c keep assms(3,4) get run validates_forward[OF assms(1), of PROGRAM_START_COOKING]
      by (auto simp: trans failure_reason_def split: if_splits)
  next
    case (Inr tid)
    then have st: "trace_status tr = trace_status.SUCCESS" and m: "messages_only w1 w2" using ran by simp_all
    have "r = Inr (accepted s') \<and> (let d = (if trace_id tr \<noteq> [] then set_order_trace oid (trace_id tr) (db w2) else db w2) in
         db w' = d \<and> committed w' = d)"
      using st assms(3,4) get run s' validates_forward[OF assms(1), of PROGRAM_START_COOKING]
      by (auto simp: trans split: if_splits)
    then show ?thesis
      using Inr c s' messages_only_frame(1)[OF m] by (auto simp: stamped_def Let_def split: if_splits)
  qed
qed

section \<open>Effect of START_COOKING\<close>

text \<open>
  \<open>cooked pf oid d tid t d'\<close>: from d to d' the order went to COOKING, one NEW ticket
  tid was added for it, every quantity fell by what the order asks for, and the
  ledger got the matching sales.
\<close>

definition cooked :: "platform \<Rightarrow> uuid \<Rightarrow> database \<Rightarrow> uuid \<Rightarrow> int \<Rightarrow> database \<Rightarrow> bool" where
  "cooked pf oid d tid t d' \<longleftrightarrow>
     (\<exists>r. first_where (\<lambda>r. o_id r = oid) (orders d) = Some r
        \<and> o_state r \<in> {OrderState_value OrderState.PAID, OrderState_value OrderState.CONFIRMED}
        \<and> (\<forall>s. quantity_in d' s = map_option (\<lambda>q. q - demand pf (products d) (o_items r) s) (quantity_in d s)))
     \<and> (\<forall>i. order_state_in d' i = (if i = oid then Some (OrderState_value OrderState.COOKING) else order_state_in d i))
     \<and> tid \<notin> kt_id ` set (kitchen_tickets d)
     \<and> kitchen_tickets d' = kitchen_tickets d @
          [\<lparr>kt_id = tid, kt_order_id = oid, kt_state = ''NEW'', kt_created_at = t\<rparr>]
     \<and> (\<exists>ms. inventory_movements d' = inventory_movements d @ ms \<and> list_all (is_sale_of oid) ms)
     \<and> (key_unique inv_sku (inventory d) \<longrightarrow> stock_base d' = stock_base d)
     \<and> map inv_state (inventory d') = map inv_state (inventory d)
     \<and> map inv_sku (inventory d') = map inv_sku (inventory d)"

lemma cooking_steps_effect:
  assumes "cooking_steps pf oid w = (Inr tid, w1)"
  shows "cooked pf oid (db w) tid (now w) (db w1) \<and> tid = uuids w (uuid_next w)"
proof -
  obtain n w2 w3 v where res: "reserve_items pf oid w = (Inr n, w2)"
      and ins: "insert_kitchen_ticket oid ''NEW'' w2 = (Inr tid, w3)"
      and wr: "write_order_state_cooking [(''order_id'', JStr oid), (''ticket_id'', JStr tid)] w3 = (Inr v, w1)"
    using assms by (auto simp: cooking_steps_def bind_io_Inr_iff)
  from reserve_items_effect[OF res] obtain r ms where r: "first_where (\<lambda>r. o_id r = oid) (orders (db w)) = Some r"
      and ms: "reserved oid w w2 ms"
      and q: "\<And>t. quantity_in (db w2) t =
          map_option (\<lambda>q. q - demand pf (products (db w)) (o_items r) t) (quantity_in (db w) t)"
      and base: "\<And>B. same_base B w \<Longrightarrow> same_base B w2"
    by blast
  note f = reserved_frame[OF ms]
  have now: "now w2 = now w" using ms by (auto simp: reserved_def)
  have w3: "tid = uuids w (uuid_next w)" "tid \<notin> kt_id ` set (kitchen_tickets (db w))"
      "db w3 = (db w2)\<lparr>kitchen_tickets := kitchen_tickets (db w) @
              [\<lparr>kt_id = tid, kt_order_id = oid, kt_state = ''NEW'', kt_created_at = now w\<rparr>]\<rparr>"
    using ins f now by (auto simp: insert_kitchen_ticket_Inr)
  have st: "order_state_in (db w3) oid = Some (o_state r)"
    using r w3 f by (simp add: order_state_in_def)
  have allowed: "o_state r \<in> {OrderState_value OrderState.PAID, OrderState_value OrderState.CONFIRMED}"
    and w1: "db w1 = (set_order_state oid (OrderState_value OrderState.COOKING) (db w3))\<lparr>kitchen_tickets :=
        update_where (\<lambda>r. kt_id r = tid) (\<lambda>r. r\<lparr>kt_order_id := oid\<rparr>) (kitchen_tickets (db w3))\<rparr>"
    using wr st by (auto simp: write_order_state_cooking_def bind_io_Inr_iff expect_order_state_Inr set_order_state_def)
  have "update_where (\<lambda>r. kt_id r = tid) (\<lambda>r. r\<lparr>kt_order_id := oid\<rparr>) (kitchen_tickets (db w)) = kitchen_tickets (db w)"
    using w3(2) by (intro update_where_none) auto
  then have tickets: "kitchen_tickets (db w1) = kitchen_tickets (db w3)"
    using w1 w3(3) by simp
  have "order_state_in (db w1) i = (if i = oid then Some (OrderState_value OrderState.COOKING) else order_state_in (db w) i)" for i
    using w1 w3(3) st f(2) order_state_in_set[of oid "OrderState_value OrderState.COOKING" "db w3" i]
    by (auto simp: order_state_in_def set_order_state_def)
  moreover have "quantity_in (db w1) t =
      map_option (\<lambda>q. q - demand pf (products (db w)) (o_items r) t) (quantity_in (db w) t)" for t
    using q[of t] w1 w3(3) by (simp add: quantity_in_def set_order_state_def)
  moreover have "inventory (db w1) = inventory (db w2)" "inventory_movements (db w1) = inventory_movements (db w2)"
    using w1 w3(3) by (simp_all add: set_order_state_def)
  moreover have "stock_base (db w1) = stock_base (db w)" if "key_unique inv_sku (inventory (db w))"
    using base[of "stock_base (db w)"] that calculation(3,4)
    by (simp add: same_base_def stock_base_def[abs_def] quantity_in_def ledger_sum_def)
  moreover have "list_all (is_sale_of oid) ms" "map inv_state (inventory (db w2)) = map inv_state (inventory (db w))"
      "map inv_sku (inventory (db w2)) = map inv_sku (inventory (db w))"
    using ms by (auto simp: reserved_def)
  ultimately show ?thesis
    using r allowed tickets w3 f(9) by (auto simp: cooked_def)
qed

text \<open>When the items can be read and the id is new, stock never stands in the way.\<close>

lemma cooking_steps_ok:
  assumes "reserve_items pf oid w = (Inr n, w2)"
    and "order_state_in (db w) oid = Some (OrderState_value s)"
    and "s = OrderState.PAID \<or> s = OrderState.CONFIRMED"
    and "uuids w (uuid_next w) \<notin> kt_id ` set (kitchen_tickets (db w))"
  shows "\<exists>w1. cooking_steps pf oid w = (Inr (uuids w (uuid_next w)), w1)"
proof -
  from reserve_items_effect[OF assms(1)] obtain ms where ms: "reserved oid w w2 ms" by blast
  note f = reserved_frame[OF ms]
  have st: "order_state_in (db w2) oid = Some (OrderState_value s)"
    using assms(2) f by (simp add: order_state_in_def)
  obtain w3 where w3: "insert_kitchen_ticket oid ''NEW'' w2 = (Inr (uuids w (uuid_next w)), w3)"
    using assms(4) f st by (simp add: insert_kitchen_ticket_Inr)
  then have "order_state_in (db w3) oid = Some (OrderState_value s)"
    using st by (auto simp: insert_kitchen_ticket_Inr order_state_in_def)
  then show ?thesis
    using assms(1,3) w3
    by (auto simp: cooking_steps_def write_order_state_cooking_def expect_order_state_cases bind_io_apply)
qed

end
