(* ===== verification/Samples.thy ===== *)
theory Samples
  imports Order_Service
begin

text \<open>
  Concrete worlds on which the witnesses evaluate the services: a small menu, a
  stocked shelf, one order per interesting state and a staff member per role.
\<close>

definition tea :: uuid where
  "tea = ''00000000-0000-0000-0000-0000000000aa''"

definition sample_order :: "uuid \<Rightarrow> OrderState \<Rightarrow> order_row" where
  "sample_order i s =
     (draft_row i ''cust'' [JObj [(''product_id'', JStr tea), (''name'', JStr ''Tea''),
                                (''price_rub'', JInt 150), (''qty'', JInt 2)]] ''Main st. 1'' 0)
     \<lparr>o_state := OrderState_value s, o_delivery_mode := Some ''delivery'', o_total_rub := Some 399,
      o_payment_method := Some ''yookassa_sbp'', o_client_max_uid := Some 77\<rparr>"

definition sample_staff :: "uuid \<Rightarrow> StaffRole \<Rightarrow> int \<Rightarrow> staff_row" where
  "sample_staff i r uid = \<lparr>st_id = i, st_name = i, st_role = StaffRole_value r, st_max_user_id = Some uid,
     st_telegram_user_id = None, st_zalo_user_id = None, st_active = True, st_created_at = 0\<rparr>"

definition sample_db :: database where
  "sample_db = empty_db\<lparr>
     orders := [sample_order ''o-draft'' OrderState.DRAFT, sample_order ''o-paid'' OrderState.PAID,
                sample_order ''o-pending'' OrderState.PAYMENT_PENDING, sample_order ''o-cooking'' OrderState.COOKING],
     kitchen_tickets := [\<lparr>kt_id = ''t-ready'', kt_order_id = ''o-cooking'',
                          kt_state = ''READY'', kt_created_at = 1\<rparr>],
     inventory := [\<lparr>inv_sku = ''tea'', inv_name = ''Tea'', inv_quantity = 5, inv_state = ''LOW_STOCK''\<rparr>],
     customers := [\<lparr>cu_id = ''cust'', cu_name = ''Ann'', cu_phone = ''+79991234567''\<rparr>],
     products := [\<lparr>p_id = tea, p_name = ''Tea'', p_category_id = None, p_time_period_override = None,
                   p_price_rub = Some 150, p_description = None, p_image_url = None, p_is_active = True,
                   p_sku = Some ''tea'', p_sort = 0\<rparr>],
     payments := [\<lparr>pay_id = ''p1'', pay_order_id = ''o-pending'', pay_provider_id = ''yk-1'',
                   pay_amount = 399, pay_currency = ''RUB'', pay_state = ''PENDING''\<rparr>],
     delivery_zones := [\<lparr>z_id = ''z1'', z_external_id = None, z_name = ''Center'',
                         z_delivery_time_minutes = 30, z_is_active = True, z_delivery_fee_rub = 99\<rparr>],
     staff_members := [sample_staff ''s-kitchen'' StaffRole.kitchen 1, sample_staff ''s-courier'' StaffRole.courier 2,
                       sample_staff ''s-admin'' StaffRole.admin 3, sample_staff ''s-staff'' StaffRole.staff 4]\<rparr>"

definition sample_world :: world where
  "sample_world = \<lparr>db = sample_db, committed = sample_db, message_refs = [], outbox = [], saved_traces = [],
     trace_log = [], uuids = (\<lambda>n. CHR ''u'' # nat_str n), uuid_next = 0, now = 100,
     edit_accepted = (\<lambda>_. True), sent_message_id = (\<lambda>n. Some (CHR ''m'' # nat_str n)),
     diagnostics = None\<rparr>"

lemma sample_states:
  "order_state_in (committed sample_world) ''o-draft'' = Some (OrderState_value OrderState.DRAFT)"
  "order_state_in (committed sample_world) ''o-paid'' = Some (OrderState_value OrderState.PAID)"
  "order_state_in (committed sample_world) ''o-pending'' = Some (OrderState_value OrderState.PAYMENT_PENDING)"
  "order_state_in (committed sample_world) ''o-cooking'' = Some (OrderState_value OrderState.COOKING)"
  "ticket_state_in (committed sample_world) ''t-ready'' = Some (KitchenState_value KitchenState.READY)"
  by code_simp+

end
