(* ===== verification/Order_Properties.thy ===== *)
theory Order_Properties
  imports Samples
begin

text \<open>
  The properties of the order machine and of the governed order transition.
\<close>

section \<open>Shared facts\<close>

lemma transition_order_cases:
  assumes vm: "vm_ok pf" and run: "transition_order pf oid ev w = (r, w')"
  obtains (fails) e where "r = Inl e" "committed w' = committed w"
  | (rejects) x where "r = Inr (rejected ev x)" "committed w' = committed w"
  | (accepts) s s' where "r = Inr (accepted s')" "order_state_in (committed w) oid = Some (OrderState_value s)"
      "map_of (ORDER_TRANSITIONS s) ev = Some s'"
      "\<And>i. order_state_in (committed w') i =
         (if i = oid then Some (OrderState_value s') else order_state_in (committed w) i)"
proof (cases "order_state_in (committed w) oid")
  case None
  then show thesis using fails transition_order_unknown[OF None, of pf ev] run by simp
next
  case (Some v)
  show thesis
  proof (cases "OrderState_of v")
    case (Inl e)
    then show thesis
      using Some run
      by (auto intro!: fails simp: transition_order_def with_session_apply bind_io_apply
          OrderRepository_get_state_def select_order_state_def)
  next
    case (Inr s)
    then have st: "order_state_in (committed w) oid = Some (OrderState_value s)"
      using Some by (simp add: OrderState_of_iff)
    show thesis
    proof (cases "map_of (ORDER_TRANSITIONS s) ev")
      case None
      then show thesis using rejects transition_order_rejects[OF st None, of pf] run by simp
    next
      case edge: (Some s')
      show thesis
      proof (cases "ev = OrderEvent.START_COOKING")
        case False
        note out = transition_order_simple[OF vm st edge False run]
        show thesis
          using accepts[OF _ st edge] out st
          by (auto simp: stamped_frame(1) order_state_in_set)
      next
        case True
        let ?w = "w\<lparr>db := committed w\<rparr>"
        obtain c w1 where c: "cooking_steps pf oid ?w = (c, w1)" by fastforce
        note out = transition_order_cooking[OF vm st edge[unfolded True] run[unfolded True], unfolded c, simplified]
        have s': "s' = OrderState.COOKING" using edge True by (cases s) auto
        show thesis
        proof (cases c)
          case (Inl e)
          then show thesis using out rejects True by auto
        next
          case (Inr tid)
          have "cooked pf oid (committed w) tid (now w) (db w1)"
            using cooking_steps_effect[of pf oid ?w tid w1] c Inr by auto
          then have "order_state_in (db w1) i =
              (if i = oid then Some (OrderState_value OrderState.COOKING) else order_state_in (committed w) i)" for i
            by (simp add: cooked_def)
          then show thesis
            using accepts[OF _ st edge] out Inr s' by (auto simp: stamped_frame(1))
        qed
      qed
    qed
  qed
qed

section \<open>Properties\<close>

text \<open>C1. Whatever the caller asks for, a transition either follows an edge of the order
  graph from the stored state and stores exactly its target, or the committed
  database is left as it was; no other order's state changes.\<close>

theorem transition_order_safe:
  assumes "vm_ok pf"
  shows "case transition_order pf oid ev w of
      (Inl e, w') \<Rightarrow> committed w' = committed w
    | (Inr res, w') \<Rightarrow>
        if success res
        then (\<exists>s s'. order_state_in (committed w) oid = Some (OrderState_value s)
                \<and> (ev, s') \<in> set (ORDER_TRANSITIONS s) \<and> new_state res = Some s'
                \<and> (\<forall>i. order_state_in (committed w') i =
                     (if i = oid then Some (OrderState_value s') else order_state_in (committed w) i)))
        else committed w' = committed w \<and> rejected_event res = Some ev"
proof -
  obtain r w' where run: "transition_order pf oid ev w = (r, w')" by fastforce
  show ?thesis
    by (rule transition_order_cases[OF assms run]) (auto simp: run og.edge_iff)
qed

lemma transition_order_safe_witness:
  "vm_ok ref_platform \<and>
   (\<exists>s s'. order_state_in (committed sample_world) ''o-draft'' = Some (OrderState_value s)
      \<and> (OrderEvent.CONFIRM, s') \<in> set (ORDER_TRANSITIONS s))"
proof -
  have "fst (transition_order ref_platform ''o-draft'' OrderEvent.CONFIRM sample_world)
      = Inr (accepted OrderState.CONFIRMED)"
    by code_simp
  then show ?thesis
    using transition_order_safe[OF vm_ok_ref, where oid = "''o-draft''" and ev = OrderEvent.CONFIRM
        and w = sample_world]
    by (auto split: prod.splits sum.splits)
qed

text \<open>Every transition the graph allows from the stored state succeeds (START_COOKING,
  which does more than write the state, has its own properties): the result is
  accepted with the target of the edge and the target is committed.\<close>

theorem transition_order_accepts:
  assumes "vm_ok pf" "order_state_in (committed w) oid = Some (OrderState_value s)"
    "(ev, s') \<in> set (ORDER_TRANSITIONS s)" "ev \<noteq> OrderEvent.START_COOKING"
  shows "fst (transition_order pf oid ev w) = Inr (accepted s')
    \<and> order_state_in (committed (snd (transition_order pf oid ev w))) oid = Some (OrderState_value s')"
proof -
  obtain r w' where run: "transition_order pf oid ev w = (r, w')" by fastforce
  have edge: "map_of (ORDER_TRANSITIONS s) ev = Some s'"
    using assms(3) by (simp add: og.edge_iff)
  show ?thesis
    using transition_order_simple[OF assms(1,2) edge assms(4) run] assms(2) run
    by (auto simp: stamped_frame(1) order_state_in_set)
qed

lemma transition_order_accepts_witness:
  "fst (transition_order ref_platform ''o-paid'' OrderEvent.CANCEL sample_world) = Inr (accepted OrderState.CANCELLED)"
  using transition_order_accepts[OF vm_ok_ref sample_states(2), of OrderEvent.CANCEL OrderState.CANCELLED]
  by simp

text \<open>C2. A successful START_COOKING commits all of its effects together: the order is
  COOKING, exactly one NEW kitchen ticket was added for it, the quantity of every
  sku fell by exactly what the order's items ask for, the ledger got only sales of
  this order and still explains every quantity, and other orders are untouched.\<close>

theorem start_cooking_effect:
  assumes "vm_ok pf" "transition_order pf oid OrderEvent.START_COOKING w = (Inr res, w')" "success res"
  shows "\<exists>d. cooked pf oid (committed w) (uuids w (uuid_next w)) (now w) d \<and> stamped oid d (committed w')"
  using assms(2)
proof (rule transition_order_cases[OF assms(1)])
  fix s s'
  assume st: "order_state_in (committed w) oid = Some (OrderState_value s)"
    and edge: "map_of (ORDER_TRANSITIONS s) OrderEvent.START_COOKING = Some s'"
  let ?w = "w\<lparr>db := committed w\<rparr>"
  obtain c w1 where c: "cooking_steps pf oid ?w = (c, w1)" by fastforce
  note out = transition_order_cooking[OF assms(1) st edge assms(2), unfolded c, simplified]
  show ?thesis
  proof (cases c)
    case (Inl e)
    then show ?thesis using out assms(3) by auto
  next
    case (Inr tid)
    then show ?thesis
      using out cooking_steps_effect[of pf oid ?w tid w1] c by auto
  qed
qed (use assms(3) in auto)

lemma start_cooking_effect_witness:
  "\<exists>d d'. cooked ref_platform ''o-paid'' sample_db ''u0'' 100 d \<and> stamped ''o-paid'' d d'"
proof -
  let ?t = "transition_order ref_platform ''o-paid'' OrderEvent.START_COOKING sample_world"
  have r: "fst ?t = Inr (accepted OrderState.COOKING)" by code_simp
  have k: "uuids sample_world (uuid_next sample_world) = ''u0''" "now sample_world = 100"
    "committed sample_world = sample_db"
    by code_simp+
  have "?t = (Inr (accepted OrderState.COOKING), snd ?t)" using r by (simp add: prod_eq_iff)
  from start_cooking_effect[OF vm_ok_ref this accepted_sel(1)] show ?thesis
    unfolding k by blast
qed

text \<open>Booking any stock: only the range of the INTEGER columns limits what can be taken.\<close>

definition stock_range :: "database \<Rightarrow> int \<Rightarrow> bool" where
  "stock_range d n \<longleftrightarrow> (\<forall>r \<in> set (inventory d). - (2 ^ 31) \<le> inv_quantity r - n \<and> inv_quantity r < 2 ^ 31)"

definition takes_at_most :: "int \<Rightarrow> database \<Rightarrow> bool" where
  "takes_at_most n d \<longleftrightarrow> (\<forall>t q. quantity_in d t = Some q \<longrightarrow> - (2 ^ 31) \<le> q - n \<and> q < 2 ^ 31)"

lemma stock_range_takes: "stock_range d n \<Longrightarrow> takes_at_most n d"
  by (auto simp: stock_range_def takes_at_most_def quantity_in_def dest!: first_where_Some)

lemma takes_less: "takes_at_most n d \<Longrightarrow> 0 \<le> k \<Longrightarrow> takes_at_most (n - k) d"
  unfolding takes_at_most_def by (smt (verit))

lemma reserve_sku_ok:
  assumes "takes_at_most n (db w)" "0 \<le> k" "k \<le> n" "n < 2 ^ 31"
  shows "\<exists>b' w'. reserve_sku oid s k b w = (Inr b', w') \<and> takes_at_most (n - k) (db w')"
proof (cases "quantity_in (db w) s")
  case None
  then show ?thesis using assms
    by (force simp: reserve_sku_def quantity_for_update_def bind_io_apply takes_at_most_def)
next
  case (Some q)
  then have "- (2 ^ 31) \<le> q - n" "q < 2 ^ 31" using assms(1) by (auto simp: takes_at_most_def)
  then have r: "int4 k" "int4 (q - k)" "int4 (- k)" using assms by (simp_all add: int4_def)
  then obtain b' w' where run: "reserve_sku oid s k b w = (Inr b', w')"
    using Some by (auto simp: reserve_sku_def quantity_for_update_def write_quantity_def record_movement_def
        bind_io_apply check_int4_apply)
  then have "\<forall>t. quantity_in (db w') t = map_option (\<lambda>q. if t = s then q - k else q) (quantity_in (db w) t)"
    using reserve_sku_effect by blast
  then have w': "quantity_in (db w') t = map_option (\<lambda>q. if t = s then q - k else q) (quantity_in (db w) t)" for t by blast
  have "- (2 ^ 31) \<le> q' - (n - k) \<and> q' < 2 ^ 31" if q': "quantity_in (db w') t = Some q'" for t q'
  proof -
    obtain q0 where q0: "quantity_in (db w) t = Some q0" "q' = q0 \<or> q' = q0 - k"
      using q' unfolding w' by (auto split: if_splits)
    have "- (2 ^ 31) \<le> q0 - n" "q0 < 2 ^ 31" using assms(1) q0(1) by (auto simp: takes_at_most_def)
    then show ?thesis using q0(2) assms(2) by auto
  qed
  then have "takes_at_most (n - k) (db w')" by (simp add: takes_at_most_def)
  then show ?thesis using run by blast
qed

definition saleable :: "OrderItem \<Rightarrow> bool" where
  "saleable it \<longleftrightarrow> 0 < oi_qty it \<and> parse_uuid (oi_product_id it) = Inr (oi_product_id it)"

lemma reserve_item_ok:
  assumes "saleable it" "takes_at_most n (db w)" "oi_qty it \<le> n" "n < 2 ^ 31"
  shows "\<exists>b' w'. reserve_item pf oid (dump_order_item it) b w = (Inr b', w') \<and> takes_at_most (n - oi_qty it) (db w')"
proof -
  let ?item = "dump_order_item it"
  have q: "item_qty ?item = Inr (oi_qty it)" by (simp add: item_qty_def dump_order_item_def)
  have "py_str (repr_of pf) (JStr (oi_product_id it)) = oi_product_id it" by (rule py_str.simps)
  then have "\<exists>t. item_sku_in pf (products (db w)) ?item = Inr (JStr t) \<or> item_sku_in pf (products (db w)) ?item = Inr JNull"
    using assms(1) unfolding item_sku_in_def item_field_def dump_order_item_def saleable_def Let_def
    by (simp split: option.split)
  then obtain t where t: "item_sku_in pf (products (db w)) ?item = Inr (JStr t) \<or> item_sku_in pf (products (db w)) ?item = Inr JNull" ..
  have "takes_at_most (n - oi_qty it) (db w)"
    using assms(1,2) by (simp add: takes_less saleable_def)
  then show ?thesis
    using q t reserve_sku_ok[of n w "oi_qty it" oid t b] assms
    by (auto simp: reserve_item_def item_sku_eq bind_io_apply saleable_def)
qed

lemma reserve_items_ok:
  assumes "list_all saleable its" "takes_at_most n (db w)" "sum_list (map oi_qty its) \<le> n" "n < 2 ^ 31"
  shows "\<exists>b' w'. fold_io (reserve_item pf oid) (map dump_order_item its) b w = (Inr b', w')"
  using assms
proof (induction its arbitrary: n b w)
  case (Cons it its)
  have "0 \<le> sum_list (map oi_qty its)" using Cons.prems(1) by (intro sum_list_nonneg) (auto simp: saleable_def list_all_iff)
  then obtain b' w' where "reserve_item pf oid (dump_order_item it) b w = (Inr b', w')" "takes_at_most (n - oi_qty it) (db w')"
    using reserve_item_ok[of it n w pf oid b] Cons.prems by auto
  then show ?case using Cons.IH[of "n - oi_qty it" w' b'] Cons.prems by (auto simp: bind_io_apply saleable_def)
qed simp

text \<open>C33. Cooking is never blocked by stock: START_COOKING of a PAID or CONFIRMED order, whose items
are written as the checkout writes them, each a positive quantity of a product id, succeeds whatever is on the shelf, zero and below included, as long as the
quantities after the sale fit their column. The order is in COOKING then, has a new
ticket, and every sku has gone down by what the order demands of it.\<close>

theorem start_cooking_not_blocked:
  assumes "vm_ok pf" "first_where (\<lambda>r. o_id r = oid) (orders (committed w)) = Some row"
    "o_state row = ''PAID'' \<or> o_state row = ''CONFIRMED''"
    "o_items row = map dump_order_item its" "list_all saleable its"
    "sum_list (map oi_qty its) < 2 ^ 31" "stock_range (committed w) (sum_list (map oi_qty its))"
    "uuids w (uuid_next w) \<notin> kt_id ` set (kitchen_tickets (committed w))"
  shows "\<exists>w' d. transition_order pf oid OrderEvent.START_COOKING w = (Inr (accepted OrderState.COOKING), w')
    \<and> cooked pf oid (committed w) (uuids w (uuid_next w)) (now w) d \<and> stamped oid d (committed w')"
proof -
  let ?w = "w\<lparr>db := committed w\<rparr>"
  obtain s where s: "order_state_in (committed w) oid = Some (OrderState_value s)" "s = OrderState.PAID \<or> s = OrderState.CONFIRMED"
    using assms(2,3) OrderState_value.simps(2,4) by (metis (no_types) option.simps(9) order_state_in_def)
  have edge: "map_of (ORDER_TRANSITIONS s) OrderEvent.START_COOKING = Some OrderState.COOKING"
    using s(2) by auto
  obtain r w' where run: "transition_order pf oid OrderEvent.START_COOKING w = (r, w')" by fastforce
  obtain b' w2 where "fold_io (reserve_item pf oid) (map dump_order_item its) False ?w = (Inr b', w2)"
    using reserve_items_ok[OF assms(5), of "sum_list (map oi_qty its)" ?w pf oid False] stock_range_takes[OF assms(7)] assms(6)
    by auto
  then have "reserve_items pf oid ?w = (Inr (if b' then 1 else 0), w2)"
    using assms(2,4) by (simp add: reserve_items_def bind_io_apply)
  from cooking_steps_ok[OF this, of s] s assms(8) obtain w1 where
    c: "cooking_steps pf oid ?w = (Inr (uuids w (uuid_next w)), w1)" by auto
  note out = transition_order_cooking[OF assms(1) s(1) edge run, unfolded c, simplified]
  have "cooked pf oid (committed w) (uuids w (uuid_next w)) (now w) (db w1)"
    using cooking_steps_effect[OF c] by simp
  then show ?thesis using out run by blast
qed

theorem start_cooking_not_blocked_witness:
  "let w = sample_world\<lparr>committed := sample_db\<lparr>inventory := [\<lparr>inv_sku = ''tea'', inv_name = ''Tea'',
        inv_quantity = - 7, inv_state = ''OUT_OF_STOCK''\<rparr>]\<rparr>\<rparr>
   in \<exists>w' d. transition_order ref_platform ''o-paid'' OrderEvent.START_COOKING w = (Inr (accepted OrderState.COOKING), w')
     \<and> quantity_in d ''tea'' = Some (- 9) \<and> stamped ''o-paid'' d (committed w')"
proof -
  let ?w = "sample_world\<lparr>committed := sample_db\<lparr>inventory := [\<lparr>inv_sku = ''tea'', inv_name = ''Tea'',
        inv_quantity = - 7, inv_state = ''OUT_OF_STOCK''\<rparr>]\<rparr>\<rparr>"
  let ?its = "[\<lparr>oi_product_id = tea, oi_name = ''Tea'', oi_price_rub = 150, oi_qty = 2\<rparr>]"
  let ?row = "sample_order ''o-paid'' OrderState.PAID"
  have row: "first_where (\<lambda>r. o_id r = ''o-paid'') (orders (committed ?w)) = Some ?row" by code_simp
  have "o_state ?row = ''PAID''" "o_items ?row = map dump_order_item ?its"
    by (simp_all add: sample_order_def draft_row_def dump_order_item_def)
  moreover have "list_all saleable ?its" by code_simp
  moreover have "sum_list (map oi_qty ?its) < 2 ^ 31" by simp
  moreover have "stock_range (committed ?w) (sum_list (map oi_qty ?its))"
    by (simp add: stock_range_def sample_db_def)
  moreover have "uuids ?w (uuid_next ?w) \<notin> kt_id ` set (kitchen_tickets (committed ?w))" by code_simp
  ultimately obtain w' d where r: "transition_order ref_platform ''o-paid'' OrderEvent.START_COOKING ?w
        = (Inr (accepted OrderState.COOKING), w')" "stamped ''o-paid'' d (committed w')"
      and k: "cooked ref_platform ''o-paid'' (committed ?w) (uuids ?w (uuid_next ?w)) (now ?w) d"
    using start_cooking_not_blocked[OF vm_ok_ref row] by blast
  have "demand ref_platform (products (committed ?w)) (o_items ?row) ''tea'' = 2" "quantity_in (committed ?w) ''tea'' = Some (- 7)"
    by code_simp+
  then have "quantity_in d ''tea'' = Some (- 9)" using k row by (simp add: cooked_def)
  then show ?thesis using r by auto
qed

text \<open>C35. An order's life is bounded: a run of accepted events is at most nine long, plus two for
  every failed payment it retries.\<close>

theorem order_life_bounded:
  assumes "fsm_run ORDER_TRANSITIONS OrderState.DRAFT es = Some s"
  shows "length es \<le> 9 + 2 * count_list es OrderEvent.PAYMENT_FAILED"
  using order_run_bound[OF assms] by simp

lemma order_life_bounded_witness:
  "length [OrderEvent.CONFIRM, OrderEvent.REQUEST_PAYMENT, OrderEvent.PAYMENT_FAILED, OrderEvent.REQUEST_PAYMENT,
     OrderEvent.PAYMENT_CONFIRMED, OrderEvent.START_COOKING, OrderEvent.START_PACKING, OrderEvent.ASSIGN_COURIER,
     OrderEvent.PICKUP, OrderEvent.DELIVER, OrderEvent.CLOSE] \<le> 9 + 2 * 1"
  using order_life_bounded[of "[OrderEvent.CONFIRM, OrderEvent.REQUEST_PAYMENT, OrderEvent.PAYMENT_FAILED,
     OrderEvent.REQUEST_PAYMENT, OrderEvent.PAYMENT_CONFIRMED, OrderEvent.START_COOKING, OrderEvent.START_PACKING,
     OrderEvent.ASSIGN_COURIER, OrderEvent.PICKUP, OrderEvent.DELIVER, OrderEvent.CLOSE]" OrderState.CLOSED]
  by simp

text \<open>C36. The kitchen is passed exactly once: an order that reaches COOKING or any later state got
  there by exactly one START_COOKING, and from then on it is never cancelled.\<close>

theorem order_cooked_once:
  assumes "fsm_run ORDER_TRANSITIONS OrderState.DRAFT es = Some s"
  shows "count_list es OrderEvent.START_COOKING = (if in_kitchen s then 1 else 0)
    \<and> (OrderEvent.START_COOKING \<in> set es \<longrightarrow> s \<noteq> OrderState.CANCELLED)"
  using start_cooking_once[OF assms] in_kitchen_run[OF assms] by (auto simp: in_kitchen_def)

lemma order_cooked_once_witness:
  "count_list [OrderEvent.CONFIRM, OrderEvent.START_COOKING] OrderEvent.START_COOKING = 1"
  using order_cooked_once[of "[OrderEvent.CONFIRM, OrderEvent.START_COOKING]" OrderState.COOKING]
  by (simp add: in_kitchen_def)

section \<open>A card built before the commit\<close>

text \<open>The cooking program notifies inside the transaction, and the cards read the
  committed order: the admin's card of an order that is being cooked shows the
  state before it and offers CANCEL, which COOKING does not allow.
\<close>

theorem cooking_card_is_stale:
  "(let w' = snd (transition_order ref_platform ''o-paid'' OrderEvent.START_COOKING sample_world) in
      order_state_in (committed w') ''o-paid'' = Some ''COOKING''
      \<and> map_of (ORDER_TRANSITIONS OrderState.COOKING) OrderEvent.CANCEL = None
      \<and> MaxSend 3 (AdminCard ''o-paid'' OrderState.PAID (Some KitchenState.NEW)
            [CompositionLine [(JStr ''Tea'', JInt 2)], AddressLine ''Main st. 1'', PhoneLine ''+79991234567'',
             OnlinePaymentLine ''yookassa_sbp'' True])
          [[Button ''order'' ''o-paid'' ''CANCEL'']] \<in> set (outbox w'))"
  by code_simp

end
