(* ===== verification/Kitchen_Service.thy ===== *)
theory Kitchen_Service
  imports Order_Service
begin

text \<open>
  KitchenService (app/services/kitchen_service.py): the governed transition of a
  kitchen ticket and the cascade of HAND_OFF into the order.
\<close>

section \<open>Service\<close>

record KitchenTicketRead =
  ktr_id :: uuid
  ktr_order_id :: uuid
  ktr_state :: KitchenState

definition KITCHEN_TOOLS :: "(string \<times> world tool) list" where
  "KITCHEN_TOOLS =
     [(''write_kitchen_state_queued'', write_kitchen_state_queued),
      (''write_kitchen_state_preparing'', write_kitchen_state_preparing),
      (''write_kitchen_state_ready'', write_kitchen_state_ready),
      (''write_kitchen_state_handed_off'', write_kitchen_state_handed_off)]"

definition build_kitchen_vm :: "platform \<Rightarrow> string \<Rightarrow> world tool option" where
  "build_kitchen_vm pf = governed pf KITCHEN_TOOL_CAPABILITIES KITCHEN_TOOLS"

definition create_ticket :: "uuid \<Rightarrow> (world, KitchenTicketRead) io" where
  "create_ticket order_id = with_session (
     bind_io (KitchenRepository_create order_id) (\<lambda>ticket_id.
     bind_io commit (\<lambda>_.
     ret \<lparr>ktr_id = ticket_id, ktr_order_id = order_id, ktr_state = KitchenState.NEW\<rparr>)))"

definition kitchen_failure_reason :: "trace \<Rightarrow> (KitchenState, KitchenEvent) reason" where
  "kitchen_failure_reason tr = Reason (case trace_error tr of
       Some e \<Rightarrow> if e = [] then ''Execution failed'' else e
     | None \<Rightarrow> ''Execution failed'')"

definition ticket_session ::
  "platform \<Rightarrow> uuid \<Rightarrow> KitchenEvent \<Rightarrow> (world, (KitchenState, KitchenEvent) TransitionResult) io" where
  "ticket_session pf ticket_id event = with_session (
     bind_io (KitchenRepository_get_state ticket_id) (\<lambda>current_state.
       case map_of (KITCHEN_TRANSITIONS current_state) event of
         None \<Rightarrow> ret (rejected event (EventNotAllowed event current_state))
       | Some next_state \<Rightarrow>
           (case map_of KITCHEN_EVENT_PROGRAM_MAP (KitchenEvent_value event) of
              None \<Rightarrow> raise (KeyError (KitchenEvent_value event))
            | Some program \<Rightarrow>
                if \<not> validates pf program then raise (RuntimeError (program_name program))
                else bind_io (run_program pf (build_kitchen_vm pf) program [(''ticket_id'', JStr ticket_id)]) (\<lambda>tr.
                     bind_io (save_trace tr) (\<lambda>_.
                       if trace_status tr \<noteq> trace_status.SUCCESS
                       then ret (rejected event (kitchen_failure_reason tr))
                       else bind_io commit (\<lambda>_. ret (accepted next_state)))))))"

text \<open>The order a ticket belongs to, with its delivery mode (JOIN orders).\<close>

definition ticket_order :: "database \<Rightarrow> uuid \<Rightarrow> (uuid \<times> string option) option" where
  "ticket_order d ticket_id =
     (case first_where (\<lambda>r. kt_id r = ticket_id) (kitchen_tickets d) of
        None \<Rightarrow> None
      | Some t \<Rightarrow> map_option (\<lambda>r. (o_id r, o_delivery_mode r))
                    (first_where (\<lambda>r. o_id r = kt_order_id t) (orders d)))"

definition hand_off_cascade :: "platform \<Rightarrow> uuid \<Rightarrow> (world, unit) io" where
  "hand_off_cascade pf ticket_id =
     bind_io (with_session (select_db (\<lambda>d. ticket_order d ticket_id))) (\<lambda>record'.
       case record' of
         None \<Rightarrow> ret ()
       | Some (order_id, delivery_mode) \<Rightarrow>
           bind_io (transition_order pf order_id OrderEvent.START_PACKING) (\<lambda>packing.
             if \<not> success packing then ret ()
             else if delivery_mode = Some ''pickup''
             then bind_io (transition_order pf order_id OrderEvent.CLOSE) (\<lambda>_. ret ())
             else notify_courier_order_state order_id OrderState.PACKING))"

definition transition_ticket ::
  "platform \<Rightarrow> uuid \<Rightarrow> KitchenEvent \<Rightarrow> (world, (KitchenState, KitchenEvent) TransitionResult) io" where
  "transition_ticket pf ticket_id event =
     bind_io (ticket_session pf ticket_id event) (\<lambda>result.
     bind_io (if event = KitchenEvent.HAND_OFF \<and> success result
              then catch_io (hand_off_cascade pf ticket_id) (\<lambda>_. ret ())
              else ret ()) (\<lambda>_.
     ret result))"

definition get_order_id :: "uuid \<Rightarrow> (world, uuid option) io" where
  "get_order_id ticket_id = with_session (
     select_db (\<lambda>d. map_option kt_order_id (first_where (\<lambda>r. kt_id r = ticket_id) (kitchen_tickets d))))"

definition list_tickets :: "KitchenState option \<Rightarrow> (world, KitchenTicketRead list) io" where
  "list_tickets state_filter = with_session (
     bind_io (select_db (\<lambda>d. sort_key (\<lambda>r. - kt_created_at r)
        (rows_where (\<lambda>r. case state_filter of None \<Rightarrow> True | Some s \<Rightarrow> kt_state r = KitchenState_value s)
           (kitchen_tickets d)))) (\<lambda>rows.
     fold_io (\<lambda>r acc.
        bind_io (lift_result (KitchenState_of (kt_state r))) (\<lambda>s.
        ret (acc @ [\<lparr>ktr_id = kt_id r, ktr_order_id = kt_order_id r, ktr_state = s\<rparr>]))) rows []))"

section \<open>Lemmas\<close>

lemma kitchen_program_of_event:
  "\<exists>n ok tn. map_of KITCHEN_EVENT_PROGRAM_MAP (KitchenEvent_value ev) =
     Some \<lparr>program_name = n, program_steps = [ToolStep ''write_state'' tn [(''ticket_id'', CtxVar ''ticket_id'')] ok None]\<rparr>
     \<and> map_of KITCHEN_TOOLS tn = Some (kitchen_writer ev) \<and> tn \<in> fst ` set KITCHEN_TOOL_CAPABILITIES"
  by (cases ev)
     (simp_all add: KITCHEN_EVENT_PROGRAM_MAP_def kitchen_program_defs KITCHEN_TOOLS_def kitchen_writer_def
       KITCHEN_TOOL_CAPABILITIES_def)

lemma ticket_session_unknown:
  "ticket_state_in (committed w) tid = None \<Longrightarrow>
     ticket_session pf tid ev w = (Inl NoResultFound, w\<lparr>db := committed w\<rparr>)"
  by (simp add: ticket_session_def with_session_apply bind_io_apply KitchenRepository_get_state_def
      select_ticket_state_def)

lemma ticket_session_rejects:
  assumes "ticket_state_in (committed w) tid = Some (KitchenState_value s)"
    "map_of (KITCHEN_TRANSITIONS s) ev = None"
  shows "ticket_session pf tid ev w = (Inr (rejected ev (EventNotAllowed ev s)), w\<lparr>db := committed w\<rparr>)"
  using assms
  by (simp add: ticket_session_def with_session_apply bind_io_apply KitchenRepository_get_state_def
      select_ticket_state_def)

lemma ticket_session_accepts:
  assumes "vm_ok pf" "ticket_state_in (committed w) tid = Some (KitchenState_value s)"
    "map_of (KITCHEN_TRANSITIONS s) ev = Some s'"
  shows "\<exists>w'. ticket_session pf tid ev w = (Inr (accepted s'), w')
    \<and> committed w' = set_ticket_state tid (KitchenState_value s') (committed w) \<and> db w' = committed w'
    \<and> outbox w' = outbox w"
proof -
  let ?w = "w\<lparr>db := committed w\<rparr>"
  obtain n ok tn where p: "map_of KITCHEN_EVENT_PROGRAM_MAP (KitchenEvent_value ev) =
     Some \<lparr>program_name = n, program_steps = [ToolStep ''write_state'' tn [(''ticket_id'', CtxVar ''ticket_id'')] ok None]\<rparr>"
     (is "_ = Some ?p") and t: "map_of KITCHEN_TOOLS tn = Some (kitchen_writer ev)"
     "tn \<in> fst ` set KITCHEN_TOOL_CAPABILITIES"
    using kitchen_program_of_event[of ev] by blast
  have tool: "build_kitchen_vm pf tn = Some (kitchen_writer ev)"
    unfolding build_kitchen_vm_def by (rule governed_permitted[OF assms(1) t])
  have fwd: "forward_program ?p" by (rule forward_single)
  obtain tr w1 where run: "run_vm pf (build_kitchen_vm pf) ?p [(''ticket_id'', JStr tid)] ?w = (tr, w1)"
    by fastforce
  have wr: "kitchen_writer ev [(''ticket_id'', JStr tid)] ?w =
      (Inr (JStr ''OK''), ?w\<lparr>db := set_ticket_state tid (KitchenState_value s') (committed w)\<rparr>)"
    using kitchen_writer_run[OF assms(3), of ?w tid] assms(2) by simp
  have "trace_status tr = trace_status.SUCCESS"
    and w1: "w1 = ?w\<lparr>db := set_ticket_state tid (KitchenState_value s') (committed w)\<rparr>"
    using run_vm_exec[OF assms(1) fwd run] by (auto simp: vm_exec_iff tool wr)
  moreover have "KitchenRepository_get_state tid ?w = (Inr s, ?w)"
    using assms(2) by (simp add: KitchenRepository_get_state_Inr)
  ultimately have "ticket_session pf tid ev w = (Inr (accepted s'),
      (if trace_id tr = [] then w1 else w1\<lparr>saved_traces := saved_traces w1 @ [tr]\<rparr>)
      \<lparr>committed := db w1, db := db w1\<rparr>)"
    using assms(3) p run validates_forward[OF assms(1) fwd]
    by (simp add: ticket_session_def with_session_apply bind_io_apply run_program_def)
  then show ?thesis using w1 by auto
qed

lemma ticket_order_set_state [simp]: "ticket_order (set_ticket_state tid st d) i = ticket_order d i"
proof -
  have "first_where (\<lambda>r. kt_id r = i) (kitchen_tickets (set_ticket_state tid st d)) =
      map_option (\<lambda>r. if i = tid then r\<lparr>kt_state := st\<rparr> else r) (first_where (\<lambda>r. kt_id r = i) (kitchen_tickets d))"
    by (simp add: set_ticket_state_def first_where_update_key option.map_ident)
  then show ?thesis
    by (auto simp: ticket_order_def set_ticket_state_def split: option.splits)
qed

lemma order_state_in_ticket [simp]: "order_state_in (set_ticket_state tid st d) i = order_state_in d i"
  by (simp add: order_state_in_def set_ticket_state_def)

lemma ticket_state_in_order [simp]:
  "ticket_state_in (set_order_state oid st d) i = ticket_state_in d i"
  by (simp add: ticket_state_in_def set_order_state_def)

lemma ticket_state_stamped: "stamped oid d d' \<Longrightarrow> ticket_state_in d' i = ticket_state_in d i"
  by (simp add: ticket_state_in_def stamped_frame)

text \<open>The cascade on the order of a ticket that was just handed off.\<close>

lemma cascade_effect:
  assumes "vm_ok pf" "ticket_order (committed w) tid = Some (oid, mode)"
    "order_state_in (committed w) oid = Some (OrderState_value OrderState.COOKING)"
  shows "\<exists>w'. hand_off_cascade pf tid w = (Inr (), w')
    \<and> order_state_in (committed w') oid =
        Some (OrderState_value (if mode = Some ''pickup'' then OrderState.CLOSED else OrderState.PACKING))
    \<and> (\<forall>i. ticket_state_in (committed w') i = ticket_state_in (committed w) i)"
proof -
  let ?w = "w\<lparr>db := committed w\<rparr>"
  obtain r1 w1 where t1: "transition_order pf oid OrderEvent.START_PACKING ?w = (r1, w1)" by fastforce
  have e1: "r1 = Inr (accepted OrderState.PACKING)"
    and s1: "stamped oid (set_order_state oid (OrderState_value OrderState.PACKING) (committed w)) (committed w1)"
    using transition_order_simple[OF assms(1) _ _ _ t1, of OrderState.COOKING OrderState.PACKING] assms(3)
    by simp_all
  have st1: "order_state_in (committed w1) oid = Some (OrderState_value OrderState.PACKING)"
    using stamped_frame(1)[OF s1] assms(3) by (simp add: order_state_in_set)
  have tk1: "ticket_state_in (committed w1) i = ticket_state_in (committed w) i" for i
    using ticket_state_stamped[OF s1] by simp
  show ?thesis
  proof (cases "mode = Some ''pickup''")
    case True
    obtain r2 w2 where t2: "transition_order pf oid OrderEvent.CLOSE w1 = (r2, w2)" by fastforce
    have e2: "r2 = Inr (accepted OrderState.CLOSED)"
      and s2: "stamped oid (set_order_state oid (OrderState_value OrderState.CLOSED) (committed w1)) (committed w2)"
      using transition_order_simple[OF assms(1) st1 _ _ t2, of OrderState.CLOSED] by simp_all
    then show ?thesis
      using True t1 t2 e1 st1 assms(2) stamped_frame(1)[OF s2] ticket_state_stamped[OF s2] tk1
      by (simp add: hand_off_cascade_def with_session_apply order_state_in_set)
  next
    case False
    obtain w2 where w2: "notify_courier_order_state oid OrderState.PACKING w1 = (Inr (), w2)" "messages_only w1 w2"
      by (rule quietE[OF quiet_notify(2)[of oid OrderState.PACKING], of w1]) simp
    then show ?thesis
      using False t1 e1 st1 assms(2) tk1 messages_only_frame(2)[OF w2(2)]
      by (simp add: hand_off_cascade_def with_session_apply)
  qed
qed

text \<open>Whatever happens to the order, no ticket is touched by the cascade.\<close>

lemma transition_order_keeps_tickets:
  assumes "vm_ok pf" "ev \<noteq> OrderEvent.START_COOKING" "transition_order pf oid ev w = (r, w')"
  shows "kitchen_tickets (committed w') = kitchen_tickets (committed w)"
proof (cases "order_state_in (committed w) oid")
  case None
  then show ?thesis using transition_order_unknown[OF None, of pf ev] assms(3) by simp
next
  case (Some v)
  show ?thesis
  proof (cases "OrderState_of v")
    case (Inl e)
    then show ?thesis
      using Some assms(3)
      by (auto simp: transition_order_def with_session_apply bind_io_apply
          OrderRepository_get_state_def select_order_state_def)
  next
    case (Inr s)
    then have st: "order_state_in (committed w) oid = Some (OrderState_value s)"
      using Some by (simp add: OrderState_of_iff)
    show ?thesis
    proof (cases "map_of (ORDER_TRANSITIONS s) ev")
      case None
      then show ?thesis using transition_order_rejects[OF st None, of pf] assms(3) by simp
    next
      case (Some s')
      then show ?thesis
        using transition_order_simple[OF assms(1) st Some assms(2,3)] stamped_frame(2)
        by (fastforce simp: set_order_state_def)
    qed
  qed
qed

lemma cascade_keeps_tickets:
  assumes "vm_ok pf" "hand_off_cascade pf tid w = (r, w')"
  shows "kitchen_tickets (committed w') = kitchen_tickets (committed w)"
proof (cases "ticket_order (committed w) tid")
  case None
  then show ?thesis using assms(2) by (auto simp: hand_off_cascade_def with_session_apply)
next
  case (Some p)
  obtain oid mode where p: "p = (oid, mode)" by (cases p)
  obtain r1 w1 where t1: "transition_order pf oid OrderEvent.START_PACKING (w\<lparr>db := committed w\<rparr>) = (r1, w1)"
    by fastforce
  have k1: "kitchen_tickets (committed w1) = kitchen_tickets (committed w)"
    using transition_order_keeps_tickets[OF assms(1) _ t1] by simp
  obtain r2 w2 where t2: "transition_order pf oid OrderEvent.CLOSE w1 = (r2, w2)" by fastforce
  have k2: "kitchen_tickets (committed w2) = kitchen_tickets (committed w1)"
    using transition_order_keeps_tickets[OF assms(1) _ t2] by simp
  obtain x w3 where w3: "notify_courier_order_state oid OrderState.PACKING w1 = (Inr x, w3)" "messages_only w1 w3"
    by (rule quietE[OF quiet_notify(2)])
  show ?thesis
    using assms(2) Some p t1 t2 w3(1) k1 k2 messages_only_frame(2)[OF w3(2)]
    by (auto simp: hand_off_cascade_def with_session_apply bind_io_apply split: sum.splits if_splits)
qed

lemma transition_ticket_other:
  "ev \<noteq> KitchenEvent.HAND_OFF \<Longrightarrow> transition_ticket pf tid ev w = ticket_session pf tid ev w"
  by (auto simp: transition_ticket_def bind_io_def split: prod.splits sum.splits)

end
