(* ===== verification/Kitchen_Properties.thy ===== *)
theory Kitchen_Properties
  imports Kitchen_Service Order_Properties
begin

text \<open>
  The properties of the kitchen tickets and of the hand-over from the kitchen
  to the order.
\<close>

section \<open>Shared facts\<close>

lemma ticket_session_cases:
  assumes vm: "vm_ok pf" and run: "ticket_session pf tid ev w = (r, w')"
  obtains (fails) e where "r = Inl e" "committed w' = committed w"
  | (rejects) x where "r = Inr (rejected ev x)" "committed w' = committed w"
  | (accepts) s s' where "r = Inr (accepted s')"
      "ticket_state_in (committed w) tid = Some (KitchenState_value s)"
      "map_of (KITCHEN_TRANSITIONS s) ev = Some s'"
      "committed w' = set_ticket_state tid (KitchenState_value s') (committed w)"
proof (cases "ticket_state_in (committed w) tid")
  case None
  then show thesis using fails ticket_session_unknown[OF None, of pf ev] run by simp
next
  case (Some v)
  show thesis
  proof (cases "KitchenState_of v")
    case (Inl e)
    then show thesis
      using Some run
      by (auto intro!: fails simp: ticket_session_def with_session_apply bind_io_apply
          KitchenRepository_get_state_def select_ticket_state_def)
  next
    case (Inr s)
    then have st: "ticket_state_in (committed w) tid = Some (KitchenState_value s)"
      using Some by (simp add: KitchenState_of_iff)
    show thesis
    proof (cases "map_of (KITCHEN_TRANSITIONS s) ev")
      case None
      then show thesis using rejects ticket_session_rejects[OF st None, of pf] run by simp
    next
      case edge: (Some s')
      then show thesis
        using accepts[OF _ st edge] ticket_session_accepts[OF vm st edge] run by auto
    qed
  qed
qed

lemma transition_ticket_split:
  "transition_ticket pf tid ev w = (r, w') \<Longrightarrow>
     \<exists>w1 c. ticket_session pf tid ev w = (r, w1)
       \<and> (w' = w1 \<or> (\<exists>res. r = Inr res \<and> success res) \<and> hand_off_cascade pf tid w1 = (c, w'))"
  by (auto simp: transition_ticket_def bind_io_def catch_io_def
      split: prod.splits sum.splits if_splits)

section \<open>Properties\<close>

text \<open>C34. A ticket moves only along the edges of the kitchen graph: a successful transition
  stores the target of an edge from the stored state and touches no other
  ticket, and every other outcome leaves the committed database as it was.\<close>

theorem transition_ticket_safe:
  assumes "vm_ok pf"
  shows "case transition_ticket pf tid ev w of
      (Inl e, w') \<Rightarrow> committed w' = committed w
    | (Inr res, w') \<Rightarrow>
        if success res
        then (\<exists>s s'. ticket_state_in (committed w) tid = Some (KitchenState_value s)
                \<and> (ev, s') \<in> set (KITCHEN_TRANSITIONS s) \<and> new_state res = Some s'
                \<and> (\<forall>i. ticket_state_in (committed w') i =
                     (if i = tid then Some (KitchenState_value s') else ticket_state_in (committed w) i)))
        else committed w' = committed w \<and> rejected_event res = Some ev"
proof -
  obtain r w' where run: "transition_ticket pf tid ev w = (r, w')" by fastforce
  from transition_ticket_split[OF run] obtain w1 c where ses: "ticket_session pf tid ev w = (r, w1)"
    and c: "w' = w1 \<or> (\<exists>res. r = Inr res \<and> success res) \<and> hand_off_cascade pf tid w1 = (c, w')"
    by blast
  have tickets: "kitchen_tickets (committed w') = kitchen_tickets (committed w1)"
    using c cascade_keeps_tickets[OF assms] by auto
  show ?thesis
    by (rule ticket_session_cases[OF assms ses])
       (use c tickets in \<open>auto simp: run kg.edge_iff ticket_state_in_def set_ticket_state_def
         first_where_update_key option.map_comp comp_def\<close>)
qed

lemma transition_ticket_safe_witness:
  "vm_ok ref_platform \<and>
   (\<exists>s s'. ticket_state_in (committed sample_world) ''t-ready'' = Some (KitchenState_value s)
      \<and> (KitchenEvent.HAND_OFF, s') \<in> set (KITCHEN_TRANSITIONS s))"
proof -
  have "fst (transition_ticket ref_platform ''t-ready'' KitchenEvent.HAND_OFF sample_world)
      = Inr (accepted KitchenState.HANDED_OFF)"
    by code_simp
  then show ?thesis
    using transition_ticket_safe[OF vm_ok_ref, where tid = "''t-ready''" and ev = KitchenEvent.HAND_OFF
        and w = sample_world]
    by (auto split: prod.splits sum.splits)
qed

text \<open>C31. Handing off a READY ticket completes the kitchen's part of its order: a COOKING
  order becomes CLOSED when it is a pickup and PACKING otherwise, and an order
  in any other state keeps its state; the ticket is HANDED_OFF in all cases.\<close>

theorem hand_off_advances_order:
  assumes "vm_ok pf" "ticket_state_in (committed w) tid = Some (KitchenState_value KitchenState.READY)"
    "ticket_order (committed w) tid = Some (oid, mode)"
    "order_state_in (committed w) oid = Some (OrderState_value s)"
    "transition_ticket pf tid KitchenEvent.HAND_OFF w = (r, w')"
  shows "r = Inr (accepted KitchenState.HANDED_OFF)
    \<and> ticket_state_in (committed w') tid = Some (KitchenState_value KitchenState.HANDED_OFF)
    \<and> order_state_in (committed w') oid = Some (OrderState_value
        (if s \<noteq> OrderState.COOKING then s
         else if mode = Some ''pickup'' then OrderState.CLOSED else OrderState.PACKING))"
proof -
  have edge: "map_of (KITCHEN_TRANSITIONS KitchenState.READY) KitchenEvent.HAND_OFF = Some KitchenState.HANDED_OFF"
    by simp
  obtain w1 where ses: "ticket_session pf tid KitchenEvent.HAND_OFF w = (Inr (accepted KitchenState.HANDED_OFF), w1)"
      and c1: "committed w1 = set_ticket_state tid (KitchenState_value KitchenState.HANDED_OFF) (committed w)"
    using ticket_session_accepts[OF assms(1,2) edge] by blast
  have tk: "ticket_state_in (committed w1) tid = Some (KitchenState_value KitchenState.HANDED_OFF)"
    and od: "order_state_in (committed w1) oid = Some (OrderState_value s)"
    and to: "ticket_order (committed w1) tid = Some (oid, mode)"
    using c1 assms(2-4) by (simp_all add: ticket_state_in_set)
  have main: "(r, w') = (Inr (accepted KitchenState.HANDED_OFF), snd (hand_off_cascade pf tid w1))"
    using assms(5) ses
    by (auto simp: transition_ticket_def bind_io_apply catch_io_apply split: prod.splits sum.splits)
  show ?thesis
  proof (cases "s = OrderState.COOKING")
    case True
    then show ?thesis
      using cascade_effect[OF assms(1) to] od tk main by auto
  next
    case False
    then have "map_of (ORDER_TRANSITIONS s) OrderEvent.START_PACKING = None" by (cases s) auto
    from transition_order_rejects[OF _ this, of "w1\<lparr>db := committed w1\<rparr>" oid pf] od
    have "transition_order pf oid OrderEvent.START_PACKING (w1\<lparr>db := committed w1\<rparr>)
        = (Inr (rejected OrderEvent.START_PACKING (EventNotAllowed OrderEvent.START_PACKING s)),
           w1\<lparr>db := committed w1\<rparr>)" by simp
    then have "committed (snd (hand_off_cascade pf tid w1)) = committed w1"
      using to by (simp add: hand_off_cascade_def with_session_apply)
    then show ?thesis using False od tk main by simp
  qed
qed

lemma hand_off_advances_order_witness:
  "order_state_in (committed (snd (transition_ticket ref_platform ''t-ready'' KitchenEvent.HAND_OFF sample_world)))
     ''o-cooking'' = Some ''PACKING''"
proof -
  have "ticket_order (committed sample_world) ''t-ready'' = Some (''o-cooking'', Some ''delivery'')" by code_simp
  from hand_off_advances_order[OF vm_ok_ref sample_states(5) this sample_states(4) prod.collapse[symmetric]]
  show ?thesis by simp
qed

end
