(* ===== verification/Table_Frame.thy ===== *)
theory Table_Frame
  imports Kitchen_Service
begin

text \<open>
  What the order machinery leaves alone. A part T of the database that does not
  look at what the order and kitchen programs write (the state, the payment and the trace of an
  order, tickets, stock and its movements) is the same
  before and after every governed transition, successful or not. The services
  that keep tables of their own (payments, idempotency keys) and the columns of an order
  that are written once rest on this contract through its interpretations.
\<close>

definition agree :: "(database \<Rightarrow> 'a) \<Rightarrow> 'a \<Rightarrow> world \<Rightarrow> bool" where
  "agree T c w \<longleftrightarrow> T (db w) = c \<and> T (committed w) = c"

section \<open>Computations that respect any part\<close>

lemma agree_basic [intro, simp]:
  "keeps (agree T c) (ret x)" "keeps (agree T c) (raise e)" "keeps (agree T c) new_uuid"
  "keeps (agree T c) (select_db f)" "keeps (agree T c) (select_committed f)" "keeps (agree T c) commit"
  "keeps (agree T c) (save_trace tr)" "keeps (agree T c) (check_int4 n)"
  "keeps (agree T c) (check_int8 n)" "keeps (agree T c) (check_varchar m s)"
  "keeps (agree T c) (lift_result r)" "keeps (agree T c) (gets_io g)" "keeps (agree T c) (str_arg k kw)"
  by (simp_all add: keeps_def agree_def check_int4_apply check_int8_apply check_varchar_apply str_arg_def split: option.splits json.splits)

lemma agree_update: "(\<And>d. T (f d) = T d) \<Longrightarrow> keeps (agree T c) (update_db f)"
  by (simp add: keeps_def agree_def)

lemma agree_quiet: "quiet m \<Longrightarrow> keeps (agree T c) m"
  unfolding keeps_def agree_def by (metis messages_only_frame(1,2) prod.collapse quietD)

lemma agree_session:
  assumes "keeps (agree T c) m"
  shows "keeps (agree T c) (with_session m)"
proof (rule keepsI)
  fix w
  assume "agree T c w"
  then have "agree T c (w\<lparr>db := committed w\<rparr>)" by (simp add: agree_def)
  then have "agree T c (snd (m (w\<lparr>db := committed w\<rparr>)))" using assms by (simp only: keeps_def)
  then show "agree T c (snd (with_session m w))"
    by (auto simp: agree_def with_session_apply split: prod.splits)
qed

lemma agree_catch: "keeps P m \<Longrightarrow> (\<And>e. keeps P (h e)) \<Longrightarrow> keeps P (catch_io m h)"
  by (fastforce simp: keeps_def catch_io_def split: prod.splits sum.splits)

lemma keeps_branch:
  "(b \<Longrightarrow> keeps P m) \<Longrightarrow> (\<not> b \<Longrightarrow> keeps P n) \<Longrightarrow> keeps P (if b then m else n)"
  "(x = None \<Longrightarrow> keeps P m) \<Longrightarrow> (\<And>y. x = Some y \<Longrightarrow> keeps P (k y)) \<Longrightarrow>
     keeps P (case x of None \<Rightarrow> m | Some y \<Rightarrow> k y)"
  "(\<And>a b. p = (a, b) \<Longrightarrow> keeps P (g a b)) \<Longrightarrow> keeps P (case p of (a, b) \<Rightarrow> g a b)"
  by (auto split: option.splits prod.splits)

lemma agree_response [intro, simp]: "keeps (agree T c) (response_field k a data)"
  by (auto simp: response_field_def split: json.splits)

lemmas agree_intros = keeps_bind keeps_fold keeps_branch agree_basic agree_session agree_catch agree_response

text \<open>A session starts from what is committed, so the part is kept as others see it.\<close>

definition held :: "(database \<Rightarrow> 'a) \<Rightarrow> 'a \<Rightarrow> world \<Rightarrow> bool" where
  "held T c w \<longleftrightarrow> T (committed w) = c"

lemma held_basic [intro, simp]:
  "keeps (held T c) (ret x)" "keeps (held T c) (raise e)" "keeps (held T c) new_uuid"
  "keeps (held T c) (gets_io g)" "keeps (held T c) (lift_result r)"
  by (simp_all add: keeps_def held_def)

lemma held_session:
  assumes "keeps (agree T c) m"
  shows "keeps (held T c) (with_session m)"
proof (rule keepsI)
  fix w
  assume "held T c w"
  then have "agree T c (w\<lparr>db := committed w\<rparr>)" by (simp add: agree_def held_def)
  then have "agree T c (snd (with_session m (w\<lparr>db := committed w\<rparr>)))"
    using agree_session[OF assms] by (simp only: keeps_def)
  then show "held T c (snd (with_session m w))"
    by (simp add: agree_def held_def with_session_def)
qed

lemma held_quiet: "quiet m \<Longrightarrow> keeps (held T c) m"
  unfolding keeps_def held_def by (metis messages_only_frame(1,2) prod.collapse quietD)

lemmas held_intros = keeps_bind keeps_fold keeps_branch held_basic held_session agree_catch

section \<open>Parts outside the order programs\<close>

locale outside_orders =
  fixes T :: "database \<Rightarrow> 'a"
  assumes state_ignored [simp]: "T (set_order_state oid st d) = T d"
    and trace_ignored [simp]: "T (set_order_trace oid tid d) = T d"
    and payment_ignored [simp]: "T (d\<lparr>orders := update_where (\<lambda>r. o_id r = oid)
        (\<lambda>r. r\<lparr>o_state := st, o_payment_id := pid\<rparr>) (orders d)\<rparr>) = T d"
    and tickets_ignored [simp]: "T (d\<lparr>kitchen_tickets := ks\<rparr>) = T d"
    and inventory_ignored [simp]: "T (d\<lparr>inventory := is\<rparr>) = T d"
    and movements_ignored [simp]: "T (d\<lparr>inventory_movements := ms\<rparr>) = T d"
begin

lemma agree_order_write [intro, simp]:
  "keeps (agree T c) (update_db (set_order_state oid st))"
  "keeps (agree T c) (update_db (set_order_trace oid tid))"
  "keeps (agree T c) (update_db (\<lambda>d. d\<lparr>orders := update_where (\<lambda>r. o_id r = oid)
     (\<lambda>r. r\<lparr>o_state := st, o_payment_id := pid\<rparr>) (orders d)\<rparr>))"
  "keeps (agree T c) (update_db (\<lambda>d. d\<lparr>kitchen_tickets := g d\<rparr>))"
  "keeps (agree T c) (update_db (set_ticket_state tid st))"
  by (rule agree_update, simp add: set_ticket_state_def)+

lemma agree_stock [intro, simp]:
  "keeps (agree T c) (write_quantity sku q)" "keeps (agree T c) (record_movement sku q r st si b)"
  "keeps (agree T c) (quantity_for_update sku)"
  unfolding write_quantity_def record_movement_def quantity_for_update_def
  by (intro agree_intros agree_update, simp, intro agree_intros, simp add: keeps_def agree_def, rule agree_basic)

lemma agree_reserve [intro, simp]: "keeps (agree T c) (reserve_items pf oid)"
proof -
  have sku: "keeps (agree T c) (item_sku pf item)" for item
    unfolding item_sku_def Let_def by (intro agree_intros)
  have one: "keeps (agree T c) (reserve_sku oid s q b)" for s q b
    unfolding reserve_sku_def by (intro agree_intros agree_stock)
  have item: "keeps (agree T c) (reserve_item pf oid it b)" for it b
    unfolding reserve_item_def by (intro agree_intros sku) (auto intro: one split: json.splits)
  show ?thesis
    unfolding reserve_items_def by (intro agree_intros item)
qed

lemma agree_ticket_insert [intro, simp]: "keeps (agree T c) (insert_kitchen_ticket oid st)"
  unfolding insert_kitchen_ticket_def
  by (intro agree_intros) (auto simp: keeps_def agree_def)

lemma agree_expect [intro, simp]: "keeps (agree T c) (expect_order_state oid ss l)"
  unfolding expect_order_state_def select_order_state_def by (intro agree_intros)

lemma agree_order_tool [intro]:
  "keeps (agree T c) (validate_order_items kw)" "keeps (agree T c) (yookassa_create_payment pf kw)"
  "keeps (agree T c) (yookassa_verify_payment pf kw)" "keeps (agree T c) (write_order_state_payment_pending kw)"
  "keeps (agree T c) (write_order_state_paid kw)" "keeps (agree T c) (write_order_state_payment_failed kw)"
  "keeps (agree T c) (write_order_state_cooking kw)" "keeps (agree T c) (reserve_inventory_items pf kw)"
  "keeps (agree T c) (create_kitchen_ticket kw)" "keeps (agree T c) (log_validation_failure kw)"
  "keeps (agree T c) (notify_inventory_insufficient kw)" "keeps (agree T c) (notify_staff_new_kitchen_ticket kw)"
  "keeps (agree T c) (transition_order_state kw)"
  unfolding validate_order_items_def yookassa_create_payment_def
    yookassa_verify_payment_def write_order_state_payment_pending_def write_order_state_paid_def
    write_order_state_payment_failed_def write_order_state_cooking_def reserve_inventory_items_def
    create_kitchen_ticket_def log_validation_failure_def notify_inventory_insufficient_def
    notify_staff_new_kitchen_ticket_def transition_order_state_def Let_def
  by (intro agree_intros agree_order_write agree_reserve agree_ticket_insert agree_expect
      agree_quiet quiet_notify)+

lemma agree_order_tools: "map_of (ORDER_TOOLS pf) tn = Some f \<Longrightarrow> keeps (agree T c) (f kw)"
  by (drule map_of_SomeD) (auto simp: ORDER_TOOLS_def)

lemma agree_order_run:
  assumes "vm_ok pf" "forward_program p"
  shows "keeps (agree T c) (run_program pf (build_vm pf) p ctx)"
proof (rule keepsI)
  fix w
  assume "agree T c w"
  then show "agree T c (snd (run_program pf (build_vm pf) p ctx w))"
    unfolding run_program_def build_vm_def
    using run_vm_keeps[OF assms, of ORDERS_TOOL_CAPABILITIES "ORDER_TOOLS pf" ctx w _ _ "agree T c"]
      agree_order_tools
    by (auto split: prod.splits)
qed

lemma agree_get_state [intro, simp]: "keeps (agree T c) (OrderRepository_get_state oid)"
  unfolding OrderRepository_get_state_def select_order_state_def by (intro agree_intros)

lemma agree_transition_order:
  assumes "vm_ok pf"
  shows "keeps (agree T c) (transition_order pf oid ev)"
proof -
  have step: "keeps (agree T c) (case map_of (ORDER_TRANSITIONS s) ev of
         None \<Rightarrow> ret (rejected ev (EventNotAllowed ev s))
       | Some next_state \<Rightarrow>
           let program = select_program ev s next_state; context = transition_context oid ev s
           in if \<not> validates pf program then raise (RuntimeError (program_name program))
              else bind_io (run_program pf (build_vm pf) program context) (\<lambda>tr.
                   bind_io (save_trace tr) (\<lambda>_.
                     if trace_status tr = trace_status.SUCCESS then
                       bind_io (if trace_id tr \<noteq> [] then update_db (set_order_trace oid (trace_id tr)) else ret ()) (\<lambda>_.
                       bind_io (if next_state = OrderState.COOKING \<and> ev = OrderEvent.START_COOKING then ret ()
                                else if next_state = OrderState.COOKING then on_cooking oid else ret ()) (\<lambda>_.
                       bind_io commit (\<lambda>_. ret (accepted next_state))))
                     else ret (rejected ev (failure_reason tr)))))" for s
  proof (cases "map_of (ORDER_TRANSITIONS s) ev")
    case (Some s')
    have "keeps (agree T c) (on_cooking oid)"
      by (auto simp: on_cooking_def KitchenRepository_create_def)
    then show ?thesis
      unfolding Some Let_def option.case
      by (intro agree_intros agree_order_write agree_order_run assms forward_select_program Some)
  qed simp
  show ?thesis
    unfolding transition_order_def
    by (intro agree_session keeps_bind agree_get_state) (use step in \<open>auto simp: can_transition_def\<close>)
qed

lemma transition_order_frame:
  "vm_ok pf \<Longrightarrow> transition_order pf oid ev w = (r, w') \<Longrightarrow> T (committed w') = T (committed w)"
proof -
  assume vm: "vm_ok pf" and run: "transition_order pf oid ev w = (r, w')"
  have "transition_order pf oid ev w = transition_order pf oid ev (w\<lparr>db := committed w\<rparr>)"
    by (simp add: transition_order_def with_session_def)
  moreover have "agree T (T (committed w)) (w\<lparr>db := committed w\<rparr>)" by (simp add: agree_def)
  ultimately have "agree T (T (committed w)) w'"
    using keepsD[OF agree_transition_order[OF vm]] run by metis
  then show ?thesis by (simp add: agree_def)
qed

end

section \<open>The tables of the payment service\<close>

interpretation pay_frame: outside_orders payments
  by unfold_locales (simp_all add: set_order_state_def set_order_trace_def)

interpretation key_frame: outside_orders idempotency_keys
  by unfold_locales (simp_all add: set_order_state_def set_order_trace_def)

section \<open>The identities of an order\<close>

text \<open>The messenger accounts an order was placed from.\<close>

definition attributions :: "database \<Rightarrow> (uuid \<times> int option \<times> int option \<times> string option) list" where
  "attributions d = map (\<lambda>r. (o_id r, o_client_max_uid r, o_client_telegram_uid r, o_client_zalo_uid r)) (orders d)"

interpretation attribution_frame: outside_orders attributions
  by unfold_locales
    (auto simp: attributions_def set_order_state_def set_order_trace_def update_where_def)

end
