(* ===== verification/Float64.thy ===== *)
theory Float64
  imports Complex_Main
begin

text \<open>
  Python's float arithmetic: a result is the exact rational rounded to the nearest
  53-bit value, ties to even. Subnormal and overflowing results (below 2 powi -1022,
  above 2 powi 1024) are out of reach of the amounts computed here.
\<close>

definition half_even :: "rat \<Rightarrow> int" where
  "half_even y = (let f = \<lfloor>y\<rfloor>; d = y - of_int f in
     if d < 1 / 2 \<or> (d = 1 / 2 \<and> even f) then f else f + 1)"

fun bits :: "int \<Rightarrow> int" where
  "bits n = (if n \<le> 0 then 0 else 1 + bits (n div 2))"

declare bits.simps [simp del]

text \<open>The exponent of the leading bit.\<close>

definition exp2 :: "rat \<Rightarrow> int" where
  "exp2 a = (let (n, d) = quotient_of a; k = bits n - bits d in
     if 2 powi k \<le> a then k else k - 1)"

definition round64 :: "rat \<Rightarrow> rat" where
  "round64 x = (if x = 0 then 0 else let u = 2 powi (exp2 \<bar>x\<bar> - 52) in of_int (half_even (x / u)) * u)"

section \<open>Rounding to an integer\<close>

lemma half_even_int [simp]: "half_even (of_int n) = n"
  by (simp add: half_even_def)

lemma half_even_bounds: "\<lfloor>y\<rfloor> \<le> half_even y" "half_even y \<le> \<lfloor>y\<rfloor> + 1"
  by (simp_all add: half_even_def Let_def)

lemma half_even_mono:
  assumes "x \<le> y"
  shows "half_even x \<le> half_even y"
proof (cases "\<lfloor>x\<rfloor> = \<lfloor>y\<rfloor>")
  case True
  then show ?thesis using assms by (auto simp: half_even_def Let_def)
next
  case False
  then have "\<lfloor>x\<rfloor> + 1 \<le> \<lfloor>y\<rfloor>" using floor_mono[OF assms] by linarith
  then show ?thesis using half_even_bounds(2)[of x] half_even_bounds(1)[of y] by linarith
qed

section \<open>The exponent\<close>

lemma bits_bounds: "0 < n \<Longrightarrow> 0 < bits n \<and> 2 ^ nat (bits n - 1) \<le> n \<and> n < 2 ^ nat (bits n)"
proof (induction n rule: bits.induct)
  case (1 n)
  show ?case
  proof (cases "n = 1")
    case True
    then show ?thesis by (simp add: bits.simps)
  next
    case False
    then have h: "0 < n div 2" using 1(2) by simp
    have b: "bits n = 1 + bits (n div 2)" using 1(2) by (simp add: bits.simps[of n])
    have ih: "0 < bits (n div 2)" "2 ^ nat (bits (n div 2) - 1) \<le> n div 2" "n div 2 < 2 ^ nat (bits (n div 2))"
      using 1(1)[OF _ h] 1(2) by auto
    have e: "nat (bits n - 1) = Suc (nat (bits (n div 2) - 1))" "nat (bits n) = Suc (nat (bits (n div 2)))"
      using b ih(1) by auto
    have "n = 2 * (n div 2) + n mod 2" "0 \<le> n mod 2" "n mod 2 < 2" by simp_all
    then show ?thesis using ih b unfolding e power_Suc by linarith
  qed
qed

lemma exp2_bounds:
  assumes "0 < a"
  shows "2 powi (exp2 a) \<le> a" "a < 2 powi (exp2 a + 1)"
proof -
  obtain n d where q: "quotient_of a = (n, d)" by fastforce
  then have d: "0 < d" and a: "a = of_int n / of_int d"
    using quotient_of_denom_pos quotient_of_div by blast+
  then have n: "0 < n" using assms by (simp add: zero_less_divide_iff)
  let ?k = "bits n - bits d"
  have pw: "(2::rat) powi i = of_int (2 ^ nat i)" if "0 \<le> i" for i
    using that by (simp add: power_int_def)
  have nb: "2 powi (bits n - 1) \<le> rat_of_int n" "rat_of_int n < 2 powi (bits n)"
    and db: "2 powi (bits d - 1) \<le> rat_of_int d" "rat_of_int d < 2 powi (bits d)"
    using bits_bounds[OF n] bits_bounds[OF d] by (auto simp: pw simp del: of_int_power of_int_numeral)
  have split: "(2::rat) powi (i + j) = 2 powi i * 2 powi j" for i j by (simp add: power_int_add)
  have up: "a < 2 powi (?k + 1)"
  proof -
    have "rat_of_int n < 2 powi (?k + 1) * 2 powi (bits d - 1)"
      using nb(2) split[of "?k + 1" "bits d - 1"] by simp
    also have "\<dots> \<le> 2 powi (?k + 1) * rat_of_int d" using db(1) by simp
    finally show ?thesis using a d by (simp add: pos_divide_less_eq)
  qed
  have low: "2 powi (?k - 1) \<le> a"
  proof -
    have "2 powi (?k - 1) * rat_of_int d \<le> 2 powi (?k - 1) * 2 powi (bits d)" using db(2) by simp
    also have "\<dots> \<le> rat_of_int n" using nb(1) split[of "?k - 1" "bits d"] by (simp add: algebra_simps)
    finally show ?thesis using a d by (simp add: pos_le_divide_eq)
  qed
  show "2 powi (exp2 a) \<le> a" "a < 2 powi (exp2 a + 1)"
    using up low q by (auto simp: exp2_def Let_def)
qed

lemma powi_le: "(i::int) \<le> j \<Longrightarrow> (2::rat) powi i \<le> 2 powi j"
  by (rule power_int_increasing) auto

lemma exp2_mono:
  assumes "0 < x" "x \<le> y"
  shows "exp2 x \<le> exp2 y"
proof (rule ccontr)
  assume "\<not> exp2 x \<le> exp2 y"
  then have "(2::rat) powi (exp2 y + 1) \<le> 2 powi (exp2 x)" by (intro powi_le) auto
  then show False
    using assms exp2_bounds(1)[of x] exp2_bounds(2)[of y] by linarith
qed

section \<open>The rounding\<close>

lemma round64_pos: "0 < x \<Longrightarrow> round64 x = of_int (half_even (x / 2 powi (exp2 x - 52))) * 2 powi (exp2 x - 52)"
  by (simp add: round64_def Let_def)

text \<open>A binade is closed under rounding.\<close>

lemma round64_binade:
  assumes "0 < x"
  shows "2 powi (exp2 x) \<le> round64 x" "round64 x \<le> 2 powi (exp2 x + 1)"
proof -
  let ?u = "(2::rat) powi (exp2 x - 52)"
  have u: "0 < ?u" by simp
  have f: "2 powi (exp2 x) = of_int (2 ^ 52) * ?u" "2 powi (exp2 x + 1) = of_int (2 ^ 53) * ?u"
    by (simp_all add: power_int_diff power_int_add)
  have "of_int (2 ^ 52) \<le> x / ?u" "x / ?u \<le> of_int (2 ^ 53)"
    using exp2_bounds[OF assms] f u by (simp_all add: pos_le_divide_eq pos_divide_le_eq del: of_int_power of_int_numeral)
  then have "2 ^ 52 \<le> half_even (x / ?u)" "half_even (x / ?u) \<le> 2 ^ 53"
    using half_even_mono half_even_int by metis+
  then have "of_int (2 ^ 52) * ?u \<le> of_int (half_even (x / ?u)) * ?u"
      "of_int (half_even (x / ?u)) * ?u \<le> of_int (2 ^ 53) * ?u"
    using u by (simp_all only: mult_le_cancel_right_pos of_int_le_iff)
  then show "2 powi (exp2 x) \<le> round64 x" "round64 x \<le> 2 powi (exp2 x + 1)"
    unfolding f round64_pos[OF assms] by simp_all
qed

lemma round64_mono:
  assumes "0 \<le> x" "x \<le> y"
  shows "round64 x \<le> round64 y"
proof (cases "x = 0")
  case True
  then show ?thesis
    using assms round64_binade(1)[of y] by (cases "y = 0") (auto simp: round64_def intro: order_trans[rotated])
next
  case False
  then have p: "0 < x" "0 < y" using assms by auto
  show ?thesis
  proof (cases "exp2 x = exp2 y")
    case True
    have "half_even (x / 2 powi (exp2 y - 52)) \<le> half_even (y / 2 powi (exp2 y - 52))"
      using assms(2) by (intro half_even_mono divide_right_mono) auto
    then show ?thesis unfolding round64_pos[OF p(1)] round64_pos[OF p(2)] True by simp
  next
    case False
    then have "exp2 x + 1 \<le> exp2 y" using exp2_mono[OF p(1) assms(2)] by simp
    then have "(2::rat) powi (exp2 x + 1) \<le> 2 powi (exp2 y)" by (rule powi_le)
    then show ?thesis using round64_binade(2)[OF p(1)] round64_binade(1)[OF p(2)] by linarith
  qed
qed

text \<open>Integers up to 2 to the 53 are represented exactly.\<close>

lemma round64_int:
  assumes "0 \<le> n" "n \<le> 2 ^ 53"
  shows "round64 (of_int n) = of_int n"
proof (cases "n = 0")
  case False
  then have p: "0 < rat_of_int n" using assms by simp
  let ?e = "exp2 (rat_of_int n) - 52"
  have "\<exists>m. rat_of_int n / 2 powi ?e = of_int m"
  proof (cases "?e \<le> 0")
    case True
    then have "rat_of_int n / 2 powi ?e = of_int (n * 2 ^ nat (- ?e))"
      by (auto simp: power_int_def divide_simps)
    then show ?thesis by blast
  next
    case False
    then have "2 powi 53 \<le> (2::rat) powi (exp2 (rat_of_int n))" by (intro powi_le) auto
    also have "\<dots> \<le> rat_of_int n" by (rule exp2_bounds(1)[OF p])
    finally have "rat_of_int (2 ^ 53) \<le> rat_of_int n" by simp
    then have n: "n = 2 ^ 53" using assms(2) by (simp only: of_int_le_iff)
    have "exp2 (rat_of_int n) \<le> 53"
    proof (rule ccontr)
      assume "\<not> exp2 (rat_of_int n) \<le> 53"
      then have "2 powi 54 \<le> (2::rat) powi (exp2 (rat_of_int n))" by (intro powi_le) auto
      then show False using exp2_bounds(1)[OF p] n by simp
    qed
    then have "?e = 1" using False by simp
    then show ?thesis using n by (intro exI[of _ "2 ^ 52"]) simp
  qed
  then obtain m where m: "rat_of_int n / 2 powi ?e = of_int m" by blast
  then have "rat_of_int (half_even (rat_of_int n / 2 powi ?e)) = rat_of_int n / 2 powi ?e"
    by (simp only: half_even_int)
  then show ?thesis by (simp add: round64_pos[OF p])
qed (simp add: round64_def)

lemma round64_nonneg: "0 \<le> x \<Longrightarrow> 0 \<le> round64 x"
  using round64_mono[of 0 x] by (simp add: round64_def)

lemma round64_le_int: "0 \<le> x \<Longrightarrow> x \<le> of_int n \<Longrightarrow> n \<le> 2 ^ 53 \<Longrightarrow> round64 x \<le> of_int n"
  by (metis of_int_0_le_iff order_trans round64_int round64_mono)

end
