(* ===== verification/Decimal_Text.thy ===== *)
theory Decimal_Text
  imports Platform Float64
begin

text \<open>
  decimal.Decimal as the payment code uses it: the value of a text, comparison
  for equality, two-digit formatting, and the NUMERIC(12, 2) column it is stored in.
\<close>

datatype decimal = Finite rat | Infinity bool | NaN | SNaN

fun read_digits :: "int \<Rightarrow> string \<Rightarrow> int" where
  "read_digits acc [] = acc"
| "read_digits acc (c # cs) = read_digits (10 * acc + (int (code c) - 48)) cs"

definition digit_char :: "int \<Rightarrow> char" where
  "digit_char n = char_of (48 + nat n)"

fun show_digits :: "int \<Rightarrow> string" where
  "show_digits n = (if n < 10 then [digit_char n] else show_digits (n div 10) @ [digit_char (n mod 10)])"

declare show_digits.simps [simp del]

definition scale10 :: "int \<Rightarrow> rat \<Rightarrow> rat" where
  "scale10 e x = (if 0 \<le> e then x * 10 ^ nat e else x / 10 ^ nat (- e))"

text \<open>An exponent part: empty, or e with an optional sign and at least one digit.\<close>

definition parse_exponent :: "string \<Rightarrow> int option" where
  "parse_exponent s =
     (if s = [] then Some 0
      else if hd s \<noteq> CHR ''e'' then None
      else let t = tl s;
               neg = (t \<noteq> [] \<and> hd t = CHR ''-'');
               u = (if t \<noteq> [] \<and> (hd t = CHR ''-'' \<or> hd t = CHR ''+'') then tl t else t)
           in if u = [] \<or> \<not> list_all is_digit u then None
              else Some ((if neg then - 1 else 1) * read_digits 0 u))"

definition parse_number :: "string \<Rightarrow> rat option" where
  "parse_number l =
     (let ip = takeWhile is_digit l;
          r1 = dropWhile is_digit l;
          point = (r1 \<noteq> [] \<and> hd r1 = CHR ''.'');
          fp = (if point then takeWhile is_digit (tl r1) else []);
          r2 = (if point then dropWhile is_digit (tl r1) else r1)
      in if ip = [] \<and> fp = [] then None
         else map_option (\<lambda>e. scale10 (e - int (length fp)) (of_int (read_digits 0 (ip @ fp))))
                (parse_exponent r2))"

text \<open>\<open>decimal.Decimal(text)\<close>; None is decimal.InvalidOperation.\<close>

definition parse_decimal :: "string \<Rightarrow> decimal option" where
  "parse_decimal s =
     (let t = filter (\<lambda>c. c \<noteq> CHR ''_'') (py_strip s);
          neg = (t \<noteq> [] \<and> hd t = CHR ''-'');
          l = py_lower (if t \<noteq> [] \<and> (hd t = CHR ''-'' \<or> hd t = CHR ''+'') then tl t else t)
      in if l = ''inf'' \<or> l = ''infinity'' then Some (Infinity neg)
         else if take 3 l = ''nan'' \<and> list_all is_digit (drop 3 l) then Some NaN
         else if take 4 l = ''snan'' \<and> list_all is_digit (drop 4 l) then Some SNaN
         else map_option (\<lambda>x. Finite (if neg then - x else x)) (parse_number l))"

text \<open>\<open>a != b\<close>: a signalling NaN is an error of the comparison, a quiet one differs from everything.\<close>

fun decimal_ne :: "decimal \<Rightarrow> rat \<Rightarrow> bool result" where
  "decimal_ne (Finite a) b = Inr (a \<noteq> b)"
| "decimal_ne (Infinity _) b = Inr True"
| "decimal_ne NaN b = Inr True"
| "decimal_ne SNaN b = Inl (ValueError ''decimal.InvalidOperation'')"

text \<open>The format ".2f": two decimals, ties to even.\<close>

definition fixed2 :: "rat \<Rightarrow> string" where
  "fixed2 x = (let n = half_even (\<bar>x\<bar> * 100) in
     (if x < 0 then ''-'' else []) @ show_digits (n div 100) @ ''.''
       @ [digit_char (n mod 100 div 10), digit_char (n mod 10)])"

text \<open>A value stored in NUMERIC(12, 2): ties away from zero, overflow is an error.\<close>

definition numeric_12_2 :: "rat \<Rightarrow> rat result" where
  "numeric_12_2 x = (let n = \<lfloor>\<bar>x\<bar> * 100 + 1 / 2\<rfloor> in
     if n \<ge> 10 ^ 12 then Inl (DataError ''numeric field overflow'')
     else Inr ((if x < 0 then - 1 else 1) * of_int n / 100))"

lemma numeric_12_2_int: "\<bar>n\<bar> < 10 ^ 10 \<Longrightarrow> numeric_12_2 (of_int n) = Inr (of_int n)"
proof -
  assume "\<bar>n\<bar> < 10 ^ 10"
  moreover have "\<lfloor>\<bar>rat_of_int n\<bar> * 100 + 1 / 2\<rfloor> = \<bar>n\<bar> * 100"
  proof -
    have "\<bar>rat_of_int n\<bar> * 100 = of_int (\<bar>n\<bar> * 100)" by simp
    then show ?thesis by (simp only:) linarith
  qed
  ultimately show ?thesis by (auto simp: numeric_12_2_def Let_def)
qed

section \<open>Reading back what was formatted\<close>

lemma digit_char_digit: "0 \<le> n \<Longrightarrow> n < 10 \<Longrightarrow> is_digit (digit_char n) \<and> int (code (digit_char n)) - 48 = n"
  by (auto simp: digit_char_def is_digit_def)

lemma show_digits_digits: "0 \<le> n \<Longrightarrow> list_all is_digit (show_digits n) \<and> show_digits n \<noteq> []"
proof (induction n rule: show_digits.induct)
  case (1 n)
  then show ?case
    using digit_char_digit by (subst (1 2) show_digits.simps) (auto simp: show_digits.simps[of n])
qed

lemma read_digits_append: "read_digits acc (s @ t) = read_digits (read_digits acc s) t"
  by (induction acc s rule: read_digits.induct) auto

lemma read_show: "0 \<le> n \<Longrightarrow> read_digits 0 (show_digits n) = n"
proof (induction n rule: show_digits.induct)
  case (1 n)
  show ?case
  proof (cases "n < 10")
    case True
    then show ?thesis using 1(2) digit_char_digit by (simp add: show_digits.simps[of n])
  next
    case False
    then have "read_digits 0 (show_digits n) = 10 * (n div 10) + n mod 10"
      using 1 digit_char_digit[of "n mod 10"] by (simp add: show_digits.simps[of n] read_digits_append)
    then show ?thesis by simp
  qed
qed

definition plain :: "char \<Rightarrow> bool" where
  "plain c \<longleftrightarrow> is_digit c \<or> c = CHR ''.''"

lemma plain_facts:
  assumes "plain c"
  shows "c \<noteq> CHR ''_''" "c \<noteq> CHR ''-''" "c \<noteq> CHR ''+''" "c \<noteq> CHR ''i''" "c \<noteq> CHR ''n''" "c \<noteq> CHR ''s''"
    "lower_char c = c" "\<not> py_isspace c"
  using assms by (auto simp: plain_def is_digit_def code_def lower_char_def py_isspace_def)

lemma plain_text:
  assumes "list_all plain s"
  shows "filter (\<lambda>c. c \<noteq> CHR ''_'') (py_strip s) = s" "py_lower s = s"
proof -
  have d: "dropWhile py_isspace t = t" if "list_all plain t" for t
    using that plain_facts(8) by (cases t) auto
  have "py_strip s = s"
    using d[OF assms] d[of "rev s"] assms by (simp add: py_strip_def py_lstrip_def py_rstrip_def)
  then show "filter (\<lambda>c. c \<noteq> CHR ''_'') (py_strip s) = s"
    using assms plain_facts(1) by (auto simp: list_all_iff intro!: filter_True)
  show "py_lower s = s"
    using assms plain_facts(7) by (auto simp: py_lower_def list_all_iff intro: map_idI)
qed

lemma parse_decimal_plain:
  assumes "list_all plain s" "s \<noteq> []"
  shows "parse_decimal s = map_option Finite (parse_number s)"
proof -
  obtain c t where s: "s = c # t" using assms(2) by (cases s) auto
  note c = plain_facts[of c] and p = plain_text[OF assms(1)]
  have "plain c" using assms(1) s by simp
  then show ?thesis
    using c p unfolding parse_decimal_def Let_def p(1) s by (auto simp: p(2)[unfolded s])
qed

text \<open>An amount of whole kopecks is read back from its text exactly.\<close>

lemma parse_fixed2:
  assumes "0 \<le> m"
  shows "parse_decimal (fixed2 (of_int m / 100)) = Some (Finite (of_int m / 100))"
proof -
  let ?a = "show_digits (m div 100)" and ?b = "digit_char (m mod 100 div 10)" and ?c = "digit_char (m mod 10)"
  have b: "is_digit ?b" "int (code ?b) - 48 = m mod 100 div 10" and c: "is_digit ?c" "int (code ?c) - 48 = m mod 10"
    using digit_char_digit[of "m mod 100 div 10"] digit_char_digit[of "m mod 10"] by auto
  have a: "list_all is_digit ?a" "?a \<noteq> []" using show_digits_digits[of "m div 100"] assms by simp_all
  have "\<bar>rat_of_int m / 100\<bar> * 100 = of_int m" using assms by simp
  then have f: "fixed2 (of_int m / 100) = ?a @ ''.'' @ [?b, ?c]"
    using assms by (simp add: fixed2_def Let_def)
  have dot: "\<not> is_digit CHR ''.''" by (simp add: is_digit_def code_def)
  have tw: "takeWhile is_digit (?a @ CHR ''.'' # [?b, ?c]) = ?a" "dropWhile is_digit (?a @ CHR ''.'' # [?b, ?c]) = CHR ''.'' # [?b, ?c]"
    using a(1) dot by (simp_all add: list_all_iff takeWhile_append dropWhile_append)
  have "read_digits 0 (?a @ [?b, ?c]) = 10 * (10 * (m div 100) + m mod 100 div 10) + m mod 10"
    using b(2) c(2) assms by (simp add: read_digits_append read_show)
  also have "\<dots> = m"
  proof -
    have last: "m mod 10 = m mod 100 mod 10" by (simp add: mod_mod_cancel)
    have sum: "10 * (10 * a + b') + c' = m" if "c' = c''" "b' * 10 + c'' = k" "a * 100 + k = m" for a b' c' c'' k
      using that by simp
    show ?thesis
      by (rule sum[OF last div_mult_mod_eq div_mult_mod_eq])
  qed
  finally have "parse_number (?a @ CHR ''.'' # [?b, ?c]) = Some (of_int m / 100)"
    using b c a(2) by (simp add: parse_number_def Let_def tw parse_exponent_def scale10_def)
  moreover have "list_all plain (fixed2 (of_int m / 100))" "fixed2 (of_int m / 100) \<noteq> []"
    using f a(1) b(1) c(1) by (auto simp: plain_def list_all_iff)
  ultimately show ?thesis by (simp add: parse_decimal_plain f)
qed

lemma numeric_12_2_kopecks:
  assumes "0 \<le> m" "m < 10 ^ 12"
  shows "numeric_12_2 (of_int m / 100) = Inr (of_int m / 100)"
proof -
  have "\<bar>rat_of_int m / 100\<bar> * 100 = of_int m" using assms(1) by simp
  then have "\<lfloor>\<bar>rat_of_int m / 100\<bar> * 100 + 1 / 2\<rfloor> = m" by (simp only:) linarith
  then show ?thesis using assms by (simp add: numeric_12_2_def Let_def)
qed

end
