(* ===== verification/Idempotency.thy ===== *)
theory Idempotency
  imports Database
begin

text \<open>
  IdempotencyService (app/services/idempotency.py) on the table
  idempotency_keys, and the in-memory trace of app/trace.py. Each operation is a
  session of its own that commits.
\<close>

section \<open>Idempotency keys\<close>

definition key_row :: "database \<Rightarrow> string \<Rightarrow> idempotency_row option" where
  "key_row d key = first_where (\<lambda>r. ik_key r = key) (idempotency_keys d)"

definition key_recorded :: "database \<Rightarrow> string \<Rightarrow> bool" where
  "key_recorded d key \<longleftrightarrow> key_row d key \<noteq> None"

text \<open>The column is VARCHAR(256).\<close>

definition check_key :: "string \<Rightarrow> (world, unit) io" where
  "check_key key = (if length key > 256 then raise (DataError ''value too long'') else ret ())"

definition check_and_record :: "string \<Rightarrow> (string \<times> json) list \<Rightarrow> (world, bool) io" where
  "check_and_record key payload = with_session (
     bind_io (check_key key) (\<lambda>_.
     bind_io (select_db (\<lambda>d. \<not> key_recorded d key)) (\<lambda>inserted.
     bind_io (if inserted
              then update_db (\<lambda>d. d\<lparr>idempotency_keys := idempotency_keys d @ [\<lparr>ik_key = key, ik_payload = JObj payload\<rparr>]\<rparr>)
              else ret ()) (\<lambda>_.
     bind_io commit (\<lambda>_. ret inserted)))))"

definition get_payload :: "string \<Rightarrow> (world, (string \<times> json) list option) io" where
  "get_payload key = with_session (
     bind_io (select_db (\<lambda>d. key_row d key)) (\<lambda>row.
     ret (case row of
            Some r \<Rightarrow> (case ik_payload r of JObj kvs \<Rightarrow> Some kvs | _ \<Rightarrow> None)
          | None \<Rightarrow> None)))"

definition update_payload :: "string \<Rightarrow> (string \<times> json) list \<Rightarrow> (world, unit) io" where
  "update_payload key payload = with_session (
     bind_io (check_key key) (\<lambda>_.
     bind_io (update_db (\<lambda>d. d\<lparr>idempotency_keys :=
        (if key_recorded d key
         then update_where (\<lambda>r. ik_key r = key) (\<lambda>r. r\<lparr>ik_payload := JObj payload\<rparr>) (idempotency_keys d)
         else idempotency_keys d @ [\<lparr>ik_key = key, ik_payload = JObj payload\<rparr>])\<rparr>)) (\<lambda>_.
     commit)))"

section \<open>Trace\<close>

definition record_event ::
  "uuid \<Rightarrow> string \<Rightarrow> string \<Rightarrow> string \<Rightarrow> string \<Rightarrow> (string \<times> json) list \<Rightarrow> (world, string) io" where
  "record_event entity_id domain event from_state to_state metadata =
     bind_io new_uuid (\<lambda>tid.
     bind_io (modify_io (\<lambda>w. w\<lparr>trace_log := trace_log w @
        [\<lparr>te_trace_id = tid, te_entity_id = entity_id, te_domain = domain, te_event = event,
          te_from_state = from_state, te_to_state = to_state, te_metadata = JObj metadata\<rparr>]\<rparr>)) (\<lambda>_.
     ret tid))"

definition get_events :: "uuid \<Rightarrow> (world, trace_event list) io" where
  "get_events entity_id = gets_io (\<lambda>w. rows_where (\<lambda>e. te_entity_id e = entity_id) (trace_log w))"

definition get_by_trace_id :: "string \<Rightarrow> (world, trace_event option) io" where
  "get_by_trace_id tid = gets_io (\<lambda>w. first_where (\<lambda>e. te_trace_id e = tid) (trace_log w))"

section \<open>Lemmas\<close>

lemma key_recorded_iff: "key_recorded d k \<longleftrightarrow> k \<in> ik_key ` set (idempotency_keys d)"
  by (simp add: key_recorded_def key_row_def first_where_key_None)

lemma check_and_record_first:
  assumes "\<not> key_recorded (committed w) k" "length k \<le> 256"
  shows "check_and_record k p w = (Inr True, (let d = (committed w)\<lparr>idempotency_keys :=
      idempotency_keys (committed w) @ [\<lparr>ik_key = k, ik_payload = JObj p\<rparr>]\<rparr> in w\<lparr>db := d, committed := d\<rparr>))"
  using assms
  by (simp add: check_and_record_def with_session_apply check_key_def Let_def bind_io_apply)

lemma check_and_record_again:
  assumes "key_recorded (committed w) k" "length k \<le> 256"
  shows "check_and_record k p w = (Inr False, w\<lparr>db := committed w\<rparr>)"
  using assms
  by (simp add: check_and_record_def with_session_apply check_key_def bind_io_apply)

lemma check_and_record_cases:
  assumes "check_and_record k p w = (r, w')"
  obtains (long) e where "r = Inl e" "length k > 256" "w' = w\<lparr>db := committed w\<rparr>"
  | (first) "r = Inr True" "length k \<le> 256" "\<not> key_recorded (committed w) k" "key_recorded (committed w') k"
      "w' = w\<lparr>db := committed w', committed := committed w'\<rparr>"
      "committed w' = (committed w)\<lparr>idempotency_keys :=
          idempotency_keys (committed w) @ [\<lparr>ik_key = k, ik_payload = JObj p\<rparr>]\<rparr>"
  | (again) "r = Inr False" "length k \<le> 256" "key_recorded (committed w) k" "w' = w\<lparr>db := committed w\<rparr>"
proof (cases "length k > 256")
  case True
  then show thesis
    using assms by (intro long) (auto simp: check_and_record_def with_session_apply check_key_def)
next
  case False
  then show thesis
    using assms check_and_record_first[of w k p] check_and_record_again[of w k p] first again
    by (cases "key_recorded (committed w) k") (auto simp: Let_def key_recorded_iff)
qed

lemma key_row_recorded:
  "\<not> key_recorded d k \<Longrightarrow> key_row (d\<lparr>idempotency_keys := idempotency_keys d @ [\<lparr>ik_key = k, ik_payload = p\<rparr>]\<rparr>) k
     = Some \<lparr>ik_key = k, ik_payload = p\<rparr>"
  by (simp add: key_recorded_def key_row_def first_where_append)

text \<open>What was stored last is what is read.\<close>

lemma update_get_payload:
  assumes "length k \<le> 256" "update_payload k p w = (r, w1)"
  shows "r = Inr () \<and> fst (get_payload k w1) = Inr (Some p)"
proof -
  define t where "t = idempotency_keys (committed w)"
  define t' where "t' = (if first_where (\<lambda>r. ik_key r = k) t \<noteq> None
      then update_where (\<lambda>r. ik_key r = k) (\<lambda>r. r\<lparr>ik_payload := JObj p\<rparr>) t
      else t @ [\<lparr>ik_key = k, ik_payload = JObj p\<rparr>])"
  have row: "\<exists>q. first_where (\<lambda>r. ik_key r = k) t' = Some q \<and> ik_payload q = JObj p"
    using first_where_update_key[of ik_key "\<lambda>r. r\<lparr>ik_payload := JObj p\<rparr>" k k t]
    by (auto simp: t'_def first_where_append)
  have w1: "r = Inr ()" "idempotency_keys (committed w1) = t'"
    using assms unfolding t'_def t_def
    by (auto simp: update_payload_def with_session_apply check_key_def key_row_def key_recorded_def bind_io_apply)
  then show ?thesis
    using row by (auto simp: get_payload_def with_session_apply key_row_def)
qed

lemma keys_unique_recorded:
  "key_unique ik_key (idempotency_keys d) \<Longrightarrow> \<not> key_recorded d k \<Longrightarrow>
     key_unique ik_key (idempotency_keys d @ [\<lparr>ik_key = k, ik_payload = p\<rparr>])"
  by (simp add: key_unique_append key_recorded_iff)

end
