(* ===== verification/Payment_Service.thy ===== *)
theory Payment_Service
  imports Table_Frame Decimal_Text Idempotency
begin

text \<open>
  Payments: the payments table (app/repositories/payment_repo.py), the YooKassa
  client and the PaymentService (app/services/payment_service.py), and the
  webhook of the provider (app/webhooks/yookassa.py). The HTTP API itself is the
  platform's \<open>http_post\<close> and \<open>http_get\<close>; raw_response is written and never read
  and has no column here.
\<close>

section \<open>Repository\<close>

definition PaymentRepository_create ::
  "uuid \<Rightarrow> rat \<Rightarrow> string \<Rightarrow> string \<Rightarrow> string \<Rightarrow> (world, uuid) io" where
  "PaymentRepository_create order_id amount currency provider_id st =
     bind_io new_uuid (\<lambda>i.
     bind_io (lift_result (numeric_12_2 amount)) (\<lambda>stored.
     bind_io (select_db (\<lambda>d. first_where (\<lambda>r. pay_id r = i) (payments d) \<noteq> None)) (\<lambda>dup.
     bind_io (select_db (\<lambda>d. first_where (\<lambda>r. o_id r = order_id) (orders d) = None)) (\<lambda>orphan.
       if length provider_id > 128 \<or> length currency > 8 then raise (DataError ''value too long'')
       else if dup then raise (IntegrityError ''payments_pkey'')
       else if orphan then raise (IntegrityError ''payments_order_id_fkey'')
       else bind_io (update_db (\<lambda>d. d\<lparr>payments := payments d @
              [\<lparr>pay_id = i, pay_order_id = order_id, pay_provider_id = provider_id, pay_amount = stored,
                pay_currency = currency, pay_state = st\<rparr>]\<rparr>)) (\<lambda>_. ret i)))))"

definition get_by_provider_id :: "string \<Rightarrow> (world, payment_row) io" where
  "get_by_provider_id provider_id =
     bind_io (select_db (\<lambda>d. rows_where (\<lambda>r. pay_provider_id r = provider_id) (payments d))) (\<lambda>rows.
       case rows of
         [] \<Rightarrow> raise NoResultFound
       | [r] \<Rightarrow> ret r
       | _ \<Rightarrow> raise MultipleResultsFound)"

definition set_payment_state :: "uuid \<Rightarrow> string \<Rightarrow> database \<Rightarrow> database" where
  "set_payment_state i st d =
     d\<lparr>payments := update_where (\<lambda>r. pay_id r = i) (\<lambda>r. r\<lparr>pay_state := st\<rparr>) (payments d)\<rparr>"

definition PaymentRepository_write_state :: "uuid \<Rightarrow> string \<Rightarrow> (world, unit) io" where
  "PaymentRepository_write_state i st = update_db (set_payment_state i st)"

definition PaymentRepository_get_state :: "uuid \<Rightarrow> (world, string) io" where
  "PaymentRepository_get_state i =
     bind_io (select_db (\<lambda>d. first_where (\<lambda>r. pay_id r = i) (payments d))) (\<lambda>row.
       case row of None \<Rightarrow> raise NoResultFound | Some r \<Rightarrow> ret (pay_state r))"

section \<open>YooKassa client\<close>

definition DEFAULT_PAYMENT_METHOD_TYPES :: "string list" where
  "DEFAULT_PAYMENT_METHOD_TYPES = [''sbp'', ''sberbank'']"

definition optional_field :: "string \<Rightarrow> (string \<times> json) list option \<Rightarrow> (string \<times> json) list" where
  "optional_field k v = (case v of None \<Rightarrow> [] | Some kvs \<Rightarrow> [(k, JObj kvs)])"

definition client_create_payment ::
  "platform \<Rightarrow> rat \<Rightarrow> string \<Rightarrow> string \<Rightarrow> string \<Rightarrow> (string \<times> json) list \<Rightarrow> (string \<times> json) list option
     \<Rightarrow> string \<Rightarrow> (string \<times> json) list option \<Rightarrow> (world, json) io" where
  "client_create_payment pf amount currency description return_url metadata receipt
       confirmation_type payment_method_data =
     (let confirmation = (''type'', JStr confirmation_type) #
            (if confirmation_type = ''redirect'' then [(''return_url'', JStr return_url)] else []);
          payload = [(''amount'', JObj [(''value'', JStr (fixed2 amount)), (''currency'', JStr currency)]),
                     (''confirmation'', JObj confirmation),
                     (''capture'', JBool True),
                     (''description'', JStr description),
                     (''metadata'', JObj metadata)]
                    @ optional_field ''receipt'' receipt
                    @ optional_field ''payment_method_data'' payment_method_data
      in bind_io new_uuid (\<lambda>idempotence_key.
         lift_result (http_post pf ''https://api.yookassa.ru/v3/payments'' (JObj payload))))"

definition client_get_payment :: "platform \<Rightarrow> string \<Rightarrow> (world, json) io" where
  "client_get_payment pf payment_id =
     lift_result (http_get pf (''https://api.yookassa.ru/v3/payments/'' @ payment_id))"

definition build_yookassa_receipt :: "string \<Rightarrow> rat \<Rightarrow> string \<Rightarrow> (string \<times> json) list" where
  "build_yookassa_receipt phone amount description =
     [(''customer'', JObj [(''phone'', JStr phone)]),
      (''items'', JList [JObj
         [(''description'', JStr (take 128 description)),
          (''quantity'', JStr ''1''),
          (''amount'', JObj [(''value'', JStr (fixed2 amount)), (''currency'', JStr ''RUB'')]),
          (''vat_code'', JInt 1),
          (''payment_mode'', JStr ''full_prepayment''),
          (''payment_subject'', JStr ''commodity'')]])]"

section \<open>Transitions of the service\<close>

definition payment_program :: "OrderEvent \<Rightarrow> OrderState \<Rightarrow> OrderState \<Rightarrow> program" where
  "payment_program event current_state next_state =
     \<lparr>program_name = ''order_'' @ py_lower (OrderEvent_value event), program_steps =
       [ToolStep ''write_state'' ''transition_order_state''
          [(''order_id'', CtxVar ''order_id''),
           (''from_state'', Lit (JStr (OrderState_value current_state))),
           (''to_state'', Lit (JStr (OrderState_value next_state)))] ''write_result'' None]\<rparr>"

definition run_simple_transition ::
  "platform \<Rightarrow> uuid \<Rightarrow> OrderEvent \<Rightarrow> OrderState \<Rightarrow> (world, (OrderState, OrderEvent) TransitionResult) io" where
  "run_simple_transition pf order_id event current_state =
     (case map_of (ORDER_TRANSITIONS current_state) event of
        None \<Rightarrow> ret (rejected event (EventNotAllowed event current_state))
      | Some next_state \<Rightarrow>
          bind_io (run_program pf (build_vm pf) (payment_program event current_state next_state)
                     [(''order_id'', JStr order_id)]) (\<lambda>tr.
            if trace_status tr = trace_status.SUCCESS then ret (accepted next_state)
            else ret (rejected event (failure_reason tr))))"

section \<open>Creating a payment\<close>

record PaymentInitResult =
  pi_confirmation_url :: string
  pi_confirmation_token :: string
  pi_payment_id :: string
  pi_trace_id :: string

definition field_text :: "platform \<Rightarrow> string \<Rightarrow> (string \<times> json) list \<Rightarrow> string" where
  "field_text pf k kvs = py_str (repr_of pf) (case map_of kvs k of None \<Rightarrow> JStr [] | Some v \<Rightarrow> v)"

definition payment_session :: "platform \<Rightarrow> uuid \<Rightarrow> rat \<Rightarrow> string \<Rightarrow> string \<Rightarrow> (world, unit) io" where
  "payment_session pf order_id amount currency provider_id = with_session (
     bind_io (PaymentRepository_create order_id amount currency provider_id ''PENDING'') (\<lambda>_.
     bind_io (OrderRepository_get_state order_id) (\<lambda>current_state.
     bind_io (run_simple_transition pf order_id OrderEvent.REQUEST_PAYMENT current_state) (\<lambda>_.
     commit))))"

text \<open>From the provider's answer on.\<close>

definition payment_created ::
  "platform \<Rightarrow> uuid \<Rightarrow> rat \<Rightarrow> string \<Rightarrow> string \<Rightarrow> json \<Rightarrow> (world, PaymentInitResult) io" where
  "payment_created pf order_id amount currency tid data =
     (case data of
        JObj kvs \<Rightarrow>
          (case map_of kvs ''id'' of
             None \<Rightarrow> raise (KeyError ''id'')
           | Some pid \<Rightarrow>
               let provider_id = py_str (repr_of pf) pid;
                   (url, token) = (case map_of kvs ''confirmation'' of
                       Some (JObj c) \<Rightarrow> (field_text pf ''confirmation_url'' c, field_text pf ''confirmation_token'' c)
                     | _ \<Rightarrow> ([], []))
               in bind_io (payment_session pf order_id amount currency provider_id) (\<lambda>_.
                  ret \<lparr>pi_confirmation_url = url, pi_confirmation_token = token,
                       pi_payment_id = provider_id, pi_trace_id = tid\<rparr>))
      | _ \<Rightarrow> raise (TypeError ''indices''))"

definition create_payment ::
  "platform \<Rightarrow> uuid \<Rightarrow> rat \<Rightarrow> string \<Rightarrow> string option \<Rightarrow> string option \<Rightarrow> string option
     \<Rightarrow> string \<Rightarrow> (string \<times> json) list option \<Rightarrow> (world, PaymentInitResult) io" where
  "create_payment pf order_id amount currency description return_url customer_phone
       confirmation_type payment_method_data =
     bind_io (record_event order_id ''orders'' ''PAYMENT_REQUESTED'' (OrderState_value OrderState.CONFIRMED)
                (OrderState_value OrderState.PAYMENT_PENDING)
                [(''amount'', JStr (repr_of pf (JFloat amount))), (''currency'', JStr currency)]) (\<lambda>tid.
     let return_url' = (case return_url of Some u \<Rightarrow> if u = [] then YOOKASSA_RETURN_URL (cfg pf) else u
                                        | None \<Rightarrow> YOOKASSA_RETURN_URL (cfg pf));
         desc = (case description of Some t \<Rightarrow> if t = [] then ''Order '' @ order_id else t
                                   | None \<Rightarrow> ''Order '' @ order_id);
         receipt = (case customer_phone of
                      Some p \<Rightarrow> if p = [] then None else Some (build_yookassa_receipt p amount desc)
                    | None \<Rightarrow> None)
     in if (case payment_method_data of None \<Rightarrow> False
            | Some kvs \<Rightarrow> json_get ''type'' kvs \<notin> JStr ` set DEFAULT_PAYMENT_METHOD_TYPES)
        then raise (ValueError ''payment_method_data type'')
        else bind_io (client_create_payment pf amount currency desc return_url'
               [(''trace_id'', JStr tid), (''order_id'', JStr order_id),
                (''program_name'', JStr ''payment_confirmation'')]
               receipt confirmation_type payment_method_data) (\<lambda>data.
             payment_created pf order_id amount currency tid data))"

section \<open>Verification\<close>

text \<open>The lookups of the service catch every exception of the query.\<close>

definition find_payment :: "string \<Rightarrow> (world, payment_row option) io" where
  "find_payment provider_id =
     catch_io (bind_io (get_by_provider_id provider_id) (\<lambda>p. ret (Some p))) (\<lambda>_. ret None)"

definition verify_amount :: "platform \<Rightarrow> json \<Rightarrow> payment_row \<Rightarrow> (world, bool) io" where
  "verify_amount pf remote_amount local =
     (case remote_amount of
        JObj a \<Rightarrow>
          (case parse_decimal (field_text pf ''value'' a) of
             None \<Rightarrow> ret False
           | Some charged \<Rightarrow>
               bind_io (lift_result (decimal_ne charged (pay_amount local))) (\<lambda>ne.
               ret (\<not> (ne \<or> field_text pf ''currency'' a \<noteq> pay_currency local))))
      | _ \<Rightarrow> ret False)"

definition verify_provider_payment :: "platform \<Rightarrow> string \<Rightarrow> string \<Rightarrow> (world, bool) io" where
  "verify_provider_payment pf provider_id expected_status =
     bind_io (client_get_payment pf provider_id) (\<lambda>data.
       case data of
         JObj remote \<Rightarrow>
           bind_io (with_session (find_payment provider_id)) (\<lambda>local.
             case local of
               None \<Rightarrow> ret False
             | Some p \<Rightarrow>
                 if field_text pf ''status'' remote \<noteq> expected_status then ret False
                 else if expected_status = ''succeeded'' \<and> json_get ''paid'' remote \<noteq> JBool True then ret False
                 else verify_amount pf (json_get ''amount'' remote) p)
       | _ \<Rightarrow> raise (AttributeError ''get''))"

section \<open>Confirmation and failure\<close>

definition skipped :: "string \<Rightarrow> ('s, 'e) TransitionResult" where
  "skipped r = \<lparr>success = False, new_state = None, rejected_event = None, reason = Some (Reason r)\<rparr>"

definition confirm_session ::
  "platform \<Rightarrow> uuid \<Rightarrow> string \<Rightarrow> (world, (OrderState, OrderEvent) TransitionResult) io" where
  "confirm_session pf order_id provider_id = with_session (
     bind_io (find_payment provider_id) (\<lambda>payment.
       case payment of
         None \<Rightarrow> ret (skipped ''Payment not found'')
       | Some p \<Rightarrow>
           if pay_state p = ''SUCCESS'' then ret (skipped ''Payment already confirmed'')
           else bind_io (PaymentRepository_write_state (pay_id p) ''SUCCESS'') (\<lambda>_.
                bind_io (OrderRepository_get_state order_id) (\<lambda>current_state.
                bind_io (run_simple_transition pf order_id OrderEvent.PAYMENT_CONFIRMED current_state) (\<lambda>result.
                bind_io commit (\<lambda>_. ret result))))))"

definition advance_to_cooking :: "platform \<Rightarrow> uuid \<Rightarrow> (world, unit) io" where
  "advance_to_cooking pf order_id =
     bind_io (notify_admin_order_state order_id OrderState.PAID) (\<lambda>_.
     bind_io (notify_staff_card order_id (Some OrderState.PAID) None None) (\<lambda>_.
     bind_io (transition_order pf order_id OrderEvent.START_COOKING) (\<lambda>cooking.
       if \<not> success cooking then ret ()
       else case new_state cooking of
              None \<Rightarrow> ret ()
            | Some s \<Rightarrow> notify_customer_order_state pf order_id (OrderState_value s))))"

definition confirm_payment ::
  "platform \<Rightarrow> uuid \<Rightarrow> string \<Rightarrow> string \<Rightarrow> (world, (OrderState, OrderEvent) TransitionResult) io" where
  "confirm_payment pf order_id provider_id tid =
     bind_io (check_and_record (tid @ '':payment_confirmation'')
                [(''provider_id'', JStr provider_id), (''order_id'', JStr order_id)]) (\<lambda>inserted.
       if \<not> inserted then ret (skipped ''Duplicate webhook event'')
       else bind_io (confirm_session pf order_id provider_id) (\<lambda>result.
            bind_io (if success result then advance_to_cooking pf order_id else ret ()) (\<lambda>_.
            ret result)))"

definition fail_session ::
  "platform \<Rightarrow> uuid \<Rightarrow> string \<Rightarrow> (world, (OrderState, OrderEvent) TransitionResult) io" where
  "fail_session pf order_id provider_id = with_session (
     bind_io (find_payment provider_id) (\<lambda>payment.
       case payment of
         None \<Rightarrow> ret (skipped ''Payment not found'')
       | Some p \<Rightarrow>
           if pay_state p = ''SUCCESS'' \<or> pay_state p = ''FAILED''
           then ret (skipped (''Payment already '' @ pay_state p))
           else bind_io (PaymentRepository_write_state (pay_id p) ''FAILED'') (\<lambda>_.
                bind_io (OrderRepository_get_state order_id) (\<lambda>current_state.
                bind_io (run_simple_transition pf order_id OrderEvent.PAYMENT_FAILED current_state) (\<lambda>result.
                bind_io commit (\<lambda>_. ret result))))))"

definition fail_payment ::
  "platform \<Rightarrow> uuid \<Rightarrow> string \<Rightarrow> string \<Rightarrow> (world, (OrderState, OrderEvent) TransitionResult) io" where
  "fail_payment pf order_id provider_id tid =
     bind_io (check_and_record (tid @ '':payment_failure'')
                [(''provider_id'', JStr provider_id), (''order_id'', JStr order_id)]) (\<lambda>inserted.
       if \<not> inserted then ret (skipped ''Duplicate webhook event'')
       else bind_io (fail_session pf order_id provider_id) (\<lambda>result.
            bind_io (if success result then notify_customer_order_state pf order_id ''PAYMENT_FAILED'' else ret ()) (\<lambda>_.
            ret result)))"

section \<open>Webhook\<close>

text \<open>The response: its status code; a body that is not JSON is None.\<close>

definition event_of_type :: "json \<Rightarrow> string option" where
  "event_of_type t =
     (if t = JStr ''payment.succeeded'' then Some ''succeeded''
      else if t = JStr ''payment.canceled'' then Some ''canceled'' else None)"

text \<open>From the lookup of the trace on: the payment is verified, then confirmed or failed.\<close>

definition resume_payment :: "platform \<Rightarrow> string \<Rightarrow> string \<Rightarrow> string \<Rightarrow> (world, nat) io" where
  "resume_payment pf expected_status tid provider_id =
     bind_io (get_by_trace_id tid) (\<lambda>event.
       case event of
         None \<Rightarrow> ret 200
       | Some e \<Rightarrow>
           bind_io (catch_io
              (bind_io (verify_provider_payment pf provider_id expected_status) (\<lambda>v. ret (Some v)))
              (\<lambda>x. case x of HTTPError _ \<Rightarrow> ret None | _ \<Rightarrow> raise x)) (\<lambda>verified.
             case verified of
               None \<Rightarrow> ret 502
             | Some v \<Rightarrow>
                 if \<not> v then ret 200
                 else bind_io (if expected_status = ''succeeded''
                               then confirm_payment pf (te_entity_id e) provider_id tid
                               else fail_payment pf (te_entity_id e) provider_id tid) (\<lambda>_.
                      ret 200)))"

definition yookassa_webhook :: "platform \<Rightarrow> json option \<Rightarrow> (world, nat) io" where
  "yookassa_webhook pf body =
     (case body of
        None \<Rightarrow> ret 200
      | Some (JObj b) \<Rightarrow>
          (case (case map_of b ''object'' of None \<Rightarrow> JObj [] | Some v \<Rightarrow> v) of
             JObj obj \<Rightarrow>
               (case (case map_of obj ''metadata'' of None \<Rightarrow> JObj [] | Some v \<Rightarrow> v) of
                  JObj metadata \<Rightarrow>
                    let raw_trace = (case map_of metadata ''trace_id'' of None \<Rightarrow> JStr [] | Some v \<Rightarrow> v);
                        payment_id = (case map_of obj ''id'' of None \<Rightarrow> JStr [] | Some v \<Rightarrow> v)
                    in (case event_of_type (json_get ''event'' b) of
                          None \<Rightarrow> ret 200
                        | Some expected_status \<Rightarrow>
                            if \<not> py_truthy raw_trace \<or> \<not> py_truthy payment_id then ret 200
                            else resume_payment pf expected_status (py_str (repr_of pf) raw_trace)
                                   (py_str (repr_of pf) payment_id))
                | _ \<Rightarrow> ret 200)
           | _ \<Rightarrow> ret 200)
      | Some _ \<Rightarrow> raise (AttributeError ''get''))"

section \<open>Lemmas\<close>

subsection \<open>The simple transition\<close>

lemma payment_program_simple:
  "payment_program ev s s' = build_simple_program (OrderEvent_value ev) (OrderState_value s) (OrderState_value s')"
  by (simp add: payment_program_def build_simple_program_def)

lemma run_simple_transition_run:
  assumes "vm_ok pf" "order_state_in (db w) oid = Some (OrderState_value s)"
  shows "run_simple_transition pf oid ev s w =
    (case map_of (ORDER_TRANSITIONS s) ev of
       None \<Rightarrow> (Inr (rejected ev (EventNotAllowed ev s)), w)
     | Some s' \<Rightarrow> (Inr (accepted s'), w\<lparr>db := set_order_state oid (OrderState_value s') (db w)\<rparr>))"
proof (cases "map_of (ORDER_TRANSITIONS s) ev")
  case None
  then show ?thesis by (simp add: run_simple_transition_def)
next
  case (Some s')
  obtain tr w' where run: "run_vm pf (build_vm pf) (payment_program ev s s') [(''order_id'', JStr oid)] w = (tr, w')"
    by fastforce
  have "trace_status tr = trace_status.SUCCESS \<and> w' = w\<lparr>db := set_order_state oid (OrderState_value s') (db w)\<rparr>"
    using run_vm_exec[OF assms(1) _ run] assms(2)
      transition_order_state_run[of "[(''order_id'', JStr oid), (''from_state'', JStr (OrderState_value s)),
         (''to_state'', JStr (OrderState_value s'))]" w oid "OrderState_value s" "OrderState_value s'"]
    unfolding payment_program_simple
    by (auto simp: build_simple_program_def forward_single vm_exec_iff build_vm_tools[OF assms(1)])
  then show ?thesis
    using Some run by (simp add: run_simple_transition_def run_program_def bind_io_apply)
qed

subsection \<open>Lookups\<close>

lemma find_payment_run:
  "find_payment provider_id w =
     (Inr (case rows_where (\<lambda>r. pay_provider_id r = provider_id) (payments (db w)) of [p] \<Rightarrow> Some p | _ \<Rightarrow> None), w)"
  by (simp add: find_payment_def get_by_provider_id_def catch_io_apply bind_io_apply split: list.splits)

lemma order_state_payment [simp]: "order_state_in (set_payment_state i st d) oid = order_state_in d oid"
  by (simp add: order_state_in_def set_payment_state_def)

lemma payments_order_state [simp]: "payments (set_order_state oid st d) = payments d"
  by (simp add: set_order_state_def)

lemma payments_set_payment [simp]:
  "payments (set_payment_state i st d) =
     update_where (\<lambda>r. pay_id r = i) (\<lambda>r. r\<lparr>pay_state := st\<rparr>) (payments d)"
  by (simp add: set_payment_state_def)

subsection \<open>The sessions\<close>

text \<open>What the session of a confirmation or a failure commits for a payment that is still open.\<close>

definition settle :: "uuid \<Rightarrow> string \<Rightarrow> uuid \<Rightarrow> OrderEvent \<Rightarrow> OrderState \<Rightarrow> database \<Rightarrow> database" where
  "settle i st oid ev s d =
     (let d1 = set_payment_state i st d in
      case map_of (ORDER_TRANSITIONS s) ev of
        None \<Rightarrow> d1
      | Some s' \<Rightarrow> set_order_state oid (OrderState_value s') d1)"

definition settle_result :: "OrderEvent \<Rightarrow> OrderState \<Rightarrow> (OrderState, OrderEvent) TransitionResult" where
  "settle_result ev s = (case map_of (ORDER_TRANSITIONS s) ev of
       None \<Rightarrow> rejected ev (EventNotAllowed ev s)
     | Some s' \<Rightarrow> accepted s')"

lemma confirm_session_run:
  assumes "vm_ok pf" "rows_where (\<lambda>r. pay_provider_id r = provider_id) (payments (committed w)) = [p]"
    "pay_state p \<noteq> ''SUCCESS''" "order_state_in (committed w) oid = Some (OrderState_value s)"
  shows "confirm_session pf oid provider_id w =
    (Inr (settle_result OrderEvent.PAYMENT_CONFIRMED s),
     (let d = settle (pay_id p) ''SUCCESS'' oid OrderEvent.PAYMENT_CONFIRMED s (committed w) in w\<lparr>db := d, committed := d\<rparr>))"
  using assms
  by (simp add: confirm_session_def with_session_apply bind_io_apply find_payment_run
      PaymentRepository_write_state_def OrderRepository_get_state_def select_order_state_def
      run_simple_transition_run settle_def settle_result_def Let_def split: option.splits)

lemma fail_session_run:
  assumes "vm_ok pf" "rows_where (\<lambda>r. pay_provider_id r = provider_id) (payments (committed w)) = [p]"
    "pay_state p \<noteq> ''SUCCESS''" "pay_state p \<noteq> ''FAILED''"
    "order_state_in (committed w) oid = Some (OrderState_value s)"
  shows "fail_session pf oid provider_id w =
    (Inr (settle_result OrderEvent.PAYMENT_FAILED s),
     (let d = settle (pay_id p) ''FAILED'' oid OrderEvent.PAYMENT_FAILED s (committed w) in w\<lparr>db := d, committed := d\<rparr>))"
  using assms
  by (simp add: fail_session_def with_session_apply bind_io_apply find_payment_run
      PaymentRepository_write_state_def OrderRepository_get_state_def select_order_state_def
      run_simple_transition_run settle_def settle_result_def Let_def split: option.splits)

lemma payment_session_effect:
  assumes "vm_ok pf" 
    "payment_session pf order_id amount currency provider_id w = (Inr x, w')"
  shows "\<exists>i amt s. numeric_12_2 amount = Inr amt
    \<and> payments (committed w') = payments (committed w) @
        [\<lparr>pay_id = i, pay_order_id = order_id, pay_provider_id = provider_id, pay_amount = amt,
          pay_currency = currency, pay_state = ''PENDING''\<rparr>]
    \<and> order_state_in (committed w) order_id = Some (OrderState_value s)
    \<and> order_state_in (committed w') order_id =
        Some (OrderState_value (if s = OrderState.CONFIRMED then OrderState.PAYMENT_PENDING else s))
    \<and> trace_log w' = trace_log w"
proof -
  obtain i amt w1 where w1: "numeric_12_2 amount = Inr amt"
      "PaymentRepository_create order_id amount currency provider_id ''PENDING'' (w\<lparr>db := committed w\<rparr>) = (Inr i, w1)"
      "trace_log w1 = trace_log w"
      "db w1 = (committed w)\<lparr>payments := payments (committed w) @
        [\<lparr>pay_id = i, pay_order_id = order_id, pay_provider_id = provider_id, pay_amount = amt,
          pay_currency = currency, pay_state = ''PENDING''\<rparr>]\<rparr>"
    using assms(2)
    by (auto simp: payment_session_def with_session_apply PaymentRepository_create_def bind_io_apply
         split: sum.splits prod.splits if_splits)
  have os: "order_state_in (db w1) j = order_state_in (committed w) j" for j
    using w1(4) by (simp add: order_state_in_def)
  obtain s where s: "OrderRepository_get_state order_id w1 = (Inr s, w1)"
    using assms(2) w1(2)
    by (auto simp: payment_session_def with_session_apply OrderRepository_get_state_def select_order_state_def bind_io_apply
         split: option.splits sum.splits prod.splits)
  then have st: "order_state_in (db w1) order_id = Some (OrderState_value s)"
    by (simp add: OrderRepository_get_state_Inr)
  have tgt: "map_of (ORDER_TRANSITIONS s) OrderEvent.REQUEST_PAYMENT =
     (if s = OrderState.CONFIRMED then Some OrderState.PAYMENT_PENDING else None)"
    by (cases s) auto
  have "w' = (let d = (if s = OrderState.CONFIRMED
       then set_order_state order_id (OrderState_value OrderState.PAYMENT_PENDING) (db w1) else db w1)
      in w1\<lparr>committed := d, db := d\<rparr>)"
    using assms(2) w1(2) s run_simple_transition_run[OF assms(1) st, of OrderEvent.REQUEST_PAYMENT]
    by (cases "s = OrderState.CONFIRMED") (auto simp: payment_session_def with_session_apply tgt)
  then have c: "committed w' = (if s = OrderState.CONFIRMED
       then set_order_state order_id (OrderState_value OrderState.PAYMENT_PENDING) (db w1) else db w1)"
    and tl: "trace_log w' = trace_log w"
    using w1(3) by (simp_all add: Let_def)
  have "order_state_in (committed w') order_id =
        Some (OrderState_value (if s = OrderState.CONFIRMED then OrderState.PAYMENT_PENDING else s))"
    unfolding c using st by (simp add: order_state_in_set)
  moreover have "payments (committed w') = payments (db w1)" unfolding c by simp
  moreover have "order_state_in (committed w) order_id = Some (OrderState_value s)" using os st by simp
  ultimately show ?thesis
    using w1(1,4) tl by (intro exI conjI) simp_all
qed

lemma payment_created_Inr:
  assumes "payment_created pf oid amount cur tid data w = (Inr res, w')"
  shows "payment_session pf oid amount cur (pi_payment_id res) w = (Inr (), w') \<and> pi_trace_id res = tid"
  using assms
  by (cases data) (auto simp: payment_created_def Let_def bind_io_Inr_iff split: option.splits prod.splits)

subsection \<open>Parts outside the payment service\<close>

text \<open>
  What neither the order programs nor the payment service write: the idempotency keys, on
  which the replay of a webhook rests, and the identities of the orders.
\<close>

locale outside_payments = outside_orders T for T :: "database \<Rightarrow> 'a" +
  assumes payments_ignored [simp]: "T (d\<lparr>payments := ps\<rparr>) = T d"
begin

lemma agree_simple:
  assumes "vm_ok pf"
  shows "keeps (agree T c) (run_simple_transition pf oid ev s)"
proof -
  have "keeps (agree T c) (run_program pf (build_vm pf) (payment_program ev s s') ctx)" for s' ctx
    by (rule agree_order_run[OF assms]) (simp add: payment_program_simple)
  then show ?thesis
    unfolding run_simple_transition_def by (intro agree_intros)
qed

lemma agree_find: "keeps (agree T c) (find_payment provider_id)"
  by (simp add: keeps_def find_payment_run)

lemma agree_payment_write: "keeps (agree T c) (PaymentRepository_write_state i st)"
  unfolding PaymentRepository_write_state_def by (rule agree_update) (simp add: set_payment_state_def)

lemma agree_payment_create: "keeps (agree T c) (PaymentRepository_create oid amount cur provider_id st)"
  unfolding PaymentRepository_create_def by (intro agree_intros agree_update) simp

lemma agree_confirm:
  assumes "vm_ok pf"
  shows "keeps (agree T c) (confirm_session pf oid provider_id)"
    "keeps (agree T c) (fail_session pf oid provider_id)"
    "keeps (agree T c) (advance_to_cooking pf oid)"
  unfolding confirm_session_def fail_session_def advance_to_cooking_def
  by (intro agree_intros agree_simple agree_find agree_payment_write agree_get_state
      agree_transition_order agree_quiet quiet_notify quiet_customer assms)+

lemma held_create_payment:
  assumes "vm_ok pf"
  shows "keeps (held T c) (create_payment pf oid amount cur desc url phone ct pmd)"
proof -
  have event: "keeps (held T c) (record_event oid dom ev s s' meta)" for dom ev s s' meta
    unfolding record_event_def by (intro keeps_bind held_basic) (simp add: keeps_def held_def)
  have session: "keeps (held T c) (payment_session pf oid amount cur provider_id)" for provider_id
    unfolding payment_session_def
    by (intro held_session agree_intros agree_payment_create agree_simple agree_get_state assms)
  have "keeps (held T c) (payment_created pf oid amount cur tid data)" for tid data
    unfolding payment_created_def
    by (auto simp: Let_def intro!: keeps_bind session split: json.splits option.splits prod.splits)
  then show ?thesis
    unfolding create_payment_def client_create_payment_def Let_def by (intro held_intros event)
qed

lemma held_transition_order:
  assumes "vm_ok pf"
  shows "keeps (held T c) (transition_order pf oid ev)"
proof (rule keepsI)
  fix w
  assume "held T c w"
  then show "held T c (snd (transition_order pf oid ev w))"
    using transition_order_frame[OF assms, of oid ev w] by (simp add: held_def prod_eq_iff)
qed

end

interpretation key_payments: outside_payments idempotency_keys
  by unfold_locales simp

interpretation attribution_payments: outside_payments attributions
  by unfold_locales (simp add: attributions_def)

end
