(* ===== verification/Payment_Properties.thy ===== *)
theory Payment_Properties
  imports Payment_Service Order_Properties
begin

text \<open>
  The properties of payments: what the provider must say before anything
  changes, what a confirmation and a failure commit, and that each notification
  acts once.
\<close>

section \<open>A shop whose provider answers\<close>

definition provider_url :: string where
  "provider_url = ''https://api.yookassa.ru/v3/payments''"

definition answer :: "string \<Rightarrow> string \<Rightarrow> string \<Rightarrow> json" where
  "answer i st v = JObj [(''id'', JStr i), (''status'', JStr st), (''paid'', JBool (st = ''succeeded'')),
     (''amount'', JObj [(''value'', JStr v), (''currency'', JStr ''RUB'')])]"

definition shop_platform :: platform where
  "shop_platform = ref_platform\<lparr>
     http_get := (\<lambda>u. if u = provider_url @ ''/yk-1'' then Inr (answer ''yk-1'' ''succeeded'' ''399.00'')
                      else Inl (HTTPError ''404'')),
     http_post := (\<lambda>u b. Inr (JObj [(''id'', JStr ''yk-2''),
        (''confirmation'', JObj [(''confirmation_url'', JStr ''https://pay'')])]))\<rparr>"

lemma vm_ok_shop [simp]: "vm_ok shop_platform"
  using vm_ok_ref by (simp add: vm_ok_def shop_platform_def)

definition notification :: "string \<Rightarrow> json" where
  "notification ev = JObj [(''event'', JStr ev),
     (''object'', JObj [(''id'', JStr ''yk-1''), (''metadata'', JObj [(''trace_id'', JStr ''tr'')])])]"

definition paying_world :: world where
  "paying_world = sample_world\<lparr>trace_log := [\<lparr>te_trace_id = ''tr'', te_entity_id = ''o-pending'',
     te_domain = ''orders'', te_event = ''PAYMENT_REQUESTED'', te_from_state = ''CONFIRMED'',
     te_to_state = ''PAYMENT_PENDING'', te_metadata = JObj []\<rparr>]\<rparr>"

section \<open>Shared facts\<close>

text \<open>
  What the provider and the payments table together say of a payment: exactly one
  local payment has the id, and the API reports it with the expected status,
  paid when it succeeded, over the recorded amount and currency.
\<close>

definition provider_confirms :: "platform \<Rightarrow> database \<Rightarrow> string \<Rightarrow> string \<Rightarrow> bool" where
  "provider_confirms pf d provider_id expected_status \<longleftrightarrow>
     (\<exists>remote a p.
        http_get pf (''https://api.yookassa.ru/v3/payments/'' @ provider_id) = Inr (JObj remote)
      \<and> rows_where (\<lambda>r. pay_provider_id r = provider_id) (payments d) = [p]
      \<and> field_text pf ''status'' remote = expected_status
      \<and> (expected_status = ''succeeded'' \<longrightarrow> json_get ''paid'' remote = JBool True)
      \<and> json_get ''amount'' remote = JObj a
      \<and> parse_decimal (field_text pf ''value'' a) = Some (Finite (pay_amount p))
      \<and> field_text pf ''currency'' a = pay_currency p)"

lemma decimal_ne_False: "decimal_ne x b = Inr False \<longleftrightarrow> x = Finite b"
  by (cases x) auto

lemma verify_amount_True:
  "verify_amount pf j p w = (Inr True, w') \<longleftrightarrow> w' = w \<and>
     (\<exists>a. j = JObj a \<and> parse_decimal (field_text pf ''value'' a) = Some (Finite (pay_amount p))
        \<and> field_text pf ''currency'' a = pay_currency p)"
  by (cases j)
     (auto simp: verify_amount_def bind_io_apply decimal_ne_False split: option.splits sum.splits)

lemma verify_amount_frame: "snd (verify_amount pf j p w) = w"
  by (auto simp: verify_amount_def bind_io_apply split: option.splits sum.splits json.splits)

lemma verify_frame: "committed (snd (verify_provider_payment pf pid st w)) = committed w"
  by (auto simp: verify_provider_payment_def client_get_payment_def bind_io_apply find_payment_run
      with_session_apply verify_amount_frame split: option.splits sum.splits json.splits prod.splits list.splits)

lemma verify_True:
  "fst (verify_provider_payment pf pid st w) = Inr True \<longleftrightarrow> provider_confirms pf (committed w) pid st"
proof (cases "http_get pf (''https://api.yookassa.ru/v3/payments/'' @ pid)")
  case (Inl e)
  then show ?thesis
    by (simp add: verify_provider_payment_def client_get_payment_def bind_io_apply provider_confirms_def)
next
  case (Inr data)
  show ?thesis
  proof (cases data)
    case (JObj remote)
    have am: "fst (verify_amount pf j p w') = Inr True \<longleftrightarrow>
       (\<exists>a. j = JObj a \<and> parse_decimal (field_text pf ''value'' a) = Some (Finite (pay_amount p))
        \<and> field_text pf ''currency'' a = pay_currency p)" for j p w'
      using verify_amount_True[of pf j p w' "w'"] verify_amount_frame[of pf j p w']
      by (metis prod.collapse fst_conv)
    show ?thesis
      using Inr JObj
      by (auto simp: verify_provider_payment_def client_get_payment_def bind_io_apply find_payment_run
          with_session_apply provider_confirms_def am split: list.splits option.splits)
  qed (use Inr in \<open>simp_all add: verify_provider_payment_def client_get_payment_def bind_io_apply provider_confirms_def\<close>)
qed

lemma confirm_keeps_keys:
  assumes "vm_ok pf"
  shows "keeps (agree idempotency_keys c)
      (bind_io (confirm_session pf oid pid) (\<lambda>result.
         bind_io (if success result then advance_to_cooking pf oid else ret ()) (\<lambda>_. ret result)))"
    "keeps (agree idempotency_keys c)
      (bind_io (fail_session pf oid pid) (\<lambda>result.
         bind_io (if success result then notify_customer_order_state pf oid x else ret ()) (\<lambda>_. ret result)))"
  by (intro agree_intros key_payments.agree_confirm agree_quiet quiet_customer assms)+

text \<open>After a call, whatever came of it, its key is recorded unless it is too long for the column.\<close>

lemma key_recorded_after:
  assumes "length k \<le> 256" "\<And>c. keeps (agree idempotency_keys c) m"
    and "bind_io (check_and_record k p) (\<lambda>inserted. if \<not> inserted then ret x else m) w = (r, w')"
  shows "key_recorded (committed w') k"
proof -
  obtain rc wc where c: "check_and_record k p w = (rc, wc)" by fastforce
  show ?thesis
  proof (rule check_and_record_cases[OF c])
    assume "rc = Inr True" and rec: "key_recorded (committed wc) k"
      and wc: "wc = w\<lparr>db := committed wc, committed := committed wc\<rparr>"
    moreover have "agree idempotency_keys (idempotency_keys (committed wc)) wc"
      by (subst wc) (simp add: agree_def)
    ultimately have "agree idempotency_keys (idempotency_keys (committed wc)) w'"
      using keepsD[OF assms(2)] assms(3) c by simp
    then show ?thesis using rec by (simp add: agree_def key_recorded_iff)
  qed (use assms(1,3) c in \<open>auto simp: bind_io_apply\<close>)
qed

lemma duplicate_skips:
  assumes "length k \<le> 256" "key_recorded (committed w) k"
  shows "bind_io (check_and_record k p) (\<lambda>inserted. if \<not> inserted then ret x else m) w
    = (Inr x, w\<lparr>db := committed w\<rparr>)"
  using check_and_record_again[OF assms(2,1)] by (simp add: bind_io_apply)

lemma webhook_shape:
  assumes "committed (snd (yookassa_webhook pf (Some (JObj b)) w)) \<noteq> committed w"
  obtains st obj metadata where "event_of_type (json_get ''event'' b) = Some st"
    "map_of b ''object'' = Some (JObj obj)" "map_of obj ''metadata'' = Some (JObj metadata)"
    "yookassa_webhook pf (Some (JObj b)) w =
       resume_payment pf st (field_text pf ''trace_id'' metadata) (field_text pf ''id'' obj) w"
proof -
  obtain obj where o: "map_of b ''object'' = Some (JObj obj)"
    using assms by (auto simp: yookassa_webhook_def Let_def split: option.splits json.splits)
  obtain metadata where m: "map_of obj ''metadata'' = Some (JObj metadata)"
    using assms o by (auto simp: yookassa_webhook_def Let_def split: option.splits json.splits)
  obtain st where st: "event_of_type (json_get ''event'' b) = Some st"
    using assms o m by (cases "event_of_type (json_get ''event'' b)") (simp_all add: yookassa_webhook_def Let_def)
  have "yookassa_webhook pf (Some (JObj b)) w =
       resume_payment pf st (field_text pf ''trace_id'' metadata) (field_text pf ''id'' obj) w"
    using assms o m st by (auto simp: yookassa_webhook_def Let_def field_text_def split: if_splits)
  then show thesis using that o m st by blast
qed

lemma resume_changes:
  assumes "committed (snd (resume_payment pf st tid pid w)) \<noteq> committed w"
  shows "\<exists>e. first_where (\<lambda>e. te_trace_id e = tid) (trace_log w) = Some e \<and> provider_confirms pf (committed w) pid st"
proof -
  obtain e where e: "first_where (\<lambda>e. te_trace_id e = tid) (trace_log w) = Some e"
    using assms by (cases "first_where (\<lambda>e. te_trace_id e = tid) (trace_log w)")
      (simp_all add: resume_payment_def get_by_trace_id_def)
  obtain v w1 where v: "verify_provider_payment pf pid st w = (v, w1)" by fastforce
  then have w1: "committed w1 = committed w" using verify_frame[of pf pid st w] by simp
  have "v = Inr True"
  proof (rule ccontr)
    assume "v \<noteq> Inr True"
    then have "v = Inr False \<or> (\<exists>x. v = Inl x)" by (cases v) auto
    then have "committed (snd (resume_payment pf st tid pid w)) = committed w"
      using e v w1
      by (auto simp: resume_payment_def get_by_trace_id_def bind_io_apply catch_io_apply split: exn.splits)
    then show False using assms by simp
  qed
  then show ?thesis using e v verify_True[of pf pid st w] by simp
qed

lemma cooking_target:
  "map_of (ORDER_TRANSITIONS s) OrderEvent.START_COOKING = Some s' \<Longrightarrow> s' = OrderState.COOKING"
  by (cases s) auto

lemma advance_to_cooking_effect:
  assumes "vm_ok pf" "order_state_in (committed w) oid = Some (OrderState_value OrderState.PAID)"
    "advance_to_cooking pf oid w = (r, w')"
  shows "payments (committed w') = payments (committed w)
    \<and> order_state_in (committed w') oid \<in> {Some ''PAID'', Some ''COOKING''}"
proof -
  obtain x1 w1 where 1: "notify_admin_order_state oid OrderState.PAID w = (Inr x1, w1)" "messages_only w w1"
    by (rule quietE[OF quiet_notify(3)])
  obtain x2 w2 where 2: "notify_staff_card oid (Some OrderState.PAID) None None w1 = (Inr x2, w2)" "messages_only w1 w2"
    by (rule quietE[OF quiet_notify(5)])
  have c2: "committed w2 = committed w"
    using messages_only_frame(2)[OF 1(2)] messages_only_frame(2)[OF 2(2)] by simp
  obtain r3 w3 where 3: "transition_order pf oid OrderEvent.START_COOKING w2 = (r3, w3)" by fastforce
  have pays: "payments (committed w3) = payments (committed w)"
    using pay_frame.transition_order_frame[OF assms(1) 3] c2 by simp
  have st: "order_state_in (committed w3) oid \<in> {Some ''PAID'', Some ''COOKING''}"
    by (rule transition_order_cases[OF assms(1) 3]) (use assms(2) c2 in \<open>auto dest!: cooking_target\<close>)
  have sent: "messages_only w3 v" if "notify_customer_order_state pf oid t w3 = (y, v)" for t y v
    using quietD[OF quiet_customer that] by blast
  have m: "messages_only w3 w'"
  proof (cases r3)
    case (Inl e)
    then show ?thesis using assms(3) 1(1) 2(1) 3 by (simp add: advance_to_cooking_def bind_io_apply)
  next
    case (Inr res)
    have run: "advance_to_cooking pf oid w =
      (if \<not> success res then ret () else case new_state res of None \<Rightarrow> ret ()
         | Some s \<Rightarrow> notify_customer_order_state pf oid (OrderState_value s)) w3"
      using 1(1) 2(1) 3 Inr by (simp add: advance_to_cooking_def del: ret_apply)
    then show ?thesis
      using assms(3) by (cases "success res"; cases "new_state res") (auto intro: sent[OF sym])
  qed
  then show ?thesis
    using pays st messages_only_frame(2)[OF m] by simp
qed

section \<open>Properties\<close>

text \<open>C3. The webhook trusts nothing but the provider: it changes the database only when the
  notification names a recorded trace and the provider's own API, re-read at
  that moment, reports the payment with the status of the notification, paid,
  and over exactly the amount and currency recorded locally.\<close>

theorem webhook_changes_only_verified:
  assumes "committed (snd (yookassa_webhook pf (Some (JObj b)) w)) \<noteq> committed w"
  shows "\<exists>st e obj metadata.
      event_of_type (json_get ''event'' b) = Some st
    \<and> map_of b ''object'' = Some (JObj obj) \<and> map_of obj ''metadata'' = Some (JObj metadata)
    \<and> first_where (\<lambda>e. te_trace_id e = field_text pf ''trace_id'' metadata) (trace_log w) = Some e
    \<and> provider_confirms pf (committed w) (field_text pf ''id'' obj) st"
proof (rule webhook_shape[OF assms])
  fix st obj metadata
  assume "yookassa_webhook pf (Some (JObj b)) w =
       resume_payment pf st (field_text pf ''trace_id'' metadata) (field_text pf ''id'' obj) w"
    and "event_of_type (json_get ''event'' b) = Some st" "map_of b ''object'' = Some (JObj obj)"
    "map_of obj ''metadata'' = Some (JObj metadata)"
  then show ?thesis using resume_changes assms by metis
qed

lemma webhook_changes_only_verified_witness:
  "provider_confirms shop_platform (committed paying_world) ''yk-1'' ''succeeded''"
proof -
  let ?b = "case notification ''payment.succeeded'' of JObj b \<Rightarrow> b | _ \<Rightarrow> []"
  have "order_state_in (committed (snd (yookassa_webhook shop_platform (Some (JObj ?b)) paying_world))) ''o-pending''
      \<noteq> order_state_in (committed paying_world) ''o-pending''"
    by code_simp
  then have "committed (snd (yookassa_webhook shop_platform (Some (JObj ?b)) paying_world)) \<noteq> committed paying_world"
    by metis
  from webhook_changes_only_verified[OF this] show ?thesis
    by (auto simp: notification_def event_of_type_def field_text_def)
qed

text \<open>C7. A notification confirms at most once: after a call of confirm_payment, whatever came of
  it, every further call with the same trace id is answered as a duplicate and
  leaves the database alone, whichever order or payment it names.\<close>

theorem confirm_payment_once:
  assumes "vm_ok pf" "length tid \<le> 235" "confirm_payment pf oid pid tid w = (r, w')"
    "confirm_payment pf oid2 pid2 tid w' = (r2, w2)"
  shows "r2 = Inr (skipped ''Duplicate webhook event'') \<and> committed w2 = committed w'"
proof -
  let ?k = "tid @ '':payment_confirmation''"
  have k: "length ?k \<le> 256" using assms(2) by simp
  have "key_recorded (committed w') ?k"
    by (rule key_recorded_after[OF k confirm_keeps_keys(1)[OF assms(1)] assms(3)[unfolded confirm_payment_def]])
  then have "confirm_payment pf oid2 pid2 tid w' = (Inr (skipped ''Duplicate webhook event''), w'\<lparr>db := committed w'\<rparr>)"
    unfolding confirm_payment_def by (rule duplicate_skips[OF k])
  then show ?thesis using assms(4) by simp
qed

lemma confirm_payment_once_witness:
  "let w1 = snd (confirm_payment shop_platform ''o-pending'' ''yk-1'' ''tr'' paying_world) in
     order_state_in (committed w1) ''o-pending'' = Some ''COOKING''
     \<and> fst (confirm_payment shop_platform ''o-pending'' ''yk-1'' ''tr'' w1) = Inr (skipped ''Duplicate webhook event'')"
proof -
  let ?w = "snd (confirm_payment shop_platform ''o-pending'' ''yk-1'' ''tr'' paying_world)"
  have "order_state_in (committed ?w) ''o-pending'' = Some ''COOKING''" by code_simp
  then show ?thesis
    using confirm_payment_once[OF vm_ok_shop, of "''tr''" "''o-pending''" "''yk-1''" paying_world _ ?w
        "''o-pending''" "''yk-1''"]
    by (simp add: prod_eq_iff)
qed

text \<open>C32. Confirming the open payment of an order that waits for it succeeds: the payment is
  SUCCESS and no other payment changes, the order is PAID or already COOKING.\<close>

theorem confirm_payment_effect:
  assumes "vm_ok pf" "length tid \<le> 235" "\<not> key_recorded (committed w) (tid @ '':payment_confirmation'')"
    "rows_where (\<lambda>r. pay_provider_id r = pid) (payments (committed w)) = [p]" "pay_state p \<noteq> ''SUCCESS''"
    "order_state_in (committed w) oid = Some (OrderState_value OrderState.PAYMENT_PENDING)"
    "confirm_payment pf oid pid tid w = (Inr res, w')"
  shows "res = accepted OrderState.PAID
    \<and> payments (committed w') = payments (set_payment_state (pay_id p) ''SUCCESS'' (committed w))
    \<and> order_state_in (committed w') oid \<in> {Some ''PAID'', Some ''COOKING''}"
proof -
  let ?k = "tid @ '':payment_confirmation''"
  obtain w1 where chk: "check_and_record ?k [(''provider_id'', JStr pid), (''order_id'', JStr oid)] w = (Inr True, w1)"
      and w1: "payments (committed w1) = payments (committed w)" "orders (committed w1) = orders (committed w)"
    using check_and_record_first[OF assms(3), of "[(''provider_id'', JStr pid), (''order_id'', JStr oid)]"] assms(2)
    by (simp add: Let_def)
  have od: "order_state_in (committed w1) oid = Some (OrderState_value OrderState.PAYMENT_PENDING)"
    using assms(6) w1(2) by (simp add: order_state_in_def)
  obtain w2 where ses: "confirm_session pf oid pid w1 = (Inr (accepted OrderState.PAID), w2)"
      and c2: "payments (committed w2) = payments (set_payment_state (pay_id p) ''SUCCESS'' (committed w))"
        "order_state_in (committed w2) oid = Some (OrderState_value OrderState.PAID)"
    using confirm_session_run[OF assms(1) _ assms(5) od, of pid] assms(4) w1 od
    by (simp add: settle_def settle_result_def Let_def order_state_in_set)
  obtain r3 w3 where adv: "advance_to_cooking pf oid w2 = (r3, w3)" by fastforce
  have "res = accepted OrderState.PAID" "w' = w3"
    using assms(7) chk ses adv by (auto simp: confirm_payment_def bind_io_apply split: sum.splits)
  then show ?thesis
    using advance_to_cooking_effect[OF assms(1) c2(2) adv] c2(1) by simp
qed

lemma confirm_payment_effect_witness:
  "let w' = snd (confirm_payment shop_platform ''o-pending'' ''yk-1'' ''tr'' paying_world) in
     map pay_state (payments (committed w')) = [''SUCCESS'']"
proof -
  let ?t = "confirm_payment shop_platform ''o-pending'' ''yk-1'' ''tr'' paying_world"
  let ?p = "\<lparr>pay_id = ''p1'', pay_order_id = ''o-pending'', pay_provider_id = ''yk-1'',
              pay_amount = 399, pay_currency = ''RUB'', pay_state = ''PENDING''\<rparr>"
  have k: "\<not> key_recorded (committed paying_world) (''tr'' @ '':payment_confirmation'')" by code_simp
  have p: "rows_where (\<lambda>r. pay_provider_id r = ''yk-1'') (payments (committed paying_world)) = [?p]" by code_simp
  have o: "order_state_in (committed paying_world) ''o-pending'' = Some (OrderState_value OrderState.PAYMENT_PENDING)"
    by code_simp
  have "fst ?t = Inr (accepted OrderState.PAID)" by code_simp
  then have t: "?t = (Inr (accepted OrderState.PAID), snd ?t)" by (simp add: prod_eq_iff)
  have after: "map pay_state (payments (set_payment_state ''p1'' ''SUCCESS'' (committed paying_world))) = [''SUCCESS'']"
    by code_simp
  show ?thesis
    using confirm_payment_effect[OF vm_ok_shop _ k p _ o t] after by simp
qed

text \<open>A payment the provider cancels sends its order back to CONFIRMED, from where a new
  payment can be requested; the payment is FAILED and no other payment changes.\<close>

theorem fail_payment_effect:
  assumes "vm_ok pf" "length tid \<le> 235" "\<not> key_recorded (committed w) (tid @ '':payment_failure'')"
    "rows_where (\<lambda>r. pay_provider_id r = pid) (payments (committed w)) = [p]"
    "pay_state p \<noteq> ''SUCCESS''" "pay_state p \<noteq> ''FAILED''"
    "order_state_in (committed w) oid = Some (OrderState_value OrderState.PAYMENT_PENDING)"
  shows "fst (fail_payment pf oid pid tid w) = Inr (accepted OrderState.CONFIRMED)
    \<and> payments (committed (snd (fail_payment pf oid pid tid w))) =
        payments (set_payment_state (pay_id p) ''FAILED'' (committed w))
    \<and> order_state_in (committed (snd (fail_payment pf oid pid tid w))) oid = Some ''CONFIRMED''"
proof -
  let ?k = "tid @ '':payment_failure''"
  obtain w1 where chk: "check_and_record ?k [(''provider_id'', JStr pid), (''order_id'', JStr oid)] w = (Inr True, w1)"
      and w1: "payments (committed w1) = payments (committed w)" "orders (committed w1) = orders (committed w)"
    using check_and_record_first[OF assms(3), of "[(''provider_id'', JStr pid), (''order_id'', JStr oid)]"] assms(2)
    by (simp add: Let_def)
  have od: "order_state_in (committed w1) oid = Some (OrderState_value OrderState.PAYMENT_PENDING)"
    using assms(7) w1(2) by (simp add: order_state_in_def)
  obtain w2 where ses: "fail_session pf oid pid w1 = (Inr (accepted OrderState.CONFIRMED), w2)"
      and c2: "payments (committed w2) = payments (set_payment_state (pay_id p) ''FAILED'' (committed w))"
        "order_state_in (committed w2) oid = Some (OrderState_value OrderState.CONFIRMED)"
    using fail_session_run[OF assms(1) _ assms(5,6) od, of pid] assms(4) w1 od
    by (simp add: settle_def settle_result_def Let_def order_state_in_set)
  obtain x w3 where sent: "notify_customer_order_state pf oid ''PAYMENT_FAILED'' w2 = (Inr x, w3)" "messages_only w2 w3"
    by (rule quietE[OF quiet_customer])
  have "fail_payment pf oid pid tid w = (Inr (accepted OrderState.CONFIRMED), w3)"
    using chk ses sent(1) by (simp add: fail_payment_def bind_io_apply)
  then show ?thesis using c2 messages_only_frame(2)[OF sent(2)] by simp
qed

lemma fail_payment_effect_witness:
  "order_state_in (committed (snd (fail_payment shop_platform ''o-pending'' ''yk-1'' ''tr'' paying_world))) ''o-pending''
     = Some ''CONFIRMED''"
proof -
  let ?p = "\<lparr>pay_id = ''p1'', pay_order_id = ''o-pending'', pay_provider_id = ''yk-1'',
              pay_amount = 399, pay_currency = ''RUB'', pay_state = ''PENDING''\<rparr>"
  have k: "\<not> key_recorded (committed paying_world) (''tr'' @ '':payment_failure'')" by code_simp
  have p: "rows_where (\<lambda>r. pay_provider_id r = ''yk-1'') (payments (committed paying_world)) = [?p]" by code_simp
  have o: "order_state_in (committed paying_world) ''o-pending'' = Some (OrderState_value OrderState.PAYMENT_PENDING)"
    by code_simp
  show ?thesis
    using fail_payment_effect[OF vm_ok_shop _ k p _ _ o] by simp
qed

text \<open>A payment that was created can be confirmed later: it is stored as PENDING with the id of the
  provider and the amount in two decimals, the order is waiting for payment
  (it moves there from CONFIRMED and otherwise keeps its state), and the trace id
  sent to the provider leads back to the order.\<close>

theorem create_payment_effect:
  assumes "vm_ok pf"
    "create_payment pf oid amount cur desc url phone ct pmd w = (Inr res, w')"
  shows "\<exists>i amt s. numeric_12_2 amount = Inr amt
    \<and> payments (committed w') = payments (committed w) @
        [\<lparr>pay_id = i, pay_order_id = oid, pay_provider_id = pi_payment_id res, pay_amount = amt,
          pay_currency = cur, pay_state = ''PENDING''\<rparr>]
    \<and> order_state_in (committed w) oid = Some (OrderState_value s)
    \<and> order_state_in (committed w') oid =
        Some (OrderState_value (if s = OrderState.CONFIRMED then OrderState.PAYMENT_PENDING else s))
    \<and> (pi_trace_id res \<notin> te_trace_id ` set (trace_log w) \<longrightarrow>
         map_option te_entity_id (first_where (\<lambda>e. te_trace_id e = pi_trace_id res) (trace_log w')) = Some oid)"
proof -
  define tid where "tid = uuids w (uuid_next w)"
  define e where "e = \<lparr>te_trace_id = tid, te_entity_id = oid, te_domain = ''orders'', te_event = ''PAYMENT_REQUESTED'',
     te_from_state = OrderState_value OrderState.CONFIRMED, te_to_state = OrderState_value OrderState.PAYMENT_PENDING,
     te_metadata = JObj [(''amount'', JStr (repr_of pf (JFloat amount))), (''currency'', JStr cur)]\<rparr>"
  obtain data w1 where made: "payment_created pf oid amount cur tid data w1 = (Inr res, w')"
      "committed w1 = committed w" "trace_log w1 = trace_log w @ [e]"
    using assms(2)
    by (auto simp: create_payment_def record_event_def bind_io_Inr_iff client_create_payment_def Let_def
        tid_def e_def split: if_splits)
  note w1 = conjunct1[OF payment_created_Inr[OF made(1)]] made(2,3) conjunct2[OF payment_created_Inr[OF made(1)]]
  have "map_option te_entity_id (first_where (\<lambda>e. te_trace_id e = tid) (trace_log w @ [e])) = Some oid"
    if "tid \<notin> te_trace_id ` set (trace_log w)"
    using that by (simp add: first_where_append first_where_key_None[of te_trace_id, THEN iffD2] e_def)
  then show ?thesis
    using payment_session_effect[OF assms(1) w1(1)] w1(2-) by metis
qed

text \<open>The amount of a payment survives the trip: for whole kopecks, what is written to the
  provider as text and echoed back is accepted against what the NUMERIC column
  stored for the same amount.\<close>

theorem amount_echo_verifies:
  assumes "0 \<le> m" "m < 10 ^ 12" "numeric_12_2 (of_int m / 100) = Inr (pay_amount p)"
  shows "verify_amount pf (JObj [(''value'', JStr (fixed2 (of_int m / 100))), (''currency'', JStr (pay_currency p))]) p w
    = (Inr True, w)"
proof -
  have "pay_amount p = of_int m / 100" using assms(3) numeric_12_2_kopecks[OF assms(1,2)] by simp
  then show ?thesis
    using parse_fixed2[OF assms(1)] by (simp add: verify_amount_True field_text_def)
qed

lemma amount_echo_verifies_witness:
  "verify_amount shop_platform (JObj [(''value'', JStr ''399.00''), (''currency'', JStr ''RUB'')])
     \<lparr>pay_id = ''p1'', pay_order_id = ''o-pending'', pay_provider_id = ''yk-1'',
      pay_amount = 399, pay_currency = ''RUB'', pay_state = ''PENDING''\<rparr> sample_world = (Inr True, sample_world)"
proof -
  have "numeric_12_2 (of_int 39900 / 100) = Inr 399" "fixed2 (of_int 39900 / 100) = ''399.00''" by code_simp+
  then show ?thesis
    using amount_echo_verifies[of 39900 "\<lparr>pay_id = ''p1'', pay_order_id = ''o-pending'', pay_provider_id = ''yk-1'',
      pay_amount = 399, pay_currency = ''RUB'', pay_state = ''PENDING''\<rparr>" shop_platform sample_world] by simp
qed

section \<open>Payments and orders that do not belong together\<close>

text \<open>The verification compares a payment with its own record; nothing compares the
  payment's order with the order of the trace. A paid payment of one order
  confirms another one.
\<close>

theorem wrong_order_paid:
  "let w = paying_world\<lparr>trace_log := [\<lparr>te_trace_id = ''tr'', te_entity_id = ''o-other'', te_domain = ''orders'',
             te_event = ''PAYMENT_REQUESTED'', te_from_state = ''CONFIRMED'', te_to_state = ''PAYMENT_PENDING'',
             te_metadata = JObj []\<rparr>],
           committed := sample_db\<lparr>orders := orders sample_db @ [sample_order ''o-other'' OrderState.PAYMENT_PENDING]\<rparr>\<rparr>;
       w' = snd (yookassa_webhook shop_platform (Some (notification ''payment.succeeded'')) w)
   in map pay_order_id (payments (committed w')) = [''o-pending''] \<and> map pay_state (payments (committed w')) = [''SUCCESS'']
      \<and> order_state_in (committed w') ''o-other'' = Some ''COOKING''
      \<and> order_state_in (committed w') ''o-pending'' = Some ''PAYMENT_PENDING''"
  by code_simp

text \<open>A payment that has FAILED is not refused: it becomes SUCCESS while its order stays unpaid.\<close>

theorem failed_payment_confirmed:
  "let w1 = snd (fail_payment shop_platform ''o-pending'' ''yk-1'' ''tr'' paying_world);
       (r, w2) = confirm_payment shop_platform ''o-pending'' ''yk-1'' ''tr'' w1
   in map pay_state (payments (committed w1)) = [''FAILED'']
      \<and> r = Inr (rejected OrderEvent.PAYMENT_CONFIRMED (EventNotAllowed OrderEvent.PAYMENT_CONFIRMED OrderState.CONFIRMED))
      \<and> map pay_state (payments (committed w2)) = [''SUCCESS'']
      \<and> order_state_in (committed w2) ''o-pending'' = Some ''CONFIRMED''"
  by code_simp

end
