(* ===== verification/Pricing.thy ===== *)
theory Pricing
  imports Order_Service Float64
begin

text \<open>
  Money of a checkout (app/services/order_service.py): the effect of a promotion
  code, the server-side total, and the price snapshot of the items.
\<close>

section \<open>Promotions\<close>

record PromoEffect =
  pe_promotion_id :: uuid
  pe_applied_code :: string
  pe_discount_rub :: int
  pe_free_delivery :: bool

text \<open>int() of a rational value: truncation towards zero.\<close>

definition trunc :: "rat \<Rightarrow> int" where
  "trunc r = (if r < 0 then - \<lfloor>- r\<rfloor> else \<lfloor>r\<rfloor>)"

text \<open>\<open>int(goods_total * float(discount_val) / 100)\<close>.\<close>

definition percent_of :: "int \<Rightarrow> rat \<Rightarrow> int" where
  "percent_of goods_total discount_val =
     trunc (round64 (round64 (round64 (of_int goods_total) * round64 discount_val) / 100))"

definition active_promotions :: "platform \<Rightarrow> database \<Rightarrow> string \<Rightarrow> promotion_row list" where
  "active_promotions pf d pcode =
     rows_where (\<lambda>r. map_option (db_lower pf) (pr_trigger_code r) = Some (db_lower pf pcode)
                   \<and> pr_state r = ''ACTIVE'') (promotions d)"

definition resolve_promo_effect ::
  "platform \<Rightarrow> string option \<Rightarrow> int \<Rightarrow> (world, PromoEffect option) io" where
  "resolve_promo_effect pf promo_code goods_total =
     (case promo_code of
        None \<Rightarrow> ret None
      | Some raw \<Rightarrow>
          let pcode = py_strip raw in
          if pcode = [] then ret None
          else bind_io (select_db (\<lambda>d. active_promotions pf d pcode)) (\<lambda>matches.
            case matches of
              [p] \<Rightarrow>
                if pr_effect_type p = ''PERCENT_DISCOUNT''
                then ret (Some \<lparr>pe_promotion_id = pr_id p, pe_applied_code = pcode,
                       pe_discount_rub = percent_of goods_total (pr_discount p), pe_free_delivery = False\<rparr>)
                else if pr_effect_type p = ''FIXED_AMOUNT''
                then ret (Some \<lparr>pe_promotion_id = pr_id p, pe_applied_code = pcode,
                       pe_discount_rub = min (trunc (pr_discount p)) goods_total, pe_free_delivery = False\<rparr>)
                else if pr_effect_type p = ''FREE_DELIVERY''
                then ret (Some \<lparr>pe_promotion_id = pr_id p, pe_applied_code = pcode,
                       pe_discount_rub = 0, pe_free_delivery = True\<rparr>)
                else ret None
            | _ \<Rightarrow> ret None))"

section \<open>Total\<close>

definition goods_total :: "OrderItem list \<Rightarrow> int" where
  "goods_total items = sum_list (map (\<lambda>it. oi_price_rub it * oi_qty it) items)"

definition compute_checkout_total ::
  "platform \<Rightarrow> OrderItem list \<Rightarrow> string \<Rightarrow> PromoEffect option \<Rightarrow> int option \<Rightarrow> int" where
  "compute_checkout_total pf items delivery_mode promo_effect delivery_fee =
     (let goods = (case promo_effect of
            None \<Rightarrow> goods_total items
          | Some e \<Rightarrow> max 0 (goods_total items - pe_discount_rub e))
      in if delivery_mode = ''pickup'' then goods
         else let fee = (case promo_effect of
                  Some e \<Rightarrow> if pe_free_delivery e then 0
                            else (case delivery_fee of Some f \<Rightarrow> f | None \<Rightarrow> DELIVERY_FEE (cfg pf))
                | None \<Rightarrow> (case delivery_fee of Some f \<Rightarrow> f | None \<Rightarrow> DELIVERY_FEE (cfg pf)))
              in goods + fee)"

section \<open>Price snapshot\<close>

text \<open>\<open>MenuService.get_product_snapshot\<close>: name and price of a product.\<close>

definition get_product_snapshot :: "uuid \<Rightarrow> (world, product_row option) io" where
  "get_product_snapshot product_id = with_session (
     select_db (\<lambda>d. first_where (\<lambda>r. p_id r = product_id) (products d)))"

definition resolve_checkout_item :: "CheckoutItem \<Rightarrow> (world, OrderItem) io" where
  "resolve_checkout_item ci =
     bind_io (get_product_snapshot (ci_product_id ci)) (\<lambda>snapshot.
       case snapshot of
         None \<Rightarrow> raise (ValueError ''product not found or has no price'')
       | Some p \<Rightarrow>
           (case p_price_rub p of
              None \<Rightarrow> raise (ValueError ''product not found or has no price'')
            | Some price \<Rightarrow> ret \<lparr>oi_product_id = p_id p, oi_name = p_name p, oi_price_rub = price, oi_qty = ci_qty ci\<rparr>))"

definition resolve_checkout_items :: "CheckoutItem list \<Rightarrow> (world, OrderItem list) io" where
  "resolve_checkout_items cart =
     fold_io (\<lambda>ci acc. bind_io (resolve_checkout_item ci) (\<lambda>it. ret (acc @ [it]))) cart []"

section \<open>Lemmas\<close>

lemma trunc_nonneg: "0 \<le> r \<Longrightarrow> trunc r = \<lfloor>r\<rfloor>"
  by (simp add: trunc_def)

lemma percent_of_bounds:
  assumes "0 \<le> g" "g * 100 \<le> 2 ^ 53" "0 \<le> d" "d \<le> 100"
  shows "0 \<le> percent_of g d" "percent_of g d \<le> g"
proof -
  have g: "round64 (of_int g) = of_int g" using assms by (intro round64_int) auto
  have d: "0 \<le> round64 d" "round64 d \<le> 100"
    using round64_nonneg[OF assms(3)] round64_le_int[OF assms(3), of 100] assms(4) by auto
  have "of_int g * round64 d \<le> of_int g * 100" using assms(1) d(2) by (intro mult_left_mono) auto
  then have p: "0 \<le> round64 (of_int g * round64 d)" "round64 (of_int g * round64 d) \<le> of_int (g * 100)"
    using round64_nonneg[of "of_int g * round64 d"] round64_le_int[of "of_int g * round64 d" "g * 100"] assms(1,2) d(1)
    by auto
  then have q: "0 \<le> round64 (round64 (of_int g * round64 d) / 100)"
      "round64 (round64 (of_int g * round64 d) / 100) \<le> of_int g"
    using round64_nonneg[of "round64 (of_int g * round64 d) / 100"]
      round64_le_int[of "round64 (of_int g * round64 d) / 100" g] assms(1,2) by auto
  have fl: "\<lfloor>round64 (round64 (of_int g * round64 d) / 100)\<rfloor> \<le> g"
    using q(2) by (simp add: floor_le_iff)
  show "0 \<le> percent_of g d" "percent_of g d \<le> g"
    using q fl unfolding percent_of_def g by (simp_all add: trunc_nonneg)
qed

text \<open>A promotion that the administration accepts: percent between 0 and 100, amounts not negative.\<close>

definition promotion_sane :: "promotion_row \<Rightarrow> bool" where
  "promotion_sane p \<longleftrightarrow> 0 \<le> pr_discount p \<and> (pr_effect_type p = ''PERCENT_DISCOUNT'' \<longrightarrow> pr_discount p \<le> 100)"

lemma promo_effect_bounds:
  assumes "0 \<le> g" "g * 100 \<le> 2 ^ 53" "\<forall>p \<in> set (promotions (db w)). promotion_sane p"
    "resolve_promo_effect pf pcode g w = (Inr (Some e), w')"
  shows "0 \<le> pe_discount_rub e" "pe_discount_rub e \<le> g"
proof -
  obtain p where p: "promotion_sane p"
    "(pr_effect_type p = ''PERCENT_DISCOUNT'' \<and> pe_discount_rub e = percent_of g (pr_discount p))
     \<or> (pe_discount_rub e = min (trunc (pr_discount p)) g) \<or> pe_discount_rub e = 0"
  proof -
    obtain c where c: "c \<noteq> []" "(case active_promotions pf (db w) c of
              [p] \<Rightarrow>
                if pr_effect_type p = ''PERCENT_DISCOUNT''
                then Some \<lparr>pe_promotion_id = pr_id p, pe_applied_code = c,
                       pe_discount_rub = percent_of g (pr_discount p), pe_free_delivery = False\<rparr>
                else if pr_effect_type p = ''FIXED_AMOUNT''
                then Some \<lparr>pe_promotion_id = pr_id p, pe_applied_code = c,
                       pe_discount_rub = min (trunc (pr_discount p)) g, pe_free_delivery = False\<rparr>
                else if pr_effect_type p = ''FREE_DELIVERY''
                then Some \<lparr>pe_promotion_id = pr_id p, pe_applied_code = c,
                       pe_discount_rub = 0, pe_free_delivery = True\<rparr>
                else None | _ \<Rightarrow> None) = Some e"
      using assms(4)
      by (auto simp: resolve_promo_effect_def Let_def bind_io_apply split: option.splits if_splits list.splits)
    then obtain p where m: "active_promotions pf (db w) c = [p]"
      by (auto split: list.splits)
    then have "p \<in> set (promotions (db w))"
      by (metis (no_types, lifting) active_promotions_def list.set_intros(1) mem_Collect_eq set_rows_where)
    then show thesis using that[of p] assms(3) c m by (auto split: if_splits)
  qed
  have t: "0 \<le> trunc (pr_discount p)" using p(1) by (simp add: promotion_sane_def trunc_nonneg)
  show "0 \<le> pe_discount_rub e" "pe_discount_rub e \<le> g"
    using p t assms(1) percent_of_bounds[OF assms(1,2)] by (auto simp: promotion_sane_def)
qed

lemma resolve_promo_frame: "snd (resolve_promo_effect pf pcode g w) = w"
  by (simp add: resolve_promo_effect_def Let_def bind_io_apply split: option.splits list.splits)

lemma compute_total_bounds:
  assumes "\<forall>it \<in> set items. 0 \<le> oi_price_rub it \<and> 0 \<le> oi_qty it"
    "0 \<le> DELIVERY_FEE (cfg pf)" "\<forall>f. fee = Some f \<longrightarrow> 0 \<le> f"
  shows "0 \<le> compute_checkout_total pf items mode e fee"
proof -
  have "0 \<le> goods_total items"
    unfolding goods_total_def using assms(1) by (intro sum_list_nonneg) auto
  then show ?thesis
    using assms(2,3) by (auto simp: compute_checkout_total_def Let_def split: option.splits)
qed

text \<open>The snapshot: names and prices of the products at this moment, in the order of the cart.\<close>

definition snapshot_of :: "product_row list \<Rightarrow> CheckoutItem \<Rightarrow> OrderItem option" where
  "snapshot_of ps ci = (case first_where (\<lambda>r. p_id r = ci_product_id ci) ps of
       None \<Rightarrow> None
     | Some p \<Rightarrow> map_option (\<lambda>price. \<lparr>oi_product_id = p_id p, oi_name = p_name p, oi_price_rub = price,
                  oi_qty = ci_qty ci\<rparr>) (p_price_rub p))"

lemma resolve_checkout_item_run:
  "resolve_checkout_item ci w =
     ((case snapshot_of (products (committed w)) ci of
         None \<Rightarrow> Inl (ValueError ''product not found or has no price'') | Some it \<Rightarrow> Inr it), w\<lparr>db := committed w\<rparr>)"
  by (simp add: resolve_checkout_item_def get_product_snapshot_def with_session_apply bind_io_apply
      snapshot_of_def split: option.splits)

lemma resolve_checkout_items_run:
  assumes "idle w"
  shows "resolve_checkout_items cart w =
     ((case those (map (snapshot_of (products (committed w))) cart) of
         None \<Rightarrow> Inl (ValueError ''product not found or has no price'') | Some its \<Rightarrow> Inr its), w)"
proof -
  have w: "w\<lparr>db := committed w\<rparr> = w" using assms by (cases w) (simp add: idle_def)
  have "fold_io (\<lambda>ci acc. bind_io (resolve_checkout_item ci) (\<lambda>it. ret (acc @ [it]))) cart acc w =
     ((case those (map (snapshot_of (products (committed w))) cart) of
         None \<Rightarrow> Inl (ValueError ''product not found or has no price'') | Some its \<Rightarrow> Inr (acc @ its)), w)" for acc
    by (induction cart arbitrary: acc)
       (auto simp: resolve_checkout_item_run bind_io_apply w split: option.splits)
  then show ?thesis by (simp add: resolve_checkout_items_def split: option.split)
qed

end
