(* ===== verification/Customer_Service.thy ===== *)
theory Customer_Service
  imports Idempotency Platform
begin

text \<open>
  Customers (app/services/customer_service.py): the canonical phone and the
  find-or-create lookup on the customers table, whose phone column is unique.
\<close>

section \<open>Phones\<close>

definition normalize_phone :: "string \<Rightarrow> string result" where
  "normalize_phone phone =
     (let digits = filter is_digit phone in
      if length digits = 11 \<and> (hd digits = CHR ''7'' \<or> hd digits = CHR ''8'')
      then Inr (''+7'' @ tl digits)
      else if length digits = 11
      then Inl (ValueError ''phone is not an RU number starting with 7 or 8'')
      else Inl (ValueError ''phone is not a valid 11-digit RU number''))"

section \<open>Find or create\<close>

definition find_by_phone :: "string \<Rightarrow> (world, customer_row option) io" where
  "find_by_phone canonical_phone = select_db (\<lambda>d. first_where (\<lambda>r. cu_phone r = canonical_phone) (customers d))"

definition create_customer :: "string \<Rightarrow> string \<Rightarrow> (world, customer_row) io" where
  "create_customer name canonical_phone =
     bind_io new_uuid (\<lambda>i.
     bind_io (select_db (\<lambda>d. first_where (\<lambda>r. cu_id r = i) (customers d) \<noteq> None)) (\<lambda>dup.
     bind_io (find_by_phone canonical_phone) (\<lambda>same.
       if length name > 255 then raise (DataError ''value too long'')
       else if dup then raise (IntegrityError ''customers_pkey'')
       else if same \<noteq> None then raise (IntegrityError ''uq_customers_phone'')
       else bind_io (gets_io (\<lambda>_. \<lparr>cu_id = i, cu_name = name, cu_phone = canonical_phone\<rparr>)) (\<lambda>row.
            bind_io (update_db (\<lambda>d. d\<lparr>customers := customers d @ [row]\<rparr>)) (\<lambda>_. ret row)))))"

definition find_or_create_by_phone :: "string \<Rightarrow> string \<Rightarrow> (world, customer_row) io" where
  "find_or_create_by_phone name phone =
     bind_io (lift_result (normalize_phone phone)) (\<lambda>canonical.
     with_session (
       bind_io (find_by_phone canonical) (\<lambda>existing.
         case existing of
           Some c \<Rightarrow> ret c
         | None \<Rightarrow>
             bind_io (create_customer name canonical) (\<lambda>created.
             bind_io commit (\<lambda>_. ret created)))))"

section \<open>Lemmas\<close>

text \<open>The canonical form: +7 and ten digits.\<close>

definition canonical_phone :: "string \<Rightarrow> bool" where
  "canonical_phone p \<longleftrightarrow> length p = 12 \<and> take 2 p = ''+7'' \<and> list_all is_digit (drop 2 p)"

lemma is_digit_chars [simp]: "\<not> is_digit CHR ''+''" "is_digit CHR ''7''" "is_digit CHR ''8''"
  by (simp_all add: is_digit_def code_def)

lemma normalize_phone_Inr:
  "normalize_phone s = Inr p \<longleftrightarrow>
     (\<exists>c t. filter is_digit s = c # t \<and> length t = 10 \<and> (c = CHR ''7'' \<or> c = CHR ''8'') \<and> p = ''+7'' @ t)"
  by (cases "filter is_digit s") (auto simp: normalize_phone_def Let_def)

lemma normalize_phone_canonical: "normalize_phone s = Inr p \<Longrightarrow> canonical_phone p"
proof -
  assume "normalize_phone s = Inr p"
  then obtain c t where t: "filter is_digit s = c # t" "length t = 10" "p = ''+7'' @ t"
    by (auto simp: normalize_phone_Inr)
  have "list_all is_digit (filter is_digit s)" by (simp add: list_all_iff)
  then show ?thesis using t by (simp add: canonical_phone_def)
qed

lemma normalize_phone_fixpoint: "canonical_phone p \<Longrightarrow> normalize_phone p = Inr p"
proof -
  assume p: "canonical_phone p"
  let ?t = "drop 2 p"
  have t: "p = ''+7'' @ ?t" "length ?t = 10" "list_all is_digit ?t"
    using p append_take_drop_id[of 2 p, symmetric] by (simp_all add: canonical_phone_def)
  have "filter is_digit p = CHR ''7'' # ?t"
    by (subst t(1)) (use t(3) in \<open>simp add: list_all_iff filter_True\<close>)
  then show ?thesis using t(1,2) by (simp add: normalize_phone_def Let_def)
qed

definition customers_ok :: "database \<Rightarrow> bool" where
  "customers_ok d \<longleftrightarrow> key_unique cu_phone (customers d) \<and> key_unique cu_id (customers d)
     \<and> (\<forall>r \<in> set (customers d). canonical_phone (cu_phone r))"

lemma create_customer_Inr:
  "create_customer name p w = (Inr c, w') \<longleftrightarrow>
     length name \<le> 255 \<and> c = \<lparr>cu_id = uuids w (uuid_next w), cu_name = name, cu_phone = p\<rparr>
     \<and> cu_id c \<notin> cu_id ` set (customers (db w)) \<and> p \<notin> cu_phone ` set (customers (db w))
     \<and> w' = w\<lparr>uuid_next := Suc (uuid_next w), db := (db w)\<lparr>customers := customers (db w) @ [c]\<rparr>\<rparr>"
  by (auto simp: create_customer_def find_by_phone_def bind_io_apply first_where_key_None)

lemma find_or_create_cases:
  assumes "find_or_create_by_phone name phone w = (Inr c, w')"
  shows "\<exists>p. normalize_phone phone = Inr p \<and> cu_phone c = p
    \<and> ((w' = w\<lparr>db := committed w\<rparr> \<and> first_where (\<lambda>r. cu_phone r = p) (customers (committed w)) = Some c)
      \<or> (first_where (\<lambda>r. cu_phone r = p) (customers (committed w)) = None
         \<and> cu_id c \<notin> cu_id ` set (customers (committed w))
         \<and> committed w' = (committed w)\<lparr>customers := customers (committed w) @ [c]\<rparr>))"
proof -
  obtain p where p: "normalize_phone phone = Inr p"
    using assms by (cases "normalize_phone phone") (auto simp: find_or_create_by_phone_def bind_io_apply)
  show ?thesis
  proof (cases "first_where (\<lambda>r. cu_phone r = p) (customers (committed w))")
    case (Some r)
    then show ?thesis
      using assms p first_where_Some[OF Some]
      by (auto simp: find_or_create_by_phone_def with_session_apply find_by_phone_def)
  next
    case None
    have "\<exists>w1. create_customer name p (w\<lparr>db := committed w\<rparr>) = (Inr c, w1) \<and> w' = w1\<lparr>committed := db w1, db := db w1\<rparr>"
      using assms p None
      by (auto simp: find_or_create_by_phone_def with_session_apply find_by_phone_def bind_io_Inr_iff
          split: prod.splits)
    then show ?thesis
      using p None by (auto simp: create_customer_Inr)
  qed
qed

end
