(* ===== verification/Webapp_Auth.thy ===== *)
theory Webapp_Auth
  imports Platform "HOL-Library.Char_ord" "HOL-Library.List_Lexorder" "HOL-Library.Multiset"
begin

text \<open>
  The signed launch data of the Mini Apps (app/services/max_webapp_auth.py): the
  raw key=value text is parsed here, its single hash must be the HMAC of all
  other pairs under a key derived from the bot token, and it must be fresh.
\<close>

section \<open>Text operations\<close>

fun split_on :: "char \<Rightarrow> string \<Rightarrow> string list" where
  "split_on c [] = [[]]"
| "split_on c (x # xs) =
     (if x = c then [] # split_on c xs
      else case split_on c xs of [] \<Rightarrow> [[x]] | y # ys \<Rightarrow> (x # y) # ys)"

text \<open>\<open>p.split("=", 1)\<close> of a text that contains the sign.\<close>

definition split_pair :: "string \<Rightarrow> string \<times> string" where
  "split_pair p = (takeWhile (\<lambda>c. c \<noteq> CHR ''='') p, tl (dropWhile (\<lambda>c. c \<noteq> CHR ''='') p))"

fun join_lines :: "string list \<Rightarrow> string" where
  "join_lines [] = []"
| "join_lines [x] = x"
| "join_lines (x # y # ys) = x @ CHR 0x0A # join_lines (y # ys)"

definition hex_digit :: "nat \<Rightarrow> char" where
  "hex_digit n = (if n < 10 then char_of (48 + n) else char_of (87 + n))"

definition hexdigest :: "string \<Rightarrow> string" where
  "hexdigest s = concat (map (\<lambda>c. [hex_digit (code c div 16), hex_digit (code c mod 16)]) s)"

section \<open>Validation\<close>

definition compute_secret_key :: "platform \<Rightarrow> string \<Rightarrow> string" where
  "compute_secret_key pf bot_token = hmac_sha256 pf ''WebAppData'' bot_token"

definition launch_pairs :: "string \<Rightarrow> (string \<times> string) list" where
  "launch_pairs data = map split_pair (filter (\<lambda>p. CHR ''='' \<in> set p) (split_on CHR ''&'' data))"

definition decoded_pairs :: "platform \<Rightarrow> (string \<times> string) list \<Rightarrow> (string \<times> string) list" where
  "decoded_pairs pf pairs =
     sort_key fst (map (\<lambda>(k, v). (k, url_unquote pf v)) (filter (\<lambda>(k, v). k \<noteq> ''hash'') pairs))"

definition launch_params :: "(string \<times> string) list \<Rightarrow> string" where
  "launch_params decoded = join_lines (map (\<lambda>(k, v). k @ ''='' @ v) decoded)"

text \<open>\<open>dict(decoded)[k]\<close>: the last pair of a key wins.\<close>

definition last_value :: "string \<Rightarrow> (string \<times> string) list \<Rightarrow> string option" where
  "last_value k kvs = map_of (rev kvs) k"

definition user_id_of :: "platform \<Rightarrow> string \<Rightarrow> int option" where
  "user_id_of pf user_raw = (case json_loads pf user_raw of
       Inr (JObj kvs) \<Rightarrow>
         (case map_of kvs ''id'' of
            None \<Rightarrow> None
          | Some v \<Rightarrow> (case py_int v of Inr n \<Rightarrow> Some n | Inl _ \<Rightarrow> None))
     | _ \<Rightarrow> None)"

definition validate_init_data :: "platform \<Rightarrow> int \<Rightarrow> string \<Rightarrow> string \<Rightarrow> int option" where
  "validate_init_data pf time web_app_data bot_token =
     (if bot_token = [] \<or> web_app_data = [] then None
      else let pairs = launch_pairs web_app_data;
               hashes = map snd (filter (\<lambda>(k, v). k = ''hash'') pairs)
           in case hashes of
                [original_hash] \<Rightarrow>
                  let decoded = decoded_pairs pf pairs;
                      computed_hash = hexdigest (hmac_sha256 pf (compute_secret_key pf bot_token) (launch_params decoded))
                  in if computed_hash \<noteq> original_hash then None
                     else (case last_value ''auth_date'' decoded of
                             None \<Rightarrow> None
                           | Some raw \<Rightarrow>
                               (case parse_int raw of
                                  Inl _ \<Rightarrow> None
                                | Inr auth_date \<Rightarrow>
                                    if time - auth_date > 86400 then None
                                    else (case last_value ''user'' decoded of
                                            None \<Rightarrow> None
                                          | Some user_raw \<Rightarrow>
                                              if user_raw = [] then None else user_id_of pf user_raw)))
              | _ \<Rightarrow> None)"

section \<open>Lemmas\<close>

text \<open>
  What the messenger signs: its pairs without the hash, decoded, one per line and in the order
  of their keys, under a key that only the holder of the bot token can make. A text is a signed launch
  of a user when its one hash is the signature of such lines, a date among
  them is within the last day, and a user among them has this id.
\<close>

definition signed_launch :: "platform \<Rightarrow> int \<Rightarrow> string \<Rightarrow> string \<Rightarrow> int \<Rightarrow> bool" where
  "signed_launch pf time data token uid \<longleftrightarrow>
     (\<exists>h shown date_raw date user_raw. token \<noteq> []
      \<and> filter (\<lambda>(k, v). k = ''hash'') (launch_pairs data) = [(''hash'', h)]
      \<and> mset shown = mset (map (\<lambda>(k, v). (k, url_unquote pf v)) (filter (\<lambda>(k, v). k \<noteq> ''hash'') (launch_pairs data)))
      \<and> sorted (map fst shown)
      \<and> h = hexdigest (hmac_sha256 pf (hmac_sha256 pf ''WebAppData'' token)
            (join_lines (map (\<lambda>(k, v). k @ ''='' @ v) shown)))
      \<and> (''auth_date'', date_raw) \<in> set shown \<and> parse_int date_raw = Inr date \<and> time - date \<le> 86400
      \<and> (''user'', user_raw) \<in> set shown \<and> user_id_of pf user_raw = Some uid)"

lemma hashes_single:
  "map snd (filter (\<lambda>(k, v). k = ''hash'') ps) = [h] \<longleftrightarrow> filter (\<lambda>(k, v). k = ''hash'') ps = [(''hash'', h)]"
proof
  assume a: "map snd (filter (\<lambda>(k, v). k = ''hash'') ps) = [h]"
  then obtain kv where kv: "filter (\<lambda>(k, v). k = ''hash'') ps = [kv]" "snd kv = h" by auto
  then have "kv \<in> set (filter (\<lambda>(k, v). k = ''hash'') ps)" by simp
  then have "fst kv = ''hash''" unfolding set_filter by (cases kv) simp
  then show "filter (\<lambda>(k, v). k = ''hash'') ps = [(''hash'', h)]" using kv by (cases kv) simp
qed simp

lemma launch_pairs_Nil [simp]: "launch_pairs [] = []"
  by (simp add: launch_pairs_def)

lemma last_value_in: "last_value k kvs = Some v \<Longrightarrow> (k, v) \<in> set kvs"
  unfolding last_value_def by (drule map_of_SomeD) simp

lemma validate_init_data_sound:
  assumes "validate_init_data pf time data token = Some uid"
  shows "signed_launch pf time data token uid"
proof -
  let ?shown = "decoded_pairs pf (launch_pairs data)"
  obtain h date_raw date user_raw where v: "token \<noteq> []"
      "map snd (filter (\<lambda>(k, v). k = ''hash'') (launch_pairs data)) = [h]"
      "hexdigest (hmac_sha256 pf (compute_secret_key pf token) (launch_params ?shown)) = h"
      "last_value ''auth_date'' ?shown = Some date_raw" "parse_int date_raw = Inr date" "time - date \<le> 86400"
      "last_value ''user'' ?shown = Some user_raw" "user_id_of pf user_raw = Some uid"
    using assms by (auto simp: validate_init_data_def Let_def split: if_splits list.splits option.splits sum.splits)
  have "mset ?shown = mset (map (\<lambda>(k, v). (k, url_unquote pf v)) (filter (\<lambda>(k, v). k \<noteq> ''hash'') (launch_pairs data)))"
    "sorted (map fst ?shown)"
    by (simp_all add: decoded_pairs_def)
  then show ?thesis
    unfolding signed_launch_def using v(1,3,5,6,8) hashes_single[THEN iffD1, OF v(2)] v(4,7)[THEN last_value_in]
    by (intro exI[of _ h] exI[of _ ?shown] exI[of _ date_raw] exI[of _ date] exI[of _ user_raw] conjI)
       (simp_all add: compute_secret_key_def launch_params_def)
qed

end
