(* ===== verification/Checkout.thy ===== *)
theory Checkout
  imports Pricing Customer_Service Payment_Service Webapp_Auth
begin

text \<open>
  The checkout route (app/api/routes/checkout.py): guards, verified channel
  identities, the idempotency key, pricing, the order, and the two payment paths.
  An HTTPException is the answer with its status code.
\<close>

section \<open>Requests and responses\<close>

record CheckoutHeaders =
  h_max_init_data :: "string option"
  h_zalo_access_token :: "string option"
  h_telegram_init_data :: "string option"

record CheckoutResponse =
  co_ok :: bool
  co_order_id :: string
  co_confirmation_token :: "string option"
  co_confirmation_url :: "string option"

definition text_or_none :: "string \<Rightarrow> string option" where
  "text_or_none s = (if s = [] then None else Some s)"

definition zone_by_id :: "uuid \<Rightarrow> (world, zone_row option) io" where
  "zone_by_id zone_id = with_session (select_db (\<lambda>d. first_where (\<lambda>r. z_id r = zone_id) (delivery_zones d)))"

section \<open>Steps of the route\<close>

definition IDEMPOTENCY_PREFIX :: string where
  "IDEMPOTENCY_PREFIX = ''checkout:''"

definition recover_idempotent_result :: "string \<Rightarrow> (world, CheckoutResponse option) io" where
  "recover_idempotent_result idem_key =
     bind_io (get_payload idem_key) (\<lambda>payload.
       case payload of
         None \<Rightarrow> ret None
       | Some kvs \<Rightarrow>
           (case json_get ''order_id'' kvs of
              JStr order_id \<Rightarrow>
                ret (Some \<lparr>co_ok = True, co_order_id = order_id,
                  co_confirmation_token = (case json_get ''confirmation_token'' kvs of JStr t \<Rightarrow> text_or_none t | _ \<Rightarrow> None),
                  co_confirmation_url = (case json_get ''confirmation_url'' kvs of JStr t \<Rightarrow> text_or_none t | _ \<Rightarrow> None)\<rparr>)
            | _ \<Rightarrow> ret None))"

definition checkout_guard :: "CheckoutRequest \<Rightarrow> (world, unit) io" where
  "checkout_guard body =
     (if cr_payment_method body \<notin> {''yookassa_sbp'', ''yookassa_sberbank'', ''cash''} then raise (HTTPException 400)
      else if cr_delivery_mode body \<noteq> ''pickup'' \<and> cr_zone_id body = None then raise (HTTPException 400)
      else if cr_items body = [] then raise (HTTPException 400)
      else ret ())"

definition verified_uid :: "platform \<Rightarrow> string option \<Rightarrow> string \<Rightarrow> (world, int option) io" where
  "verified_uid pf header token = (case header of
       Some data \<Rightarrow> if data = [] then ret None else gets_io (\<lambda>w. validate_init_data pf (now w) data token)
     | None \<Rightarrow> ret None)"

definition verified_zalo_uid :: "platform \<Rightarrow> string option \<Rightarrow> string option" where
  "verified_zalo_uid pf header = (case header of
       Some token \<Rightarrow>
         if token = [] then None
         else (case zalo_profile pf token of
                 Some (JObj kvs) \<Rightarrow> (let i = json_get ''id'' kvs in if py_truthy i then Some (py_str (repr_of pf) i) else None)
               | _ \<Rightarrow> None)
     | None \<Rightarrow> None)"

definition verified_body :: "platform \<Rightarrow> CheckoutHeaders \<Rightarrow> CheckoutRequest \<Rightarrow> (world, CheckoutRequest) io" where
  "verified_body pf hs body =
     bind_io (verified_uid pf (h_max_init_data hs) (MAX_BOT_TOKEN (cfg pf))) (\<lambda>max_uid.
     bind_io (verified_uid pf (h_telegram_init_data hs) (TELEGRAM_BOT_TOKEN (cfg pf))) (\<lambda>telegram_uid.
     ret (body\<lparr>cr_client_max_uid := max_uid, cr_client_zalo_uid := verified_zalo_uid pf (h_zalo_access_token hs),
               cr_client_telegram_uid := telegram_uid\<rparr>)))"

definition checkout_payload :: "CheckoutRequest \<Rightarrow> (string \<times> json) list" where
  "checkout_payload body =
     [(''phone'', JStr (cr_phone body)), (''payment_method'', JStr (cr_payment_method body)),
      (''item_count'', JInt (int (length (cr_items body))))]"

text \<open>From the customer to the stored order: nothing of the amount comes from the client.\<close>

definition place_order :: "platform \<Rightarrow> CheckoutRequest \<Rightarrow> (world, customer_row \<times> OrderRead \<times> int) io" where
  "place_order pf body =
     bind_io (find_or_create_by_phone (cr_name body) (cr_phone body)) (\<lambda>customer.
     bind_io (resolve_checkout_items (cr_items body)) (\<lambda>items.
     bind_io (with_session (resolve_promo_effect pf (cr_promo_code body) (goods_total items))) (\<lambda>promo_effect.
     bind_io (case cr_zone_id body of None \<Rightarrow> ret None | Some z \<Rightarrow> zone_by_id z) (\<lambda>zone.
     let total_rub = compute_checkout_total pf items (cr_delivery_mode body) promo_effect
                       (map_option z_delivery_fee_rub zone)
     in bind_io (create_order_from_checkout pf body (cu_id customer) items total_rub
                   (map_option pe_applied_code promo_effect)
                   (case promo_effect of None \<Rightarrow> 0 | Some e \<Rightarrow> pe_discount_rub e)) (\<lambda>order.
        ret (customer, order, total_rub))))))"

definition checkout_online ::
  "platform \<Rightarrow> CheckoutRequest \<Rightarrow> string \<Rightarrow> customer_row \<Rightarrow> OrderRead \<Rightarrow> int \<Rightarrow> (world, CheckoutResponse) io" where
  "checkout_online pf body idem_key customer order total_rub =
     bind_io (transition_order pf (or_id order) OrderEvent.CONFIRM) (\<lambda>_.
     bind_io (transition_order pf (or_id order) OrderEvent.REQUEST_PAYMENT) (\<lambda>_.
     bind_io (catch_io
        (create_payment pf (or_id order) (of_int total_rub) ''RUB'' (Some (''Order '' @ or_id order))
           (Some (YOOKASSA_RETURN_URL (cfg pf) @ ''?order_id='' @ or_id order)) (Some (cu_phone customer)) ''redirect''
           (Some [(''type'', JStr (if cr_payment_method body = ''yookassa_sbp'' then ''sbp'' else ''sberbank''))]))
        (\<lambda>e. case e of HTTPError _ \<Rightarrow> raise (HTTPException 502) | _ \<Rightarrow> raise e)) (\<lambda>payment.
     bind_io (update_payload idem_key (checkout_payload body @
        [(''order_id'', JStr (or_id order)), (''confirmation_token'', JStr (pi_confirmation_token payment)),
         (''confirmation_url'', JStr (pi_confirmation_url payment))])) (\<lambda>_.
     ret \<lparr>co_ok = True, co_order_id = or_id order,
          co_confirmation_token = text_or_none (pi_confirmation_token payment),
          co_confirmation_url = text_or_none (pi_confirmation_url payment)\<rparr>))))"

definition checkout_cash ::
  "platform \<Rightarrow> CheckoutRequest \<Rightarrow> string \<Rightarrow> OrderRead \<Rightarrow> (world, CheckoutResponse) io" where
  "checkout_cash pf body idem_key order =
     bind_io (transition_order pf (or_id order) OrderEvent.CONFIRM) (\<lambda>_.
     bind_io (notify_admin_order_state (or_id order) OrderState.CONFIRMED) (\<lambda>_.
     bind_io (notify_staff_card (or_id order) (Some OrderState.CONFIRMED) None None) (\<lambda>_.
     bind_io (transition_order pf (or_id order) OrderEvent.START_COOKING) (\<lambda>cooking.
     bind_io (if \<not> success cooking then ret ()
              else case new_state cooking of
                     None \<Rightarrow> ret ()
                   | Some s \<Rightarrow> notify_customer_order_state pf (or_id order) (OrderState_value s)) (\<lambda>_.
     bind_io (update_payload idem_key (checkout_payload body @ [(''order_id'', JStr (or_id order))])) (\<lambda>_.
     ret \<lparr>co_ok = True, co_order_id = or_id order, co_confirmation_token = None, co_confirmation_url = None\<rparr>))))))"

section \<open>The route\<close>

definition checkout :: "platform \<Rightarrow> CheckoutRequest \<Rightarrow> CheckoutHeaders \<Rightarrow> (world, CheckoutResponse) io" where
  "checkout pf request hs =
     bind_io (checkout_guard request) (\<lambda>_.
     bind_io (verified_body pf hs request) (\<lambda>body.
     let idem_key = IDEMPOTENCY_PREFIX @ cr_idempotency_key body in
     bind_io (check_and_record idem_key (checkout_payload body)) (\<lambda>inserted.
       if \<not> inserted
       then bind_io (recover_idempotent_result idem_key) (\<lambda>existing.
            case existing of Some r \<Rightarrow> ret r | None \<Rightarrow> raise (HTTPException 409))
       else bind_io (place_order pf body) (\<lambda>(customer, order, total_rub).
            if cr_payment_method body \<in> {''yookassa_sbp'', ''yookassa_sberbank''}
            then checkout_online pf body idem_key customer order total_rub
            else checkout_cash pf body idem_key order))))"

text \<open>The promo preview: nothing is written.\<close>

definition check_promo_code :: "platform \<Rightarrow> string \<Rightarrow> int \<Rightarrow> (world, bool \<times> int \<times> bool) io" where
  "check_promo_code pf pcode subtotal =
     bind_io (with_session (resolve_promo_effect pf (Some pcode) subtotal)) (\<lambda>effect.
       case effect of
         None \<Rightarrow> ret (False, 0, False)
       | Some e \<Rightarrow> ret (True, pe_discount_rub e, pe_free_delivery e))"

end
