(* ===== verification/Checkout_Properties.thy ===== *)
theory Checkout_Properties
  imports Checkout Samples
begin

text \<open>
  The properties of the checkout: what a repeated request gets, where the amount
  of an order comes from, who an order is attributed to, and the customer
  records.
\<close>

section \<open>Requests for evaluation\<close>

definition sample_request :: CheckoutRequest where
  "sample_request = \<lparr>cr_name = ''Ann'', cr_phone = ''8 (999) 123-45-67'', cr_address = Some ''Main st. 1'',
     cr_comment = None, cr_delivery_mode = ''delivery'', cr_delivery_slot = None, cr_delivery_date = None,
     cr_payment_method = ''cash'', cr_zone_id = Some ''z1'', cr_items = [\<lparr>ci_product_id = tea, ci_qty = 2\<rparr>],
     cr_idempotency_key = ''k1'', cr_client_max_uid = Some 13, cr_client_zalo_uid = None,
     cr_client_telegram_uid = None, cr_promo_code = None\<rparr>"

definition no_headers :: CheckoutHeaders where
  "no_headers = \<lparr>h_max_init_data = None, h_zalo_access_token = None, h_telegram_init_data = None\<rparr>"

section \<open>Shared facts\<close>

text \<open>The response rebuilt from a stored payload.\<close>

definition recovered :: "(string \<times> json) list \<Rightarrow> CheckoutResponse option" where
  "recovered kvs = (case json_get ''order_id'' kvs of
      JStr order_id \<Rightarrow> Some \<lparr>co_ok = True, co_order_id = order_id,
        co_confirmation_token = (case json_get ''confirmation_token'' kvs of JStr t \<Rightarrow> text_or_none t | _ \<Rightarrow> None),
        co_confirmation_url = (case json_get ''confirmation_url'' kvs of JStr t \<Rightarrow> text_or_none t | _ \<Rightarrow> None)\<rparr>
    | _ \<Rightarrow> None)"

lemma get_payload_world: "snd (get_payload k w) = w\<lparr>db := committed w\<rparr>"
  by (simp add: get_payload_def with_session_apply bind_io_apply)

lemma recover_run:
  assumes "fst (get_payload k w) = Inr p"
  shows "recover_idempotent_result k w = (Inr (Option.bind p recovered), w\<lparr>db := committed w\<rparr>)"
proof -
  have "get_payload k w = (Inr p, w\<lparr>db := committed w\<rparr>)"
    using assms get_payload_world by (metis prod.collapse)
  then show ?thesis
    by (simp add: recover_idempotent_result_def bind_io_apply recovered_def split: option.splits json.splits)
qed

lemma get_payload_Inr: "\<exists>p. fst (get_payload k w) = Inr p"
  by (simp add: get_payload_def with_session_apply bind_io_apply)

lemma get_payload_committed: "committed w' = committed w \<Longrightarrow> fst (get_payload k w') = fst (get_payload k w)"
  by (simp add: get_payload_def with_session_apply bind_io_apply)

lemma verified_uid_run: "verified_uid pf h t w = (Inr (case h of
     Some data \<Rightarrow> if data = [] then None else validate_init_data pf (now w) data t | None \<Rightarrow> None), w)"
  by (simp add: verified_uid_def split: option.splits)

lemma verified_body_run:
  "\<exists>b. verified_body pf hs body w = (Inr b, w) \<and> cr_idempotency_key b = cr_idempotency_key body
     \<and> cr_payment_method b = cr_payment_method body \<and> cr_items b = cr_items body
     \<and> checkout_payload b = checkout_payload body"
  by (simp add: verified_body_def verified_uid_run checkout_payload_def bind_io_apply)

lemma checkout_guard_cases: "checkout_guard body w = (Inr (), w) \<or> checkout_guard body w = (Inl (HTTPException 400), w)"
  by (simp add: checkout_guard_def)

lemma text_or_none_json:
  "(case JStr t of JStr s \<Rightarrow> text_or_none s | _ \<Rightarrow> None) = text_or_none t"
  by simp

text \<open>What both payment paths leave under the key gives their response back.\<close>

lemma paid_path_stored:
  assumes "checkout_online pf body k customer ord amt w = (Inr r, w')
     \<or> checkout_cash pf body k ord w = (Inr r, w')"
  shows "\<exists>w1 kvs. update_payload k kvs w1 = (Inr (), w') \<and> recovered kvs = Some r"
  using assms
proof
  assume "checkout_online pf body k customer ord amt w = (Inr r, w')"
  then obtain w1 u and p :: PaymentInitResult where "update_payload k (checkout_payload body @
        [(''order_id'', JStr (or_id ord)), (''confirmation_token'', JStr (pi_confirmation_token p)),
         (''confirmation_url'', JStr (pi_confirmation_url p))]) w1 = (Inr u, w')"
      "r = \<lparr>co_ok = True, co_order_id = or_id ord, co_confirmation_token = text_or_none (pi_confirmation_token p),
             co_confirmation_url = text_or_none (pi_confirmation_url p)\<rparr>"
    unfolding checkout_online_def by (simp only: bind_io_Inr_iff ret_apply prod.inject sum.inject) blast
  then show ?thesis by (auto simp: checkout_payload_def recovered_def intro!: exI)
next
  assume "checkout_cash pf body k ord w = (Inr r, w')"
  then obtain w1 u where "update_payload k (checkout_payload body @ [(''order_id'', JStr (or_id ord))]) w1 = (Inr u, w')"
      "r = \<lparr>co_ok = True, co_order_id = or_id ord, co_confirmation_token = None, co_confirmation_url = None\<rparr>"
    unfolding checkout_cash_def by (simp only: bind_io_Inr_iff ret_apply prod.inject sum.inject) blast
  then show ?thesis by (auto simp: checkout_payload_def recovered_def intro!: exI)
qed

lemma check_and_record_long: "check_and_record k p w = (Inr b, w') \<Longrightarrow> length k \<le> 256"
  by (rule check_and_record_cases) auto

lemma checkout_stored:
  assumes "checkout pf request hs w = (Inr r, w')"
  shows "let k = IDEMPOTENCY_PREFIX @ cr_idempotency_key request in
    checkout_guard request w = (Inr (), w) \<and> length k \<le> 256 \<and> key_recorded (committed w') k
    \<and> (\<exists>kvs. fst (get_payload k w') = Inr (Some kvs) \<and> recovered kvs = Some r)"
proof -
  let ?k = "IDEMPOTENCY_PREFIX @ cr_idempotency_key request"
  have g: "checkout_guard request w = (Inr (), w)"
    using assms checkout_guard_cases[of request w] by (auto simp: checkout_def)
  obtain b where b: "verified_body pf hs request w = (Inr b, w)" "cr_idempotency_key b = cr_idempotency_key request"
    using verified_body_run by blast
  obtain rc w1 where c: "check_and_record ?k (checkout_payload b) w = (rc, w1)" by fastforce
  have stored: "key_recorded (committed v) ?k" if "fst (get_payload ?k v) = Inr (Some kvs)" for v kvs
    using that by (auto simp: get_payload_def with_session_apply bind_io_apply key_recorded_def split: option.splits)
  have main: "length ?k \<le> 256 \<and> (\<exists>kvs. fst (get_payload ?k w') = Inr (Some kvs) \<and> recovered kvs = Some r)"
  proof (rule check_and_record_cases[OF c])
    fix e assume "rc = Inl e"
    then show ?thesis using assms g b c by (simp add: checkout_def Let_def)
  next
    assume rc: "rc = Inr False" "length ?k \<le> 256" "w1 = w\<lparr>db := committed w\<rparr>"
    obtain p where p: "fst (get_payload ?k w1) = Inr p" using get_payload_Inr by blast
    have "Option.bind p recovered = Some r \<and> committed w' = committed w1"
      using assms g b c rc(1) recover_run[OF p]
      by (auto simp: checkout_def Let_def bind_io_apply split: option.splits)
    then show ?thesis
      using p rc(2) get_payload_committed[of w' w1 ?k] by (cases p) auto
  next
    assume rc: "rc = Inr True" "length ?k \<le> 256"
    obtain customer ord amt w2 where "checkout_online pf b ?k customer ord amt w2 = (Inr r, w')
        \<or> checkout_cash pf b ?k ord w2 = (Inr r, w')"
      using assms g b c rc(1)
      by (auto simp: checkout_def Let_def bind_io_apply split: sum.splits prod.splits if_splits)
    from paid_path_stored[OF this] show ?thesis
      using update_get_payload[OF rc(2)] rc(2) by blast
  qed
  then show ?thesis using g stored by (auto simp: Let_def)
qed

text \<open>What a placed order stores.\<close>

lemma keeps_view:
  "keeps (\<lambda>w. db w = d \<and> committed w = c) (ret x)" "keeps (\<lambda>w. db w = d \<and> committed w = c) new_uuid"
  "keeps (\<lambda>w. db w = d \<and> committed w = c) (lift_result r)"
  by (simp_all add: keeps_def)

lemma coerce_view: "keeps (\<lambda>w. db w = d \<and> committed w = c) (coerce_items pf raws)"
proof -
  have "keeps (\<lambda>w. db w = d \<and> committed w = c) (coerce_item pf raw)" for raw
    unfolding coerce_item_def
    by (auto intro!: keeps_bind keeps_view split: json.splits option.splits)
  then show ?thesis unfolding coerce_items_def by (intro keeps_fold keeps_bind) auto
qed

lemma read_row_view: "keeps (\<lambda>w. db w = d \<and> committed w = c) (read_row pf r)"
  unfolding read_row_def by (intro keeps_bind keeps_view coerce_view)

lemma insert_order_Inr:
  assumes "insert_order mk w = (Inr row, w')"
  shows "row = mk (uuids w (uuid_next w)) (now w) \<and> db w' = (db w)\<lparr>orders := orders (db w) @ [row]\<rparr>
    \<and> committed w' = committed w \<and> first_where (\<lambda>r. o_id r = uuids w (uuid_next w)) (orders (db w)) = None"
  using assms by (auto simp: insert_order_def bind_io_apply split: if_splits)

lemma create_order_from_checkout_effect:
  assumes "create_order_from_checkout pf body cid items amt pcode disc w = (Inr ord, w')"
  shows "\<exists>row. orders (committed w') = orders (committed w) @ [row]
    \<and> o_id row = or_id ord \<and> o_customer_id row = cid \<and> o_state row = OrderState_value OrderState.DRAFT
    \<and> o_items row = map dump_order_item items \<and> o_total_rub row = Some amt \<and> o_discount_rub row = disc
    \<and> o_promo_code row = pcode \<and> o_client_max_uid row = cr_client_max_uid body
    \<and> o_client_telegram_uid row = cr_client_telegram_uid body
    \<and> first_where (\<lambda>r. o_id r = or_id ord) (orders (committed w)) = None"
proof -
  let ?w = "w\<lparr>db := committed w\<rparr>"
  obtain row w1 where ins: "insert_order (\<lambda>i t.
        (draft_row i cid (map dump_order_item items)
           (case cr_address body of Some a \<Rightarrow> a | None \<Rightarrow> []) t)
        \<lparr>o_delivery_mode := Some (cr_delivery_mode body), o_zone_id := cr_zone_id body,
         o_comment := cr_comment body, o_client_max_uid := cr_client_max_uid body,
         o_client_zalo_uid := cr_client_zalo_uid body,
         o_client_telegram_uid := cr_client_telegram_uid body, o_total_rub := Some amt,
         o_payment_method := Some (cr_payment_method body), o_promo_code := pcode,
         o_discount_rub := disc\<rparr>) ?w = (Inr row, w1)"
    using assms
    by (auto simp: create_order_from_checkout_def with_session_apply bind_io_apply check_int4_apply check_varchar_apply check_opt_apply
        split: sum.splits prod.splits if_splits)
  let ?w1 = "w1\<lparr>committed := db w1\<rparr>"
  obtain s its w2 where read: "read_row pf row ?w1 = (Inr (s, its), w2)" "committed w' = committed w2" "or_id ord = o_id row"
    using assms ins
    by (auto simp: create_order_from_checkout_def with_session_apply bind_io_apply check_int4_apply check_varchar_apply check_opt_apply
        split: sum.splits prod.splits if_splits)
  have "committed w2 = db w1"
    using keepsD[OF read_row_view[of "db w1" "db w1"] _ read(1)] by simp
  then show ?thesis
    using insert_order_Inr[OF ins] read(2,3) by (intro exI[of _ row]) (simp add: draft_row_def)
qed

lemma resolve_promo_same:
  "promotions (db w1) = promotions (db w) \<Longrightarrow>
     fst (resolve_promo_effect pf pcode g w1) = fst (resolve_promo_effect pf pcode g w)"
  by (simp add: resolve_promo_effect_def Let_def bind_io_apply active_promotions_def split: option.splits list.splits)

definition zone_fee :: "database \<Rightarrow> uuid option \<Rightarrow> int option" where
  "zone_fee d z = (case z of None \<Rightarrow> None
     | Some i \<Rightarrow> map_option z_delivery_fee_rub (first_where (\<lambda>r. z_id r = i) (delivery_zones d)))"

lemma promo_session_run:
  "with_session (resolve_promo_effect pf pcode g) w =
     (fst (resolve_promo_effect pf pcode g (w\<lparr>db := committed w\<rparr>)), w\<lparr>db := committed w\<rparr>)"
  using resolve_promo_frame[of pf pcode g "w\<lparr>db := committed w\<rparr>"]
  by (auto simp: with_session_apply split: prod.splits)

lemma find_or_create_frame:
  assumes "find_or_create_by_phone name phone w = (Inr c, w')"
  shows "orders (committed w') = orders (committed w)" "products (committed w') = products (committed w)"
    "promotions (committed w') = promotions (committed w)" "delivery_zones (committed w') = delivery_zones (committed w)"
    "idle w'"
  using find_or_create_cases[OF assms] assms
  by (auto simp: find_or_create_by_phone_def bind_io_apply split: sum.splits intro: with_session_idle)

section \<open>Properties\<close>

text \<open>C8. A checkout is done once per idempotency key: when a request was answered, sending it
  again, whatever headers come with it and whatever the menu or the promotions
  have become in the world it meets, gets the same answer and changes nothing.\<close>

theorem checkout_replay:
  assumes "checkout pf request hs w = (Inr r, w')"
    and "committed v = committed w'"
  shows "fst (checkout pf' request hs' v) = Inr r \<and> committed (snd (checkout pf' request hs' v)) = committed v"
proof -
  let ?k = "IDEMPOTENCY_PREFIX @ cr_idempotency_key request"
  from checkout_stored[OF assms(1)] obtain kvs where k: "length ?k \<le> 256" "key_recorded (committed w') ?k"
      and p: "fst (get_payload ?k w') = Inr (Some kvs)" "recovered kvs = Some r"
      and g: "checkout_guard request w = (Inr (), w)"
    by (auto simp: Let_def)
  have g': "checkout_guard request v = (Inr (), v)"
    using g by (auto simp: checkout_guard_def split: if_splits)
  obtain b where b: "verified_body pf' hs' request v = (Inr b, v)" "cr_idempotency_key b = cr_idempotency_key request"
    using verified_body_run by blast
  let ?v = "v\<lparr>db := committed v\<rparr>"
  have c: "check_and_record ?k (checkout_payload b) v = (Inr False, ?v)"
    using check_and_record_again[OF _ k(1)] k(2) assms(2) by simp
  have "fst (get_payload ?k ?v) = Inr (Some kvs)"
    using get_payload_committed[of ?v w' ?k] assms(2) p(1) by simp
  from recover_run[OF this] show ?thesis
    using g' b c p(2) by (simp add: checkout_def Let_def bind_io_apply)
qed

lemma checkout_replay_witness:
  "let (r, w') = checkout ref_platform sample_request no_headers sample_world
   in map o_id (orders (committed w')) = [''o-draft'', ''o-paid'', ''o-pending'', ''o-cooking'', ''u0'']
      \<and> fst (checkout ref_platform sample_request no_headers w') = r"
proof -
  let ?c = "checkout ref_platform sample_request no_headers sample_world"
  let ?r = "\<lparr>co_ok = True, co_order_id = ''u0'', co_confirmation_token = None, co_confirmation_url = None\<rparr>"
  have "case ?c of (r, w') \<Rightarrow> r = Inr ?r
      \<and> map o_id (orders (committed w')) = [''o-draft'', ''o-paid'', ''o-pending'', ''o-cooking'', ''u0'']"
    by code_simp
  then have f: "fst ?c = Inr ?r"
    and o': "map o_id (orders (committed (snd ?c))) = [''o-draft'', ''o-paid'', ''o-pending'', ''o-cooking'', ''u0'']"
    by (simp_all add: case_prod_beta)
  have c: "?c = (Inr ?r, snd ?c)" using f by (simp add: prod_eq_iff)
  show ?thesis
    using checkout_replay[OF c refl, of ref_platform no_headers] o' f by (simp add: case_prod_beta)
qed

text \<open>What \<open>place_order\<close> computes and stores.\<close>

lemma place_order_effect:
  assumes "idle w" "place_order pf body w = (Inr (customer, ord, amt), w')"
  shows "\<exists>items effect row.
      those (map (snapshot_of (products (committed w))) (cr_items body)) = Some items
    \<and> fst (resolve_promo_effect pf (cr_promo_code body) (goods_total items) w) = Inr effect
    \<and> amt = compute_checkout_total pf items (cr_delivery_mode body) effect (zone_fee (committed w) (cr_zone_id body))
    \<and> orders (committed w') = orders (committed w) @ [row]
    \<and> o_id row = or_id ord \<and> o_state row = ''DRAFT'' \<and> o_customer_id row = cu_id customer
    \<and> o_items row = map dump_order_item items \<and> o_total_rub row = Some amt
    \<and> o_discount_rub row = (case effect of None \<Rightarrow> 0 | Some e \<Rightarrow> pe_discount_rub e)
    \<and> normalize_phone (cr_phone body) = Inr (cu_phone customer)
    \<and> first_where (\<lambda>r. o_id r = or_id ord) (orders (committed w)) = None"
proof -
  obtain w1 where cust: "find_or_create_by_phone (cr_name body) (cr_phone body) w = (Inr customer, w1)"
    using assms(2) by (auto simp: place_order_def bind_io_Inr_iff Let_def)
  note f = find_or_create_frame[OF cust]
  have w1: "w1\<lparr>db := committed w1\<rparr> = w1" using f(5) by (cases w1) (simp add: idle_def)
  obtain items where items: "those (map (snapshot_of (products (committed w))) (cr_items body)) = Some items"
      "resolve_checkout_items (cr_items body) w1 = (Inr items, w1)"
    using assms(2) cust resolve_checkout_items_run[OF f(5), of "cr_items body"] f(2)
    by (auto simp: place_order_def bind_io_apply split: option.splits)
  obtain effect where eff: "fst (resolve_promo_effect pf (cr_promo_code body) (goods_total items) w1) = Inr effect"
    using assms(2) cust items(2)
    by (cases "fst (resolve_promo_effect pf (cr_promo_code body) (goods_total items) w1)")
       (auto simp: place_order_def bind_io_apply promo_session_run w1)
  let ?amt = "compute_checkout_total pf items (cr_delivery_mode body) effect (zone_fee (committed w) (cr_zone_id body))"
  have zone: "(case cr_zone_id body of None \<Rightarrow> ret None | Some z \<Rightarrow> zone_by_id z) w1 =
      (Inr (case cr_zone_id body of None \<Rightarrow> None
            | Some z \<Rightarrow> first_where (\<lambda>r. z_id r = z) (delivery_zones (committed w))), w1)"
    using f(4,5) by (simp add: zone_by_id_def with_session_apply w1 idle_def split: option.splits)
  have fee: "map_option z_delivery_fee_rub (case cr_zone_id body of None \<Rightarrow> None
            | Some z \<Rightarrow> first_where (\<lambda>r. z_id r = z) (delivery_zones (committed w))) = zone_fee (committed w) (cr_zone_id body)"
    by (simp add: zone_fee_def split: option.splits)
  have made: "amt = ?amt \<and> create_order_from_checkout pf body (cu_id customer) items ?amt
      (map_option pe_applied_code effect) (case effect of None \<Rightarrow> 0 | Some e \<Rightarrow> pe_discount_rub e) w1 = (Inr ord, w')"
    using assms(2) cust items(2) eff zone
    by (auto simp: place_order_def Let_def bind_io_apply promo_session_run w1 fee split: sum.splits prod.splits)
  have "fst (resolve_promo_effect pf (cr_promo_code body) (goods_total items) w) = Inr effect"
    using eff resolve_promo_same[of w1 w] f(3,5) assms(1) by (simp add: idle_def)
  moreover have "normalize_phone (cr_phone body) = Inr (cu_phone customer)"
    using find_or_create_cases[OF cust] by auto
  ultimately show ?thesis
    using items(1) made create_order_from_checkout_effect[OF conjunct2[OF made]] f(1) by auto
qed

text \<open>C9. The amount of an order is the server's: the items carry the names and prices of the
  products as they are stored, the discount is the effect of the stored
  promotion, the fee is that of the stored zone, and exactly their total is
  written with the order, which starts as a DRAFT of the customer with that phone.\<close>

theorem order_amount_authoritative:
  assumes "idle w" "place_order pf body w = (Inr (customer, ord, amt), w')"
  shows "\<exists>items effect row.
      those (map (snapshot_of (products (committed w))) (cr_items body)) = Some items
    \<and> fst (resolve_promo_effect pf (cr_promo_code body) (goods_total items) w) = Inr effect
    \<and> amt = compute_checkout_total pf items (cr_delivery_mode body) effect (zone_fee (committed w) (cr_zone_id body))
    \<and> orders (committed w') = orders (committed w) @ [row]
    \<and> o_id row = or_id ord \<and> o_state row = ''DRAFT'' \<and> o_customer_id row = cu_id customer
    \<and> o_items row = map dump_order_item items \<and> o_total_rub row = Some amt
    \<and> o_discount_rub row = (case effect of None \<Rightarrow> 0 | Some e \<Rightarrow> pe_discount_rub e)
    \<and> normalize_phone (cr_phone body) = Inr (cu_phone customer)"
  using place_order_effect[OF assms] by blast

lemma order_amount_authoritative_witness:
  "\<exists>items effect. those (map (snapshot_of (products sample_db)) [\<lparr>ci_product_id = tea, ci_qty = 2\<rparr>]) = Some items
     \<and> compute_checkout_total ref_platform items ''delivery'' effect (Some 99) = 399"
proof -
  let ?t = "place_order ref_platform sample_request sample_world"
  have i: "idle sample_world" by code_simp
  have "map_option (snd \<circ> snd) (case fst ?t of Inl _ \<Rightarrow> None | Inr x \<Rightarrow> Some x) = Some 399" by code_simp
  then obtain c r where t: "?t = (Inr (c, r, 399), snd ?t)"
    by (cases "fst ?t") (auto simp: prod_eq_iff)
  have z: "zone_fee sample_db (cr_zone_id sample_request) = Some 99"
    "committed sample_world = sample_db" "cr_items sample_request = [\<lparr>ci_product_id = tea, ci_qty = 2\<rparr>]"
    "cr_delivery_mode sample_request = ''delivery''"
    by code_simp+
  from order_amount_authoritative[OF i t, unfolded z] show ?thesis
    by (elim exE conjE) (intro exI conjI, assumption, rule sym, assumption)
qed

text \<open>C18. A discount never exceeds the goods: for amounts that a 53-bit float holds exactly and the
  promotions the administration accepts, the discount of any code lies between
  zero and the price of the goods, the float arithmetic of the percentage included.\<close>

theorem discount_within_goods:
  assumes "0 \<le> g" "g * 100 \<le> 2 ^ 53" "\<forall>p \<in> set (promotions (db w)). promotion_sane p"
    "fst (resolve_promo_effect pf pcode g w) = Inr (Some e)"
  shows "0 \<le> pe_discount_rub e \<and> pe_discount_rub e \<le> g"
proof -
  have "resolve_promo_effect pf pcode g w = (Inr (Some e), snd (resolve_promo_effect pf pcode g w))"
    using assms(4) by (simp add: prod_eq_iff)
  then show ?thesis using promo_effect_bounds[OF assms(1-3)] by blast
qed

definition promo_world :: world where
  "promo_world = (let d = sample_db\<lparr>promotions := [\<lparr>pr_id = ''pr1'', pr_name = ''Spring'', pr_discount = 15,
      pr_state = ''ACTIVE'', pr_effect_type = ''PERCENT_DISCOUNT'', pr_trigger_code = Some ''SPRING'', pr_created_at = 0\<rparr>]\<rparr>
    in sample_world\<lparr>db := d, committed := d\<rparr>)"

lemma discount_within_goods_witness:
  "map_option pe_discount_rub (case fst (resolve_promo_effect ref_platform (Some '' spring '') 399 promo_world) of
      Inr (Some e) \<Rightarrow> Some e | _ \<Rightarrow> None) = Some 59 \<and> 0 \<le> (59 :: int) \<and> (59 :: int) \<le> 399"
proof -
  let ?e = "\<lparr>pe_promotion_id = ''pr1'', pe_applied_code = ''spring'', pe_discount_rub = 59, pe_free_delivery = False\<rparr>"
  have "fst (resolve_promo_effect ref_platform (Some '' spring '') 399 promo_world) = Inr (Some ?e)" by code_simp
  moreover have "\<forall>p \<in> set (promotions (db promo_world)). promotion_sane p" by code_simp
  ultimately show ?thesis
    using discount_within_goods[of 399 promo_world ref_platform "Some '' spring ''" ?e] by simp
qed

text \<open>The total is never negative, a pickup pays for the goods alone, and free delivery
  takes the whole fee off.\<close>

theorem checkout_total_bounds:
  assumes "\<forall>it \<in> set items. 0 \<le> oi_price_rub it \<and> 0 \<le> oi_qty it" "0 \<le> DELIVERY_FEE (cfg pf)"
    "\<forall>f. fee = Some f \<longrightarrow> 0 \<le> f" "\<forall>e. effect = Some e \<longrightarrow> 0 \<le> pe_discount_rub e"
  shows "0 \<le> compute_checkout_total pf items mode effect fee
    \<and> compute_checkout_total pf items ''pickup'' effect fee \<le> goods_total items
    \<and> compute_checkout_total pf items mode effect fee
        \<le> goods_total items + (case fee of Some f \<Rightarrow> f | None \<Rightarrow> DELIVERY_FEE (cfg pf))
    \<and> (\<forall>e. effect = Some e \<and> pe_free_delivery e \<longrightarrow>
         compute_checkout_total pf items mode effect fee = compute_checkout_total pf items ''pickup'' effect fee)"
proof -
  have g: "0 \<le> goods_total items"
    unfolding goods_total_def using assms(1) by (intro sum_list_nonneg) auto
  show ?thesis
    using g assms(2-4) compute_total_bounds[OF assms(1-3)]
    by (auto simp: compute_checkout_total_def Let_def split: option.splits)
qed

lemma checkout_total_bounds_witness:
  "compute_checkout_total ref_platform
     [\<lparr>oi_product_id = tea, oi_name = ''Tea'', oi_price_rub = 150, oi_qty = 2\<rparr>] ''delivery''
     (Some \<lparr>pe_promotion_id = ''pr1'', pe_applied_code = ''spring'', pe_discount_rub = 59, pe_free_delivery = False\<rparr>)
     (Some 99) \<le> 300 + 99"
  using checkout_total_bounds[of "[\<lparr>oi_product_id = tea, oi_name = ''Tea'', oi_price_rub = 150, oi_qty = 2\<rparr>]"
      ref_platform "Some 99" "Some \<lparr>pe_promotion_id = ''pr1'', pe_applied_code = ''spring'', pe_discount_rub = 59,
        pe_free_delivery = False\<rparr>" "''delivery''"]
  by (simp add: goods_total_def)

section \<open>Whose order it is\<close>

text \<open>
  What every step of the route does to the identities of the orders: at most one order is
  added, with the identities it was placed with, and whatever fails later leaves it.
\<close>

definition grown :: "(uuid \<times> int option \<times> int option \<times> string option) list
    \<Rightarrow> int option \<times> int option \<times> string option \<Rightarrow> world \<Rightarrow> bool" where
  "grown c a w \<longleftrightarrow> attributions (committed w) = c \<or> (\<exists>i. attributions (committed w) = c @ [(i, a)])"

lemma held_grown: "(\<And>c. keeps (held attributions c) m) \<Longrightarrow> keeps (grown c a) m"
  by (auto simp: keeps_def held_def grown_def)

lemma held_then_grown:
  assumes "\<And>c. keeps (held attributions c) m" "held attributions c w"
    and "\<And>x v. held attributions c v \<Longrightarrow> grown c a (snd (k x v))"
  shows "grown c a (snd (bind_io m k w))"
proof -
  obtain r v where m: "m w = (r, v)" by fastforce
  then have "held attributions c v" using keepsD[OF assms(1,2)] by blast
  then show ?thesis using m assms(3) by (cases r) (auto simp: bind_io_apply grown_def held_def)
qed

lemma held_steps [intro, simp]:
  "keeps (held attributions c) (find_or_create_by_phone name phone)"
  "keeps (held attributions c) (resolve_checkout_items cart)"
  "keeps (held attributions c) (with_session (resolve_promo_effect pf pcode g))"
  "keeps (held attributions c) (zone_by_id z)"
  "keeps (held attributions c) (check_and_record k kvs)"
  "keeps (held attributions c) (update_payload k kvs)"
  "keeps (held attributions c) (recover_idempotent_result k)"
proof -
  have promo: "keeps (agree attributions c) (resolve_promo_effect pf pcode g)"
    using resolve_promo_frame[of pf pcode g] by (auto simp: keeps_def)
  then show "keeps (held attributions c) (with_session (resolve_promo_effect pf pcode g))" by (rule held_session)
  show "keeps (held attributions c) (find_or_create_by_phone name phone)"
    unfolding find_or_create_by_phone_def find_by_phone_def create_customer_def
    by (intro held_intros agree_intros agree_update) (simp add: attributions_def)
  show "keeps (held attributions c) (resolve_checkout_items cart)"
    unfolding resolve_checkout_items_def resolve_checkout_item_def get_product_snapshot_def
    by (intro keeps_fold keeps_bind held_session agree_basic keeps_branch held_basic)
  show "keeps (held attributions c) (zone_by_id z)"
    unfolding zone_by_id_def by (intro held_session agree_basic)
  show "keeps (held attributions c) (check_and_record k kvs)" "keeps (held attributions c) (update_payload k kvs)"
    unfolding check_and_record_def update_payload_def check_key_def
    by (intro held_session agree_intros agree_update, simp add: attributions_def)+
  show "keeps (held attributions c) (recover_idempotent_result k)"
    unfolding recover_idempotent_result_def get_payload_def
    by (intro keeps_bind held_session agree_basic keeps_branch held_basic) (auto split: json.splits)
qed

lemma held_payment_paths:
  assumes "vm_ok pf"
  shows "keeps (held attributions c) (checkout_online pf body k customer ord amt)"
    "keeps (held attributions c) (checkout_cash pf body k ord)"
  unfolding checkout_online_def checkout_cash_def
  by (intro keeps_bind agree_catch attribution_payments.held_transition_order attribution_payments.held_create_payment
      held_steps held_basic keeps_branch quiet_notify[THEN held_quiet] quiet_customer[THEN held_quiet] assms;
      auto split: exn.splits)+

lemma read_row_committed: "read_row pf r w = (x, w') \<Longrightarrow> committed w' = committed w"
  using keepsD[OF read_row_view[of "db w" "committed w"]] by blast

lemma create_order_grows:
  assumes "held attributions c w"
  shows "grown c (cr_client_max_uid body, cr_client_telegram_uid body, cr_client_zalo_uid body)
    (snd (create_order_from_checkout pf body cid items amt pcode disc w))"
  using assms
  by (auto simp: create_order_from_checkout_def with_session_apply bind_io_apply check_int4_apply check_varchar_apply
      check_opt_apply insert_order_def grown_def held_def attributions_def draft_row_def
      split: prod.splits sum.splits if_splits dest!: read_row_committed)

lemma then_grown:
  assumes "grown c a (snd (m w))" "\<And>x c. keeps (held attributions c) (k x)"
  shows "grown c a (snd (bind_io m k w))"
  using assms(1) keepsD[OF held_grown[OF assms(2)]]
  by (auto simp: bind_io_apply split: prod.splits sum.splits) (metis prod.collapse)

lemma place_order_grows:
  assumes "held attributions c w"
  shows "grown c (cr_client_max_uid body, cr_client_telegram_uid body, cr_client_zalo_uid body)
    (snd (place_order pf body w))"
  unfolding place_order_def Let_def
  by (rule held_then_grown[OF held_steps(1) assms], rule held_then_grown[OF held_steps(2)], assumption,
      rule held_then_grown[OF held_steps(3)], assumption, rule held_then_grown, force split: option.splits, assumption,
      rule then_grown, erule create_order_grows, rule held_basic(1))

lemma checkout_grows:
  assumes "vm_ok pf" "verified_body pf hs request w = (Inr body, w)"
  shows "grown (attributions (committed w)) (cr_client_max_uid body, cr_client_telegram_uid body, cr_client_zalo_uid body)
    (snd (checkout pf request hs w))"
proof -
  let ?a = "(cr_client_max_uid body, cr_client_telegram_uid body, cr_client_zalo_uid body)"
  have start: "held attributions (attributions (committed w)) w" by (simp add: held_def)
  have replay: "keeps (held attributions c) (bind_io (recover_idempotent_result k) (\<lambda>existing.
      case existing of Some r \<Rightarrow> ret r | None \<Rightarrow> raise (HTTPException 409)))" for c k
    by (intro keeps_bind held_steps) (auto split: option.splits)
  have paid: "keeps (held attributions c) (case p of (customer, ord, amt) \<Rightarrow>
      if online then checkout_online pf body k customer ord amt else checkout_cash pf body k ord)" for c p online k
    by (auto simp: held_payment_paths[OF assms(1)] split: prod.splits)
  show ?thesis
  proof (cases "checkout_guard request w = (Inr (), w)")
    case True
    have "grown (attributions (committed w)) ?a (snd (bind_io (check_and_record k (checkout_payload body)) (\<lambda>inserted.
        if \<not> inserted then bind_io (recover_idempotent_result k) (\<lambda>existing.
            case existing of Some r \<Rightarrow> ret r | None \<Rightarrow> raise (HTTPException 409))
        else bind_io (place_order pf body) (\<lambda>(customer, order, total_rub).
            if cr_payment_method body \<in> {''yookassa_sbp'', ''yookassa_sberbank''}
            then checkout_online pf body k customer order total_rub
            else checkout_cash pf body k order)) w))" for k
    proof (rule held_then_grown[OF held_steps(5) start])
      fix inserted v
      assume v: "held attributions (attributions (committed w)) v"
      then have g: "grown (attributions (committed w)) ?a v" by (simp add: grown_def held_def)
      have new: "grown (attributions (committed w)) ?a (snd (bind_io (place_order pf body) (\<lambda>(customer, order, total_rub).
            if cr_payment_method body \<in> {''yookassa_sbp'', ''yookassa_sberbank''}
            then checkout_online pf body k customer order total_rub
            else checkout_cash pf body k order) v))"
        by (rule then_grown, rule place_order_grows[OF v], rule paid)
      have old: "grown (attributions (committed w)) ?a (snd (bind_io (recover_idempotent_result k) (\<lambda>existing.
            case existing of Some r \<Rightarrow> ret r | None \<Rightarrow> raise (HTTPException 409)) v))"
        using held_grown[OF replay] g unfolding keeps_def by blast
      show "grown (attributions (committed w)) ?a (snd ((if \<not> inserted
          then bind_io (recover_idempotent_result k) (\<lambda>existing.
            case existing of Some r \<Rightarrow> ret r | None \<Rightarrow> raise (HTTPException 409))
          else bind_io (place_order pf body) (\<lambda>(customer, order, total_rub).
            if cr_payment_method body \<in> {''yookassa_sbp'', ''yookassa_sberbank''}
            then checkout_online pf body k customer order total_rub
            else checkout_cash pf body k order)) v))"
        using new old by (cases inserted) (simp_all only: if_True if_False not_True_eq_False not_False_eq_True)
    qed
    then show ?thesis using True assms(2) by (simp add: checkout_def bind_io_apply Let_def)
  next
    case False
    then have "checkout_guard request w = (Inl (HTTPException 400), w)" using checkout_guard_cases by blast
    then show ?thesis by (simp add: checkout_def bind_io_apply grown_def)
  qed
qed

text \<open>C13. Only a signed launch attributes an order to a messenger account: whatever ids the client
puts into a checkout and however it ends, every order keeps the identities it was placed
with, and the one order that may have been added carries as MAX and Telegram id that of
a header signed with the bot's token within the last day, as Zalo id that of the
profile Zalo returned for the token of a header, or none.\<close>

theorem attribution_is_signed:
  assumes "vm_ok pf" and "checkout pf request hs w = (r, w')"
  shows "attributions (committed w') = attributions (committed w)
    \<or> (\<exists>oid max_uid telegram_uid zalo_uid.
        attributions (committed w') = attributions (committed w) @ [(oid, max_uid, telegram_uid, zalo_uid)]
      \<and> (\<forall>u. max_uid = Some u \<longrightarrow>
           (\<exists>data. h_max_init_data hs = Some data \<and> signed_launch pf (now w) data (MAX_BOT_TOKEN (cfg pf)) u))
      \<and> (\<forall>u. telegram_uid = Some u \<longrightarrow>
           (\<exists>data. h_telegram_init_data hs = Some data \<and> signed_launch pf (now w) data (TELEGRAM_BOT_TOKEN (cfg pf)) u))
      \<and> (\<forall>u. zalo_uid = Some u \<longrightarrow>
           (\<exists>token profile. h_zalo_access_token hs = Some token \<and> zalo_profile pf token = Some (JObj profile)
             \<and> u = py_str (repr_of pf) (json_get ''id'' profile))))"
proof -
  obtain body where body: "verified_body pf hs request w = (Inr body, w)"
    using verified_body_run by blast
  have "\<exists>data. h_max_init_data hs = Some data \<and> signed_launch pf (now w) data (MAX_BOT_TOKEN (cfg pf)) u"
    if "cr_client_max_uid body = Some u" for u
    using body that by (auto simp: verified_body_def verified_uid_run bind_io_apply split: option.splits if_splits
        intro: validate_init_data_sound)
  moreover have "\<exists>data. h_telegram_init_data hs = Some data \<and> signed_launch pf (now w) data (TELEGRAM_BOT_TOKEN (cfg pf)) u"
    if "cr_client_telegram_uid body = Some u" for u
    using body that by (auto simp: verified_body_def verified_uid_run bind_io_apply split: option.splits if_splits
        intro: validate_init_data_sound)
  moreover have "\<exists>token profile. h_zalo_access_token hs = Some token \<and> zalo_profile pf token = Some (JObj profile)
      \<and> u = py_str (repr_of pf) (json_get ''id'' profile)" if "cr_client_zalo_uid body = Some u" for u
    using body that by (auto simp: verified_body_def verified_uid_run bind_io_apply verified_zalo_uid_def Let_def
        split: option.splits if_splits json.splits)
  ultimately show ?thesis
    using checkout_grows[OF assms(1) body] assms(2) by (auto simp: grown_def)
qed

definition signed_headers :: CheckoutHeaders where
  "signed_headers = no_headers\<lparr>h_max_init_data :=
     Some ''auth_date=100&hash=617574686d617857&user={\"id\":7}''\<rparr>"

text \<open>The client claims to be 8, the launch data are those of 7.\<close>

theorem attribution_is_signed_witness:
  "\<exists>data. h_max_init_data signed_headers = Some data \<and> signed_launch ref_platform 100 data ''max'' 7"
proof -
  let ?t = "checkout ref_platform (sample_request\<lparr>cr_client_max_uid := Some 8\<rparr>) signed_headers sample_world"
  have "case ?t of (r, w') \<Rightarrow>
      attributions (committed w') = attributions (committed sample_world) @ [(''u0'', Some 7, None, None)]"
    by code_simp
  then have a: "attributions (committed (snd ?t)) = attributions (committed sample_world) @ [(''u0'', Some 7, None, None)]"
    by (simp add: case_prod_beta)
  have "now sample_world = 100" "MAX_BOT_TOKEN (cfg ref_platform) = ''max''" by code_simp+
  then show ?thesis
    using attribution_is_signed[OF vm_ok_ref, of "sample_request\<lparr>cr_client_max_uid := Some 8\<rparr>" signed_headers
        sample_world "fst ?t" "snd ?t"] a by auto
qed

text \<open>Two spellings of a phone are one customer: what one lookup found or created is found by
  every later lookup with a phone of the same canonical form, and nothing is
  written then.\<close>

theorem same_phone_same_customer:
  assumes "find_or_create_by_phone name phone w = (Inr c, w1)"
    "normalize_phone phone2 = normalize_phone phone"
  shows "find_or_create_by_phone name2 phone2 w1 = (Inr c, w1)"
proof -
  obtain p where p: "normalize_phone phone = Inr p" "cu_phone c = p"
    using find_or_create_cases[OF assms(1)] by blast
  have "first_where (\<lambda>r. cu_phone r = p) (customers (committed w1)) = Some c"
    using find_or_create_cases[OF assms(1)] p by (auto simp: first_where_append)
  moreover have "w1\<lparr>db := committed w1\<rparr> = w1"
    using find_or_create_frame(5)[OF assms(1)] by (cases w1) (simp add: idle_def)
  moreover have "db w1 = committed w1" using find_or_create_frame(5)[OF assms(1)] by (simp add: idle_def)
  ultimately show ?thesis
    using assms(2) p(1) by (simp add: find_or_create_by_phone_def with_session_apply find_by_phone_def)
qed

lemma same_phone_same_customer_witness:
  "let w1 = snd (find_or_create_by_phone ''Bob'' ''8 (999) 000-00-01'' sample_world) in
     map cu_phone (customers (committed w1)) = [''+79991234567'', ''+79990000001'']
     \<and> snd (find_or_create_by_phone ''B.'' ''+7 999 000 00 01'' w1) = w1"
proof -
  let ?t = "find_or_create_by_phone ''Bob'' ''8 (999) 000-00-01'' sample_world"
  let ?c = "\<lparr>cu_id = ''u0'', cu_name = ''Bob'', cu_phone = ''+79990000001''\<rparr>"
  have t: "fst ?t = Inr ?c" "map cu_phone (customers (committed (snd ?t))) = [''+79991234567'', ''+79990000001'']"
    "normalize_phone ''+7 999 000 00 01'' = normalize_phone ''8 (999) 000-00-01''"
    by code_simp+
  then have "?t = (Inr ?c, snd ?t)" by (simp add: prod_eq_iff)
  from same_phone_same_customer[OF this t(3), of "''B.''"] show ?thesis using t(2) by (simp add: Let_def)
qed

text \<open>C19. The customers table stays well formed: phones are canonical and unique, ids unique,
  whatever lookups run, failed ones included.\<close>

theorem customers_stay_ok:
  assumes "customers_ok (committed w)"
  shows "customers_ok (committed (snd (find_or_create_by_phone name phone w)))"
proof (cases "fst (find_or_create_by_phone name phone w)")
  case (Inr c)
  then have t: "find_or_create_by_phone name phone w = (Inr c, snd (find_or_create_by_phone name phone w))"
    by (simp add: prod_eq_iff)
  show ?thesis
    using find_or_create_cases[OF t] assms normalize_phone_canonical
    by (auto simp: customers_ok_def key_unique_append first_where_key_None)
next
  case (Inl e)
  have "committed (snd (find_or_create_by_phone name phone w)) = committed w"
    using Inl
    by (auto simp: find_or_create_by_phone_def with_session_apply find_by_phone_def create_customer_def
        bind_io_apply split: sum.splits prod.splits option.splits if_splits)
  then show ?thesis using assms by simp
qed

lemma customers_stay_ok_witness:
  "customers_ok (committed (snd (find_or_create_by_phone ''Bob'' ''8 (999) 000-00-01'' sample_world)))"
  by (rule customers_stay_ok) code_simp

end
