(* ===== verification/Unique_Index.thy ===== *)
theory Unique_Index
  imports Database
begin

text \<open>
  Partial unique indexes of the schema: at most one row of a table has a given
  key, and rows without a key are not in the index (UNIQUE ... WHERE key IS NOT
  NULL, or WHERE a condition holds).
\<close>

definition index_unique :: "('r \<Rightarrow> 'k option) \<Rightarrow> 'r list \<Rightarrow> bool" where
  "index_unique key t = distinct (List.map_filter key t)"

lemma index_unique_Nil [simp]: "index_unique key []"
  by (simp add: index_unique_def)

lemma index_unique_Cons:
  "index_unique key (q # t) \<longleftrightarrow> index_unique key t \<and> (\<forall>v. key q = Some v \<longrightarrow> (\<forall>p \<in> set t. key p \<noteq> Some v))"
  by (cases "key q") (force simp: index_unique_def map_filter_def)+

lemma index_unique_append:
  "index_unique key (t @ [q]) \<longleftrightarrow> index_unique key t \<and> (\<forall>v. key q = Some v \<longrightarrow> (\<forall>p \<in> set t. key p \<noteq> Some v))"
  by (cases "key q") (force simp: index_unique_def map_filter_def)+

lemma map_filter_of_map: "List.map_filter key t = map the (filter (\<lambda>v. v \<noteq> None) (map key t))"
  by (induction t) (auto simp: map_filter_def)

text \<open>Only the keys matter.\<close>

lemma index_unique_map: "map key t = map key t' \<Longrightarrow> index_unique key t = index_unique key t'"
  by (simp only: index_unique_def map_filter_of_map)

text \<open>A key that is present belongs to one row.\<close>

lemma index_unique_same:
  "index_unique key t \<Longrightarrow> p \<in> set t \<Longrightarrow> q \<in> set t \<Longrightarrow> key p = Some v \<Longrightarrow> key q = Some v \<Longrightarrow> p = q"
  by (induction t) (auto simp: index_unique_Cons)

text \<open>
  Changing the row of an identifier keeps the index when its new key is absent
  or carried by no other row.
\<close>

lemma index_unique_update:
  assumes "index_unique key t" "key_unique ident t"
    and "\<And>q v p. q \<in> set t \<Longrightarrow> ident q = i \<Longrightarrow> key (f q) = Some v \<Longrightarrow> p \<in> set t \<Longrightarrow> ident p \<noteq> i \<Longrightarrow> key p \<noteq> Some v"
  shows "index_unique key (update_where (\<lambda>r. ident r = i) f t)"
  using assms
proof (induction t)
  case (Cons q t)
  have ids: "\<forall>p \<in> set t. ident p \<noteq> ident q" "key_unique ident t"
    using Cons.prems(2) by (auto simp: key_unique_Cons)
  have tail: "index_unique key (update_where (\<lambda>r. ident r = i) f t)"
    using Cons.prems(1,3) ids(2) by (intro Cons.IH) (auto simp: index_unique_Cons)
  have "key p \<noteq> Some v"
    if "key (if ident q = i then f q else q) = Some v" "p \<in> set (update_where (\<lambda>r. ident r = i) f t)" for p v
  proof -
    from that(2) obtain p0 where p0: "p0 \<in> set t" "p = (if ident p0 = i then f p0 else p0)"
      by (auto simp: in_update_where)
    show ?thesis
    proof (cases "ident q = i")
      case True
      then show ?thesis using that(1) p0 ids(1) Cons.prems(3)[of q v p0] by auto
    next
      case False
      then have q: "key q = Some v" using that(1) by simp
      show ?thesis
      proof (cases "ident p0 = i")
        case True
        then show ?thesis using p0 q False Cons.prems(3)[of p0 v q] by auto
      next
        case False
        then show ?thesis using p0 q Cons.prems(1) by (auto simp: index_unique_Cons)
      qed
    qed
  qed
  then show ?case using tail by (auto simp: index_unique_Cons)
qed simp

text \<open>A key of every row is an index without gaps, so the same holds of it.\<close>

lemma key_unique_index: "key_unique key t \<longleftrightarrow> index_unique (\<lambda>r. Some (key r)) t"
  by (induction t) (simp add: key_unique_def, auto simp: key_unique_Cons index_unique_Cons)

lemma key_unique_change:
  assumes "key_unique key t" "key_unique ident t"
    and "\<And>q p. q \<in> set t \<Longrightarrow> ident q = i \<Longrightarrow> p \<in> set t \<Longrightarrow> ident p \<noteq> i \<Longrightarrow> key p \<noteq> key (f q)"
  shows "key_unique key (update_where (\<lambda>r. ident r = i) f t)"
  using assms unfolding key_unique_index[of key] by (intro index_unique_update) auto

text \<open>Dropping a key never breaks the index.\<close>

lemma index_unique_drop:
  "index_unique key t \<Longrightarrow> (\<And>q. p q \<Longrightarrow> key (f q) = None) \<Longrightarrow> index_unique key (update_where p f t)"
  by (induction t) (auto simp: index_unique_Cons in_update_where split: if_splits)


section \<open>Lookups through an index\<close>

lemma index_lookup:
  assumes "index_unique key t"
  shows "first_where (\<lambda>r. key r = Some k) t = Some q \<longleftrightarrow> q \<in> set t \<and> key q = Some k"
proof
  assume "q \<in> set t \<and> key q = Some k"
  then show "first_where (\<lambda>r. key r = Some k) t = Some q"
    using assms by (induction t) (auto simp: index_unique_Cons)
qed (auto dest: first_where_Some)

lemma index_lookup_None: "first_where (\<lambda>r. key r = Some k) t = None \<longleftrightarrow> (\<forall>q \<in> set t. key q \<noteq> Some k)"
  by (auto simp: first_where_None)

lemma index_rows:
  assumes "index_unique key t"
  shows "rows_where (\<lambda>r. key r = Some k) t = (case first_where (\<lambda>r. key r = Some k) t of None \<Rightarrow> [] | Some q \<Rightarrow> [q])"
  using assms
proof (induction t)
  case (Cons q t)
  show ?case
  proof (cases "key q = Some k")
    case True
    then have "first_where (\<lambda>r. key r = Some k) t = None"
      using Cons.prems by (auto simp: index_unique_Cons index_lookup_None)
    then show ?thesis using True Cons by (simp add: index_unique_Cons)
  qed (use Cons in \<open>auto simp: index_unique_Cons\<close>)
qed simp

lemma index_lookup_append:
  "index_unique key (t @ [q]) \<Longrightarrow> first_where (\<lambda>r. key r = Some k) (t @ [q]) =
     (if key q = Some k then Some q else first_where (\<lambda>r. key r = Some k) t)"
  by (cases "first_where (\<lambda>r. key r = Some k) t")
    (auto simp: first_where_append index_unique_append dest!: first_where_Some)

text \<open>A changed row is found under its new key and no longer under its old one.\<close>

lemma index_lookup_update:
  assumes "index_unique key t" "key_unique ident t" "q \<in> set t"
    and "index_unique key (update_where (\<lambda>r. ident r = ident q) f t)"
  shows "first_where (\<lambda>r. key r = Some k) (update_where (\<lambda>r. ident r = ident q) f t) =
    (if key (f q) = Some k then Some (f q) else if key q = Some k then None
     else first_where (\<lambda>r. key r = Some k) t)"
proof -
  have q: "p = q" if "p \<in> set t" "ident p = ident q" for p
    using key_unique_same[OF assms(2)] assms(3) that by blast
  have new: "f q \<in> set (update_where (\<lambda>r. ident r = ident q) f t)"
    using assms(3) by (auto simp: in_update_where)
  show ?thesis
  proof (cases "key (f q) = Some k")
    case True
    then show ?thesis using index_lookup[OF assms(4)] new by auto
  next
    case False
    show ?thesis
    proof (cases "key q = Some k")
      case True
      have "key p \<noteq> Some k" if "p \<in> set (update_where (\<lambda>r. ident r = ident q) f t)" for p
        using that False True q index_unique_same[OF assms(1) _ assms(3) _ True]
        by (auto simp: in_update_where split: if_splits)
      then show ?thesis using False True by (simp add: index_lookup_None)
    next
      case no: False
      show ?thesis
      proof (cases "first_where (\<lambda>r. key r = Some k) t")
        case None
        then have "\<forall>p \<in> set t. key p \<noteq> Some k" by (simp add: index_lookup_None)
        then have "first_where (\<lambda>r. key r = Some k) (update_where (\<lambda>r. ident r = ident q) f t) = None"
          using False q by (auto simp: index_lookup_None in_update_where) metis
        then show ?thesis using None False no by simp
      next
        case (Some p)
        then have p: "p \<in> set t" "key p = Some k" by (auto dest: first_where_Some)
        then have "ident p \<noteq> ident q" using q no by blast
        then have "p \<in> set (update_where (\<lambda>r. ident r = ident q) f t)"
          using p by (auto simp: in_update_where)
        then have "first_where (\<lambda>r. key r = Some k) (update_where (\<lambda>r. ident r = ident q) f t) = Some p"
          using index_lookup[OF assms(4)] p by blast
        then show ?thesis using Some False no by simp
      qed
    qed
  qed
qed

end
