(* ===== verification/Staff_Service.thy ===== *)
theory Staff_Service
  imports Staff_Notify Unique_Index
begin

text \<open>
  StaffService (app/services/staff_service.py): the lookup of a staff member by
  messenger identity, the administration of the staff table, and the two
  administration routes on top of it (app/api/routes/admin.py). The table keeps
  three independent unique identities and the closed set of roles.
\<close>

section \<open>Records\<close>

record Staff =
  sf_id :: uuid
  sf_name :: string
  sf_role :: StaffRole
  sf_max_user_id :: "int option"
  sf_telegram_user_id :: "int option"
  sf_zalo_user_id :: "string option"
  sf_active :: bool
  sf_created_at :: "int option"

definition UPDATABLE_FIELDS :: "string list" where
  "UPDATABLE_FIELDS = [''name'', ''role'', ''max_user_id'', ''telegram_user_id'', ''zalo_user_id'', ''active'']"

definition row_to_staff :: "staff_row \<Rightarrow> Staff result" where
  "row_to_staff r = (case StaffRole_of (st_role r) of
       Inl e \<Rightarrow> Inl e
     | Inr role \<Rightarrow> Inr \<lparr>sf_id = st_id r, sf_name = st_name r, sf_role = role,
         sf_max_user_id = st_max_user_id r, sf_telegram_user_id = st_telegram_user_id r,
         sf_zalo_user_id = st_zalo_user_id r, sf_active = st_active r,
         sf_created_at = Some (st_created_at r)\<rparr>)"

definition read_staff :: "staff_row option \<Rightarrow> (world, Staff option) io" where
  "read_staff row = (case row of
       None \<Rightarrow> ret None
     | Some r \<Rightarrow> bind_io (lift_result (row_to_staff r)) (\<lambda>s. ret (Some s)))"

section \<open>Lookups\<close>

definition find_one :: "(staff_row \<Rightarrow> 'v option) \<Rightarrow> 'v \<Rightarrow> (world, Staff option) io" where
  "find_one col v =
     bind_io (select_db (\<lambda>d. first_where (\<lambda>r. col r = Some v \<and> st_active r) (staff_members d))) read_staff"

definition find_by_max_user_id :: "int \<Rightarrow> (world, Staff option) io" where
  "find_by_max_user_id uid = with_session (bind_io (check_int8 uid) (\<lambda>_. find_one st_max_user_id uid))"

definition find_by_telegram_user_id :: "int \<Rightarrow> (world, Staff option) io" where
  "find_by_telegram_user_id uid = with_session (bind_io (check_int8 uid) (\<lambda>_. find_one st_telegram_user_id uid))"

definition find_by_zalo_user_id :: "string \<Rightarrow> (world, Staff option) io" where
  "find_by_zalo_user_id uid = with_session (find_one st_zalo_user_id uid)"

definition list_all_staff :: "(world, Staff list) io" where
  "list_all_staff = with_session (
     bind_io (select_db (\<lambda>d. sort_key st_created_at (staff_members d))) (\<lambda>rows.
     fold_io (\<lambda>r acc. bind_io (lift_result (row_to_staff r)) (\<lambda>s. ret (acc @ [s]))) rows []))"

definition get_staff_by_id :: "uuid \<Rightarrow> (world, Staff option) io" where
  "get_staff_by_id staff_id = with_session (
     bind_io (select_db (\<lambda>d. first_where (\<lambda>r. st_id r = staff_id) (staff_members d))) read_staff)"

section \<open>Writes\<close>

text \<open>
  The constraints of migrations/017, 020 and 021 on a table: the primary key,
  the closed set of roles, and one row per messenger identity.
\<close>

definition staff_table_ok :: "staff_row list \<Rightarrow> bool" where
  "staff_table_ok t \<longleftrightarrow> distinct (map st_id t)
     \<and> (\<forall>r \<in> set t. st_role r \<in> {''kitchen'', ''courier'', ''admin'', ''staff''})
     \<and> index_unique st_max_user_id t \<and> index_unique st_telegram_user_id t
     \<and> index_unique st_zalo_user_id t"

text \<open>INSERT and UPDATE: the columns have to fit, then the constraints have to hold.\<close>

definition staff_row_fits :: "staff_row \<Rightarrow> (world, unit) io" where
  "staff_row_fits r =
     bind_io (check_varchar 255 (st_name r)) (\<lambda>_.
     bind_io (check_opt check_int8 (st_max_user_id r)) (\<lambda>_.
     bind_io (check_opt check_int8 (st_telegram_user_id r)) (\<lambda>_.
     check_opt (check_varchar 64) (st_zalo_user_id r))))"

definition write_staff_table :: "staff_row list \<Rightarrow> (world, unit) io" where
  "write_staff_table t =
     (if staff_table_ok t then update_db (\<lambda>d. d\<lparr>staff_members := t\<rparr>)
      else raise (IntegrityError ''staff''))"

text \<open>The handler around both statements: an IntegrityError becomes a StaffConflictError.\<close>

definition on_conflict :: "(world, 'a) io \<Rightarrow> (world, 'a) io" where
  "on_conflict m = catch_io m (\<lambda>e. case e of IntegrityError _ \<Rightarrow> raise StaffConflictError | _ \<Rightarrow> raise e)"

definition create_staff ::
  "string \<Rightarrow> StaffRole \<Rightarrow> int option \<Rightarrow> int option \<Rightarrow> string option \<Rightarrow> (world, Staff) io" where
  "create_staff name role max_user_id telegram_user_id zalo_user_id =
     bind_io new_uuid (\<lambda>staff_id.
     bind_io (with_session (on_conflict (
       bind_io (gets_io (\<lambda>w. \<lparr>st_id = staff_id, st_name = name, st_role = StaffRole_value role,
           st_max_user_id = max_user_id, st_telegram_user_id = telegram_user_id,
           st_zalo_user_id = zalo_user_id, st_active = True, st_created_at = now w\<rparr>)) (\<lambda>row.
       bind_io (staff_row_fits row) (\<lambda>_.
       bind_io (select_db staff_members) (\<lambda>t.
       bind_io (write_staff_table (t @ [row])) (\<lambda>_. commit))))))) (\<lambda>_.
     bind_io (get_staff_by_id staff_id) (\<lambda>created.
       case created of None \<Rightarrow> raise (AssertionError ''created'') | Some s \<Rightarrow> ret s)))"

text \<open>The driver reads any number for a BIGINT through int().\<close>

definition bool_param :: "json \<Rightarrow> bool result" where
  "bool_param v = (case v of
       JBool b \<Rightarrow> Inr b
     | JNull \<Rightarrow> Inl (IntegrityError ''not null'')
     | _ \<Rightarrow> Inl (DataError ''a boolean is required''))"

definition bigint_param :: "json \<Rightarrow> int option result" where
  "bigint_param v = (case v of
       JNull \<Rightarrow> Inr None
     | JStr _ \<Rightarrow> Inl (DataError ''an integer is required'')
     | _ \<Rightarrow> (case py_int v of
           Inr n \<Rightarrow> if int8 n then Inr (Some n) else Inl (DataError ''value out of int64 range'')
         | Inl _ \<Rightarrow> Inl (DataError ''an integer is required'')))"

definition set_staff_field :: "string \<Rightarrow> json \<Rightarrow> staff_row \<Rightarrow> staff_row result" where
  "set_staff_field k v r =
     (if k = ''name'' then map_sum id (\<lambda>x. r\<lparr>st_name := x\<rparr>) (text_param v)
      else if k = ''role'' then map_sum id (\<lambda>x. r\<lparr>st_role := x\<rparr>) (text_param v)
      else if k = ''max_user_id'' then map_sum id (\<lambda>x. r\<lparr>st_max_user_id := x\<rparr>) (bigint_param v)
      else if k = ''telegram_user_id'' then map_sum id (\<lambda>x. r\<lparr>st_telegram_user_id := x\<rparr>) (bigint_param v)
      else if k = ''zalo_user_id'' then map_sum id (\<lambda>x. r\<lparr>st_zalo_user_id := x\<rparr>) (opt_text_param v)
      else if k = ''active'' then map_sum id (\<lambda>x. r\<lparr>st_active := x\<rparr>) (bool_param v)
      else Inr r)"

fun set_staff_fields :: "(string \<times> json) list \<Rightarrow> staff_row \<Rightarrow> staff_row result" where
  "set_staff_fields [] r = Inr r"
| "set_staff_fields ((k, v) # kvs) r =
     (case set_staff_field k v r of Inl e \<Rightarrow> Inl e | Inr r' \<Rightarrow> set_staff_fields kvs r')"

text \<open>The driver encodes every parameter before the statement runs, whether or not a row matches.\<close>

fun encode_params :: "(string \<times> json) list \<Rightarrow> staff_row \<Rightarrow> unit result" where
  "encode_params [] r = Inr ()"
| "encode_params ((k, v) # kvs) r =
     (case set_staff_field k v r of Inl (DataError m) \<Rightarrow> Inl (DataError m) | _ \<Rightarrow> encode_params kvs r)"

definition blank_staff :: "uuid \<Rightarrow> staff_row" where
  "blank_staff i = \<lparr>st_id = i, st_name = [], st_role = [], st_max_user_id = None,
     st_telegram_user_id = None, st_zalo_user_id = None, st_active = True, st_created_at = 0\<rparr>"

text \<open>\<open>StaffRole(fields["role"]).value\<close>\<close>

definition role_value :: "json \<Rightarrow> json result" where
  "role_value v = (case v of
       JStr s \<Rightarrow> (case StaffRole_of s of Inr r \<Rightarrow> Inr (JStr (StaffRole_value r)) | Inl e \<Rightarrow> Inl e)
     | _ \<Rightarrow> Inl (ValueError ''StaffRole''))"

definition normalize_role :: "(string \<times> json) list \<Rightarrow> (string \<times> json) list result" where
  "normalize_role flds = (case map_of flds ''role'' of
       None \<Rightarrow> Inr flds
     | Some JNull \<Rightarrow> Inr flds
     | Some v \<Rightarrow> (case role_value v of
           Inl e \<Rightarrow> Inl e
         | Inr v' \<Rightarrow> Inr (map (\<lambda>(k, x). (k, if k = ''role'' then v' else x)) flds)))"

definition update_staff_row :: "uuid \<Rightarrow> (string \<times> json) list \<Rightarrow> (world, bool) io" where
  "update_staff_row staff_id flds = with_session (on_conflict (
     bind_io (lift_result (encode_params flds (blank_staff staff_id))) (\<lambda>_.
     bind_io (select_db staff_members) (\<lambda>t.
     case first_where (\<lambda>r. st_id r = staff_id) t of
       None \<Rightarrow> bind_io commit (\<lambda>_. ret False)
     | Some r \<Rightarrow>
         bind_io (lift_result (set_staff_fields flds r)) (\<lambda>r'.
         bind_io (staff_row_fits r') (\<lambda>_.
         bind_io (write_staff_table (update_where (\<lambda>q. st_id q = staff_id) (\<lambda>_. r') t)) (\<lambda>_.
         bind_io commit (\<lambda>_. ret True))))))))"

definition update_staff :: "uuid \<Rightarrow> (string \<times> json) list \<Rightarrow> (world, Staff option) io" where
  "update_staff staff_id payload =
     (let given = filter (\<lambda>(k, _). k \<in> set UPDATABLE_FIELDS) payload
      in if given = [] then get_staff_by_id staff_id
         else bind_io (lift_result (normalize_role given)) (\<lambda>flds.
              bind_io (update_staff_row staff_id flds) (\<lambda>found.
              if found then get_staff_by_id staff_id else ret None)))"

end
