(* ===== verification/Staff_Channels.thy ===== *)
theory Staff_Channels
  imports Kitchen_Service Staff_Service Webapp_Auth
begin

text \<open>
  How a staff member reaches the two governed services: the role gate
  (app/services/staff_dispatch.py), the MAX webhook (app/webhooks/max.py), the
  Mini App routes of Zalo and Telegram with their authentication
  (app/api/routes/zalo_miniapp.py, telegram_miniapp.py, app/web/zalo_auth.py,
  telegram_auth.py), and the consent webhook of Zalo
  (app/webhooks/zalo_events.py).
\<close>

section \<open>The role gate\<close>

definition KITCHEN_ROLE_EVENTS :: "StaffRole \<Rightarrow> KitchenEvent list" where
  "KITCHEN_ROLE_EVENTS role = (case role of
       StaffRole.kitchen \<Rightarrow> [KitchenEvent.QUEUE, KitchenEvent.START_PREP, KitchenEvent.MARK_READY, KitchenEvent.HAND_OFF]
     | StaffRole.staff \<Rightarrow> [KitchenEvent.QUEUE, KitchenEvent.START_PREP, KitchenEvent.MARK_READY, KitchenEvent.HAND_OFF]
     | _ \<Rightarrow> [])"

definition ORDER_ROLE_EVENTS :: "StaffRole \<Rightarrow> OrderEvent list" where
  "ORDER_ROLE_EVENTS role = (case role of
       StaffRole.courier \<Rightarrow> [OrderEvent.ASSIGN_COURIER, OrderEvent.PICKUP, OrderEvent.DELIVER]
     | StaffRole.admin \<Rightarrow> [OrderEvent.CANCEL]
     | StaffRole.staff \<Rightarrow> [OrderEvent.ASSIGN_COURIER, OrderEvent.PICKUP, OrderEvent.DELIVER, OrderEvent.CANCEL]
     | StaffRole.kitchen \<Rightarrow> [])"

text \<open>None is the refusal of the gate, before any service is called.\<close>

definition dispatch_kitchen ::
  "platform \<Rightarrow> StaffRole \<Rightarrow> uuid \<Rightarrow> string \<Rightarrow> (world, (KitchenState, KitchenEvent) TransitionResult option) io" where
  "dispatch_kitchen pf role ticket_id event_str = (case KitchenEvent_of event_str of
       Inl _ \<Rightarrow> ret None
     | Inr event \<Rightarrow>
         if event \<notin> set (KITCHEN_ROLE_EVENTS role) then ret None
         else bind_io (transition_ticket pf ticket_id event) (\<lambda>r. ret (Some r)))"

definition dispatch_order ::
  "platform \<Rightarrow> StaffRole \<Rightarrow> uuid \<Rightarrow> string \<Rightarrow> (world, (OrderState, OrderEvent) TransitionResult option) io" where
  "dispatch_order pf role order_id event_str = (case OrderEvent_of event_str of
       Inl _ \<Rightarrow> ret None
     | Inr event \<Rightarrow>
         if event \<notin> set (ORDER_ROLE_EVENTS role) then ret None
         else bind_io (transition_order pf order_id event) (\<lambda>r.
              bind_io (case new_state r of
                         Some s \<Rightarrow> if success r then notify_customer_order_state pf order_id (OrderState_value s) else ret ()
                       | None \<Rightarrow> ret ()) (\<lambda>_. ret (Some r))))"

section \<open>The MAX webhook\<close>

text \<open>
  \<open>hmac.compare_digest\<close> on two texts: a text that is not ASCII raises.
\<close>

definition compare_digest :: "string \<Rightarrow> string \<Rightarrow> (world, bool) io" where
  "compare_digest a b =
     (if \<exists>c \<in> set (a @ b). 128 \<le> code c then raise (TypeError ''compare_digest'') else ret (a = b))"

text \<open>
  The notifications are Russian literals; they are kept as what they say. The
  label of an accepted event is cut to the 64 characters of the API together
  with its two leading characters.
\<close>

definition NOTE_DENIED :: string where "NOTE_DENIED = ''access denied''"
definition NOTE_BAD_BUTTON :: string where "NOTE_BAD_BUTTON = ''bad button data''"
definition NOTE_INCOMPLETE :: string where "NOTE_INCOMPLETE = ''not enough data''"
definition DENIED_MESSAGE :: string where "DENIED_MESSAGE = ''not allowed for your role''"
definition NOTE_REJECTED :: string where "NOTE_REJECTED = ''rejected''"

definition result_notification :: "('s \<Rightarrow> string) \<Rightarrow> ('s, 'e) TransitionResult \<Rightarrow> string \<Rightarrow> string" where
  "result_notification val r fallback_label =
     (if success r then take 62 (case new_state r of Some s \<Rightarrow> val s | None \<Rightarrow> fallback_label)
      else NOTE_REJECTED)"

definition answer_callback :: "platform \<Rightarrow> json \<Rightarrow> string \<Rightarrow> (world, unit) io" where
  "answer_callback pf callback_id txt =
     (if MAX_BOT_TOKEN (cfg pf) = [] then ret ()
      else modify_io (\<lambda>w. w\<lparr>outbox := outbox w @ [CallbackAnswer callback_id txt]\<rparr>))"

definition answer_if :: "platform \<Rightarrow> json \<Rightarrow> string \<Rightarrow> (world, unit) io" where
  "answer_if pf callback_id txt = (if py_truthy callback_id then answer_callback pf callback_id txt else ret ())"

definition obj_get :: "string \<Rightarrow> json \<Rightarrow> (world, json) io" where
  "obj_get k v = (case v of JObj kvs \<Rightarrow> ret (json_get k kvs) | _ \<Rightarrow> raise (AttributeError ''get''))"

text \<open>\<open>int(sender.get("user_id"))\<close>, None when it cannot be read.\<close>

definition callback_sender :: "json \<Rightarrow> (world, int option) io" where
  "callback_sender callback =
     bind_io (obj_get ''user'' callback) (\<lambda>user.
     bind_io (obj_get ''user_id'' (if py_truthy user then user else JObj [])) (\<lambda>uid.
     ret (case py_int uid of Inr n \<Rightarrow> Some n | Inl _ \<Rightarrow> None)))"

text \<open>\<open>json.loads(raw or "")\<close>: only texts parse, everything else is a TypeError.\<close>

definition callback_payload :: "platform \<Rightarrow> json \<Rightarrow> (world, json option) io" where
  "callback_payload pf callback =
     bind_io (obj_get ''payload'' callback) (\<lambda>p.
     bind_io (obj_get ''data'' callback) (\<lambda>d.
     let raw = (if py_truthy p then p else d) in
     ret (case (if py_truthy raw then raw else JStr []) of
            JStr t \<Rightarrow> (case json_loads pf t of Inr v \<Rightarrow> Some v | Inl _ \<Rightarrow> None)
          | _ \<Rightarrow> None)))"

definition chain_notify_kitchen :: "uuid \<Rightarrow> KitchenState \<Rightarrow> (world, unit) io" where
  "chain_notify_kitchen ticket_id st =
     bind_io (get_order_id ticket_id) (\<lambda>oid. case oid of
         None \<Rightarrow> ret ()
       | Some order_id \<Rightarrow>
           bind_io (notify_kitchen_ticket_state ticket_id order_id st) (\<lambda>_.
           bind_io (notify_admin_kitchen_ticket_state ticket_id order_id st) (\<lambda>_.
           notify_staff_card order_id None (Some ticket_id) (Some st))))"

definition chain_notify_order :: "StaffRole \<Rightarrow> uuid \<Rightarrow> OrderState \<Rightarrow> (world, unit) io" where
  "chain_notify_order role order_id st =
     bind_io (if role = StaffRole.courier then notify_courier_order_state order_id st else ret ()) (\<lambda>_.
     bind_io (notify_admin_order_state order_id st) (\<lambda>_.
     notify_staff_card order_id (Some st) None None))"

text \<open>What follows a decision of either service, with its cards.\<close>

definition after_dispatch ::
  "platform \<Rightarrow> ('s \<Rightarrow> string) \<Rightarrow> ('s \<Rightarrow> (world, unit) io) \<Rightarrow> json \<Rightarrow> string
     \<Rightarrow> ('s, 'e) TransitionResult option \<Rightarrow> (world, nat) io" where
  "after_dispatch pf val chain callback_id event_str result = (case result of
       None \<Rightarrow> bind_io (answer_if pf callback_id DENIED_MESSAGE) (\<lambda>_. ret 200)
     | Some r \<Rightarrow>
         bind_io (answer_if pf callback_id (result_notification val r event_str)) (\<lambda>_.
         bind_io (case new_state r of
                    Some s \<Rightarrow> if success r then catch_io (chain s) (\<lambda>_. ret ()) else ret ()
                  | None \<Rightarrow> ret ()) (\<lambda>_. ret 200)))"

definition callback_dispatch :: "platform \<Rightarrow> Staff \<Rightarrow> json \<Rightarrow> json \<Rightarrow> (world, nat) io" where
  "callback_dispatch pf member callback_id payload =
     bind_io (obj_get ''kind'' payload) (\<lambda>kind.
     bind_io (obj_get ''id'' payload) (\<lambda>entity_id.
     bind_io (obj_get ''event'' payload) (\<lambda>event_str.
       if (kind \<noteq> JStr ''kitchen'' \<and> kind \<noteq> JStr ''order'') \<or> \<not> py_truthy entity_id \<or> \<not> py_truthy event_str
       then bind_io (answer_if pf callback_id NOTE_INCOMPLETE) (\<lambda>_. ret 200)
       else let i = py_str (repr_of pf) entity_id; e = py_str (repr_of pf) event_str in
         if kind = JStr ''kitchen''
         then bind_io (dispatch_kitchen pf (sf_role member) i e)
                (after_dispatch pf KitchenState_value (chain_notify_kitchen i) callback_id e)
         else bind_io (dispatch_order pf (sf_role member) i e)
                (after_dispatch pf OrderState_value (chain_notify_order (sf_role member) i) callback_id e))))"

definition max_callback :: "platform \<Rightarrow> json \<Rightarrow> (world, nat) io" where
  "max_callback pf callback =
     bind_io (obj_get ''callback_id'' callback) (\<lambda>callback_id.
     bind_io (callback_sender callback) (\<lambda>sender_id. case sender_id of
         None \<Rightarrow> ret 200
       | Some uid \<Rightarrow>
           bind_io (find_by_max_user_id uid) (\<lambda>staff_member. case staff_member of
               None \<Rightarrow> bind_io (answer_if pf callback_id NOTE_DENIED) (\<lambda>_. ret 200)
             | Some member \<Rightarrow>
                 bind_io (callback_payload pf callback) (\<lambda>payload. case payload of
                     None \<Rightarrow> bind_io (answer_if pf callback_id NOTE_BAD_BUTTON) (\<lambda>_. ret 200)
                   | Some p \<Rightarrow> callback_dispatch pf member callback_id p))))"

definition max_webhook :: "platform \<Rightarrow> string option \<Rightarrow> string \<Rightarrow> (world, nat) io" where
  "max_webhook pf secret body =
     (if MAX_WEBHOOK_SECRET (cfg pf) = [] then ret 403
      else bind_io (compare_digest (case secret of Some s \<Rightarrow> s | None \<Rightarrow> []) (MAX_WEBHOOK_SECRET (cfg pf))) (\<lambda>ok.
        if \<not> ok then ret 403
        else case json_loads pf body of
            Inl _ \<Rightarrow> ret 200
          | Inr update \<Rightarrow>
              bind_io (obj_get ''update_type'' update) (\<lambda>update_type.
                if update_type \<noteq> JStr ''message_callback'' then ret 200
                else bind_io (obj_get ''callback'' update) (\<lambda>callback. case callback of
                    JObj _ \<Rightarrow> max_callback pf callback
                  | _ \<Rightarrow> ret 200))))"

section \<open>The Mini App routes\<close>

definition get_current_telegram_staff :: "platform \<Rightarrow> string option \<Rightarrow> (world, Staff) io" where
  "get_current_telegram_staff pf header = (case header of
       None \<Rightarrow> raise (HTTPException 401)
     | Some data \<Rightarrow>
         if data = [] then raise (HTTPException 401)
         else bind_io (gets_io (\<lambda>w. validate_init_data pf (now w) data (TELEGRAM_BOT_TOKEN (cfg pf)))) (\<lambda>uid. case uid of
             None \<Rightarrow> raise (HTTPException 401)
           | Some n \<Rightarrow> bind_io (find_by_telegram_user_id n) (\<lambda>s. case s of
               None \<Rightarrow> raise (HTTPException 403)
             | Some member \<Rightarrow> ret member)))"

definition get_current_zalo_staff :: "platform \<Rightarrow> string option \<Rightarrow> (world, Staff) io" where
  "get_current_zalo_staff pf token = (case token of
       None \<Rightarrow> raise (HTTPException 401)
     | Some t \<Rightarrow>
         if t = [] then raise (HTTPException 401)
         else (case zalo_profile pf t of
             None \<Rightarrow> raise (HTTPException 401)
           | Some profile \<Rightarrow>
               bind_io (obj_get ''id'' profile) (\<lambda>zid.
                 if \<not> py_truthy zid then raise (HTTPException 401)
                 else bind_io (find_by_zalo_user_id (py_str (repr_of pf) zid)) (\<lambda>s. case s of
                     None \<Rightarrow> raise (HTTPException 403)
                   | Some member \<Rightarrow> ret member))))"

text \<open>The body of both pairs of routes, after the authentication.\<close>

definition or_forbidden :: "'a option \<Rightarrow> (world, 'a) io" where
  "or_forbidden r = (case r of None \<Rightarrow> raise (HTTPException 403) | Some x \<Rightarrow> ret x)"

definition telegram_kitchen_transition where
  "telegram_kitchen_transition pf header ticket_id event =
     bind_io (get_current_telegram_staff pf header) (\<lambda>member.
     bind_io (dispatch_kitchen pf (sf_role member) ticket_id event) or_forbidden)"

definition telegram_order_transition where
  "telegram_order_transition pf header order_id event =
     bind_io (get_current_telegram_staff pf header) (\<lambda>member.
     bind_io (dispatch_order pf (sf_role member) order_id event) or_forbidden)"

definition zalo_kitchen_transition where
  "zalo_kitchen_transition pf token ticket_id event =
     bind_io (get_current_zalo_staff pf token) (\<lambda>member.
     bind_io (dispatch_kitchen pf (sf_role member) ticket_id event) or_forbidden)"

definition zalo_order_transition where
  "zalo_order_transition pf token order_id event =
     bind_io (get_current_zalo_staff pf token) (\<lambda>member.
     bind_io (dispatch_order pf (sf_role member) order_id event) or_forbidden)"

section \<open>The consent webhook of Zalo\<close>

text \<open>
  The text that is signed: the values in the order of their keys, an object as
  its compact JSON text.
\<close>

definition zalo_signed_text :: "platform \<Rightarrow> (string \<times> json) list \<Rightarrow> string" where
  "zalo_signed_text pf payload = concat (map (\<lambda>(k, v). case v of JObj _ \<Rightarrow> json_dumps pf v | _ \<Rightarrow> py_str (repr_of pf) v)
       (sort_key fst payload))"

definition verify_zalo_signature :: "platform \<Rightarrow> (string \<times> json) list \<Rightarrow> string \<Rightarrow> string \<Rightarrow> (world, bool) io" where
  "verify_zalo_signature pf payload signature api_key =
     compare_digest (sha256_hex pf (zalo_signed_text pf payload @ api_key)) signature"

definition zalo_revoke_consent :: "platform \<Rightarrow> (string \<times> json) list \<Rightarrow> (world, nat) io" where
  "zalo_revoke_consent pf payload =
     (if json_get ''event'' payload \<noteq> JStr ''user.revoke.consent'' then ret 200
      else case json_get ''userId'' payload of
          JStr uid \<Rightarrow>
            if uid = [] then ret 200
            else bind_io (find_by_zalo_user_id uid) (\<lambda>member.
                 bind_io (case member of
                            None \<Rightarrow> ret ()
                          | Some s \<Rightarrow> bind_io (update_staff (sf_id s) [(''zalo_user_id'', JNull)]) (\<lambda>_. ret ())) (\<lambda>_.
                 bind_io (clear_client_zalo_uid uid) (\<lambda>_. ret 200)))
        | _ \<Rightarrow> ret 200)"

definition zalo_events_webhook :: "platform \<Rightarrow> string option \<Rightarrow> string \<Rightarrow> (world, nat) io" where
  "zalo_events_webhook pf signature body = (case json_loads pf body of
       Inl _ \<Rightarrow> ret 200
     | Inr payload \<Rightarrow>
         if ZALO_API_KEY (cfg pf) = [] \<or> signature = None \<or> signature = Some [] then ret 403
         else (case payload of
             JObj kvs \<Rightarrow>
               bind_io (verify_zalo_signature pf kvs (the signature) (ZALO_API_KEY (cfg pf))) (\<lambda>ok.
                 if ok then zalo_revoke_consent pf kvs else ret 403)
           | _ \<Rightarrow> raise (AttributeError ''keys'')))"

end
