(* ===== verification/Staff_Properties.thy ===== *)
theory Staff_Properties
  imports Staff_Channels Kitchen_Properties
begin

text \<open>
  The properties of the staff table and of the channels a staff member acts
  through: who can change what, what the buttons of a card do, and what is left
  of an identity that was withdrawn.
\<close>

section \<open>Frames\<close>

lemma quiet_answer [intro, simp]: "quiet (answer_if pf cid t)"
  by (auto simp: quiet_def answer_if_def answer_callback_def messages_only_def)

lemma no_commit_chain [intro, simp]:
  "no_commit (chain_notify_kitchen tid ks)" "no_commit (chain_notify_order role oid os)"
  unfolding chain_notify_kitchen_def chain_notify_order_def get_order_id_def
  by (intro no_commit_intros quiet_no_commit quiet_notify)+

lemma no_commit_after [intro, simp]:
  "(\<And>s. no_commit (chain s)) \<Longrightarrow> no_commit (after_dispatch pf val chain cid e r)"
  unfolding after_dispatch_def
  by (intro no_commit_branch no_commit_bind no_commit_catch no_commit_basic quiet_no_commit[OF quiet_answer])

lemma transition_view:
  "transition_order pf oid ev (w\<lparr>db := committed w\<rparr>) = transition_order pf oid ev w"
  "transition_ticket pf tid kev (w\<lparr>db := committed w\<rparr>) = transition_ticket pf tid kev w"
  by (simp_all add: transition_order_def transition_ticket_def ticket_session_def with_session_def bind_io_def)

section \<open>The role gate\<close>

lemma dispatch_kitchen_gate:
  "dispatch_kitchen pf role tid e w =
     (case KitchenEvent_of e of
        Inl _ \<Rightarrow> (Inr None, w)
      | Inr ev \<Rightarrow> if ev \<in> set (KITCHEN_ROLE_EVENTS role)
          then (case transition_ticket pf tid ev w of (Inl x, w1) \<Rightarrow> (Inl x, w1) | (Inr r, w1) \<Rightarrow> (Inr (Some r), w1))
          else (Inr None, w))"
  by (simp add: dispatch_kitchen_def bind_io_apply split: sum.splits prod.splits)

lemma dispatch_kitchen_committed:
  "committed (snd (dispatch_kitchen pf role tid e w)) = committed w
   \<or> (\<exists>ev. KitchenEvent_of e = Inr ev \<and> ev \<in> set (KITCHEN_ROLE_EVENTS role)
        \<and> committed (snd (dispatch_kitchen pf role tid e w)) = committed (snd (transition_ticket pf tid ev w)))"
  by (auto simp: dispatch_kitchen_gate split: sum.splits prod.splits)

lemma dispatch_order_committed:
  "committed (snd (dispatch_order pf role oid e w)) = committed w
   \<or> (\<exists>ev. OrderEvent_of e = Inr ev \<and> ev \<in> set (ORDER_ROLE_EVENTS role)
        \<and> committed (snd (dispatch_order pf role oid e w)) = committed (snd (transition_order pf oid ev w)))"
proof (cases "OrderEvent_of e")
  case (Inr ev)
  show ?thesis
  proof (cases "ev \<in> set (ORDER_ROLE_EVENTS role)")
    case True
    obtain r w1 where t: "transition_order pf oid ev w = (r, w1)" by fastforce
    show ?thesis
    proof (cases r)
      case (Inr res)
      let ?n = "case new_state res of
          Some s \<Rightarrow> if success res then notify_customer_order_state pf oid (OrderState_value s) else ret ()
        | None \<Rightarrow> ret ()"
      have "quiet ?n" by (auto split: option.splits)
      then obtain x w2 where "?n w1 = (Inr x, w2)" "messages_only w1 w2" by (rule quietE)
      then show ?thesis
        using True \<open>OrderEvent_of e = Inr ev\<close> t Inr messages_only_frame(2)
        by (auto simp: dispatch_order_def bind_io_apply)
    qed (use True Inr t in \<open>auto simp: dispatch_order_def bind_io_apply\<close>)
  qed (simp add: dispatch_order_def Inr)
qed (simp add: dispatch_order_def)

text \<open>
  What the gate lets a member with this role do: one governed transition, from
  the world the request found.
\<close>

definition permitted_change :: "platform \<Rightarrow> StaffRole \<Rightarrow> world \<Rightarrow> database \<Rightarrow> bool" where
  "permitted_change pf role w d \<longleftrightarrow>
     (\<exists>tid. \<exists>ev \<in> set (KITCHEN_ROLE_EVENTS role). d = committed (snd (transition_ticket pf tid ev w)))
   \<or> (\<exists>oid. \<exists>ev \<in> set (ORDER_ROLE_EVENTS role). d = committed (snd (transition_order pf oid ev w)))"

lemma dispatch_permitted:
  "committed (snd (dispatch_kitchen pf role tid e w)) \<noteq> committed w \<Longrightarrow>
     permitted_change pf role w (committed (snd (dispatch_kitchen pf role tid e w)))"
  "committed (snd (dispatch_order pf role oid e w)) \<noteq> committed w \<Longrightarrow>
     permitted_change pf role w (committed (snd (dispatch_order pf role oid e w)))"
  using dispatch_kitchen_committed[of pf role tid e w] dispatch_order_committed[of pf role oid e w]
  by (auto simp: permitted_change_def)

lemma permitted_view: "permitted_change pf role (w\<lparr>db := committed w\<rparr>) d = permitted_change pf role w d"
  by (simp add: permitted_change_def transition_view)

lemma bind_no_commit:
  "(\<And>x. no_commit (k x)) \<Longrightarrow> committed (snd (bind_io m k w)) = committed (snd (m w))"
  by (cases "m w"; cases "fst (m w)") (auto simp: no_commit_def)

lemma callback_dispatch_permitted:
  assumes "committed (snd (callback_dispatch pf member cid p w)) \<noteq> committed w"
  shows "permitted_change pf (sf_role member) w (committed (snd (callback_dispatch pf member cid p w)))"
proof (cases p)
  case (JObj kvs)
  have quiet: "no_commit (bind_io (answer_if pf cid t) (\<lambda>_. ret n))" for t and n :: nat
    by (intro no_commit_intros quiet_no_commit quiet_answer)
  have after: "no_commit (after_dispatch pf KitchenState_value (chain_notify_kitchen i) cid e r)"
    "no_commit (after_dispatch pf OrderState_value (chain_notify_order role i) cid e r')" for i e r r' role
    by simp_all
  show ?thesis
    using assms JObj quiet
    by (auto simp: callback_dispatch_def obj_get_def bind_io_apply[of "ret _"] Let_def no_commit_def
        bind_no_commit[OF after(1)] bind_no_commit[OF after(2)] dispatch_permitted split: if_splits)
qed (use assms in \<open>simp_all add: callback_dispatch_def obj_get_def bind_io_apply\<close>)

text \<open>A lookup leaves the world as a fresh session sees it and finds an active row.\<close>

definition member_row :: "(staff_row \<Rightarrow> 'v option) \<Rightarrow> 'v \<Rightarrow> world \<Rightarrow> Staff \<Rightarrow> bool" where
  "member_row col v w s \<longleftrightarrow>
     (\<exists>q \<in> set (staff_members (committed w)). col q = Some v \<and> st_active q \<and> row_to_staff q = Inr s)"

lemma find_one_view:
  "with_session (find_one col v) w = (r, w1) \<Longrightarrow>
     w1 = w\<lparr>db := committed w\<rparr> \<and> (\<forall>s. r = Inr (Some s) \<longrightarrow> member_row col v w s)"
  by (auto simp: find_one_def read_staff_def with_session_apply bind_io_apply member_row_def
      dest!: first_where_Some split: option.splits sum.splits prod.splits)

lemma find_view:
  "find_by_max_user_id uid w = (r, w1) \<Longrightarrow>
     w1 = w\<lparr>db := committed w\<rparr> \<and> (\<forall>s. r = Inr (Some s) \<longrightarrow> member_row st_max_user_id uid w s)"
  "find_by_telegram_user_id uid w = (r, w1) \<Longrightarrow>
     w1 = w\<lparr>db := committed w\<rparr> \<and> (\<forall>s. r = Inr (Some s) \<longrightarrow> member_row st_telegram_user_id uid w s)"
  "find_by_zalo_user_id z w = (r, w1) \<Longrightarrow>
     w1 = w\<lparr>db := committed w\<rparr> \<and> (\<forall>s. r = Inr (Some s) \<longrightarrow> member_row st_zalo_user_id z w s)"
proof -
  show "find_by_zalo_user_id z w = (r, w1) \<Longrightarrow>
     w1 = w\<lparr>db := committed w\<rparr> \<and> (\<forall>s. r = Inr (Some s) \<longrightarrow> member_row st_zalo_user_id z w s)"
    unfolding find_by_zalo_user_id_def by (rule find_one_view)
  have checked: "with_session (bind_io (check_int8 uid) (\<lambda>_. find_one col uid)) w =
      (if int8 uid then with_session (find_one col uid) w
       else (Inl (DataError ''value out of int64 range''), w\<lparr>db := committed w\<rparr>))" for col
    by (simp add: with_session_apply bind_io_apply check_int8_apply)
  show "find_by_max_user_id uid w = (r, w1) \<Longrightarrow>
     w1 = w\<lparr>db := committed w\<rparr> \<and> (\<forall>s. r = Inr (Some s) \<longrightarrow> member_row st_max_user_id uid w s)"
    unfolding find_by_max_user_id_def checked using find_one_view[of st_max_user_id uid w]
    by (auto split: if_splits)
  show "find_by_telegram_user_id uid w = (r, w1) \<Longrightarrow>
     w1 = w\<lparr>db := committed w\<rparr> \<and> (\<forall>s. r = Inr (Some s) \<longrightarrow> member_row st_telegram_user_id uid w s)"
    unfolding find_by_telegram_user_id_def checked using find_one_view[of st_telegram_user_id uid w]
    by (auto split: if_splits)
qed

lemma obj_get_JObj [simp]: "obj_get k (JObj kvs) = ret (json_get k kvs)"
  by (simp add: obj_get_def)

lemma callback_sender_view: "callback_sender cb w = (r, w1) \<Longrightarrow> w1 = w"
  by (auto simp: callback_sender_def obj_get_def bind_io_apply split: json.splits if_splits)

lemma callback_payload_view: "callback_payload pf cb w = (r, w1) \<Longrightarrow> w1 = w"
  by (auto simp: callback_payload_def obj_get_def bind_io_apply Let_def split: json.splits if_splits)

lemma answer_no_change: "committed (snd (bind_io (answer_if pf cid t) (\<lambda>_. ret n) w)) = committed w"
proof -
  have "no_commit (bind_io (answer_if pf cid t) (\<lambda>_. ret n))"
    by (intro no_commit_intros quiet_no_commit quiet_answer)
  then show ?thesis by (simp add: no_commit_def)
qed

lemma max_callback_permitted:
  assumes "committed (snd (max_callback pf (JObj cb) w)) \<noteq> committed w"
  shows "\<exists>uid member. fst (callback_sender (JObj cb) w) = Inr (Some uid) \<and> member_row st_max_user_id uid w member
    \<and> permitted_change pf (sf_role member) w (committed (snd (max_callback pf (JObj cb) w)))"
proof -
  let ?cid = "json_get ''callback_id'' cb"
  obtain uid where sender: "callback_sender (JObj cb) w = (Inr (Some uid), w)"
    using assms callback_sender_view[of "JObj cb" w]
    by (cases "callback_sender (JObj cb) w")
       (auto simp: max_callback_def bind_io_apply split: sum.splits option.splits)
  obtain x w1 where find: "find_by_max_user_id uid w = (x, w1)" by fastforce
  have w1: "w1 = w\<lparr>db := committed w\<rparr>" using find_view(1)[OF find] by simp
  obtain member where member: "x = Inr (Some member)"
    using assms sender find w1
    by (auto simp: max_callback_def bind_io_apply[of "callback_sender _"] bind_io_apply[of "find_by_max_user_id _"]
        answer_no_change split: sum.splits option.splits)
  obtain p where p: "callback_payload pf (JObj cb) w1 = (Inr (Some p), w1)"
    using assms sender find w1 member callback_payload_view[of pf "JObj cb" w1]
    by (cases "callback_payload pf (JObj cb) w1")
       (auto simp: max_callback_def bind_io_apply[of "callback_sender _"] bind_io_apply[of "find_by_max_user_id _"]
        bind_io_apply[of "callback_payload _ _"] answer_no_change split: sum.splits option.splits)
  have eq: "max_callback pf (JObj cb) w = callback_dispatch pf member ?cid p w1"
    using sender find member p by (simp add: max_callback_def)
  have "committed (snd (callback_dispatch pf member ?cid p w1)) \<noteq> committed w1"
    using assms eq w1 by simp
  then have "permitted_change pf (sf_role member) w1 (committed (snd (callback_dispatch pf member ?cid p w1)))"
    by (rule callback_dispatch_permitted)
  then show ?thesis
    using eq sender find_view(1)[OF find] member w1 by (auto simp: permitted_view)
qed

section \<open>Who can change what\<close>

lemma StaffRole_of_Inr: "StaffRole_of v = Inr r \<Longrightarrow> v = StaffRole_value r"
  by (auto simp: StaffRole_of_def split: if_splits)

lemma row_to_staff_Inr:
  "row_to_staff q = Inr s \<Longrightarrow> st_role q = StaffRole_value (sf_role s) \<and> sf_id s = st_id q
     \<and> sf_max_user_id s = st_max_user_id q \<and> sf_telegram_user_id s = st_telegram_user_id q
     \<and> sf_zalo_user_id s = st_zalo_user_id q \<and> sf_active s = st_active q"
  by (auto simp: row_to_staff_def dest!: StaffRole_of_Inr split: sum.splits)

text \<open>C4. The MAX webhook is fail-closed and role-gated: if a call changes the committed
  database at all, the configured secret is not empty and was presented, the
  body is a callback whose sender is the identity of an active row of the staff
  table, and the change is that of one governed transition whose event the
  role of that row may trigger.\<close>

theorem max_webhook_gate:
  assumes "committed (snd (max_webhook pf secret body w)) \<noteq> committed w"
  shows "MAX_WEBHOOK_SECRET (cfg pf) \<noteq> [] \<and> secret = Some (MAX_WEBHOOK_SECRET (cfg pf)) \<and>
    (\<exists>update cb uid (q :: staff_row) role. json_loads pf body = Inr (JObj update)
       \<and> json_get ''callback'' update = JObj cb \<and> fst (callback_sender (JObj cb) w) = Inr (Some uid)
       \<and> q \<in> set (staff_members (committed w)) \<and> st_max_user_id q = Some uid \<and> st_active q
       \<and> st_role q = StaffRole_value role
       \<and> permitted_change pf role w (committed (snd (max_webhook pf secret body w))))"
proof -
  let ?S = "MAX_WEBHOOK_SECRET (cfg pf)"
  have secret: "?S \<noteq> []" "secret = Some ?S"
    using assms
    by (auto simp: max_webhook_def compare_digest_def bind_io_apply split: if_splits option.splits)
  then obtain update cb where upd: "json_loads pf body = Inr (JObj update)" "json_get ''callback'' update = JObj cb"
      and eq: "max_webhook pf secret body w = max_callback pf (JObj cb) w"
    using assms
    by (auto simp: max_webhook_def compare_digest_def obj_get_def bind_io_apply
        split: if_splits sum.splits json.splits)
  from max_callback_permitted[of pf cb w] assms eq
  obtain uid member where m: "fst (callback_sender (JObj cb) w) = Inr (Some uid)"
      "member_row st_max_user_id uid w member"
      "permitted_change pf (sf_role member) w (committed (snd (max_webhook pf secret body w)))"
    by auto
  from m(2) obtain q where "q \<in> set (staff_members (committed w))" "st_max_user_id q = Some uid" "st_active q"
      "st_role q = StaffRole_value (sf_role member)"
    by (auto simp: member_row_def dest: row_to_staff_Inr)
  then show ?thesis
    using secret upd m(1,3) by blast
qed

text \<open>A platform whose JSON parser knows three bodies: an admin and a courier press CANCEL.\<close>

definition press :: "int \<Rightarrow> uuid \<Rightarrow> string \<Rightarrow> json" where
  "press uid payload_id txt = JObj [(''update_type'', JStr ''message_callback''),
     (''callback'', JObj [(''callback_id'', JStr ''cb''), (''user'', JObj [(''user_id'', JInt uid)]),
                         (''payload'', JStr txt)])]"

definition channel_platform :: platform where
  "channel_platform = ref_platform\<lparr>json_loads := (\<lambda>s.
     if s = ''admin'' then Inr (press 3 ''o-draft'' ''cancel'')
     else if s = ''courier'' then Inr (press 2 ''o-draft'' ''cancel'')
     else if s = ''cancel'' then Inr (JObj [(''kind'', JStr ''order''), (''id'', JStr ''o-draft''), (''event'', JStr ''CANCEL'')])
     else if s = ''revoke'' then Inr (JObj [(''event'', JStr ''user.revoke.consent''), (''userId'', JStr ''z7'')])
     else Inl (ValueError s))\<rparr>"

lemma admin_press_cancels:
  "order_state_in (committed (snd (max_webhook channel_platform (Some ''secret'') ''admin'' sample_world))) ''o-draft''
     = Some ''CANCELLED''"
  by code_simp

lemma max_webhook_gate_witness:
  "permitted_change channel_platform StaffRole.admin sample_world
     (committed (snd (max_webhook channel_platform (Some ''secret'') ''admin'' sample_world)))"
proof -
  have "committed (snd (max_webhook channel_platform (Some ''secret'') ''admin'' sample_world)) \<noteq> committed sample_world"
    using admin_press_cancels sample_states(1) by auto
  from max_webhook_gate[OF this] obtain update cb uid q role where
      u: "json_loads channel_platform ''admin'' = Inr (JObj update)" "json_get ''callback'' update = JObj cb"
      "fst (callback_sender (JObj cb) sample_world) = Inr (Some uid)"
      "q \<in> set (staff_members (committed sample_world))" "st_max_user_id q = Some uid" "st_role q = StaffRole_value role"
      "permitted_change channel_platform role sample_world
         (committed (snd (max_webhook channel_platform (Some ''secret'') ''admin'' sample_world)))"
    by blast
  have "uid = 3"
    using u(1,2,3) by (auto simp: channel_platform_def press_def callback_sender_def bind_io_apply)
  then have "StaffRole_value role = ''admin''"
    using u(4,5,6) by (auto simp: sample_world_def sample_db_def sample_staff_def)
  then have "role = StaffRole.admin" by (cases role) auto
  then show ?thesis using u(7) by simp
qed

text \<open>Every Mini App route is a lookup of an active member and a dispatch in its role.\<close>

lemma gated_dispatch:
  assumes "w1 = w\<lparr>db := committed w\<rparr>"
    and "committed (snd (bind_io (dispatch_order pf role oid e) or_forbidden w1)) \<noteq> committed w"
  shows "permitted_change pf role w (committed (snd (bind_io (dispatch_order pf role oid e) or_forbidden w1)))"
proof -
  have pure: "no_commit (or_forbidden x)" for x :: "'a option"
    by (cases x) (simp_all add: or_forbidden_def)
  show ?thesis
    using assms dispatch_permitted(2)[of pf role oid e w1]
    by (simp add: bind_no_commit no_commit_def or_forbidden_def permitted_view split: option.splits)
qed

lemma member_row_active:
  assumes "member_row col v w member"
  shows "\<exists>q \<in> set (staff_members (committed w)). col q = Some v \<and> st_active q
      \<and> st_role q = StaffRole_value (sf_role member)"
  using assms by (auto simp: member_row_def dest: row_to_staff_Inr)

lemma telegram_change:
  assumes "committed (snd (telegram_order_transition pf h oid e w)) \<noteq> committed w"
  shows "\<exists>data uid (q :: staff_row) role. h = Some data
        \<and> validate_init_data pf (now w) data (TELEGRAM_BOT_TOKEN (cfg pf)) = Some uid
        \<and> q \<in> set (staff_members (committed w)) \<and> st_telegram_user_id q = Some uid \<and> st_active q
        \<and> st_role q = StaffRole_value role
        \<and> permitted_change pf role w (committed (snd (telegram_order_transition pf h oid e w)))"
proof -
  from assms obtain data where h: "h = Some data" "data \<noteq> []"
    by (auto simp: telegram_order_transition_def get_current_telegram_staff_def bind_io_apply split: option.splits if_splits)
  then obtain uid where uid: "validate_init_data pf (now w) data (TELEGRAM_BOT_TOKEN (cfg pf)) = Some uid"
    using assms
    by (auto simp: telegram_order_transition_def get_current_telegram_staff_def bind_io_apply split: option.splits)
  obtain x w1 where f: "find_by_telegram_user_id uid w = (x, w1)" by fastforce
  then obtain member where m: "x = Inr (Some member)"
    using assms h uid find_view(2)[OF f]
    by (auto simp: telegram_order_transition_def get_current_telegram_staff_def bind_io_apply split: option.splits sum.splits)
  have eq: "telegram_order_transition pf h oid e w = bind_io (dispatch_order pf (sf_role member) oid e) or_forbidden w1"
    using h uid f m by (simp add: telegram_order_transition_def get_current_telegram_staff_def bind_io_apply)
  show ?thesis
    using h(1) uid member_row_active[of st_telegram_user_id uid w member] find_view(2)[OF f] m
      gated_dispatch[of w1 w pf "sf_role member" oid e] assms eq by fastforce
qed

lemma zalo_change:
  assumes "committed (snd (zalo_order_transition pf tok oid e w)) \<noteq> committed w"
  shows "\<exists>t profile (q :: staff_row) role. tok = Some t \<and> zalo_profile pf t = Some (JObj profile)
        \<and> q \<in> set (staff_members (committed w))
        \<and> st_zalo_user_id q = Some (py_str (repr_of pf) (json_get ''id'' profile)) \<and> st_active q
        \<and> st_role q = StaffRole_value role
        \<and> permitted_change pf role w (committed (snd (zalo_order_transition pf tok oid e w)))"
proof -
  from assms obtain t where t: "tok = Some t" "t \<noteq> []"
    by (auto simp: zalo_order_transition_def get_current_zalo_staff_def bind_io_apply split: option.splits if_splits)
  then obtain profile where pr: "zalo_profile pf t = Some (JObj profile)"
    using assms
    by (auto simp: zalo_order_transition_def get_current_zalo_staff_def bind_io_apply obj_get_def
        split: option.splits json.splits)
  let ?z = "py_str (repr_of pf) (json_get ''id'' profile)"
  have truthy: "py_truthy (json_get ''id'' profile)"
    using assms t pr
    by (auto simp: zalo_order_transition_def get_current_zalo_staff_def bind_io_apply split: if_splits)
  obtain x w1 where f: "find_by_zalo_user_id ?z w = (x, w1)" by fastforce
  then obtain member where m: "x = Inr (Some member)"
    using assms t pr truthy find_view(3)[OF f]
    by (auto simp: zalo_order_transition_def get_current_zalo_staff_def bind_io_apply split: option.splits sum.splits)
  have eq: "zalo_order_transition pf tok oid e w = bind_io (dispatch_order pf (sf_role member) oid e) or_forbidden w1"
    using t pr truthy f m by (simp add: zalo_order_transition_def get_current_zalo_staff_def bind_io_apply)
  show ?thesis
    using t(1) pr member_row_active[of st_zalo_user_id ?z w member] find_view(3)[OF f] m
      gated_dispatch[of w1 w pf "sf_role member" oid e] assms eq by fastforce
qed

text \<open>C14. The same holds for the Mini App routes: a change made through a Telegram route
  comes from launch data signed with the bot token for the identity of an active
  staff row, one made through a Zalo route from a token whose profile Zalo
  returned, and it is a transition the role of that row may trigger.\<close>

theorem mini_app_gate:
  "(committed (snd (telegram_order_transition pf h oid e w)) \<noteq> committed w \<longrightarrow>
      (\<exists>data uid (q :: staff_row) role. h = Some data
        \<and> validate_init_data pf (now w) data (TELEGRAM_BOT_TOKEN (cfg pf)) = Some uid
        \<and> q \<in> set (staff_members (committed w)) \<and> st_telegram_user_id q = Some uid \<and> st_active q
        \<and> st_role q = StaffRole_value role
        \<and> permitted_change pf role w (committed (snd (telegram_order_transition pf h oid e w)))))
   \<and> (committed (snd (zalo_order_transition pf tok oid e w)) \<noteq> committed w \<longrightarrow>
      (\<exists>t profile (q :: staff_row) role. tok = Some t \<and> zalo_profile pf t = Some (JObj profile)
        \<and> q \<in> set (staff_members (committed w))
        \<and> st_zalo_user_id q = Some (py_str (repr_of pf) (json_get ''id'' profile)) \<and> st_active q
        \<and> st_role q = StaffRole_value role
        \<and> permitted_change pf role w (committed (snd (zalo_order_transition pf tok oid e w)))))"
  by (intro conjI impI telegram_change zalo_change)

definition linked_world :: world where
  "linked_world = (let d = sample_db\<lparr>staff_members :=
       [(sample_staff ''s-admin'' StaffRole.admin 3)\<lparr>st_zalo_user_id := Some ''z7''\<rparr>]\<rparr>
     in sample_world\<lparr>db := d, committed := d\<rparr>)"

lemma mini_app_gate_witness:
  "\<exists>role. permitted_change ref_platform role linked_world
     (committed (snd (zalo_order_transition ref_platform (Some ''ztok'') ''o-draft'' ''CANCEL'' linked_world)))
   \<and> role = StaffRole.admin"
proof -
  have "order_state_in (committed (snd (zalo_order_transition ref_platform (Some ''ztok'') ''o-draft'' ''CANCEL'' linked_world)))
      ''o-draft'' = Some ''CANCELLED''"
    by code_simp
  moreover have "order_state_in (committed linked_world) ''o-draft'' = Some ''DRAFT''" by code_simp
  ultimately have "committed (snd (zalo_order_transition ref_platform (Some ''ztok'') ''o-draft'' ''CANCEL'' linked_world))
      \<noteq> committed linked_world"
    by force
  with mini_app_gate[where pf = ref_platform and h = None and tok = "Some ''ztok''" and oid = "''o-draft''"
      and e = "''CANCEL''" and w = linked_world]
  obtain q role where q: "q \<in> set (staff_members (committed linked_world))" "st_role q = StaffRole_value role"
      "permitted_change ref_platform role linked_world
         (committed (snd (zalo_order_transition ref_platform (Some ''ztok'') ''o-draft'' ''CANCEL'' linked_world)))"
    by blast
  then have "StaffRole_value role = ''admin''"
    by (auto simp: linked_world_def Let_def sample_staff_def)
  then have "role = StaffRole.admin" by (cases role) auto
  then show ?thesis using q(3) by blast
qed

section \<open>What a button does\<close>

text \<open>C37. The buttons of an up-to-date order card work: the keyboard offers a role
  exactly the events that the gate permits it and the graph allows, and
  dispatching an offered button is accepted and stores the target of its edge.\<close>

theorem offered_button_works:
  assumes "vm_ok pf" "order_state_in (committed w) oid = Some (OrderState_value s)"
    and "b \<in> set (concat (order_keyboard oid s role))"
  shows "\<exists>ev s' w'. btn_event b = OrderEvent_value ev \<and> ev \<in> set (ORDER_ROLE_EVENTS role)
    \<and> (ev, s') \<in> set (ORDER_TRANSITIONS s)
    \<and> dispatch_order pf role (btn_id b) (btn_event b) w = (Inr (Some (accepted s')), w')
    \<and> order_state_in (committed w') oid = Some (OrderState_value s')"
proof -
  obtain ev s' where b: "b = Button ''order'' oid (OrderEvent_value ev)"
      "ev \<in> set (offered_order_events role)" "map_of (ORDER_TRANSITIONS s) ev = Some s'"
    using assms(3) unfolding order_keyboard_buttons by blast
  have role: "ev \<in> set (ORDER_ROLE_EVENTS role)" and ev: "ev \<noteq> OrderEvent.START_COOKING"
    using b(2) by (cases role; auto simp: offered_order_events_def ORDER_ROLE_EVENTS_def)+
  obtain r w1 where t: "transition_order pf oid ev w = (r, w1)" by fastforce
  note fin = transition_order_simple[OF assms(1,2) b(3) ev t]
  have st: "order_state_in (committed w1) oid = Some (OrderState_value s')"
    using fin assms(2) stamped_frame(1)[of oid _ "committed w1" oid] by (auto simp: order_state_in_set)
  obtain x w2 where n: "notify_customer_order_state pf oid (OrderState_value s') w1 = (Inr x, w2)" "messages_only w1 w2"
    by (rule quietE[OF quiet_customer])
  have "dispatch_order pf role oid (OrderEvent_value ev) w = (Inr (Some (accepted s')), w2)"
    using role t fin n(1) by (simp add: dispatch_order_def bind_io_apply)
  then show ?thesis
    using b role st messages_only_frame(2)[OF n(2)] og.edge_iff by auto
qed

lemma offered_button_works_witness:
  "\<exists>w'. dispatch_order ref_platform StaffRole.admin ''o-draft'' ''CANCEL'' sample_world
     = (Inr (Some (accepted OrderState.CANCELLED)), w')"
proof -
  let ?b = "Button ''order'' ''o-draft'' ''CANCEL''"
  have "?b \<in> set (concat (order_keyboard ''o-draft'' OrderState.DRAFT StaffRole.admin))"
    by code_simp
  from offered_button_works[OF vm_ok_ref sample_states(1) this]
  obtain ev s' w' where e: "btn_event ?b = OrderEvent_value ev" "(ev, s') \<in> set (ORDER_TRANSITIONS OrderState.DRAFT)"
      "dispatch_order ref_platform StaffRole.admin (btn_id ?b) (btn_event ?b) sample_world = (Inr (Some (accepted s')), w')"
    by blast
  have "ev = OrderEvent.CANCEL" using e(1) by (cases ev) simp_all
  then have "s' = OrderState.CANCELLED" using e(2) by simp
  then show ?thesis using e(3) by (metis button_payload.sel(2,3))
qed

text \<open>So do the buttons of a kitchen card, for the two roles that get it; the
  acknowledged state is the one stored for the ticket.\<close>

theorem kitchen_button_works:
  assumes "vm_ok pf" "ticket_state_in (committed w) tid = Some (KitchenState_value s)"
    and "b \<in> set (concat (kitchen_keyboard tid s))" "role = StaffRole.kitchen \<or> role = StaffRole.staff"
  shows "\<exists>ev s' w'. btn_event b = KitchenEvent_value ev \<and> (ev, s') \<in> set (KITCHEN_TRANSITIONS s)
    \<and> dispatch_kitchen pf role (btn_id b) (btn_event b) w = (Inr (Some (accepted s')), w')
    \<and> ticket_state_in (committed w') tid = Some (KitchenState_value s')"
proof -
  obtain ev s' where b: "b = Button ''kitchen'' tid (KitchenEvent_value ev)"
      "map_of (KITCHEN_TRANSITIONS s) ev = Some s'"
    using assms(3) unfolding kitchen_keyboard_buttons by blast
  have role: "ev \<in> set (KITCHEN_ROLE_EVENTS role)"
    using assms(4) by (cases ev) (auto simp: KITCHEN_ROLE_EVENTS_def)
  obtain w1 where t: "ticket_session pf tid ev w = (Inr (accepted s'), w1)"
      "committed w1 = set_ticket_state tid (KitchenState_value s') (committed w)"
    using ticket_session_accepts[OF assms(1,2) b(2)] by blast
  obtain r w2 where tt: "transition_ticket pf tid ev w = (r, w2)" by fastforce
  from transition_ticket_split[OF this] t obtain c where
    c: "r = Inr (accepted s')" "w2 = w1 \<or> hand_off_cascade pf tid w1 = (c, w2)"
    by auto
  have "kitchen_tickets (committed w2) = kitchen_tickets (committed w1)"
    using c(2) cascade_keeps_tickets[OF assms(1)] by auto
  then have "ticket_state_in (committed w2) tid = Some (KitchenState_value s')"
    using t(2) assms(2)
    by (auto simp: ticket_state_in_def set_ticket_state_def first_where_update_key)
  then show ?thesis
    using b role tt c(1) kg.edge_iff by (auto simp: dispatch_kitchen_gate)
qed

lemma kitchen_button_works_witness:
  "\<exists>w'. dispatch_kitchen ref_platform StaffRole.kitchen ''t-ready'' ''HAND_OFF'' sample_world
     = (Inr (Some (accepted KitchenState.HANDED_OFF)), w')"
proof -
  let ?b = "Button ''kitchen'' ''t-ready'' ''HAND_OFF''"
  have "?b \<in> set (concat (kitchen_keyboard ''t-ready'' KitchenState.READY))"
    by code_simp
  from kitchen_button_works[OF vm_ok_ref sample_states(5) this, of StaffRole.kitchen]
  obtain ev s' w' where e: "(ev, s') \<in> set (KITCHEN_TRANSITIONS KitchenState.READY)"
      "dispatch_kitchen ref_platform StaffRole.kitchen (btn_id ?b) (btn_event ?b) sample_world = (Inr (Some (accepted s')), w')"
    by blast
  then have "s' = KitchenState.HANDED_OFF" by simp
  then show ?thesis using e(2) by (metis button_payload.sel(2,3))
qed

lemma Event_of_iff:
  "OrderEvent_of v = Inr ev \<longleftrightarrow> v = OrderEvent_value ev"
  "KitchenEvent_of v = Inr kev \<longleftrightarrow> v = KitchenEvent_value kev"
proof -
  have "OrderEvent_of v = Inr ev \<Longrightarrow> v = OrderEvent_value ev"
    by (auto simp: OrderEvent_of_def find_Some_iff split: option.splits)
  then show "OrderEvent_of v = Inr ev \<longleftrightarrow> v = OrderEvent_value ev" by auto
  have "KitchenEvent_of v = Inr kev \<Longrightarrow> v = KitchenEvent_value kev"
    by (auto simp: KitchenEvent_of_def split: option.splits if_splits)
  then show "KitchenEvent_of v = Inr kev \<longleftrightarrow> v = KitchenEvent_value kev" by auto
qed

lemma KitchenEvent_value_inject [simp]: "KitchenEvent_value e = KitchenEvent_value f \<longleftrightarrow> e = f"
  by (metis KitchenEvent_of_value sum.inject(2))

lemma OrderEvent_value_inject [simp]: "OrderEvent_value e = OrderEvent_value f \<longleftrightarrow> e = f"
  by (metis OrderEvent_of_value sum.inject(2))

text \<open>The gate refuses without side effects exactly the events that do not exist or
  that the role may not trigger.\<close>

theorem gate_refuses_iff:
  "(dispatch_order pf role oid e w = (Inr None, w)) = (e \<notin> OrderEvent_value ` set (ORDER_ROLE_EVENTS role))
   \<and> (dispatch_kitchen pf role tid e w = (Inr None, w)) = (e \<notin> KitchenEvent_value ` set (KITCHEN_ROLE_EVENTS role))"
proof
  show "(dispatch_kitchen pf role tid e w = (Inr None, w)) = (e \<notin> KitchenEvent_value ` set (KITCHEN_ROLE_EVENTS role))"
    by (cases "KitchenEvent_of e") (auto simp: dispatch_kitchen_gate Event_of_iff split: prod.splits sum.splits)
  show "(dispatch_order pf role oid e w = (Inr None, w)) = (e \<notin> OrderEvent_value ` set (ORDER_ROLE_EVENTS role))"
    by (cases "OrderEvent_of e")
       (auto simp: dispatch_order_def bind_io_def Event_of_iff split: prod.splits sum.splits if_splits)
qed

section \<open>The staff table\<close>

lemma find_one_first:
  "with_session (find_one col v) w = (case first_where (\<lambda>r. col r = Some v \<and> st_active r) (staff_members (committed w)) of
      None \<Rightarrow> (Inr None, w\<lparr>db := committed w\<rparr>)
    | Some r \<Rightarrow> (map_sum id Some (row_to_staff r), w\<lparr>db := committed w\<rparr>))"
  by (simp add: find_one_def read_staff_def with_session_apply bind_io_apply split: option.splits sum.splits)

lemma staff_row_fits_apply:
  "staff_row_fits r w = (Inr u, w') \<longleftrightarrow> length (st_name r) \<le> 255 \<and> pred_option int8 (st_max_user_id r)
     \<and> pred_option int8 (st_telegram_user_id r) \<and> pred_option (\<lambda>z. length z \<le> 64) (st_zalo_user_id r) \<and> w' = w"
  by (cases "st_max_user_id r"; cases "st_telegram_user_id r"; cases "st_zalo_user_id r")
     (auto simp: staff_row_fits_def bind_io_apply check_int8_apply check_varchar_apply split: if_splits)

lemma get_staff_by_id_first:
  "get_staff_by_id i w = (case first_where (\<lambda>r. st_id r = i) (staff_members (committed w)) of
      None \<Rightarrow> (Inr None, w\<lparr>db := committed w\<rparr>)
    | Some r \<Rightarrow> (map_sum id Some (row_to_staff r), w\<lparr>db := committed w\<rparr>))"
  by (simp add: get_staff_by_id_def read_staff_def with_session_apply bind_io_apply split: option.splits sum.splits)

lemma on_conflict_Inr [simp]: "on_conflict m w = (Inr x, w') \<longleftrightarrow> m w = (Inr x, w')"
  by (auto simp: on_conflict_def catch_io_def split: prod.splits sum.splits exn.splits)

lemma with_session_Inr:
  "with_session m w = (Inr x, w') \<longleftrightarrow> (\<exists>w1. m (w\<lparr>db := committed w\<rparr>) = (Inr x, w1) \<and> w' = w1\<lparr>db := committed w1\<rparr>)"
  by (auto simp: with_session_apply split: prod.splits)

lemma create_staff_effect:
  assumes "create_staff name role mx tg zl w = (Inr s, w')"
  shows "\<exists>q. committed w' = (committed w)\<lparr>staff_members := staff_members (committed w) @ [q]\<rparr>
    \<and> row_to_staff q = Inr s \<and> st_active q \<and> st_name q = name \<and> st_role q = StaffRole_value role
    \<and> st_max_user_id q = mx \<and> st_telegram_user_id q = tg \<and> st_zalo_user_id q = zl
    \<and> staff_table_ok (staff_members (committed w')) \<and> pred_option int8 mx \<and> pred_option int8 tg
    \<and> db w' = committed w'"
proof -
  let ?i = "uuids w (uuid_next w)" and ?t = "staff_members (committed w)"
  let ?q = "\<lparr>st_id = ?i, st_name = name, st_role = StaffRole_value role, st_max_user_id = mx,
     st_telegram_user_id = tg, st_zalo_user_id = zl, st_active = True, st_created_at = now w\<rparr>"
  let ?d = "(committed w)\<lparr>staff_members := ?t @ [?q]\<rparr>"
  let ?w1 = "w\<lparr>uuid_next := Suc (uuid_next w), committed := ?d, db := ?d\<rparr>"
  have ins: "staff_table_ok (?t @ [?q])" "pred_option int8 mx" "pred_option int8 tg"
    and get: "get_staff_by_id ?i ?w1 = (Inr (Some s), w')"
    using assms
    by (auto simp: create_staff_def bind_io_Inr_iff with_session_Inr staff_row_fits_apply write_staff_table_def
        split: if_splits option.splits)
  have "first_where (\<lambda>r. st_id r = ?i) ?t = None"
    proof -
    have "distinct (map st_id (?t @ [?q]))" using ins(1) unfolding staff_table_ok_def by blast
    then show ?thesis by (simp add: first_where_key_None)
  qed
  then have "first_where (\<lambda>r. st_id r = ?i) (?t @ [?q]) = Some ?q"
    by (simp add: first_where_append)
  then have "row_to_staff ?q = Inr s" "committed w' = ?d" "db w' = ?d"
    using get by (cases "row_to_staff ?q"; auto simp: get_staff_by_id_first)+
  then show ?thesis using ins by (intro exI[of _ ?q]) simp
qed

text \<open>A created member is found again: the new row is appended without touching any
  other row or table, the identities stay unique, and the lookup by the MAX
  identity returns exactly the created member.\<close>

theorem create_then_find:
  assumes "create_staff name role (Some uid) tg zl w = (Inr s, w')"
  shows "find_by_max_user_id uid w' = (Inr (Some s), w') \<and> sf_role s = role
    \<and> staff_table_ok (staff_members (committed w'))
    \<and> (\<exists>q. committed w' = (committed w)\<lparr>staff_members := staff_members (committed w) @ [q]\<rparr>)"
proof -
  from create_staff_effect[OF assms] obtain q where q:
      "committed w' = (committed w)\<lparr>staff_members := staff_members (committed w) @ [q]\<rparr>"
      "row_to_staff q = Inr s" "st_active q" "st_role q = StaffRole_value role" "st_max_user_id q = Some uid"
      "staff_table_ok (staff_members (committed w'))" "pred_option int8 (Some uid)" "db w' = committed w'"
    by blast
  have "index_unique st_max_user_id (staff_members (committed w) @ [q])"
    using q(1,6) unfolding staff_table_ok_def by simp
  then have "first_where (\<lambda>r. st_max_user_id r = Some uid \<and> st_active r) (staff_members (committed w)) = None"
    using q(5) by (auto simp: index_unique_append first_where_None)
  then have "first_where (\<lambda>r. st_max_user_id r = Some uid \<and> st_active r) (staff_members (committed w')) = Some q"
    using q(1,3,5) by (simp add: first_where_append)
  moreover have "w'\<lparr>db := committed w'\<rparr> = w'" by (cases w') (use q(8) in simp)
  moreover have "find_by_max_user_id uid w' = with_session (find_one st_max_user_id uid) w'"
    using q(7) by (simp add: find_by_max_user_id_def with_session_apply bind_io_apply check_int8_apply)
  moreover have "sf_role s = role"
    using q(2,4) by (auto simp: row_to_staff_def split: sum.splits)
  ultimately show ?thesis
    using q(1,2,6) by (auto simp: find_one_first)
qed

lemma create_then_find_witness:
  "\<exists>s w'. create_staff ''Kim'' StaffRole.courier (Some 50) None None sample_world = (Inr s, w')
     \<and> find_by_max_user_id 50 w' = (Inr (Some s), w')"
proof -
  have "\<not> isl (fst (create_staff ''Kim'' StaffRole.courier (Some 50) None None sample_world))" by code_simp
  then obtain s w' where c: "create_staff ''Kim'' StaffRole.courier (Some 50) None None sample_world = (Inr s, w')"
    by (metis isl_def prod.collapse sum.exhaust_sel)
  then show ?thesis using create_then_find[OF c] by blast
qed

text \<open>An update of a row that exists: the same row with the given fields, in the same place.\<close>

definition row_updated :: "uuid \<Rightarrow> string \<Rightarrow> json \<Rightarrow> world \<Rightarrow> staff_row \<Rightarrow> staff_row \<Rightarrow> world \<Rightarrow> bool" where
  "row_updated i k v w q q' w' \<longleftrightarrow>
     first_where (\<lambda>r. st_id r = i) (staff_members (committed w)) = Some q
   \<and> set_staff_field k v q = Inr q'
   \<and> committed w' = (committed w)\<lparr>staff_members :=
        update_where (\<lambda>r. st_id r = i) (\<lambda>_. q') (staff_members (committed w))\<rparr>
   \<and> staff_table_ok (staff_members (committed w'))"

lemma update_staff_row_effect:
  assumes "update_staff_row i [(k, v)] w = (Inr found, w')"
  shows "if found then \<exists>q q'. row_updated i k v w q q' w'
    else committed w' = committed w \<and> first_where (\<lambda>r. st_id r = i) (staff_members (committed w)) = None"
  using assms
  by (auto simp: update_staff_row_def row_updated_def bind_io_Inr_iff with_session_Inr staff_row_fits_apply
      write_staff_table_def split: option.splits if_splits sum.splits)

lemma set_staff_field_id: "set_staff_field k v q = Inr q' \<Longrightarrow> st_id q' = st_id q"
  by (auto simp: set_staff_field_def text_param_def bool_param_def bigint_param_def opt_text_param_def
      split: json.splits sum.splits if_splits)

lemma update_staff_split:
  assumes "update_staff i [(k, v)] w = (Inr y, w')" "k \<in> set UPDATABLE_FIELDS" "k \<noteq> ''role''"
  obtains found w1 where "update_staff_row i [(k, v)] w = (Inr found, w1)"
    "(if found then get_staff_by_id i else ret None) w1 = (Inr y, w')"
  using assms by (auto simp: update_staff_def normalize_role_def bind_io_Inr_iff)

lemma first_where_replaced:
  "first_where p t = Some q \<Longrightarrow> p q' \<Longrightarrow> first_where p (update_where p (\<lambda>_. q') t) = Some q'"
  by (induction t) (auto split: if_splits)

lemma update_staff_effect:
  assumes "update_staff i [(k, v)] w = (Inr y, w')" "k \<in> set UPDATABLE_FIELDS" "k \<noteq> ''role''"
  shows "case y of
      None \<Rightarrow> committed w' = committed w \<and> first_where (\<lambda>r. st_id r = i) (staff_members (committed w)) = None
    | Some s \<Rightarrow> (\<exists>q q'. row_updated i k v w q q' w' \<and> row_to_staff q' = Inr s)"
proof -
  let ?t = "staff_members (committed w)"
  obtain found w1 where body: "update_staff_row i [(k, v)] w = (Inr found, w1)"
    and get: "(if found then get_staff_by_id i else ret None) w1 = (Inr y, w')"
    using update_staff_split[OF assms] by blast
  show ?thesis
  proof (cases found)
    case True
    then obtain q q' where q: "row_updated i k v w q q' w1"
      using update_staff_row_effect[OF body] by auto
    have "st_id q' = i"
      using q first_where_Some[of "\<lambda>r. st_id r = i" ?t q] set_staff_field_id by (auto simp: row_updated_def)
    then have "first_where (\<lambda>r. st_id r = i) (update_where (\<lambda>q. st_id q = i) (\<lambda>_. q') ?t) = Some q'"
      using q by (auto simp: row_updated_def intro: first_where_replaced)
    then have "get_staff_by_id i w1 = (map_sum id Some (row_to_staff q'), w1\<lparr>db := committed w1\<rparr>)"
      using q by (simp add: get_staff_by_id_first row_updated_def)
    then obtain s where "row_to_staff q' = Inr s" "y = Some s" "committed w' = committed w1"
      using get True by (cases "row_to_staff q'") auto
    then show ?thesis using q by (auto simp: row_updated_def)
  qed (use get update_staff_row_effect[OF body] in auto)
qed

text \<open>C38. Deactivating a member locks the member out: after the row was set inactive, no
  call of the MAX webhook whose sender is that identity changes the committed
  database, whatever it carries.\<close>

theorem deactivated_member_locked_out:
  assumes "update_staff i [(''active'', JBool False)] w = (Inr (Some s), w')" "sf_max_user_id s = Some uid"
    and "json_loads pf body = Inr (JObj update)" "json_get ''callback'' update = JObj cb"
    and "fst (callback_sender (JObj cb) w') = Inr (Some uid)"
  shows "committed (snd (max_webhook pf secret body w')) = committed w'"
proof (rule ccontr)
  assume "committed (snd (max_webhook pf secret body w')) \<noteq> committed w'"
  from max_webhook_gate[OF this] assms(3-5) obtain q :: staff_row where
    q: "q \<in> set (staff_members (committed w'))" "st_max_user_id q = Some uid" "st_active q"
    by auto
  from update_staff_effect[OF assms(1)] obtain p p' where
    upd: "row_updated i ''active'' (JBool False) w p p' w'" and row: "row_to_staff p' = Inr s"
    by (auto simp: UPDATABLE_FIELDS_def)
  have p': "st_max_user_id p' = Some uid" "\<not> st_active p'"
    using upd row assms(2) by (auto simp: row_updated_def set_staff_field_def bool_param_def dest: row_to_staff_Inr)
  have "p' \<in> set (staff_members (committed w'))"
    using upd first_where_Some[of "\<lambda>r. st_id r = i" "staff_members (committed w)" p]
    by (auto simp: row_updated_def in_update_where)
  then have "p' = q"
    using index_unique_same[of st_max_user_id "staff_members (committed w')" p' q uid] upd p'(1) q
    unfolding staff_table_ok_def row_updated_def by blast
  then show False using p'(2) q(3) by simp
qed

definition after_admin_left :: world where
  "after_admin_left = snd (update_staff ''s-admin'' [(''active'', JBool False)] sample_world)"

lemma deactivated_member_locked_out_witness:
  "committed (snd (max_webhook channel_platform (Some ''secret'') ''admin'' after_admin_left)) = committed after_admin_left
   \<and> committed (snd (max_webhook channel_platform (Some ''secret'') ''admin'' sample_world)) \<noteq> committed sample_world"
proof -
  let ?cb = "[(''callback_id'', JStr ''cb''), (''user'', JObj [(''user_id'', JInt 3)]), (''payload'', JStr ''cancel'')]"
  have "map_sum (\<lambda>_. ()) (map_option sf_max_user_id) (fst (update_staff ''s-admin'' [(''active'', JBool False)] sample_world))
      = Inr (Some (Some 3))"
    by code_simp
  then obtain s where s: "fst (update_staff ''s-admin'' [(''active'', JBool False)] sample_world) = Inr (Some s)"
      "sf_max_user_id s = Some 3"
    by (cases "fst (update_staff ''s-admin'' [(''active'', JBool False)] sample_world)") auto
  have u: "update_staff ''s-admin'' [(''active'', JBool False)] sample_world = (Inr (Some s), after_admin_left)"
    using s(1) by (simp add: after_admin_left_def prod_eq_iff)
  have "committed (snd (max_webhook channel_platform (Some ''secret'') ''admin'' after_admin_left)) = committed after_admin_left"
    by (rule deactivated_member_locked_out[OF u s(2), where cb = ?cb
          and update = "[(''update_type'', JStr ''message_callback''), (''callback'', JObj ?cb)]"])
      (simp_all add: channel_platform_def press_def callback_sender_def bind_io_apply)
  moreover have "committed (snd (max_webhook channel_platform (Some ''secret'') ''admin'' sample_world)) \<noteq> committed sample_world"
    using admin_press_cancels sample_states(1) by auto
  ultimately show ?thesis by blast
qed

section \<open>Withdrawn consent\<close>

lemma clear_client_zalo_uid_effect:
  assumes "clear_client_zalo_uid uid v = (Inr m, w')"
  shows "orders (committed w') = update_where (\<lambda>r. o_client_zalo_uid r = Some uid)
        (\<lambda>r. r\<lparr>o_client_zalo_uid := None\<rparr>) (orders (committed v)) \<and> staff_members (committed w') = staff_members (committed v)"
  using assms by (auto simp: clear_client_zalo_uid_def with_session_Inr bind_io_Inr_iff)

lemma unlink_member:
  assumes "update_staff sid [(''zalo_user_id'', JNull)] (w\<lparr>db := committed w\<rparr>) = (Inr y, w2)"
    and "staff_table_ok (staff_members (committed w))"
    and "q \<in> set (staff_members (committed w))" "st_zalo_user_id q = Some uid" "st_id q = sid"
  shows "orders (committed w2) = orders (committed w)
    \<and> (\<nexists>q. q \<in> set (staff_members (committed w2)) \<and> st_active q \<and> st_zalo_user_id q = Some uid)"
proof -
  let ?t = "staff_members (committed w)"
  have ids: "key_unique st_id ?t" and zalo: "index_unique st_zalo_user_id ?t"
    using assms(2) by (auto simp: staff_table_ok_def key_unique_def)
  have "first_where (\<lambda>r. st_id r = sid) ?t \<noteq> None"
    using assms(3,5) by (auto simp: first_where_None)
  then obtain p p' where upd: "row_updated sid ''zalo_user_id'' JNull w p p' w2"
    using update_staff_effect[OF assms(1)]
    by (auto simp: UPDATABLE_FIELDS_def row_updated_def split: option.splits)
  have "st_zalo_user_id p' = None"
    using upd by (auto simp: row_updated_def set_staff_field_def opt_text_param_def)
  moreover have "st_id r = sid" if "r \<in> set ?t" "st_zalo_user_id r = Some uid" for r
    using index_unique_same[OF zalo that(1) assms(3) that(2) assms(4)] assms(5) by simp
  ultimately show ?thesis
    using upd by (auto simp: row_updated_def in_update_where split: if_splits)
qed

text \<open>C39. A processed withdrawal of consent leaves no order and no active staff row with
  the Zalo identity, and changes nothing else in the orders.\<close>

theorem revoked_identity_cleared:
  assumes "zalo_revoke_consent pf payload w = (Inr n, w')"
    and "json_get ''event'' payload = JStr ''user.revoke.consent''" "json_get ''userId'' payload = JStr uid" "uid \<noteq> []"
    and "staff_table_ok (staff_members (committed w))"
  shows "orders (committed w') = update_where (\<lambda>r. o_client_zalo_uid r = Some uid)
      (\<lambda>r. r\<lparr>o_client_zalo_uid := None\<rparr>) (orders (committed w))
    \<and> (\<nexists>q. q \<in> set (staff_members (committed w')) \<and> st_active q \<and> st_zalo_user_id q = Some uid)"
proof -
  let ?t = "staff_members (committed w)"
  obtain x w1 where f: "find_by_zalo_user_id uid w = (x, w1)" by fastforce
  have fx: "(x, w1) = (case first_where (\<lambda>r. st_zalo_user_id r = Some uid \<and> st_active r) ?t of
      None \<Rightarrow> (Inr None, w\<lparr>db := committed w\<rparr>)
    | Some r \<Rightarrow> (map_sum id Some (row_to_staff r), w\<lparr>db := committed w\<rparr>))"
    using f by (simp add: find_by_zalo_user_id_def find_one_first)
  show ?thesis
  proof (cases "first_where (\<lambda>r. st_zalo_user_id r = Some uid \<and> st_active r) ?t")
    case None
    then have w1: "x = Inr None" "w1 = w\<lparr>db := committed w\<rparr>" using fx by simp_all
    then obtain m where "clear_client_zalo_uid uid w1 = (Inr m, w')"
      using assms(1-4) f by (auto simp: zalo_revoke_consent_def bind_io_Inr_iff)
    then show ?thesis using clear_client_zalo_uid_effect[of uid w1] w1 None by (auto simp: first_where_None)
  next
    case (Some q)
    then obtain s where s: "row_to_staff q = Inr s" "x = Inr (Some s)" "w1 = w\<lparr>db := committed w\<rparr>"
      using assms(1-4) f fx by (cases "row_to_staff q") (auto simp: zalo_revoke_consent_def bind_io_Inr_iff)
    then obtain y w2 m where up: "update_staff (sf_id s) [(''zalo_user_id'', JNull)] w1 = (Inr y, w2)"
      and cl: "clear_client_zalo_uid uid w2 = (Inr m, w')"
      using assms(1-4) f by (auto simp: zalo_revoke_consent_def bind_io_Inr_iff)
    have q: "q \<in> set ?t" "st_zalo_user_id q = Some uid" "st_id q = sf_id s"
      using first_where_Some[OF Some] row_to_staff_Inr[OF s(1)] by auto
    show ?thesis
      using clear_client_zalo_uid_effect[OF cl] unlink_member[OF up[unfolded s(3)] assms(5) q] by simp
  qed
qed

definition consent_db :: "bool \<Rightarrow> database" where
  "consent_db active' = sample_db\<lparr>
     orders := map (\<lambda>r. r\<lparr>o_client_zalo_uid := Some ''z7''\<rparr>) (orders sample_db),
     staff_members := [(sample_staff ''s-courier'' StaffRole.courier 2)
       \<lparr>st_zalo_user_id := Some ''z7'', st_active := active'\<rparr>]\<rparr>"

definition consent_world :: "bool \<Rightarrow> world" where
  "consent_world active' = sample_world\<lparr>db := consent_db active', committed := consent_db active'\<rparr>"

lemma revoked_identity_cleared_witness:
  "\<exists>w'. zalo_revoke_consent channel_platform
      [(''event'', JStr ''user.revoke.consent''), (''userId'', JStr ''z7'')] (consent_world True) = (Inr 200, w')
    \<and> (\<nexists>q. q \<in> set (staff_members (committed w')) \<and> st_active q \<and> st_zalo_user_id q = Some ''z7'')"
proof -
  let ?p = "[(''event'', JStr ''user.revoke.consent''), (''userId'', JStr ''z7'')]"
  have "fst (zalo_revoke_consent channel_platform ?p (consent_world True)) = Inr 200" by code_simp
  then obtain w' where r: "zalo_revoke_consent channel_platform ?p (consent_world True) = (Inr 200, w')"
    by (metis prod.collapse)
  moreover have "staff_table_ok (staff_members (committed (consent_world True)))" by code_simp
  ultimately show ?thesis using revoked_identity_cleared[OF r, of "''z7''"] by simp
qed

text \<open>The lookup behind the withdrawal sees active rows only: the identity of a member
  who was deactivated before stays in the staff table although the webhook
  acknowledges the withdrawal of a validly signed request.\<close>

theorem revoked_id_survives:
  "fst (zalo_events_webhook channel_platform (Some ''yekz7ztn'') ''revoke'' (consent_world False)) = Inr 200
   \<and> map st_zalo_user_id (staff_members (committed (snd
       (zalo_events_webhook channel_platform (Some ''yekz7ztn'') ''revoke'' (consent_world False))))) = [Some ''z7'']
   \<and> map o_client_zalo_uid (orders (committed (snd
       (zalo_events_webhook channel_platform (Some ''yekz7ztn'') ''revoke'' (consent_world False)))))
       = [None, None, None, None]"
  by code_simp

end
