(* ===== verification/Agent_Core.thy ===== *)
theory Agent_Core
  imports Order_Service
begin

text \<open>
  The two-phase convention of the agents (app/agents): a collect phase turns an
  instruction into a structured command through a language model and writes
  nothing, an apply phase validates a command and writes it in one session. The
  agents repeat the same two methods with their own program and tools; the
  methods are defined here once, parameterised by those, and the locales state
  what a set of tools has to promise for the phases to keep their contract.
\<close>

section \<open>Results\<close>

record AgentResult =
  agr_success :: bool
  agr_command :: "json option"
  agr_raw_output :: "string option"
  agr_error :: "string option"

record ApplyResult =
  apr_applied :: bool
  apr_result :: "json option"
  apr_error :: "string option"
  apr_trace_id :: string

text \<open>The first text that is not empty, as the \<open>or\<close> chains of the code pick it.\<close>

definition first_text :: "string option \<Rightarrow> string \<Rightarrow> string" where
  "first_text t alt = (case t of Some s \<Rightarrow> if s = [] then alt else s | None \<Rightarrow> alt)"

definition step_text :: "platform \<Rightarrow> trace \<Rightarrow> string \<Rightarrow> string option" where
  "step_text pf tr sid = (case map_of (trace_steps tr) sid of
       Some v \<Rightarrow> if py_truthy v then Some (py_str (repr_of pf) v) else None
     | None \<Rightarrow> None)"

section \<open>Rejections\<close>

text \<open>A validator returns 1, or 0 after it left a reason in the side channel.\<close>

definition accept_command :: "(world, json) io" where
  "accept_command = ret (JInt 1)"

definition reject_command :: "string \<Rightarrow> (world, json) io" where
  "reject_command why = bind_io (modify_io (\<lambda>w. w\<lparr>diagnostics := Some why\<rparr>)) (\<lambda>_. ret (JInt 0))"

lemma accept_apply [simp]: "accept_command w = (Inr (JInt 1), w)"
  by (simp add: accept_command_def)

lemma reject_apply [simp]: "reject_command why w = (Inr (JInt 0), w\<lparr>diagnostics := Some why\<rparr>)"
  by (simp add: reject_command_def bind_io_apply)

lemma pred_option_code [code]: "pred_option P None \<longleftrightarrow> True" "pred_option P (Some x) \<longleftrightarrow> P x"
  by simp_all

section \<open>Computations that only read, and verdicts\<close>

definition reads :: "(world, 'a) io \<Rightarrow> bool" where
  "reads m \<longleftrightarrow> (\<forall>w. snd (m w) = w)"

text \<open>A verdict is 0 or 1 (or an exception) and changes nothing but the reason.\<close>

definition verdict :: "(world, json) io \<Rightarrow> bool" where
  "verdict m \<longleftrightarrow> (\<forall>w. \<exists>d. snd (m w) = w\<lparr>diagnostics := d\<rparr>
     \<and> (\<forall>j. fst (m w) = Inr j \<longrightarrow> j = JInt 0 \<or> j = JInt 1))"

named_theorems verdict_intros "computations that only read and verdicts"

lemma reads_basic [verdict_intros]:
  "reads (ret x)" "reads (raise e)" "reads (select_db f)" "reads (gets_io g)" "reads (lift_result r)"
  by (simp_all add: reads_def)

lemma reads_bind [verdict_intros]: "reads m \<Longrightarrow> (\<And>x. reads (k x)) \<Longrightarrow> reads (bind_io m k)"
  by (auto simp: reads_def bind_io_def split: prod.splits sum.splits) (metis snd_conv)+

lemma reads_branch [verdict_intros]:
  "reads m \<Longrightarrow> reads n \<Longrightarrow> reads (if b then m else n)"
  "reads m \<Longrightarrow> (\<And>y. reads (k y)) \<Longrightarrow> reads (case x of None \<Rightarrow> m | Some y \<Rightarrow> k y)"
  "reads m \<Longrightarrow> (\<And>y ys. reads (h y ys)) \<Longrightarrow> reads (case l of [] \<Rightarrow> m | y # ys \<Rightarrow> h y ys)"
  "(\<And>e. reads (f e)) \<Longrightarrow> (\<And>y. reads (g y)) \<Longrightarrow> reads (case r of Inl e \<Rightarrow> f e | Inr y \<Rightarrow> g y)"
  by (auto split: option.splits list.splits sum.splits)

lemma reads_no_commit: "reads m \<Longrightarrow> no_commit m"
  by (simp add: reads_def no_commit_def)

lemma readsD: "reads m \<Longrightarrow> m w = (r, w') \<Longrightarrow> w' = w"
  by (metis reads_def snd_conv)

lemma same_diagnostics: "\<exists>d. w = w\<lparr>diagnostics := d\<rparr>"
  by (rule exI[of _ "diagnostics w"]) simp

lemma bind_reads_Inr:
  "reads m \<Longrightarrow> bind_io m k w = (Inr y, w') \<longleftrightarrow> (\<exists>x. fst (m w) = Inr x \<and> k x w = (Inr y, w'))"
  by (auto simp: reads_def bind_io_def split: prod.splits sum.splits) (metis snd_conv)+

lemma verdict_basic [verdict_intros]: "verdict accept_command" "verdict (reject_command why)" "verdict (raise e)"
  by (auto simp: verdict_def same_diagnostics)

lemma verdict_bind [verdict_intros]: "reads m \<Longrightarrow> (\<And>x. verdict (k x)) \<Longrightarrow> verdict (bind_io m k)"
proof -
  assume m: "reads m" and k: "\<And>x. verdict (k x)"
  have "\<exists>d. snd (bind_io m k w) = w\<lparr>diagnostics := d\<rparr> \<and> (\<forall>j. fst (bind_io m k w) = Inr j \<longrightarrow> j = JInt 0 \<or> j = JInt 1)" for w
  proof (cases "m w")
    case (Pair r w1)
    then have "w1 = w" using m readsD by blast
    then show ?thesis
      using Pair k by (cases r) (auto simp: verdict_def same_diagnostics)
  qed
  then show ?thesis by (simp add: verdict_def)
qed

lemma verdict_branch [verdict_intros]:
  "verdict m \<Longrightarrow> verdict n \<Longrightarrow> verdict (if b then m else n)"
  "verdict m \<Longrightarrow> (\<And>y. verdict (k y)) \<Longrightarrow> verdict (case x of None \<Rightarrow> m | Some y \<Rightarrow> k y)"
  "(\<And>e. verdict (f e)) \<Longrightarrow> (\<And>y. verdict (g y)) \<Longrightarrow> verdict (case r of Inl e \<Rightarrow> f e | Inr y \<Rightarrow> g y)"
  "verdict m \<Longrightarrow> (\<And>y ys. verdict (h y ys)) \<Longrightarrow> verdict (case l of [] \<Rightarrow> m | y # ys \<Rightarrow> h y ys)"
  by (auto split: option.splits sum.splits list.splits)

lemma verdictD: "verdict m \<Longrightarrow> m w = (r, w') \<Longrightarrow>
    (\<exists>d. w' = w\<lparr>diagnostics := d\<rparr>) \<and> (\<forall>j. r = Inr j \<longrightarrow> j = JInt 0 \<or> j = JInt 1)"
  by (metis fst_conv snd_conv verdict_def)

text \<open>Elimination rules that walk through a computation that returned.\<close>

named_theorems io_elims "a computation that returned, step by step"

lemma bind_ioE [io_elims]:
  "bind_io m k w = (Inr y, w') \<Longrightarrow> (\<And>x w1. m w = (Inr x, w1) \<Longrightarrow> k x w1 = (Inr y, w') \<Longrightarrow> P) \<Longrightarrow> P"
  by (auto simp: bind_io_Inr_iff)

lemma io_basicE [io_elims]:
  "ret x w = (Inr y, w') \<Longrightarrow> (y = x \<Longrightarrow> w' = w \<Longrightarrow> P) \<Longrightarrow> P"
  "raise e w = (Inr y, w') \<Longrightarrow> P"
  "select_db f w = (Inr y, w') \<Longrightarrow> (y = f (db w) \<Longrightarrow> w' = w \<Longrightarrow> P) \<Longrightarrow> P"
  "gets_io g w = (Inr y, w') \<Longrightarrow> (y = g w \<Longrightarrow> w' = w \<Longrightarrow> P) \<Longrightarrow> P"
  "lift_result r w = (Inr y, w') \<Longrightarrow> (r = Inr y \<Longrightarrow> w' = w \<Longrightarrow> P) \<Longrightarrow> P"
  "new_uuid w = (Inr y, w') \<Longrightarrow> (y = uuids w (uuid_next w) \<Longrightarrow> w' = w\<lparr>uuid_next := Suc (uuid_next w)\<rparr> \<Longrightarrow> P) \<Longrightarrow> P"
  "update_db h w = (Inr u, w') \<Longrightarrow> (w' = w\<lparr>db := h (db w)\<rparr> \<Longrightarrow> P) \<Longrightarrow> P"
  unfolding ret_apply raise_apply select_db_apply gets_io_apply lift_result_apply new_uuid_apply update_db_apply
  by blast+

lemma io_checkE [io_elims]:
  "check_int4 n w = (Inr u, w') \<Longrightarrow> (int4 n \<Longrightarrow> w' = w \<Longrightarrow> P) \<Longrightarrow> P"
  "check_varchar m s w = (Inr u, w') \<Longrightarrow> (length s \<le> m \<Longrightarrow> w' = w \<Longrightarrow> P) \<Longrightarrow> P"
  "check_opt check_int4 v w = (Inr u, w') \<Longrightarrow> (pred_option int4 v \<Longrightarrow> w' = w \<Longrightarrow> P) \<Longrightarrow> P"
  "check_opt (check_varchar m) t w = (Inr u, w') \<Longrightarrow> (pred_option (\<lambda>s. length s \<le> m) t \<Longrightarrow> w' = w \<Longrightarrow> P) \<Longrightarrow> P"
  by (auto simp: check_Inr_iff check_opt_apply split: if_splits)

lemma io_ifE [io_elims]:
  "(if b then m else n) w = (Inr y, w') \<Longrightarrow> (b \<Longrightarrow> m w = (Inr y, w') \<Longrightarrow> P) \<Longrightarrow> (\<not> b \<Longrightarrow> n w = (Inr y, w') \<Longrightarrow> P) \<Longrightarrow> P"
  by (cases b) simp_all

lemma io_optionE [io_elims]:
  "(case x of None \<Rightarrow> m | Some z \<Rightarrow> k z) w = (Inr y, w') \<Longrightarrow> (x = None \<Longrightarrow> m w = (Inr y, w') \<Longrightarrow> P) \<Longrightarrow>
     (\<And>z. x = Some z \<Longrightarrow> k z w = (Inr y, w') \<Longrightarrow> P) \<Longrightarrow> P"
  by (cases x) simp_all

lemma io_listE [io_elims]:
  "(case l of [] \<Rightarrow> m | z # zs \<Rightarrow> h z zs) w = (Inr y, w') \<Longrightarrow> (l = [] \<Longrightarrow> m w = (Inr y, w') \<Longrightarrow> P) \<Longrightarrow>
     (\<And>z zs. l = z # zs \<Longrightarrow> h z zs w = (Inr y, w') \<Longrightarrow> P) \<Longrightarrow> P"
  by (cases l) simp_all

lemma io_pairE [io_elims]:
  "(case p of (a, b) \<Rightarrow> q a b) w = (Inr y, w') \<Longrightarrow> (\<And>a b. p = (a, b) \<Longrightarrow> q a b w = (Inr y, w') \<Longrightarrow> P) \<Longrightarrow> P"
  by (cases p) simp_all

lemma io_sumE [io_elims]:
  "(case r of Inl e \<Rightarrow> f e | Inr z \<Rightarrow> g z) w = (Inr y, w') \<Longrightarrow> (\<And>e. r = Inl e \<Longrightarrow> f e w = (Inr y, w') \<Longrightarrow> P) \<Longrightarrow>
     (\<And>z. r = Inr z \<Longrightarrow> g z w = (Inr y, w') \<Longrightarrow> P) \<Longrightarrow> P"
  by (cases r) simp_all

text \<open>A property of the values a computation returns.\<close>

definition yields :: "('a \<Rightarrow> bool) \<Rightarrow> (world, 'a) io \<Rightarrow> bool" where
  "yields P m \<longleftrightarrow> (\<forall>w x w'. m w = (Inr x, w') \<longrightarrow> P x)"

lemma yieldsD: "yields P m \<Longrightarrow> m w = (Inr x, w') \<Longrightarrow> P x"
  by (auto simp: yields_def)

named_theorems yields_intros "properties of returned values"

lemma yields_basic [yields_intros]: "P x \<Longrightarrow> yields P (ret x)" "yields P (raise e)"
  by (simp_all add: yields_def)

lemma yields_bind [yields_intros]: "(\<And>x. yields P (k x)) \<Longrightarrow> yields P (bind_io m k)"
  by (auto simp: yields_def bind_io_Inr_iff)

lemma yields_branch [yields_intros]:
  "yields P m \<Longrightarrow> yields P n \<Longrightarrow> yields P (if b then m else n)"
  "yields P m \<Longrightarrow> (\<And>y. yields P (k y)) \<Longrightarrow> yields P (case x of None \<Rightarrow> m | Some y \<Rightarrow> k y)"
  "yields P m \<Longrightarrow> (\<And>y ys. yields P (h y ys)) \<Longrightarrow> yields P (case l of [] \<Rightarrow> m | y # ys \<Rightarrow> h y ys)"
  "(\<And>e. yields P (f e)) \<Longrightarrow> (\<And>y. yields P (g y)) \<Longrightarrow> yields P (case r of Inl e \<Rightarrow> f e | Inr y \<Rightarrow> g y)"
  by (auto split: option.splits list.splits sum.splits)

lemma yields_json [yields_intros]:
  "yields P a \<Longrightarrow> (\<And>x. yields P (f1 x)) \<Longrightarrow> (\<And>x. yields P (f2 x)) \<Longrightarrow> (\<And>x. yields P (f3 x)) \<Longrightarrow>
     (\<And>x. yields P (f4 x)) \<Longrightarrow> (\<And>x. yields P (f5 x)) \<Longrightarrow> (\<And>x. yields P (f6 x)) \<Longrightarrow>
     yields P (case v of JNull \<Rightarrow> a | JBool x \<Rightarrow> f1 x | JInt x \<Rightarrow> f2 x | JFloat x \<Rightarrow> f3 x | JStr x \<Rightarrow> f4 x
       | JList x \<Rightarrow> f5 x | JObj x \<Rightarrow> f6 x)"
  by (cases v) simp_all

section \<open>Reading a command\<close>

definition nonblank_text :: "json \<Rightarrow> string option" where
  "nonblank_text v = (case v of JStr s \<Rightarrow> if py_strip s = [] then None else Some s | _ \<Rightarrow> None)"

definition squoted :: "string \<Rightarrow> string" where
  "squoted s = CHR 0x27 # s @ [CHR 0x27]"

text \<open>A text field that may be null but not blank.\<close>

definition optional_text :: "json \<Rightarrow> string option option" where
  "optional_text v = (case v of
       JNull \<Rightarrow> Some None
     | JStr s \<Rightarrow> if py_strip s = [] then None else Some (Some s)
     | _ \<Rightarrow> None)"

definition in_texts :: "json \<Rightarrow> string list \<Rightarrow> bool" where
  "in_texts v xs = (case v of JStr s \<Rightarrow> s \<in> set xs | _ \<Rightarrow> False)"

definition assert_some :: "'a option \<Rightarrow> (world, 'a) io" where
  "assert_some v = (case v of None \<Rightarrow> raise (AssertionError []) | Some x \<Rightarrow> ret x)"

definition quoted :: "platform \<Rightarrow> string \<Rightarrow> string" where
  "quoted pf s = repr_of pf (JStr s)"

definition assert_text :: "string option \<Rightarrow> (world, string) io" where
  "assert_text v = (case v of None \<Rightarrow> raise (AssertionError []) | Some s \<Rightarrow> ret s)"

definition command_arg :: "kwargs \<Rightarrow> (world, json) io" where
  "command_arg kw = (case map_of kw ''command'' of None \<Rightarrow> raise (TypeError ''command'') | Some v \<Rightarrow> ret v)"

text \<open>name = COALESCE(:name, name) and so on.\<close>

definition coalesce :: "'a option \<Rightarrow> 'a \<Rightarrow> 'a" where
  "coalesce v old = (case v of None \<Rightarrow> old | Some x \<Rightarrow> x)"

definition int_param :: "json \<Rightarrow> int option" where
  "int_param v = (case v of JInt n \<Rightarrow> Some n | _ \<Rightarrow> None)"

text \<open>
  The validators of the agents start alike: no text, a text that is not JSON, a
  value that is not a command. \<open>json.loads\<close> on a text raises nothing but ValueError.
\<close>

definition validate_text ::
  "platform \<Rightarrow> string \<Rightarrow> string \<Rightarrow> (json \<Rightarrow> string option) \<Rightarrow> world tool" where
  "validate_text pf blank garbled judge kw = (case map_of kw ''llm_output'' of
       Some (JStr s) \<Rightarrow>
         if py_strip s = [] then reject_command blank
         else (case json_loads pf s of
             Inl _ \<Rightarrow> reject_command garbled
           | Inr data \<Rightarrow> (case judge data of None \<Rightarrow> accept_command | Some why \<Rightarrow> reject_command why))
     | Some v \<Rightarrow> if py_truthy v then raise (AttributeError ''strip'') else reject_command blank
     | None \<Rightarrow> raise (TypeError ''llm_output''))"

definition text_accepted :: "platform \<Rightarrow> (json \<Rightarrow> string option) \<Rightarrow> string \<Rightarrow> bool" where
  "text_accepted pf judge t \<longleftrightarrow> py_strip t \<noteq> [] \<and> (case json_loads pf t of Inl _ \<Rightarrow> False | Inr v \<Rightarrow> judge v = None)"

text \<open>A validator of texts that accepts exactly \<open>acc\<close>, and changes nothing but the reason.\<close>

definition judges :: "world tool \<Rightarrow> (string \<Rightarrow> bool) \<Rightarrow> bool" where
  "judges f acc \<longleftrightarrow> (\<forall>t w. \<exists>d. f [(''llm_output'', JStr t)] w =
     (Inr (JInt (if acc t then 1 else 0)), w\<lparr>diagnostics := d\<rparr>))"

lemma judges_validate_text [simp]: "judges (validate_text pf blank garbled judge) (text_accepted pf judge)"
  unfolding judges_def
proof (intro allI)
  fix t w
  show "\<exists>d. validate_text pf blank garbled judge [(''llm_output'', JStr t)] w =
      (Inr (JInt (if text_accepted pf judge t then 1 else 0)), w\<lparr>diagnostics := d\<rparr>)"
  proof (cases "py_strip t = []")
    case False
    show ?thesis
    proof (cases "json_loads pf t")
      case (Inr v)
      then show ?thesis
        using False by (cases "judge v") (simp_all add: validate_text_def text_accepted_def same_diagnostics, blast)
    qed (use False in \<open>simp add: validate_text_def text_accepted_def, blast\<close>)
  qed (simp add: validate_text_def text_accepted_def, blast)
qed

lemma reads_command [verdict_intros]: "reads (command_arg kw)" "reads (assert_text v)" "reads (assert_some x)"
  unfolding command_arg_def assert_text_def assert_some_def by (intro verdict_intros)+

lemma assertE [io_elims]:
  "assert_text v w = (Inr s, w') \<Longrightarrow> (v = Some s \<Longrightarrow> w' = w \<Longrightarrow> P) \<Longrightarrow> P"
  "assert_some x w = (Inr y, w') \<Longrightarrow> (x = Some y \<Longrightarrow> w' = w \<Longrightarrow> P) \<Longrightarrow> P"
  by (auto simp: assert_text_def assert_some_def split: option.splits)

lemma command_arg_simps [simp]: "command_arg [(''command'', v)] = ret v"
  by (simp add: command_arg_def)

lemma assert_text_simps [simp]: "assert_text (Some s) = ret s"
  by (simp add: assert_text_def)

section \<open>The collect phase\<close>

definition collect_program :: "string \<Rightarrow> string \<Rightarrow> string \<Rightarrow> program" where
  "collect_program name vtool ctool = \<lparr>program_name = name, program_steps =
     [LlmStep ''process_input'' ''llm_output'' (Some ''validate_command''),
      ToolStep ''validate_command'' vtool [(''llm_output'', OutputOf ''process_input'')]
        ''validation_result'' (Some ''check_valid''),
      ConditionStep ''check_valid'' ''validate_command'' (Less_Than 1) ''validation_failed'' ''confirm_command'',
      ToolStep ''confirm_command'' ctool [(''command'', OutputOf ''process_input'')] ''agent_result'' None,
      ToolStep ''validation_failed'' ''report_collect_failure'' [(''reason'', OutputOf ''validate_command'')]
        ''fail_result'' None]\<rparr>"

definition collect_outcome :: "platform \<Rightarrow> trace \<Rightarrow> string option \<Rightarrow> AgentResult" where
  "collect_outcome pf tr rsn =
     (let failed = (\<lambda>e. \<lparr>agr_success = False, agr_command = None, agr_raw_output = None, agr_error = Some e\<rparr>)
      in if trace_status tr \<noteq> trace_status.SUCCESS then failed (first_text (trace_error tr) ''Agent execution failed'')
         else case step_text pf tr ''confirm_command'' of
             Some raw \<Rightarrow>
               \<lparr>agr_success = True,
                agr_command = (case json_loads pf raw of Inr v \<Rightarrow> Some v | Inl _ \<Rightarrow> None),
                agr_raw_output = Some raw, agr_error = None\<rparr>
           | None \<Rightarrow>
               if map_of (trace_steps tr) ''validation_failed'' \<noteq> None
               then failed (first_text rsn (first_text (step_text pf tr ''validation_failed'') ''Command validation failed''))
               else failed (first_text rsn ''No command output in trace''))"

definition collect_command ::
  "platform \<Rightarrow> (string \<Rightarrow> world tool option) \<Rightarrow> program \<Rightarrow> kwargs \<Rightarrow> (world, AgentResult) io" where
  "collect_command pf tools p ctx =
     bind_io (modify_io (\<lambda>w. w\<lparr>diagnostics := None\<rparr>)) (\<lambda>_.
       if \<not> validates pf p then raise (RuntimeError (program_name p))
       else bind_io (run_program pf tools p ctx) (\<lambda>tr.
            bind_io (gets_io diagnostics) (\<lambda>rsn. ret (collect_outcome pf tr rsn))))"

text \<open>The terminal tools of the collect programs.\<close>

definition pass_command :: "world tool" where
  "pass_command kw = (case map_of kw ''command'' of None \<Rightarrow> raise (TypeError ''command'') | Some v \<Rightarrow> ret v)"

definition report_failure :: "platform \<Rightarrow> string \<Rightarrow> world tool" where
  "report_failure pf prefix' kw = (case map_of kw ''reason'' of
       None \<Rightarrow> raise (TypeError ''reason'')
     | Some v \<Rightarrow> ret (JStr (prefix' @ py_str (repr_of pf) v)))"

definition report_collect_failure :: "platform \<Rightarrow> world tool" where
  "report_collect_failure pf = report_failure pf ''FAILED:''"

section \<open>The apply phase\<close>

definition apply_program :: "string \<Rightarrow> string \<Rightarrow> string \<Rightarrow> string \<Rightarrow> program" where
  "apply_program name vtool atool rtool = \<lparr>program_name = name, program_steps =
     [ToolStep ''validate_command'' vtool [(''command'', CtxVar ''command'')]
        ''validation_result'' (Some ''check_valid''),
      ConditionStep ''check_valid'' ''validate_command'' (Less_Than 1) ''report_invalid'' ''apply_command'',
      ToolStep ''apply_command'' atool [(''command'', CtxVar ''command'')] ''apply_result'' None,
      ToolStep ''report_invalid'' rtool [(''reason'', OutputOf ''validate_command'')] ''invalid_result'' None]\<rparr>"

definition apply_outcome :: "json \<Rightarrow> json" where
  "apply_outcome out = (case out of JObj kvs \<Rightarrow> JObj kvs | _ \<Rightarrow> JObj [(''output'', out)])"

definition not_applied :: "string option \<Rightarrow> string \<Rightarrow> ApplyResult" where
  "not_applied e tid = \<lparr>apr_applied = False, apr_result = None, apr_error = e, apr_trace_id = tid\<rparr>"

text \<open>
  \<open>_run_apply\<close>: commit when the trace succeeded with an output of the write step,
  and leave the session without commit otherwise. \<open>explain\<close> tells whether the
  agent returns the reason of a rejection.
\<close>

definition run_apply ::
  "platform \<Rightarrow> bool \<Rightarrow> (string \<Rightarrow> world tool option) \<Rightarrow> program \<Rightarrow> json \<Rightarrow> (world, ApplyResult) io" where
  "run_apply pf explain tools p command =
     bind_io (run_program pf tools p [(''command'', command)]) (\<lambda>tr.
     bind_io (save_trace tr) (\<lambda>_.
     bind_io (gets_io diagnostics) (\<lambda>rsn.
       if trace_status tr \<noteq> trace_status.SUCCESS
       then ret (not_applied (Some (first_text (trace_error tr) ''apply execution failed'')) (trace_id tr))
       else case map_of (trace_steps tr) ''apply_command'' of
           None \<Rightarrow> ret (not_applied (if explain then Some (first_text rsn
                     (first_text (step_text pf tr ''report_invalid'') ''command rejected'')) else None) (trace_id tr))
         | Some out \<Rightarrow>
             if out = JNull
             then ret (not_applied (if explain then Some (first_text rsn
                     (first_text (step_text pf tr ''report_invalid'') ''command rejected'')) else None) (trace_id tr))
             else bind_io commit (\<lambda>_. ret \<lparr>apr_applied = True, apr_result = Some (apply_outcome out),
                    apr_error = None, apr_trace_id = trace_id tr\<rparr>))))"

definition apply_command ::
  "platform \<Rightarrow> bool \<Rightarrow> (string \<Rightarrow> world tool option) \<Rightarrow> program \<Rightarrow> json \<Rightarrow> (world, ApplyResult) io" where
  "apply_command pf explain tools p command =
     (if \<not> validates pf p then raise (RuntimeError (program_name p))
      else bind_io (modify_io (\<lambda>w. w\<lparr>diagnostics := None\<rparr>)) (\<lambda>_.
           with_session (run_apply pf explain tools p command)))"

section \<open>The steps of the two programs\<close>

lemma forward_collect [simp]: "forward_program (collect_program n v c)"
  by (simp add: collect_program_def forward_program_def upt_rec[of _ "Suc _"] nth_Cons')

lemma forward_apply [simp]: "forward_program (apply_program n v a r)"
  by (simp add: apply_program_def forward_program_def upt_rec[of _ "Suc _"] nth_Cons')

lemma collect_steps:
  "length (program_steps (collect_program n v c)) = 5"
  "program_steps (collect_program n v c) ! 0 = LlmStep ''process_input'' ''llm_output'' (Some ''validate_command'')"
  "program_steps (collect_program n v c) ! Suc 0 = ToolStep ''validate_command'' v
     [(''llm_output'', OutputOf ''process_input'')] ''validation_result'' (Some ''check_valid'')"
  "program_steps (collect_program n v c) ! 2 = ConditionStep ''check_valid'' ''validate_command'' (Less_Than 1)
     ''validation_failed'' ''confirm_command''"
  "program_steps (collect_program n v c) ! 3 = ToolStep ''confirm_command'' c
     [(''command'', OutputOf ''process_input'')] ''agent_result'' None"
  "program_steps (collect_program n v c) ! 4 = ToolStep ''validation_failed'' ''report_collect_failure''
     [(''reason'', OutputOf ''validate_command'')] ''fail_result'' None"
  "step_index ''validate_command'' (program_steps (collect_program n v c)) = Some (Suc 0)"
  "step_index ''check_valid'' (program_steps (collect_program n v c)) = Some 2"
  "step_index ''confirm_command'' (program_steps (collect_program n v c)) = Some 3"
  "step_index ''validation_failed'' (program_steps (collect_program n v c)) = Some 4"
  by (simp_all add: collect_program_def)

lemma apply_steps:
  "length (program_steps (apply_program n v a r)) = 4"
  "program_steps (apply_program n v a r) ! 0 = ToolStep ''validate_command'' v
     [(''command'', CtxVar ''command'')] ''validation_result'' (Some ''check_valid'')"
  "program_steps (apply_program n v a r) ! Suc 0 = ConditionStep ''check_valid'' ''validate_command'' (Less_Than 1)
     ''report_invalid'' ''apply_command''"
  "program_steps (apply_program n v a r) ! 2 = ToolStep ''apply_command'' a
     [(''command'', CtxVar ''command'')] ''apply_result'' None"
  "program_steps (apply_program n v a r) ! 3 = ToolStep ''report_invalid'' r
     [(''reason'', OutputOf ''validate_command'')] ''invalid_result'' None"
  "step_index ''check_valid'' (program_steps (apply_program n v a r)) = Some (Suc 0)"
  "step_index ''apply_command'' (program_steps (apply_program n v a r)) = Some 2"
  "step_index ''report_invalid'' (program_steps (apply_program n v a r)) = Some 3"
  by (simp_all add: apply_program_def)

text \<open>A run of a collect program, with the model's answer \<open>t\<close> when there is one.\<close>

lemma collect_exec:
  assumes "T v = Some f" "T c = Some pass_command" "T ''report_collect_failure'' = Some (report_collect_failure pf)"
    and f: "\<And>t. \<exists>b w2. f [(''llm_output'', JStr t)] w = (Inr (JInt (if b then 1 else 0)), w2)"
    and "vm_exec T (program_steps (collect_program n v c)) ctx 0 [] w st outs w'"
  shows "st = trace_status.FAILED \<and> w' = w
    \<or> (\<exists>t b. f [(''llm_output'', JStr t)] w = (Inr (JInt (if b then 1 else 0)), w') \<and> st = trace_status.SUCCESS
        \<and> map_of outs ''confirm_command'' = (if b then Some (JStr t) else None))"
proof (cases "st = trace_status.FAILED \<and> w' = w")
  case True
  then show ?thesis by blast
next
  case no: False
  let ?S = "program_steps (collect_program n v c)"
  obtain t where e1: "vm_exec T ?S ctx (Suc 0) [(''process_input'', JStr t)] w st outs w'"
    using assms(5) no by (subst (asm) vm_exec_iff) (auto simp: collect_steps)
  obtain b w2 where v: "f [(''llm_output'', JStr t)] w = (Inr (JInt (if b then 1 else 0)), w2)"
    using f by blast
  let ?o = "[(''validate_command'', JInt (if b then 1 else 0)), (''process_input'', JStr t)]"
  have e2: "vm_exec T ?S ctx 2 ?o w2 st outs w'"
    using e1 v assms(1) by (subst (asm) vm_exec_iff) (simp_all add: collect_steps)
  have "w' = w2 \<and> st = trace_status.SUCCESS \<and> map_of outs ''confirm_command'' = (if b then Some (JStr t) else None)"
  proof (cases b)
    case True
    then have "vm_exec T ?S ctx 3 ?o w2 st outs w'"
      using e2 by (subst (asm) vm_exec_iff) (simp_all add: collect_steps)
    then show ?thesis
      using True assms(2) by (subst (asm) vm_exec_iff) (simp_all add: collect_steps pass_command_def)
  next
    case False
    then have "vm_exec T ?S ctx 4 ?o w2 st outs w'"
      using e2 by (subst (asm) vm_exec_iff) (simp_all add: collect_steps)
    then show ?thesis
      using False assms(3)
      by (subst (asm) vm_exec_iff) (simp_all add: collect_steps report_collect_failure_def report_failure_def)
  qed
  then show ?thesis using v by blast
qed

text \<open>A run of an apply program: the verdict decides which of the two last tools runs.\<close>

lemma apply_exec:
  assumes "T v = Some f" "T a = Some g" "T r = Some h" "map_of ctx ''command'' = Some cmd"
    and f: "f [(''command'', cmd)] w = (x, w1)"
    and x: "\<And>j. x = Inr j \<Longrightarrow> j = JInt (if b then 1 else 0)"
    and "vm_exec T (program_steps (apply_program n v a r)) ctx 0 [] w st outs w'"
  shows "case x of
      Inl e \<Rightarrow> st = trace_status.FAILED \<and> w' = w1
    | Inr _ \<Rightarrow>
        if b then (case g [(''command'', cmd)] w1 of
            (Inl e, w2) \<Rightarrow> st = trace_status.FAILED \<and> w' = w2
          | (Inr out, w2) \<Rightarrow> st = trace_status.SUCCESS \<and> w' = w2 \<and> map_of outs ''apply_command'' = Some out)
        else (case h [(''reason'', JInt 0)] w1 of
            (Inl e, w2) \<Rightarrow> st = trace_status.FAILED \<and> w' = w2
          | (Inr out, w2) \<Rightarrow> st = trace_status.SUCCESS \<and> w' = w2 \<and> map_of outs ''apply_command'' = None)"
proof (cases x)
  case (Inl e)
  then show ?thesis
    using assms(1,4,7) f by (subst (asm) vm_exec_iff) (simp_all add: apply_steps)
next
  case (Inr j)
  let ?S = "program_steps (apply_program n v a r)" and ?o = "[(''validate_command'', JInt (if b then 1 else 0))]"
  have e1: "vm_exec T ?S ctx (Suc 0) ?o w1 st outs w'"
    using assms(1,4,7) f x[OF Inr] Inr by (subst (asm) vm_exec_iff) (simp_all add: apply_steps)
  show ?thesis
  proof (cases b)
    case True
    then have "vm_exec T ?S ctx 2 ?o w1 st outs w'"
      using e1 by (subst (asm) vm_exec_iff) (simp_all add: apply_steps)
    then show ?thesis
      using True Inr assms(2,4)
      by (subst (asm) vm_exec_iff) (auto simp: apply_steps split: prod.splits sum.splits)
  next
    case False
    then have "vm_exec T ?S ctx 3 ?o w1 st outs w'"
      using e1 by (subst (asm) vm_exec_iff) (simp_all add: apply_steps)
    then show ?thesis
      using False Inr assms(3)
      by (subst (asm) vm_exec_iff) (auto simp: apply_steps split: prod.splits sum.splits)
  qed
qed

section \<open>The contract of a collect phase\<close>

text \<open>
  \<open>accepts\<close> is what the validator decides on a text. No text without content is a
  command.
\<close>

locale collect_phase =
  fixes tools :: "platform \<Rightarrow> (string \<times> world tool) list"
    and caps :: capabilities
    and vtool :: string and ctool :: string
    and validate :: "platform \<Rightarrow> world tool"
    and accepts :: "platform \<Rightarrow> string \<Rightarrow> bool"
  assumes registered: "map_of (tools pf) vtool = Some (validate pf)"
      "map_of (tools pf) ctool = Some pass_command"
      "map_of (tools pf) ''report_collect_failure'' = Some (report_collect_failure pf)"
    and permitted: "vtool \<in> fst ` set caps" "ctool \<in> fst ` set caps" "''report_collect_failure'' \<in> fst ` set caps"
    and validate_judges: "judges (validate pf) (accepts pf)"
begin

lemma validate_pure: "\<exists>d. validate pf [(''llm_output'', JStr t)] w =
    (Inr (JInt (if accepts pf t then 1 else 0)), w\<lparr>diagnostics := d\<rparr>)"
  using validate_judges by (simp add: judges_def)

text \<open>
  Whatever the model answers, nothing is written, and a command that comes out
  is the parse of an answer the validator accepted.
\<close>

lemma collect_safe:
  assumes "vm_ok pf" "collect_command pf (governed pf caps (tools pf)) (collect_program n vtool ctool) ctx w = (r, w')"
  shows "(\<exists>d. w' = w\<lparr>diagnostics := d\<rparr>)
    \<and> (\<exists>res. r = Inr res \<and> (agr_success res \<longrightarrow> (\<exists>raw. agr_raw_output res = Some raw \<and> accepts pf raw
        \<and> agr_command res = (case json_loads pf raw of Inr v \<Rightarrow> Some v | Inl _ \<Rightarrow> None))))"
proof -
  let ?w = "w\<lparr>diagnostics := None\<rparr>" and ?p = "collect_program n vtool ctool"
  let ?T = "governed pf caps (tools pf)"
  obtain tr w1 where run: "run_vm pf ?T ?p ctx ?w = (tr, w1)" by fastforce
  have "trace_status tr = trace_status.FAILED \<and> w1 = ?w
    \<or> (\<exists>t b. validate pf [(''llm_output'', JStr t)] ?w = (Inr (JInt (if b then 1 else 0)), w1)
         \<and> trace_status tr = trace_status.SUCCESS
         \<and> map_of (trace_steps tr) ''confirm_command'' = (if b then Some (JStr t) else None))"
  proof (rule collect_exec)
    show "?T vtool = Some (validate pf)" "?T ctool = Some pass_command"
      "?T ''report_collect_failure'' = Some (report_collect_failure pf)"
      by (rule governed_permitted[OF assms(1)]; simp add: registered permitted)+
    show "\<exists>b w2. validate pf [(''llm_output'', JStr t)] ?w = (Inr (JInt (if b then 1 else 0)), w2)" for t
      using validate_pure by blast
    show "vm_exec ?T (program_steps ?p) ctx 0 [] ?w (trace_status tr) (trace_steps tr) w1"
      by (rule run_vm_exec[OF assms(1) forward_collect run])
  qed
  then have "\<exists>d. w1 = w\<lparr>diagnostics := d\<rparr>" and cases: "trace_status tr = trace_status.SUCCESS \<Longrightarrow>
      \<exists>t. map_of (trace_steps tr) ''confirm_command'' = (if accepts pf t then Some (JStr t) else None)"
  proof (atomize (full), elim disjE exE conjE)
    fix t b
    assume "validate pf [(''llm_output'', JStr t)] ?w = (Inr (JInt (if b then 1 else 0)), w1)"
      and c: "map_of (trace_steps tr) ''confirm_command'' = (if b then Some (JStr t) else None)"
    then have "b = accepts pf t \<and> (\<exists>d. w1 = w\<lparr>diagnostics := d\<rparr>)"
      using validate_pure[of pf t ?w] by (auto split: if_splits)
    then show "(\<exists>d. w1 = w\<lparr>diagnostics := d\<rparr>) \<and> (trace_status tr = trace_status.SUCCESS \<longrightarrow>
      (\<exists>t. map_of (trace_steps tr) ''confirm_command'' = (if accepts pf t then Some (JStr t) else None)))"
      using c by auto
  qed auto
  moreover
  have "r = Inr (collect_outcome pf tr (diagnostics w1))" "w' = w1"
    using assms run validates_forward[OF assms(1) forward_collect]
    by (auto simp: collect_command_def bind_io_apply run_program_def)
  ultimately show ?thesis
    using cases by (auto simp: collect_outcome_def step_text_def Let_def split: if_splits)
qed

end

section \<open>The contract of an apply phase\<close>

text \<open>What the method makes of a finished run.\<close>

lemma apply_command_run:
  assumes "vm_ok pf" "forward_program p"
    and "run_vm pf T p [(''command'', cmd)] (w\<lparr>db := committed w, diagnostics := None\<rparr>) = (tr, w3)"
  shows "trace_status tr = trace_status.SUCCESS \<Longrightarrow> map_of (trace_steps tr) ''apply_command'' = Some out \<Longrightarrow>
      out \<noteq> JNull \<Longrightarrow> \<exists>res w4. apply_command pf explain T p cmd w = (Inr res, w4) \<and> apr_applied res
        \<and> apr_result res = Some (apply_outcome out) \<and> committed w4 = db w3 \<and> db w4 = db w3"
    and "(trace_status tr = trace_status.SUCCESS \<longrightarrow> map_of (trace_steps tr) ''apply_command'' = None) \<Longrightarrow>
      \<exists>res w4. apply_command pf explain T p cmd w = (Inr res, w4) \<and> \<not> apr_applied res
        \<and> committed w4 = committed w3 \<and> db w4 = committed w3
        \<and> (trace_status tr = trace_status.SUCCESS \<and> explain \<longrightarrow> apr_error res = Some (first_text (diagnostics w3)
              (first_text (step_text pf tr ''report_invalid'') ''command rejected'')))"
proof -
  have ww: "w\<lparr>diagnostics := None, db := committed w\<rparr> = w\<lparr>db := committed w, diagnostics := None\<rparr>" by simp
  note run = assms(3) validates_forward[OF assms(1,2)]
  note defs = ww apply_command_def run_apply_def run_program_def bind_io_apply with_session_def not_applied_def
  show "trace_status tr = trace_status.SUCCESS \<Longrightarrow> map_of (trace_steps tr) ''apply_command'' = Some out \<Longrightarrow>
      out \<noteq> JNull \<Longrightarrow> \<exists>res w4. apply_command pf explain T p cmd w = (Inr res, w4) \<and> apr_applied res
        \<and> apr_result res = Some (apply_outcome out) \<and> committed w4 = db w3 \<and> db w4 = db w3"
    using run by (simp add: defs)
  show "(trace_status tr = trace_status.SUCCESS \<longrightarrow> map_of (trace_steps tr) ''apply_command'' = None) \<Longrightarrow>
      \<exists>res w4. apply_command pf explain T p cmd w = (Inr res, w4) \<and> \<not> apr_applied res
        \<and> committed w4 = committed w3 \<and> db w4 = committed w3
        \<and> (trace_status tr = trace_status.SUCCESS \<and> explain \<longrightarrow> apr_error res = Some (first_text (diagnostics w3)
              (first_text (step_text pf tr ''report_invalid'') ''command rejected'')))"
    using run by (cases "trace_status tr = trace_status.SUCCESS") (simp_all add: defs)
qed

locale apply_phase =
  fixes tools :: "platform \<Rightarrow> (string \<times> world tool) list"
    and caps :: capabilities
    and vtool :: string and atool :: string and rtool :: string
    and validate :: "platform \<Rightarrow> world tool"
    and write' :: "platform \<Rightarrow> world tool"
    and rprefix :: string
  assumes registered: "map_of (tools pf) vtool = Some (validate pf)"
      "map_of (tools pf) atool = Some (write' pf)"
      "map_of (tools pf) rtool = Some (report_failure pf rprefix)"
    and permitted: "vtool \<in> fst ` set caps" "atool \<in> fst ` set caps" "rtool \<in> fst ` set caps"
    and validate_verdict: "verdict (validate pf kw)"
    and write_no_commit: "no_commit (write' pf kw)"
    and write_output: "yields (\<lambda>out. out \<noteq> JNull) (write' pf kw)"
begin

text \<open>
  A command takes effect when the validator accepts it and the write succeeds;
  then everything the write did is committed. In every other case the
  committed database is the old one.
\<close>

lemma apply_cases:
  assumes vm: "vm_ok pf"
    and "apply_command pf explain (governed pf caps (tools pf)) (apply_program n vtool atool rtool) cmd w = (r, w')"
  shows "\<exists>res. r = Inr res \<and> db w' = committed w' \<and>
    (if apr_applied res
     then \<exists>w1 out w2. validate pf [(''command'', cmd)] (w\<lparr>db := committed w, diagnostics := None\<rparr>) = (Inr (JInt 1), w1)
        \<and> write' pf [(''command'', cmd)] w1 = (Inr out, w2) \<and> committed w' = db w2
        \<and> apr_result res = Some (apply_outcome out)
     else committed w' = committed w \<and> (\<forall>w1 out w2.
        validate pf [(''command'', cmd)] (w\<lparr>db := committed w, diagnostics := None\<rparr>) = (Inr (JInt 1), w1) \<longrightarrow>
        write' pf [(''command'', cmd)] w1 \<noteq> (Inr out, w2)))"
proof -
  let ?w = "w\<lparr>db := committed w, diagnostics := None\<rparr>" and ?p = "apply_program n vtool atool rtool"
  let ?T = "governed pf caps (tools pf)" and ?kw = "[(''command'', cmd)]"
  obtain x w1 where v: "validate pf ?kw ?w = (x, w1)" by fastforce
  define b where "b \<longleftrightarrow> x = Inr (JInt 1)"
  obtain tr w3 where run: "run_vm pf ?T ?p ?kw ?w = (tr, w3)" by fastforce
  have T: "?T vtool = Some (validate pf)" "?T atool = Some (write' pf)" "?T rtool = Some (report_failure pf rprefix)"
    by (rule governed_permitted[OF vm]; simp add: registered permitted)+
  have x: "j = JInt (if b then 1 else 0)" if "x = Inr j" for j
    using verdictD[OF validate_verdict v] that by (auto simp: b_def)
  have exec: "vm_exec ?T (program_steps ?p) ?kw 0 [] ?w (trace_status tr) (trace_steps tr) w3"
    by (rule run_vm_exec[OF vm forward_apply run])
  have cases: "case x of
      Inl e \<Rightarrow> trace_status tr = trace_status.FAILED \<and> w3 = w1
    | Inr _ \<Rightarrow>
        if b then (case write' pf ?kw w1 of
            (Inl e, w2) \<Rightarrow> trace_status tr = trace_status.FAILED \<and> w3 = w2
          | (Inr out, w2) \<Rightarrow> trace_status tr = trace_status.SUCCESS \<and> w3 = w2
              \<and> map_of (trace_steps tr) ''apply_command'' = Some out)
        else (case report_failure pf rprefix [(''reason'', JInt 0)] w1 of
            (Inl e, w2) \<Rightarrow> trace_status tr = trace_status.FAILED \<and> w3 = w2
          | (Inr out, w2) \<Rightarrow> trace_status tr = trace_status.SUCCESS \<and> w3 = w2
              \<and> map_of (trace_steps tr) ''apply_command'' = None)"
    by (rule apply_exec[OF T _ v x exec]) simp
  have w1: "committed w1 = committed w"
    using verdictD[OF validate_verdict v] by auto
  have written: "committed w2 = committed w" if "write' pf ?kw w1 = (y, w2)" for y w2
    using no_commitD[OF write_no_commit that] w1 by simp
  obtain y w2' where y: "write' pf ?kw w1 = (y, w2')" by fastforce
  show ?thesis
  proof (cases "b \<and> (\<exists>out w2. write' pf ?kw w1 = (Inr out, w2))")
    case True
    then obtain out w2 where go: "x = Inr (JInt 1)" "write' pf ?kw w1 = (Inr out, w2)" by (auto simp: b_def)
    have "out \<noteq> JNull" using yieldsD[OF write_output go(2)] .
    then show ?thesis
      using apply_command_run(1)[OF vm forward_apply run, of out explain] assms(2) cases go v True by auto
  next
    case False
    have out: "trace_status tr = trace_status.SUCCESS \<longrightarrow> map_of (trace_steps tr) ''apply_command'' = None"
      and w3: "committed w3 = committed w"
      using cases y False w1 written[OF y] by (cases x; cases y; cases b; auto simp: report_failure_def)+
    then obtain res w4 where no: "apply_command pf explain ?T ?p cmd w = (Inr res, w4)" "\<not> apr_applied res"
        "committed w4 = committed w3" "db w4 = committed w3"
      using apply_command_run(2)[OF vm forward_apply run, of explain] by blast
    have "write' pf ?kw u \<noteq> (Inr out, u')" if "validate pf ?kw ?w = (Inr (JInt 1), u)" for u out u'
      using that False v by (auto simp: b_def)
    then show ?thesis using no assms(2) w3 by (intro exI[of _ res]) auto
  qed
qed

text \<open>What holds between the database before and after the write holds of the committed databases.\<close>

lemma apply_relation:
  assumes vm: "vm_ok pf"
    and run: "apply_command pf explain (governed pf caps (tools pf)) (apply_program n vtool atool rtool) cmd w = (r, w')"
    and "R (committed w) (committed w)"
    and "\<And>w1 out w2. db w1 = committed w \<Longrightarrow> write' pf [(''command'', cmd)] w1 = (Inr out, w2) \<Longrightarrow> R (committed w) (db w2)"
  shows "R (committed w) (committed w')"
proof -
  let ?w = "w\<lparr>db := committed w, diagnostics := None\<rparr>"
  obtain res :: ApplyResult where cases: "if apr_applied res
     then \<exists>w1 out w2. validate pf [(''command'', cmd)] ?w = (Inr (JInt 1), w1)
        \<and> write' pf [(''command'', cmd)] w1 = (Inr out, w2) \<and> committed w' = db w2
        \<and> apr_result res = Some (apply_outcome out)
     else committed w' = committed w \<and> (\<forall>w1 out w2.
        validate pf [(''command'', cmd)] ?w = (Inr (JInt 1), w1) \<longrightarrow> write' pf [(''command'', cmd)] w1 \<noteq> (Inr out, w2))"
    using apply_cases[OF vm run] by blast
  show ?thesis
  proof (cases "apr_applied res")
    case True
    then obtain w1 out w2 where v: "validate pf [(''command'', cmd)] ?w = (Inr (JInt 1), w1)"
        "write' pf [(''command'', cmd)] w1 = (Inr out, w2)" "committed w' = db w2"
      using cases by auto
    have "db w1 = committed w" using verdictD[OF validate_verdict v(1)] by auto
    then show ?thesis using assms(4) v(2,3) by simp
  next
    case False
    then show ?thesis using cases assms(3) by simp
  qed
qed

text \<open>A rejected command always comes back with the validator's reason when the agent explains.\<close>

lemma apply_rejected:
  assumes vm: "vm_ok pf"
    and "apply_command pf True (governed pf caps (tools pf)) (apply_program n vtool atool rtool) cmd w = (r, w')"
    and v: "validate pf [(''command'', cmd)] (w\<lparr>db := committed w, diagnostics := None\<rparr>) = (Inr (JInt 0), w1)"
    and "diagnostics w1 = Some (c # cs)"
  shows "\<exists>res. r = Inr res \<and> \<not> apr_applied res \<and> apr_error res = Some (c # cs)"
proof -
  let ?w = "w\<lparr>db := committed w, diagnostics := None\<rparr>" and ?p = "apply_program n vtool atool rtool"
  let ?T = "governed pf caps (tools pf)" and ?kw = "[(''command'', cmd)]"
  obtain tr w3 where run: "run_vm pf ?T ?p ?kw ?w = (tr, w3)" by fastforce
  have T: "?T vtool = Some (validate pf)" "?T atool = Some (write' pf)" "?T rtool = Some (report_failure pf rprefix)"
    by (rule governed_permitted[OF vm]; simp add: registered permitted)+
  have exec: "vm_exec ?T (program_steps ?p) ?kw 0 [] ?w (trace_status tr) (trace_steps tr) w3"
    by (rule run_vm_exec[OF vm forward_apply run])
  have "trace_status tr = trace_status.SUCCESS" "w3 = w1" "map_of (trace_steps tr) ''apply_command'' = None"
    using apply_exec[OF T _ v _ exec, of False] by (simp_all add: report_failure_def)
  then show ?thesis
    using apply_command_run(2)[OF vm forward_apply run, of True] assms by (auto simp: first_text_def)
qed

end

end
