(* ===== verification/Zone_Tools.thy ===== *)
theory Zone_Tools
  imports Agent_Core Unique_Index Policy_Snapshot
begin

text \<open>
  The zone agent: app/tools/zone_agent_tools.py, the two programs of
  app/programs/zone_agent_program.py and the phases of app/agents/zone_agent.py.

  Messages of the code that contain a dash are written with a hyphen. A failed
  unique index raises IntegrityError with the name of the index;
  \<open>_is_unique_violation\<close> asks for sqlstate 23505, which is what the two unique
  indexes of delivery_zones give.
\<close>

section \<open>Commands\<close>

definition VALID_ACTIONS :: "string list" where
  "VALID_ACTIONS = [''create'', ''update'', ''deactivate'', ''activate'']"

record ZoneCommand =
  zc_action :: string
  zc_name :: "string option"
  zc_delivery_time_minutes :: json
  zc_target_zone_name :: "string option"
  zc_delivery_fee_rub :: "int option"

definition positive_int :: "json \<Rightarrow> bool" where
  "positive_int v = (case v of JInt n \<Rightarrow> 0 < n | _ \<Rightarrow> False)"

text \<open>The optional fee: absent, a non-negative integer, or malformed (None).\<close>

definition zone_fee :: "json \<Rightarrow> int option option" where
  "zone_fee v = (case v of JNull \<Rightarrow> Some None | JInt n \<Rightarrow> if n < 0 then None else Some (Some n) | _ \<Rightarrow> None)"

definition zone_fields_ok :: "ZoneCommand \<Rightarrow> bool" where
  "zone_fields_ok c =
     (if zc_action c = ''create'' then zc_name c \<noteq> None \<and> positive_int (zc_delivery_time_minutes c)
      else zc_target_zone_name c \<noteq> None \<and>
        (zc_action c = ''update'' \<longrightarrow>
           \<not> (zc_name c = None \<and> zc_delivery_time_minutes c = JNull \<and> zc_delivery_fee_rub c = None) \<and>
           (zc_delivery_time_minutes c \<noteq> JNull \<longrightarrow> positive_int (zc_delivery_time_minutes c))))"

definition required_zone_shape :: "json \<Rightarrow> ZoneCommand option" where
  "required_zone_shape command = (case command of
       JObj kvs \<Rightarrow>
         (case json_get ''action'' kvs of
            JStr action \<Rightarrow>
              if action \<notin> set VALID_ACTIONS then None
              else (case zone_fee (json_get ''delivery_fee_rub'' kvs) of
                  None \<Rightarrow> None
                | Some fee \<Rightarrow>
                    (let c = \<lparr>zc_action = action,
                              zc_name = nonblank_text (json_get ''name'' kvs),
                              zc_delivery_time_minutes = json_get ''delivery_time_minutes'' kvs,
                              zc_target_zone_name = nonblank_text (json_get ''target_zone_name'' kvs),
                              zc_delivery_fee_rub = fee\<rparr>
                     in if zone_fields_ok c then Some c else None))
          | _ \<Rightarrow> None)
     | _ \<Rightarrow> None)"

section \<open>The collect phase\<close>

definition zone_shape_reason :: "platform \<Rightarrow> json \<Rightarrow> string" where
  "zone_shape_reason pf data =
     (let action = (case data of JObj kvs \<Rightarrow> json_get ''action'' kvs | _ \<Rightarrow> JNull)
      in case action of
           JStr a \<Rightarrow>
             if a \<in> set VALID_ACTIONS then ''required fields missing for action='' @ repr_of pf action
             else ''could not map the instruction to a supported action (create, update, deactivate, activate)''
         | _ \<Rightarrow> ''could not map the instruction to a supported action (create, update, deactivate, activate)'')"

definition zone_judge :: "platform \<Rightarrow> json \<Rightarrow> string option" where
  "zone_judge pf data = (if required_zone_shape data = None then Some (zone_shape_reason pf data) else None)"

definition validate_zone_command :: "platform \<Rightarrow> world tool" where
  "validate_zone_command pf =
     validate_text pf ''empty instruction - nothing to parse'' ''could not parse a command from the instruction'' (zone_judge pf)"

section \<open>The table\<close>

text \<open>The key of idx_delivery_zones_name_active: lower(name) of an active zone.\<close>

definition active_name :: "platform \<Rightarrow> zone_row \<Rightarrow> string option" where
  "active_name pf r = (if z_is_active r then Some (db_lower pf (z_name r)) else None)"

definition zones_wf :: "platform \<Rightarrow> zone_row list \<Rightarrow> bool" where
  "zones_wf pf zs \<longleftrightarrow> key_unique z_id zs \<and> index_unique (active_name pf) zs"

text \<open>What an INSERT or UPDATE leaves in the table, unless a unique index refuses it.\<close>

definition write_zones :: "platform \<Rightarrow> zone_row list \<Rightarrow> (world, unit) io" where
  "write_zones pf zs =
     (if \<not> key_unique z_id zs then raise (IntegrityError ''delivery_zones_pkey'')
      else if \<not> index_unique (active_name pf) zs then raise (IntegrityError ''idx_delivery_zones_name_active'')
      else update_db (\<lambda>d. d\<lparr>delivery_zones := zs\<rparr>))"

definition is_unique_violation :: "string \<Rightarrow> bool" where
  "is_unique_violation c \<longleftrightarrow> c = ''delivery_zones_pkey'' \<or> c = ''idx_delivery_zones_name_active''"

definition name_in_use :: "platform \<Rightarrow> string \<Rightarrow> exn" where
  "name_in_use pf n = ValueError (''zone name already in use by an active zone: '' @ repr_of pf (JStr n))"

definition on_unique_violation :: "exn \<Rightarrow> (world, 'a) io \<Rightarrow> (world, 'a) io" where
  "on_unique_violation e m = catch_io m (\<lambda>err. case err of
       IntegrityError c \<Rightarrow> if is_unique_violation c then raise e else raise err
     | _ \<Rightarrow> raise err)"

text \<open>SELECT id ... WHERE lower(name) = lower(:name) AND [NOT] is_active.\<close>

definition zones_named :: "platform \<Rightarrow> bool \<Rightarrow> string \<Rightarrow> (world, zone_row list) io" where
  "zones_named pf active n = select_db (\<lambda>d.
     rows_where (\<lambda>r. db_lower pf (z_name r) = db_lower pf n \<and> z_is_active r = active) (delivery_zones d))"

definition other_zones_named :: "platform \<Rightarrow> string \<Rightarrow> uuid \<Rightarrow> (world, zone_row list) io" where
  "other_zones_named pf n i = select_db (\<lambda>d.
     rows_where (\<lambda>r. db_lower pf (z_name r) = db_lower pf n \<and> z_is_active r \<and> z_id r \<noteq> i) (delivery_zones d))"

definition insert_zone :: "platform \<Rightarrow> string \<Rightarrow> int \<Rightarrow> int option \<Rightarrow> (world, zone_row) io" where
  "insert_zone pf name minutes fee =
     bind_io (check_varchar 255 name) (\<lambda>_.
     bind_io (check_int4 minutes) (\<lambda>_.
     bind_io (check_opt check_int4 fee) (\<lambda>_.
     bind_io new_uuid (\<lambda>i.
     bind_io (select_db delivery_zones) (\<lambda>zs.
       let r = \<lparr>z_id = i, z_external_id = None, z_name = name, z_delivery_time_minutes = minutes,
                z_is_active = True, z_delivery_fee_rub = (case fee of None \<Rightarrow> 99 | Some f \<Rightarrow> f)\<rparr>
       in bind_io (write_zones pf (zs @ [r])) (\<lambda>_. ret r))))))"

text \<open>UPDATE ... WHERE id = :id RETURNING, read with \<open>result.one()\<close>.\<close>

definition update_zone :: "platform \<Rightarrow> uuid \<Rightarrow> (zone_row \<Rightarrow> zone_row) \<Rightarrow> (world, zone_row) io" where
  "update_zone pf i f =
     bind_io (select_db delivery_zones) (\<lambda>zs.
     bind_io (write_zones pf (update_where (\<lambda>r. z_id r = i) f zs)) (\<lambda>_.
     bind_io (select_db (\<lambda>d. rows_where (\<lambda>r. z_id r = i) (delivery_zones d))) (\<lambda>rs.
       case rs of [r] \<Rightarrow> ret r | [] \<Rightarrow> raise NoResultFound | _ \<Rightarrow> raise MultipleResultsFound)))"

section \<open>The apply phase: validation\<close>

definition validate_zone_create :: "platform \<Rightarrow> string \<Rightarrow> (world, json) io" where
  "validate_zone_create pf n = bind_io (zones_named pf True n) (\<lambda>dup.
     if dup \<noteq> [] then reject_command (''a zone named '' @ quoted pf n @ '' is already active'') else accept_command)"

definition validate_zone_target :: "platform \<Rightarrow> string \<Rightarrow> (world, json) io" where
  "validate_zone_target pf n = bind_io (zones_named pf True n) (\<lambda>rows.
     if length rows \<noteq> 1 then reject_command
       (if rows = [] then ''zone '' @ quoted pf n @ '' not found among active zones ''
          @ ''(retired zones can only be reactivated, not edited directly)''
        else ''zone name '' @ quoted pf n @ '' matches '' @ int_str (int (length rows)) @ '' active zones (expected exactly 1)'')
     else accept_command)"

definition validate_zone_activate :: "platform \<Rightarrow> string \<Rightarrow> (world, json) io" where
  "validate_zone_activate pf n = bind_io (zones_named pf False n) (\<lambda>rows.
     if length rows \<noteq> 1 then reject_command
       (if rows = [] then ''zone '' @ quoted pf n @ '' not found among retired zones ''
          @ ''(it may already be active, or may not exist)''
        else ''zone name '' @ quoted pf n @ '' matches '' @ int_str (int (length rows)) @ '' retired zones (expected exactly 1)'')
     else bind_io (zones_named pf True n) (\<lambda>dup.
       if dup \<noteq> [] then reject_command (''cannot reactivate '' @ quoted pf n
         @ '' - a different zone with the same name is already active'')
       else accept_command))"

definition validate_apply_zone_command :: "platform \<Rightarrow> world tool" where
  "validate_apply_zone_command pf kw = bind_io (command_arg kw) (\<lambda>command.
     case required_zone_shape command of
       None \<Rightarrow> reject_command ''malformed command''
     | Some c \<Rightarrow>
         if zc_action c = ''create'' then bind_io (assert_text (zc_name c)) (validate_zone_create pf)
         else if zc_action c = ''activate'' then bind_io (assert_text (zc_target_zone_name c)) (validate_zone_activate pf)
         else bind_io (assert_text (zc_target_zone_name c)) (validate_zone_target pf))"

section \<open>The apply phase: the write\<close>

definition zone_summary :: "string \<Rightarrow> zone_row \<Rightarrow> json" where
  "zone_summary action r = JObj [(''applied'', JBool True), (''action'', JStr action), (''id'', JStr (z_id r)),
     (''name'', JStr (z_name r)), (''delivery_time_minutes'', JInt (z_delivery_time_minutes r)),
     (''is_active'', JBool (z_is_active r)), (''delivery_fee_rub'', JInt (z_delivery_fee_rub r))]"

definition apply_zone_create :: "platform \<Rightarrow> ZoneCommand \<Rightarrow> string \<Rightarrow> (world, json) io" where
  "apply_zone_create pf c n = (case zc_delivery_time_minutes c of
       JInt minutes \<Rightarrow>
         bind_io (zones_named pf True n) (\<lambda>dup.
           if dup \<noteq> [] then raise (name_in_use pf n)
           else bind_io (on_unique_violation (name_in_use pf n) (insert_zone pf n minutes (zc_delivery_fee_rub c)))
             (\<lambda>r. ret (zone_summary ''create'' r)))
     | _ \<Rightarrow> raise (AssertionError []))"

definition apply_zone_activate :: "platform \<Rightarrow> string \<Rightarrow> (world, json) io" where
  "apply_zone_activate pf n = bind_io (zones_named pf False n) (\<lambda>matches. case matches of
       [r0] \<Rightarrow>
         bind_io (other_zones_named pf n (z_id r0)) (\<lambda>dup.
           if dup \<noteq> [] then raise (name_in_use pf n)
           else bind_io (on_unique_violation (name_in_use pf n)
                  (update_zone pf (z_id r0) (\<lambda>r. r\<lparr>z_is_active := True\<rparr>)))
             (\<lambda>r. ret (zone_summary ''activate'' r)))
     | _ \<Rightarrow> raise (ValueError (''retired zone not uniquely resolvable at write time: '' @ quoted pf n)))"

definition set_zone_fields :: "ZoneCommand \<Rightarrow> zone_row \<Rightarrow> zone_row" where
  "set_zone_fields c r = r\<lparr>
     z_name := coalesce (zc_name c) (z_name r),
     z_delivery_time_minutes := coalesce (int_param (zc_delivery_time_minutes c)) (z_delivery_time_minutes r),
     z_delivery_fee_rub := coalesce (zc_delivery_fee_rub c) (z_delivery_fee_rub r)\<rparr>"

definition apply_zone_update :: "platform \<Rightarrow> ZoneCommand \<Rightarrow> uuid \<Rightarrow> (world, json) io" where
  "apply_zone_update pf c i =
     bind_io (case zc_name c of None \<Rightarrow> ret [] | Some n \<Rightarrow> other_zones_named pf n i) (\<lambda>dup.
       let clash = name_in_use pf (case zc_name c of None \<Rightarrow> ''None'' | Some n \<Rightarrow> n)
       in if dup \<noteq> [] then raise clash
          else bind_io (on_unique_violation clash
                 (bind_io (check_opt (check_varchar 255) (zc_name c)) (\<lambda>_.
                  bind_io (check_opt check_int4 (int_param (zc_delivery_time_minutes c))) (\<lambda>_.
                  bind_io (check_opt check_int4 (zc_delivery_fee_rub c)) (\<lambda>_.
                    update_zone pf i (set_zone_fields c))))))
             (\<lambda>r. ret (zone_summary ''update'' r)))"

definition apply_zone_deactivate :: "platform \<Rightarrow> uuid \<Rightarrow> (world, json) io" where
  "apply_zone_deactivate pf i =
     bind_io (select_db delivery_zones) (\<lambda>zs.
     bind_io (write_zones pf (update_where (\<lambda>r. z_id r = i) (\<lambda>r. r\<lparr>z_is_active := False\<rparr>) zs)) (\<lambda>_.
       ret (JObj [(''applied'', JBool True), (''action'', JStr ''deactivate''), (''id'', JStr i),
                  (''is_active'', JBool False)])))"

definition apply_zone_target :: "platform \<Rightarrow> ZoneCommand \<Rightarrow> string \<Rightarrow> (world, json) io" where
  "apply_zone_target pf c n = bind_io (zones_named pf True n) (\<lambda>matches. case matches of
       [r0] \<Rightarrow>
         if zc_action c = ''update'' then apply_zone_update pf c (z_id r0)
         else if zc_action c = ''deactivate'' then apply_zone_deactivate pf (z_id r0)
         else raise (AssertionError [])
     | _ \<Rightarrow> raise (ValueError (''target zone not uniquely resolvable at write time: '' @ quoted pf n)))"

definition apply_zone_command :: "platform \<Rightarrow> world tool" where
  "apply_zone_command pf kw = bind_io (command_arg kw) (\<lambda>command.
     case required_zone_shape command of
       None \<Rightarrow> raise (ValueError ''apply_zone_command: malformed command'')
     | Some c \<Rightarrow>
         if zc_action c = ''create'' then bind_io (assert_text (zc_name c)) (apply_zone_create pf c)
         else if zc_action c = ''activate'' then bind_io (assert_text (zc_target_zone_name c)) (apply_zone_activate pf)
         else bind_io (assert_text (zc_target_zone_name c)) (apply_zone_target pf c))"

section \<open>The agent\<close>

definition PROGRAM_COLLECT_ZONE :: program where
  "PROGRAM_COLLECT_ZONE = collect_program ''zone_agent_collect'' ''validate_zone_command'' ''collect_zone_command''"

definition PROGRAM_APPLY_ZONE :: program where
  "PROGRAM_APPLY_ZONE = apply_program ''zone_agent_apply'' ''validate_apply_zone_command'' ''apply_zone_command''
     ''report_invalid_zone_command''"

definition ZONE_AGENT_TOOLS :: "platform \<Rightarrow> (string \<times> world tool) list" where
  "ZONE_AGENT_TOOLS pf =
     [(''validate_zone_command'', validate_zone_command pf),
      (''collect_zone_command'', pass_command),
      (''report_collect_failure'', report_collect_failure pf)]"

definition ZONE_APPLY_TOOLS :: "platform \<Rightarrow> (string \<times> world tool) list" where
  "ZONE_APPLY_TOOLS pf =
     [(''validate_apply_zone_command'', validate_apply_zone_command pf),
      (''apply_zone_command'', apply_zone_command pf),
      (''report_invalid_zone_command'', report_failure pf ''INVALID:'')]"

definition collect_zone :: "platform \<Rightarrow> json \<Rightarrow> (world, AgentResult) io" where
  "collect_zone pf input_text = collect_command pf
     (governed pf ZONE_AGENT_TOOL_CAPABILITIES (ZONE_AGENT_TOOLS pf)) PROGRAM_COLLECT_ZONE [(''input_text'', input_text)]"

definition apply_zone :: "platform \<Rightarrow> json \<Rightarrow> (world, ApplyResult) io" where
  "apply_zone pf command = apply_command pf True
     (governed pf ZONE_AGENT_APPLY_TOOL_CAPABILITIES (ZONE_APPLY_TOOLS pf)) PROGRAM_APPLY_ZONE command"

end
