(* ===== verification/Zone_Properties.thy ===== *)
theory Zone_Properties
  imports Zone_Tools Samples
begin

text \<open>
  The zone agent keeps the zone table well-formed, never deletes a zone, and its
  apply phase refines a map from names to what customers are offered.
\<close>

section \<open>The two phases meet their contracts\<close>

interpretation zone_collect: collect_phase ZONE_AGENT_TOOLS ZONE_AGENT_TOOL_CAPABILITIES
  "''validate_zone_command''" "''collect_zone_command''" validate_zone_command "\<lambda>pf. text_accepted pf (zone_judge pf)"
  by unfold_locales (simp_all add: ZONE_AGENT_TOOLS_def ZONE_AGENT_TOOL_CAPABILITIES_def validate_zone_command_def)

lemma reads_zones [verdict_intros]: "reads (zones_named pf b n)" "reads (other_zones_named pf n i)"
  by (auto simp: zones_named_def other_zones_named_def intro: verdict_intros)

lemma verdict_zone: "verdict (validate_apply_zone_command pf kw)"
  unfolding validate_apply_zone_command_def validate_zone_create_def validate_zone_activate_def
    validate_zone_target_def
  by (intro verdict_intros)

lemma no_commit_zone_tables [no_commit_intros]:
  "no_commit (write_zones pf zs)" "no_commit (zones_named pf b n)" "no_commit (other_zones_named pf n i)"
  "no_commit (assert_text v)" "no_commit (command_arg kw)"
  unfolding write_zones_def zones_named_def other_zones_named_def assert_text_def command_arg_def
  by (intro no_commit_intros)+

lemma no_commit_violation [no_commit_intros]: "no_commit m \<Longrightarrow> no_commit (on_unique_violation e m)"
  unfolding on_unique_violation_def
  by (intro no_commit_catch) (auto split: exn.splits)

lemma no_commit_zone: "no_commit (apply_zone_command pf kw)"
  unfolding apply_zone_command_def apply_zone_create_def apply_zone_activate_def apply_zone_target_def
    apply_zone_update_def apply_zone_deactivate_def insert_zone_def update_zone_def Let_def
  by (intro no_commit_intros no_commit_json)

lemma zone_output: "yields (\<lambda>out. out \<noteq> JNull) (apply_zone_command pf kw)"
  unfolding apply_zone_command_def apply_zone_create_def apply_zone_activate_def apply_zone_target_def
    apply_zone_update_def apply_zone_deactivate_def zone_summary_def Let_def
  by (intro yields_intros json.distinct)

interpretation zone_apply: apply_phase ZONE_APPLY_TOOLS ZONE_AGENT_APPLY_TOOL_CAPABILITIES
  "''validate_apply_zone_command''" "''apply_zone_command''" "''report_invalid_zone_command''"
  validate_apply_zone_command apply_zone_command "''INVALID:''"
  by unfold_locales (auto simp: ZONE_APPLY_TOOLS_def ZONE_AGENT_APPLY_TOOL_CAPABILITIES_def verdict_zone no_commit_zone
      zone_output)

section \<open>What customers are offered\<close>

text \<open>
  The abstract state: for each name, in lower case, the delivery time and fee of
  the active zone of that name. Retired zones are a list per name, since several
  may share one.
\<close>

type_synonym offers = "string \<Rightarrow> (int \<times> int) option"

definition offer_of :: "zone_row \<Rightarrow> int \<times> int" where
  "offer_of r = (z_delivery_time_minutes r, z_delivery_fee_rub r)"

definition zone_offers :: "platform \<Rightarrow> zone_row list \<Rightarrow> offers" where
  "zone_offers pf zs k = map_option offer_of (first_where (\<lambda>r. active_name pf r = Some k) zs)"

definition retired_offers :: "platform \<Rightarrow> zone_row list \<Rightarrow> string \<Rightarrow> (int \<times> int) list" where
  "retired_offers pf zs k = map offer_of (rows_where (\<lambda>r. db_lower pf (z_name r) = k \<and> \<not> z_is_active r) zs)"

definition offer_new :: "offers \<Rightarrow> string \<Rightarrow> int \<times> int \<Rightarrow> offers option" where
  "offer_new m k e = (if m k = None then Some (m(k \<mapsto> e)) else None)"

definition offer_step ::
  "(string \<Rightarrow> string) \<Rightarrow> ZoneCommand \<Rightarrow> offers \<Rightarrow> (string \<Rightarrow> (int \<times> int) list) \<Rightarrow> offers option" where
  "offer_step low c m retired =
     (if zc_action c = ''create'' then
        (case (zc_name c, int_param (zc_delivery_time_minutes c)) of
           (Some n, Some t) \<Rightarrow> offer_new m (low n) (t, coalesce (zc_delivery_fee_rub c) 99)
         | _ \<Rightarrow> None)
      else case zc_target_zone_name c of
          None \<Rightarrow> None
        | Some n \<Rightarrow>
            if zc_action c = ''activate'' then
              (case retired (low n) of [e] \<Rightarrow> offer_new m (low n) e | _ \<Rightarrow> None)
            else (case m (low n) of
                None \<Rightarrow> None
              | Some (t, f) \<Rightarrow>
                  if zc_action c = ''deactivate'' then Some (m(low n := None))
                  else offer_new (m(low n := None)) (low (coalesce (zc_name c) n))
                         (coalesce (int_param (zc_delivery_time_minutes c)) t, coalesce (zc_delivery_fee_rub c) f)))"

text \<open>The columns can hold the values of the command, and a new row gets a new identifier.\<close>

definition zone_fits :: "world \<Rightarrow> ZoneCommand \<Rightarrow> bool" where
  "zone_fits w c \<longleftrightarrow> pred_option (\<lambda>n. length n \<le> 255) (zc_name c)
     \<and> pred_option int4 (int_param (zc_delivery_time_minutes c)) \<and> pred_option int4 (zc_delivery_fee_rub c)
     \<and> uuids w (uuid_next w) \<notin> z_id ` set (delivery_zones (db w))"

section \<open>The statements\<close>

lemma zones_named_active:
  "zones_wf pf (delivery_zones (db w)) \<Longrightarrow> zones_named pf True n w =
    (Inr (case first_where (\<lambda>r. active_name pf r = Some (db_lower pf n)) (delivery_zones (db w)) of
            None \<Rightarrow> [] | Some q \<Rightarrow> [q]), w)"
proof -
  assume "zones_wf pf (delivery_zones (db w))"
  moreover have "(\<lambda>r. db_lower pf (z_name r) = db_lower pf n \<and> z_is_active r = True) =
      (\<lambda>r. active_name pf r = Some (db_lower pf n))"
    by (auto simp: active_name_def)
  ultimately show ?thesis
    unfolding zones_named_def by (simp only: select_db_apply zones_wf_def index_rows)
qed

lemma zones_named_retired:
  "zones_named pf False n w = (Inr (rows_where (\<lambda>r. db_lower pf (z_name r) = db_lower pf n \<and> \<not> z_is_active r)
     (delivery_zones (db w))), w)"
  by (simp add: zones_named_def)

lemma other_zones:
  "\<exists>dup. other_zones_named pf n i w = (Inr dup, w) \<and>
     (dup = [] \<longleftrightarrow> (\<forall>p \<in> set (delivery_zones (db w)). active_name pf p = Some (db_lower pf n) \<longrightarrow> z_id p = i))"
  by (auto simp: other_zones_named_def rows_where_None active_name_def)

lemma write_zones_iff:
  "write_zones pf zs w = (r, w') \<longleftrightarrow>
     (if zones_wf pf zs then r = Inr () \<and> w' = w\<lparr>db := (db w)\<lparr>delivery_zones := zs\<rparr>\<rparr>
      else (r = Inl (IntegrityError ''delivery_zones_pkey'') \<or> r = Inl (IntegrityError ''idx_delivery_zones_name_active''))
        \<and> w' = w \<and> r = fst (write_zones pf zs w))"
  by (auto simp: write_zones_def zones_wf_def)

lemma write_zones_wf [simp]:
  "zones_wf pf zs \<Longrightarrow> write_zones pf zs w = (Inr (), w\<lparr>db := (db w)\<lparr>delivery_zones := zs\<rparr>\<rparr>)"
  by (simp add: write_zones_iff)

text \<open>An UPDATE of one row by its identifier.\<close>

lemma update_zone_wf:
  assumes wf: "zones_wf pf (delivery_zones (db w))" and q: "q \<in> set (delivery_zones (db w))"
    and id: "\<And>r. z_id (f r) = z_id r"
    and new: "zones_wf pf (update_where (\<lambda>r. z_id r = z_id q) f (delivery_zones (db w)))"
  shows "update_zone pf (z_id q) f w = (Inr (f q),
    w\<lparr>db := (db w)\<lparr>delivery_zones := update_where (\<lambda>r. z_id r = z_id q) f (delivery_zones (db w))\<rparr>\<rparr>)"
proof -
  have "first_where (\<lambda>r. z_id r = z_id q) (delivery_zones (db w)) = Some q"
    using wf q by (simp add: first_where_key zones_wf_def)
  then have "rows_where (\<lambda>r. z_id r = z_id q) (update_where (\<lambda>r. z_id r = z_id q) f (delivery_zones (db w))) = [f q]"
    using new by (simp add: rows_where_key zones_wf_def first_where_update_key id)
  then show ?thesis using new by (simp add: update_zone_def bind_io_apply)
qed

lemma zones_wf_update:
  assumes "zones_wf pf zs" "\<And>r. z_id (f r) = z_id r" "q \<in> set zs"
    and "\<And>k p. active_name pf (f q) = Some k \<Longrightarrow> p \<in> set zs \<Longrightarrow> active_name pf p = Some k \<Longrightarrow> z_id p = z_id q"
  shows "zones_wf pf (update_where (\<lambda>r. z_id r = z_id q) f zs)"
  unfolding zones_wf_def
proof
  show "key_unique z_id (update_where (\<lambda>r. z_id r = z_id q) f zs)"
    using assms(1,2) by (simp add: zones_wf_def)
  have same: "p = q" if "p \<in> set zs" "z_id p = z_id q" for p
    using assms(1,3) that key_unique_same by (auto simp: zones_wf_def)
  show "index_unique (active_name pf) (update_where (\<lambda>r. z_id r = z_id q) f zs)"
    using assms(1,4) same by (intro index_unique_update) (auto simp: zones_wf_def)
qed

text \<open>How a changed row changes the offers.\<close>

lemma offers_update:
  assumes "zones_wf pf zs" "q \<in> set zs" "zones_wf pf (update_where (\<lambda>r. z_id r = z_id q) f zs)"
  shows "zone_offers pf (update_where (\<lambda>r. z_id r = z_id q) f zs) =
    (let m = (case active_name pf q of None \<Rightarrow> zone_offers pf zs | Some k \<Rightarrow> (zone_offers pf zs)(k := None))
     in case active_name pf (f q) of None \<Rightarrow> m | Some k \<Rightarrow> m(k \<mapsto> offer_of (f q)))"
proof
  fix k
  have "first_where (\<lambda>r. active_name pf r = Some k) (update_where (\<lambda>r. z_id r = z_id q) f zs) =
    (if active_name pf (f q) = Some k then Some (f q) else if active_name pf q = Some k then None
     else first_where (\<lambda>r. active_name pf r = Some k) zs)"
    using assms by (intro index_lookup_update) (simp_all add: zones_wf_def)
  then show "zone_offers pf (update_where (\<lambda>r. z_id r = z_id q) f zs) k =
    (let m = (case active_name pf q of None \<Rightarrow> zone_offers pf zs | Some k \<Rightarrow> (zone_offers pf zs)(k := None))
     in case active_name pf (f q) of None \<Rightarrow> m | Some k \<Rightarrow> m(k \<mapsto> offer_of (f q))) k"
    by (auto simp: zone_offers_def Let_def split: option.splits)
qed

lemma offers_None: "zone_offers pf zs k = None \<longleftrightarrow> (\<forall>p \<in> set zs. active_name pf p \<noteq> Some k)"
  by (simp add: zone_offers_def index_lookup_None)

lemma offers_Some:
  "zones_wf pf zs \<Longrightarrow> zone_offers pf zs k = Some e \<longleftrightarrow> (\<exists>q \<in> set zs. active_name pf q = Some k \<and> e = offer_of q)"
  by (auto simp: zone_offers_def zones_wf_def index_lookup)

section \<open>Each action refines its abstract step\<close>

definition zone_outcome :: "platform \<Rightarrow> ZoneCommand \<Rightarrow> world \<Rightarrow> json result \<Rightarrow> world \<Rightarrow> bool" where
  "zone_outcome pf c w r w' \<longleftrightarrow>
     (let old = delivery_zones (db w);
          after = offer_step (db_lower pf) c (zone_offers pf old) (retired_offers pf old)
      in case r of
           Inr _ \<Rightarrow> \<exists>zs. db w' = (db w)\<lparr>delivery_zones := zs\<rparr> \<and> zones_wf pf zs
             \<and> z_id ` set old \<subseteq> z_id ` set zs \<and> after = Some (zone_offers pf zs)
         | Inl _ \<Rightarrow> zone_fits w c \<longrightarrow> after = None)"

lemma zone_outcomeI:
  assumes "db w' = (db w)\<lparr>delivery_zones := zs\<rparr>" "zones_wf pf zs"
    "z_id ` set (delivery_zones (db w)) \<subseteq> z_id ` set zs"
    "offer_step (db_lower pf) c (zone_offers pf (delivery_zones (db w))) (retired_offers pf (delivery_zones (db w)))
       = Some (zone_offers pf zs)"
  shows "zone_outcome pf c w (Inr out) w'"
  using assms by (auto simp: zone_outcome_def)

lemma ids_update: "(\<And>r. z_id (f r) = z_id r) \<Longrightarrow> z_id ` set (update_where p f zs) = z_id ` set zs"
  by (metis list.set_map map_update_where)

lemma create_outcome:
  assumes wf: "zones_wf pf (delivery_zones (db w))"
    and c: "zc_action c = ''create''" "zc_name c = Some n" "zc_delivery_time_minutes c = JInt t"
    and run: "apply_zone_create pf c n w = (r, w')"
  shows "zone_outcome pf c w r w'"
proof -
  let ?old = "delivery_zones (db w)" and ?k = "db_lower pf n"
  let ?q = "\<lparr>z_id = uuids w (uuid_next w), z_external_id = None, z_name = n, z_delivery_time_minutes = t,
     z_is_active = True, z_delivery_fee_rub = coalesce (zc_delivery_fee_rub c) 99\<rparr>"
  have step: "offer_step (db_lower pf) c (zone_offers pf ?old) (retired_offers pf ?old) =
      offer_new (zone_offers pf ?old) ?k (t, coalesce (zc_delivery_fee_rub c) 99)"
    using c by (simp add: offer_step_def int_param_def)
  have key: "active_name pf ?q = Some ?k" by (simp add: active_name_def)
  show ?thesis
  proof (cases "zone_offers pf ?old ?k")
    case (Some e)
    then have "\<exists>q. first_where (\<lambda>r. active_name pf r = Some ?k) ?old = Some q"
      by (auto simp: zone_offers_def)
    then have "\<exists>e. r = Inl e"
      using run c wf by (auto simp: apply_zone_create_def bind_io_apply zones_named_active)
    then show ?thesis using Some step by (auto simp: zone_outcome_def offer_new_def)
  next
    case None
    then have free: "first_where (\<lambda>r. active_name pf r = Some ?k) ?old = None"
      by (auto simp: zone_offers_def)
    have wf': "zones_wf pf (?old @ [?q]) \<longleftrightarrow> uuids w (uuid_next w) \<notin> z_id ` set ?old"
      using wf free key by (auto simp: zones_wf_def key_unique_append index_unique_append index_lookup_None)
    show ?thesis
    proof (cases "zone_fits w c")
      case True
      then have w': "r = Inr (zone_summary ''create'' ?q)" "db w' = (db w)\<lparr>delivery_zones := ?old @ [?q]\<rparr>"
        using run c wf free wf'
        by (auto simp: apply_zone_create_def bind_io_apply zones_named_active on_unique_violation_def
            catch_io_apply insert_zone_def zone_fits_def check_varchar_apply check_int4_apply check_opt_apply
            int_param_def Let_def coalesce_def)
      have "zone_offers pf (?old @ [?q]) = (zone_offers pf ?old)(?k \<mapsto> offer_of ?q)"
        using True wf' key
        by (intro ext) (simp add: zone_offers_def index_lookup_append zones_wf_def zone_fits_def)
      then show ?thesis
        unfolding w' using True wf' w' step None
        by (intro zone_outcomeI[where zs = "?old @ [?q]"]) (auto simp: zone_fits_def offer_new_def offer_of_def)
    next
      case False
      show ?thesis
      proof (cases r)
        case (Inl e)
        then show ?thesis using False by (simp add: zone_outcome_def)
      next
        case (Inr out)
        then have "pred_option (\<lambda>n. length n \<le> 255) (zc_name c)" "int4 t" "pred_option int4 (zc_delivery_fee_rub c)"
            "zones_wf pf (?old @ [?q])"
          using run c wf free
          by (auto simp: apply_zone_create_def bind_io_apply zones_named_active on_unique_violation_def
              catch_io_apply insert_zone_def check_varchar_apply check_int4_apply check_opt_apply
              write_zones_def zones_wf_def coalesce_def Let_def split: if_splits prod.splits sum.splits exn.splits)
        then show ?thesis using False wf' c by (simp add: zone_fits_def int_param_def)
      qed
    qed
  qed
qed

lemma no_other_zone:
  assumes "zones_wf pf zs" "q \<in> set zs"
  shows "(\<forall>p \<in> set zs. active_name pf p = Some k \<longrightarrow> z_id p = z_id q) \<longleftrightarrow>
    ((case active_name pf q of None \<Rightarrow> zone_offers pf zs | Some k' \<Rightarrow> (zone_offers pf zs)(k' := None)) k = None)"
proof -
  have same: "p = q" if "p \<in> set zs" "z_id p = z_id q" for p
    using assms that key_unique_same by (auto simp: zones_wf_def)
  have one: "p = q" if "p \<in> set zs" "active_name pf p = Some k'" "active_name pf q = Some k'" for p k'
    using assms that index_unique_same by (fastforce simp: zones_wf_def)
  show ?thesis
  proof (cases "active_name pf q")
    case None
    then have "active_name pf p \<noteq> Some k" if "p \<in> set zs" "z_id p = z_id q" for p
      using same[OF that] by simp
    then show ?thesis using None by (auto simp: offers_None)
  next
    case (Some k')
    show ?thesis
    proof (cases "k = k'")
      case True
      then show ?thesis using Some one by auto
    next
      case False
      then have "active_name pf p \<noteq> Some k" if "p \<in> set zs" "z_id p = z_id q" for p
        using same[OF that] Some by simp
      then show ?thesis using Some False by (auto simp: offers_None)
    qed
  qed
qed

lemma activate_outcome:
  assumes wf: "zones_wf pf (delivery_zones (db w))"
    and c: "zc_action c = ''activate''" "zc_target_zone_name c = Some n"
    and run: "apply_zone_activate pf n w = (r, w')"
  shows "zone_outcome pf c w r w'"
proof -
  let ?old = "delivery_zones (db w)" and ?k = "db_lower pf n"
  let ?rows = "rows_where (\<lambda>r. db_lower pf (z_name r) = ?k \<and> \<not> z_is_active r) ?old"
  have step: "offer_step (db_lower pf) c (zone_offers pf ?old) (retired_offers pf ?old) =
      (case map offer_of ?rows of [e] \<Rightarrow> offer_new (zone_offers pf ?old) ?k e | _ \<Rightarrow> None)"
    using c by (simp add: offer_step_def retired_offers_def)
  show ?thesis
  proof (cases "\<exists>q. ?rows = [q]")
    case False
    then have "\<exists>e. r = Inl e" "offer_step (db_lower pf) c (zone_offers pf ?old) (retired_offers pf ?old) = None"
      using run step by (auto simp: apply_zone_activate_def bind_io_apply zones_named_retired split: list.splits)
    then show ?thesis by (auto simp: zone_outcome_def)
  next
    case True
    then obtain q where q: "?rows = [q]" by blast
    then have "q \<in> set ?rows" by simp
    then have old: "q \<in> set ?old" "db_lower pf (z_name q) = ?k" "\<not> z_is_active q" by auto
    then have no_key: "active_name pf q = None" by (simp add: active_name_def)
    obtain dup where dup: "other_zones_named pf n (z_id q) w = (Inr dup, w)"
        "dup = [] \<longleftrightarrow> (\<forall>p \<in> set ?old. active_name pf p = Some ?k \<longrightarrow> z_id p = z_id q)"
      using other_zones by blast
    have free: "dup = [] \<longleftrightarrow> zone_offers pf ?old ?k = None"
      using dup(2) no_other_zone[OF wf old(1), of ?k] no_key by simp
    let ?f = "\<lambda>r. r\<lparr>z_is_active := True\<rparr>"
    let ?zs = "update_where (\<lambda>r. z_id r = z_id q) ?f ?old"
    have key: "active_name pf (?f q) = Some ?k" using old by (simp add: active_name_def)
    show ?thesis
    proof (cases "dup = []")
      case False
      then have "\<exists>e. r = Inl e"
        using run dup(1) q by (auto simp: apply_zone_activate_def bind_io_apply zones_named_retired)
      moreover have "zone_offers pf ?old ?k \<noteq> None" using free False by simp
      ultimately show ?thesis using step q by (auto simp: zone_outcome_def offer_new_def)
    next
      case True
      have wf': "zones_wf pf ?zs"
        using wf True dup(2) key old(1) by (intro zones_wf_update) auto
      have "r = Inr (zone_summary ''activate'' (?f q))" and w': "w' = w\<lparr>db := (db w)\<lparr>delivery_zones := ?zs\<rparr>\<rparr>"
        using run q dup(1) True update_zone_wf[OF wf old(1) _ wf']
        by (simp_all add: apply_zone_activate_def bind_io_apply zones_named_retired on_unique_violation_def catch_io_apply)
      moreover have "zone_offers pf ?zs = (zone_offers pf ?old)(?k \<mapsto> offer_of q)"
        using offers_update[OF wf old(1) wf'] key no_key by (simp add: offer_of_def)
      moreover have "zone_offers pf ?old ?k = None" using free True by simp
      ultimately show ?thesis
        using step q wf' by (auto intro!: zone_outcomeI[where zs = ?zs] simp: offer_new_def ids_update)
    qed
  qed
qed

lemma deactivate_outcome:
  assumes wf: "zones_wf pf (delivery_zones (db w))"
    and c: "zc_action c = ''deactivate''" "zc_target_zone_name c = Some n"
    and q: "q \<in> set (delivery_zones (db w))" "active_name pf q = Some (db_lower pf n)"
    and run: "apply_zone_deactivate pf (z_id q) w = (r, w')"
  shows "zone_outcome pf c w r w'"
proof -
  let ?old = "delivery_zones (db w)" and ?f = "\<lambda>r. r\<lparr>z_is_active := False\<rparr>"
  let ?zs = "update_where (\<lambda>r. z_id r = z_id q) ?f ?old"
  have key: "active_name pf (?f q) = None" by (simp add: active_name_def)
  have wf': "zones_wf pf ?zs" using wf q(1) key by (intro zones_wf_update) auto
  have "zone_offers pf ?old (db_lower pf n) = Some (offer_of q)"
    using offers_Some[OF wf] q by blast
  then have "offer_step (db_lower pf) c (zone_offers pf ?old) (retired_offers pf ?old) = Some (zone_offers pf ?zs)"
    using offers_update[OF wf q(1) wf'] key q(2) c by (simp add: offer_step_def split: prod.splits)
  moreover have "\<exists>out. r = Inr out" and "db w' = (db w)\<lparr>delivery_zones := ?zs\<rparr>"
    using run wf' by (auto simp: apply_zone_deactivate_def bind_io_apply)
  ultimately show ?thesis using wf' by (auto intro!: zone_outcomeI[where zs = ?zs] simp: ids_update)
qed

lemma update_outcome:
  assumes wf: "zones_wf pf (delivery_zones (db w))"
    and c: "zc_action c = ''update''" "zc_target_zone_name c = Some n"
    and q: "q \<in> set (delivery_zones (db w))" "active_name pf q = Some (db_lower pf n)"
    and run: "apply_zone_update pf c (z_id q) w = (r, w')"
  shows "zone_outcome pf c w r w'"
proof -
  let ?old = "delivery_zones (db w)" and ?k = "db_lower pf n" and ?k' = "db_lower pf (coalesce (zc_name c) n)"
  let ?f = "set_zone_fields c"
  let ?zs = "update_where (\<lambda>r. z_id r = z_id q) ?f ?old"
  let ?cols = "pred_option (\<lambda>n. length n \<le> 255) (zc_name c)
    \<and> pred_option int4 (int_param (zc_delivery_time_minutes c)) \<and> pred_option int4 (zc_delivery_fee_rub c)"
  have q_key: "z_is_active q" "db_lower pf (z_name q) = ?k" using q(2) by (auto simp: active_name_def split: if_splits)
  have key: "active_name pf (?f q) = Some ?k'"
    using q_key by (cases "zc_name c") (simp_all add: active_name_def coalesce_def set_zone_fields_def)
  have "zone_offers pf ?old ?k = Some (offer_of q)"
    using offers_Some[OF wf] q by blast
  then have step: "offer_step (db_lower pf) c (zone_offers pf ?old) (retired_offers pf ?old) =
      offer_new ((zone_offers pf ?old)(?k := None)) ?k' (offer_of (?f q))"
    using c by (simp add: offer_step_def offer_of_def set_zone_fields_def)
  have free: "(\<forall>p \<in> set ?old. active_name pf p = Some ?k' \<longrightarrow> z_id p = z_id q) \<longleftrightarrow>
      ((zone_offers pf ?old)(?k := None)) ?k' = None"
    using no_other_zone[OF wf q(1), of ?k'] q(2) by simp
  have self: "((zone_offers pf ?old)(?k := None)) ?k' = None" if "zc_name c = None"
    using that by (simp add: coalesce_def)
  obtain dup where dup: "(case zc_name c of None \<Rightarrow> ret [] | Some m \<Rightarrow> other_zones_named pf m (z_id q)) w = (Inr dup, w)"
      "dup = [] \<longleftrightarrow> ((zone_offers pf ?old)(?k := None)) ?k' = None"
  proof (cases "zc_name c")
    case None
    then show ?thesis using that self by simp
  next
    case (Some m)
    then show ?thesis using that other_zones[of pf m "z_id q" w] free by (auto simp: coalesce_def)
  qed
  show ?thesis
  proof (cases "dup = []")
    case False
    then have "\<exists>e. r = Inl e" using run dup(1) by (auto simp: apply_zone_update_def bind_io_apply Let_def)
    then show ?thesis using False dup(2) step by (auto simp: zone_outcome_def offer_new_def)
  next
    case True
    have id: "z_id (?f r) = z_id r" for r by (simp add: set_zone_fields_def)
    have wf': "zones_wf pf ?zs"
      using wf True dup(2) key q(1) free id by (intro zones_wf_update) auto
    have upd: "update_zone pf (z_id q) ?f w = (Inr (?f q), w\<lparr>db := (db w)\<lparr>delivery_zones := ?zs\<rparr>\<rparr>)"
      by (rule update_zone_wf[OF wf q(1) id wf'])
    have res: "if ?cols then r = Inr (zone_summary ''update'' (?f q)) \<and> w' = w\<lparr>db := (db w)\<lparr>delivery_zones := ?zs\<rparr>\<rparr>
        else \<exists>e. r = Inl e"
    proof (cases ?cols)
      case True
      then show ?thesis
        using run dup(1) \<open>dup = []\<close> upd
        by (simp add: apply_zone_update_def bind_io_apply on_unique_violation_def catch_io_apply check_opt_apply)
    next
      case False
      then have "\<exists>d. (bind_io (check_opt (check_varchar 255) (zc_name c)) (\<lambda>_.
          bind_io (check_opt check_int4 (int_param (zc_delivery_time_minutes c))) (\<lambda>_.
          bind_io (check_opt check_int4 (zc_delivery_fee_rub c)) (\<lambda>_.
            update_zone pf (z_id q) (set_zone_fields c))))) w = (Inl (DataError d), w)"
        by (auto simp: bind_io_apply check_opt_apply)
      then obtain d where "(bind_io (check_opt (check_varchar 255) (zc_name c)) (\<lambda>_.
          bind_io (check_opt check_int4 (int_param (zc_delivery_time_minutes c))) (\<lambda>_.
          bind_io (check_opt check_int4 (zc_delivery_fee_rub c)) (\<lambda>_.
            update_zone pf (z_id q) (set_zone_fields c))))) w = (Inl (DataError d), w)" ..
      then have "r = Inl (DataError d)"
        using run dup(1) \<open>dup = []\<close> unfolding apply_zone_update_def Let_def on_unique_violation_def
        by (simp add: catch_io_apply)
      then show ?thesis using False by auto
    qed
    show ?thesis
    proof (cases ?cols)
      case True
      have "zone_offers pf ?zs = (zone_offers pf ?old)(?k := None, ?k' \<mapsto> offer_of (?f q))"
        using offers_update[OF wf q(1) wf'] key q(2) by (simp add: Let_def)
      then show ?thesis
        using res True \<open>dup = []\<close> dup(2) step wf'
        by (auto intro!: zone_outcomeI[where zs = ?zs] simp: offer_new_def ids_update id)
    next
      case False
      then show ?thesis using res by (auto simp: zone_outcome_def zone_fits_def)
    qed
  qed
qed

section \<open>The write step and the validator\<close>

lemma zone_shape:
  assumes "required_zone_shape cmd = Some c"
  shows "zc_action c \<in> set VALID_ACTIONS" "zone_fields_ok c"
  using assms by (auto simp: required_zone_shape_def Let_def split: json.splits option.splits if_splits)

lemma zone_shape_cases:
  assumes "required_zone_shape cmd = Some c"
  obtains n t where "zc_action c = ''create''" "zc_name c = Some n" "zc_delivery_time_minutes c = JInt t"
    | n where "zc_action c = ''activate''" "zc_target_zone_name c = Some n"
    | n where "zc_action c = ''update''" "zc_target_zone_name c = Some n"
    | n where "zc_action c = ''deactivate''" "zc_target_zone_name c = Some n"
  using zone_shape[OF assms]
  by (auto simp: VALID_ACTIONS_def zone_fields_ok_def positive_int_def split: json.splits)

lemma target_outcome:
  assumes wf: "zones_wf pf (delivery_zones (db w))"
    and c: "zc_action c = ''update'' \<or> zc_action c = ''deactivate''" "zc_target_zone_name c = Some n"
    and run: "apply_zone_target pf c n w = (r, w')"
  shows "zone_outcome pf c w r w'"
proof (cases "first_where (\<lambda>r. active_name pf r = Some (db_lower pf n)) (delivery_zones (db w))")
  case None
  then have "\<exists>e. r = Inl e"
    using run wf by (auto simp: apply_zone_target_def bind_io_apply zones_named_active)
  then show ?thesis
    using c None by (auto simp: zone_outcome_def offer_step_def zone_offers_def)
next
  case (Some q)
  then have q: "q \<in> set (delivery_zones (db w))" "active_name pf q = Some (db_lower pf n)"
    by (auto dest: first_where_Some)
  then show ?thesis
    using c run wf Some update_outcome[OF wf _ c(2) q] deactivate_outcome[OF wf _ c(2) q]
    by (auto simp: apply_zone_target_def bind_io_apply zones_named_active)
qed

lemma command_outcome:
  assumes wf: "zones_wf pf (delivery_zones (db w))" and c: "required_zone_shape cmd = Some c"
    and run: "apply_zone_command pf [(''command'', cmd)] w = (r, w')"
  shows "zone_outcome pf c w r w'"
  using c
proof (cases rule: zone_shape_cases)
  case (1 n t)
  then show ?thesis using run c create_outcome[OF wf 1] by (simp add: apply_zone_command_def bind_io_apply)
next
  case (2 n)
  then show ?thesis using run c activate_outcome[OF wf 2] by (simp add: apply_zone_command_def bind_io_apply)
next
  case (3 n)
  then show ?thesis using run c target_outcome[OF wf _ 3(2)] by (simp add: apply_zone_command_def bind_io_apply)
next
  case (4 n)
  then show ?thesis using run c target_outcome[OF wf _ 4(2)] by (simp add: apply_zone_command_def bind_io_apply)
qed

text \<open>The early rejection never refuses a command that the write would have carried out.\<close>

lemma rejection_is_final:
  assumes wf: "zones_wf pf (delivery_zones (db w))" and c: "required_zone_shape cmd = Some c"
    and run: "validate_apply_zone_command pf [(''command'', cmd)] w = (r, w')" "r \<noteq> Inr (JInt 1)"
  shows "offer_step (db_lower pf) c (zone_offers pf (delivery_zones (db w))) (retired_offers pf (delivery_zones (db w))) = None"
proof -
  let ?old = "delivery_zones (db w)"
  have active: "zones_named pf True n w = (Inr (case first_where (\<lambda>r. active_name pf r = Some (db_lower pf n)) ?old of
      None \<Rightarrow> [] | Some q \<Rightarrow> [q]), w)" for n
    by (rule zones_named_active[OF wf])
  have offers: "zone_offers pf ?old (db_lower pf n) = None \<longleftrightarrow>
      first_where (\<lambda>r. active_name pf r = Some (db_lower pf n)) ?old = None" for n
    by (simp add: zone_offers_def)
  show ?thesis
    using c
  proof (cases rule: zone_shape_cases)
    case (1 n t)
    then have "first_where (\<lambda>r. active_name pf r = Some (db_lower pf n)) ?old \<noteq> None"
      using run c active by (auto simp: validate_apply_zone_command_def validate_zone_create_def bind_io_apply
          split: option.splits)
    then have "zone_offers pf ?old (db_lower pf n) \<noteq> None" by (simp add: offers)
    then show ?thesis using 1 by (simp add: offer_step_def offer_new_def int_param_def)
  next
    case (2 n)
    let ?rows = "rows_where (\<lambda>r. db_lower pf (z_name r) = db_lower pf n \<and> \<not> z_is_active r) ?old"
    have "length ?rows \<noteq> 1 \<or> first_where (\<lambda>r. active_name pf r = Some (db_lower pf n)) ?old \<noteq> None"
    proof (rule ccontr)
      assume "\<not> ?thesis"
      then have "validate_apply_zone_command pf [(''command'', cmd)] w = (Inr (JInt 1), w)"
        using 2 c active
        by (simp add: validate_apply_zone_command_def validate_zone_activate_def bind_io_apply zones_named_retired)
      then show False using run by simp
    qed
    then have "length (map offer_of ?rows) \<noteq> 1 \<or> zone_offers pf ?old (db_lower pf n) \<noteq> None"
      by (simp add: offers)
    then show ?thesis
      using 2 by (auto simp: offer_step_def offer_new_def retired_offers_def split: list.splits)
  next
    case (3 n)
    then have "first_where (\<lambda>r. active_name pf r = Some (db_lower pf n)) ?old = None"
      using run c active
      by (auto simp: validate_apply_zone_command_def validate_zone_target_def bind_io_apply split: option.splits)
    then show ?thesis using 3 by (simp add: offer_step_def offers[symmetric])
  next
    case (4 n)
    then have "first_where (\<lambda>r. active_name pf r = Some (db_lower pf n)) ?old = None"
      using run c active
      by (auto simp: validate_apply_zone_command_def validate_zone_target_def bind_io_apply split: option.splits)
    then show ?thesis using 4 by (simp add: offer_step_def offers[symmetric])
  qed
qed

section \<open>Zone commands\<close>

definition zone_after :: "platform \<Rightarrow> json \<Rightarrow> zone_row list \<Rightarrow> offers option" where
  "zone_after pf cmd zs = (case required_zone_shape cmd of
       None \<Rightarrow> None
     | Some c \<Rightarrow> offer_step (db_lower pf) c (zone_offers pf zs) (retired_offers pf zs))"

lemma malformed_not_applied:
  "required_zone_shape cmd = None \<Longrightarrow> validate_apply_zone_command pf [(''command'', cmd)] w \<noteq> (Inr (JInt 1), w1)"
  by (simp add: validate_apply_zone_command_def bind_io_apply)

lemma zone_phase:
  assumes vm: "vm_ok pf" and wf: "zones_wf pf (delivery_zones (committed w))"
    and run: "apply_zone pf cmd w = (r, w')"
  shows "\<exists>res zs. r = Inr res \<and> committed w' = (committed w)\<lparr>delivery_zones := zs\<rparr> \<and> db w' = committed w'
    \<and> zones_wf pf zs \<and> z_id ` set (delivery_zones (committed w)) \<subseteq> z_id ` set zs
    \<and> (if apr_applied res then zone_after pf cmd (delivery_zones (committed w)) = Some (zone_offers pf zs)
       else zs = delivery_zones (committed w) \<and>
         (pred_option (zone_fits (w\<lparr>db := committed w\<rparr>)) (required_zone_shape cmd) \<longrightarrow>
            zone_after pf cmd (delivery_zones (committed w)) = None))"
proof -
  let ?w = "w\<lparr>db := committed w, diagnostics := None\<rparr>" and ?kw = "[(''command'', cmd)]"
  let ?old = "delivery_zones (committed w)"
  obtain x w1 where v: "validate_apply_zone_command pf ?kw ?w = (x, w1)" by fastforce
  obtain y w2 where a: "apply_zone_command pf ?kw w1 = (y, w2)" by fastforce
  from verdictD[OF verdict_zone v] obtain d where w1: "w1 = ?w\<lparr>diagnostics := d\<rparr>" by blast
  obtain res where res: "r = Inr res" "db w' = committed w'" and cases:
    "if apr_applied res then x = Inr (JInt 1) \<and> (\<exists>out. y = Inr out) \<and> committed w' = db w2
     else committed w' = committed w \<and> (x = Inr (JInt 1) \<longrightarrow> (\<exists>e. y = Inl e))"
    using zone_apply.apply_cases[OF vm run[unfolded apply_zone_def PROGRAM_APPLY_ZONE_def]] v a
    by (cases y) (auto split: if_splits)
  show ?thesis
  proof (cases "required_zone_shape cmd")
    case None
    then have "x \<noteq> Inr (JInt 1)" using malformed_not_applied v by blast
    then have "\<not> apr_applied res" "committed w' = committed w" using cases by (auto split: if_splits)
    then show ?thesis
      using res wf None by (intro exI[of _ res] exI[of _ ?old]) (simp add: zone_after_def)
  next
    case (Some c)
    have out: "zone_outcome pf c w1 y w2"
      by (rule command_outcome[OF _ Some a]) (simp add: w1 wf)
    have after: "zone_after pf cmd ?old = offer_step (db_lower pf) c (zone_offers pf ?old) (retired_offers pf ?old)"
      using Some by (simp add: zone_after_def)
    show ?thesis
    proof (cases "apr_applied res")
      case True
      then obtain out zs where "y = Inr out" "db w2 = (db w1)\<lparr>delivery_zones := zs\<rparr>" "zones_wf pf zs"
          "z_id ` set ?old \<subseteq> z_id ` set zs" "zone_after pf cmd ?old = Some (zone_offers pf zs)"
        using cases out after by (auto simp: zone_outcome_def w1 Let_def)
      then show ?thesis
        using res True cases by (intro exI[of _ res] exI[of _ zs]) (simp add: w1)
    next
      case False
      have "zone_after pf cmd ?old = None" if fits: "zone_fits (w\<lparr>db := committed w\<rparr>) c"
      proof (cases "x = Inr (JInt 1)")
        case True
        then obtain e where "y = Inl e" using cases False by auto
        then show ?thesis using out fits after by (simp add: zone_outcome_def w1 zone_fits_def Let_def)
      next
        case no: False
        then show ?thesis using rejection_is_final[OF _ Some v no] wf after by simp
      qed
      then show ?thesis
        using res False cases wf Some by (intro exI[of _ res] exI[of _ ?old]) simp
    qed
  qed
qed

text \<open>C6. The apply phase of the zone agent refines the map from names to what is
offered: a command is applied exactly when its abstract step is possible (for
values the columns can hold), the offers afterwards are those of the step, and
in every other case the database is untouched.\<close>

theorem zone_commands_refine:
  assumes "vm_ok pf" "zones_wf pf (delivery_zones (committed w))" "apply_zone pf cmd w = (r, w')"
  shows "\<exists>res. r = Inr res \<and>
    (if apr_applied res
     then zone_after pf cmd (delivery_zones (committed w)) = Some (zone_offers pf (delivery_zones (committed w')))
     else committed w' = committed w \<and>
       (pred_option (zone_fits (w\<lparr>db := committed w\<rparr>)) (required_zone_shape cmd) \<longrightarrow>
          zone_after pf cmd (delivery_zones (committed w)) = None))"
  using zone_phase[OF assms] by (elim exE) (rule exI, auto split: if_splits)

definition cheaper_zone :: json where
  "cheaper_zone = JObj [(''action'', JStr ''update''), (''target_zone_name'', JStr ''CITY''), (''delivery_fee_rub'', JInt 50)]"

definition zone_world :: world where
  "zone_world = sample_world\<lparr>committed := empty_db\<lparr>delivery_zones :=
     [\<lparr>z_id = ''z1'', z_external_id = None, z_name = ''City'', z_delivery_time_minutes = 30, z_is_active = True,
       z_delivery_fee_rub = 99\<rparr>,
      \<lparr>z_id = ''z2'', z_external_id = None, z_name = ''Far'', z_delivery_time_minutes = 60, z_is_active = False,
       z_delivery_fee_rub = 200\<rparr>]\<rparr>\<rparr>"

theorem zone_commands_refine_witness:
  "\<exists>res w'. apply_zone ref_platform cheaper_zone zone_world = (Inr res, w') \<and> apr_applied res
     \<and> zone_offers ref_platform (delivery_zones (committed w')) ''city'' = Some (30, 50)"
proof -
  let ?old = "delivery_zones (committed zone_world)"
  obtain r w' where run: "apply_zone ref_platform cheaper_zone zone_world = (r, w')" by fastforce
  have wf: "zones_wf ref_platform ?old" by code_simp
  have fits: "pred_option (zone_fits (zone_world\<lparr>db := committed zone_world\<rparr>)) (required_zone_shape cheaper_zone)"
    by code_simp
  have "map_option (\<lambda>m. m ''city'') (zone_after ref_platform cheaper_zone ?old) = Some (Some (30, 50))"
    by code_simp
  then show ?thesis
    using zone_commands_refine[OF vm_ok_ref wf run] run fits by (auto split: if_splits)
qed

primrec apply_zones :: "platform \<Rightarrow> json list \<Rightarrow> world \<Rightarrow> world" where
  "apply_zones pf [] w = w"
| "apply_zones pf (c # cs) w = apply_zones pf cs (snd (apply_zone pf c w))"

text \<open>C17. Whatever commands arrive, in whatever order: the names of active zones
stay unique, no zone that an order may refer to is ever deleted, and no other
table changes.\<close>

theorem zones_never_lost:
  assumes "vm_ok pf" "zones_wf pf (delivery_zones (committed w))"
  shows "zones_wf pf (delivery_zones (committed (apply_zones pf cs w)))
    \<and> z_id ` set (delivery_zones (committed w)) \<subseteq> z_id ` set (delivery_zones (committed (apply_zones pf cs w)))
    \<and> (\<exists>zs. committed (apply_zones pf cs w) = (committed w)\<lparr>delivery_zones := zs\<rparr>)"
  using assms(2)
proof (induction cs arbitrary: w)
  case Nil
  then show ?case by (auto intro: exI[of _ "delivery_zones (committed w)"])
next
  case (Cons c cs)
  obtain r w1 where run: "apply_zone pf c w = (r, w1)" by fastforce
  from zone_phase[OF assms(1) Cons.prems run] obtain zs where
    "committed w1 = (committed w)\<lparr>delivery_zones := zs\<rparr>" "zones_wf pf zs"
    "z_id ` set (delivery_zones (committed w)) \<subseteq> z_id ` set zs" by blast
  then show ?case using Cons.IH[of w1] run by auto
qed

theorem zones_never_lost_witness:
  "zones_wf ref_platform (delivery_zones (committed (apply_zones ref_platform [cheaper_zone, cheaper_zone] zone_world)))
   \<and> ''z2'' \<in> z_id ` set (delivery_zones (committed (apply_zones ref_platform [cheaper_zone, cheaper_zone] zone_world)))"
proof -
  have wf: "zones_wf ref_platform (delivery_zones (committed zone_world))" by code_simp
  have "''z2'' \<in> z_id ` set (delivery_zones (committed zone_world))" by code_simp
  then show ?thesis
    using zones_never_lost[OF vm_ok_ref wf, of "[cheaper_zone, cheaper_zone]"] by blast
qed

end
