(* ===== verification/Promotion_Tools.thy ===== *)
theory Promotion_Tools
  imports Agent_Core Unique_Index Policy_Snapshot Float64
begin

text \<open>
  The promotion agent: app/tools/promotion_agent_tools.py, the programs of
  app/programs/promotion_agent_program.py and the phases of
  app/agents/promotion_agent.py. Numbers are finite: the JSON literals NaN and
  Infinity, which json.loads also reads, have no value here.
\<close>

section \<open>Fields of a command\<close>

definition PROMOTION_ACTIONS :: "string list" where
  "PROMOTION_ACTIONS = [''create'', ''activate'', ''expire'', ''archive'']"

definition EFFECT_TYPES :: "string list" where
  "EFFECT_TYPES = [''PERCENT_DISCOUNT'', ''FIXED_AMOUNT'', ''FREE_DELIVERY'']"

text \<open>A numeric field that may be null.\<close>

definition is_number :: "json \<Rightarrow> bool" where
  "is_number v = (case v of JInt _ \<Rightarrow> True | JFloat _ \<Rightarrow> True | _ \<Rightarrow> False)"

definition optional_number :: "json \<Rightarrow> json option option" where
  "optional_number v = (if v = JNull then Some None else if is_number v then Some (Some v) else None)"

text \<open>\<open>float(x)\<close> of an int or a float.\<close>

definition py_float :: "json \<Rightarrow> rat result" where
  "py_float v = (case v of
       JInt n \<Rightarrow> if \<bar>n\<bar> < 2 ^ 1024 - 2 ^ 970 then Inr (round64 (of_int n)) else Inl OverflowError
     | JFloat r \<Rightarrow> Inr r
     | _ \<Rightarrow> Inl (TypeError ''float''))"

section \<open>The collect phase\<close>

definition promotion_create_judge :: "platform \<Rightarrow> (string \<times> json) list \<Rightarrow> string option" where
  "promotion_create_judge pf data =
     (if nonblank_text (json_get ''name'' data) = None then Some (''action=create requires a non-empty '' @ squoted ''name'')
      else let effect_type = (case map_of data ''effect_type'' of None \<Rightarrow> JStr ''PERCENT_DISCOUNT'' | Some v \<Rightarrow> v)
      in if \<not> in_texts effect_type EFFECT_TYPES then Some (''unknown '' @ squoted ''effect_type'' @ '' '' @ repr_of pf effect_type)
      else if in_texts effect_type [''PERCENT_DISCOUNT'', ''FIXED_AMOUNT''] \<and> \<not> is_number (json_get ''discount'' data)
      then Some (''action=create with effect_type='' @ repr_of pf effect_type @ '' requires a numeric '' @ squoted ''discount'')
      else if optional_text (json_get ''trigger_code'' data) = None
      then Some (squoted ''trigger_code'' @ '' must be a non-empty string or null'')
      else None)"

definition promotion_judge :: "platform \<Rightarrow> json \<Rightarrow> string option" where
  "promotion_judge pf v = (case v of
       JObj data \<Rightarrow>
         (let action = json_get ''action'' data in
          if \<not> in_texts action PROMOTION_ACTIONS
          then Some (''could not map the instruction to a supported action (create, activate, expire, archive)'')
          else if action = JStr ''create'' then promotion_create_judge pf data
          else if nonblank_text (json_get ''target_promotion_name'' data) = None
          then Some (''action='' @ repr_of pf action @ '' requires '' @ squoted ''target_promotion_name'')
          else None)
     | _ \<Rightarrow> Some ''parsed command is not an object'')"

definition validate_promotion_command :: "platform \<Rightarrow> world tool" where
  "validate_promotion_command pf =
     validate_text pf ''empty instruction - nothing to parse'' ''could not parse a command from the instruction''
       (promotion_judge pf)"

section \<open>The apply phase: reading the command\<close>

record PromotionCommand =
  pc_action :: string
  pc_name :: "string option"
  pc_discount :: "rat option"
  pc_target_promotion_name :: "string option"
  pc_effect_type :: "string option"
  pc_trigger_code :: "string option"

definition effect_field :: "string \<Rightarrow> json \<Rightarrow> string option option" where
  "effect_field action v = (case v of
       JNull \<Rightarrow> Some (if action = ''create'' then Some ''PERCENT_DISCOUNT'' else None)
     | JStr s \<Rightarrow> if s \<in> set EFFECT_TYPES then Some (Some s) else None
     | _ \<Rightarrow> None)"

definition opt_float :: "json option \<Rightarrow> rat option result" where
  "opt_float v = (case v of None \<Rightarrow> Inr None | Some x \<Rightarrow> (case py_float x of Inl e \<Rightarrow> Inl e | Inr r \<Rightarrow> Inr (Some r)))"

definition promotion_fields ::
  "string \<Rightarrow> string option \<Rightarrow> json option \<Rightarrow> string option \<Rightarrow> string option \<Rightarrow> string option
     \<Rightarrow> PromotionCommand option result" where
  "promotion_fields action name discount target effect trigger =
     (if action = ''create'' \<and> (name = None \<or> (effect \<noteq> Some ''FREE_DELIVERY'' \<and> discount = None)) then Inr None
      else if action \<noteq> ''create'' \<and> target = None then Inr None
      else (case opt_float (if action = ''create'' \<and> effect = Some ''FREE_DELIVERY'' then None else discount) of
          Inl e \<Rightarrow> Inl e
        | Inr d \<Rightarrow> Inr (Some \<lparr>pc_action = action, pc_name = map_option py_strip name, pc_discount = d,
            pc_target_promotion_name = map_option py_strip target, pc_effect_type = effect,
            pc_trigger_code = map_option py_strip trigger\<rparr>)))"

text \<open>\<open>_required_apply_fields\<close>; float() of a huge integer raises.\<close>

definition required_promotion_fields :: "json \<Rightarrow> PromotionCommand option result" where
  "required_promotion_fields command = (case command of
       JObj kvs \<Rightarrow>
         (case json_get ''action'' kvs of
            JStr action \<Rightarrow>
              if action \<notin> set PROMOTION_ACTIONS then Inr None
              else (case (optional_text (json_get ''name'' kvs), optional_number (json_get ''discount'' kvs),
                          optional_text (json_get ''target_promotion_name'' kvs),
                          effect_field action (json_get ''effect_type'' kvs),
                          optional_text (json_get ''trigger_code'' kvs)) of
                  (Some name, Some discount, Some target, Some effect, Some trigger) \<Rightarrow>
                    promotion_fields action name discount target effect trigger
                | _ \<Rightarrow> Inr None)
          | _ \<Rightarrow> Inr None)
     | _ \<Rightarrow> Inr None)"

definition ACTION_TO_EVENT :: "(string \<times> PromotionEvent) list" where
  "ACTION_TO_EVENT = [(''activate'', PromotionEvent.ACTIVATE), (''expire'', PromotionEvent.EXPIRE),
     (''archive'', PromotionEvent.ARCHIVE)]"

section \<open>The table\<close>

definition promotions_named :: "platform \<Rightarrow> string \<Rightarrow> (world, promotion_row list) io" where
  "promotions_named pf n = select_db (\<lambda>d. rows_where (\<lambda>r. db_lower pf (pr_name r) = db_lower pf n) (promotions d))"

text \<open>The key of idx_promotions_trigger_code.\<close>

definition trigger_key :: "platform \<Rightarrow> promotion_row \<Rightarrow> string option" where
  "trigger_key pf r = map_option (db_lower pf) (pr_trigger_code r)"

definition promotions_triggered :: "platform \<Rightarrow> string \<Rightarrow> (world, promotion_row list) io" where
  "promotions_triggered pf c = select_db (\<lambda>d. rows_where (\<lambda>r. trigger_key pf r = Some (db_lower pf c)) (promotions d))"

text \<open>A value stored in NUMERIC(10, 2): ties away from zero, overflow is an error.\<close>

definition numeric_10_2 :: "rat \<Rightarrow> rat result" where
  "numeric_10_2 x = (let n = \<lfloor>\<bar>x\<bar> * 100 + 1 / 2\<rfloor> in
     if n \<ge> 10 ^ 10 then Inl (DataError ''numeric field overflow'')
     else Inr ((if x < 0 then - 1 else 1) * of_int n / 100))"

definition insert_promotion ::
  "platform \<Rightarrow> string \<Rightarrow> rat \<Rightarrow> string \<Rightarrow> string option \<Rightarrow> (world, uuid) io" where
  "insert_promotion pf name discount effect_type trigger_code =
     bind_io (check_varchar 255 name) (\<lambda>_.
     bind_io (check_opt (check_varchar 64) trigger_code) (\<lambda>_.
     bind_io (lift_result (numeric_10_2 discount)) (\<lambda>d.
     bind_io new_uuid (\<lambda>i.
     bind_io (gets_io now) (\<lambda>t.
     bind_io (select_db promotions) (\<lambda>ps.
       let ps' = ps @ [\<lparr>pr_id = i, pr_name = name, pr_discount = d, pr_state = ''CREATED'',
                        pr_effect_type = effect_type, pr_trigger_code = trigger_code, pr_created_at = t\<rparr>]
       in if \<not> key_unique pr_id ps' then raise (IntegrityError ''promotions_pkey'')
          else if \<not> index_unique (trigger_key pf) ps' then raise (IntegrityError ''idx_promotions_trigger_code'')
          else bind_io (update_db (\<lambda>d. d\<lparr>promotions := ps'\<rparr>)) (\<lambda>_. ret i)))))))"

section \<open>The apply phase: validation\<close>

definition validate_trigger :: "platform \<Rightarrow> string option \<Rightarrow> (world, json) io" where
  "validate_trigger pf trigger_code = (case trigger_code of
       None \<Rightarrow> accept_command
     | Some c \<Rightarrow> bind_io (promotions_triggered pf c) (\<lambda>dupe.
         if dupe \<noteq> [] then reject_command (''trigger_code '' @ quoted pf c @ '' already in use'') else accept_command))"

definition validate_promotion_create :: "platform \<Rightarrow> PromotionCommand \<Rightarrow> (world, json) io" where
  "validate_promotion_create pf c =
     bind_io (assert_some (pc_name c)) (\<lambda>name.
     bind_io (assert_some (pc_effect_type c)) (\<lambda>effect_type.
     bind_io (if effect_type = ''PERCENT_DISCOUNT'' then bind_io (assert_some (pc_discount c)) (\<lambda>_. ret ()) else ret ()) (\<lambda>_.
       if effect_type = ''PERCENT_DISCOUNT'' \<and> (case pc_discount c of None \<Rightarrow> False | Some d \<Rightarrow> d < 0 \<or> d > 100)
       then reject_command (''discount '' @ repr_of pf (case pc_discount c of None \<Rightarrow> JNull | Some d \<Rightarrow> JFloat d)
              @ '' out of range (0-100)'')
       else if effect_type = ''FIXED_AMOUNT'' \<and> (case pc_discount c of None \<Rightarrow> True | Some d \<Rightarrow> d \<le> 0)
       then reject_command ''fixed-amount discount must be > 0''
       else bind_io (promotions_named pf name) (\<lambda>existing.
         if existing \<noteq> [] then reject_command (''a promotion named '' @ quoted pf name @ '' already exists'')
         else validate_trigger pf (pc_trigger_code c)))))"

definition validate_promotion_transition :: "platform \<Rightarrow> PromotionCommand \<Rightarrow> (world, json) io" where
  "validate_promotion_transition pf c =
     bind_io (assert_some (pc_target_promotion_name c)) (\<lambda>target.
     bind_io (promotions_named pf target) (\<lambda>matches. case matches of
       [p] \<Rightarrow>
         bind_io (lift_result (PromotionState_of (pr_state p))) (\<lambda>current_state.
           case map_of ACTION_TO_EVENT (pc_action c) of
             None \<Rightarrow> raise (KeyError (pc_action c))
           | Some event \<Rightarrow>
               if map_of PROMOTION_TRANSITIONS (current_state, event) = None
               then reject_command (''cannot '' @ pc_action c @ '' promotion '' @ quoted pf target
                      @ '' - it is currently '' @ PromotionState_value current_state)
               else accept_command)
     | [] \<Rightarrow> reject_command (''promotion '' @ quoted pf target @ '' not found'')
     | _ \<Rightarrow> reject_command (''promotion name '' @ quoted pf target @ '' matches ''
              @ int_str (int (length matches)) @ '' rows (expected exactly 1)'')))"

definition validate_apply_promotion_command :: "platform \<Rightarrow> world tool" where
  "validate_apply_promotion_command pf kw =
     bind_io (command_arg kw) (\<lambda>command.
     bind_io (lift_result (required_promotion_fields command)) (\<lambda>parsed. case parsed of
         None \<Rightarrow> reject_command ''malformed command''
       | Some c \<Rightarrow> if pc_action c = ''create'' then validate_promotion_create pf c
                   else validate_promotion_transition pf c))"

section \<open>The apply phase: the write\<close>

definition discount_in_range :: "string \<Rightarrow> rat option \<Rightarrow> bool" where
  "discount_in_range effect_type discount =
     (if effect_type = ''PERCENT_DISCOUNT'' then (case discount of None \<Rightarrow> False | Some d \<Rightarrow> 0 \<le> d \<and> d \<le> 100)
      else if effect_type = ''FIXED_AMOUNT'' then (case discount of None \<Rightarrow> False | Some d \<Rightarrow> 0 < d)
      else True)"

definition apply_promotion_create :: "platform \<Rightarrow> PromotionCommand \<Rightarrow> (world, json) io" where
  "apply_promotion_create pf c =
     bind_io (assert_some (pc_name c)) (\<lambda>name.
     bind_io (assert_some (pc_effect_type c)) (\<lambda>effect_type.
       if \<not> discount_in_range effect_type (pc_discount c)
       then raise (ValueError ''discount out of range at write time'')
       else bind_io (promotions_named pf name) (\<lambda>existing.
         if existing \<noteq> [] then raise (ValueError (''promotion name already in use at write time: '' @ quoted pf name))
         else bind_io (case pc_trigger_code c of None \<Rightarrow> ret [] | Some t \<Rightarrow> promotions_triggered pf t) (\<lambda>dupe.
           if dupe \<noteq> [] then raise (ValueError ''trigger_code already in use at write time'')
           else bind_io (insert_promotion pf name (coalesce (pc_discount c) 0) effect_type (pc_trigger_code c))
             (\<lambda>i. ret (JObj [(''applied'', JBool True), (''action'', JStr ''create''), (''name'', JStr name),
                              (''promotion_id'', JStr i)]))))))"

definition apply_promotion_transition :: "platform \<Rightarrow> PromotionCommand \<Rightarrow> (world, json) io" where
  "apply_promotion_transition pf c =
     bind_io (assert_some (pc_target_promotion_name c)) (\<lambda>target.
     bind_io (promotions_named pf target) (\<lambda>matches. case matches of
       [p] \<Rightarrow>
         bind_io (lift_result (PromotionState_of (pr_state p))) (\<lambda>current_state.
           case map_of ACTION_TO_EVENT (pc_action c) of
             None \<Rightarrow> raise (KeyError (pc_action c))
           | Some event \<Rightarrow>
               (case map_of PROMOTION_TRANSITIONS (current_state, event) of
                  None \<Rightarrow> raise (ValueError ''invalid transition at write time'')
                | Some s' \<Rightarrow>
                    bind_io (update_db (\<lambda>d. d\<lparr>promotions :=
                        update_where (\<lambda>r. pr_id r = pr_id p) (\<lambda>r. r\<lparr>pr_state := PromotionState_value s'\<rparr>) (promotions d)\<rparr>))
                      (\<lambda>_. ret (JObj [(''applied'', JBool True), (''action'', JStr (pc_action c)),
                             (''promotion_id'', JStr (pr_id p)),
                             (''from_state'', JStr (PromotionState_value current_state)),
                             (''to_state'', JStr (PromotionState_value s'))]))))
     | _ \<Rightarrow> raise (ValueError (''promotion not uniquely resolvable at write time: '' @ quoted pf target))))"

definition apply_promotion_command :: "platform \<Rightarrow> world tool" where
  "apply_promotion_command pf kw =
     bind_io (command_arg kw) (\<lambda>command.
     bind_io (lift_result (required_promotion_fields command)) (\<lambda>parsed. case parsed of
         None \<Rightarrow> raise (ValueError ''apply_promotion_command: malformed command'')
       | Some c \<Rightarrow> if pc_action c = ''create'' then apply_promotion_create pf c else apply_promotion_transition pf c))"

section \<open>The agent\<close>

definition PROGRAM_COLLECT_PROMOTION :: program where
  "PROGRAM_COLLECT_PROMOTION = collect_program ''promotion_agent_collect'' ''validate_promotion_command''
     ''collect_promotion_command''"

definition PROGRAM_APPLY_PROMOTION :: program where
  "PROGRAM_APPLY_PROMOTION = apply_program ''promotion_agent_apply'' ''validate_apply_promotion_command''
     ''apply_promotion_command'' ''report_invalid_promotion_command''"

definition PROMOTION_AGENT_TOOLS :: "platform \<Rightarrow> (string \<times> world tool) list" where
  "PROMOTION_AGENT_TOOLS pf =
     [(''validate_promotion_command'', validate_promotion_command pf),
      (''collect_promotion_command'', pass_command),
      (''report_collect_failure'', report_collect_failure pf)]"

definition PROMOTION_APPLY_TOOLS :: "platform \<Rightarrow> (string \<times> world tool) list" where
  "PROMOTION_APPLY_TOOLS pf =
     [(''validate_apply_promotion_command'', validate_apply_promotion_command pf),
      (''apply_promotion_command'', apply_promotion_command pf),
      (''report_invalid_promotion_command'', report_failure pf ''INVALID:'')]"

definition manage_promotion :: "platform \<Rightarrow> json \<Rightarrow> (world, AgentResult) io" where
  "manage_promotion pf input_text = collect_command pf
     (governed pf PROMOTION_AGENT_TOOL_CAPABILITIES (PROMOTION_AGENT_TOOLS pf)) PROGRAM_COLLECT_PROMOTION
     [(''input_text'', input_text)]"

definition apply_promotion :: "platform \<Rightarrow> json \<Rightarrow> (world, ApplyResult) io" where
  "apply_promotion pf command = apply_command pf True
     (governed pf PROMOTION_AGENT_APPLY_TOOL_CAPABILITIES (PROMOTION_APPLY_TOOLS pf)) PROGRAM_APPLY_PROMOTION command"

text \<open>\<open>PromotionService.list_promotions\<close>: newest first.\<close>

record PromotionRead =
  prd_id :: uuid
  prd_name :: string
  prd_discount :: rat
  prd_state :: PromotionState
  prd_effect_type :: string
  prd_trigger_code :: "string option"

definition read_promotion :: "promotion_row \<Rightarrow> (world, PromotionRead) io" where
  "read_promotion r = bind_io (lift_result (PromotionState_of (pr_state r))) (\<lambda>s.
     ret \<lparr>prd_id = pr_id r, prd_name = pr_name r, prd_discount = round64 (pr_discount r), prd_state = s,
          prd_effect_type = pr_effect_type r, prd_trigger_code = pr_trigger_code r\<rparr>)"

definition list_promotions :: "(world, PromotionRead list) io" where
  "list_promotions = with_session (
     bind_io (select_db (\<lambda>d. rev (sort_key pr_created_at (promotions d)))) (\<lambda>rows.
       fold_io (\<lambda>r acc. bind_io (read_promotion r) (\<lambda>x. ret (acc @ [x]))) rows []))"

end
