(* ===== verification/Promotion_Properties.thy ===== *)
theory Promotion_Properties
  imports Promotion_Tools Pricing Samples
begin

text \<open>
  The promotion agent keeps every stored promotion within the bounds that the
  checkout relies on and moves states only along the promotion life cycle.
\<close>

section \<open>The two phases meet their contracts\<close>

interpretation promotion_collect: collect_phase PROMOTION_AGENT_TOOLS PROMOTION_AGENT_TOOL_CAPABILITIES
  "''validate_promotion_command''" "''collect_promotion_command''" validate_promotion_command
  "\<lambda>pf. text_accepted pf (promotion_judge pf)"
  by unfold_locales
    (simp_all add: PROMOTION_AGENT_TOOLS_def PROMOTION_AGENT_TOOL_CAPABILITIES_def validate_promotion_command_def)

lemma reads_promotions [verdict_intros]:
  "reads (promotions_named pf n)" "reads (promotions_triggered pf t)"
  unfolding promotions_named_def promotions_triggered_def by (intro verdict_intros)+

lemma verdict_promotion: "verdict (validate_apply_promotion_command pf kw)"
  unfolding validate_apply_promotion_command_def validate_promotion_create_def validate_promotion_transition_def
    validate_trigger_def
  by (intro verdict_intros)

lemma no_commit_insert_promotion [no_commit_intros]: "no_commit (insert_promotion pf n d e t)"
  unfolding insert_promotion_def Let_def
  by (intro no_commit_intros reads_no_commit verdict_intros)

lemma no_commit_promotion: "no_commit (apply_promotion_command pf kw)"
  unfolding apply_promotion_command_def apply_promotion_create_def apply_promotion_transition_def
  by (intro no_commit_bind no_commit_branch no_commit_cases no_commit_insert_promotion no_commit_basic
      reads_no_commit verdict_intros)

lemma promotion_output: "yields (\<lambda>out. out \<noteq> JNull) (apply_promotion_command pf kw)"
  unfolding apply_promotion_command_def apply_promotion_create_def apply_promotion_transition_def
  by (intro yields_intros json.distinct)

interpretation promotion_apply: apply_phase PROMOTION_APPLY_TOOLS PROMOTION_AGENT_APPLY_TOOL_CAPABILITIES
  "''validate_apply_promotion_command''" "''apply_promotion_command''" "''report_invalid_promotion_command''"
  validate_apply_promotion_command apply_promotion_command "''INVALID:''"
  by unfold_locales (auto simp: PROMOTION_APPLY_TOOLS_def PROMOTION_AGENT_APPLY_TOOL_CAPABILITIES_def
      verdict_promotion no_commit_promotion promotion_output)

section \<open>The table\<close>

definition lower_name :: "platform \<Rightarrow> promotion_row \<Rightarrow> string" where
  "lower_name pf r = db_lower pf (pr_name r)"

definition promotions_wf :: "platform \<Rightarrow> promotion_row list \<Rightarrow> bool" where
  "promotions_wf pf ps \<longleftrightarrow> key_unique pr_id ps \<and> key_unique (lower_name pf) ps
     \<and> index_unique (trigger_key pf) ps
     \<and> list_all (\<lambda>r. promotion_sane r \<and> (case PromotionState_of (pr_state r) of Inl _ \<Rightarrow> False | Inr _ \<Rightarrow> True)) ps"

lemma numeric_10_2_bounds:
  assumes "numeric_10_2 x = Inr d" "0 \<le> x"
  shows "0 \<le> d" "x \<le> 100 \<Longrightarrow> d \<le> 100"
proof -
  have d: "d = of_int \<lfloor>x * 100 + 1 / 2\<rfloor> / 100"
    using assms by (auto simp: numeric_10_2_def Let_def split: if_splits)
  have "0 \<le> \<lfloor>x * 100 + 1 / 2\<rfloor>" using assms(2) by simp
  then show "0 \<le> d" by (simp add: d)
  assume "x \<le> 100"
  then have "\<lfloor>x * 100 + 1 / 2\<rfloor> \<le> 10000" by linarith
  then have "rat_of_int \<lfloor>x * 100 + 1 / 2\<rfloor> \<le> of_int 10000" by (rule of_int_le_iff[THEN iffD2])
  then show "d \<le> 100" by (simp add: d)
qed

lemma promotion_fields_cases:
  assumes "required_promotion_fields cmd = Inr (Some c)"
  obtains action v effect name discount target trigger where "action \<in> set PROMOTION_ACTIONS"
    "effect_field action v = Some effect" "promotion_fields action name discount target effect trigger = Inr (Some c)"
  using assms by (auto simp: required_promotion_fields_def split: json.splits option.splits if_splits)

lemma promotion_fields_create:
  assumes "required_promotion_fields cmd = Inr (Some c)" "pc_action c = ''create''"
  shows "\<exists>e. pc_effect_type c = Some e \<and> e \<in> set EFFECT_TYPES \<and> (e = ''FREE_DELIVERY'' \<longrightarrow> pc_discount c = None)"
proof -
  obtain action v effect name discount target trigger where
    f: "effect_field action v = Some effect" "promotion_fields action name discount target effect trigger = Inr (Some c)"
    using assms(1) by (rule promotion_fields_cases)
  have c: "action = ''create''" "pc_effect_type c = effect" "effect = Some ''FREE_DELIVERY'' \<Longrightarrow> pc_discount c = None"
    using f(2) assms(2) by (auto simp: promotion_fields_def opt_float_def split: if_splits sum.splits)
  have "\<exists>e. effect = Some e \<and> e \<in> set EFFECT_TYPES"
    using f(1) c(1) by (cases v) (auto simp: effect_field_def EFFECT_TYPES_def split: if_splits)
  then show ?thesis using c by auto
qed

lemma create_promotion:
  assumes wf: "promotions_wf pf (promotions (db w))" and c: "required_promotion_fields cmd = Inr (Some c)"
    "pc_action c = ''create''" and run: "apply_promotion_create pf c w = (Inr out, w')"
  shows "\<exists>q. db w' = (db w)\<lparr>promotions := promotions (db w) @ [q]\<rparr> \<and> promotions_wf pf (promotions (db w) @ [q])
    \<and> pr_state q = ''CREATED''"
proof -
  let ?ps = "promotions (db w)"
  obtain n e where ne: "pc_name c = Some n" "pc_effect_type c = Some e"
    using run by (auto simp: apply_promotion_create_def assert_some_def bind_io_apply split: option.splits)
  let ?named = "rows_where (\<lambda>r. db_lower pf (pr_name r) = db_lower pf n) ?ps"
  have range: "discount_in_range e (pc_discount c)"
    using run ne by (auto simp: apply_promotion_create_def assert_some_def bind_io_apply split: if_splits)
  have named: "?named = []"
    using run ne range
    by (auto simp: apply_promotion_create_def assert_some_def bind_io_apply promotions_named_def split: if_splits)
  then have fresh: "\<forall>r \<in> set ?ps. db_lower pf (pr_name r) \<noteq> db_lower pf n"
    by (simp add: rows_where_None)
  let ?dupe = "case pc_trigger_code c of None \<Rightarrow> ret [] | Some t \<Rightarrow> promotions_triggered pf t"
  obtain dupe where dupe: "?dupe w = (Inr dupe, w)"
    by (cases "pc_trigger_code c") (auto simp: promotions_triggered_def)
  have "dupe = []"
    using run ne range named dupe
    by (auto simp: apply_promotion_create_def assert_some_def bind_io_apply promotions_named_def split: if_splits)
  then obtain i where ins: "insert_promotion pf n (coalesce (pc_discount c) 0) e (pc_trigger_code c) w = (Inr i, w')"
    using run ne range named dupe
    by (cases "insert_promotion pf n (coalesce (pc_discount c) 0) e (pc_trigger_code c) w")
      (auto simp: apply_promotion_create_def assert_some_def bind_io_apply promotions_named_def split: sum.splits)
  then obtain d where d: "numeric_10_2 (coalesce (pc_discount c) 0) = Inr d"
    by (auto simp: insert_promotion_def bind_io_Inr_iff check_opt_apply split: if_splits)
  define q where "q = \<lparr>pr_id = uuids w (uuid_next w), pr_name = n, pr_discount = d, pr_state = ''CREATED'',
      pr_effect_type = e, pr_trigger_code = pc_trigger_code c, pr_created_at = now w\<rparr>"
  have q: "pr_name q = n" "pr_discount q = d" "pr_state q = ''CREATED''" "pr_effect_type q = e"
    by (simp_all add: q_def)
  have q': "key_unique pr_id (?ps @ [q])" "index_unique (trigger_key pf) (?ps @ [q])"
      "db w' = (db w)\<lparr>promotions := ?ps @ [q]\<rparr>"
    using ins d by (auto simp: insert_promotion_def bind_io_Inr_iff check_Inr_iff check_opt_apply Let_def
        q_def[symmetric] split: if_splits)
  have e: "e \<in> set EFFECT_TYPES" and free: "e = ''FREE_DELIVERY'' \<Longrightarrow> pc_discount c = None"
    using promotion_fields_create[OF c] ne(2) by auto
  have pos: "0 \<le> coalesce (pc_discount c) 0"
    using range e free by (auto simp: discount_in_range_def EFFECT_TYPES_def coalesce_def split: option.splits if_splits)
  have "e = ''PERCENT_DISCOUNT'' \<Longrightarrow> coalesce (pc_discount c) 0 \<le> 100"
    using range by (auto simp: discount_in_range_def coalesce_def split: option.splits)
  then have "promotion_sane q"
    using q numeric_10_2_bounds[OF d pos] by (auto simp: promotion_sane_def)
  moreover have "PromotionState_of ''CREATED'' = Inr PromotionState.CREATED"
    by (simp add: PromotionState_of_def)
  moreover have "key_unique (lower_name pf) (?ps @ [q])"
    using wf fresh q(1) by (auto simp: promotions_wf_def key_unique_append lower_name_def)
  ultimately show ?thesis
    using wf q q' by (intro exI[of _ q]) (simp add: promotions_wf_def)
qed

definition promotion_edge :: "(string \<times> string) set" where
  "promotion_edge = {(PromotionState_value a, PromotionState_value b) | a b.
     \<exists>e. map_of PROMOTION_TRANSITIONS (a, e) = Some b}"

lemma apply_promotion_transition_Inr:
  assumes run: "apply_promotion_transition pf c w = (Inr out, w')"
  obtains n p a e b where "rows_where (\<lambda>r. db_lower pf (pr_name r) = db_lower pf n) (promotions (db w)) = [p]"
    "PromotionState_of (pr_state p) = Inr a" "map_of PROMOTION_TRANSITIONS (a, e) = Some b"
    "db w' = (db w)\<lparr>promotions := update_where (\<lambda>r. pr_id r = pr_id p)
        (\<lambda>r. r\<lparr>pr_state := PromotionState_value b\<rparr>) (promotions (db w))\<rparr>"
proof -
  obtain n where n: "pc_target_promotion_name c = Some n"
    using run by (auto simp: apply_promotion_transition_def assert_some_def bind_io_apply split: option.splits)
  let ?rows = "rows_where (\<lambda>r. db_lower pf (pr_name r) = db_lower pf n) (promotions (db w))"
  obtain p where p: "?rows = [p]"
    using run n by (auto simp: apply_promotion_transition_def assert_some_def promotions_named_def bind_io_apply
        split: list.splits)
  obtain a where a: "PromotionState_of (pr_state p) = Inr a"
    using run n p by (auto simp: apply_promotion_transition_def assert_some_def promotions_named_def bind_io_apply
        split: sum.splits)
  obtain e where e: "map_of ACTION_TO_EVENT (pc_action c) = Some e"
    using run n p a by (auto simp: apply_promotion_transition_def assert_some_def promotions_named_def bind_io_apply
        split: option.splits)
  obtain b where b: "map_of PROMOTION_TRANSITIONS (a, e) = Some b"
    using run n p a e by (auto simp: apply_promotion_transition_def assert_some_def promotions_named_def bind_io_apply
        split: option.splits)
  have "db w' = (db w)\<lparr>promotions := update_where (\<lambda>r. pr_id r = pr_id p)
        (\<lambda>r. r\<lparr>pr_state := PromotionState_value b\<rparr>) (promotions (db w))\<rparr>"
    using run n p a e b by (auto simp: apply_promotion_transition_def assert_some_def promotions_named_def bind_io_apply)
  then show thesis using that p a b by blast
qed

lemma transition_promotion:
  assumes wf: "promotions_wf pf (promotions (db w))" and run: "apply_promotion_transition pf c w = (Inr out, w')"
  shows "\<exists>p \<in> set (promotions (db w)). \<exists>s'. (pr_state p, s') \<in> promotion_edge
    \<and> db w' = (db w)\<lparr>promotions := update_where (\<lambda>r. pr_id r = pr_id p) (\<lambda>r. r\<lparr>pr_state := s'\<rparr>) (promotions (db w))\<rparr>
    \<and> (\<exists>t. s' = PromotionState_value t)"
proof -
  obtain n p a e b where p: "rows_where (\<lambda>r. db_lower pf (pr_name r) = db_lower pf n) (promotions (db w)) = [p]"
    and st: "PromotionState_of (pr_state p) = Inr a" "map_of PROMOTION_TRANSITIONS (a, e) = Some b"
    and w': "db w' = (db w)\<lparr>promotions := update_where (\<lambda>r. pr_id r = pr_id p)
        (\<lambda>r. r\<lparr>pr_state := PromotionState_value b\<rparr>) (promotions (db w))\<rparr>"
    using run apply_promotion_transition_Inr by blast
  have "p \<in> set (rows_where (\<lambda>r. db_lower pf (pr_name r) = db_lower pf n) (promotions (db w)))" by (simp add: p)
  then have "p \<in> set (promotions (db w))" by simp
  moreover have "(pr_state p, PromotionState_value b) \<in> promotion_edge"
    using st by (auto simp: promotion_edge_def PromotionState_of_Inr)
  ultimately show ?thesis using w' by blast
qed

text \<open>What a history of commands leaves of a stored promotion.\<close>

definition same_promotion :: "promotion_row \<Rightarrow> promotion_row \<Rightarrow> bool" where
  "same_promotion p q \<longleftrightarrow> q = p\<lparr>pr_state := pr_state q\<rparr> \<and> (pr_state p, pr_state q) \<in> promotion_edge\<^sup>*"

lemma same_promotion_refl [simp]: "same_promotion p p"
  by (simp add: same_promotion_def)

lemma same_promotion_trans: "same_promotion p q \<Longrightarrow> same_promotion q s \<Longrightarrow> same_promotion p s"
  unfolding same_promotion_def by (metis (no_types, lifting) promotion_row.surjective promotion_row.update_convs(4) rtrancl_trans)

lemma update_promotions_wf:
  assumes wf: "promotions_wf pf ps"
  shows "promotions_wf pf (update_where (\<lambda>r. pr_id r = i) (\<lambda>r. r\<lparr>pr_state := PromotionState_value t\<rparr>) ps)"
proof -
  have "index_unique (trigger_key pf) (update_where (\<lambda>r. pr_id r = i) (\<lambda>r. r\<lparr>pr_state := PromotionState_value t\<rparr>) ps)
      = index_unique (trigger_key pf) ps"
    by (rule index_unique_map) (simp add: trigger_key_def)
  moreover have "promotion_sane (if pr_id q = i then q\<lparr>pr_state := PromotionState_value t\<rparr> else q) = promotion_sane q" for q
    by (simp add: promotion_sane_def)
  ultimately show ?thesis
    using wf by (auto simp: promotions_wf_def list_all_iff in_update_where lower_name_def)
qed

section \<open>Histories of commands\<close>

lemma write_promotion:
  assumes wf: "promotions_wf pf (promotions (db w))"
    and run: "apply_promotion_command pf [(''command'', cmd)] w = (Inr out, w')"
  shows "\<exists>ps. db w' = (db w)\<lparr>promotions := ps\<rparr> \<and> promotions_wf pf ps
    \<and> (\<forall>p \<in> set (promotions (db w)). \<exists>q \<in> set ps. same_promotion p q)"
proof -
  obtain c where c: "required_promotion_fields cmd = Inr (Some c)"
    using run by (auto simp: apply_promotion_command_def bind_io_Inr_iff split: option.splits)
  show ?thesis
  proof (cases "pc_action c = ''create''")
    case True
    then obtain q where "db w' = (db w)\<lparr>promotions := promotions (db w) @ [q]\<rparr>" "promotions_wf pf (promotions (db w) @ [q])"
      using run c create_promotion[OF wf c True, of out w'] by (auto simp: apply_promotion_command_def bind_io_apply)
    then show ?thesis by (intro exI[of _ "promotions (db w) @ [q]"]) (auto intro: same_promotion_refl)
  next
    case False
    then have "apply_promotion_transition pf c w = (Inr out, w')"
      using run c by (simp add: apply_promotion_command_def bind_io_apply)
    from transition_promotion[OF wf this] obtain p t where p: "p \<in> set (promotions (db w))"
      "(pr_state p, PromotionState_value t) \<in> promotion_edge"
      "db w' = (db w)\<lparr>promotions := update_where (\<lambda>r. pr_id r = pr_id p)
         (\<lambda>r. r\<lparr>pr_state := PromotionState_value t\<rparr>) (promotions (db w))\<rparr>"
      by blast
    have "\<exists>q' \<in> set (update_where (\<lambda>r. pr_id r = pr_id p) (\<lambda>r. r\<lparr>pr_state := PromotionState_value t\<rparr>) (promotions (db w))).
        same_promotion q q'" if q: "q \<in> set (promotions (db w))" for q
    proof (cases "pr_id q = pr_id p")
      case True
      then have "q = p" using wf q p(1) key_unique_same by (auto simp: promotions_wf_def)
      then show ?thesis
        using p by (intro bexI[of _ "p\<lparr>pr_state := PromotionState_value t\<rparr>"]) (auto simp: same_promotion_def in_update_where)
    next
      case False
      then show ?thesis using q by (intro bexI[of _ q]) (auto simp: in_update_where)
    qed
    then show ?thesis
      using p(3) update_promotions_wf[OF wf] by blast
  qed
qed

lemma promotion_phase:
  assumes vm: "vm_ok pf" and wf: "promotions_wf pf (promotions (committed w))"
    and run: "apply_promotion pf cmd w = (r, w')"
  shows "\<exists>ps. committed w' = (committed w)\<lparr>promotions := ps\<rparr> \<and> promotions_wf pf ps
    \<and> (\<forall>p \<in> set (promotions (committed w)). \<exists>q \<in> set ps. same_promotion p q)"
proof -
  let ?R = "\<lambda>d d'. \<exists>ps. d' = d\<lparr>promotions := ps\<rparr> \<and> promotions_wf pf ps
    \<and> (\<forall>p \<in> set (promotions d). \<exists>q \<in> set ps. same_promotion p q)"
  show ?thesis
  proof (rule promotion_apply.apply_relation[where R = ?R, OF vm run[unfolded apply_promotion_def PROGRAM_APPLY_PROMOTION_def]])
    show "?R (committed w) (committed w)"
      using wf by (intro exI[of _ "promotions (committed w)"]) (auto intro: same_promotion_refl)
    show "?R (committed w) (db w2)"
      if "db w1 = committed w" "apply_promotion_command pf [(''command'', cmd)] w1 = (Inr out, w2)" for w1 out w2
      using write_promotion[OF _ that(2)] wf that(1) by simp
  qed
qed

primrec apply_promotions :: "platform \<Rightarrow> json list \<Rightarrow> world \<Rightarrow> world" where
  "apply_promotions pf [] w = w"
| "apply_promotions pf (c # cs) w = apply_promotions pf cs (snd (apply_promotion pf c w))"

lemma promotion_history:
  assumes vm: "vm_ok pf" and wf: "promotions_wf pf (promotions (committed w))"
  shows "\<exists>ps. committed (apply_promotions pf cs w) = (committed w)\<lparr>promotions := ps\<rparr> \<and> promotions_wf pf ps
    \<and> (\<forall>p \<in> set (promotions (committed w)). \<exists>q \<in> set ps. same_promotion p q)"
  using wf
proof (induction cs arbitrary: w)
  case Nil
  then show ?case by (intro exI[of _ "promotions (committed w)"]) (auto intro: same_promotion_refl)
next
  case (Cons c cs)
  obtain r w1 where run: "apply_promotion pf c w = (r, w1)" by fastforce
  from promotion_phase[OF vm Cons.prems run] obtain ps where ps: "committed w1 = (committed w)\<lparr>promotions := ps\<rparr>"
    "promotions_wf pf ps" "\<forall>p \<in> set (promotions (committed w)). \<exists>q \<in> set ps. same_promotion p q" by blast
  then obtain ps' where "committed (apply_promotions pf cs w1) = (committed w1)\<lparr>promotions := ps'\<rparr>"
    "promotions_wf pf ps'" "\<forall>p \<in> set ps. \<exists>q \<in> set ps'. same_promotion p q"
    using Cons.IH[of w1] by auto
  then show ?case using run ps same_promotion_trans by (intro exI[of _ ps']) (simp, meson)
qed

text \<open>C16. Whatever commands the promotion agent is given, a stored promotion keeps its
name, discount, effect and code, and its state only moves forward along
CREATED, ACTIVE, EXPIRED, ARCHIVED; no other table changes.\<close>

theorem promotion_life_cycle:
  assumes "vm_ok pf" "promotions_wf pf (promotions (committed w))" "p \<in> set (promotions (committed w))"
  shows "\<exists>q \<in> set (promotions (committed (apply_promotions pf cs w))). q = p\<lparr>pr_state := pr_state q\<rparr>
    \<and> (pr_state p, pr_state q) \<in> promotion_edge\<^sup>*"
  using promotion_history[OF assms(1,2), of cs] assms(3) unfolding same_promotion_def by auto

definition activate_summer :: json where
  "activate_summer = JObj [(''action'', JStr ''activate''), (''target_promotion_name'', JStr '' summer '')]"

definition summer_world :: world where
  "summer_world = sample_world\<lparr>committed := empty_db\<lparr>promotions :=
     [\<lparr>pr_id = ''p1'', pr_name = ''Summer'', pr_discount = 20, pr_state = ''CREATED'',
       pr_effect_type = ''PERCENT_DISCOUNT'', pr_trigger_code = Some ''SUN'', pr_created_at = 5\<rparr>]\<rparr>\<rparr>"

lemma summer_wf: "promotions_wf ref_platform (promotions (committed summer_world))"
  by code_simp

theorem promotion_life_cycle_witness:
  "\<exists>q \<in> set (promotions (committed (apply_promotions ref_platform [activate_summer, activate_summer] summer_world))).
     pr_discount q = 20 \<and> (''CREATED'', pr_state q) \<in> promotion_edge\<^sup>*"
proof -
  let ?p = "\<lparr>pr_id = ''p1'', pr_name = ''Summer'', pr_discount = 20, pr_state = ''CREATED'',
       pr_effect_type = ''PERCENT_DISCOUNT'', pr_trigger_code = Some ''SUN'', pr_created_at = 5\<rparr>"
  have "?p \<in> set (promotions (committed summer_world))" by (simp add: summer_world_def)
  then obtain q where q: "q \<in> set (promotions (committed (apply_promotions ref_platform [activate_summer, activate_summer] summer_world)))"
      "q = ?p\<lparr>pr_state := pr_state q\<rparr>" "(pr_state ?p, pr_state q) \<in> promotion_edge\<^sup>*"
    using promotion_life_cycle[OF vm_ok_ref summer_wf] by blast
  have "pr_discount q = 20" by (subst q(2)) simp
  then show ?thesis using q(1,3) by auto
qed

text \<open>C15. No sequence of commands can store a promotion whose code takes more than the
price of the goods off an order, or adds to it.\<close>

theorem commanded_discounts_bounded:
  assumes "vm_ok pf" "promotions_wf pf (promotions (committed w))" "0 \<le> g" "g * 100 \<le> 2 ^ 53"
    and "fst (with_session (resolve_promo_effect pf pcode g) (apply_promotions pf cs w)) = Inr (Some e)"
  shows "0 \<le> pe_discount_rub e \<and> pe_discount_rub e \<le> g"
proof -
  let ?w = "apply_promotions pf cs w"
  have "\<forall>p \<in> set (promotions (db (?w\<lparr>db := committed ?w\<rparr>))). promotion_sane p"
    using promotion_history[OF assms(1,2), of cs] by (auto simp: promotions_wf_def list_all_iff)
  moreover obtain w' where "resolve_promo_effect pf pcode g (?w\<lparr>db := committed ?w\<rparr>) = (Inr (Some e), w')"
    using assms(5) by (cases "resolve_promo_effect pf pcode g (?w\<lparr>db := committed ?w\<rparr>)") (auto simp: with_session_def)
  ultimately show ?thesis using promo_effect_bounds[OF assms(3,4)] by blast
qed

theorem commanded_discounts_bounded_witness:
  "\<exists>e. fst (with_session (resolve_promo_effect ref_platform (Some ''sun'') 399)
      (apply_promotions ref_platform [activate_summer] summer_world)) = Inr (Some e)
    \<and> 0 \<le> pe_discount_rub e \<and> pe_discount_rub e \<le> 399"
proof -
  let ?e = "\<lparr>pe_promotion_id = ''p1'', pe_applied_code = ''sun'', pe_discount_rub = 79, pe_free_delivery = False\<rparr>"
  have e: "fst (with_session (resolve_promo_effect ref_platform (Some ''sun'') 399)
      (apply_promotions ref_platform [activate_summer] summer_world)) = Inr (Some ?e)"
    by code_simp
  then show ?thesis
    using commanded_discounts_bounded[OF vm_ok_ref summer_wf _ _ e] by auto
qed

end
