(* ===== verification/Menu_Tools.thy ===== *)
theory Menu_Tools
  imports Agent_Core Unique_Index Policy_Snapshot
begin

text \<open>
  The menu agent: app/tools/menu_agent_tools.py, the programs of
  app/programs/menu_agent_program.py and the phases of app/agents/menu_agent.py:
  one collect phase, and four apply phases that create a product, create a
  category, update a product and update a category.
\<close>

section \<open>The collect phase\<close>

definition menu_judge :: "platform \<Rightarrow> json \<Rightarrow> string option" where
  "menu_judge pf v = (case v of
       JObj data \<Rightarrow>
         if map_of data ''menu_id'' = None then Some (''missing '' @ squoted ''menu_id'')
         else if (case map_of data ''items'' of Some (JList _) \<Rightarrow> False | _ \<Rightarrow> True)
         then Some (''missing or invalid '' @ squoted ''items'' @ '' (expected a list)'')
         else if (case map_of data ''category'' of Some (JStr _) \<Rightarrow> False | _ \<Rightarrow> True)
         then Some (''missing or invalid '' @ squoted ''category'')
         else None
     | _ \<Rightarrow> Some ''parsed command is not an object'')"

definition validate_menu_command :: "platform \<Rightarrow> world tool" where
  "validate_menu_command pf =
     validate_text pf ''empty instruction - nothing to parse'' ''could not parse a command from the instruction''
       (menu_judge pf)"

section \<open>Tables\<close>

text \<open>The identifier of a text bound to a UUID column.\<close>

definition uuid_param :: "string \<Rightarrow> (world, uuid) io" where
  "uuid_param s = (case parse_uuid s of Inr u \<Rightarrow> ret u | Inl _ \<Rightarrow> raise (DataError ''invalid UUID''))"

definition categories_named :: "platform \<Rightarrow> string \<Rightarrow> (world, category_row list) io" where
  "categories_named pf n = select_db (\<lambda>d. rows_where (\<lambda>r. db_lower pf (cat_name r) = db_lower pf n) (categories d))"

definition products_named :: "platform \<Rightarrow> string \<Rightarrow> (world, product_row list) io" where
  "products_named pf n = select_db (\<lambda>d. rows_where (\<lambda>r. db_lower pf (p_name r) = db_lower pf n) (products d))"

definition write_products :: "product_row list \<Rightarrow> (world, unit) io" where
  "write_products ps =
     (if \<not> key_unique p_id ps then raise (IntegrityError ''products_pkey'')
      else if \<not> index_unique p_sku ps then raise (IntegrityError ''products_sku_key'')
      else update_db (\<lambda>d. d\<lparr>products := ps\<rparr>))"

text \<open>The CHECK constraints of migration 014.\<close>

definition TIME_PERIODS :: "string list" where
  "TIME_PERIODS = [''both'', ''morning'', ''evening'']"

definition FULFILLMENT_SCOPES :: "string list" where
  "FULFILLMENT_SCOPES = [''both'', ''delivery'', ''pickup'']"

definition category_checks :: "category_row \<Rightarrow> bool" where
  "category_checks r \<longleftrightarrow> cat_time_period r \<in> set TIME_PERIODS \<and> cat_fulfillment_scope r \<in> set FULFILLMENT_SCOPES"

definition write_categories :: "category_row list \<Rightarrow> (world, unit) io" where
  "write_categories cs =
     (if \<not> key_unique cat_id cs then raise (IntegrityError ''categories_pkey'')
      else if \<not> list_all category_checks cs then raise (IntegrityError ''categories_check'')
      else update_db (\<lambda>d. d\<lparr>categories := cs\<rparr>))"

text \<open>Why a name does not stand for exactly one row.\<close>

definition unresolved :: "platform \<Rightarrow> string \<Rightarrow> string \<Rightarrow> nat \<Rightarrow> string" where
  "unresolved pf what n k =
     (if k = 0 then what @ '' '' @ quoted pf n @ '' not found''
      else what @ '' name '' @ quoted pf n @ '' matches '' @ int_str (int k) @ '' rows (expected exactly 1)'')"

section \<open>Creating a product\<close>

definition required_apply_fields :: "json \<Rightarrow> (string \<times> string \<times> int) option" where
  "required_apply_fields command = (case command of
       JObj kvs \<Rightarrow>
         (case (nonblank_text (json_get ''name'' kvs), nonblank_text (json_get ''category'' kvs), json_get ''price_rub'' kvs) of
            (Some n, Some c, JInt price) \<Rightarrow> if price < 0 then None else Some (py_strip n, py_strip c, price)
          | _ \<Rightarrow> None)
     | _ \<Rightarrow> None)"

definition validate_apply_command :: "platform \<Rightarrow> world tool" where
  "validate_apply_command pf kw = bind_io (command_arg kw) (\<lambda>command.
     case required_apply_fields command of
       None \<Rightarrow> reject_command ''malformed command''
     | Some (name, category, price) \<Rightarrow>
         bind_io (categories_named pf category) (\<lambda>cat_matches.
           if length cat_matches \<noteq> 1 then reject_command (unresolved pf ''category'' category (length cat_matches))
           else bind_io (products_named pf name) (\<lambda>prod.
             if prod \<noteq> [] then reject_command (''a product named '' @ quoted pf name @ '' already exists'')
             else accept_command)))"

definition insert_product ::
  "string \<Rightarrow> uuid \<Rightarrow> int \<Rightarrow> json \<Rightarrow> json \<Rightarrow> (world, unit) io" where
  "insert_product name category_id price_rub description image_url =
     bind_io (check_varchar 255 name) (\<lambda>_.
     bind_io (check_int4 price_rub) (\<lambda>_.
     bind_io (lift_result (opt_text_param description)) (\<lambda>descr.
     bind_io (lift_result (opt_text_param image_url)) (\<lambda>img.
     bind_io new_uuid (\<lambda>i.
     bind_io (select_db products) (\<lambda>ps.
       write_products (ps @ [\<lparr>p_id = i, p_name = name, p_category_id = Some category_id,
         p_time_period_override = None, p_price_rub = Some price_rub, p_description = descr, p_image_url = img,
         p_is_active = True, p_sku = None, p_sort = 0\<rparr>])))))))"

definition apply_menu_command :: "platform \<Rightarrow> world tool" where
  "apply_menu_command pf kw = bind_io (command_arg kw) (\<lambda>command.
     case required_apply_fields command of
       None \<Rightarrow> raise (ValueError ''apply_menu_command: malformed command'')
     | Some (name, category, price_rub) \<Rightarrow>
         (let fields = (case command of JObj kvs \<Rightarrow> kvs | _ \<Rightarrow> [])
          in bind_io (categories_named pf category) (\<lambda>cat_matches. case cat_matches of
               [c] \<Rightarrow>
                 bind_io (products_named pf name) (\<lambda>prod.
                   if prod \<noteq> [] then raise (ValueError (''product name already in use at write time: '' @ quoted pf name))
                   else bind_io (insert_product name (cat_id c) price_rub (json_get ''description'' fields)
                          (json_get ''image_url'' fields)) (\<lambda>_.
                     ret (JObj [(''applied'', JBool True), (''name'', JStr name), (''category_id'', JStr (cat_id c))])))
             | _ \<Rightarrow> raise (ValueError (''category not uniquely resolvable at write time: '' @ quoted pf category)))))"

section \<open>Creating a category\<close>

record CategoryCommand =
  cc_name :: string
  cc_parent_category :: "string option"
  cc_time_period :: string
  cc_fulfillment_scope :: string
  cc_sort :: int

text \<open>\<open>command.get(key, alt)\<close>.\<close>

definition obj_get_or :: "string \<Rightarrow> json \<Rightarrow> (string \<times> json) list \<Rightarrow> json" where
  "obj_get_or k alt kvs = (case map_of kvs k of None \<Rightarrow> alt | Some v \<Rightarrow> v)"

definition required_apply_category_fields :: "json \<Rightarrow> CategoryCommand option" where
  "required_apply_category_fields command = (case command of
       JObj kvs \<Rightarrow>
         (case (nonblank_text (json_get ''name'' kvs), optional_text (json_get ''parent_category'' kvs),
                obj_get_or ''time_period'' (JStr ''both'') kvs, obj_get_or ''fulfillment_scope'' (JStr ''both'') kvs,
                obj_get_or ''sort'' (JInt 0) kvs) of
            (Some n, Some parent, JStr tp, JStr scope, JInt pos) \<Rightarrow>
              if tp \<in> set TIME_PERIODS \<and> scope \<in> set FULFILLMENT_SCOPES
              then Some \<lparr>cc_name = py_strip n, cc_parent_category = map_option py_strip parent, cc_time_period = tp,
                         cc_fulfillment_scope = scope, cc_sort = pos\<rparr>
              else None
          | _ \<Rightarrow> None)
     | _ \<Rightarrow> None)"

definition validate_apply_category_command :: "platform \<Rightarrow> world tool" where
  "validate_apply_category_command pf kw = bind_io (command_arg kw) (\<lambda>command.
     case required_apply_category_fields command of
       None \<Rightarrow> reject_command ''malformed command''
     | Some c \<Rightarrow>
         bind_io (categories_named pf (cc_name c)) (\<lambda>existing.
           if existing \<noteq> [] then reject_command (''a category named '' @ quoted pf (cc_name c) @ '' already exists'')
           else case cc_parent_category c of
               None \<Rightarrow> accept_command
             | Some parent \<Rightarrow> bind_io (categories_named pf parent) (\<lambda>parent_matches.
                 if length parent_matches \<noteq> 1
                 then reject_command (unresolved pf ''parent category'' parent (length parent_matches))
                 else accept_command)))"

text \<open>The row a parent's name stands for at write time.\<close>

definition resolve_parent :: "platform \<Rightarrow> string option \<Rightarrow> (world, uuid option) io" where
  "resolve_parent pf parent_category = (case parent_category of
       None \<Rightarrow> ret None
     | Some parent \<Rightarrow> bind_io (categories_named pf parent) (\<lambda>parent_matches. case parent_matches of
           [p] \<Rightarrow> ret (Some (cat_id p))
         | _ \<Rightarrow> raise (ValueError (''parent category not uniquely resolvable at write time: '' @ quoted pf parent))))"

definition insert_category :: "CategoryCommand \<Rightarrow> uuid option \<Rightarrow> (world, uuid) io" where
  "insert_category c parent_id =
     bind_io (check_varchar 255 (cc_name c)) (\<lambda>_.
     bind_io (check_int4 (cc_sort c)) (\<lambda>_.
     bind_io new_uuid (\<lambda>i.
     bind_io (select_db categories) (\<lambda>cs.
     bind_io (write_categories (cs @ [\<lparr>cat_id = i, cat_external_id = None, cat_name = cc_name c,
         cat_parent_id = parent_id, cat_time_period = cc_time_period c,
         cat_fulfillment_scope = cc_fulfillment_scope c, cat_sort = cc_sort c, cat_is_active = True\<rparr>])) (\<lambda>_. ret i)))))"

definition apply_category_command :: "platform \<Rightarrow> world tool" where
  "apply_category_command pf kw = bind_io (command_arg kw) (\<lambda>command.
     case required_apply_category_fields command of
       None \<Rightarrow> raise (ValueError ''apply_category_command: malformed command'')
     | Some c \<Rightarrow>
         bind_io (resolve_parent pf (cc_parent_category c)) (\<lambda>parent_id.
         bind_io (categories_named pf (cc_name c)) (\<lambda>existing.
           if existing \<noteq> []
           then raise (ValueError (''category name already in use at write time: '' @ quoted pf (cc_name c)))
           else bind_io (insert_category c parent_id) (\<lambda>i.
             ret (JObj [(''applied'', JBool True), (''name'', JStr (cc_name c)), (''category_id'', JStr i)])))))"

section \<open>Updating a product\<close>

record ProductUpdate =
  pu_product_id :: string
  pu_name :: "string option"
  pu_category :: "string option"
  pu_price_rub :: "int option"
  pu_description :: "string option"
  pu_image_url :: "string option"
  pu_is_active :: "bool option"
  pu_sku :: "string option"
  pu_sort :: "int option"

definition optional_int :: "json \<Rightarrow> int option option" where
  "optional_int v = (case v of JNull \<Rightarrow> Some None | JInt n \<Rightarrow> Some (Some n) | _ \<Rightarrow> None)"

definition optional_str :: "json \<Rightarrow> string option option" where
  "optional_str v = (case v of JNull \<Rightarrow> Some None | JStr s \<Rightarrow> Some (Some s) | _ \<Rightarrow> None)"

text \<open>The spellings of a flag that an update accepts.\<close>

definition active_flag :: "json \<Rightarrow> bool option option" where
  "active_flag v = (case v of
       JNull \<Rightarrow> Some None
     | JBool b \<Rightarrow> Some (Some b)
     | JStr s \<Rightarrow>
         (let lowered = py_lower (py_strip s) in
          if lowered \<in> set [''true'', ''1'', ''yes'', ''on''] then Some (Some True)
          else if lowered \<in> set [''false'', ''0'', ''no'', ''off'', []] then Some (Some False) else None)
     | JInt n \<Rightarrow> if n = 1 then Some (Some True) else if n = 0 then Some (Some False) else None
     | _ \<Rightarrow> None)"

definition required_update_product_fields :: "json \<Rightarrow> ProductUpdate option" where
  "required_update_product_fields command = (case command of
       JObj kvs \<Rightarrow>
         (case (nonblank_text (json_get ''product_id'' kvs), optional_text (json_get ''name'' kvs),
                optional_text (json_get ''category'' kvs), optional_int (json_get ''price_rub'' kvs),
                optional_str (json_get ''description'' kvs)) of
            (Some i, Some name, Some category, Some price, Some descr) \<Rightarrow>
              (case (optional_str (json_get ''image_url'' kvs), active_flag (json_get ''is_active'' kvs),
                     optional_text (json_get ''sku'' kvs), optional_int (json_get ''sort'' kvs)) of
                 (Some img, Some active, Some sku, Some pos) \<Rightarrow>
                   if pred_option (\<lambda>n. 0 \<le> n) price
                   then Some \<lparr>pu_product_id = py_strip i, pu_name = map_option py_strip name,
                     pu_category = map_option py_strip category, pu_price_rub = price, pu_description = descr,
                     pu_image_url = img, pu_is_active = active, pu_sku = map_option py_strip sku, pu_sort = pos\<rparr>
                   else None
               | _ \<Rightarrow> None)
          | _ \<Rightarrow> None)
     | _ \<Rightarrow> None)"

definition product_by_id :: "uuid \<Rightarrow> (world, product_row list) io" where
  "product_by_id i = select_db (\<lambda>d. rows_where (\<lambda>r. p_id r = i) (products d))"

definition validate_update_product_command :: "platform \<Rightarrow> world tool" where
  "validate_update_product_command pf kw = bind_io (command_arg kw) (\<lambda>command.
     case required_update_product_fields command of
       None \<Rightarrow> reject_command ''malformed command''
     | Some u \<Rightarrow>
         bind_io (uuid_param (pu_product_id u)) (\<lambda>i.
         bind_io (product_by_id i) (\<lambda>existing.
           if existing = [] then reject_command (''product_id '' @ quoted pf (pu_product_id u) @ '' not found'')
           else case pu_category u of
               None \<Rightarrow> accept_command
             | Some category \<Rightarrow> bind_io (categories_named pf category) (\<lambda>cat_matches.
                 if length cat_matches \<noteq> 1
                 then reject_command (unresolved pf ''category'' category (length cat_matches))
                 else accept_command))))"

definition resolve_category :: "platform \<Rightarrow> string option \<Rightarrow> (world, uuid option) io" where
  "resolve_category pf category = (case category of
       None \<Rightarrow> ret None
     | Some n \<Rightarrow> bind_io (categories_named pf n) (\<lambda>cat_matches. case cat_matches of
           [c] \<Rightarrow> ret (Some (cat_id c))
         | _ \<Rightarrow> raise (ValueError (''category not uniquely resolvable at write time: '' @ quoted pf n))))"

definition sku_taken :: "string option \<Rightarrow> uuid \<Rightarrow> (world, bool) io" where
  "sku_taken sku i = (case sku of
       None \<Rightarrow> ret False
     | Some s \<Rightarrow> select_db (\<lambda>d. rows_where (\<lambda>r. p_sku r = Some s \<and> p_id r \<noteq> i) (products d) \<noteq> []))"

text \<open>\<open>COALESCE(:value, column)\<close> of a nullable column.\<close>

definition coalesce_opt :: "'a option \<Rightarrow> 'a option \<Rightarrow> 'a option" where
  "coalesce_opt v old = (case v of None \<Rightarrow> old | Some x \<Rightarrow> Some x)"

definition set_product_fields :: "ProductUpdate \<Rightarrow> uuid option \<Rightarrow> product_row \<Rightarrow> product_row" where
  "set_product_fields u category_id r = r\<lparr>
     p_name := coalesce (pu_name u) (p_name r),
     p_category_id := coalesce_opt category_id (p_category_id r),
     p_price_rub := coalesce_opt (pu_price_rub u) (p_price_rub r),
     p_description := coalesce_opt (pu_description u) (p_description r),
     p_image_url := coalesce_opt (pu_image_url u) (p_image_url r),
     p_is_active := coalesce (pu_is_active u) (p_is_active r),
     p_sku := coalesce_opt (pu_sku u) (p_sku r),
     p_sort := coalesce (pu_sort u) (p_sort r)\<rparr>"

definition update_product_row :: "ProductUpdate \<Rightarrow> uuid option \<Rightarrow> uuid \<Rightarrow> (world, unit) io" where
  "update_product_row u category_id i =
     bind_io (check_opt (check_varchar 255) (pu_name u)) (\<lambda>_.
     bind_io (check_opt check_int4 (pu_price_rub u)) (\<lambda>_.
     bind_io (check_opt (check_varchar 128) (pu_sku u)) (\<lambda>_.
     bind_io (check_opt check_int4 (pu_sort u)) (\<lambda>_.
     bind_io (select_db products) (\<lambda>ps.
       write_products (update_where (\<lambda>r. p_id r = i) (set_product_fields u category_id) ps))))))"

definition apply_update_product_command :: "platform \<Rightarrow> world tool" where
  "apply_update_product_command pf kw = bind_io (command_arg kw) (\<lambda>command.
     case required_update_product_fields command of
       None \<Rightarrow> raise (ValueError ''apply_update_product_command: malformed command'')
     | Some u \<Rightarrow>
         bind_io (uuid_param (pu_product_id u)) (\<lambda>i.
         bind_io (product_by_id i) (\<lambda>existing.
           if existing = [] then raise (ValueError (''product not found at write time: '' @ quoted pf (pu_product_id u)))
           else bind_io (resolve_category pf (pu_category u)) (\<lambda>category_id.
                bind_io (sku_taken (pu_sku u) i) (\<lambda>taken.
                  if taken then raise (ValueError ''sku not uniquely available at write time'')
                  else bind_io (update_product_row u category_id i) (\<lambda>_.
                    ret (JObj [(''applied'', JBool True), (''product_id'', JStr (pu_product_id u))])))))))"

section \<open>Updating a category\<close>

record CategoryUpdate =
  ku_category_id :: uuid
  ku_name :: "string option"
  ku_parent_category :: "string option"
  ku_time_period :: "string option"
  ku_fulfillment_scope :: "string option"
  ku_sort :: "int option"
  ku_is_active :: "bool option"

definition optional_choice :: "string list \<Rightarrow> json \<Rightarrow> string option option" where
  "optional_choice xs v = (case v of JNull \<Rightarrow> Some None | JStr s \<Rightarrow> if s \<in> set xs then Some (Some s) else None | _ \<Rightarrow> None)"

definition optional_bool :: "json \<Rightarrow> bool option option" where
  "optional_bool v = (case v of JNull \<Rightarrow> Some None | JBool b \<Rightarrow> Some (Some b) | _ \<Rightarrow> None)"

definition uuid_field :: "json \<Rightarrow> uuid option" where
  "uuid_field v = (case v of JStr s \<Rightarrow> (case parse_uuid s of Inr u \<Rightarrow> Some u | Inl _ \<Rightarrow> None) | _ \<Rightarrow> None)"

definition required_update_category_fields :: "json \<Rightarrow> CategoryUpdate option" where
  "required_update_category_fields command = (case command of
       JObj kvs \<Rightarrow>
         (case (uuid_field (json_get ''category_id'' kvs), optional_text (json_get ''name'' kvs),
                optional_text (json_get ''parent_category'' kvs)) of
            (Some i, Some name, Some parent) \<Rightarrow>
              (case (optional_choice TIME_PERIODS (json_get ''time_period'' kvs),
                     optional_choice FULFILLMENT_SCOPES (json_get ''fulfillment_scope'' kvs),
                     optional_int (json_get ''sort'' kvs), optional_bool (json_get ''is_active'' kvs)) of
                 (Some tp, Some scope, Some pos, Some active) \<Rightarrow>
                   Some \<lparr>ku_category_id = i, ku_name = map_option py_strip name,
                     ku_parent_category = map_option py_strip parent, ku_time_period = tp,
                     ku_fulfillment_scope = scope, ku_sort = pos, ku_is_active = active\<rparr>
               | _ \<Rightarrow> None)
          | _ \<Rightarrow> None)
     | _ \<Rightarrow> None)"

definition category_by_id :: "uuid \<Rightarrow> (world, category_row list) io" where
  "category_by_id i = select_db (\<lambda>d. rows_where (\<lambda>r. cat_id r = i) (categories d))"

definition other_categories_named :: "platform \<Rightarrow> string \<Rightarrow> uuid \<Rightarrow> (world, category_row list) io" where
  "other_categories_named pf n i = select_db (\<lambda>d.
     rows_where (\<lambda>r. db_lower pf (cat_name r) = db_lower pf n \<and> cat_id r \<noteq> i) (categories d))"

definition validate_new_parent :: "platform \<Rightarrow> CategoryUpdate \<Rightarrow> (world, json) io" where
  "validate_new_parent pf u = (case ku_parent_category u of
       None \<Rightarrow> accept_command
     | Some parent \<Rightarrow> bind_io (categories_named pf parent) (\<lambda>parent_matches. case parent_matches of
           [p] \<Rightarrow> if cat_id p = ku_category_id u then reject_command ''a category cannot be its own parent''
                  else accept_command
         | _ \<Rightarrow> reject_command (unresolved pf ''parent category'' parent (length parent_matches))))"

definition validate_update_category_command :: "platform \<Rightarrow> world tool" where
  "validate_update_category_command pf kw = bind_io (command_arg kw) (\<lambda>command.
     case required_update_category_fields command of
       None \<Rightarrow> reject_command ''malformed command''
     | Some u \<Rightarrow>
         bind_io (category_by_id (ku_category_id u)) (\<lambda>existing.
           if existing = []
           then reject_command (''category_id UUID('' @ squoted (ku_category_id u) @ '') not found'')
           else bind_io (case ku_name u of None \<Rightarrow> ret [] | Some n \<Rightarrow> other_categories_named pf n (ku_category_id u)) (\<lambda>dup.
             if dup \<noteq> [] then reject_command (''a category named ''
                    @ repr_of pf (case ku_name u of None \<Rightarrow> JNull | Some n \<Rightarrow> JStr n) @ '' already exists'')
             else validate_new_parent pf u)))"

definition set_category_fields :: "CategoryUpdate \<Rightarrow> uuid option \<Rightarrow> category_row \<Rightarrow> category_row" where
  "set_category_fields u parent_id r = r\<lparr>
     cat_name := coalesce (ku_name u) (cat_name r),
     cat_parent_id := coalesce_opt parent_id (cat_parent_id r),
     cat_time_period := coalesce (ku_time_period u) (cat_time_period r),
     cat_fulfillment_scope := coalesce (ku_fulfillment_scope u) (cat_fulfillment_scope r),
     cat_sort := coalesce (ku_sort u) (cat_sort r),
     cat_is_active := coalesce (ku_is_active u) (cat_is_active r)\<rparr>"

definition update_category_row :: "CategoryUpdate \<Rightarrow> uuid option \<Rightarrow> (world, unit) io" where
  "update_category_row u parent_id =
     bind_io (check_opt (check_varchar 255) (ku_name u)) (\<lambda>_.
     bind_io (check_opt check_int4 (ku_sort u)) (\<lambda>_.
     bind_io (select_db categories) (\<lambda>cs.
       write_categories (update_where (\<lambda>r. cat_id r = ku_category_id u) (set_category_fields u parent_id) cs))))"

definition apply_update_category_command :: "platform \<Rightarrow> world tool" where
  "apply_update_category_command pf kw = bind_io (command_arg kw) (\<lambda>command.
     case required_update_category_fields command of
       None \<Rightarrow> raise (ValueError ''apply_update_category_command: malformed command'')
     | Some u \<Rightarrow>
         bind_io (category_by_id (ku_category_id u)) (\<lambda>existing.
           if existing = [] then raise (ValueError ''category not found at write time'')
           else bind_io (case ku_name u of None \<Rightarrow> ret [] | Some n \<Rightarrow> other_categories_named pf n (ku_category_id u)) (\<lambda>dup.
             if dup \<noteq> [] then raise (ValueError ''category name already in use at write time'')
             else bind_io (resolve_parent pf (ku_parent_category u)) (\<lambda>parent_id.
               if parent_id = Some (ku_category_id u) then raise (ValueError ''category cannot be its own parent'')
               else bind_io (update_category_row u parent_id) (\<lambda>_.
                 ret (JObj [(''applied'', JBool True), (''category_id'', JStr (ku_category_id u))]))))))"

section \<open>The agent\<close>

definition PROGRAM_COLLECT_MENU :: program where
  "PROGRAM_COLLECT_MENU = collect_program ''menu_agent_collect'' ''validate_menu_command'' ''collect_menu_command''"

definition PROGRAM_APPLY_MENU :: program where
  "PROGRAM_APPLY_MENU = apply_program ''menu_agent_apply'' ''validate_apply_command'' ''apply_menu_command''
     ''report_invalid_command''"

definition PROGRAM_APPLY_CATEGORY :: program where
  "PROGRAM_APPLY_CATEGORY = apply_program ''menu_agent_apply_category'' ''validate_apply_category_command''
     ''apply_category_command'' ''report_invalid_category_command''"

definition PROGRAM_UPDATE_PRODUCT :: program where
  "PROGRAM_UPDATE_PRODUCT = apply_program ''menu_agent_update_product'' ''validate_update_product_command''
     ''apply_update_product_command'' ''report_invalid_update_product_command''"

definition PROGRAM_UPDATE_CATEGORY :: program where
  "PROGRAM_UPDATE_CATEGORY = apply_program ''menu_agent_update_category'' ''validate_update_category_command''
     ''apply_update_category_command'' ''report_invalid_update_category_command''"

definition MENU_AGENT_TOOLS :: "platform \<Rightarrow> (string \<times> world tool) list" where
  "MENU_AGENT_TOOLS pf =
     [(''validate_menu_command'', validate_menu_command pf),
      (''collect_menu_command'', pass_command),
      (''report_collect_failure'', report_collect_failure pf)]"

definition MENU_APPLY_TOOLS :: "platform \<Rightarrow> (string \<times> world tool) list" where
  "MENU_APPLY_TOOLS pf =
     [(''validate_apply_command'', validate_apply_command pf),
      (''apply_menu_command'', apply_menu_command pf),
      (''report_invalid_command'', report_failure pf ''INVALID:'')]"

definition MENU_APPLY_CATEGORY_TOOLS :: "platform \<Rightarrow> (string \<times> world tool) list" where
  "MENU_APPLY_CATEGORY_TOOLS pf =
     [(''validate_apply_category_command'', validate_apply_category_command pf),
      (''apply_category_command'', apply_category_command pf),
      (''report_invalid_category_command'', report_failure pf ''INVALID:'')]"

definition UPDATE_PRODUCT_TOOLS :: "platform \<Rightarrow> (string \<times> world tool) list" where
  "UPDATE_PRODUCT_TOOLS pf =
     [(''validate_update_product_command'', validate_update_product_command pf),
      (''apply_update_product_command'', apply_update_product_command pf),
      (''report_invalid_update_product_command'', report_failure pf ''INVALID:'')]"

definition UPDATE_CATEGORY_TOOLS :: "platform \<Rightarrow> (string \<times> world tool) list" where
  "UPDATE_CATEGORY_TOOLS pf =
     [(''validate_update_category_command'', validate_update_category_command pf),
      (''apply_update_category_command'', apply_update_category_command pf),
      (''report_invalid_update_category_command'', report_failure pf ''INVALID:'')]"

definition collect_menu :: "platform \<Rightarrow> (string \<times> json) list \<Rightarrow> (world, AgentResult) io" where
  "collect_menu pf input_data = collect_command pf
     (governed pf MENU_AGENT_TOOL_CAPABILITIES (MENU_AGENT_TOOLS pf)) PROGRAM_COLLECT_MENU
     [(''input_text'', obj_get_or ''input_text'' (JStr []) input_data), (''menu_id'', obj_get_or ''menu_id'' (JStr []) input_data),
      (''items'', obj_get_or ''items'' (JList []) input_data), (''category'', obj_get_or ''category'' (JStr []) input_data)]"

definition apply_menu :: "platform \<Rightarrow> json \<Rightarrow> (world, ApplyResult) io" where
  "apply_menu pf command = apply_command pf True
     (governed pf MENU_AGENT_APPLY_TOOL_CAPABILITIES (MENU_APPLY_TOOLS pf)) PROGRAM_APPLY_MENU command"

definition apply_category :: "platform \<Rightarrow> json \<Rightarrow> (world, ApplyResult) io" where
  "apply_category pf command = apply_command pf True
     (governed pf MENU_AGENT_APPLY_CATEGORY_TOOL_CAPABILITIES (MENU_APPLY_CATEGORY_TOOLS pf)) PROGRAM_APPLY_CATEGORY command"

definition update_product :: "platform \<Rightarrow> json \<Rightarrow> (world, ApplyResult) io" where
  "update_product pf command = apply_command pf True
     (governed pf MENU_AGENT_UPDATE_PRODUCT_TOOL_CAPABILITIES (UPDATE_PRODUCT_TOOLS pf)) PROGRAM_UPDATE_PRODUCT command"

definition update_category :: "platform \<Rightarrow> json \<Rightarrow> (world, ApplyResult) io" where
  "update_category pf command = apply_command pf True
     (governed pf MENU_AGENT_UPDATE_CATEGORY_TOOL_CAPABILITIES (UPDATE_CATEGORY_TOOLS pf)) PROGRAM_UPDATE_CATEGORY command"

end
