(* ===== verification/Menu_Properties.thy ===== *)
theory Menu_Properties
  imports Menu_Tools Samples
begin

text \<open>
  The four apply phases of the menu agent keep the menu consistent: references
  point at existing categories, names of categories and skus stay unique, prices
  are not negative. An update changes the fields it names and nothing else.
\<close>

section \<open>The phases meet their contracts\<close>

interpretation menu_collect: collect_phase MENU_AGENT_TOOLS MENU_AGENT_TOOL_CAPABILITIES
  "''validate_menu_command''" "''collect_menu_command''" validate_menu_command
  "\<lambda>pf. text_accepted pf (menu_judge pf)"
  by unfold_locales (simp_all add: MENU_AGENT_TOOLS_def MENU_AGENT_TOOL_CAPABILITIES_def validate_menu_command_def)

lemma reads_menu [verdict_intros]:
  "reads (categories_named pf n)" "reads (products_named pf n)" "reads (product_by_id i)" "reads (category_by_id i)"
  "reads (other_categories_named pf n i)" "reads (sku_taken sk i)"
  unfolding categories_named_def products_named_def product_by_id_def category_by_id_def other_categories_named_def
    sku_taken_def
  by (intro verdict_intros)+

lemma reads_resolve [verdict_intros]:
  "reads (uuid_param s)" "reads (resolve_parent pf pa)" "reads (resolve_category pf ca)"
  unfolding uuid_param_def resolve_parent_def resolve_category_def
  by (intro verdict_intros)+

lemma verdict_menu:
  "verdict (validate_apply_command pf kw)" "verdict (validate_apply_category_command pf kw)"
  "verdict (validate_update_product_command pf kw)" "verdict (validate_update_category_command pf kw)"
  unfolding validate_apply_command_def validate_apply_category_command_def validate_update_product_command_def
    validate_update_category_command_def validate_new_parent_def split_beta
  by (intro verdict_intros)+

lemma no_commit_menu_statements [no_commit_intros]:
  "no_commit (write_products ps)" "no_commit (write_categories cs)" "no_commit (insert_product n i p d u)"
  "no_commit (insert_category c pa)" "no_commit (update_product_row pu ca pid)" "no_commit (update_category_row ku pa)"
  unfolding write_products_def write_categories_def insert_product_def insert_category_def update_product_row_def
    update_category_row_def Let_def
  by (intro no_commit_intros reads_no_commit verdict_intros)+

lemma no_commit_menu:
  "no_commit (apply_menu_command pf kw)" "no_commit (apply_category_command pf kw)"
  "no_commit (apply_update_product_command pf kw)" "no_commit (apply_update_category_command pf kw)"
  unfolding apply_menu_command_def apply_category_command_def apply_update_product_command_def
    apply_update_category_command_def Let_def
  by (intro no_commit_bind no_commit_branch no_commit_cases no_commit_menu_statements no_commit_basic
      reads_no_commit verdict_intros)+

lemma menu_output:
  "yields (\<lambda>out. out \<noteq> JNull) (apply_menu_command pf kw)" "yields (\<lambda>out. out \<noteq> JNull) (apply_category_command pf kw)"
  "yields (\<lambda>out. out \<noteq> JNull) (apply_update_product_command pf kw)"
  "yields (\<lambda>out. out \<noteq> JNull) (apply_update_category_command pf kw)"
  unfolding apply_menu_command_def apply_category_command_def apply_update_product_command_def
    apply_update_category_command_def Let_def split_beta
  by (intro yields_intros json.distinct)+

interpretation menu_apply: apply_phase MENU_APPLY_TOOLS MENU_AGENT_APPLY_TOOL_CAPABILITIES
  "''validate_apply_command''" "''apply_menu_command''" "''report_invalid_command''"
  validate_apply_command apply_menu_command "''INVALID:''"
  by unfold_locales (auto simp: MENU_APPLY_TOOLS_def MENU_AGENT_APPLY_TOOL_CAPABILITIES_def verdict_menu no_commit_menu
      menu_output)

interpretation category_apply: apply_phase MENU_APPLY_CATEGORY_TOOLS MENU_AGENT_APPLY_CATEGORY_TOOL_CAPABILITIES
  "''validate_apply_category_command''" "''apply_category_command''" "''report_invalid_category_command''"
  validate_apply_category_command apply_category_command "''INVALID:''"
  by unfold_locales (auto simp: MENU_APPLY_CATEGORY_TOOLS_def MENU_AGENT_APPLY_CATEGORY_TOOL_CAPABILITIES_def verdict_menu
      no_commit_menu menu_output)

interpretation product_update: apply_phase UPDATE_PRODUCT_TOOLS MENU_AGENT_UPDATE_PRODUCT_TOOL_CAPABILITIES
  "''validate_update_product_command''" "''apply_update_product_command''" "''report_invalid_update_product_command''"
  validate_update_product_command apply_update_product_command "''INVALID:''"
  by unfold_locales (auto simp: UPDATE_PRODUCT_TOOLS_def MENU_AGENT_UPDATE_PRODUCT_TOOL_CAPABILITIES_def verdict_menu
      no_commit_menu menu_output)

interpretation category_update: apply_phase UPDATE_CATEGORY_TOOLS MENU_AGENT_UPDATE_CATEGORY_TOOL_CAPABILITIES
  "''validate_update_category_command''" "''apply_update_category_command''" "''report_invalid_update_category_command''"
  validate_update_category_command apply_update_category_command "''INVALID:''"
  by unfold_locales (auto simp: UPDATE_CATEGORY_TOOLS_def MENU_AGENT_UPDATE_CATEGORY_TOOL_CAPABILITIES_def verdict_menu
      no_commit_menu menu_output)

section \<open>What a consistent menu is\<close>

definition lower_cat :: "platform \<Rightarrow> category_row \<Rightarrow> string" where
  "lower_cat pf r = db_lower pf (cat_name r)"

definition categories_wf :: "platform \<Rightarrow> category_row list \<Rightarrow> bool" where
  "categories_wf pf cs \<longleftrightarrow> key_unique cat_id cs \<and> key_unique (lower_cat pf) cs \<and> list_all category_checks cs
     \<and> list_all (\<lambda>r. pred_option (\<lambda>p. p \<in> cat_id ` set cs \<and> p \<noteq> cat_id r) (cat_parent_id r)) cs"

definition products_wf :: "uuid set \<Rightarrow> product_row list \<Rightarrow> bool" where
  "products_wf cats ps \<longleftrightarrow> key_unique p_id ps \<and> index_unique p_sku ps
     \<and> list_all (\<lambda>r. pred_option (\<lambda>c. c \<in> cats) (p_category_id r) \<and> pred_option (\<lambda>n. 0 \<le> n) (p_price_rub r)) ps"

definition menu_wf :: "platform \<Rightarrow> database \<Rightarrow> bool" where
  "menu_wf pf d \<longleftrightarrow> categories_wf pf (categories d) \<and> products_wf (cat_id ` set (categories d)) (products d)"

text \<open>One request: the menu stays consistent, no row is lost, no other table changes.\<close>

definition menu_step :: "platform \<Rightarrow> database \<Rightarrow> database \<Rightarrow> bool" where
  "menu_step pf d d' \<longleftrightarrow> (\<exists>ps cs. d' = d\<lparr>products := ps, categories := cs\<rparr> \<and> menu_wf pf d'
     \<and> p_id ` set (products d) \<subseteq> p_id ` set ps \<and> cat_id ` set (categories d) \<subseteq> cat_id ` set cs)"

lemma menu_step_refl: "menu_wf pf d \<Longrightarrow> menu_step pf d d"
  unfolding menu_step_def by (intro exI[of _ "products d"] exI[of _ "categories d"]) simp

lemma menu_step_trans: "menu_step pf d d' \<Longrightarrow> menu_step pf d' d'' \<Longrightarrow> menu_step pf d d''"
proof -
  assume a: "menu_step pf d d'" and b: "menu_step pf d' d''"
  obtain ps cs where d': "d' = d\<lparr>products := ps, categories := cs\<rparr>"
    and sub: "p_id ` set (products d) \<subseteq> p_id ` set ps" "cat_id ` set (categories d) \<subseteq> cat_id ` set cs"
    using a unfolding menu_step_def by blast
  obtain ps' cs' where d'': "d'' = d'\<lparr>products := ps', categories := cs'\<rparr>" "menu_wf pf d''"
    and sub': "p_id ` set (products d') \<subseteq> p_id ` set ps'" "cat_id ` set (categories d') \<subseteq> cat_id ` set cs'"
    using b unfolding menu_step_def by blast
  have "d'' = d\<lparr>products := ps', categories := cs'\<rparr>"
    using d' d''(1) by simp
  moreover have "p_id ` set (products d) \<subseteq> p_id ` set ps'" "cat_id ` set (categories d) \<subseteq> cat_id ` set cs'"
    using sub sub' d' by auto
  ultimately show ?thesis using d''(2) unfolding menu_step_def by blast
qed

lemma write_products_step:
  assumes "menu_wf pf (db w)" "write_products ps w = (Inr u, w')"
    and "p_id ` set (products (db w)) \<subseteq> p_id ` set ps"
    and "list_all (\<lambda>r. pred_option (\<lambda>c. c \<in> cat_id ` set (categories (db w))) (p_category_id r)
           \<and> pred_option (\<lambda>n. 0 \<le> n) (p_price_rub r)) ps"
  shows "menu_step pf (db w) (db w')"
  using assms unfolding menu_step_def menu_wf_def products_wf_def
  by (intro exI[of _ ps] exI[of _ "categories (db w)"]) (auto simp: write_products_def split: if_splits)

lemma write_categories_step:
  assumes "menu_wf pf (db w)" "write_categories cs w = (Inr u, w')"
    and "cat_id ` set (categories (db w)) \<subseteq> cat_id ` set cs" "key_unique (lower_cat pf) cs"
    and "list_all (\<lambda>r. pred_option (\<lambda>p. p \<in> cat_id ` set cs \<and> p \<noteq> cat_id r) (cat_parent_id r)) cs"
  shows "menu_step pf (db w) (db w')"
proof -
  have "list_all (\<lambda>r. pred_option (\<lambda>c. c \<in> cat_id ` set cs) (p_category_id r)
      \<and> pred_option (\<lambda>n. 0 \<le> n) (p_price_rub r)) (products (db w))"
    using assms(1,3) by (auto simp: menu_wf_def products_wf_def list_all_iff pred_option_def)
  then show ?thesis
    using assms unfolding menu_step_def menu_wf_def categories_wf_def products_wf_def
    by (intro exI[of _ "products (db w)"] exI[of _ cs]) (auto simp: write_categories_def split: if_splits)
qed

section \<open>What the writes do\<close>

lemma named_category:
  "rows_where (\<lambda>r. db_lower pf (cat_name r) = n) cs = [c] \<Longrightarrow> c \<in> set cs"
proof -
  assume "rows_where (\<lambda>r. db_lower pf (cat_name r) = n) cs = [c]"
  then have "c \<in> set (rows_where (\<lambda>r. db_lower pf (cat_name r) = n) cs)" by simp
  then show ?thesis by simp
qed

lemma resolvedE [io_elims]:
  "resolve_parent pf pa w = (Inr c, w') \<Longrightarrow>
     (w' = w \<Longrightarrow> pred_option (\<lambda>i. i \<in> cat_id ` set (categories (db w))) c \<Longrightarrow> P) \<Longrightarrow> P"
  "resolve_category pf ca w = (Inr c, w') \<Longrightarrow>
     (w' = w \<Longrightarrow> pred_option (\<lambda>i. i \<in> cat_id ` set (categories (db w))) c \<Longrightarrow> P) \<Longrightarrow> P"
  unfolding resolve_parent_def resolve_category_def categories_named_def
  by (elim io_elims; auto dest: named_category)+

lemma create_product_step:
  assumes wf: "menu_wf pf (db w)" and run: "apply_menu_command pf kw w = (Inr out, w')"
  shows "menu_step pf (db w) (db w')"
proof -
  obtain n c price d u x where c: "c \<in> set (categories (db w))" and pos: "0 \<le> price"
    and ins: "insert_product n (cat_id c) price d u w = (Inr x, w')"
    using run unfolding apply_menu_command_def command_arg_def categories_named_def products_named_def Let_def
    by (elim io_elims) (auto intro: that dest!: named_category simp: required_apply_fields_def not_less
        split: json.splits option.splits if_splits)
  obtain i descr img where "write_products (products (db w) @ [\<lparr>p_id = i, p_name = n, p_category_id = Some (cat_id c),
         p_time_period_override = None, p_price_rub = Some price, p_description = descr, p_image_url = img,
         p_is_active = True, p_sku = None, p_sort = 0\<rparr>]) (w\<lparr>uuid_next := Suc (uuid_next w)\<rparr>) = (Inr x, w')"
    using ins unfolding insert_product_def by (elim io_elims) auto
  then have "menu_step pf (db (w\<lparr>uuid_next := Suc (uuid_next w)\<rparr>)) (db w')"
    by (rule write_products_step[rotated]) (use wf c pos in \<open>auto simp: menu_wf_def products_wf_def\<close>)
  then show ?thesis by simp
qed

lemma create_category_step:
  assumes wf: "menu_wf pf (db w)" and run: "apply_category_command pf kw w = (Inr out, w')"
  shows "menu_step pf (db w) (db w')"
proof -
  obtain c parent i where par: "pred_option (\<lambda>i. i \<in> cat_id ` set (categories (db w))) parent"
    and free: "rows_where (\<lambda>r. db_lower pf (cat_name r) = db_lower pf (cc_name c)) (categories (db w)) = []"
    and ins: "insert_category c parent w = (Inr i, w')"
    using run unfolding apply_category_command_def command_arg_def categories_named_def
    by (elim io_elims) (simp_all add: that)
  let ?q = "\<lparr>cat_id = i, cat_external_id = None, cat_name = cc_name c, cat_parent_id = parent,
      cat_time_period = cc_time_period c, cat_fulfillment_scope = cc_fulfillment_scope c, cat_sort = cc_sort c,
      cat_is_active = True\<rparr>"
  have wr: "write_categories (categories (db w) @ [?q]) (w\<lparr>uuid_next := Suc (uuid_next w)\<rparr>) = (Inr (), w')"
    using ins unfolding insert_category_def by (elim io_elims) auto
  then have "key_unique cat_id (categories (db w) @ [?q])"
    by (auto simp: write_categories_def split: if_splits)
  then have "menu_step pf (db (w\<lparr>uuid_next := Suc (uuid_next w)\<rparr>)) (db w')"
    using par free wf
    by (intro write_categories_step[OF _ wr]) (auto simp: menu_wf_def categories_wf_def key_unique_append lower_cat_def
        list_all_iff pred_option_def rows_where_None)
  then show ?thesis by simp
qed

lemma update_product_step:
  assumes wf: "menu_wf pf (db w)" and run: "apply_update_product_command pf kw w = (Inr out, w')"
  shows "menu_step pf (db w) (db w')"
proof -
  obtain cmd u i ca where u: "required_update_product_fields cmd = Some u"
    and ca: "pred_option (\<lambda>i. i \<in> cat_id ` set (categories (db w))) ca" and up: "update_product_row u ca i w = (Inr (), w')"
    using run unfolding apply_update_product_command_def command_arg_def uuid_param_def product_by_id_def sku_taken_def
    by (elim io_elims) (simp_all add: that)
  have pos: "pred_option (\<lambda>n. 0 \<le> n) (pu_price_rub u)"
    using u by (auto simp: required_update_product_fields_def split: json.splits option.splits if_splits)
  have wr: "write_products (update_where (\<lambda>r. p_id r = i) (set_product_fields u ca) (products (db w))) w = (Inr (), w')"
    using up unfolding update_product_row_def by (elim io_elims) auto
  have "list_all (\<lambda>r. pred_option (\<lambda>c. c \<in> cat_id ` set (categories (db w))) (p_category_id r)
      \<and> pred_option (\<lambda>n. 0 \<le> n) (p_price_rub r)) (products (db w))"
    using wf by (simp add: menu_wf_def products_wf_def)
  then have "list_all (\<lambda>r. pred_option (\<lambda>c. c \<in> cat_id ` set (categories (db w))) (p_category_id r)
      \<and> pred_option (\<lambda>n. 0 \<le> n) (p_price_rub r)) (update_where (\<lambda>r. p_id r = i) (set_product_fields u ca) (products (db w)))"
    by (rule list_all_update_where)
      (use ca pos in \<open>auto simp: set_product_fields_def coalesce_opt_def split: option.splits\<close>)
  then show ?thesis
    by (intro write_products_step[OF wf wr]) (simp_all add: image_update_where set_product_fields_def)
qed

lemma update_category_step:
  assumes wf: "menu_wf pf (db w)" and run: "apply_update_category_command pf kw w = (Inr out, w')"
  shows "menu_step pf (db w) (db w')"
proof -
  obtain u pa where free: "pred_option (\<lambda>n. rows_where (\<lambda>r. db_lower pf (cat_name r) = db_lower pf n
        \<and> cat_id r \<noteq> ku_category_id u) (categories (db w)) = []) (ku_name u)"
    and pa: "pred_option (\<lambda>i. i \<in> cat_id ` set (categories (db w))) pa" "pa \<noteq> Some (ku_category_id u)"
    and up: "update_category_row u pa w = (Inr (), w')"
    using run unfolding apply_update_category_command_def command_arg_def category_by_id_def other_categories_named_def
    by (elim io_elims) (rule that; simp)+
  let ?cs = "categories (db w)" and ?f = "set_category_fields u pa"
  let ?cs' = "update_where (\<lambda>r. cat_id r = ku_category_id u) ?f ?cs"
  have wr: "write_categories ?cs' w = (Inr (), w')"
    using up unfolding update_category_row_def by (elim io_elims) auto
  have cs: "key_unique cat_id ?cs" "key_unique (lower_cat pf) ?cs"
      "list_all (\<lambda>r. pred_option (\<lambda>p. p \<in> cat_id ` set ?cs \<and> p \<noteq> cat_id r) (cat_parent_id r)) ?cs"
    using wf by (simp_all add: menu_wf_def categories_wf_def)
  have ids: "cat_id ` set ?cs' = cat_id ` set ?cs"
    by (rule image_update_where) (simp add: set_category_fields_def)
  have "list_all (\<lambda>r. pred_option (\<lambda>p. p \<in> cat_id ` set ?cs \<and> p \<noteq> cat_id r) (cat_parent_id r)) ?cs'"
    by (rule list_all_update_where[OF cs(3)])
      (use pa in \<open>auto simp: set_category_fields_def coalesce_opt_def split: option.splits\<close>)
  moreover have "key_unique (lower_cat pf) ?cs'"
  proof (rule key_unique_change[OF cs(2,1)])
    fix q p
    assume q: "q \<in> set ?cs" "cat_id q = ku_category_id u" and p: "p \<in> set ?cs" "cat_id p \<noteq> ku_category_id u"
    show "lower_cat pf p \<noteq> lower_cat pf (?f q)"
    proof (cases "ku_name u")
      case None
      then show ?thesis
        using key_unique_same[OF cs(2) p(1) q(1)] p q by (auto simp: lower_cat_def set_category_fields_def coalesce_def)
    next
      case (Some n)
      then show ?thesis
        using free p by (auto simp: lower_cat_def set_category_fields_def coalesce_def rows_where_None)
    qed
  qed
  ultimately show ?thesis
    by (intro write_categories_step[OF wf wr]) (simp_all add: ids)
qed

section \<open>Histories of requests\<close>

text \<open>The four administration requests of the menu, each with its command.\<close>

datatype menu_request = CreateProduct json | CreateCategory json | UpdateProduct json | UpdateCategory json

fun serve_menu :: "platform \<Rightarrow> menu_request \<Rightarrow> (world, ApplyResult) io" where
  "serve_menu pf (CreateProduct c) = apply_menu pf c"
| "serve_menu pf (CreateCategory c) = apply_category pf c"
| "serve_menu pf (UpdateProduct c) = update_product pf c"
| "serve_menu pf (UpdateCategory c) = update_category pf c"

primrec serve_all :: "platform \<Rightarrow> menu_request list \<Rightarrow> world \<Rightarrow> world" where
  "serve_all pf [] w = w"
| "serve_all pf (q # qs) w = serve_all pf qs (snd (serve_menu pf q w))"

lemma serve_step:
  assumes vm: "vm_ok pf" and wf: "menu_wf pf (committed w)" and run: "serve_menu pf q w = (r, w')"
  shows "menu_step pf (committed w) (committed w')"
proof (cases q)
  case (CreateProduct c)
  show ?thesis
    by (rule menu_apply.apply_relation[where R = "menu_step pf", OF vm run[unfolded CreateProduct serve_menu.simps apply_menu_def PROGRAM_APPLY_MENU_def]])
      (metis menu_step_refl wf, metis create_product_step wf)
next
  case (CreateCategory c)
  show ?thesis
    by (rule category_apply.apply_relation[where R = "menu_step pf", OF vm
        run[unfolded CreateCategory serve_menu.simps apply_category_def PROGRAM_APPLY_CATEGORY_def]])
      (metis menu_step_refl wf, metis create_category_step wf)
next
  case (UpdateProduct c)
  show ?thesis
    by (rule product_update.apply_relation[where R = "menu_step pf", OF vm
        run[unfolded UpdateProduct serve_menu.simps update_product_def PROGRAM_UPDATE_PRODUCT_def]])
      (metis menu_step_refl wf, metis update_product_step wf)
next
  case (UpdateCategory c)
  show ?thesis
    by (rule category_update.apply_relation[where R = "menu_step pf", OF vm
        run[unfolded UpdateCategory serve_menu.simps update_category_def PROGRAM_UPDATE_CATEGORY_def]])
      (metis menu_step_refl wf, metis update_category_step wf)
qed

lemma serve_all_step:
  assumes "vm_ok pf" "menu_wf pf (committed w)"
  shows "menu_step pf (committed w) (committed (serve_all pf qs w))"
  using assms(2)
proof (induction qs arbitrary: w)
  case (Cons q qs)
  obtain r w1 where run: "serve_menu pf q w = (r, w1)" by fastforce
  have s: "menu_step pf (committed w) (committed w1)"
    by (rule serve_step[OF assms(1) Cons.prems run])
  then have "menu_wf pf (committed w1)" by (auto simp: menu_step_def)
  then show ?case using Cons.IH[of w1] menu_step_trans[OF s] run by simp
qed (simp add: menu_step_refl)

text \<open>C22. Whatever the menu agent is told to write, in whatever order: every product and
category reference points at an existing category, no category is its own parent,
names of categories and skus stay unique, prices are never negative, no product
and no category is ever removed, and no other table changes.\<close>

theorem menu_stays_consistent:
  assumes "vm_ok pf" "menu_wf pf (committed w)"
  shows "menu_wf pf (committed (serve_all pf qs w))
    \<and> p_id ` set (products (committed w)) \<subseteq> p_id ` set (products (committed (serve_all pf qs w)))
    \<and> cat_id ` set (categories (committed w)) \<subseteq> cat_id ` set (categories (committed (serve_all pf qs w)))
    \<and> (\<exists>ps cs. committed (serve_all pf qs w) = (committed w)\<lparr>products := ps, categories := cs\<rparr>)"
proof -
  obtain ps cs where "committed (serve_all pf qs w) = (committed w)\<lparr>products := ps, categories := cs\<rparr>"
      "menu_wf pf (committed (serve_all pf qs w))"
      "p_id ` set (products (committed w)) \<subseteq> p_id ` set ps" "cat_id ` set (categories (committed w)) \<subseteq> cat_id ` set cs"
    using serve_all_step[OF assms] unfolding menu_step_def by blast
  then show ?thesis by auto
qed

definition two_categories :: world where
  "two_categories = sample_world\<lparr>committed := empty_db\<lparr>categories := map (\<lambda>(i, n).
     \<lparr>cat_id = i, cat_external_id = None, cat_name = n, cat_parent_id = None, cat_time_period = ''both'',
      cat_fulfillment_scope = ''both'', cat_sort = 0, cat_is_active = True\<rparr>)
     [(''00000000-0000-0000-0000-0000000000c1'', ''Tea''), (''00000000-0000-0000-0000-0000000000c2'', ''Food'')]\<rparr>\<rparr>"

definition each_under_the_other :: "menu_request list" where
  "each_under_the_other =
     [UpdateCategory (JObj [(''category_id'', JStr ''00000000-0000-0000-0000-0000000000c1''), (''parent_category'', JStr ''food'')]),
      UpdateCategory (JObj [(''category_id'', JStr ''00000000-0000-0000-0000-0000000000c2''), (''parent_category'', JStr ''tea'')])]"

theorem menu_stays_consistent_witness:
  "menu_wf ref_platform (committed (serve_all ref_platform
     [CreateProduct (JObj [(''name'', JStr ''Sencha''), (''category'', JStr '' tea ''), (''price_rub'', JInt 300)])] two_categories))"
proof -
  have "menu_wf ref_platform (committed two_categories)" by code_simp
  then show ?thesis using menu_stays_consistent[OF vm_ok_ref] by blast
qed

text \<open>The check of a new parent stops at the category itself: two accepted updates
make two categories each other's parent.\<close>

theorem categories_can_form_a_cycle:
  "map cat_parent_id (categories (committed (serve_all ref_platform each_under_the_other two_categories)))
     = map (Some \<circ> cat_id) (rev (categories (committed two_categories)))
   \<and> menu_wf ref_platform (committed two_categories)"
  by code_simp

end
