(* ===== verification/Restock_Tools.thy ===== *)
theory Restock_Tools
  imports Agent_Core Inventory_Tools Policy_Snapshot
begin

text \<open>
  The inventory agent: app/tools/inventory_agent_tools.py, the programs of
  app/programs/inventory_agent_program.py and the phases of
  app/agents/inventory_agent.py. Its only action adds stock to an existing sku.
\<close>

section \<open>The collect phase\<close>

definition restock_judge :: "platform \<Rightarrow> json \<Rightarrow> string option" where
  "restock_judge pf v = (case v of
       JObj data \<Rightarrow>
         if nonblank_text (json_get ''sku'' data) = None then Some ''could not identify which sku to restock''
         else (case json_get ''quantity'' data of
             JInt q \<Rightarrow> if q \<le> 0 then Some (''quantity must be positive, got '' @ int_str q) else None
           | _ \<Rightarrow> Some ''could not identify a whole-number quantity to add'')
     | _ \<Rightarrow> Some ''parsed command is not an object'')"

definition validate_restock_command :: "platform \<Rightarrow> world tool" where
  "validate_restock_command pf =
     validate_text pf ''empty instruction - nothing to parse'' ''could not parse a command from the instruction''
       (restock_judge pf)"

section \<open>The apply phase\<close>

definition required_restock_fields :: "json \<Rightarrow> (string \<times> int) option" where
  "required_restock_fields command = (case command of
       JObj kvs \<Rightarrow>
         (case (nonblank_text (json_get ''sku'' kvs), json_get ''quantity'' kvs) of
            (Some sku, JInt quantity) \<Rightarrow> if quantity \<le> 0 then None else Some (py_strip sku, quantity)
          | _ \<Rightarrow> None)
     | _ \<Rightarrow> None)"

definition stocked :: "string \<Rightarrow> (world, bool) io" where
  "stocked sku = select_db (\<lambda>d. rows_where (\<lambda>r. inv_sku r = sku) (inventory d) \<noteq> [])"

definition validate_apply_restock_command :: "platform \<Rightarrow> world tool" where
  "validate_apply_restock_command pf kw = bind_io (command_arg kw) (\<lambda>command.
     case required_restock_fields command of
       None \<Rightarrow> reject_command ''malformed command''
     | Some (sku, quantity) \<Rightarrow>
         bind_io (stocked sku) (\<lambda>found.
           if \<not> found
           then reject_command (''sku '' @ quoted pf sku @ '' not found in inventory - restock only adds to an existing item, ''
                  @ ''use Sync from menu / Generate SKUs to create it first'')
           else accept_command))"

definition apply_restock_command :: "platform \<Rightarrow> world tool" where
  "apply_restock_command pf kw = bind_io (command_arg kw) (\<lambda>command.
     case required_restock_fields command of
       None \<Rightarrow> raise (ValueError ''apply_restock_command: malformed command'')
     | Some (sku, quantity) \<Rightarrow>
         bind_io (increment_inventory sku quantity (Some ''RESTOCK_AGENT'') (Some ''agent'') None) (\<lambda>_.
           ret (JObj [(''applied'', JBool True), (''sku'', JStr sku), (''quantity'', JInt quantity)])))"

section \<open>The agent\<close>

definition PROGRAM_COLLECT_RESTOCK :: program where
  "PROGRAM_COLLECT_RESTOCK = collect_program ''inventory_agent_collect'' ''validate_restock_command''
     ''collect_restock_command''"

definition PROGRAM_APPLY_RESTOCK :: program where
  "PROGRAM_APPLY_RESTOCK = apply_program ''inventory_agent_apply'' ''validate_apply_restock_command''
     ''apply_restock_command'' ''report_invalid_restock_command''"

definition RESTOCK_AGENT_TOOLS :: "platform \<Rightarrow> (string \<times> world tool) list" where
  "RESTOCK_AGENT_TOOLS pf =
     [(''validate_restock_command'', validate_restock_command pf),
      (''collect_restock_command'', pass_command),
      (''report_collect_failure'', report_collect_failure pf)]"

definition RESTOCK_APPLY_TOOLS :: "platform \<Rightarrow> (string \<times> world tool) list" where
  "RESTOCK_APPLY_TOOLS pf =
     [(''validate_apply_restock_command'', validate_apply_restock_command pf),
      (''apply_restock_command'', apply_restock_command pf),
      (''report_invalid_restock_command'', report_failure pf ''REJECTED:'')]"

definition manage_restock :: "platform \<Rightarrow> json \<Rightarrow> (world, AgentResult) io" where
  "manage_restock pf input_text = collect_command pf
     (governed pf INVENTORY_AGENT_TOOL_CAPABILITIES (RESTOCK_AGENT_TOOLS pf)) PROGRAM_COLLECT_RESTOCK
     [(''input_text'', input_text)]"

definition apply_restock :: "platform \<Rightarrow> json \<Rightarrow> (world, ApplyResult) io" where
  "apply_restock pf command = apply_command pf True
     (governed pf INVENTORY_AGENT_APPLY_TOOL_CAPABILITIES (RESTOCK_APPLY_TOOLS pf)) PROGRAM_APPLY_RESTOCK command"

section \<open>The phases meet their contracts\<close>

interpretation restock_collect: collect_phase RESTOCK_AGENT_TOOLS INVENTORY_AGENT_TOOL_CAPABILITIES
  "''validate_restock_command''" "''collect_restock_command''" validate_restock_command
  "\<lambda>pf. text_accepted pf (restock_judge pf)"
  by unfold_locales (simp_all add: RESTOCK_AGENT_TOOLS_def INVENTORY_AGENT_TOOL_CAPABILITIES_def validate_restock_command_def)

lemma verdict_restock: "verdict (validate_apply_restock_command pf kw)"
  unfolding validate_apply_restock_command_def stocked_def split_beta
  by (intro verdict_intros)+

lemma no_commit_restock: "no_commit (apply_restock_command pf kw)"
  unfolding apply_restock_command_def increment_inventory_def command_arg_def
  by (intro no_commit_intros no_commit_inventory)+

lemma restock_output: "yields (\<lambda>out. out \<noteq> JNull) (apply_restock_command pf kw)"
  unfolding apply_restock_command_def split_beta
  by (intro yields_intros json.distinct)+

interpretation restock_apply: apply_phase RESTOCK_APPLY_TOOLS INVENTORY_AGENT_APPLY_TOOL_CAPABILITIES
  "''validate_apply_restock_command''" "''apply_restock_command''" "''report_invalid_restock_command''"
  validate_apply_restock_command apply_restock_command "''REJECTED:''"
  by unfold_locales (auto simp: RESTOCK_APPLY_TOOLS_def INVENTORY_AGENT_APPLY_TOOL_CAPABILITIES_def verdict_restock
      no_commit_restock restock_output)

end
