(* ===== verification/Csv_Text.thy ===== *)
theory Csv_Text
  imports Py_Text
begin

text \<open>
  The csv module of Python with its default dialect: the reader as the character
  machine of the C implementation, over the lines of an io.StringIO, and the
  writer with minimal quoting. What the writer writes, the reader reads back.
\<close>

section \<open>Lines of a text\<close>

abbreviation newline :: char where "newline \<equiv> CHR 0x0A"
abbreviation carriage :: char where "carriage \<equiv> CHR 0x0D"
abbreviation comma :: char where "comma \<equiv> CHR 0x2C"
abbreviation dquote :: char where "dquote \<equiv> CHR 0x22"

fun lines_of :: "string \<Rightarrow> string list" where
  "lines_of [] = []"
| "lines_of (c # s) =
     (if c = newline then [c] # lines_of s
      else case lines_of s of [] \<Rightarrow> [[c]] | l # ls \<Rightarrow> (c # l) # ls)"

lemma lines_of_Nil [simp]: "lines_of s = [] \<longleftrightarrow> s = []"
  by (cases s) (auto split: list.splits)

lemma concat_lines_of [simp]: "concat (lines_of s) = s"
  by (induction s) (auto split: list.splits)

section \<open>The reader\<close>

datatype csv_state = START_RECORD | START_FIELD | IN_FIELD | IN_QUOTED_FIELD | QUOTE_IN_QUOTED_FIELD | EAT_CRNL

record csv_parser =
  ps_state :: csv_state
  ps_field :: string
  ps_fields :: "string list"

definition csv_start :: csv_parser where
  "csv_start = \<lparr>ps_state = START_RECORD, ps_field = [], ps_fields = []\<rparr>"

definition FIELD_LIMIT :: int where
  "FIELD_LIMIT = 131072"

lemma FIELD_LIMIT_pos [simp]: "\<not> FIELD_LIMIT \<le> 0" "FIELD_LIMIT \<noteq> 0"
  by (simp_all add: FIELD_LIMIT_def)

definition save_field :: "csv_state \<Rightarrow> csv_parser \<Rightarrow> csv_parser" where
  "save_field st p = \<lparr>ps_state = st, ps_field = [], ps_fields = ps_fields p @ [ps_field p]\<rparr>"

definition add_char :: "csv_state \<Rightarrow> char \<Rightarrow> csv_parser \<Rightarrow> csv_parser result" where
  "add_char st c p =
     (if FIELD_LIMIT \<le> int (length (ps_field p)) then Inl (CsvError ''field larger than field limit (131072)'')
      else Inr (p\<lparr>ps_state := st, ps_field := ps_field p @ [c]\<rparr>))"

definition is_newline :: "char \<Rightarrow> bool" where
  "is_newline c \<longleftrightarrow> c = newline \<or> c = carriage"

definition start_field :: "char \<Rightarrow> csv_parser \<Rightarrow> csv_parser result" where
  "start_field c p =
     (if is_newline c then Inr (save_field EAT_CRNL p)
      else if c = dquote then Inr (p\<lparr>ps_state := IN_QUOTED_FIELD\<rparr>)
      else if c = comma then Inr (save_field START_FIELD p)
      else add_char IN_FIELD c p)"

definition process_char :: "char \<Rightarrow> csv_parser \<Rightarrow> csv_parser result" where
  "process_char c p = (case ps_state p of
       START_RECORD \<Rightarrow> if is_newline c then Inr (p\<lparr>ps_state := EAT_CRNL\<rparr>) else start_field c p
     | START_FIELD \<Rightarrow> start_field c p
     | IN_FIELD \<Rightarrow>
         if is_newline c then Inr (save_field EAT_CRNL p)
         else if c = comma then Inr (save_field START_FIELD p) else add_char IN_FIELD c p
     | IN_QUOTED_FIELD \<Rightarrow>
         if c = dquote then Inr (p\<lparr>ps_state := QUOTE_IN_QUOTED_FIELD\<rparr>) else add_char IN_QUOTED_FIELD c p
     | QUOTE_IN_QUOTED_FIELD \<Rightarrow>
         if c = dquote then add_char IN_QUOTED_FIELD c p
         else if c = comma then Inr (save_field START_FIELD p)
         else if is_newline c then Inr (save_field EAT_CRNL p) else add_char IN_FIELD c p
     | EAT_CRNL \<Rightarrow>
         if is_newline c then Inr p else Inl (CsvError ''new-line character seen in unquoted field''))"

text \<open>The end of a line handed to the machine.\<close>

definition process_eol :: "csv_parser \<Rightarrow> csv_parser" where
  "process_eol p = (case ps_state p of
       START_RECORD \<Rightarrow> p
     | IN_QUOTED_FIELD \<Rightarrow> p
     | EAT_CRNL \<Rightarrow> p\<lparr>ps_state := START_RECORD\<rparr>
     | _ \<Rightarrow> save_field START_RECORD p)"

fun process_line :: "csv_parser \<Rightarrow> string \<Rightarrow> csv_parser result" where
  "process_line p [] = Inr (process_eol p)"
| "process_line p (c # l) = (case process_char c p of Inl e \<Rightarrow> Inl e | Inr q \<Rightarrow> process_line q l)"

definition add_row :: "string list \<Rightarrow> string list list result \<Rightarrow> string list list result" where
  "add_row r rows = (case rows of Inl e \<Rightarrow> Inl e | Inr rs \<Rightarrow> Inr (r # rs))"

lemma add_row_simps [simp]: "add_row r (Inl e) = Inl e" "add_row r (Inr rs) = Inr (r # rs)"
  by (simp_all add: add_row_def)

text \<open>A record may take several lines; an open quoted field ends with the text.\<close>

fun csv_records :: "csv_parser \<Rightarrow> string list \<Rightarrow> string list list result" where
  "csv_records p [] =
     (if ps_field p \<noteq> [] \<or> ps_state p = IN_QUOTED_FIELD
      then Inr [ps_fields p @ [ps_field p]] else Inr [])"
| "csv_records p (l # ls) = (case process_line p l of
       Inl e \<Rightarrow> Inl e
     | Inr q \<Rightarrow> if ps_state q = START_RECORD then add_row (ps_fields q) (csv_records csv_start ls)
               else csv_records q ls)"

definition csv_reader :: "string \<Rightarrow> string list list result" where
  "csv_reader text = csv_records csv_start (lines_of text)"

section \<open>The writer\<close>

definition needs_quotes :: "string \<Rightarrow> bool" where
  "needs_quotes s \<longleftrightarrow> (\<exists>c \<in> set s. c = comma \<or> c = dquote \<or> is_newline c)"

definition escape_quotes :: "string \<Rightarrow> string" where
  "escape_quotes s = concat (map (\<lambda>c. if c = dquote then [c, c] else [c]) s)"

definition write_cell :: "string \<Rightarrow> string" where
  "write_cell s = (if needs_quotes s then dquote # escape_quotes s @ [dquote] else s)"

fun join_cells :: "string list \<Rightarrow> string" where
  "join_cells [] = []"
| "join_cells [s] = write_cell s"
| "join_cells (s # t # ss) = write_cell s @ comma # join_cells (t # ss)"

definition writerow :: "string list \<Rightarrow> string" where
  "writerow cells = (if cells = [[]] then [dquote, dquote] else join_cells cells) @ [carriage, newline]"

section \<open>The reader as one pass over the characters\<close>

fun csv_stream :: "csv_parser \<Rightarrow> string \<Rightarrow> string list list result" where
  "csv_stream p [] = csv_records p []"
| "csv_stream p (c # s) = (case process_char c p of
       Inl e \<Rightarrow> Inl e
     | Inr q \<Rightarrow>
         if c = newline \<or> s = [] then
           (if ps_state (process_eol q) = START_RECORD
            then add_row (ps_fields (process_eol q)) (csv_stream csv_start s)
            else csv_stream (process_eol q) s)
         else csv_stream q s)"

lemma csv_stream_lines: "csv_records p (lines_of s) = csv_stream p s"
proof (induction s arbitrary: p)
  case (Cons c s)
  show ?case
  proof (cases "process_char c p")
    case (Inr q)
    show ?thesis
    proof (cases "c = newline \<or> s = []")
      case True
      then show ?thesis using Inr Cons.IH by auto
    next
      case False
      then obtain l ls where l: "lines_of s = l # ls" by (cases "lines_of s") auto
      have "csv_records p (lines_of (c # s)) = csv_records q (l # ls)"
        using False l Inr by simp
      then show ?thesis using Cons.IH[of q] l False Inr by simp
    qed
  qed (auto split: list.splits)
qed simp

lemma stream_step:
  "process_char c p = Inr q \<Longrightarrow> c \<noteq> newline \<Longrightarrow> s \<noteq> [] \<Longrightarrow> csv_stream p (c # s) = csv_stream q s"
  by simp

lemma stream_newline:
  "process_char newline p = Inr q \<Longrightarrow> csv_stream p (newline # s) =
     (if ps_state (process_eol q) = START_RECORD then add_row (ps_fields (process_eol q)) (csv_stream csv_start s)
      else csv_stream (process_eol q) s)"
  by simp

declare csv_stream.simps(2) [simp del]

section \<open>What is written is read back\<close>

abbreviation pstate :: "csv_state \<Rightarrow> string \<Rightarrow> string list \<Rightarrow> csv_parser" where
  "pstate st f fs \<equiv> \<lparr>ps_state = st, ps_field = f, ps_fields = fs\<rparr>"

lemma stream_in_field:
  assumes "\<not> needs_quotes f" "int (length (g @ f)) \<le> FIELD_LIMIT" "s \<noteq> []"
  shows "csv_stream (pstate IN_FIELD g fs) (f @ s) = csv_stream (pstate IN_FIELD (g @ f) fs) s"
  using assms
proof (induction f arbitrary: g)
  case (Cons c f)
  then have "process_char c (pstate IN_FIELD g fs) = Inr (pstate IN_FIELD (g @ [c]) fs)"
    by (auto simp: needs_quotes_def process_char_def add_char_def is_newline_def)
  then show ?case
    using Cons stream_step[of c _ _ "f @ s"] by (simp add: needs_quotes_def is_newline_def)
qed simp

lemma stream_quoted:
  assumes "int (length (g @ f)) \<le> FIELD_LIMIT" "s \<noteq> []"
  shows "csv_stream (pstate IN_QUOTED_FIELD g fs) (escape_quotes f @ dquote # s)
    = csv_stream (pstate QUOTE_IN_QUOTED_FIELD (g @ f) fs) s"
  using assms
proof (induction f arbitrary: g)
  case Nil
  then show ?case by (simp add: escape_quotes_def stream_step process_char_def)
next
  case (Cons c f)
  let ?rest = "escape_quotes f @ dquote # s"
  have "csv_stream (pstate IN_QUOTED_FIELD g fs) (escape_quotes (c # f) @ dquote # s)
      = csv_stream (pstate IN_QUOTED_FIELD (g @ [c]) fs) ?rest"
  proof (cases "c = dquote")
    case True
    then show ?thesis
      using Cons.prems by (simp add: escape_quotes_def stream_step process_char_def add_char_def)
  next
    case False
    then have "process_char c (pstate IN_QUOTED_FIELD g fs) = Inr (pstate IN_QUOTED_FIELD (g @ [c]) fs)"
      using Cons.prems by (simp add: process_char_def add_char_def)
    then show ?thesis
      using False by (cases "c = newline") (simp_all add: escape_quotes_def stream_step stream_newline process_eol_def)
  qed
  then show ?case using Cons.IH[of "g @ [c]"] Cons.prems by simp
qed

lemma stream_cell:
  assumes f: "int (length f) \<le> FIELD_LIMIT" and st: "st = START_RECORD \<or> st = START_FIELD"
  shows "s \<noteq> [] \<Longrightarrow> csv_stream (pstate st [] fs) (write_cell f @ comma # s) = csv_stream (pstate START_FIELD [] (fs @ [f])) s"
    and "st = START_FIELD \<or> f \<noteq> [] \<Longrightarrow> csv_stream (pstate st [] fs) (write_cell f @ carriage # newline # s) =
      add_row (fs @ [f]) (csv_stream csv_start s)"
proof -
  have read: "needs_quotes f \<and> csv_stream (pstate st [] fs) (write_cell f @ d # t) = csv_stream (pstate QUOTE_IN_QUOTED_FIELD f fs) (d # t)
    \<or> f \<noteq> [] \<and> csv_stream (pstate st [] fs) (write_cell f @ d # t) = csv_stream (pstate IN_FIELD f fs) (d # t)
    \<or> f = [] \<and> write_cell f = []" for d t
  proof (cases "needs_quotes f")
    case True
    have "process_char dquote (pstate st [] fs) = Inr (pstate IN_QUOTED_FIELD [] fs)"
      using st by (auto simp: process_char_def start_field_def is_newline_def)
    then show ?thesis
      using True stream_quoted[of "[]" f "d # t" fs] f by (simp add: write_cell_def stream_step)
  next
    case False
    show ?thesis
    proof (cases f)
      case (Cons c g)
      then have c: "\<not> is_newline c" "c \<noteq> comma" "c \<noteq> dquote" and g: "\<not> needs_quotes g"
        using False by (simp_all add: needs_quotes_def)
      from c have p: "process_char c (pstate st [] fs) = Inr (pstate IN_FIELD [c] fs)"
        using st by (elim disjE) (simp_all add: process_char_def start_field_def add_char_def)
      have "csv_stream (pstate st [] fs) (c # (g @ d # t)) = csv_stream (pstate IN_FIELD [c] fs) (g @ d # t)"
        using c by (intro stream_step[OF p]) (auto simp: is_newline_def)
      also have "\<dots> = csv_stream (pstate IN_FIELD ([c] @ g) fs) (d # t)"
        using g f Cons by (intro stream_in_field) simp_all
      finally show ?thesis
        using False Cons by (simp add: write_cell_def)
    qed (use False in \<open>simp add: write_cell_def\<close>)
  qed
  have ends: "process_char comma (pstate QUOTE_IN_QUOTED_FIELD f fs) = Inr (pstate START_FIELD [] (fs @ [f]))"
      "process_char comma (pstate IN_FIELD f fs) = Inr (pstate START_FIELD [] (fs @ [f]))"
      "f = [] \<Longrightarrow> process_char comma (pstate st [] fs) = Inr (pstate START_FIELD [] (fs @ [f]))"
      "process_char carriage (pstate QUOTE_IN_QUOTED_FIELD f fs) = Inr (pstate EAT_CRNL [] (fs @ [f]))"
      "process_char carriage (pstate IN_FIELD f fs) = Inr (pstate EAT_CRNL [] (fs @ [f]))"
      "f = [] \<Longrightarrow> st = START_FIELD \<Longrightarrow> process_char carriage (pstate st [] fs) = Inr (pstate EAT_CRNL [] (fs @ [f]))"
    using st by (auto simp: process_char_def save_field_def is_newline_def start_field_def)
  show "csv_stream (pstate st [] fs) (write_cell f @ comma # s) = csv_stream (pstate START_FIELD [] (fs @ [f])) s" if "s \<noteq> []"
    using read[of comma s] stream_step[OF ends(1) _ that] stream_step[OF ends(2) _ that] stream_step[OF ends(3) _ that] by auto
  have crlf: "csv_stream (pstate EAT_CRNL [] (fs @ [f])) (newline # s) = add_row (fs @ [f]) (csv_stream csv_start s)"
    by (simp add: stream_newline process_char_def is_newline_def process_eol_def)
  show "csv_stream (pstate st [] fs) (write_cell f @ carriage # newline # s) = add_row (fs @ [f]) (csv_stream csv_start s)"
    if "st = START_FIELD \<or> f \<noteq> []"
    using read[of carriage "newline # s"] stream_step[OF ends(4), of "newline # s"] stream_step[OF ends(5), of "newline # s"]
      stream_step[OF ends(6), of "newline # s"] that crlf by auto
qed

lemma stream_cells:
  assumes "\<forall>f \<in> set cells. int (length f) \<le> FIELD_LIMIT" "cells \<noteq> []" "st = START_FIELD \<or> st = START_RECORD \<and> cells \<noteq> [[]]"
  shows "csv_stream (pstate st [] fs) (join_cells cells @ carriage # newline # s) = add_row (fs @ cells) (csv_stream csv_start s)"
  using assms
proof (induction cells arbitrary: st fs rule: join_cells.induct)
  case (2 f)
  then show ?case using stream_cell(2)[where f = f and st = st and fs = fs and s = s] by auto
next
  case (3 f g cells)
  have "csv_stream (pstate st [] fs) (join_cells (f # g # cells) @ carriage # newline # s)
      = csv_stream (pstate START_FIELD [] (fs @ [f])) (join_cells (g # cells) @ carriage # newline # s)"
    using 3(2,4) stream_cell(1)[where f = f and st = st and fs = fs and s = "join_cells (g # cells) @ carriage # newline # s"] by auto
  then show ?case using 3(1)[of START_FIELD "fs @ [f]"] 3(2) by simp
qed simp

lemma stream_row:
  assumes "\<forall>f \<in> set cells. int (length f) \<le> FIELD_LIMIT"
  shows "csv_stream csv_start (writerow cells @ s) = add_row cells (csv_stream csv_start s)"
proof (cases "cells = [] \<or> cells = [[]]")
  case True
  then show ?thesis
    by (auto simp: writerow_def stream_step stream_newline process_char_def start_field_def is_newline_def process_eol_def
        save_field_def csv_start_def)
next
  case False
  then show ?thesis
    using stream_cells[of cells START_RECORD "[]" s] assms by (simp add: writerow_def csv_start_def)
qed

lemma csv_round_trip:
  assumes "\<forall>r \<in> set rows. \<forall>f \<in> set r. int (length f) \<le> FIELD_LIMIT"
  shows "csv_reader (concat (map writerow rows)) = Inr rows"
proof -
  have "csv_stream csv_start (concat (map writerow rows)) = Inr rows"
    using assms
  proof (induction rows)
    case Nil
    then show ?case by (simp add: csv_start_def)
  next
    case (Cons r rows)
    then show ?case using stream_row[of r "concat (map writerow rows)"] by simp
  qed
  then show ?thesis by (simp add: csv_reader_def csv_stream_lines)
qed

end
