(* ===== verification/Inventory_Service.thy ===== *)
theory Inventory_Service
  imports Restock_Tools Csv_Text Aux_Domains
begin

text \<open>
  InventoryService (app/services/inventory_service.py): rows for the skus of the
  menu, the absolute quantity set by an administrator, the listing, the daily
  totals of the movement ledger and its export as CSV.

  Days are days since 1970-01-01 in the time zone of the database session, which
  is UTC here; \<open>created_at\<close> has a resolution of seconds.
\<close>

section \<open>Rows for the menu\<close>

record InventorySyncResult =
  isr_created :: int
  isr_skipped_no_sku :: int

text \<open>INSERT ... ON CONFLICT (sku) DO NOTHING, and whether a row was inserted.\<close>

definition insert_inventory :: "string \<Rightarrow> string \<Rightarrow> (world, bool) io" where
  "insert_inventory sku name =
     bind_io (check_varchar 128 sku) (\<lambda>_.
     bind_io (check_varchar 255 name) (\<lambda>_.
     bind_io (select_db (\<lambda>d. first_where (\<lambda>r. inv_sku r = sku) (inventory d))) (\<lambda>there. case there of
         Some _ \<Rightarrow> ret False
       | None \<Rightarrow> bind_io (update_db (\<lambda>d. d\<lparr>inventory := inventory d @
             [\<lparr>inv_sku = sku, inv_name = name, inv_quantity = 0, inv_state = ''OUT_OF_STOCK''\<rparr>]\<rparr>)) (\<lambda>_. ret True))))"

definition sync_product :: "product_row \<Rightarrow> int \<Rightarrow> (world, int) io" where
  "sync_product r created = (case p_sku r of
       None \<Rightarrow> ret created
     | Some sku \<Rightarrow> bind_io (insert_inventory sku (p_name r)) (\<lambda>new. ret (if new then created + 1 else created)))"

definition sync_from_menu :: "(world, InventorySyncResult) io" where
  "sync_from_menu = with_session (
     bind_io (select_db (\<lambda>d. rows_where p_is_active (products d))) (\<lambda>rows.
     bind_io (fold_io sync_product rows 0) (\<lambda>created.
     bind_io commit (\<lambda>_.
       ret \<lparr>isr_created = created,
            isr_skipped_no_sku = int (length (rows_where (\<lambda>r. p_sku r = None) rows))\<rparr>))))"

section \<open>Quantities\<close>

record InventoryItemRead =
  iir_sku :: string
  iir_name :: string
  iir_quantity :: int
  iir_state :: InventoryState

definition read_inventory :: "inventory_row \<Rightarrow> (world, InventoryItemRead) io" where
  "read_inventory r = bind_io (lift_result (InventoryState_of (inv_state r))) (\<lambda>s.
     ret \<lparr>iir_sku = inv_sku r, iir_name = inv_name r, iir_quantity = inv_quantity r, iir_state = s\<rparr>)"

definition set_quantity :: "string \<Rightarrow> int \<Rightarrow> (world, InventoryItemRead) io" where
  "set_quantity sku quantity = with_session (
     bind_io (set_inventory_quantity sku quantity) (\<lambda>_.
     bind_io (set_inventory_state sku) (\<lambda>_.
     bind_io commit (\<lambda>_.
     bind_io (select_db (\<lambda>d. first_where (\<lambda>r. inv_sku r = sku) (inventory d))) (\<lambda>row. case row of
         None \<Rightarrow> raise (RuntimeError (''sku vanished between write and read-back: '' @ sku))
       | Some r \<Rightarrow> read_inventory r)))))"

definition list_inventory :: "platform \<Rightarrow> (world, InventoryItemRead list) io" where
  "list_inventory pf = with_session (
     bind_io (select_db (\<lambda>d. order_by (\<lambda>a b. db_le pf (inv_sku a) (inv_sku b)) (inventory d))) (\<lambda>rows.
       fold_io (\<lambda>r acc. bind_io (read_inventory r) (\<lambda>x. ret (acc @ [x]))) rows []))"

section \<open>Calendar\<close>

text \<open>Year, month and day of a number of days since 1970-01-01.\<close>

definition civil :: "int \<Rightarrow> int \<times> int \<times> int" where
  "civil days =
     (let z = days + 719468; era = z div 146097; doe = z - era * 146097;
          yoe = (doe - doe div 1460 + doe div 36524 - doe div 146096) div 365;
          doy = doe - (365 * yoe + yoe div 4 - yoe div 100);
          mp = (5 * doy + 2) div 153;
          m = (if mp < 10 then mp + 3 else mp - 9)
      in ((if m \<le> 2 then yoe + era * 400 + 1 else yoe + era * 400), m, doy - (153 * mp + 2) div 5 + 1))"

definition padded :: "nat \<Rightarrow> int \<Rightarrow> string" where
  "padded n k = (let s = int_str k in replicate (n - length s) (CHR ''0'') @ s)"

definition iso_date :: "int \<Rightarrow> string" where
  "iso_date days = (case civil days of (y, m, d) \<Rightarrow> padded 4 y @ ''-'' @ padded 2 m @ ''-'' @ padded 2 d)"

definition iso_time :: "int \<Rightarrow> string" where
  "iso_time s = padded 2 (s div 3600) @ '':'' @ padded 2 (s div 60 mod 60) @ '':'' @ padded 2 (s mod 60)"

definition day_of :: "int \<Rightarrow> int" where
  "day_of t = t div 86400"

definition iso_datetime :: "int \<Rightarrow> string" where
  "iso_datetime t = iso_date (day_of t) @ ''T'' @ iso_time (t mod 86400) @ ''+00:00''"

section \<open>Totals per day\<close>

record MovementsSummary =
  ms_labels :: "string list"
  ms_restocked :: "int list"
  ms_sold :: "int list"

definition in_period :: "int option \<Rightarrow> int option \<Rightarrow> movement_row \<Rightarrow> bool" where
  "in_period from_date to_date m \<longleftrightarrow>
     pred_option (\<lambda>a. 86400 * a \<le> mv_created_at m) from_date \<and> pred_option (\<lambda>b. mv_created_at m < 86400 * (b + 1)) to_date"

definition movements_in :: "int option \<Rightarrow> int option \<Rightarrow> database \<Rightarrow> movement_row list" where
  "movements_in from_date to_date d = rows_where (in_period from_date to_date) (inventory_movements d)"

definition movement_days :: "movement_row list \<Rightarrow> int list" where
  "movement_days ms = sort (remdups (map (day_of \<circ> mv_created_at) ms))"

definition day_sum :: "(int \<Rightarrow> int) \<Rightarrow> movement_row list \<Rightarrow> int \<Rightarrow> int" where
  "day_sum f ms k = sum_list (map (f \<circ> mv_delta) (rows_where (\<lambda>m. day_of (mv_created_at m) = k) ms))"

definition movements_summary :: "int option \<Rightarrow> int option \<Rightarrow> (world, MovementsSummary) io" where
  "movements_summary from_date to_date = with_session (
     bind_io (select_db (movements_in from_date to_date)) (\<lambda>ms.
       let ds = movement_days ms in
       ret \<lparr>ms_labels = map iso_date ds,
            ms_restocked = map (day_sum (\<lambda>x. if 0 < x then x else 0) ms) ds,
            ms_sold = map (day_sum (\<lambda>x. if x < 0 then - x else 0) ms) ds\<rparr>))"

section \<open>Export\<close>

definition formula_prefix :: "string \<Rightarrow> bool" where
  "formula_prefix s \<longleftrightarrow> (case s of [] \<Rightarrow> False | c # _ \<Rightarrow> c \<in> set (''=+-@'' @ [CHR 0x09, CHR 0x0D]))"

definition csv_safe :: "string \<Rightarrow> string" where
  "csv_safe s = (if formula_prefix s then CHR 0x27 # s else s)"

text \<open>The item of an order that a product id stands for: \<open>str(i.get(...))\<close> is compared.\<close>

fun matching_item :: "platform \<Rightarrow> string \<Rightarrow> json list \<Rightarrow> (string \<times> json) list option result" where
  "matching_item pf pid [] = Inr None"
| "matching_item pf pid (JObj kvs # items) =
     (if py_str (repr_of pf) (json_get ''product_id'' kvs) = pid then Inr (Some kvs) else matching_item pf pid items)"
| "matching_item pf pid (_ # items) = Inl (AttributeError ''get'')"

definition product_of_sku :: "database \<Rightarrow> string \<Rightarrow> uuid option" where
  "product_of_sku d sku = map_option p_id (first_where (\<lambda>r. p_sku r = Some sku) (rev (products d)))"

text \<open>The items of the order behind a movement; its source must be the text of the order's id.\<close>

definition items_of_source :: "database \<Rightarrow> string \<Rightarrow> json list" where
  "items_of_source d src =
     (if parse_uuid src = Inr src
      then (case first_where (\<lambda>r. o_id r = src) (orders d) of Some r \<Rightarrow> o_items r | None \<Rightarrow> [])
      else [])"

definition sale_price :: "platform \<Rightarrow> database \<Rightarrow> movement_row \<Rightarrow> int option result" where
  "sale_price pf d m = (case mv_source_id m of
       None \<Rightarrow> Inr None
     | Some src \<Rightarrow>
         if mv_reason m \<noteq> ''SALE'' \<or> src = [] then Inr None
         else (case product_of_sku d (mv_sku m) of
             None \<Rightarrow> Inr None
           | Some pid \<Rightarrow> (case matching_item pf pid (items_of_source d src) of
                 Inl e \<Rightarrow> Inl e
               | Inr None \<Rightarrow> Inr None
               | Inr (Some kvs) \<Rightarrow> (case map_of kvs ''price_rub'' of
                     None \<Rightarrow> Inl (KeyError ''price_rub'')
                   | Some v \<Rightarrow> (case py_int v of Inl e \<Rightarrow> Inl e | Inr n \<Rightarrow> Inr (Some n))))))"

definition opt_text :: "string option \<Rightarrow> string" where
  "opt_text t = (case t of None \<Rightarrow> [] | Some s \<Rightarrow> s)"

definition export_row :: "movement_row \<Rightarrow> int option \<Rightarrow> string list" where
  "export_row m price =
     [csv_safe (mv_sku m), int_str (mv_delta m), mv_reason m, csv_safe (opt_text (mv_source_type m)),
      csv_safe (opt_text (mv_source_id m)), (if mv_below_zero m then ''True'' else ''False''),
      iso_datetime (mv_created_at m), (case price of None \<Rightarrow> [] | Some p \<Rightarrow> int_str p),
      (case price of None \<Rightarrow> [] | Some p \<Rightarrow> int_str (p * \<bar>mv_delta m\<bar>))]"

definition EXPORT_HEADER :: "string list" where
  "EXPORT_HEADER = [''sku'', ''delta'', ''reason'', ''source_type'', ''source_id'', ''below_zero'', ''created_at'',
     ''price_rub'', ''sale_amount'']"

text \<open>The movements with their prices; the first that cannot be priced aborts the export.\<close>

fun priced :: "platform \<Rightarrow> database \<Rightarrow> movement_row list \<Rightarrow> (movement_row \<times> int option) list result" where
  "priced pf d [] = Inr []"
| "priced pf d (m # ms) = (case sale_price pf d m of
       Inl e \<Rightarrow> Inl e
     | Inr p \<Rightarrow> (case priced pf d ms of Inl e \<Rightarrow> Inl e | Inr qs \<Rightarrow> Inr ((m, p) # qs)))"

definition sale_amounts :: "(movement_row \<times> int option) list \<Rightarrow> (string \<times> int) list" where
  "sale_amounts ps = concat (map (\<lambda>(m, p). case p of
       None \<Rightarrow> [] | Some n \<Rightarrow> [(iso_date (day_of (mv_created_at m)), n * \<bar>mv_delta m\<bar>)]) ps)"

definition amount_on :: "string \<Rightarrow> (string \<times> int) list \<Rightarrow> int" where
  "amount_on k sales = sum_list (map snd (filter (\<lambda>s. fst s = k) sales))"

definition export_rows :: "(movement_row \<times> int option) list \<Rightarrow> string list list" where
  "export_rows ps =
     (let sales = sale_amounts ps in
      EXPORT_HEADER # map (\<lambda>(m, p). export_row m p) ps
      @ [[], [''Daily sales totals''], [''date'', ''sale_amount'']]
      @ map (\<lambda>k. [k, int_str (amount_on k sales)]) (order_by text_le (remdups (map fst sales)))
      @ [[], [''Grand total'', int_str (sum_list (map snd sales))]])"

definition export_movements_csv :: "platform \<Rightarrow> int option \<Rightarrow> int option \<Rightarrow> (world, string) io" where
  "export_movements_csv pf from_date to_date = with_session (
     bind_io (select_db (\<lambda>d. priced pf d (sort_key mv_created_at (movements_in from_date to_date d)))) (\<lambda>r.
     bind_io (lift_result r) (\<lambda>ps. ret (concat (map writerow (export_rows ps))))))"

end
