(* ===== verification/Inventory_Properties.thy ===== *)
theory Inventory_Properties
  imports Inventory_Service Order_Properties
begin

text \<open>
  The properties of the stock: the ledger explains every quantity under all
  operations that touch it, the daily totals agree with the ledger, and the
  exported file is what its rows say and holds no formula.
\<close>

section \<open>One step of the ledger\<close>

definition stock_of :: "database \<Rightarrow> string \<Rightarrow> int" where
  "stock_of d s = (case quantity_in d s of None \<Rightarrow> 0 | Some q \<Rightarrow> q)"

definition ledger_step :: "database \<Rightarrow> database \<Rightarrow> bool" where
  "ledger_step d d' \<longleftrightarrow> key_unique inv_sku (inventory d') \<and> stock_base d' = stock_base d
     \<and> (\<exists>ms. inventory_movements d' = inventory_movements d @ ms)"

lemma ledger_step_refl: "key_unique inv_sku (inventory d) \<Longrightarrow> ledger_step d d"
  by (simp add: ledger_step_def)

lemma ledger_step_trans: "ledger_step d d' \<Longrightarrow> ledger_step d' d'' \<Longrightarrow> ledger_step d d''"
  by (auto simp: ledger_step_def)

lemma stock_base_cong:
  "quantity_in d' = quantity_in d \<Longrightarrow> inventory_movements d' = inventory_movements d \<Longrightarrow> stock_base d' = stock_base d"
  by (simp add: stock_base_def[abs_def] ledger_sum_def)

lemma booked_step:
  assumes "key_unique inv_sku (inventory d)" "quantity_in d s = Some n" "mv_sku m = s" "mv_delta m = q - n"
  shows "ledger_step d (booked s q m d)"
  using assms stock_base_booked[OF assms(2-4)] by (simp add: ledger_step_def booked_def)

section \<open>The operations\<close>

lemma quantityE [io_elims]:
  "quantity_for_update s w = (Inr v, w') \<Longrightarrow> (v = quantity_in (db w) s \<Longrightarrow> w' = w \<Longrightarrow> P) \<Longrightarrow> P"
  unfolding quantity_for_update_def select_db_apply by blast

lemma modifyE [io_elims]: "modify_io f w = (Inr u, w') \<Longrightarrow> (w' = f w \<Longrightarrow> P) \<Longrightarrow> P"
  unfolding modify_io_apply by blast

lemma bookE [io_elims]:
  "write_quantity s q w = (Inr u, w') \<Longrightarrow>
     (w' = w\<lparr>db := (db w)\<lparr>inventory := update_where (\<lambda>r. inv_sku r = s) (\<lambda>r. r\<lparr>inv_quantity := q\<rparr>) (inventory (db w))\<rparr>\<rparr>
        \<Longrightarrow> P) \<Longrightarrow> P"
  "record_movement s x rsn ty i below w = (Inr u, w') \<Longrightarrow>
     (w' = w\<lparr>db := (db w)\<lparr>inventory_movements := inventory_movements (db w) @ [\<lparr>mv_sku = s, mv_delta = x, mv_reason = rsn,
        mv_source_type = ty, mv_source_id = i, mv_below_zero = below, mv_created_at = now w\<rparr>]\<rparr>\<rparr> \<Longrightarrow> P) \<Longrightarrow> P"
  unfolding write_quantity_def record_movement_def by (elim io_elims; blast)+

lemma booked_rows:
  assumes "key_unique inv_sku (inventory d)" "quantity_in d s = Some n" "x = q - n"
  shows "ledger_step d (d\<lparr>inventory := update_where (\<lambda>r. inv_sku r = s) (\<lambda>r. r\<lparr>inv_quantity := q\<rparr>) (inventory d),
     inventory_movements := inventory_movements d @ [\<lparr>mv_sku = s, mv_delta = x, mv_reason = rsn, mv_source_type = ty,
       mv_source_id = i, mv_below_zero = below, mv_created_at = t\<rparr>]\<rparr>)"
  using booked_step[OF assms(1,2), of "\<lparr>mv_sku = s, mv_delta = x, mv_reason = rsn, mv_source_type = ty,
       mv_source_id = i, mv_below_zero = below, mv_created_at = t\<rparr>" q] assms(3) by (simp add: booked_def)

lemma same_quantities:
  assumes "key_unique inv_sku (inventory d)" "\<And>r. inv_sku (f r) = inv_sku r"
    and "quantity_in (d\<lparr>inventory := update_where p f (inventory d)\<rparr>) = quantity_in d"
  shows "ledger_step d (d\<lparr>inventory := update_where p f (inventory d)\<rparr>)"
  using assms stock_base_cong[of "d\<lparr>inventory := update_where p f (inventory d)\<rparr>" d]
  by (simp add: ledger_step_def)

lemma increment_step:
  assumes "key_unique inv_sku (inventory (db w))" "increment_inventory s q rsn ty i w = (Inr u, w')"
  shows "ledger_step (db w) (db w')"
  using assms(2) unfolding increment_inventory_def
  by (elim io_elims; simp; intro booked_rows[OF assms(1)]; simp)

lemma set_step:
  assumes keys: "key_unique inv_sku (inventory (db w))" and run: "set_inventory_quantity s q w = (Inr u, w')"
  shows "ledger_step (db w) (db w')"
proof (cases "quantity_in (db w) s = Some q")
  case True
  have "ledger_step (db w) ((db w)\<lparr>inventory :=
        update_where (\<lambda>r. inv_sku r = s) (\<lambda>r. r\<lparr>inv_quantity := q\<rparr>) (inventory (db w))\<rparr>)"
    using True by (intro same_quantities[OF keys]) (auto simp: quantity_in_update)
  then show ?thesis
    using run True unfolding set_inventory_quantity_def by (elim io_elims) auto
next
  case False
  show ?thesis
    using run False unfolding set_inventory_quantity_def
    by (elim io_elims; simp; intro booked_rows[OF keys]; simp)
qed

lemma state_step:
  assumes "key_unique inv_sku (inventory (db w))" "set_inventory_state s w = (Inr u, w')"
  shows "ledger_step (db w) (db w')"
  using assms(2) unfolding set_inventory_state_def write_inventory_state_def
  by (elim io_elims; simp; intro same_quantities[OF assms(1)];
      auto simp: quantity_in_def first_where_update_key option.map_comp comp_def)

lemma insert_step:
  assumes "key_unique inv_sku (inventory (db w))" "insert_inventory s n w = (Inr u, w')"
  shows "ledger_step (db w) (db w')"
proof -
  have "ledger_step (db w) ((db w)\<lparr>inventory := inventory (db w) @ [r]\<rparr>)"
    if "inv_sku r = s" "inv_quantity r = 0" "first_where (\<lambda>r. inv_sku r = s) (inventory (db w)) = None" for r
  proof -
    have "stock_base ((db w)\<lparr>inventory := inventory (db w) @ [r]\<rparr>) t = stock_base (db w) t" for t
      using that by (auto simp: stock_base_def quantity_in_def ledger_sum_def first_where_append split: option.splits)
    then show ?thesis
      using assms(1) that(1,3) by (auto simp: ledger_step_def key_unique_append first_where_None)
  qed
  then show ?thesis
    using assms ledger_step_refl unfolding insert_inventory_def
    by (elim io_elims) (auto simp: update_db_def)
qed

lemma fold_step:
  assumes "\<And>x s w s' w'. key_unique inv_sku (inventory (db w)) \<Longrightarrow> f x s w = (Inr s', w') \<Longrightarrow> ledger_step (db w) (db w')"
  shows "key_unique inv_sku (inventory (db w)) \<Longrightarrow> fold_io f xs s w = (Inr s', w') \<Longrightarrow> ledger_step (db w) (db w')"
proof (induction xs arbitrary: s w)
  case Nil
  then show ?case by (simp add: ledger_step_refl)
next
  case (Cons x xs)
  obtain s1 w1 where one: "f x s w = (Inr s1, w1)" and rest: "fold_io f xs s1 w1 = (Inr s', w')"
    using Cons.prems(2) by (auto simp: bind_io_Inr_iff)
  have step: "ledger_step (db w) (db w1)" by (rule assms[OF Cons.prems(1) one])
  then have "key_unique inv_sku (inventory (db w1))" by (simp add: ledger_step_def)
  then show ?case using Cons.IH[OF _ rest] ledger_step_trans[OF step] by blast
qed

lemma sync_step:
  assumes "key_unique inv_sku (inventory (committed w))" "sync_from_menu w = (r, w')"
  shows "ledger_step (committed w) (committed w')"
proof -
  have product: "ledger_step (db w) (db w')"
    if "key_unique inv_sku (inventory (db w))" "sync_product q n w = (Inr k, w')" for q n k w w'
    using that(2) insert_step[OF that(1)] ledger_step_refl[OF that(1)] unfolding sync_product_def
    by (elim io_elims) auto
  let ?w = "w\<lparr>db := committed w\<rparr>" and ?ps = "rows_where p_is_active (products (committed w))"
  have keep: "no_commit (insert_inventory s n)" for s n
    unfolding insert_inventory_def by (intro no_commit_intros)
  then have "no_commit (sync_product q n)" for q n
    unfolding sync_product_def by (intro no_commit_intros keep)
  then have nc: "no_commit (fold_io sync_product ?ps 0)" by (rule no_commit_fold)
  obtain x w1 where fold: "fold_io sync_product ?ps 0 ?w = (x, w1)" by fastforce
  then have c: "committed w1 = committed w" using no_commitD[OF nc fold] by simp
  show ?thesis
  proof (cases x)
    case (Inl e)
    then have "committed w' = committed w"
      using assms(2) fold c by (auto simp: sync_from_menu_def with_session_apply bind_io_apply)
    then show ?thesis using assms(1) by (simp add: ledger_step_refl)
  next
    case (Inr n)
    have "ledger_step (db ?w) (db w1)"
      using fold_step[of sync_product ?w ?ps 0 n w1] product fold Inr assms(1) by simp
    moreover have "committed w' = db w1"
      using assms(2) fold Inr by (auto simp: sync_from_menu_def with_session_apply bind_io_apply)
    ultimately show ?thesis by simp
  qed
qed

lemma set_quantity_step:
  assumes "key_unique inv_sku (inventory (committed w))" "set_quantity s q w = (r, w')"
  shows "ledger_step (committed w) (committed w')"
proof -
  let ?w = "w\<lparr>db := committed w\<rparr>"
  have nc: "no_commit (set_inventory_quantity s q)" "no_commit (set_inventory_state s)"
    unfolding set_inventory_quantity_def set_inventory_state_def by (intro no_commit_intros no_commit_inventory)+
  obtain x w1 where one: "set_inventory_quantity s q ?w = (x, w1)" by fastforce
  have c1: "committed w1 = committed w" using no_commitD[OF nc(1) one] by simp
  have same: ?thesis if "committed w' = committed w"
    using that assms(1) by (simp add: ledger_step_refl)
  show ?thesis
  proof (cases x)
    case (Inl e)
    then show ?thesis
      using assms(2) one c1 by (intro same) (auto simp: set_quantity_def with_session_apply bind_io_apply)
  next
    case (Inr u)
    have s1: "ledger_step (committed w) (db w1)" using set_step[of ?w s q u w1] one Inr assms(1) by simp
    obtain y w2 where two: "set_inventory_state s w1 = (y, w2)" by fastforce
    have c2: "committed w2 = committed w" using no_commitD[OF nc(2) two] c1 by simp
    show ?thesis
    proof (cases y)
      case (Inl e)
      then show ?thesis
        using assms(2) one two Inr c2 by (intro same) (auto simp: set_quantity_def with_session_apply bind_io_apply)
    next
      case st: (Inr v)
      have "key_unique inv_sku (inventory (db w1))" using s1 by (simp add: ledger_step_def)
      then have "ledger_step (committed w) (db w2)"
        using state_step[of w1 s v w2] two st ledger_step_trans[OF s1] by simp
      moreover have "committed w' = db w2"
        using assms(2) one two Inr st
        by (auto simp: set_quantity_def with_session_apply bind_io_apply read_inventory_def split: option.splits sum.splits)
      ultimately show ?thesis by simp
    qed
  qed
qed

lemma restock_step:
  assumes vm: "vm_ok pf" and keys: "key_unique inv_sku (inventory (committed w))" and run: "apply_restock pf c w = (r, w')"
  shows "ledger_step (committed w) (committed w')"
proof (rule restock_apply.apply_relation[where R = ledger_step, OF vm
      run[unfolded apply_restock_def PROGRAM_APPLY_RESTOCK_def] ledger_step_refl[OF keys]])
  fix w1 out w2
  assume w1: "db w1 = committed w" and go: "apply_restock_command pf [(''command'', c)] w1 = (Inr out, w2)"
  obtain s q u where "increment_inventory s q (Some ''RESTOCK_AGENT'') (Some ''agent'') None w1 = (Inr u, w2)"
    using go unfolding apply_restock_command_def command_arg_def by (elim io_elims) (auto intro: that)
  then show "ledger_step (committed w) (db w2)" using increment_step[of w1] keys w1 by simp
qed

lemma order_step:
  assumes vm: "vm_ok pf" and keys: "key_unique inv_sku (inventory (committed w))"
    and run: "transition_order pf oid ev w = (r, w')"
  shows "ledger_step (committed w) (committed w')"
proof -
  have same: ?thesis if "inventory (committed w') = inventory (committed w)"
      "inventory_movements (committed w') = inventory_movements (committed w)"
    using that keys by (simp add: ledger_step_def stock_base_def[abs_def] quantity_in_def ledger_sum_def)
  show ?thesis
    using run
  proof (rule transition_order_cases[OF vm])
    fix s s'
    assume st: "order_state_in (committed w) oid = Some (OrderState_value s)"
      and edge: "map_of (ORDER_TRANSITIONS s) ev = Some s'"
    show ?thesis
    proof (cases "ev = OrderEvent.START_COOKING")
      case False
      then show ?thesis
        using transition_order_simple[OF vm st edge False run]
        by (intro same) (auto simp: stamped_frame(3,4) set_order_state_def)
    next
      case True
      obtain c w1 where c: "cooking_steps pf oid (w\<lparr>db := committed w\<rparr>) = (c, w1)" by fastforce
      note out = transition_order_cooking[OF vm st edge[unfolded True] run[unfolded True], unfolded c, simplified]
      show ?thesis
      proof (cases c)
        case (Inl e)
        then show ?thesis using out by (intro same) auto
      next
        case (Inr tid)
        have cooked: "cooked pf oid (committed w) tid (now w) (db w1)"
          using cooking_steps_effect[of pf oid "w\<lparr>db := committed w\<rparr>" tid w1] c Inr by auto
        then have "stock_base (db w1) = stock_base (committed w)"
            "\<exists>ms. inventory_movements (db w1) = inventory_movements (committed w) @ ms"
          using keys by (auto simp: cooked_def)
        moreover have "key_unique inv_sku (inventory (db w1))"
          using cooked keys by (simp add: cooked_def key_unique_def)
        ultimately show ?thesis
          using out Inr by (auto simp: ledger_step_def stamped_frame(3,4) stock_base_def[abs_def] quantity_in_def ledger_sum_def)
      qed
    qed
  qed (use same in simp_all)
qed

section \<open>Sums by group\<close>

lemma sum_indicator:
  fixes c :: int
  shows "distinct ks \<Longrightarrow> sum_list (map (\<lambda>k. if a = k then c else 0) ks) = (if a \<in> set ks then c else 0)"
  by (induction ks) auto

lemma sum_by_group:
  fixes v :: "'x \<Rightarrow> int"
  assumes "distinct ks" "g ` set xs \<subseteq> set ks"
  shows "sum_list (map (\<lambda>k. sum_list (map v (filter (\<lambda>x. g x = k) xs))) ks) = sum_list (map v xs)"
  using assms(2)
proof (induction xs)
  case (Cons x xs)
  have "sum_list (map (\<lambda>k. sum_list (map v (filter (\<lambda>x. g x = k) (x # xs)))) ks)
      = sum_list (map (\<lambda>k. (if g x = k then v x else 0) + sum_list (map v (filter (\<lambda>x. g x = k) xs))) ks)"
    by (rule arg_cong[where f = sum_list], rule map_cong) auto
  also have "\<dots> = v x + sum_list (map v xs)"
    using Cons sum_indicator[OF assms(1), of "g x" "v x"] by (simp add: sum_list_addf)
  finally show ?case by simp
qed simp

section \<open>Properties\<close>

text \<open>Everything that touches the stock: the agent, the administrator and the orders.\<close>

datatype stock_request = Restock json | SetQuantity string int | SyncFromMenu | OrderMoves uuid OrderEvent

fun serve_stock :: "platform \<Rightarrow> stock_request \<Rightarrow> world \<Rightarrow> world" where
  "serve_stock pf (Restock c) w = snd (apply_restock pf c w)"
| "serve_stock pf (SetQuantity s q) w = snd (set_quantity s q w)"
| "serve_stock pf SyncFromMenu w = snd (sync_from_menu w)"
| "serve_stock pf (OrderMoves oid ev) w = snd (transition_order pf oid ev w)"

primrec serve_stock_all :: "platform \<Rightarrow> stock_request list \<Rightarrow> world \<Rightarrow> world" where
  "serve_stock_all pf [] w = w"
| "serve_stock_all pf (q # qs) w = serve_stock_all pf qs (serve_stock pf q w)"

lemma serve_stock_step:
  assumes "vm_ok pf" "key_unique inv_sku (inventory (committed w))"
  shows "ledger_step (committed w) (committed (serve_stock pf q w))"
proof (cases q)
  case (Restock c)
  obtain r w' where "apply_restock pf c w = (r, w')" by fastforce
  then show ?thesis using restock_step[OF assms] Restock by simp
next
  case (SetQuantity s n)
  obtain r w' where "set_quantity s n w = (r, w')" by fastforce
  then show ?thesis using set_quantity_step[OF assms(2)] SetQuantity by simp
next
  case SyncFromMenu
  obtain r w' where "sync_from_menu w = (r, w')" by fastforce
  then show ?thesis using sync_step[OF assms(2)] SyncFromMenu by simp
next
  case (OrderMoves oid ev)
  obtain r w' where "transition_order pf oid ev w = (r, w')" by fastforce
  then show ?thesis using order_step[OF assms] OrderMoves by simp
qed

lemma serve_stock_all_step:
  assumes "vm_ok pf" "key_unique inv_sku (inventory (committed w))"
  shows "ledger_step (committed w) (committed (serve_stock_all pf qs w))"
  using assms(2)
proof (induction qs arbitrary: w)
  case (Cons q qs)
  note step = serve_stock_step[OF assms(1) Cons.prems, of q]
  then have "key_unique inv_sku (inventory (committed (serve_stock pf q w)))" by (simp add: ledger_step_def)
  then show ?case using Cons.IH ledger_step_trans[OF step] by simp
qed (simp add: ledger_step_refl)

text \<open>C20. The ledger explains the stock: after any sequence of restocks, corrections, menu
syncs and order transitions, successful or not, the ledger has only grown, and the
quantity of every sku differs from the one before by exactly the sum of the new
movements of that sku.\<close>

theorem ledger_explains_stock:
  assumes "vm_ok pf" "key_unique inv_sku (inventory (committed w))"
  shows "\<exists>ms. inventory_movements (committed (serve_stock_all pf qs w)) = inventory_movements (committed w) @ ms
    \<and> (\<forall>s. stock_of (committed (serve_stock_all pf qs w)) s =
          stock_of (committed w) s + sum_list (map mv_delta (rows_where (\<lambda>m. mv_sku m = s) ms)))
    \<and> key_unique inv_sku (inventory (committed (serve_stock_all pf qs w)))"
proof -
  let ?d = "committed w" and ?d' = "committed (serve_stock_all pf qs w)"
  have base: "stock_base ?d' = stock_base ?d" and keys: "key_unique inv_sku (inventory ?d')"
    using serve_stock_all_step[OF assms] by (simp_all add: ledger_step_def)
  obtain ms where ms: "inventory_movements ?d' = inventory_movements ?d @ ms"
    using serve_stock_all_step[OF assms] unfolding ledger_step_def by blast
  have "stock_of ?d' s = stock_of ?d s + sum_list (map mv_delta (rows_where (\<lambda>m. mv_sku m = s) ms))" for s
    using fun_cong[OF base, of s] ms by (simp add: stock_base_def stock_of_def ledger_sum_def rows_where_def)
  then show ?thesis using ms keys by blast
qed

definition restock_tea :: json where
  "restock_tea = JObj [(''sku'', JStr '' tea ''), (''quantity'', JInt 10)]"

theorem ledger_explains_stock_witness:
  "\<exists>ms. inventory_movements (committed (serve_stock_all ref_platform
       [Restock restock_tea, OrderMoves ''o-paid'' OrderEvent.START_COOKING, SetQuantity ''tea'' 4] sample_world)) = ms
    \<and> stock_of (committed (serve_stock_all ref_platform
       [Restock restock_tea, OrderMoves ''o-paid'' OrderEvent.START_COOKING, SetQuantity ''tea'' 4] sample_world)) ''tea''
      = 5 + sum_list (map mv_delta (rows_where (\<lambda>m. mv_sku m = ''tea'') ms))"
proof -
  have "key_unique inv_sku (inventory (committed sample_world))" "inventory_movements (committed sample_world) = []"
      "stock_of (committed sample_world) ''tea'' = 5"
    by code_simp+
  then show ?thesis
    using ledger_explains_stock[OF vm_ok_ref, of sample_world
        "[Restock restock_tea, OrderMoves ''o-paid'' OrderEvent.START_COOKING, SetQuantity ''tea'' 4]"] by auto
qed

text \<open>The daily totals of a period add up to the movements of the period.\<close>

lemma movement_days: "distinct (movement_days ms)" "set (movement_days ms) = (day_of \<circ> mv_created_at) ` set ms"
  by (simp_all add: movement_days_def)

lemma day_sums: "sum_list (map (day_sum f ms) (movement_days ms)) = sum_list (map (f \<circ> mv_delta) ms)"
  using sum_by_group[OF movement_days(1), where v = "f \<circ> mv_delta" and g = "day_of \<circ> mv_created_at" and xs = ms and ms1 = ms]
  by (simp add: day_sum_def[abs_def] rows_where_def movement_days(2))

text \<open>C27. The totals shown to the administrator balance: over any period, what was
restocked minus what was sold is the sum of the movements of the period, one
pair of totals per day on which something moved.\<close>

theorem summary_balances:
  "\<exists>s. movements_summary from_date to_date w = (Inr s, w\<lparr>db := committed w\<rparr>)
    \<and> sum_list (ms_restocked s) - sum_list (ms_sold s)
        = sum_list (map mv_delta (movements_in from_date to_date (committed w)))
    \<and> length (ms_restocked s) = length (ms_labels s) \<and> length (ms_sold s) = length (ms_labels s)
    \<and> list_all (\<lambda>n. 0 \<le> n) (ms_restocked s @ ms_sold s)"
proof -
  let ?ms = "movements_in from_date to_date (committed w)"
  have sums: "sum_list (map (day_sum f ?ms) (movement_days ?ms)) = sum_list (map (f \<circ> mv_delta) ?ms)" for f
    by (rule day_sums)
  have "sum_list (map ((\<lambda>x. if 0 < x then x else 0) \<circ> mv_delta) ms) - sum_list (map ((\<lambda>x. if x < 0 then - x else 0) \<circ> mv_delta) ms)
      = sum_list (map mv_delta ms)" for ms
    by (induction ms) auto
  moreover have "0 \<le> day_sum f ms k" if "\<And>x. 0 \<le> f x" for f ms k
    using that by (auto simp: day_sum_def intro!: sum_list_nonneg)
  ultimately show ?thesis
    by (auto simp: movements_summary_def with_session_apply bind_io_apply Let_def sums list_all_iff)
qed

text \<open>C24. The export is what it says and holds no formula: read back as CSV it is
exactly its rows, one per movement of the period in the order of time; the cells
that carry free text never start like a spreadsheet formula; and the daily sales
add up to the grand total.\<close>

theorem export_reads_back_safely:
  assumes "priced pf (committed w) (sort_key mv_created_at (movements_in from_date to_date (committed w))) = Inr ps"
    and "\<forall>r \<in> set (export_rows ps). \<forall>c \<in> set r. int (length c) \<le> FIELD_LIMIT"
  shows "\<exists>txt. fst (export_movements_csv pf from_date to_date w) = Inr txt \<and> csv_reader txt = Inr (export_rows ps)
    \<and> map fst ps = sort_key mv_created_at (movements_in from_date to_date (committed w))
    \<and> (\<forall>i < length ps. \<forall>j \<in> {0, 3, 4}. \<not> formula_prefix (export_rows ps ! Suc i ! j))
    \<and> sum_list (map (\<lambda>k. amount_on k (sale_amounts ps)) (order_by text_le (remdups (map fst (sale_amounts ps)))))
        = sum_list (map snd (sale_amounts ps))"
proof -
  have "map fst ps = ms" if "priced pf d ms = Inr ps" for d ms
    using that by (induction ms arbitrary: ps) (auto split: sum.splits)
  moreover have "\<not> formula_prefix (csv_safe s)" for s
    by (auto simp: csv_safe_def formula_prefix_def split: list.splits)
  moreover have "export_rows ps ! Suc i = export_row (fst (ps ! i)) (snd (ps ! i))" if "i < length ps" for i
    using that by (simp add: export_rows_def Let_def nth_append split_beta)
  moreover have "csv_reader (concat (map writerow (export_rows ps))) = Inr (export_rows ps)"
    by (rule csv_round_trip[OF assms(2)])
  moreover have "fst (export_movements_csv pf from_date to_date w) = Inr (concat (map writerow (export_rows ps)))"
    using assms(1) by (simp add: export_movements_csv_def with_session_apply bind_io_apply)
  moreover have "sum_list (map (\<lambda>k. amount_on k (sale_amounts ps)) (order_by text_le (remdups (map fst (sale_amounts ps)))))
      = sum_list (map snd (sale_amounts ps))"
    using sum_by_group[of "order_by text_le (remdups (map fst (sale_amounts ps)))" fst "sale_amounts ps" snd]
      key_unique_order_by[of "\<lambda>x. x" text_le "remdups (map fst (sale_amounts ps))"]
    by (simp add: amount_on_def[abs_def] key_unique_def)
  ultimately show ?thesis
    using assms(1) by (auto simp: export_row_def)
qed

definition sold_world :: world where
  "sold_world = sample_world\<lparr>committed := sample_db\<lparr>
     orders := [(sample_order ''00000000-0000-0000-0000-0000000000d1'' OrderState.COOKING)],
     inventory_movements := [
       \<lparr>mv_sku = ''tea'', mv_delta = -2, mv_reason = ''SALE'', mv_source_type = Some ''order'',
        mv_source_id = Some ''00000000-0000-0000-0000-0000000000d1'', mv_below_zero = False, mv_created_at = 90000\<rparr>,
       \<lparr>mv_sku = ''=cmd,1'', mv_delta = 3, mv_reason = ''ADJUSTMENT'', mv_source_type = None,
        mv_source_id = None, mv_below_zero = False, mv_created_at = 10\<rparr>]\<rparr>\<rparr>"

theorem export_reads_back_safely_witness:
  "\<exists>txt ps. fst (export_movements_csv ref_platform None (Some 3) sold_world) = Inr txt
    \<and> csv_reader txt = Inr (export_rows ps) \<and> map snd ps = [None, Some 150]"
proof -
  let ?p = "priced ref_platform (committed sold_world)
      (sort_key mv_created_at (movements_in None (Some 3) (committed sold_world)))"
  have "case ?p of Inl _ \<Rightarrow> False | Inr ps \<Rightarrow> map snd ps = [None, Some 150]
      \<and> list_all (list_all (\<lambda>c. length c \<le> 50)) (export_rows ps)"
    by code_simp
  then have p: "?p = Inr (projr ?p)" and v: "map snd (projr ?p) = [None, Some 150]"
    and l: "list_all (list_all (\<lambda>c. length c \<le> 50)) (export_rows (projr ?p))"
    by (cases ?p; simp)+
  have "\<forall>r \<in> set (export_rows (projr ?p)). \<forall>c \<in> set r. int (length c) \<le> FIELD_LIMIT"
    using l by (fastforce simp: list_all_iff FIELD_LIMIT_def)
  from export_reads_back_safely[OF p this] v show ?thesis
    by (elim exE conjE) (intro exI conjI)
qed

end
