(* ===== verification/Menu_Import.thy ===== *)
theory Menu_Import
  imports Menu_Tools Csv_Text Decimal_Text Pricing
begin

text \<open>
  The CSV import of the menu: parsing and validation and the composition root
  (app/services/menu_import_service.py), the governed write
  (app/tools/menu_import_tools.py) and its program
  (app/programs/menu_import_program.py), and the batch that gives products
  their skus. The upload enters as the outcome of decoding its bytes.
\<close>

section \<open>Names\<close>

text \<open>Lower case without any white space.\<close>

definition normalize :: "string \<Rightarrow> string" where
  "normalize s = filter (\<lambda>c. \<not> py_isspace c) (py_lower s)"

definition is_alnum :: "char \<Rightarrow> bool" where
  "is_alnum c \<longleftrightarrow> is_digit c \<or> 65 \<le> code c \<and> code c \<le> 90 \<or> 97 \<le> code c \<and> code c \<le> 122"

definition upper_char :: "char \<Rightarrow> char" where
  "upper_char c = (if 97 \<le> code c \<and> code c \<le> 122 then char_of (code c - 32) else c)"

text \<open>Runs of other characters become one hyphen; \<open>sep\<close> tells that the last character was one.\<close>

fun slug_chars :: "bool \<Rightarrow> string \<Rightarrow> string" where
  "slug_chars sep [] = []"
| "slug_chars sep (c # s) =
     (if is_alnum c then upper_char c # slug_chars False s
      else if sep then slug_chars True s else CHR ''-'' # slug_chars True s)"

definition strip_hyphens :: "string \<Rightarrow> string" where
  "strip_hyphens s = rev (dropWhile (\<lambda>c. c = CHR ''-'') (rev (dropWhile (\<lambda>c. c = CHR ''-'') s)))"

definition slugify_sku :: "string \<Rightarrow> string" where
  "slugify_sku name = strip_hyphens (slug_chars False (filter (\<lambda>c. code c < 128) name))"

section \<open>Prices\<close>

text \<open>float() of a text: underscores only between digits.\<close>

definition underscores_ok :: "string \<Rightarrow> bool" where
  "underscores_ok s \<longleftrightarrow> (\<forall>i < length s. s ! i = CHR ''_'' \<longrightarrow>
     0 < i \<and> Suc i < length s \<and> is_digit (s ! (i - 1)) \<and> is_digit (s ! Suc i))"

text \<open>
  The float nearest to a value. Values up to half the smallest float become 0,
  and those that round to 2 powi 1024 or beyond infinity; in between the result is exact
  except for subnormal values, of which only the sign and the integer part matter here.
\<close>

definition nearest_float :: "rat \<Rightarrow> decimal" where
  "nearest_float x =
     (if x = 0 then Finite 0
      else let k = exp2 \<bar>x\<bar> in
        if k < -1075 then Finite 0
        else if k = -1075 then (if \<bar>x\<bar> = 2 powi -1075 then Finite 0 else Finite (round64 x))
        else if 1024 \<le> exp2 \<bar>round64 x\<bar> then Infinity (x < 0)
        else Finite (round64 x))"

definition parse_float :: "string \<Rightarrow> decimal option" where
  "parse_float s =
     (let t = py_strip s;
          neg = (t \<noteq> [] \<and> hd t = CHR ''-'');
          l = py_lower (if t \<noteq> [] \<and> (hd t = CHR ''-'' \<or> hd t = CHR ''+'') then tl t else t)
      in if \<not> underscores_ok t then None
         else if l = ''inf'' \<or> l = ''infinity'' then Some (Infinity neg)
         else if l = ''nan'' then Some NaN
         else map_option (\<lambda>x. nearest_float (if neg then - x else x)) (parse_number (filter (\<lambda>c. c \<noteq> CHR ''_'') l)))"

text \<open>
  The price cell: blank is no price, None is an invalid one. A float that is not
  finite is not caught: \<open>int(num)\<close> raises.
\<close>

definition import_price :: "string \<Rightarrow> int option option result" where
  "import_price price_raw =
     (if price_raw = [] then Inr (Some None)
      else case parse_float price_raw of
        Some (Finite r) \<Rightarrow> if r < 0 then Inr None else Inr (Some (Some (trunc r)))
      | Some (Infinity neg) \<Rightarrow> if neg then Inr None else Inl OverflowError
      | Some _ \<Rightarrow> Inl (ValueError ''cannot convert float NaN to integer'')
      | None \<Rightarrow> Inr None)"

section \<open>Rows\<close>

record ProductRow =
  ir_name :: string
  ir_category_id :: "uuid option"
  ir_price_rub :: "int option"
  ir_description :: "string option"
  ir_image_url :: "string option"
  ir_is_active :: bool

record SkippedRow =
  sk_row_num :: int
  sk_name_if_present :: "string option"
  sk_reason :: string

definition HEADER_ALIASES :: "(string \<times> string) list" where
  "HEADER_ALIASES =
     [(''name'', ''name''), (''category'', ''category''), (''description'', ''description''),
      (''pricerub'', ''price_rub''), (''price'', ''price_rub''), (''price(rub)'', ''price_rub''),
      (''photourl'', ''image_url''), (''photo'', ''image_url''), (''image'', ''image_url''),
      (''imageurl'', ''image_url''), (''img'', ''image_url''), (''url'', ''image_url'')]"

text \<open>The column of each field; the last column with an alias of the field wins.\<close>

definition col_index :: "string list \<Rightarrow> string \<Rightarrow> nat option" where
  "col_index header = map_of (rev (List.map_filter (\<lambda>(i, cell).
     map_option (\<lambda>field. (field, i)) (map_of HEADER_ALIASES (filter (\<lambda>c. c \<noteq> CHR '' '') (py_lower (py_strip cell)))))
     (enumerate 0 header)))"

definition get_cell :: "(string \<Rightarrow> nat option) \<Rightarrow> string list \<Rightarrow> string \<Rightarrow> string" where
  "get_cell cols row field =
     (case cols field of None \<Rightarrow> [] | Some i \<Rightarrow> if i < length row then row ! i else [])"

definition by_external_id :: "category_row list \<Rightarrow> string \<Rightarrow> uuid option" where
  "by_external_id cs = map_of (rev (List.map_filter (\<lambda>c.
     map_option (\<lambda>x. (py_strip x, cat_id c)) (cat_external_id c)) cs))"

definition by_normalized_name :: "category_row list \<Rightarrow> string \<Rightarrow> uuid option" where
  "by_normalized_name cs = map_of (rev (map (\<lambda>c. (normalize (cat_name c), cat_id c)) cs))"

definition name_count :: "product_row list \<Rightarrow> string \<Rightarrow> nat" where
  "name_count ps k = length (filter (\<lambda>p. normalize (p_name p) = k) ps)"

text \<open>The category a cell stands for; None is an unknown one.\<close>

definition import_category :: "category_row list \<Rightarrow> string \<Rightarrow> uuid option option" where
  "import_category cs category_raw =
     (if category_raw = [] then Some None
      else case (case parse_int category_raw of Inr n \<Rightarrow> by_external_id cs (int_str n) | Inl _ \<Rightarrow> None) of
        Some i \<Rightarrow> Some (Some i)
      | None \<Rightarrow> map_option Some (by_normalized_name cs (normalize category_raw)))"

datatype row_outcome = Accepted ProductRow | Skipped "string option" string

definition blank_to_none :: "string \<Rightarrow> string option" where
  "blank_to_none s = (let t = py_strip s in if t = [] then None else Some t)"

definition judge_row ::
  "category_row list \<Rightarrow> (string \<Rightarrow> nat) \<Rightarrow> string list \<Rightarrow> (string \<Rightarrow> string) \<Rightarrow> row_outcome result" where
  "judge_row cs name_counts seen get =
     (let name = py_strip (get ''name''); norm = normalize name in
      if name = [] then Inr (Skipped None ''missing name'')
      else if 1 < name_counts norm
      then Inr (Skipped (Some name) (''ambiguous name match: '' @ nat_str (name_counts norm) @ '' rows''))
      else if norm \<in> set seen then Inr (Skipped (Some name) ''duplicate name within this file'')
      else case import_category cs (py_strip (get ''category'')) of
        None \<Rightarrow> Inr (Skipped (Some name) (''unknown category: '' @ py_strip (get ''category'')))
      | Some category_id \<Rightarrow> (case import_price (py_strip (get ''price_rub'')) of
            Inl e \<Rightarrow> Inl e
          | Inr None \<Rightarrow> Inr (Skipped (Some name) ''invalid price'')
          | Inr (Some price) \<Rightarrow> Inr (Accepted \<lparr>ir_name = name, ir_category_id = category_id, ir_price_rub = price,
              ir_description = blank_to_none (get ''description''), ir_image_url = blank_to_none (get ''image_url''),
              ir_is_active = (price \<noteq> None)\<rparr>)))"

fun judge_rows ::
  "category_row list \<Rightarrow> (string \<Rightarrow> nat) \<Rightarrow> (string \<Rightarrow> nat option) \<Rightarrow> int \<Rightarrow> string list \<Rightarrow> string list list
     \<Rightarrow> (ProductRow list \<times> SkippedRow list) result" where
  "judge_rows cs counts cols n seen [] = Inr ([], [])"
| "judge_rows cs counts cols n seen (raw # rows) = (case judge_row cs counts seen (get_cell cols raw) of
       Inl e \<Rightarrow> Inl e
     | Inr (Accepted r) \<Rightarrow> (case judge_rows cs counts cols (n + 1) (normalize (ir_name r) # seen) rows of
           Inl e \<Rightarrow> Inl e | Inr (vs, ss) \<Rightarrow> Inr (r # vs, ss))
     | Inr (Skipped nm why) \<Rightarrow> (case judge_rows cs counts cols (n + 1) seen rows of
           Inl e \<Rightarrow> Inl e
         | Inr (vs, ss) \<Rightarrow> Inr (vs, \<lparr>sk_row_num = n, sk_name_if_present = nm, sk_reason = why\<rparr> # ss)))"

definition parse_and_validate_csv ::
  "string result \<Rightarrow> category_row list \<Rightarrow> product_row list \<Rightarrow> (ProductRow list \<times> SkippedRow list) result" where
  "parse_and_validate_csv upload cs existing_products = (case upload of
       Inl e \<Rightarrow> Inl e
     | Inr txt \<Rightarrow> (case csv_reader txt of
           Inl e \<Rightarrow> Inl e
         | Inr [] \<Rightarrow> Inr ([], [])
         | Inr (header # rows) \<Rightarrow> judge_rows cs (name_count existing_products) (col_index header) 2 [] rows))"

section \<open>The governed write\<close>

definition import_category_id :: "json \<Rightarrow> (world, uuid option) io" where
  "import_category_id v =
     (if \<not> py_truthy v then ret None
      else case v of
        JStr s \<Rightarrow> bind_io (lift_result (parse_uuid s)) (\<lambda>u. ret (Some u))
      | _ \<Rightarrow> raise (AttributeError ''replace''))"

definition opt_int_param :: "json \<Rightarrow> (world, int option) io" where
  "opt_int_param v = (case v of
       JNull \<Rightarrow> ret None
     | JInt n \<Rightarrow> bind_io (check_int4 n) (\<lambda>_. ret (Some n))
     | _ \<Rightarrow> raise (DataError ''expected int''))"

definition check_category :: "uuid option \<Rightarrow> (world, unit) io" where
  "check_category c = bind_io (select_db (\<lambda>d. c = None \<or> (\<exists>k \<in> set (categories d). c = Some (cat_id k)))) (\<lambda>ok.
     if ok then ret () else raise (IntegrityError ''products_category_id_fkey''))"

definition set_import_fields ::
  "uuid option \<Rightarrow> int option \<Rightarrow> string option \<Rightarrow> string option \<Rightarrow> bool \<Rightarrow> product_row \<Rightarrow> product_row" where
  "set_import_fields category_id price_rub description image_url is_active r = r\<lparr>p_category_id := category_id,
     p_price_rub := price_rub, p_description := description, p_image_url := image_url, p_is_active := is_active\<rparr>"

definition write_import ::
  "string \<Rightarrow> product_row list \<Rightarrow> (product_row \<Rightarrow> product_row) \<Rightarrow> (world, unit) io" where
  "write_import name matches fields' = bind_io (select_db products) (\<lambda>ps. case matches of
       m # _ \<Rightarrow> write_products (update_where (\<lambda>r. p_id r = p_id m) fields' ps)
     | [] \<Rightarrow>
         bind_io (check_varchar 255 name) (\<lambda>_.
         bind_io new_uuid (\<lambda>i.
           write_products (ps @ [fields' \<lparr>p_id = i, p_name = name, p_category_id = None, p_time_period_override = None,
             p_price_rub = None, p_description = None, p_image_url = None, p_is_active = True, p_sku = None,
             p_sort = 0\<rparr>]))))"

definition import_fields :: "(string \<times> json) list \<Rightarrow> (world, product_row \<Rightarrow> product_row) io" where
  "import_fields kvs =
     bind_io (import_category_id (json_get ''category_id'' kvs)) (\<lambda>category_id.
     bind_io (opt_int_param (json_get ''price_rub'' kvs)) (\<lambda>price_rub.
     bind_io (lift_result (opt_text_param (json_get ''description'' kvs))) (\<lambda>description.
     bind_io (lift_result (opt_text_param (json_get ''image_url'' kvs))) (\<lambda>image_url.
     bind_io (check_category category_id) (\<lambda>_.
       ret (set_import_fields category_id price_rub description image_url (py_truthy (json_get ''is_active'' kvs))))))))"

definition import_row :: "platform \<Rightarrow> json \<Rightarrow> nat \<times> json list \<Rightarrow> (world, nat \<times> json list) io" where
  "import_row pf row = (\<lambda>(imported, write_skipped). case row of
       JObj kvs \<Rightarrow> (case map_of kvs ''name'' of
           None \<Rightarrow> raise (KeyError ''name'')
         | Some nm \<Rightarrow>
             bind_io (lift_result (text_param nm)) (\<lambda>name.
             bind_io (products_named pf name) (\<lambda>matches.
               if 1 < length matches
               then ret (imported, write_skipped @ [JObj [(''name'', nm), (''reason'', JStr ''ambiguous name match'')]])
               else bind_io (import_fields kvs) (\<lambda>fields'.
                    bind_io (write_import name matches fields') (\<lambda>_. ret (Suc imported, write_skipped))))))
     | _ \<Rightarrow> raise (TypeError ''row is not a dict''))"

definition apply_menu_import :: "platform \<Rightarrow> world tool" where
  "apply_menu_import pf kw = (case map_of kw ''rows'' of
       Some (JList rows) \<Rightarrow>
         bind_io (fold_io (import_row pf) rows (0, [])) (\<lambda>(imported, write_skipped).
           ret (JObj [(''imported'', JInt (int imported)), (''rows'', JInt (int (length rows))),
                      (''write_skipped'', JList write_skipped)]))
     | _ \<Rightarrow> raise (TypeError ''rows''))"

section \<open>The composition root\<close>

definition MENU_IMPORT_PROGRAM :: program where
  "MENU_IMPORT_PROGRAM = \<lparr>program_name = ''menu_import'', program_steps =
     [ToolStep ''apply_import'' ''apply_menu_import'' [(''rows'', CtxVar ''valid_rows'')] ''import_result'' None]\<rparr>"

definition MENU_IMPORT_TOOLS :: "platform \<Rightarrow> (string \<times> world tool) list" where
  "MENU_IMPORT_TOOLS pf = [(''apply_menu_import'', apply_menu_import pf)]"

record ImportReport =
  rep_imported :: int
  rep_skipped :: "SkippedRow list"
  rep_trace_hash :: "string option"
  rep_final_status :: "string option"

definition opt_json :: "('a \<Rightarrow> json) \<Rightarrow> 'a option \<Rightarrow> json" where
  "opt_json f v = (case v of None \<Rightarrow> JNull | Some x \<Rightarrow> f x)"

definition dump_product_row :: "ProductRow \<Rightarrow> json" where
  "dump_product_row r = JObj [(''name'', JStr (ir_name r)), (''category_id'', opt_json JStr (ir_category_id r)),
     (''price_rub'', opt_json JInt (ir_price_rub r)), (''description'', opt_json JStr (ir_description r)),
     (''image_url'', opt_json JStr (ir_image_url r)), (''is_active'', JBool (ir_is_active r))]"

definition skipped_at_write :: "json \<Rightarrow> SkippedRow result" where
  "skipped_at_write ws = (case ws of
       JObj kvs \<Rightarrow>
         (case (json_get ''name'' kvs, map_of kvs ''reason'') of
            (JNull, None) \<Rightarrow> Inr \<lparr>sk_row_num = 0, sk_name_if_present = None, sk_reason = ''skipped at write time''\<rparr>
          | (JStr n, None) \<Rightarrow> Inr \<lparr>sk_row_num = 0, sk_name_if_present = Some n, sk_reason = ''skipped at write time''\<rparr>
          | (JNull, Some (JStr why)) \<Rightarrow> Inr \<lparr>sk_row_num = 0, sk_name_if_present = None, sk_reason = why\<rparr>
          | (JStr n, Some (JStr why)) \<Rightarrow> Inr \<lparr>sk_row_num = 0, sk_name_if_present = Some n, sk_reason = why\<rparr>
          | _ \<Rightarrow> Inl (ValueError ''validation error''))
     | _ \<Rightarrow> Inl (AttributeError ''get''))"

fun skips_at_write :: "json list \<Rightarrow> SkippedRow list result" where
  "skips_at_write [] = Inr []"
| "skips_at_write (ws # rest) = (case skipped_at_write ws of
       Inl e \<Rightarrow> Inl e
     | Inr s \<Rightarrow> (case skips_at_write rest of Inl e \<Rightarrow> Inl e | Inr ss \<Rightarrow> Inr (s # ss)))"

definition last_output :: "trace \<Rightarrow> json" where
  "last_output tr = (case trace_steps tr of [] \<Rightarrow> JNull | (_, v) # _ \<Rightarrow> v)"

text \<open>What the last step reports: the count and the rows skipped at write time.\<close>

definition import_counts :: "json \<Rightarrow> (int \<times> SkippedRow list) result" where
  "import_counts last' = (case last' of
       JObj kvs \<Rightarrow> (case py_int (case map_of kvs ''imported'' of None \<Rightarrow> JInt 0 | Some v \<Rightarrow> v) of
           Inl e \<Rightarrow> Inl e
         | Inr n \<Rightarrow> (case json_get ''write_skipped'' kvs of
               JList ws \<Rightarrow> (case skips_at_write ws of Inl e \<Rightarrow> Inl e | Inr ss \<Rightarrow> Inr (n, ss))
             | v \<Rightarrow> if py_truthy v then Inl (TypeError ''write_skipped'') else Inr (n, [])))
     | _ \<Rightarrow> Inr (0, []))"

text \<open>\<open>snapshot_hash\<close> is the hash of a trace that the trace's own library computes.\<close>

definition import_csv :: "platform \<Rightarrow> (trace \<Rightarrow> string) \<Rightarrow> string result \<Rightarrow> (world, ImportReport) io" where
  "import_csv pf snapshot_hash upload = with_session (
     bind_io (select_db categories) (\<lambda>cs.
     bind_io (select_db products) (\<lambda>existing.
     bind_io (lift_result (parse_and_validate_csv upload cs existing)) (\<lambda>(valid_rows, skipped).
       if \<not> validates pf MENU_IMPORT_PROGRAM then raise (RuntimeError ''menu_import'')
       else bind_io (run_program pf (governed pf MENU_IMPORT_TOOL_CAPABILITIES (MENU_IMPORT_TOOLS pf)) MENU_IMPORT_PROGRAM
              [(''valid_rows'', JList (map dump_product_row valid_rows))]) (\<lambda>tr.
         bind_io (if trace_status tr = trace_status.SUCCESS
                  then bind_io (lift_result (import_counts (last_output tr))) (\<lambda>c. bind_io commit (\<lambda>_. ret c))
                  else ret (0, [])) (\<lambda>(imported, write_skipped).
           ret \<lparr>rep_imported = imported, rep_skipped = skipped @ write_skipped,
                rep_trace_hash = Some (snapshot_hash tr),
                rep_final_status = Some (if trace_status tr = trace_status.SUCCESS then ''success'' else ''failed'')\<rparr>))))))"

section \<open>Skus for products without one\<close>

record SkuGenerationResult =
  sgr_generated :: int
  sgr_adopted_legacy :: int
  sgr_assigned :: "(uuid \<times> string \<times> string) list"

text \<open>The first inventory row with a name, case and outer white space apart.\<close>

definition legacy_sku :: "inventory_row list \<Rightarrow> string \<Rightarrow> string option" where
  "legacy_sku stock name = map_option inv_sku (first_where (\<lambda>r.
     py_lower (py_strip (inv_name r)) = py_lower (py_strip name)) stock)"

definition base_sku :: "product_row \<Rightarrow> string" where
  "base_sku r = (if slugify_sku (p_name r) \<noteq> [] then slugify_sku (p_name r)
     else ''ITEM-'' @ map upper_char (take 8 (p_id r)))"

definition suffixed :: "string \<Rightarrow> nat \<Rightarrow> string" where
  "suffixed base k = base @ ''-'' @ nat_str k"

text \<open>\<open>while candidate in taken\<close>: the suffixes are tried in order until one is free.\<close>

lemma nat_str_inj: "nat_str m = nat_str n \<Longrightarrow> m = n"
  by (metis nat_str_digits)

lemma suffixed_inj: "suffixed base j = suffixed base k \<Longrightarrow> j = k"
  by (auto simp: suffixed_def dest: nat_str_inj)

lemma suffixes_finite: "finite {j. k \<le> j \<and> suffixed base j \<in> set taken}"
proof (rule finite_imageD)
  show "finite (suffixed base ` {j. k \<le> j \<and> suffixed base j \<in> set taken})"
    by (rule finite_subset[of _ "set taken"]) auto
  show "inj_on (suffixed base) {j. k \<le> j \<and> suffixed base j \<in> set taken}"
    by (auto intro: inj_onI dest: suffixed_inj)
qed

function free_suffix :: "string list \<Rightarrow> string \<Rightarrow> nat \<Rightarrow> string" where
  "free_suffix taken base k =
     (if suffixed base k \<in> set taken then free_suffix taken base (Suc k) else suffixed base k)"
  by pat_completeness auto

termination
proof (relation "measure (\<lambda>(taken, base, k). card {j. k \<le> j \<and> suffixed base j \<in> set taken})")
  fix taken base k
  assume "suffixed base k \<in> set taken"
  then have "k \<in> {j. k \<le> j \<and> suffixed base j \<in> set taken}" by simp
  moreover have "k \<notin> {j. Suc k \<le> j \<and> suffixed base j \<in> set taken}" by simp
  ultimately have "{j. Suc k \<le> j \<and> suffixed base j \<in> set taken} \<noteq> {j. k \<le> j \<and> suffixed base j \<in> set taken}"
    by metis
  moreover have "{j. Suc k \<le> j \<and> suffixed base j \<in> set taken} \<subseteq> {j. k \<le> j \<and> suffixed base j \<in> set taken}"
    by auto
  ultimately have "{j. Suc k \<le> j \<and> suffixed base j \<in> set taken} \<subset> {j. k \<le> j \<and> suffixed base j \<in> set taken}"
    by (rule psubsetI[rotated])
  then have "card {j. Suc k \<le> j \<and> suffixed base j \<in> set taken} < card {j. k \<le> j \<and> suffixed base j \<in> set taken}"
    by (rule psubset_card_mono[OF suffixes_finite])
  then show "((taken, base, Suc k), taken, base, k)
      \<in> measure (\<lambda>(taken, base, k). card {j. k \<le> j \<and> suffixed base j \<in> set taken})"
    by simp
qed simp

declare free_suffix.simps [simp del]

definition free_sku :: "string list \<Rightarrow> string \<Rightarrow> string" where
  "free_sku taken base = (if base \<in> set taken then free_suffix taken base 2 else base)"

definition adopts :: "inventory_row list \<Rightarrow> string list \<Rightarrow> product_row \<Rightarrow> bool" where
  "adopts stock taken r \<longleftrightarrow> (case legacy_sku stock (p_name r) of None \<Rightarrow> False | Some s \<Rightarrow> s \<notin> set taken)"

definition candidate_sku :: "inventory_row list \<Rightarrow> string list \<Rightarrow> product_row \<Rightarrow> string" where
  "candidate_sku stock taken r = (case legacy_sku stock (p_name r) of
       Some s \<Rightarrow> if s \<notin> set taken then s else free_sku taken (base_sku r)
     | None \<Rightarrow> free_sku taken (base_sku r))"

definition assign_sku ::
  "inventory_row list \<Rightarrow> product_row \<Rightarrow> string list \<times> SkuGenerationResult \<Rightarrow> (world, string list \<times> SkuGenerationResult) io" where
  "assign_sku stock r = (\<lambda>(taken, res).
     let sku = candidate_sku stock taken r in
     bind_io (check_varchar 128 sku) (\<lambda>_.
     bind_io (select_db products) (\<lambda>ps.
     bind_io (write_products (update_where (\<lambda>q. p_id q = p_id r) (\<lambda>q. q\<lparr>p_sku := Some sku\<rparr>) ps)) (\<lambda>_.
       ret (sku # taken, res\<lparr>sgr_generated := sgr_generated res + 1,
         sgr_adopted_legacy := sgr_adopted_legacy res + (if adopts stock taken r then 1 else 0),
         sgr_assigned := sgr_assigned res @ [(p_id r, p_name r, sku)]\<rparr>)))))"

definition generate_missing_skus :: "platform \<Rightarrow> (world, SkuGenerationResult) io" where
  "generate_missing_skus pf = with_session (
     bind_io (select_db (\<lambda>d. List.map_filter p_sku (products d))) (\<lambda>taken.
     bind_io (select_db inventory) (\<lambda>stock.
     bind_io (select_db (\<lambda>d. order_by (\<lambda>a b. db_le pf (p_name a) (p_name b)) (rows_where (\<lambda>r. p_sku r = None) (products d)))) (\<lambda>targets.
     bind_io (fold_io (assign_sku stock) targets (taken, \<lparr>sgr_generated = 0, sgr_adopted_legacy = 0, sgr_assigned = []\<rparr>)) (\<lambda>(_, res).
     bind_io commit (\<lambda>_. ret res))))))"

section \<open>The admin table\<close>

record ProductAdminRow =
  par_id :: string
  par_name :: string
  par_category_name :: "string option"
  par_price_rub :: "int option"
  par_description :: "string option"
  par_image_url :: "string option"
  par_is_active :: bool
  par_sku :: "string option"
  par_sort :: int

definition admin_row :: "category_row list \<Rightarrow> product_row \<Rightarrow> ProductAdminRow" where
  "admin_row cs r = \<lparr>par_id = p_id r, par_name = p_name r,
     par_category_name = (case p_category_id r of
        None \<Rightarrow> None | Some c \<Rightarrow> map_option cat_name (first_where (\<lambda>k. cat_id k = c) cs)),
     par_price_rub = p_price_rub r, par_description = p_description r, par_image_url = p_image_url r,
     par_is_active = p_is_active r, par_sku = p_sku r, par_sort = p_sort r\<rparr>"

record IncompleteCounts =
  ic_null_category :: int
  ic_null_price :: int

definition get_admin_data :: "platform \<Rightarrow> (world, ProductAdminRow list \<times> IncompleteCounts) io" where
  "get_admin_data pf = with_session (
     bind_io (select_db (\<lambda>d. map (admin_row (categories d))
       (order_by (\<lambda>a b. db_le pf (p_name a) (p_name b)) (products d)))) (\<lambda>rows.
     bind_io (select_db (\<lambda>d. \<lparr>ic_null_category = int (length (rows_where (\<lambda>r. p_category_id r = None) (products d))),
       ic_null_price = int (length (rows_where (\<lambda>r. p_price_rub r = None) (products d)))\<rparr>)) (\<lambda>counts.
       ret (rows, counts))))"

end
