(* ===== verification/Import_Properties.thy ===== *)
theory Import_Properties
  imports Menu_Import Menu_Properties
begin

text \<open>
  The properties of the menu import: a file that was imported changes nothing
  when it is imported again, as long as the database and the parser agree on
  which names are the same, and a batch of skus fills every gap and only gaps.
\<close>

section \<open>Skus\<close>

text \<open>The names a product can get from its own: the name itself, then with 2, 3 and so on.\<close>

definition numbered :: "string \<Rightarrow> nat \<Rightarrow> string" where
  "numbered base k = (if k = 1 then base else suffixed base k)"

lemma numbered_inj: "numbered base j = numbered base k \<Longrightarrow> j = k"
  by (auto simp: numbered_def suffixed_def dest: nat_str_inj split: if_splits)

lemma free_suffix_first:
  "\<exists>m\<ge>k. free_suffix taken base k = suffixed base m \<and> suffixed base m \<notin> set taken
    \<and> (\<forall>j. k \<le> j \<and> j < m \<longrightarrow> suffixed base j \<in> set taken)"
proof (induction taken base k rule: free_suffix.induct)
  case (1 taken base k)
  show ?case
  proof (cases "suffixed base k \<in> set taken")
    case True
    then obtain m where m: "Suc k \<le> m" "free_suffix taken base (Suc k) = suffixed base m" "suffixed base m \<notin> set taken"
        "\<forall>j. Suc k \<le> j \<and> j < m \<longrightarrow> suffixed base j \<in> set taken"
      using 1 by blast
    then have "\<forall>j. k \<le> j \<and> j < m \<longrightarrow> suffixed base j \<in> set taken"
      using True by (metis Suc_leI order_le_imp_less_or_eq)
    then show ?thesis using m True by (subst free_suffix.simps) (auto intro!: exI[of _ m])
  next
    case False
    then show ?thesis by (subst free_suffix.simps) auto
  qed
qed

lemma free_sku_first:
  "\<exists>k\<ge>1. free_sku taken base = numbered base k \<and> numbered base k \<notin> set taken
    \<and> (\<forall>j. 1 \<le> j \<and> j < k \<longrightarrow> numbered base j \<in> set taken)"
proof (cases "base \<in> set taken")
  case True
  obtain m where m: "2 \<le> m" "free_suffix taken base 2 = suffixed base m" "suffixed base m \<notin> set taken"
      "\<forall>j. 2 \<le> j \<and> j < m \<longrightarrow> suffixed base j \<in> set taken"
    using free_suffix_first by blast
  then have "\<forall>j. 1 \<le> j \<and> j < m \<longrightarrow> numbered base j \<in> set taken" using True by (auto simp: numbered_def)
  then show ?thesis using m True by (auto simp: free_sku_def numbered_def intro!: exI[of _ m])
next
  case False
  then show ?thesis by (auto simp: free_sku_def numbered_def intro!: exI[of _ 1])
qed

text \<open>A name is never numbered beyond the names that are taken.\<close>

lemma numbered_bound:
  assumes "\<forall>j. 1 \<le> j \<and> j < k \<longrightarrow> numbered base j \<in> set taken"
  shows "k \<le> Suc (card (set taken))"
proof -
  have "card (numbered base ` {1..<k}) \<le> card (set taken)"
    using assms by (intro card_mono) auto
  then show ?thesis
    by (subst (asm) card_image) (auto intro: inj_onI dest: numbered_inj)
qed

lemma nat_str_mono: "m \<le> n \<Longrightarrow> length (nat_str m) \<le> length (nat_str n)"
proof (induction n arbitrary: m rule: nat_str.induct)
  case (1 n)
  show ?case
  proof (cases "m < 10")
    case True
    then show ?thesis using nat_str_digits[of n] by (simp add: nat_str.simps[of m] Suc_leI)
  next
    case False
    then have "length (nat_str (m div 10)) \<le> length (nat_str (n div 10))"
      using "1.IH"[of "m div 10"] "1.prems" by (simp add: div_le_mono)
    then show ?thesis using False "1.prems" by (simp add: nat_str.simps[of m] nat_str.simps[of n])
  qed
qed

text \<open>
  The sku a product gets: that of the shelf's first row of its name, or, where
  another product has that one or there is none, the first of its numbered names that is free.
\<close>

definition chosen :: "inventory_row list \<Rightarrow> string set \<Rightarrow> product_row \<Rightarrow> string \<Rightarrow> bool" where
  "chosen stock used r s \<longleftrightarrow> legacy_sku stock (p_name r) = Some s
     \<or> pred_option (\<lambda>l. l \<in> used) (legacy_sku stock (p_name r))
       \<and> (\<exists>k\<ge>1. s = numbered (base_sku r) k \<and> (\<forall>j. 1 \<le> j \<and> j < k \<longrightarrow> numbered (base_sku r) j \<in> used))"

lemma chosen_mono: "chosen stock used r s \<Longrightarrow> used \<subseteq> used' \<Longrightarrow> chosen stock used' r s"
  unfolding chosen_def by (elim disjE conjE exE) (blast, auto 4 4 elim!: option.pred_mono_strong)

lemma candidate_chosen: "candidate_sku stock taken r \<notin> set taken \<and> chosen stock (set taken) r (candidate_sku stock taken r)"
  using free_sku_first[of taken "base_sku r"] by (auto simp: candidate_sku_def chosen_def split: option.splits)

lemma candidate_short:
  assumes "\<forall>q \<in> set stock. length (inv_sku q) \<le> 128"
    and "length (base_sku r) + length (nat_str (Suc (card (set taken)))) < 128"
  shows "length (candidate_sku stock taken r) \<le> 128"
proof -
  obtain k where k: "free_sku taken (base_sku r) = numbered (base_sku r) k"
      "\<forall>j. 1 \<le> j \<and> j < k \<longrightarrow> numbered (base_sku r) j \<in> set taken"
    using free_sku_first by blast
  have "length (nat_str k) \<le> length (nat_str (Suc (card (set taken))))"
    by (rule nat_str_mono[OF numbered_bound[OF k(2)]])
  then have "length (free_sku taken (base_sku r)) \<le> 128" using assms(2) k(1) by (simp add: numbered_def suffixed_def)
  moreover have "length s \<le> 128" if "legacy_sku stock (p_name r) = Some s" for s
    using that assms(1) by (auto simp: legacy_sku_def dest!: first_where_Some)
  ultimately show ?thesis by (simp add: candidate_sku_def split: option.split)
qed

lemma map_filter_sku: "set (List.map_filter p_sku ps) = {s. \<exists>q \<in> set ps. p_sku q = Some s}"
  by (force simp: map_filter_def)

text \<open>
  The targets are assigned one after the other: a target has a sku of its own
  afterwards, every other product keeps what it had.
\<close>

definition with_skus :: "(uuid \<Rightarrow> string) \<Rightarrow> uuid set \<Rightarrow> product_row list \<Rightarrow> product_row list" where
  "with_skus f ids ps = map (\<lambda>r. if p_id r \<in> ids then r\<lparr>p_sku := Some (f (p_id r))\<rparr> else r) ps"

lemma with_skus_then:
  assumes "i \<notin> ids"
  shows "with_skus f ids (update_where (\<lambda>q. p_id q = i) (\<lambda>q. q\<lparr>p_sku := Some s\<rparr>) ps) = with_skus (f(i := s)) (insert i ids) ps"
  using assms by (auto simp: with_skus_def update_where_def)

lemma skus_after:
  assumes "key_unique p_id ps" "t \<in> set ps" "p_sku t = None"
  shows "{x. \<exists>q \<in> set (update_where (\<lambda>q. p_id q = p_id t) (\<lambda>q. q\<lparr>p_sku := Some s\<rparr>) ps). p_sku q = Some x}
    = insert s {x. \<exists>q \<in> set ps. p_sku q = Some x}" (is "?L = insert s ?R")
proof
  show "?L \<subseteq> insert s ?R" by (auto simp: in_update_where split: if_splits)
  have "t\<lparr>p_sku := Some s\<rparr> \<in> set (update_where (\<lambda>q. p_id q = p_id t) (\<lambda>q. q\<lparr>p_sku := Some s\<rparr>) ps)"
    using assms(2) by (auto simp: in_update_where)
  then have "s \<in> ?L" by (intro CollectI bexI) simp_all
  moreover have "x \<in> ?L" if x: "q \<in> set ps" "p_sku q = Some x" for x q
  proof -
    have "p_id q \<noteq> p_id t" using key_unique_same[OF assms(1) x(1) assms(2)] x(2) assms(3) by auto
    then have "q \<in> set (update_where (\<lambda>q. p_id q = p_id t) (\<lambda>q. q\<lparr>p_sku := Some s\<rparr>) ps)"
      using x(1) by (auto simp: in_update_where intro!: bexI[of _ q])
    then show ?thesis using x(2) by blast
  qed
  ultimately show "insert s ?R \<subseteq> ?L" by blast
qed

text \<open>What the products have, and what it takes for one more to get its own.\<close>

definition skus_of :: "product_row list \<Rightarrow> string set" where
  "skus_of ps = {s. \<exists>q \<in> set ps. p_sku q = Some s}"

definition fillable :: "inventory_row list \<Rightarrow> product_row list \<Rightarrow> product_row \<Rightarrow> bool" where
  "fillable stock ps r \<longleftrightarrow> (\<forall>q \<in> set stock. length (inv_sku q) \<le> 128)
     \<and> length (base_sku r) + length (nat_str (length ps)) < 128"

lemma skus_card:
  assumes "t \<in> set ps" "p_sku t = None"
  shows "Suc (card (skus_of ps)) \<le> length ps"
proof -
  have "skus_of ps \<subseteq> (the \<circ> p_sku) ` (set ps - {t})" using assms(2) by (force simp: skus_of_def)
  then have "card (skus_of ps) \<le> card (set ps - {t})" by (meson card_image_le card_mono finite_Diff finite_imageI finite_set le_trans)
  also have "\<dots> < card (set ps)" using assms(1) by (intro psubset_card_mono) auto
  also have "\<dots> \<le> length ps" by (rule card_length)
  finally show ?thesis by simp
qed

lemma assign_sku_ok:
  assumes "set taken = skus_of (products (db w))" "index_unique p_sku (products (db w))" "key_unique p_id (products (db w))"
    and "t \<in> set (products (db w))" "p_sku t = None" "fillable stock (products (db w)) t"
    and s: "s = candidate_sku stock taken t"
  shows "\<exists>res' w'. assign_sku stock t (taken, res) w = (Inr (s # taken, res'), w')
    \<and> sgr_generated res' = sgr_generated res + 1 \<and> index_unique p_sku (products (db w'))
    \<and> db w' = (db w)\<lparr>products := update_where (\<lambda>q. p_id q = p_id t) (\<lambda>q. q\<lparr>p_sku := Some s\<rparr>) (products (db w))\<rparr>"
proof -
  let ?ps = "update_where (\<lambda>q. p_id q = p_id t) (\<lambda>q. q\<lparr>p_sku := Some s\<rparr>) (products (db w))"
  have "length (nat_str (Suc (card (set taken)))) \<le> length (nat_str (length (products (db w))))"
    using skus_card[OF assms(4,5)] assms(1) by (intro nat_str_mono) simp
  then have len: "length s \<le> 128"
    using assms(6) unfolding s fillable_def by (intro candidate_short) auto
  have "\<forall>q \<in> set (products (db w)). p_sku q \<noteq> Some s"
    using candidate_chosen[of stock taken t] assms(1) s by (auto simp: skus_of_def)
  then have idx: "index_unique p_sku ?ps"
    using assms(2,3) by (intro index_unique_update) auto
  then show ?thesis
    using len assms(3) s
    by (simp add: assign_sku_def Let_def check_varchar_def write_products_def bind_io_apply)
qed

lemma assign_skus:
  assumes "set taken = skus_of (products (db w))"
    and "index_unique p_sku (products (db w))" "key_unique p_id (products (db w))"
    and "distinct (map p_id targets)"
    and "\<forall>t \<in> set targets. t \<in> set (products (db w)) \<and> p_sku t = None \<and> fillable stock (products (db w)) t"
  shows "\<exists>taken' res' w' f. fold_io (assign_sku stock) targets (taken, res) w = (Inr (taken', res'), w')
    \<and> db w' = (db w)\<lparr>products := with_skus f (p_id ` set targets) (products (db w))\<rparr>
    \<and> index_unique p_sku (products (db w')) \<and> sgr_generated res' = sgr_generated res + int (length targets)
    \<and> skus_of (products (db w)) \<subseteq> skus_of (products (db w'))
    \<and> (\<forall>t \<in> set targets. chosen stock (skus_of (products (db w'))) t (f (p_id t)))"
  using assms
proof (induction targets arbitrary: taken res w)
  case Nil
  then show ?case by (auto simp: with_skus_def)
next
  case (Cons t targets)
  have t: "t \<in> set (products (db w))" "p_sku t = None" using Cons.prems(5) by auto
  define s where "s = candidate_sku stock taken t"
  obtain res1 w1 where one: "assign_sku stock t (taken, res) w = (Inr (s # taken, res1), w1)"
    and r1: "sgr_generated res1 = sgr_generated res + 1" and idx: "index_unique p_sku (products (db w1))"
    and w1: "db w1 = (db w)\<lparr>products := update_where (\<lambda>q. p_id q = p_id t) (\<lambda>q. q\<lparr>p_sku := Some s\<rparr>) (products (db w))\<rparr>"
    using assign_sku_ok[OF Cons.prems(1-3) t _ s_def, of res] Cons.prems(5) by auto
  have k1: "skus_of (products (db w1)) = insert s (skus_of (products (db w)))"
    using skus_after[OF Cons.prems(3) t, of s] w1 by (simp add: skus_of_def)
  then have tk: "set (s # taken) = skus_of (products (db w1))" using Cons.prems(1) by simp
  have ku: "key_unique p_id (products (db w1))" using Cons.prems(3) w1 by simp
  have out: "p_id t \<notin> p_id ` set targets" using Cons.prems(4) by auto
  have "\<forall>u \<in> set targets. u \<in> set (products (db w1)) \<and> p_sku u = None \<and> fillable stock (products (db w1)) u"
  proof
    fix u
    assume u: "u \<in> set targets"
    then have "p_id u \<noteq> p_id t" using out by (metis imageI)
    moreover have "u \<in> set (products (db w))" "p_sku u = None" "fillable stock (products (db w)) u"
      using u Cons.prems(5) by auto
    ultimately show "u \<in> set (products (db w1)) \<and> p_sku u = None \<and> fillable stock (products (db w1)) u"
      using w1 by (auto simp: in_update_where fillable_def intro!: bexI[of _ u])
  qed
  then obtain taken' res' w' f where f: "fold_io (assign_sku stock) targets (s # taken, res1) w1 = (Inr (taken', res'), w')"
      "db w' = (db w1)\<lparr>products := with_skus f (p_id ` set targets) (products (db w1))\<rparr>"
      "index_unique p_sku (products (db w'))" "sgr_generated res' = sgr_generated res1 + int (length targets)"
      "skus_of (products (db w1)) \<subseteq> skus_of (products (db w'))"
      "\<forall>t \<in> set targets. chosen stock (skus_of (products (db w'))) t (f (p_id t))"
    using Cons.IH[OF tk idx ku, of res1] Cons.prems(4) by auto
  define g where "g = f(p_id t := s)"
  have "db w' = (db w)\<lparr>products := with_skus g (p_id ` set (t # targets)) (products (db w))\<rparr>"
    using f(2) w1 out by (simp add: with_skus_then g_def)
  moreover have "chosen stock (skus_of (products (db w'))) t s"
    using candidate_chosen[of stock taken t] chosen_mono Cons.prems(1) k1 f(5) s_def by (metis subset_insertI subset_trans)
  then have "\<forall>u \<in> set (t # targets). chosen stock (skus_of (products (db w'))) u (g (p_id u))"
    using f(6) out by (auto simp: image_iff g_def)
  moreover have "fold_io (assign_sku stock) (t # targets) (taken, res) w = (Inr (taken', res'), w')"
    using one f(1) by (simp add: bind_io_apply)
  moreover have "sgr_generated res' = sgr_generated res + int (length (t # targets))"
    "skus_of (products (db w)) \<subseteq> skus_of (products (db w'))"
    using f(4,5) r1 k1 by auto
  ultimately show ?case using f(3) by blast
qed

text \<open>C23. The batch fills every gap and only gaps. As long as the numbered names of the
products without a sku fit their column, it succeeds: every product has a sku then,
no two products the same one, a product that had one keeps it, nothing else about
any product changes, and the count reported is the number of gaps. A new sku is the
one the shelf has for the product's name, or, where another product has that one or there
is none, the first of the product's numbered names that no other product has.\<close>

theorem missing_skus_filled:
  assumes "key_unique p_id (products (committed w))" "index_unique p_sku (products (committed w))"
    and "\<forall>q \<in> set (inventory (committed w)). length (inv_sku q) \<le> 128"
    and "\<forall>r \<in> set (products (committed w)). p_sku r = None
      \<longrightarrow> length (base_sku r) + length (nat_str (length (products (committed w)))) < 128"
  shows "\<exists>res w' f. generate_missing_skus pf w = (Inr res, w')
    \<and> committed w' = (committed w)\<lparr>products :=
      map (\<lambda>r. if p_sku r = None then r\<lparr>p_sku := Some (f (p_id r))\<rparr> else r) (products (committed w))\<rparr>
    \<and> index_unique p_sku (products (committed w'))
    \<and> sgr_generated res = int (length (rows_where (\<lambda>r. p_sku r = None) (products (committed w))))
    \<and> (\<forall>r \<in> set (products (committed w)). p_sku r = None
      \<longrightarrow> chosen (inventory (committed w)) (skus_of (products (committed w'))) r (f (p_id r)))"
proof -
  let ?w = "w\<lparr>db := committed w\<rparr>" and ?ps = "products (committed w)"
  let ?ts = "order_by (\<lambda>a b. db_le pf (p_name a) (p_name b)) (rows_where (\<lambda>r. p_sku r = None) ?ps)"
  let ?r0 = "\<lparr>sgr_generated = 0, sgr_adopted_legacy = 0, sgr_assigned = []\<rparr>"
  have "key_unique p_id (rows_where (\<lambda>r. p_sku r = None) ?ps)"
    using assms(1) by (simp add: key_unique_def rows_where_def distinct_map_filter)
  then have "key_unique p_id ?ts" by simp
  then have d: "distinct (map p_id ?ts)" by (simp add: key_unique_def)
  have "sum_list (map (\<lambda>_. 1) ?ts) = sum_list (map (\<lambda>_. 1::int) (rows_where (\<lambda>r. p_sku r = None) ?ps))"
    by (rule sum_list_order_by)
  then have len: "int (length ?ts) = int (length (rows_where (\<lambda>r. p_sku r = None) ?ps))"
    by (simp add: sum_list_triv)
  have ts: "\<forall>t \<in> set ?ts. t \<in> set (products (db ?w)) \<and> p_sku t = None
      \<and> fillable (inventory (committed w)) (products (db ?w)) t"
    using assms(3,4) by (simp add: fillable_def)
  have "set (List.map_filter p_sku ?ps) = skus_of (products (db ?w))" by (simp add: map_filter_sku skus_of_def)
  then obtain taken res w1 f where fold: "fold_io (assign_sku (inventory (committed w))) ?ts (List.map_filter p_sku ?ps, ?r0) ?w
        = (Inr (taken, res), w1)"
      and w1: "db w1 = (db ?w)\<lparr>products := with_skus f (p_id ` set ?ts) (products (db ?w))\<rparr>"
        "index_unique p_sku (products (db w1))" "sgr_generated res = sgr_generated ?r0 + int (length ?ts)"
        "\<forall>t \<in> set ?ts. chosen (inventory (committed w)) (skus_of (products (db w1))) t (f (p_id t))"
    using assign_skus[OF _ _ _ d ts, of "List.map_filter p_sku ?ps" ?r0] assms(1,2) by auto
  obtain w' where run: "generate_missing_skus pf w = (Inr res, w')" and w': "committed w' = db w1"
    using fold unfolding generate_missing_skus_def by (simp add: with_session_apply bind_io_apply)
  have "p_id r \<in> p_id ` set ?ts \<longleftrightarrow> p_sku r = None" if "r \<in> set ?ps" for r
    using key_unique_same[OF assms(1) that] that by (auto simp: image_iff)
  then have "with_skus f (p_id ` set ?ts) ?ps = map (\<lambda>r. if p_sku r = None then r\<lparr>p_sku := Some (f (p_id r))\<rparr> else r) ?ps"
    unfolding with_skus_def by (intro map_cong) auto
  then show ?thesis using run w' w1 len by (intro exI[of _ res] exI[of _ w'] exI[of _ f]) simp
qed

section \<open>One row of an import\<close>

definition fields_of :: "ProductRow \<Rightarrow> product_row \<Rightarrow> product_row" where
  "fields_of r = set_import_fields (ir_category_id r) (ir_price_rub r) (ir_description r) (ir_image_url r) (ir_is_active r)"

lemma fields_of_simps [simp]:
  "p_name (fields_of r p) = p_name p" "p_id (fields_of r p) = p_id p" "p_sku (fields_of r p) = p_sku p"
  "fields_of r (fields_of r p) = fields_of r p"
  by (simp_all add: fields_of_def set_import_fields_def)

definition named :: "platform \<Rightarrow> string \<Rightarrow> product_row list \<Rightarrow> product_row list" where
  "named pf n ps = rows_where (\<lambda>q. db_lower pf (p_name q) = db_lower pf n) ps"

definition canonical_ids :: "database \<Rightarrow> bool" where
  "canonical_ids d \<longleftrightarrow> list_all (\<lambda>c. parse_uuid (cat_id c) = Inr (cat_id c)) (categories d)"

lemma dumped:
  "dump_product_row r = JObj kvs \<Longrightarrow> json_get ''category_id'' kvs = opt_json JStr (ir_category_id r)
    \<and> json_get ''price_rub'' kvs = opt_json JInt (ir_price_rub r) \<and> json_get ''description'' kvs = opt_json JStr (ir_description r)
    \<and> json_get ''image_url'' kvs = opt_json JStr (ir_image_url r) \<and> json_get ''is_active'' kvs = JBool (ir_is_active r)
    \<and> map_of kvs ''name'' = Some (JStr (ir_name r))"
  by (auto simp: dump_product_row_def)

text \<open>What a row needs of the database to be written.\<close>

definition importable :: "database \<Rightarrow> ProductRow \<Rightarrow> bool" where
  "importable d r \<longleftrightarrow> pred_option (\<lambda>c. c \<in> cat_id ` set (categories d)) (ir_category_id r) \<and> pred_option int4 (ir_price_rub r)"

lemma import_fields_dumped:
  assumes "dump_product_row r = JObj kvs" "canonical_ids (db w)"
    and "pred_option (\<lambda>c. c \<in> cat_id ` set (categories (db w))) (ir_category_id r)"
  shows "import_fields kvs w = (if pred_option int4 (ir_price_rub r) then (Inr (fields_of r), w)
    else (Inl (DataError ''integer out of range''), w))"
proof -
  have c: "import_category_id (opt_json JStr (ir_category_id r)) w = (Inr (ir_category_id r), w)"
  proof (cases "ir_category_id r")
    case (Some c)
    then have "parse_uuid c = Inr c"
      using assms(2,3) by (auto simp: canonical_ids_def list_all_iff)
    moreover have "parse_uuid [] \<noteq> Inr []" by code_simp
    ultimately have "c \<noteq> []" "parse_uuid c = Inr c" by auto
    then show ?thesis using Some by (simp add: import_category_id_def opt_json_def)
  qed (simp add: import_category_id_def opt_json_def)
  have p: "opt_int_param (opt_json JInt (ir_price_rub r)) w = (if pred_option int4 (ir_price_rub r)
      then (Inr (ir_price_rub r), w) else (Inl (DataError ''integer out of range''), w))"
    by (cases "ir_price_rub r") (simp_all add: opt_int_param_def opt_json_def check_int4_apply bind_io_apply)
  have t: "opt_text_param (opt_json JStr v) = Inr v" for v
    by (cases v) (simp_all add: opt_text_param_def opt_json_def)
  have k: "check_category (ir_category_id r) w = (Inr (), w)"
    using assms(3) by (cases "ir_category_id r") (auto simp: check_category_def)
  show ?thesis
    using dumped[OF assms(1)] by (simp add: import_fields_def bind_io_apply c p t k fields_of_def)
qed

lemma named_update:
  "(\<And>q. p_name (f q) = p_name q) \<Longrightarrow> named pf n (update_where p f ps) = update_where p f (named pf n ps)"
  by (induction ps) (simp_all add: named_def)

lemma named_append: "named pf n (ps @ [q]) = named pf n ps @ (if db_lower pf (p_name q) = db_lower pf n then [q] else [])"
  by (simp add: named_def rows_where_def)

lemma update_where_same: "(\<And>q. q \<in> set t \<Longrightarrow> p q \<Longrightarrow> f q = q) \<Longrightarrow> update_where p f t = t"
  by (induction t) auto

text \<open>What a written row leaves: the one row of its name has its fields.\<close>

definition settled :: "platform \<Rightarrow> product_row list \<Rightarrow> ProductRow \<Rightarrow> bool" where
  "settled pf ps r \<longleftrightarrow> (\<exists>m. named pf (ir_name r) ps = [m] \<and> fields_of r m = m)"

definition upserted :: "platform \<Rightarrow> ProductRow \<Rightarrow> product_row list \<Rightarrow> product_row list \<Rightarrow> bool" where
  "upserted pf r ps ps' \<longleftrightarrow> key_unique p_id ps' \<and> index_unique p_sku ps' \<and>
     ((\<exists>m. named pf (ir_name r) ps = [m] \<and> ps' = update_where (\<lambda>q. p_id q = p_id m) (fields_of r) ps)
      \<or> named pf (ir_name r) ps = [] \<and> (\<exists>q. ps' = ps @ [q] \<and> p_name q = ir_name r \<and> fields_of r q = q))"

lemma named_in: "m \<in> set (named pf n ps) \<Longrightarrow> m \<in> set ps \<and> db_lower pf (p_name m) = db_lower pf n"
  by (simp add: named_def)

lemma upserted_settles: "upserted pf r ps ps' \<Longrightarrow> settled pf ps' r"
  by (auto simp: upserted_def settled_def named_update named_append)

lemma upserted_others:
  assumes "upserted pf r ps ps'" "key_unique p_id ps" "db_lower pf n \<noteq> db_lower pf (ir_name r)"
  shows "named pf n ps' = named pf n ps"
proof -
  have "update_where (\<lambda>q. p_id q = p_id m) (fields_of r) (named pf n ps) = named pf n ps"
    if m: "named pf (ir_name r) ps = [m]" for m
  proof (rule update_where_none)
    fix q
    assume "q \<in> set (named pf n ps)"
    moreover have "m \<in> set (named pf (ir_name r) ps)" using m by simp
    ultimately show "p_id q \<noteq> p_id m"
      using assms(3) key_unique_same[OF assms(2)] by (metis named_in)
  qed
  then show ?thesis
    using assms(1,3) by (auto simp: upserted_def named_update named_append)
qed

lemma upserted_names:
  assumes "upserted pf r ps ps'"
  shows "map p_name ps' = map p_name ps @ (if named pf (ir_name r) ps = [] then [ir_name r] else [])"
  using assms by (auto simp: upserted_def)

lemma write_products_Inr:
  "write_products ps w = (Inr u, w') \<longleftrightarrow> key_unique p_id ps \<and> index_unique p_sku ps \<and> w' = w\<lparr>db := (db w)\<lparr>products := ps\<rparr>\<rparr>"
  by (auto simp: write_products_def)

lemma import_row_writes:
  assumes run: "import_row pf (dump_product_row r) (n, ws) w = (Inr acc, w')" and ids: "canonical_ids (db w)"
    and cat: "pred_option (\<lambda>c. c \<in> cat_id ` set (categories (db w))) (ir_category_id r)"
    and one: "length (named pf (ir_name r) (products (db w))) \<le> 1"
  shows "acc = (Suc n, ws) \<and> importable (db w) r
    \<and> (\<exists>ps'. upserted pf r (products (db w)) ps' \<and> db w' = (db w)\<lparr>products := ps'\<rparr>)"
proof -
  obtain kvs where kvs: "dump_product_row r = JObj kvs" by (simp add: dump_product_row_def)
  note d = dumped[OF kvs]
  let ?ms = "named pf (ir_name r) (products (db w))"
  have int4: "pred_option int4 (ir_price_rub r)"
    using run import_fields_dumped[OF kvs ids cat] d one
    by (auto simp: import_row_def kvs text_param_def products_named_def bind_io_apply named_def split: if_splits)
  have wr: "acc = (Suc n, ws) \<and> (\<exists>u. write_import (ir_name r) ?ms (fields_of r) w = (Inr u, w'))"
    using run import_fields_dumped[OF kvs ids cat] d one int4
    by (auto simp: import_row_def kvs text_param_def products_named_def bind_io_apply named_def
        split: if_splits prod.splits sum.splits)
  have "\<exists>ps'. upserted pf r (products (db w)) ps' \<and> db w' = (db w)\<lparr>products := ps'\<rparr>"
  proof (cases ?ms)
    case Nil
    then obtain i where "write_products (products (db w) @ [fields_of r \<lparr>p_id = i, p_name = ir_name r, p_category_id = None,
         p_time_period_override = None, p_price_rub = None, p_description = None, p_image_url = None, p_is_active = True,
         p_sku = None, p_sort = 0\<rparr>]) (w\<lparr>uuid_next := Suc (uuid_next w)\<rparr>) = (Inr (), w')"
      using wr by (auto simp: write_import_def bind_io_Inr_iff check_Inr_iff)
    then show ?thesis
      using Nil unfolding upserted_def write_products_Inr by (intro exI conjI) (auto intro!: exI disjI2)
  next
    case (Cons m rest)
    then have m: "?ms = [m]" using one by (cases rest) auto
    then have "write_products (update_where (\<lambda>q. p_id q = p_id m) (fields_of r) (products (db w))) w = (Inr (), w')"
      using wr by (auto simp: write_import_def bind_io_Inr_iff)
    then show ?thesis
      using m unfolding upserted_def write_products_Inr by (intro exI conjI) (auto intro!: exI disjI1)
  qed
  then show ?thesis using wr int4 cat by (simp add: importable_def)
qed

lemma import_row_again:
  assumes "settled pf (products (db w)) r" "importable (db w) r" "canonical_ids (db w)"
    and "key_unique p_id (products (db w))" "index_unique p_sku (products (db w))"
  shows "import_row pf (dump_product_row r) (n, ws) w = (Inr (Suc n, ws), w)"
proof -
  obtain kvs where kvs: "dump_product_row r = JObj kvs" by (simp add: dump_product_row_def)
  obtain m where m: "named pf (ir_name r) (products (db w)) = [m]" "fields_of r m = m"
    using assms(1) by (auto simp: settled_def)
  have "m \<in> set (products (db w))" using m(1) named_in[of m pf "ir_name r" "products (db w)"] by simp
  then have "fields_of r q = q" if "q \<in> set (products (db w))" "p_id q = p_id m" for q
    using key_unique_same[OF assms(4)] that m(2) by metis
  then have "update_where (\<lambda>q. p_id q = p_id m) (fields_of r) (products (db w)) = products (db w)"
    by (intro update_where_same) auto
  then have "write_import (ir_name r) [m] (fields_of r) w = (Inr (), w)"
    using assms(4,5) by (simp add: write_import_def write_products_def)
  moreover have "import_fields kvs w = (Inr (fields_of r), w)"
    using import_fields_dumped[OF kvs assms(3)] assms(2) by (simp add: importable_def)
  ultimately show ?thesis
    using dumped[OF kvs] m(1) by (simp add: import_row_def kvs text_param_def products_named_def bind_io_apply named_def)
qed

section \<open>All rows of an import\<close>

definition lower_names :: "platform \<Rightarrow> ProductRow list \<Rightarrow> string list" where
  "lower_names pf vs = map (\<lambda>r. db_lower pf (ir_name r)) vs"

text \<open>The names that an import adds.\<close>

definition new_names :: "platform \<Rightarrow> product_row list \<Rightarrow> ProductRow list \<Rightarrow> string list" where
  "new_names pf ps vs = map ir_name (filter (\<lambda>r. named pf (ir_name r) ps = []) vs)"

lemma import_all:
  assumes "fold_io (import_row pf) (map dump_product_row vs) (n, ws) w = (Inr acc, w')"
    and "canonical_ids (db w)" "key_unique p_id (products (db w))" "distinct (lower_names pf vs)"
    and "\<forall>r \<in> set vs. pred_option (\<lambda>c. c \<in> cat_id ` set (categories (db w))) (ir_category_id r)
          \<and> length (named pf (ir_name r) (products (db w))) \<le> 1"
  shows "\<exists>ps'. acc = (n + length vs, ws) \<and> db w' = (db w)\<lparr>products := ps'\<rparr> \<and> key_unique p_id ps'
    \<and> (vs \<noteq> [] \<longrightarrow> index_unique p_sku ps') \<and> (\<forall>r \<in> set vs. settled pf ps' r \<and> importable (db w) r)
    \<and> map p_name ps' = map p_name (products (db w)) @ new_names pf (products (db w)) vs
    \<and> (\<forall>k. k \<notin> set (lower_names pf vs) \<longrightarrow>
          rows_where (\<lambda>q. db_lower pf (p_name q) = k) ps' = rows_where (\<lambda>q. db_lower pf (p_name q) = k) (products (db w)))"
  using assms
proof (induction vs arbitrary: n w)
  case Nil
  then show ?case by (intro exI[of _ "products (db w)"]) (auto simp: new_names_def)
next
  case (Cons r vs)
  obtain a w1 where one: "import_row pf (dump_product_row r) (n, ws) w = (Inr a, w1)"
    and rest: "fold_io (import_row pf) (map dump_product_row vs) a w1 = (Inr acc, w')"
    using Cons.prems(1) by (auto simp: bind_io_Inr_iff)
  obtain ps1 where a: "a = (Suc n, ws)" "importable (db w) r" and up: "upserted pf r (products (db w)) ps1"
    and w1: "db w1 = (db w)\<lparr>products := ps1\<rparr>"
    using import_row_writes[OF one Cons.prems(2)] Cons.prems(5) by auto
  have others: "named pf m ps1 = named pf m (products (db w))" if "db_lower pf m \<noteq> db_lower pf (ir_name r)" for m
    by (rule upserted_others[OF up Cons.prems(3) that])
  have r: "db_lower pf (ir_name r) \<notin> set (lower_names pf vs)" "distinct (lower_names pf vs)"
    using Cons.prems(4) by (simp_all add: lower_names_def)
  then have diff: "db_lower pf (ir_name q) \<noteq> db_lower pf (ir_name r)" if "q \<in> set vs" for q
  proof -
    have "db_lower pf (ir_name q) \<in> set (lower_names pf vs)" using that by (simp add: lower_names_def)
    then show ?thesis using r(1) by metis
  qed
  have "\<exists>ps'. acc = (Suc n + length vs, ws) \<and> db w' = (db w1)\<lparr>products := ps'\<rparr> \<and> key_unique p_id ps'
    \<and> (vs \<noteq> [] \<longrightarrow> index_unique p_sku ps') \<and> (\<forall>r \<in> set vs. settled pf ps' r \<and> importable (db w1) r)
    \<and> map p_name ps' = map p_name (products (db w1)) @ new_names pf (products (db w1)) vs
    \<and> (\<forall>k. k \<notin> set (lower_names pf vs) \<longrightarrow>
          rows_where (\<lambda>q. db_lower pf (p_name q) = k) ps' = rows_where (\<lambda>q. db_lower pf (p_name q) = k) (products (db w1)))"
  proof (rule Cons.IH)
    show "fold_io (import_row pf) (map dump_product_row vs) (Suc n, ws) w1 = (Inr acc, w')" using rest a(1) by simp
    show "canonical_ids (db w1)" using Cons.prems(2) w1 by (simp add: canonical_ids_def)
    show "key_unique p_id (products (db w1))" using up w1 by (simp add: upserted_def)
    show "\<forall>r \<in> set vs. pred_option (\<lambda>c. c \<in> cat_id ` set (categories (db w1))) (ir_category_id r)
          \<and> length (named pf (ir_name r) (products (db w1))) \<le> 1"
      using Cons.prems(5) w1 others diff by simp
  qed (rule r(2))
  then obtain ps' where ps': "acc = (Suc n + length vs, ws)" "db w' = (db w1)\<lparr>products := ps'\<rparr>" "key_unique p_id ps'"
      "vs \<noteq> [] \<Longrightarrow> index_unique p_sku ps'" "\<forall>r \<in> set vs. settled pf ps' r \<and> importable (db w1) r"
      "map p_name ps' = map p_name ps1 @ new_names pf ps1 vs"
      "\<And>k. k \<notin> set (lower_names pf vs) \<Longrightarrow>
          rows_where (\<lambda>q. db_lower pf (p_name q) = k) ps' = rows_where (\<lambda>q. db_lower pf (p_name q) = k) ps1"
    using w1 by auto
  have "named pf (ir_name r) ps' = named pf (ir_name r) ps1"
    unfolding named_def by (rule ps'(7)[OF r(1)])
  then have "settled pf ps' r" using upserted_settles[OF up] by (simp add: settled_def)
  moreover have "importable (db w1) q = importable (db w) q" for q using w1 by (simp add: importable_def)
  moreover have "index_unique p_sku ps'"
  proof (cases "vs = []")
    case True
    then have "db w' = db w1" using rest by simp
    moreover have "products (db w') = ps'" "products (db w1) = ps1" using ps'(2) w1 by simp_all
    ultimately show ?thesis using up by (simp add: upserted_def)
  qed (rule ps'(4))
  moreover have "new_names pf ps1 vs = new_names pf (products (db w)) vs"
    using others diff by (auto simp: new_names_def intro!: arg_cong[where f = "map ir_name"] filter_cong)
  then have "map p_name ps' = map p_name (products (db w)) @ new_names pf (products (db w)) (r # vs)"
    using ps'(6) upserted_names[OF up] by (simp add: new_names_def)
  moreover have "rows_where (\<lambda>q. db_lower pf (p_name q) = k) ps1 = rows_where (\<lambda>q. db_lower pf (p_name q) = k) (products (db w))"
    if "k \<noteq> db_lower pf (ir_name r)" for k
  proof (cases "\<exists>q \<in> set ps1 \<union> set (products (db w)). db_lower pf (p_name q) = k")
    case True
    then obtain q :: product_row where "db_lower pf (p_name q) = k" by blast
    then show ?thesis using others[of "p_name q"] that by (simp add: named_def)
  next
    case False
    then show ?thesis by (auto simp: rows_where_def filter_empty_conv)
  qed
  ultimately show ?case
    using ps' a w1 by (intro exI[of _ ps']) (auto simp: lower_names_def)
qed

lemma import_all_again:
  assumes "\<forall>r \<in> set vs. settled pf (products (db w)) r \<and> importable (db w) r" "canonical_ids (db w)"
    and "key_unique p_id (products (db w))" "vs \<noteq> [] \<longrightarrow> index_unique p_sku (products (db w))"
  shows "fold_io (import_row pf) (map dump_product_row vs) (n, ws) w = (Inr (n + length vs, ws), w)"
  using assms
proof (induction vs arbitrary: n)
  case (Cons r vs)
  have "import_row pf (dump_product_row r) (n, ws) w = (Inr (Suc n, ws), w)"
    using Cons.prems by (intro import_row_again) auto
  then show ?case using Cons.IH[of "Suc n"] Cons.prems by simp
qed simp

section \<open>What the parser lets through\<close>

lemma category_exists: "import_category cs c = Some v \<Longrightarrow> pred_option (\<lambda>i. i \<in> cat_id ` set cs) v"
proof -
  have e: "by_external_id cs k = Some i \<Longrightarrow> i \<in> cat_id ` set cs" for k i
    by (auto simp: by_external_id_def map_filter_def dest!: map_of_SomeD)
  have n: "by_normalized_name cs k = Some i \<Longrightarrow> i \<in> cat_id ` set cs" for k i
    by (auto simp: by_normalized_name_def dest!: map_of_SomeD)
  assume "import_category cs c = Some v"
  then show ?thesis
    by (cases v) (auto simp: import_category_def dest: e n split: if_splits option.splits sum.splits)
qed

lemma judge_row_Accepted:
  assumes "judge_row cs counts seen get = Inr (Accepted r)"
  shows "counts (normalize (ir_name r)) \<le> 1 \<and> normalize (ir_name r) \<notin> set seen
    \<and> pred_option (\<lambda>i. i \<in> cat_id ` set cs) (ir_category_id r)"
  using assms category_exists[of cs "py_strip (get ''category'')"]
  by (auto simp: judge_row_def Let_def split: if_splits option.splits sum.splits)

lemma judge_rows_valid:
  assumes "judge_rows cs counts cols n seen rows = Inr (vs, ss)"
  shows "distinct (map (\<lambda>r. normalize (ir_name r)) vs)
    \<and> (\<forall>r \<in> set vs. normalize (ir_name r) \<notin> set seen \<and> counts (normalize (ir_name r)) \<le> 1
         \<and> pred_option (\<lambda>i. i \<in> cat_id ` set cs) (ir_category_id r))"
  using assms
proof (induction rows arbitrary: n seen vs ss)
  case (Cons raw rows)
  obtain oc where oc: "judge_row cs counts seen (get_cell cols raw) = Inr oc"
    using Cons.prems by (cases "judge_row cs counts seen (get_cell cols raw)") auto
  show ?case
  proof (cases oc)
    case (Accepted r)
    then obtain vs' where "judge_rows cs counts cols (n + 1) (normalize (ir_name r) # seen) rows = Inr (vs', ss)" "vs = r # vs'"
      using Cons.prems oc by (auto split: sum.splits)
    then show ?thesis
      using Cons.IH[of "n + 1" "normalize (ir_name r) # seen" vs' ss] judge_row_Accepted[OF oc[unfolded Accepted]] by auto
  next
    case (Skipped nm why)
    then obtain ss' where "judge_rows cs counts cols (n + 1) seen rows = Inr (vs, ss')"
      using Cons.prems oc by (auto split: sum.splits)
    then show ?thesis using Cons.IH by blast
  qed
qed simp

text \<open>Only names that are ambiguous matter to the parser.\<close>

lemma judge_rows_cong:
  assumes "\<And>k. (1 < counts k) = (1 < counts' k)" "\<And>k. 1 < counts k \<Longrightarrow> counts k = counts' k"
  shows "judge_rows cs counts cols n seen rows = judge_rows cs counts' cols n seen rows"
proof (induction rows arbitrary: n seen)
  case (Cons raw rows)
  have "judge_row cs counts seen get = judge_row cs counts' seen get" for seen get
    using assms by (auto simp: judge_row_def Let_def)
  then have "judge_row cs counts seen (get_cell cols raw) = judge_row cs counts' seen (get_cell cols raw)" .
  then show ?case
    by (cases "judge_row cs counts' seen (get_cell cols raw)") (auto simp: Cons.IH split: row_outcome.splits)
qed simp

section \<open>Which names the parser counts\<close>

text \<open>The database and the parser agree on which of these names are the same.\<close>

definition names_agree :: "platform \<Rightarrow> string list \<Rightarrow> bool" where
  "names_agree pf ns \<longleftrightarrow> list_all (\<lambda>a. list_all (\<lambda>b. (db_lower pf a = db_lower pf b) = (normalize a = normalize b)) ns) ns"

lemma names_agreeD:
  "names_agree pf ns \<Longrightarrow> a \<in> set ns \<Longrightarrow> b \<in> set ns \<Longrightarrow> (db_lower pf a = db_lower pf b) = (normalize a = normalize b)"
  by (simp add: names_agree_def list_all_iff)

lemma count_distinct: "distinct (map f xs) \<Longrightarrow> length (filter (\<lambda>x. f x = k) xs) \<le> 1"
proof (induction xs)
  case (Cons x xs)
  then show ?case by (cases "f x = k") (auto simp: filter_empty_conv image_iff)
qed simp

lemma name_count_names: "name_count ps k = length (filter (\<lambda>n. normalize n = k) (map p_name ps))"
  by (simp add: name_count_def filter_map comp_def)

lemma named_count:
  assumes "names_agree pf (map p_name ps @ map ir_name vs)" "r \<in> set vs"
  shows "length (named pf (ir_name r) ps) = name_count ps (normalize (ir_name r))"
  unfolding named_def rows_where_def name_count_def
  using names_agreeD[OF assms(1)] assms(2) by (intro arg_cong[where f = length] filter_cong) auto

lemma lower_distinct:
  assumes "names_agree pf (map p_name ps @ map ir_name vs)" "distinct (map (\<lambda>r. normalize (ir_name r)) vs)"
  shows "distinct (lower_names pf vs)"
  unfolding lower_names_def distinct_map
proof
  show "distinct vs" using assms(2) by (simp add: distinct_map)
  have "r = q" if "r \<in> set vs" "q \<in> set vs" "db_lower pf (ir_name r) = db_lower pf (ir_name q)" for r q
    using that names_agreeD[OF assms(1), of "ir_name r" "ir_name q"] assms(2) by (auto simp: distinct_map inj_on_def)
  then show "inj_on (\<lambda>r. db_lower pf (ir_name r)) (set vs)" by (simp add: inj_on_def)
qed

lemma counts_after:
  assumes "names_agree pf (map p_name ps @ map ir_name vs)" "distinct (map (\<lambda>r. normalize (ir_name r)) vs)"
    and "map p_name ps' = map p_name ps @ new_names pf ps vs"
  shows "name_count ps' k = name_count ps k \<or> name_count ps k = 0 \<and> name_count ps' k = 1"
proof -
  have split: "name_count ps' k = name_count ps k + length (filter (\<lambda>n. normalize n = k) (new_names pf ps vs))"
    using assms(3) by (simp add: name_count_names)
  have "distinct (map normalize (new_names pf ps vs))"
    using assms(2) by (simp add: new_names_def comp_def distinct_map_filter)
  then have le: "length (filter (\<lambda>n. normalize n = k) (new_names pf ps vs)) \<le> 1" by (rule count_distinct)
  show ?thesis
  proof (cases "filter (\<lambda>n. normalize n = k) (new_names pf ps vs) = []")
    case False
    then obtain n where "n \<in> set (new_names pf ps vs)" "normalize n = k" by (auto simp: filter_empty_conv)
    then obtain r where r: "r \<in> set vs" "named pf (ir_name r) ps = []" "normalize (ir_name r) = k"
      by (auto simp: new_names_def)
    then have "name_count ps k = 0" using named_count[OF assms(1) r(1)] by simp
    then show ?thesis using split le False by (cases "filter (\<lambda>n. normalize n = k) (new_names pf ps vs)") auto
  qed (use split in simp)
qed

section \<open>The governed run\<close>

lemma import_run:
  assumes "vm_ok pf"
    and "run_vm pf (governed pf MENU_IMPORT_TOOL_CAPABILITIES (MENU_IMPORT_TOOLS pf)) MENU_IMPORT_PROGRAM
      [(''valid_rows'', rows)] w = (tr, w')"
  shows "case apply_menu_import pf [(''rows'', rows)] w of
      (Inl e, w2) \<Rightarrow> trace_status tr = trace_status.FAILED
    | (Inr out, w2) \<Rightarrow> trace_status tr = trace_status.SUCCESS \<and> w' = w2 \<and> last_output tr = out"
proof -
  have f: "forward_program MENU_IMPORT_PROGRAM"
    by (simp add: MENU_IMPORT_PROGRAM_def forward_program_def)
  have T: "governed pf MENU_IMPORT_TOOL_CAPABILITIES (MENU_IMPORT_TOOLS pf) ''apply_menu_import'' = Some (apply_menu_import pf)"
    by (rule governed_permitted[OF assms(1)]) (simp_all add: MENU_IMPORT_TOOLS_def MENU_IMPORT_TOOL_CAPABILITIES_def)
  show ?thesis
    using run_vm_exec[OF assms(1) f assms(2)] T
    by (subst (asm) vm_exec_iff) (auto simp: MENU_IMPORT_PROGRAM_def last_output_def split: prod.splits sum.splits)
qed

text \<open>An import of a parsed file, outside its session.\<close>

lemma import_csv_run:
  assumes "vm_ok pf"
    and "parse_and_validate_csv upload (categories (committed w)) (products (committed w)) = Inr (vs, ss)"
    and "fold_io (import_row pf) (map dump_product_row vs) (0, []) (w\<lparr>db := committed w\<rparr>) = (Inr (n, []), w1)"
  shows "\<exists>w' h'. import_csv pf snapshot_hash upload w = (Inr \<lparr>rep_imported = int n, rep_skipped = ss,
      rep_trace_hash = Some h', rep_final_status = Some ''success''\<rparr>, w') \<and> committed w' = db w1"
proof -
  let ?T = "governed pf MENU_IMPORT_TOOL_CAPABILITIES (MENU_IMPORT_TOOLS pf)" and ?w = "w\<lparr>db := committed w\<rparr>"
  let ?rows = "JList (map dump_product_row vs)"
  obtain tr w2 where run: "run_vm pf ?T MENU_IMPORT_PROGRAM [(''valid_rows'', ?rows)] ?w = (tr, w2)" by fastforce
  have "apply_menu_import pf [(''rows'', ?rows)] ?w = (Inr (JObj [(''imported'', JInt (int n)), (''rows'', JInt (int (length vs))),
      (''write_skipped'', JList [])]), w1)"
    using assms(3) by (simp add: apply_menu_import_def bind_io_apply)
  then have tr: "trace_status tr = trace_status.SUCCESS" "w2 = w1" "last_output tr = JObj [(''imported'', JInt (int n)),
      (''rows'', JInt (int (length vs))), (''write_skipped'', JList [])]"
    using import_run[OF assms(1) run] by simp_all
  have "validates pf MENU_IMPORT_PROGRAM"
    by (rule validates_forward[OF assms(1)]) (simp add: MENU_IMPORT_PROGRAM_def forward_program_def)
  then show ?thesis
    using run tr assms(2)
    by (simp add: import_csv_def with_session_apply bind_io_apply run_program_def import_counts_def)
qed

text \<open>A successful import wrote every row of the parsed file.\<close>

lemma import_csv_success:
  assumes "vm_ok pf"
    and "parse_and_validate_csv upload (categories (committed w)) (products (committed w)) = Inr (vs, ss)"
    and "import_csv pf snapshot_hash upload w = (Inr rep, w')" "rep_final_status rep = Some ''success''"
  shows "\<exists>acc w1. fold_io (import_row pf) (map dump_product_row vs) (0, []) (w\<lparr>db := committed w\<rparr>) = (Inr acc, w1)
    \<and> committed w' = db w1"
proof -
  let ?T = "governed pf MENU_IMPORT_TOOL_CAPABILITIES (MENU_IMPORT_TOOLS pf)" and ?w = "w\<lparr>db := committed w\<rparr>"
  let ?rows = "JList (map dump_product_row vs)"
  obtain tr w2 where run: "run_vm pf ?T MENU_IMPORT_PROGRAM [(''valid_rows'', ?rows)] ?w = (tr, w2)" by fastforce
  have ok: "validates pf MENU_IMPORT_PROGRAM"
    by (rule validates_forward[OF assms(1)]) (simp add: MENU_IMPORT_PROGRAM_def forward_program_def)
  have st: "trace_status tr = trace_status.SUCCESS" "committed w' = db w2"
    using assms(2-) run ok
    by (auto simp: import_csv_def with_session_apply bind_io_apply run_program_def split: if_splits prod.splits sum.splits)
  show ?thesis
    using import_run[OF assms(1) run] st
    by (cases "fold_io (import_row pf) (map dump_product_row vs) (0, []) ?w")
      (auto simp: apply_menu_import_def bind_io_apply split: sum.splits prod.splits)
qed

text \<open>The parser asks of the stored names only which are taken more than once.\<close>

lemma parse_same_counts:
  assumes "\<And>k. name_count ps' k = name_count ps k \<or> name_count ps k = 0 \<and> name_count ps' k = 1"
  shows "parse_and_validate_csv upload cs ps' = parse_and_validate_csv upload cs ps"
proof -
  have "judge_rows cs (name_count ps') cols n seen rows = judge_rows cs (name_count ps) cols n seen rows"
    for cols n seen rows
  proof (rule judge_rows_cong)
    show "(1 < name_count ps' k) = (1 < name_count ps k)" "1 < name_count ps' k \<Longrightarrow> name_count ps' k = name_count ps k" for k
      using assms[of k] by auto
  qed
  then show ?thesis by (simp add: parse_and_validate_csv_def split: sum.split list.split)
qed

text \<open>C21. A file that was imported changes nothing when it is imported again: as long as
the database and the parser agree on which names are the same, the second import
succeeds too, reports the same count and the same skipped rows, and leaves the
database as the first one left it, where every accepted row is the one product of its name.\<close>

theorem import_idempotent:
  assumes "vm_ok pf" "key_unique p_id (products (committed w))" "canonical_ids (committed w)"
    and "parse_and_validate_csv upload (categories (committed w)) (products (committed w)) = Inr (vs, ss)"
    and "names_agree pf (map p_name (products (committed w)) @ map ir_name vs)"
    and "import_csv pf snapshot_hash upload w = (Inr rep, w')" "rep_final_status rep = Some ''success''"
  shows "rep_imported rep = int (length vs) \<and> rep_skipped rep = ss
    \<and> list_all (settled pf (products (committed w'))) vs
    \<and> (\<exists>rep2 w2. import_csv pf snapshot_hash upload w' = (Inr rep2, w2) \<and> committed w2 = committed w'
        \<and> rep_imported rep2 = int (length vs) \<and> rep_skipped rep2 = ss \<and> rep_final_status rep2 = Some ''success'')"
proof -
  let ?w = "w\<lparr>db := committed w\<rparr>" and ?ps = "products (committed w)"
  obtain acc w1 where fold: "fold_io (import_row pf) (map dump_product_row vs) (0, []) ?w = (Inr acc, w1)"
    and c: "committed w' = db w1"
    using import_csv_success[OF assms(1,4,6,7)] by blast
  have v: "distinct (map (\<lambda>r. normalize (ir_name r)) vs)"
    "\<forall>r \<in> set vs. name_count ?ps (normalize (ir_name r)) \<le> 1
       \<and> pred_option (\<lambda>i. i \<in> cat_id ` set (categories (committed w))) (ir_category_id r)"
    using assms(4) judge_rows_valid[of "categories (committed w)" "name_count ?ps"]
    by (auto simp: parse_and_validate_csv_def split: sum.splits list.splits)
  obtain ps' where ps': "acc = (length vs, [])" "db w1 = (db ?w)\<lparr>products := ps'\<rparr>" "key_unique p_id ps'"
      "vs \<noteq> [] \<longrightarrow> index_unique p_sku ps'" "\<forall>r \<in> set vs. settled pf ps' r \<and> importable (committed w) r"
      "map p_name ps' = map p_name ?ps @ new_names pf ?ps vs"
    using import_all[OF fold] assms(2,3) lower_distinct[OF assms(5) v(1)] v(2) named_count[OF assms(5)] by auto
  have same: "parse_and_validate_csv upload (categories (committed w')) (products (committed w')) = Inr (vs, ss)"
    using parse_same_counts[OF counts_after[OF assms(5) v(1) ps'(6)]] assms(4) c ps'(2) by simp
  have again: "fold_io (import_row pf) (map dump_product_row vs) (0, []) (w'\<lparr>db := committed w'\<rparr>)
      = (Inr (0 + length vs, []), w'\<lparr>db := committed w'\<rparr>)"
    using ps' c assms(3) by (intro import_all_again) (simp_all add: importable_def canonical_ids_def)
  have "rep_imported rep = int (length vs) \<and> rep_skipped rep = ss"
    using import_csv_run[OF assms(1,4) fold[unfolded ps'(1)], of snapshot_hash] assms(6) by auto
  moreover have "list_all (settled pf (products (committed w'))) vs"
    using ps' c by (simp add: list_all_iff)
  moreover have "\<exists>rep2 w2. import_csv pf snapshot_hash upload w' = (Inr rep2, w2) \<and> committed w2 = committed w'
        \<and> rep_imported rep2 = int (length vs) \<and> rep_skipped rep2 = ss \<and> rep_final_status rep2 = Some ''success''"
    using import_csv_run[OF assms(1) same again[simplified], of snapshot_hash] by auto
  ultimately show ?thesis by blast
qed

section \<open>On concrete data\<close>

text \<open>Two products of the same name without a sku, one of them on the shelf.\<close>

definition skuless :: world where
  "skuless = sample_world\<lparr>committed := (committed sample_world)\<lparr>products :=
     map (\<lambda>i. \<lparr>p_id = i, p_name = ''Tea'', p_category_id = None, p_time_period_override = None, p_price_rub = None,
       p_description = None, p_image_url = None, p_is_active = True, p_sku = None, p_sort = 0\<rparr>) [''p1'', ''p2'', ''p3'']\<rparr>\<rparr>"

theorem missing_skus_filled_witness:
  "\<exists>res w'. generate_missing_skus ref_platform skuless = (Inr res, w') \<and> index_unique p_sku (products (committed w'))
     \<and> sgr_generated res = 3 \<and> list_all (\<lambda>r. p_sku r \<noteq> None) (products (committed w'))"
proof -
  have "key_unique p_id (products (committed skuless))" "index_unique p_sku (products (committed skuless))"
    "list_all (\<lambda>q. length (inv_sku q) \<le> 128) (inventory (committed skuless))"
    "list_all (\<lambda>r. length (base_sku r) + length (nat_str (length (products (committed skuless)))) < 128) (products (committed skuless))"
    "length (rows_where (\<lambda>r. p_sku r = None) (products (committed skuless))) = 3"
    by code_simp+
  then obtain res w' f where r: "generate_missing_skus ref_platform skuless = (Inr res, w')"
      "index_unique p_sku (products (committed w'))" "sgr_generated res = 3"
      "committed w' = (committed skuless)\<lparr>products :=
        map (\<lambda>r. if p_sku r = None then r\<lparr>p_sku := Some (f (p_id r))\<rparr> else r) (products (committed skuless))\<rparr>"
    using missing_skus_filled[of skuless ref_platform] by (auto simp: list_all_iff)
  then have "list_all (\<lambda>r. p_sku r \<noteq> None) (products (committed w'))" by (auto simp: list_all_iff)
  then show ?thesis using r by blast
qed

text \<open>The shelf's sku is adopted once, the others are numbered; a name that does not fit its column stops the batch.\<close>

theorem skus_on_a_shelf:
  "case generate_missing_skus ref_platform skuless of
     (Inr res, w') \<Rightarrow> map p_sku (products (committed w')) = [Some ''tea'', Some ''TEA'', Some ''TEA-2'']
   | _ \<Rightarrow> False"
  by code_simp

theorem long_names_stop_the_batch:
  "case generate_missing_skus ref_platform (skuless\<lparr>committed := (committed skuless)\<lparr>products :=
       map (\<lambda>r. r\<lparr>p_name := replicate 129 CHR ''a''\<rparr>) (products (committed skuless))\<rparr>\<rparr>) of
     (Inl e, w') \<Rightarrow> e = DataError ''value too long'' \<and> list_all (\<lambda>r. p_sku r = None) (products (committed w'))
   | _ \<Rightarrow> False"
  by code_simp

definition sample_upload :: string where
  "sample_upload = ''name,price,category'' @ [newline] @ ''tea ,200,Tea'' @ [newline] @ ''Mint,,'' @ [newline]
     @ ''Cola,90,Drinks'' @ [newline]"

definition sample_menu :: world where
  "sample_menu = two_categories\<lparr>committed := (committed two_categories)\<lparr>products := products sample_db\<rparr>\<rparr>"

text \<open>One product is updated, one is new, and a row with an unknown category is skipped.\<close>

theorem import_idempotent_witness:
  "\<exists>rep w' rep2 w2. import_csv ref_platform (\<lambda>_. ''hash'') (Inr sample_upload) sample_menu = (Inr rep, w')
     \<and> rep_imported rep = 2 \<and> length (products (committed w')) = 2 \<and> length (rep_skipped rep) = 1
     \<and> import_csv ref_platform (\<lambda>_. ''hash'') (Inr sample_upload) w' = (Inr rep2, w2)
     \<and> committed w2 = committed w' \<and> rep_imported rep2 = 2"
proof -
  let ?i = "import_csv ref_platform (\<lambda>_. ''hash'') (Inr sample_upload)"
  have "case ?i sample_menu of (Inr rep, w') \<Rightarrow> rep_final_status rep = Some ''success'' \<and> rep_imported rep = 2
      \<and> length (products (committed w')) = 2 \<and> length (rep_skipped rep) = 1 | _ \<Rightarrow> False"
    by code_simp
  then obtain rep w' where run: "?i sample_menu = (Inr rep, w')" "rep_final_status rep = Some ''success''"
      "rep_imported rep = 2" "length (products (committed w')) = 2" "length (rep_skipped rep) = 1"
    by (auto split: prod.splits sum.splits)
  have "case parse_and_validate_csv (Inr sample_upload) (categories (committed sample_menu)) (products (committed sample_menu)) of
      Inr (vs, ss) \<Rightarrow> names_agree ref_platform (map p_name (products (committed sample_menu)) @ map ir_name vs) | _ \<Rightarrow> False"
    by code_simp
  then obtain vs ss where parsed: "parse_and_validate_csv (Inr sample_upload) (categories (committed sample_menu))
        (products (committed sample_menu)) = Inr (vs, ss)"
      "names_agree ref_platform (map p_name (products (committed sample_menu)) @ map ir_name vs)"
    by (auto split: prod.splits sum.splits)
  have "key_unique p_id (products (committed sample_menu))" "canonical_ids (committed sample_menu)" by code_simp+
  then have "rep_imported rep = int (length vs) \<and> rep_skipped rep = ss
      \<and> list_all (settled ref_platform (products (committed w'))) vs
      \<and> (\<exists>rep2 w2. ?i w' = (Inr rep2, w2) \<and> committed w2 = committed w'
          \<and> rep_imported rep2 = int (length vs) \<and> rep_skipped rep2 = ss \<and> rep_final_status rep2 = Some ''success'')"
    by (intro import_idempotent[OF vm_ok_ref _ _ parsed run(1,2)])
  then show ?thesis using run by auto
qed

text \<open>
  Where they do not agree, the import adds a second product of what the parser
  takes for the same name, and the next import refuses the row as ambiguous.
\<close>

theorem import_makes_near_duplicates:
  "case import_csv ref_platform (\<lambda>_. ''hash'') (Inr (''name,price'' @ [newline] @ ''T ea,200'')) sample_menu of
     (Inr rep, w') \<Rightarrow> rep_imported rep = 1 \<and> map (normalize \<circ> p_name) (products (committed w')) = [''tea'', ''tea'']
       \<and> (case import_csv ref_platform (\<lambda>_. ''hash'') (Inr (''name,price'' @ [newline] @ ''T ea,200'')) w' of
            (Inr rep2, w2) \<Rightarrow> rep_imported rep2 = 0 \<and> length (rep_skipped rep2) = 1 | _ \<Rightarrow> False)
   | _ \<Rightarrow> False"
  by code_simp

end
