(* ===== verification/Schedule_Service.thy ===== *)
theory Schedule_Service
  imports Inventory_Service "HOL-Library.Product_Lexorder"
begin

text \<open>
  The service windows of the business (app/services/schedule_service.py): the rows
  that are in effect on a day, the context of the customer pages, and the view of
  the administrator. A time of day is kept in microseconds since midnight, a date in
  days since 1970-01-01, both local to the time zone of the menu. The clock of the
  world counts whole seconds, so the fraction of the current second is zero here.
\<close>

section \<open>The local clock\<close>

definition local_now :: "platform \<Rightarrow> int \<Rightarrow> int" where
  "local_now pf t = t + utc_offset pf t"

definition local_today :: "platform \<Rightarrow> int \<Rightarrow> int" where
  "local_today pf t = local_now pf t div 86400"

definition local_time :: "platform \<Rightarrow> int \<Rightarrow> int" where
  "local_time pf t = local_now pf t mod 86400 * 1000000"

section \<open>The windows in effect\<close>

text \<open>A row fills a slot: the permanent window of a period, or the window of one day.\<close>

type_synonym slot = "string \<times> int option"

definition slot :: "schedule_row \<Rightarrow> slot" where
  "slot r = (sw_period r, sw_effective_date r)"

definition PERIODS :: "string list" where
  "PERIODS = [''morning'', ''evening'']"

text \<open>WHERE period IN (...) AND (effective_date = :today OR effective_date IS NULL).\<close>

definition in_effect :: "int \<Rightarrow> schedule_row \<Rightarrow> bool" where
  "in_effect today r \<longleftrightarrow> sw_period r \<in> set PERIODS \<and> (sw_effective_date r = Some today \<or> sw_effective_date r = None)"

text \<open>ORDER BY period, effective_date NULLS LAST; of the two periods the evening comes first.\<close>

definition window_order :: "schedule_row \<Rightarrow> bool \<times> bool \<times> int" where
  "window_order r = (sw_period r \<noteq> ''evening'', sw_effective_date r = None,
     (case sw_effective_date r of None \<Rightarrow> 0 | Some d \<Rightarrow> d))"

definition window_rows :: "int \<Rightarrow> database \<Rightarrow> schedule_row list" where
  "window_rows today d = sort_key window_order (rows_where (in_effect today) (schedule_windows d))"

text \<open>The first row of a period is the one in effect.\<close>

definition load_windows :: "platform \<Rightarrow> (world, string \<Rightarrow> schedule_row option) io" where
  "load_windows pf = bind_io (gets_io now) (\<lambda>t. with_session (
     bind_io (select_db (window_rows (local_today pf t))) (\<lambda>rows.
       ret (\<lambda>period. first_where (\<lambda>r. sw_period r = period) rows))))"

section \<open>The context of the customer pages\<close>

definition EOD_SENTINEL :: int where
  "EOD_SENTINEL = (23 * 3600 + 59 * 60 + 59) * 1000000"

definition window_open :: "int \<Rightarrow> schedule_row option \<Rightarrow> bool" where
  "window_open now_time win = (case win of
       None \<Rightarrow> False
     | Some r \<Rightarrow> sw_is_active r \<and>
         (if sw_end_time r = EOD_SENTINEL then sw_start_time r \<le> now_time
          else sw_start_time r \<le> now_time \<and> now_time \<le> sw_end_time r))"

text \<open>\<open>time.isoformat\<close>: the fraction is printed when there is one.\<close>

definition time_isoformat :: "int \<Rightarrow> string" where
  "time_isoformat us = iso_time (us div 1000000)
     @ (if us mod 1000000 = 0 then [] else CHR ''.'' # padded 6 (us mod 1000000))"

record PreorderInfo =
  poi_is_preorder :: bool
  poi_time_until :: int
  poi_opens_at :: string

record MenuWindowContext =
  mwc_is_open :: bool
  mwc_is_evening_preorder :: bool
  mwc_morning_start :: "string option"
  mwc_morning_end :: "string option"
  mwc_evening_start :: "string option"
  mwc_evening_end :: "string option"
  mwc_preorder_info :: "PreorderInfo option"

definition preorder_of :: "bool \<Rightarrow> int \<Rightarrow> schedule_row option \<Rightarrow> PreorderInfo option" where
  "preorder_of is_open now_time evening = (case evening of
       None \<Rightarrow> None
     | Some r \<Rightarrow>
         if \<not> is_open \<and> sw_is_active r \<and> now_time < sw_start_time r
         then Some \<lparr>poi_is_preorder = True, poi_time_until = (sw_start_time r - now_time) div 1000000,
                poi_opens_at = time_isoformat (sw_start_time r)\<rparr>
         else None)"

definition window_context ::
  "BusinessScheduleState \<Rightarrow> int \<Rightarrow> (string \<Rightarrow> schedule_row option) \<Rightarrow> MenuWindowContext" where
  "window_context current_state now_time windows =
     (let morning = windows ''morning''; evening = windows ''evening'';
          is_open = (current_state = BusinessScheduleState.OPEN
                     \<and> (window_open now_time morning \<or> window_open now_time evening));
          info = preorder_of is_open now_time evening
      in \<lparr>mwc_is_open = is_open, mwc_is_evening_preorder = (info \<noteq> None),
          mwc_morning_start = map_option (time_isoformat \<circ> sw_start_time) morning,
          mwc_morning_end = map_option (time_isoformat \<circ> sw_end_time) morning,
          mwc_evening_start = map_option (time_isoformat \<circ> sw_start_time) evening,
          mwc_evening_end = map_option (time_isoformat \<circ> sw_end_time) evening,
          mwc_preorder_info = info\<rparr>)"

definition get_menu_window_context ::
  "platform \<Rightarrow> BusinessScheduleState \<Rightarrow> (world, MenuWindowContext) io" where
  "get_menu_window_context pf current_state =
     bind_io (load_windows pf) (\<lambda>windows.
     bind_io (gets_io now) (\<lambda>t. ret (window_context current_state (local_time pf t) windows)))"

section \<open>The view of the administrator\<close>

record AdminWindows =
  aw_permanent :: "schedule_row option"
  aw_today_override :: "schedule_row option"

text \<open>The loop assigns row by row, so the last row of a slot stays.\<close>

definition add_window :: "schedule_row \<Rightarrow> AdminWindows \<Rightarrow> AdminWindows" where
  "add_window r out = (if sw_effective_date r = None then out\<lparr>aw_permanent := Some r\<rparr>
     else out\<lparr>aw_today_override := Some r\<rparr>)"

definition get_admin_windows :: "platform \<Rightarrow> (world, (string \<times> AdminWindows) list) io" where
  "get_admin_windows pf = bind_io (gets_io now) (\<lambda>t. with_session (
     bind_io (select_db (window_rows (local_today pf t))) (\<lambda>rows.
       ret (map (\<lambda>period. (period, fold add_window (rows_where (\<lambda>r. sw_period r = period) rows)
         \<lparr>aw_permanent = None, aw_today_override = None\<rparr>)) PERIODS))))"

section \<open>Slots decide what is in effect\<close>

text \<open>The hours of each slot that has a row.\<close>

definition slots :: "database \<Rightarrow> slot \<Rightarrow> schedule_row option" where
  "slots d k = first_where (\<lambda>r. slot r = k) (schedule_windows d)"

lemma first_where_rows: "first_where p t = (case rows_where p t of [] \<Rightarrow> None | r # _ \<Rightarrow> Some r)"
  by (induction t) auto

lemma sort_two_keys:
  fixes f :: "'r \<Rightarrow> 'k::linorder"
  assumes "a < b" "\<forall>r \<in> set t. f r = (if q r then b else a)"
  shows "sort_key f t = filter (\<lambda>r. \<not> q r) t @ filter q t"
  using assms(2)
proof (induction t)
  case (Cons r t)
  have later: "insort_key f x (xs @ ys) = xs @ insort_key f x ys"
    if "\<forall>y \<in> set xs. f y < f x" for x xs ys
    using that by (induction xs) auto
  have first: "insort_key f x xs = x # xs" if "\<forall>y \<in> set xs. f x \<le> f y" for x xs
    using that by (cases xs) auto
  have vals: "f y = (if q y then b else a)" if "y \<in> set (r # t)" for y
    using that Cons.prems by blast
  show ?case
  proof (cases "q r")
    case True
    have "insort_key f r (filter (\<lambda>r. \<not> q r) t @ filter q t) = filter (\<lambda>r. \<not> q r) t @ insort_key f r (filter q t)"
      using vals True assms(1) by (intro later) auto
    moreover have "insort_key f r (filter q t) = r # filter q t"
      using vals True by (intro first) auto
    ultimately show ?thesis using Cons True by simp
  next
    case False
    have "insort_key f r (filter (\<lambda>r. \<not> q r) t @ filter q t) = r # (filter (\<lambda>r. \<not> q r) t @ filter q t)"
      using vals False assms(1) by (intro first) (auto simp: less_imp_le)
    then show ?thesis using Cons False by simp
  qed
qed simp

text \<open>An override of the day goes before the permanent window.\<close>

lemma window_in_effect:
  assumes "period \<in> set PERIODS"
  shows "first_where (\<lambda>r. sw_period r = period) (window_rows today d) =
    (case slots d (period, Some today) of None \<Rightarrow> slots d (period, None) | Some r \<Rightarrow> Some r)"
proof -
  let ?t = "schedule_windows d"
  let ?rs = "filter (\<lambda>r. sw_period r = period) (rows_where (in_effect today) ?t)"
  let ?n = "\<lambda>r. sw_effective_date r = None"
  have rs: "?rs = filter (\<lambda>r. sw_period r = period \<and> (sw_effective_date r = Some today \<or> ?n r)) ?t"
    using assms by (auto simp: rows_where_def in_effect_def intro!: filter_cong)
  have "sort_key window_order ?rs = filter (\<lambda>r. \<not> ?n r) ?rs @ filter ?n ?rs"
  proof (rule sort_two_keys)
    show "(period \<noteq> ''evening'', False, today) < (period \<noteq> ''evening'', True, 0)" by simp
    show "\<forall>r \<in> set ?rs. window_order r = (if ?n r then (period \<noteq> ''evening'', True, 0)
        else (period \<noteq> ''evening'', False, today))"
      unfolding rs by (auto simp: window_order_def)
  qed
  moreover have "filter (\<lambda>r. \<not> ?n r) ?rs = rows_where (\<lambda>r. slot r = (period, Some today)) ?t"
    "filter ?n ?rs = rows_where (\<lambda>r. slot r = (period, None)) ?t"
    unfolding rs by (auto simp: rows_where_def slot_def intro!: filter_cong)
  ultimately have "rows_where (\<lambda>r. sw_period r = period) (window_rows today d) =
      rows_where (\<lambda>r. slot r = (period, Some today)) ?t @ rows_where (\<lambda>r. slot r = (period, None)) ?t"
    by (simp add: window_rows_def rows_where_def filter_sort)
  then show ?thesis
    unfolding slots_def first_where_rows by (auto split: list.splits)
qed

lemma load_windows_run:
  "load_windows pf w = (Inr (\<lambda>period. first_where (\<lambda>r. sw_period r = period)
     (window_rows (local_today pf (now w)) (committed w))), w\<lparr>db := committed w\<rparr>)"
  by (simp add: load_windows_def with_session_apply bind_io_apply)

text \<open>The context depends on the slots of the day only.\<close>

definition windows_of :: "int \<Rightarrow> (slot \<Rightarrow> schedule_row option) \<Rightarrow> string \<Rightarrow> schedule_row option" where
  "windows_of today s period = (case s (period, Some today) of None \<Rightarrow> s (period, None) | Some r \<Rightarrow> Some r)"

lemma window_context_cong:
  "v ''morning'' = u ''morning'' \<Longrightarrow> v ''evening'' = u ''evening'' \<Longrightarrow> window_context st t v = window_context st t u"
  by (simp add: window_context_def)

lemma menu_window_context_run:
  "get_menu_window_context pf st w = (Inr (window_context st (local_time pf (now w))
     (windows_of (local_today pf (now w)) (slots (committed w)))), w\<lparr>db := committed w\<rparr>)"
proof -
  have "window_context st t (\<lambda>period. first_where (\<lambda>r. sw_period r = period) (window_rows today d))
      = window_context st t (windows_of today (slots d))" for t today d
    by (rule window_context_cong) (simp_all add: window_in_effect windows_of_def PERIODS_def)
  then show ?thesis
    by (simp add: get_menu_window_context_def bind_io_apply load_windows_run)
qed

end
