(* ===== verification/Schedule_Tools.thy ===== *)
theory Schedule_Tools
  imports Agent_Core Schedule_Service
begin

text \<open>
  The schedule agent (app/agents/schedule_agent.py, app/programs/schedule_agent_program.py,
  app/tools/schedule_agent_tools.py): commands that set the hours of a period, for
  good or for the current day, and that drop the hours of the day. The validators of this
  agent keep no reason, and a rejected command comes back without one.
\<close>

section \<open>Times\<close>

text \<open>\<open>datetime.time\<close>: microseconds since midnight, and the offset of a time zone if it has one.\<close>

record py_time =
  pt_micros :: int
  pt_offset :: "int option"

definition digits_int :: "string \<Rightarrow> int" where
  "digits_int ds = int (digits_value 0 ds)"

definition two_digits :: "string \<Rightarrow> (int \<times> string) option" where
  "two_digits s = (case s of
       a # b # r \<Rightarrow> if is_digit a \<and> is_digit b then Some (digits_int [a, b], r) else None
     | _ \<Rightarrow> None)"

text \<open>A decimal mark and digits, of which six count.\<close>

definition fraction :: "string \<Rightarrow> int option" where
  "fraction s = (case s of
       c # ds \<Rightarrow> if (c = CHR ''.'' \<or> c = CHR '','') \<and> ds \<noteq> [] \<and> list_all is_digit ds
                 then Some (digits_int (take 6 (ds @ ''000000''))) else None
     | [] \<Rightarrow> None)"

definition seconds_part :: "int \<Rightarrow> int \<Rightarrow> string \<Rightarrow> (int \<times> int \<times> int \<times> int) option" where
  "seconds_part h m s = (case two_digits s of
       None \<Rightarrow> None
     | Some (sec, []) \<Rightarrow> Some (h, m, sec, 0)
     | Some (sec, f) \<Rightarrow> map_option (\<lambda>us. (h, m, sec, us)) (fraction f))"

text \<open>
  HH[:MM[:SS[.f]]] or HH[MM[SS[.f]]], as \<open>time.fromisoformat\<close> documents it: the
  separators are all there or none is, and only seconds have a fraction. What
  the interpreter accepts beyond its documentation, such as a separator left over
  in front of the zone, is not modelled.
\<close>

definition clock_parts :: "string \<Rightarrow> (int \<times> int \<times> int \<times> int) option" where
  "clock_parts s = (case two_digits s of
       None \<Rightarrow> None
     | Some (h, []) \<Rightarrow> Some (h, 0, 0, 0)
     | Some (h, c # r) \<Rightarrow>
         let extended = (c = CHR '':'') in
         (case two_digits (if extended then r else c # r) of
            None \<Rightarrow> None
          | Some (m, []) \<Rightarrow> Some (h, m, 0, 0)
          | Some (m, d # q) \<Rightarrow>
              if \<not> extended then seconds_part h m (d # q)
              else if d = CHR '':'' then seconds_part h m q else None))"

definition clock_micros :: "int \<times> int \<times> int \<times> int \<Rightarrow> int" where
  "clock_micros = (\<lambda>(h, m, s, us). ((h * 60 + m) * 60 + s) * 1000000 + us)"

definition zone_char :: "char \<Rightarrow> bool" where
  "zone_char c \<longleftrightarrow> c = CHR ''+'' \<or> c = CHR ''-'' \<or> c = CHR ''Z''"

text \<open>The offset behind the clock; None is a malformed one. It is less than a day.\<close>

definition zone_offset :: "string \<Rightarrow> int option option" where
  "zone_offset z = (case z of
       [] \<Rightarrow> Some None
     | c # r \<Rightarrow>
         if c = CHR ''Z'' then (if r = [] then Some (Some 0) else None)
         else case clock_parts r of
             None \<Rightarrow> None
           | Some p \<Rightarrow> if clock_micros p < 86400 * 1000000
                       then Some (Some (if c = CHR ''-'' then - clock_micros p else clock_micros p)) else None)"

definition time_fromisoformat :: "string \<Rightarrow> py_time option" where
  "time_fromisoformat s =
     (let t = (case s of c # r \<Rightarrow> if c = CHR ''T'' then r else s | [] \<Rightarrow> s) in
      case (clock_parts (takeWhile (\<lambda>c. \<not> zone_char c) t), zone_offset (dropWhile (\<lambda>c. \<not> zone_char c) t)) of
        (Some (h, m, sec, us), Some z) \<Rightarrow>
          if h < 24 \<and> m < 60 \<and> sec < 60 then Some \<lparr>pt_micros = clock_micros (h, m, sec, us), pt_offset = z\<rparr> else None
      | _ \<Rightarrow> None)"

definition parse_time :: "json \<Rightarrow> py_time option" where
  "parse_time v = (case v of
       JStr s \<Rightarrow> if py_strip s = [] then None else time_fromisoformat (py_strip s)
     | _ \<Rightarrow> None)"

text \<open>
  \<open>start >= end\<close>: a time with a zone and one without cannot be ordered. Across
  different zones the whole seconds count first, with the offsets rounded down to
  seconds, and then the fractions of the two times.
\<close>

definition zone_seconds :: "py_time \<Rightarrow> int \<Rightarrow> int" where
  "zone_seconds t z = pt_micros t div 1000000 - z div 1000000"

definition time_ge :: "py_time \<Rightarrow> py_time \<Rightarrow> bool result" where
  "time_ge a b =
     (if pt_offset a = pt_offset b then Inr (pt_micros b \<le> pt_micros a)
      else case (pt_offset a, pt_offset b) of
        (Some x, Some y) \<Rightarrow> Inr (zone_seconds b y < zone_seconds a x
            \<or> zone_seconds b y = zone_seconds a x \<and> pt_micros b mod 1000000 \<le> pt_micros a mod 1000000)
      | _ \<Rightarrow> Inl (TypeError ''offset-naive and offset-aware times''))"

section \<open>Commands\<close>

record ScheduleCommand =
  sc_period :: string
  sc_action :: string
  sc_scope :: string
  sc_start_time :: json
  sc_end_time :: json

definition VALID_SCHEDULE_ACTIONS :: "string list" where
  "VALID_SCHEDULE_ACTIONS = [''set_hours'', ''reset_to_default'']"

definition VALID_SCOPES :: "string list" where
  "VALID_SCOPES = [''today'', ''permanent'']"

definition required_schedule_shape :: "json \<Rightarrow> ScheduleCommand option" where
  "required_schedule_shape command = (case command of
       JObj kvs \<Rightarrow>
         (case (json_get ''period'' kvs, json_get ''action'' kvs, json_get ''scope'' kvs) of
            (JStr p, JStr a, JStr s) \<Rightarrow>
              if p \<in> set PERIODS \<and> a \<in> set VALID_SCHEDULE_ACTIONS \<and> s \<in> set VALID_SCOPES
              then Some \<lparr>sc_period = p, sc_action = a, sc_scope = s,
                     sc_start_time = json_get ''start_time'' kvs, sc_end_time = json_get ''end_time'' kvs\<rparr>
              else None
          | _ \<Rightarrow> None)
     | _ \<Rightarrow> None)"

text \<open>Both times of a command, when both are valid.\<close>

definition command_times :: "ScheduleCommand \<Rightarrow> (py_time \<times> py_time) option" where
  "command_times c = (case (parse_time (sc_start_time c), parse_time (sc_end_time c)) of
       (Some s, Some e) \<Rightarrow> Some (s, e)
     | _ \<Rightarrow> None)"

section \<open>The collect phase\<close>

definition sentinel :: "bool \<Rightarrow> (world, json) io" where
  "sentinel b = ret (JInt (if b then 1 else 0))"

definition parseable_schedule :: "json \<Rightarrow> bool" where
  "parseable_schedule v = (case required_schedule_shape v of
       None \<Rightarrow> False
     | Some c \<Rightarrow> sc_action c = ''set_hours'' \<longrightarrow> command_times c \<noteq> None)"

definition validate_schedule_command :: "platform \<Rightarrow> world tool" where
  "validate_schedule_command pf kw = (case map_of kw ''llm_output'' of
       Some (JStr s) \<Rightarrow>
         if py_strip s = [] then sentinel False
         else (case json_loads pf s of Inl _ \<Rightarrow> sentinel False | Inr data \<Rightarrow> sentinel (parseable_schedule data))
     | Some v \<Rightarrow> if py_truthy v then raise (AttributeError ''strip'') else sentinel False
     | None \<Rightarrow> raise (TypeError ''llm_output''))"

section \<open>The apply phase\<close>

definition validate_apply_schedule_command :: "platform \<Rightarrow> world tool" where
  "validate_apply_schedule_command pf kw = bind_io (command_arg kw) (\<lambda>command.
     case required_schedule_shape command of
       None \<Rightarrow> sentinel False
     | Some c \<Rightarrow>
         if sc_action c = ''set_hours''
         then (case command_times c of
             None \<Rightarrow> sentinel False
           | Some (s, e) \<Rightarrow> bind_io (lift_result (time_ge s e)) (\<lambda>ge. sentinel (\<not> ge)))
         else sentinel (sc_scope c = ''today''))"

text \<open>
  INSERT ... ON CONFLICT on the slot DO UPDATE: the partial unique indexes are the
  conflict targets. A TIME column takes the clock of a time, the driver drops its zone.
\<close>

definition upsert_window :: "slot \<Rightarrow> py_time \<Rightarrow> py_time \<Rightarrow> (world, unit) io" where
  "upsert_window k s e = bind_io new_uuid (\<lambda>i.
     bind_io (select_db schedule_windows) (\<lambda>t.
       if k \<in> slot ` set t
       then update_db (\<lambda>d. d\<lparr>schedule_windows := update_where (\<lambda>r. slot r = k)
              (\<lambda>r. r\<lparr>sw_start_time := pt_micros s, sw_end_time := pt_micros e, sw_is_active := True\<rparr>) t\<rparr>)
       else if i \<in> sw_id ` set t then raise (IntegrityError ''schedule_windows_pkey'')
       else update_db (\<lambda>d. d\<lparr>schedule_windows := t @ [\<lparr>sw_id = i, sw_period = fst k, sw_start_time = pt_micros s,
              sw_end_time = pt_micros e, sw_is_active = True, sw_effective_date = snd k\<rparr>]\<rparr>)))"

definition schedule_applied :: "ScheduleCommand \<Rightarrow> (string \<times> json) list \<Rightarrow> json" where
  "schedule_applied c extra = JObj ([(''applied'', JBool True), (''period'', JStr (sc_period c)),
     (''action'', JStr (sc_action c)), (''scope'', JStr (sc_scope c))] @ extra)"

definition set_hours :: "platform \<Rightarrow> ScheduleCommand \<Rightarrow> (world, json) io" where
  "set_hours pf c = (case command_times c of
       None \<Rightarrow> raise (ValueError ''apply_schedule_command: invalid times at write time'')
     | Some (s, e) \<Rightarrow> bind_io (lift_result (time_ge s e)) (\<lambda>ge.
         if ge then raise (ValueError ''apply_schedule_command: start_time >= end_time at write time'')
         else bind_io (gets_io now) (\<lambda>t.
              bind_io (upsert_window (sc_period c,
                if sc_scope c = ''permanent'' then None else Some (local_today pf t)) s e) (\<lambda>_.
                ret (schedule_applied c [])))))"

definition reset_to_default :: "platform \<Rightarrow> ScheduleCommand \<Rightarrow> (world, json) io" where
  "reset_to_default pf c =
     (if sc_action c \<noteq> ''reset_to_default'' \<or> sc_scope c \<noteq> ''today'' then raise (AssertionError [])
      else bind_io (gets_io now) (\<lambda>t.
           let k = (sc_period c, Some (local_today pf t)) in
           bind_io (select_db (\<lambda>d. length (rows_where (\<lambda>r. slot r = k) (schedule_windows d)))) (\<lambda>deleted.
           bind_io (update_db (\<lambda>d. d\<lparr>schedule_windows := delete_where (\<lambda>r. slot r = k) (schedule_windows d)\<rparr>)) (\<lambda>_.
             ret (schedule_applied c [(''deleted'', JInt (int deleted))])))))"

definition apply_schedule_command :: "platform \<Rightarrow> world tool" where
  "apply_schedule_command pf kw = bind_io (command_arg kw) (\<lambda>command.
     case required_schedule_shape command of
       None \<Rightarrow> raise (ValueError ''apply_schedule_command: malformed command'')
     | Some c \<Rightarrow> if sc_action c = ''set_hours'' then set_hours pf c else reset_to_default pf c)"

section \<open>The agent\<close>

definition PROGRAM_COLLECT_SCHEDULE :: program where
  "PROGRAM_COLLECT_SCHEDULE = collect_program ''schedule_agent_collect'' ''validate_schedule_command''
     ''collect_schedule_command''"

definition PROGRAM_APPLY_SCHEDULE :: program where
  "PROGRAM_APPLY_SCHEDULE = apply_program ''schedule_agent_apply'' ''validate_apply_schedule_command''
     ''apply_schedule_command'' ''report_invalid_schedule_command''"

definition SCHEDULE_AGENT_TOOLS :: "platform \<Rightarrow> (string \<times> world tool) list" where
  "SCHEDULE_AGENT_TOOLS pf =
     [(''validate_schedule_command'', validate_schedule_command pf),
      (''collect_schedule_command'', pass_command),
      (''report_collect_failure'', report_collect_failure pf)]"

definition SCHEDULE_APPLY_TOOLS :: "platform \<Rightarrow> (string \<times> world tool) list" where
  "SCHEDULE_APPLY_TOOLS pf =
     [(''validate_apply_schedule_command'', validate_apply_schedule_command pf),
      (''apply_schedule_command'', apply_schedule_command pf),
      (''report_invalid_schedule_command'', report_failure pf ''INVALID:'')]"

definition collect_schedule :: "platform \<Rightarrow> json \<Rightarrow> (world, AgentResult) io" where
  "collect_schedule pf input_text = collect_command pf
     (governed pf SCHEDULE_AGENT_TOOL_CAPABILITIES (SCHEDULE_AGENT_TOOLS pf)) PROGRAM_COLLECT_SCHEDULE
     [(''input_text'', input_text)]"

definition apply_schedule :: "platform \<Rightarrow> json \<Rightarrow> (world, ApplyResult) io" where
  "apply_schedule pf command = apply_command pf False
     (governed pf SCHEDULE_AGENT_APPLY_TOOL_CAPABILITIES (SCHEDULE_APPLY_TOOLS pf)) PROGRAM_APPLY_SCHEDULE command"

section \<open>The phases meet their contracts\<close>

lemma judges_schedule: "judges (validate_schedule_command pf)
  (\<lambda>t. py_strip t \<noteq> [] \<and> (case json_loads pf t of Inl _ \<Rightarrow> False | Inr v \<Rightarrow> parseable_schedule v))"
  by (auto simp: judges_def validate_schedule_command_def sentinel_def same_diagnostics split: sum.splits)

interpretation schedule_collect: collect_phase SCHEDULE_AGENT_TOOLS SCHEDULE_AGENT_TOOL_CAPABILITIES
  "''validate_schedule_command''" "''collect_schedule_command''" validate_schedule_command
  "\<lambda>pf t. py_strip t \<noteq> [] \<and> (case json_loads pf t of Inl _ \<Rightarrow> False | Inr v \<Rightarrow> parseable_schedule v)"
  by unfold_locales (simp_all add: SCHEDULE_AGENT_TOOLS_def SCHEDULE_AGENT_TOOL_CAPABILITIES_def judges_schedule)

lemma verdict_sentinel: "verdict (sentinel b)"
  by (simp add: verdict_def sentinel_def same_diagnostics)

lemma verdict_schedule: "verdict (validate_apply_schedule_command pf kw)"
  unfolding validate_apply_schedule_command_def split_beta
  by (intro verdict_intros verdict_sentinel)+

lemma no_commit_schedule: "no_commit (apply_schedule_command pf kw)"
  unfolding apply_schedule_command_def set_hours_def reset_to_default_def upsert_window_def Let_def split_beta
  by (intro no_commit_bind no_commit_branch no_commit_cases no_commit_basic reads_no_commit verdict_intros)+

lemma schedule_output: "yields (\<lambda>out. out \<noteq> JNull) (apply_schedule_command pf kw)"
  unfolding apply_schedule_command_def set_hours_def reset_to_default_def schedule_applied_def Let_def split_beta
  by (intro yields_intros json.distinct)+

interpretation schedule_apply: apply_phase SCHEDULE_APPLY_TOOLS SCHEDULE_AGENT_APPLY_TOOL_CAPABILITIES
  "''validate_apply_schedule_command''" "''apply_schedule_command''" "''report_invalid_schedule_command''"
  validate_apply_schedule_command apply_schedule_command "''INVALID:''"
  by unfold_locales (auto simp: SCHEDULE_APPLY_TOOLS_def SCHEDULE_AGENT_APPLY_TOOL_CAPABILITIES_def verdict_schedule
      no_commit_schedule schedule_output)

end
