(* ===== verification/Schedule_Properties.thy ===== *)
theory Schedule_Properties
  imports Schedule_Tools Samples
begin

text \<open>
  What the schedule commands do to the service windows: the apply phase refines a
  calendar, which gives hours to slots, and an override of the day is what customers
  see on that day and on no other.
\<close>

section \<open>The calendar\<close>

type_synonym hours = "int \<times> int \<times> bool"

definition hours_of :: "schedule_row \<Rightarrow> hours" where
  "hours_of r = (sw_start_time r, sw_end_time r, sw_is_active r)"

definition calendar :: "database \<Rightarrow> slot \<Rightarrow> hours option" where
  "calendar d k = map_option hours_of (slots d k)"

definition command_slot :: "int \<Rightarrow> ScheduleCommand \<Rightarrow> slot" where
  "command_slot today c = (sc_period c, if sc_scope c = ''permanent'' then None else Some today)"

text \<open>What a command means: hours for a slot, or a day without hours of its own.\<close>

definition calendar_step :: "int \<Rightarrow> json \<Rightarrow> (slot \<Rightarrow> hours option) \<Rightarrow> (slot \<Rightarrow> hours option) option" where
  "calendar_step today command cal = (case required_schedule_shape command of
       None \<Rightarrow> None
     | Some c \<Rightarrow>
         if sc_action c = ''set_hours''
         then (case command_times c of
             None \<Rightarrow> None
           | Some (s, e) \<Rightarrow> if time_ge s e = Inr False
               then Some (cal(command_slot today c \<mapsto> (pt_micros s, pt_micros e, True))) else None)
         else if sc_scope c = ''today'' then Some (cal(command_slot today c := None)) else None)"

section \<open>The writes\<close>

lemma upsert_windowE:
  assumes "upsert_window k s e w = (Inr u, w')"
  obtains ws where "db w' = (db w)\<lparr>schedule_windows := ws\<rparr>"
    "calendar (db w') = (calendar (db w))(k \<mapsto> (pt_micros s, pt_micros e, True))"
proof -
  let ?t = "schedule_windows (db w)"
  let ?f = "\<lambda>r. r\<lparr>sw_start_time := pt_micros s, sw_end_time := pt_micros e, sw_is_active := True\<rparr>"
  show ?thesis
  proof (cases "k \<in> slot ` set ?t")
    case True
    then have w': "db w' = (db w)\<lparr>schedule_windows := update_where (\<lambda>r. slot r = k) ?f ?t\<rparr>"
      using assms unfolding upsert_window_def by (elim io_elims) simp_all
    have f: "slot (?f r) = slot r" for r by (simp add: slot_def)
    obtain r where "first_where (\<lambda>r. slot r = k) ?t = Some r"
      using True first_where_key_None[of slot k ?t] by fastforce
    then have "calendar (db w') j = ((calendar (db w))(k \<mapsto> (pt_micros s, pt_micros e, True))) j" for j
      using first_where_update_key[where key = slot and f = ?f and k = j and k' = k and t = ?t] f w'
      by (auto simp: calendar_def slots_def hours_of_def)
    then show ?thesis by (intro that[OF w']) (rule ext)
  next
    case False
    then obtain i where w': "db w' = (db w)\<lparr>schedule_windows := ?t @ [\<lparr>sw_id = i, sw_period = fst k,
        sw_start_time = pt_micros s, sw_end_time = pt_micros e, sw_is_active = True, sw_effective_date = snd k\<rparr>]\<rparr>"
      using assms unfolding upsert_window_def by (elim io_elims) simp_all
    have "first_where (\<lambda>r. slot r = k) ?t = None" using False first_where_key_None[of slot k ?t] by simp
    then have "calendar (db w') j = ((calendar (db w))(k \<mapsto> (pt_micros s, pt_micros e, True))) j" for j
      using w' by (cases k) (auto simp: calendar_def slots_def hours_of_def first_where_append slot_def split: option.splits)
    then show ?thesis by (intro that[OF w']) (rule ext)
  qed
qed

lemma upsert_window_fresh:
  "uuids w (uuid_next w) \<notin> sw_id ` set (schedule_windows (db w)) \<Longrightarrow> \<exists>w'. upsert_window k s e w = (Inr (), w')"
  by (simp add: upsert_window_def bind_io_apply)

lemma calendar_delete:
  "calendar (d\<lparr>schedule_windows := delete_where (\<lambda>r. slot r = k) (schedule_windows d)\<rparr>) = (calendar d)(k := None)"
proof -
  have "first_where (\<lambda>r. slot r = j) (delete_where (\<lambda>r. slot r = k) t)
      = (if j = k then None else first_where (\<lambda>r. slot r = j) t)" for j t
    by (induction t) auto
  then show ?thesis by (auto simp: calendar_def slots_def)
qed

lemma shape_values: "required_schedule_shape command = Some c \<Longrightarrow>
    sc_period c \<in> set PERIODS \<and> (sc_action c = ''set_hours'' \<or> sc_action c = ''reset_to_default'')
    \<and> (sc_scope c = ''today'' \<or> sc_scope c = ''permanent'')"
  by (auto simp: required_schedule_shape_def VALID_SCHEDULE_ACTIONS_def VALID_SCOPES_def
      split: json.splits if_splits)

text \<open>The validator accepts exactly the commands that mean something.\<close>

lemma schedule_validate:
  "validate_apply_schedule_command pf [(''command'', command)] w = (Inr (JInt 1), w1) \<longleftrightarrow>
     calendar_step today command cal \<noteq> None \<and> w1 = w"
  using shape_values[of command]
  by (auto simp: validate_apply_schedule_command_def calendar_step_def sentinel_def bind_io_apply
      split: option.splits sum.splits if_splits)

lemma schedule_write:
  assumes "apply_schedule_command pf [(''command'', command)] w = (Inr out, w')"
  shows "calendar_step (local_today pf (now w)) command (calendar (db w)) = Some (calendar (db w'))
    \<and> (\<exists>ws. db w' = (db w)\<lparr>schedule_windows := ws\<rparr>)"
proof -
  let ?today = "local_today pf (now w)"
  obtain c where c: "required_schedule_shape command = Some c"
    using assms by (auto simp: apply_schedule_command_def split: option.splits)
  show ?thesis
  proof (cases "sc_action c = ''set_hours''")
    case True
    then have run: "set_hours pf c w = (Inr out, w')" using assms c by (simp add: apply_schedule_command_def)
    then obtain s e where t: "command_times c = Some (s, e)"
      by (auto simp: set_hours_def split: option.splits)
    have ge: "time_ge s e = Inr False"
      using run t by (cases "time_ge s e") (auto simp: set_hours_def bind_io_apply split: if_splits)
    obtain u w2 where up: "upsert_window (command_slot ?today c) s e w = (Inr u, w2)" "w' = w2"
      using run t ge by (auto simp: set_hours_def bind_io_apply command_slot_def split: prod.splits sum.splits)
    show ?thesis
      using up(1) by (rule upsert_windowE) (use c True t ge up(2) in \<open>auto simp: calendar_step_def\<close>)
  next
    case False
    then have run: "reset_to_default pf c w = (Inr out, w')" using assms c by (simp add: apply_schedule_command_def)
    then have scope: "sc_scope c = ''today''"
      by (auto simp: reset_to_default_def split: if_splits)
    have "db w' = (db w)\<lparr>schedule_windows := delete_where (\<lambda>r. slot r = command_slot ?today c) (schedule_windows (db w))\<rparr>"
      using run scope by (auto simp: reset_to_default_def Let_def bind_io_apply command_slot_def split: if_splits)
    then show ?thesis using c False scope by (auto simp: calendar_step_def calendar_delete)
  qed
qed

lemma schedule_writes:
  assumes "calendar_step today command cal \<noteq> None" "uuids w (uuid_next w) \<notin> sw_id ` set (schedule_windows (db w))"
  shows "\<exists>out w'. apply_schedule_command pf [(''command'', command)] w = (Inr out, w')"
proof -
  obtain c where c: "required_schedule_shape command = Some c"
    using assms(1) by (auto simp: calendar_step_def split: option.splits)
  show ?thesis
  proof (cases "sc_action c = ''set_hours''")
    case True
    then obtain s e where t: "command_times c = Some (s, e)" "time_ge s e = Inr False"
      using assms(1) c by (auto simp: calendar_step_def split: option.splits if_splits)
    then show ?thesis
      using c True upsert_window_fresh[OF assms(2), of "(sc_period c, if sc_scope c = ''permanent'' then None
          else Some (local_today pf (now w)))" s e]
      by (auto simp: apply_schedule_command_def set_hours_def bind_io_apply)
  next
    case False
    then have "sc_action c = ''reset_to_default''" "sc_scope c = ''today''"
      using assms(1) c shape_values[OF c] by (auto simp: calendar_step_def split: if_splits)
    then show ?thesis using c by (simp add: apply_schedule_command_def reset_to_default_def Let_def bind_io_apply)
  qed
qed

section \<open>Refinement\<close>

lemma apply_schedule_cases:
  assumes "vm_ok pf" "apply_schedule pf command w = (r, w')"
  shows "\<exists>res. r = Inr res \<and>
    (if apr_applied res
     then calendar_step (local_today pf (now w)) command (calendar (committed w)) = Some (calendar (committed w'))
        \<and> (\<exists>ws. committed w' = (committed w)\<lparr>schedule_windows := ws\<rparr>)
     else committed w' = committed w \<and> (calendar_step (local_today pf (now w)) command (calendar (committed w)) \<noteq> None \<longrightarrow>
        uuids w (uuid_next w) \<in> sw_id ` set (schedule_windows (committed w))))"
proof -
  let ?w = "w\<lparr>db := committed w, diagnostics := None\<rparr>" and ?kw = "[(''command'', command)]"
  obtain res where res: "r = Inr res" "if apr_applied res
     then \<exists>w1 out w2. validate_apply_schedule_command pf ?kw ?w = (Inr (JInt 1), w1)
        \<and> apply_schedule_command pf ?kw w1 = (Inr out, w2) \<and> committed w' = db w2
        \<and> apr_result res = Some (apply_outcome out)
     else committed w' = committed w \<and> (\<forall>w1 out w2.
        validate_apply_schedule_command pf ?kw ?w = (Inr (JInt 1), w1) \<longrightarrow>
        apply_schedule_command pf ?kw w1 \<noteq> (Inr out, w2))"
    using schedule_apply.apply_cases[OF assms(1) assms(2)[unfolded apply_schedule_def PROGRAM_APPLY_SCHEDULE_def]] by blast
  show ?thesis
  proof (cases "apr_applied res")
    case True
    then obtain w1 out w2 where go: "validate_apply_schedule_command pf ?kw ?w = (Inr (JInt 1), w1)"
        "apply_schedule_command pf ?kw w1 = (Inr out, w2)" "committed w' = db w2"
      using res(2) by auto
    have "w1 = ?w" using go(1) schedule_validate by blast
    then show ?thesis using schedule_write[OF go(2)] go(3) True res(1) by simp
  next
    case False
    have "uuids w (uuid_next w) \<in> sw_id ` set (schedule_windows (committed w))"
      if step: "calendar_step (local_today pf (now w)) command (calendar (committed w)) \<noteq> None"
    proof (rule ccontr)
      assume "uuids w (uuid_next w) \<notin> sw_id ` set (schedule_windows (committed w))"
      then obtain out w2 where "apply_schedule_command pf ?kw ?w = (Inr out, w2)"
        using schedule_writes[OF step, of ?w pf] by auto
      moreover have "validate_apply_schedule_command pf ?kw ?w = (Inr (JInt 1), ?w)"
        using schedule_validate step by blast
      ultimately show False using res(2) False by auto
    qed
    then show ?thesis using res False by auto
  qed
qed

text \<open>C28. The apply phase implements the calendar: a command that means something is applied
and its meaning is what the committed windows show, one that means nothing (a malformed
command, hours that do not begin before they end, a reset of the permanent window)
is not applied and changes nothing, and no other table is touched.\<close>

theorem schedule_commands_refine:
  assumes "vm_ok pf" "uuids w (uuid_next w) \<notin> sw_id ` set (schedule_windows (committed w))"
    and "apply_schedule pf command w = (r, w')"
  shows "\<exists>res. r = Inr res \<and>
    (case calendar_step (local_today pf (now w)) command (calendar (committed w)) of
       None \<Rightarrow> \<not> apr_applied res \<and> committed w' = committed w
     | Some cal \<Rightarrow> apr_applied res \<and> calendar (committed w') = cal
         \<and> (\<exists>ws. committed w' = (committed w)\<lparr>schedule_windows := ws\<rparr>))"
proof -
  obtain res where "r = Inr res" "if apr_applied res
     then calendar_step (local_today pf (now w)) command (calendar (committed w)) = Some (calendar (committed w'))
        \<and> (\<exists>ws. committed w' = (committed w)\<lparr>schedule_windows := ws\<rparr>)
     else committed w' = committed w \<and> (calendar_step (local_today pf (now w)) command (calendar (committed w)) \<noteq> None \<longrightarrow>
        uuids w (uuid_next w) \<in> sw_id ` set (schedule_windows (committed w)))"
    using apply_schedule_cases[OF assms(1,3)] by blast
  then show ?thesis using assms(2) by (intro exI[of _ res]) (auto split: if_splits option.splits)
qed

definition late_tea :: json where
  "late_tea = JObj [(''period'', JStr ''evening''), (''action'', JStr ''set_hours''), (''scope'', JStr ''today''),
     (''start_time'', JStr ''18:00''), (''end_time'', JStr ''T2030'')]"

definition seeded_world :: world where
  "seeded_world = sample_world\<lparr>committed := sample_db\<lparr>schedule_windows :=
     [\<lparr>sw_id = ''w1'', sw_period = ''morning'', sw_start_time = 0, sw_end_time = 16 * 3600 * 1000000,
       sw_is_active = True, sw_effective_date = None\<rparr>,
      \<lparr>sw_id = ''w2'', sw_period = ''evening'', sw_start_time = 16 * 3600 * 1000000, sw_end_time = EOD_SENTINEL,
       sw_is_active = True, sw_effective_date = None\<rparr>]\<rparr>\<rparr>"

lemma late_tea_parsed:
  "required_schedule_shape late_tea = Some \<lparr>sc_period = ''evening'', sc_action = ''set_hours'', sc_scope = ''today'',
     sc_start_time = JStr ''18:00'', sc_end_time = JStr ''T2030''\<rparr>"
  "command_times \<lparr>sc_period = ''evening'', sc_action = ''set_hours'', sc_scope = ''today'',
     sc_start_time = JStr ''18:00'', sc_end_time = JStr ''T2030''\<rparr>
   = Some (\<lparr>pt_micros = 64800000000, pt_offset = None\<rparr>, \<lparr>pt_micros = 73800000000, pt_offset = None\<rparr>)"
  by code_simp+

lemma seeded_facts:
  "local_today ref_platform 100 = 0" "now seeded_world = 100" "local_today ref_platform 100000 = 1"
  "calendar (committed seeded_world) (''evening'', None) = Some (57600000000, EOD_SENTINEL, True)"
  by code_simp+

theorem schedule_commands_refine_witness:
  "\<exists>res w'. apply_schedule ref_platform late_tea seeded_world = (Inr res, w') \<and> apr_applied res
    \<and> calendar (committed w') (''evening'', Some 0) = Some (64800000000, 73800000000, True)
    \<and> calendar (committed w') (''evening'', None) = Some (57600000000, EOD_SENTINEL, True)"
proof -
  have fresh: "uuids seeded_world (uuid_next seeded_world) \<notin> sw_id ` set (schedule_windows (committed seeded_world))"
    by code_simp
  have step: "calendar_step 0 late_tea cal = Some (cal((''evening'', Some 0) \<mapsto> (64800000000, 73800000000, True)))" for cal
    by (simp add: calendar_step_def late_tea_parsed command_slot_def time_ge_def)
  obtain r w' where run: "apply_schedule ref_platform late_tea seeded_world = (r, w')" by fastforce
  show ?thesis
    using schedule_commands_refine[OF vm_ok_ref fresh run] run by (auto simp: step seeded_facts)
qed

section \<open>What customers see\<close>

text \<open>The pages show the hours of the windows in effect, and nothing else about them.\<close>

lemma window_context_hours:
  assumes "map_option hours_of (v ''morning'') = map_option hours_of (u ''morning'')"
    and "map_option hours_of (v ''evening'') = map_option hours_of (u ''evening'')"
  shows "window_context st t v = window_context st t u"
proof -
  have same: "window_open t x = window_open t y" "preorder_of b t x = preorder_of b t y"
      "map_option (time_isoformat \<circ> sw_start_time) x = map_option (time_isoformat \<circ> sw_start_time) y"
      "map_option (time_isoformat \<circ> sw_end_time) x = map_option (time_isoformat \<circ> sw_end_time) y"
    if "map_option hours_of x = map_option hours_of y" for x y b
    using that by (cases x; cases y; simp add: hours_of_def window_open_def preorder_of_def)+
  show ?thesis
    unfolding window_context_def Let_def same[OF assms(1)] same[OF assms(2)] by (rule refl)
qed

lemma hours_in_effect:
  "map_option hours_of (windows_of today (slots d) period) =
     (case calendar d (period, Some today) of None \<Rightarrow> calendar d (period, None) | Some h \<Rightarrow> Some h)"
  by (simp add: windows_of_def calendar_def split: option.splits)

text \<open>C30. An override of the day is read on that day and on no other: after the command took
effect every page of the same local day shows exactly its times for its period, and on
any other day every page shows what it would have shown without the command.\<close>

theorem override_lasts_one_day:
  assumes "vm_ok pf" "apply_schedule pf command w = (Inr res, w')" "apr_applied res"
    and "required_schedule_shape command = Some c" "sc_action c = ''set_hours''" "sc_scope c = ''today''"
    and "command_times c = Some (s, e)"
    and "committed v = committed w'" "committed u = committed w" "now u = now v"
  shows "if local_today pf (now v) = local_today pf (now w)
    then \<exists>ctx. fst (get_menu_window_context pf st v) = Inr ctx
      \<and> (if sc_period c = ''morning'' then (mwc_morning_start ctx, mwc_morning_end ctx)
         else (mwc_evening_start ctx, mwc_evening_end ctx))
        = (Some (time_isoformat (pt_micros s)), Some (time_isoformat (pt_micros e)))
    else fst (get_menu_window_context pf st v) = fst (get_menu_window_context pf st u)"
proof -
  let ?day = "local_today pf (now v)" and ?today = "local_today pf (now w)"
  have "time_ge s e = Inr False" and cal: "calendar (committed v)
      = (calendar (committed w))((sc_period c, Some ?today) \<mapsto> (pt_micros s, pt_micros e, True))"
    using apply_schedule_cases[OF assms(1,2)] assms(3-8)
    by (auto simp: calendar_step_def command_slot_def split: if_splits)
  show ?thesis
  proof (cases "?day = ?today")
    case True
    let ?win = "windows_of ?day (slots (committed v)) (sc_period c)"
    have "map_option hours_of ?win = Some (pt_micros s, pt_micros e, True)"
      using True by (simp add: hours_in_effect cal)
    then obtain r where "?win = Some r" "sw_start_time r = pt_micros s" "sw_end_time r = pt_micros e"
      by (auto simp: hours_of_def)
    moreover have "sc_period c = ''morning'' \<or> sc_period c = ''evening''"
      using shape_values[OF assms(4)] by (auto simp: PERIODS_def)
    ultimately show ?thesis
      using True by (auto simp: menu_window_context_run window_context_def Let_def)
  next
    case False
    have "window_context st t (windows_of ?day (slots (committed v))) = window_context st t (windows_of ?day (slots (committed u)))" for t
      using False assms(9) by (intro window_context_hours) (simp_all add: hours_in_effect cal cong: option.case_cong)
    then show ?thesis using False assms(10) by (simp add: menu_window_context_run)
  qed
qed

theorem override_lasts_one_day_witness:
  "\<exists>res w'. apply_schedule ref_platform late_tea seeded_world = (Inr res, w')
    \<and> (\<exists>ctx. fst (get_menu_window_context ref_platform BusinessScheduleState.OPEN
            (seeded_world\<lparr>committed := committed w'\<rparr>)) = Inr ctx
        \<and> mwc_evening_start ctx = Some ''18:00:00'' \<and> mwc_evening_end ctx = Some ''20:30:00'')
    \<and> fst (get_menu_window_context ref_platform BusinessScheduleState.OPEN
            (seeded_world\<lparr>committed := committed w', now := 100000\<rparr>))
      = fst (get_menu_window_context ref_platform BusinessScheduleState.OPEN (seeded_world\<lparr>now := 100000\<rparr>))"
proof -
  let ?open = BusinessScheduleState.OPEN
  obtain r w' where run: "apply_schedule ref_platform late_tea seeded_world = (r, w')" by fastforce
  have "\<exists>res. r = Inr res \<and> apr_applied res"
  proof -
    have "uuids seeded_world (uuid_next seeded_world) \<notin> sw_id ` set (schedule_windows (committed seeded_world))"
      by code_simp
    moreover have "calendar_step (local_today ref_platform (now seeded_world)) late_tea cal \<noteq> None" for cal
      by (simp add: calendar_step_def late_tea_parsed time_ge_def)
    ultimately show ?thesis using apply_schedule_cases[OF vm_ok_ref run] by (metis (full_types))
  qed
  then obtain res where res: "apply_schedule ref_platform late_tea seeded_world = (Inr res, w')" "apr_applied res"
    using run by blast
  note lasts = override_lasts_one_day[OF vm_ok_ref res late_tea_parsed(1) _ _ late_tea_parsed(2)]
  have "time_isoformat 64800000000 = ''18:00:00''" "time_isoformat 73800000000 = ''20:30:00''" by code_simp+
  then have "\<exists>ctx. fst (get_menu_window_context ref_platform ?open (seeded_world\<lparr>committed := committed w'\<rparr>)) = Inr ctx
        \<and> mwc_evening_start ctx = Some ''18:00:00'' \<and> mwc_evening_end ctx = Some ''20:30:00''"
    using lasts[of "seeded_world\<lparr>committed := committed w'\<rparr>" seeded_world ?open] by simp
  moreover have "fst (get_menu_window_context ref_platform ?open (seeded_world\<lparr>committed := committed w', now := 100000\<rparr>))
      = fst (get_menu_window_context ref_platform ?open (seeded_world\<lparr>now := 100000\<rparr>))"
    using lasts[of "seeded_world\<lparr>committed := committed w', now := 100000\<rparr>" "seeded_world\<lparr>now := 100000\<rparr>" ?open]
    by (simp add: seeded_facts)
  ultimately show ?thesis using res by blast
qed

end
