(* ===== verification/Menu_Service.thy ===== *)
theory Menu_Service
  imports Checkout Schedule_Service Samples
begin

text \<open>
  The public menu (app/services/menu_service.py, app/api/routes/menu.py) and the
  administrator's listing of the zones (app/services/zone_service.py). A product
  is listed with what it costs and with whether it can be put into the cart.
\<close>

section \<open>The menu\<close>

record MenuProductItem =
  mpi_product_id :: uuid
  mpi_name :: string
  mpi_price_rub :: "int option"
  mpi_image_url :: "string option"
  mpi_description :: "string option"
  mpi_available :: bool
  mpi_cta_type :: string
  mpi_reason_code :: "string option"

record MenuCategory =
  mc_category_id :: uuid
  mc_name :: string
  mc_products :: "MenuProductItem list"

definition current_menu_period :: "platform \<Rightarrow> int \<Rightarrow> string" where
  "current_menu_period pf t =
     (if local_now pf t mod 86400 div 3600 < MENU_MORNING_END_HOUR (cfg pf) then ''morning'' else ''evening'')"

definition fetch_categories :: "string \<Rightarrow> string \<Rightarrow> database \<Rightarrow> category_row list" where
  "fetch_categories period method d = sort_key cat_sort (rows_where (\<lambda>c. cat_is_active c
     \<and> (cat_time_period c = ''both'' \<or> cat_time_period c = period)
     \<and> (cat_fulfillment_scope c = ''both'' \<or> cat_fulfillment_scope c = method)) (categories d))"

text \<open>LEFT JOIN inventory inv ON inv.sku = p.sku.\<close>

definition with_stock :: "inventory_row list \<Rightarrow> product_row \<Rightarrow> (product_row \<times> int option) list" where
  "with_stock stock p = (case rows_where (\<lambda>i. p_sku p = Some (inv_sku i)) stock of
       [] \<Rightarrow> [(p, None)]
     | is \<Rightarrow> map (\<lambda>i. (p, Some (inv_quantity i))) is)"

definition product_order :: "platform \<Rightarrow> product_row \<times> int option \<Rightarrow> product_row \<times> int option \<Rightarrow> bool" where
  "product_order pf a b \<longleftrightarrow> p_sort (fst a) < p_sort (fst b)
     \<or> p_sort (fst a) = p_sort (fst b) \<and> db_le pf (p_name (fst a)) (p_name (fst b))"

definition effective_period :: "product_row \<Rightarrow> string \<Rightarrow> string" where
  "effective_period p category_period = first_text (p_time_period_override p) category_period"

text \<open>Whether the item can be ordered, and why not: the first reason that applies.\<close>

definition unavailable_reason :: "string \<Rightarrow> string \<Rightarrow> product_row \<Rightarrow> int option \<Rightarrow> string option" where
  "unavailable_reason current_period category_period p quantity =
     (if \<not> p_is_active p then Some ''INACTIVE''
      else if effective_period p category_period \<notin> {''both'', current_period} then Some ''OUTSIDE_WINDOW''
      else case quantity of
        Some q \<Rightarrow> if q \<le> 0 then Some ''OUT_OF_STOCK'' else None
      | None \<Rightarrow> None)"

definition cta_of :: "string option \<Rightarrow> string" where
  "cta_of why = (case why of
       None \<Rightarrow> ''add_to_cart''
     | Some r \<Rightarrow> if r = ''OUT_OF_STOCK'' then ''out_of_stock'' else ''unavailable'')"

definition menu_item :: "string \<Rightarrow> string \<Rightarrow> product_row \<times> int option \<Rightarrow> MenuProductItem" where
  "menu_item current_period category_period = (\<lambda>(p, quantity).
     let why = unavailable_reason current_period category_period p quantity in
     \<lparr>mpi_product_id = p_id p, mpi_name = p_name p, mpi_price_rub = p_price_rub p, mpi_image_url = p_image_url p,
      mpi_description = p_description p, mpi_available = (why = None), mpi_cta_type = cta_of why, mpi_reason_code = why\<rparr>)"

definition fetch_products :: "platform \<Rightarrow> uuid \<Rightarrow> string \<Rightarrow> string \<Rightarrow> database \<Rightarrow> MenuProductItem list" where
  "fetch_products pf category_id current_period category_period d =
     map (menu_item current_period category_period)
       (order_by (product_order pf) (concat (map (with_stock (inventory d))
         (rows_where (\<lambda>p. p_category_id p = Some category_id \<and> p_price_rub p \<noteq> None) (products d)))))"

definition get_menu :: "platform \<Rightarrow> string \<Rightarrow> (world, MenuCategory list) io" where
  "get_menu pf method = bind_io (gets_io now) (\<lambda>t. with_session (
     let period = current_menu_period pf t in
     bind_io (select_db (fetch_categories period method)) (\<lambda>cats.
     fold_io (\<lambda>c acc. bind_io (select_db (fetch_products pf (cat_id c) period (cat_time_period c))) (\<lambda>items.
       ret (acc @ [\<lparr>mc_category_id = cat_id c, mc_name = cat_name c, mc_products = items\<rparr>]))) cats [])))"

section \<open>Fees and zones\<close>

definition get_delivery_fee :: "platform \<Rightarrow> uuid option \<Rightarrow> (world, int) io" where
  "get_delivery_fee pf zone_id = (case zone_id of
       None \<Rightarrow> ret (DELIVERY_FEE (cfg pf))
     | Some z \<Rightarrow> bind_io (with_session (select_db (\<lambda>d. first_where (\<lambda>r. z_id r = z) (delivery_zones d)))) (\<lambda>row.
         case row of Some r \<Rightarrow> ret (z_delivery_fee_rub r) | None \<Rightarrow> ret (DELIVERY_FEE (cfg pf))))"

definition get_delivery_zones :: "(world, zone_row list) io" where
  "get_delivery_zones = with_session (
     select_db (\<lambda>d. sort_key z_delivery_time_minutes (rows_where z_is_active (delivery_zones d))))"

text \<open>The public routes; the method is one of two literals, delivery unless given.\<close>

definition get_menu_route :: "platform \<Rightarrow> string option \<Rightarrow> (world, MenuCategory list) io" where
  "get_menu_route pf method = (case method of
       None \<Rightarrow> get_menu pf ''delivery''
     | Some m \<Rightarrow> if m \<in> {''delivery'', ''pickup''} then get_menu pf m else raise (HTTPException 422))"

definition get_delivery_fee_route :: "platform \<Rightarrow> uuid option \<Rightarrow> (world, int) io" where
  "get_delivery_fee_route pf zone_id = get_delivery_fee pf zone_id"

definition get_delivery_zones_route :: "(world, zone_row list) io" where
  "get_delivery_zones_route = get_delivery_zones"

text \<open>ORDER BY is_active DESC, delivery_time_minutes, lower(name).\<close>

definition zone_before :: "platform \<Rightarrow> zone_row \<Rightarrow> zone_row \<Rightarrow> bool" where
  "zone_before pf a b \<longleftrightarrow> (if z_is_active a \<noteq> z_is_active b then z_is_active a
     else if z_delivery_time_minutes a \<noteq> z_delivery_time_minutes b then z_delivery_time_minutes a < z_delivery_time_minutes b
     else db_le pf (db_lower pf (z_name a)) (db_lower pf (z_name b)))"

definition list_all_zones :: "platform \<Rightarrow> (world, zone_row list) io" where
  "list_all_zones pf = with_session (select_db (\<lambda>d. order_by (zone_before pf) (delivery_zones d)))"

section \<open>What the menu shows is what the checkout takes\<close>

lemma in_with_stock:
  assumes "(p, q) \<in> set (with_stock stock r)"
  shows "p = r \<and> (case q of None \<Rightarrow> \<forall>i \<in> set stock. p_sku r \<noteq> Some (inv_sku i)
        | Some n \<Rightarrow> \<exists>i \<in> set stock. p_sku r = Some (inv_sku i) \<and> n = inv_quantity i)"
proof (cases "rows_where (\<lambda>i. p_sku r = Some (inv_sku i)) stock")
  case Nil
  have "(p, q) \<in> set [(r, None)]" using assms unfolding with_stock_def Nil by simp
  then show ?thesis using Nil by (auto simp: rows_where_None)
next
  case (Cons j js)
  have "set (j # js) = {i \<in> set stock. p_sku r = Some (inv_sku i)}" unfolding Cons[symmetric] by simp
  moreover obtain i where "i \<in> set (j # js)" "p = r" "q = Some (inv_quantity i)"
    using assms Cons by (auto simp: with_stock_def)
  ultimately show ?thesis by auto
qed

lemma in_fetch_products:
  assumes "it \<in> set (fetch_products pf cid period cat_period d)"
  obtains p q where "p \<in> set (products d)" "p_category_id p = Some cid" "p_price_rub p \<noteq> None"
    "(p, q) \<in> set (with_stock (inventory d) p)" "it = menu_item period cat_period (p, q)"
proof -
  obtain r x where x: "r \<in> set (products d)" "p_category_id r = Some cid" "p_price_rub r \<noteq> None"
      "x \<in> set (with_stock (inventory d) r)" "it = menu_item period cat_period x"
    using assms by (auto simp: fetch_products_def)
  obtain p q where "x = (p, q)" by (cases x)
  moreover have "p = r" using in_with_stock x(4) \<open>x = (p, q)\<close> by blast
  ultimately show thesis using that x by blast
qed

lemma fold_categories:
  "fold_io (\<lambda>c acc. bind_io (select_db (f c)) (\<lambda>items. ret (acc @ [g c items]))) cats acc w
     = (Inr (acc @ map (\<lambda>c. g c (f c (db w))) cats), w)"
  by (induction cats arbitrary: acc) (simp_all add: bind_io_apply)

lemma get_menu_run:
  "get_menu pf method w = (Inr (map (\<lambda>c. \<lparr>mc_category_id = cat_id c, mc_name = cat_name c,
       mc_products = fetch_products pf (cat_id c) (current_menu_period pf (now w)) (cat_time_period c) (committed w)\<rparr>)
     (fetch_categories (current_menu_period pf (now w)) method (committed w))), w\<lparr>db := committed w\<rparr>)"
  by (simp add: get_menu_def Let_def with_session_apply bind_io_apply
      fold_categories[where f = "\<lambda>c. fetch_products pf (cat_id c) (current_menu_period pf (now w)) (cat_time_period c)"
        and g = "\<lambda>c items. \<lparr>mc_category_id = cat_id c, mc_name = cat_name c, mc_products = items\<rparr>"])

text \<open>C11. The menu and the checkout agree: every listed item has a price, the checkout of a
listed item takes exactly the listed name and price, and an item is offered exactly when
its product is active, is on sale in the current period, and is in stock or not tracked.\<close>

theorem menu_price_is_charged:
  assumes "key_unique p_id (products (committed w))" "key_unique inv_sku (inventory (committed w))"
    and "get_menu pf method w = (Inr menu, w')" "c \<in> set menu" "it \<in> set (mc_products c)"
  shows "\<exists>p cat price. p \<in> set (products (committed w)) \<and> cat \<in> set (categories (committed w))
    \<and> p_category_id p = Some (cat_id cat) \<and> mpi_price_rub it = Some price
    \<and> resolve_checkout_item \<lparr>ci_product_id = mpi_product_id it, ci_qty = n\<rparr> w
        = (Inr \<lparr>oi_product_id = p_id p, oi_name = mpi_name it, oi_price_rub = price, oi_qty = n\<rparr>, w\<lparr>db := committed w\<rparr>)
    \<and> mpi_available it = (p_is_active p
        \<and> effective_period p (cat_time_period cat) \<in> {''both'', current_menu_period pf (now w)}
        \<and> list_all (\<lambda>i. p_sku p \<noteq> Some (inv_sku i) \<or> 0 < inv_quantity i) (inventory (committed w)))"
proof -
  let ?d = "committed w" and ?per = "current_menu_period pf (now w)"
  obtain cat where cat: "cat \<in> set (categories ?d)"
      "it \<in> set (fetch_products pf (cat_id cat) ?per (cat_time_period cat) ?d)"
    using assms(3-5) by (auto simp: get_menu_run fetch_categories_def)
  obtain p q where p: "p \<in> set (products ?d)" "p_category_id p = Some (cat_id cat)" "p_price_rub p \<noteq> None"
      "(p, q) \<in> set (with_stock (inventory ?d) p)" "it = menu_item ?per (cat_time_period cat) (p, q)"
    using cat(2) by (rule in_fetch_products)
  have snap: "first_where (\<lambda>r. p_id r = p_id p) (products ?d) = Some p"
    by (rule first_where_key[OF assms(1) p(1)])
  have stock: "list_all (\<lambda>i. p_sku p \<noteq> Some (inv_sku i) \<or> 0 < inv_quantity i) (inventory ?d)
      = (case q of None \<Rightarrow> True | Some n \<Rightarrow> 0 < n)"
    using in_with_stock[OF p(4)] key_unique_same[OF assms(2)] by (fastforce simp: list_all_iff split: option.splits)
  show ?thesis
    using p cat(1) snap stock
    by (intro exI[of _ p] exI[of _ cat] exI[of _ "the (p_price_rub p)"])
      (auto simp: menu_item_def Let_def resolve_checkout_item_run snapshot_of_def unavailable_reason_def
        split: option.splits)
qed

definition tea_menu :: world where
  "tea_menu = sample_world\<lparr>committed := sample_db\<lparr>
     categories := [\<lparr>cat_id = ''c1'', cat_external_id = None, cat_name = ''Drinks'', cat_parent_id = None,
       cat_time_period = ''morning'', cat_fulfillment_scope = ''both'', cat_sort = 0, cat_is_active = True\<rparr>],
     products := map (\<lambda>p. p\<lparr>p_category_id := Some ''c1''\<rparr>) (products sample_db)\<rparr>\<rparr>"

theorem menu_price_is_charged_witness:
  "\<exists>p cat price. p \<in> set (products (committed tea_menu)) \<and> cat \<in> set (categories (committed tea_menu))
    \<and> p_category_id p = Some (cat_id cat) \<and> Some 150 = Some price
    \<and> resolve_checkout_item \<lparr>ci_product_id = tea, ci_qty = 2\<rparr> tea_menu
        = (Inr \<lparr>oi_product_id = p_id p, oi_name = ''Tea'', oi_price_rub = price, oi_qty = 2\<rparr>, tea_menu\<lparr>db := committed tea_menu\<rparr>)"
proof -
  let ?it = "\<lparr>mpi_product_id = tea, mpi_name = ''Tea'', mpi_price_rub = Some 150, mpi_image_url = None,
     mpi_description = None, mpi_available = True, mpi_cta_type = ''add_to_cart'', mpi_reason_code = None\<rparr>"
  let ?menu = "[\<lparr>mc_category_id = ''c1'', mc_name = ''Drinks'', mc_products = [?it]\<rparr>]"
  let ?w = "snd (get_menu ref_platform ''pickup'' tea_menu)"
  have "fst (get_menu ref_platform ''pickup'' tea_menu) = Inr ?menu"
    by code_simp
  then have run: "get_menu ref_platform ''pickup'' tea_menu = (Inr ?menu, ?w)"
    by (simp only: prod_eq_iff fst_conv snd_conv simp_thms)
  have prods: "key_unique p_id (products (committed tea_menu))"
    by code_simp
  have inv: "key_unique inv_sku (inventory (committed tea_menu))"
    by code_simp
  have charged: "\<exists>p cat price. p \<in> set (products (committed tea_menu)) \<and> cat \<in> set (categories (committed tea_menu))
      \<and> p_category_id p = Some (cat_id cat) \<and> mpi_price_rub ?it = Some price
      \<and> resolve_checkout_item \<lparr>ci_product_id = mpi_product_id ?it, ci_qty = 2\<rparr> tea_menu
          = (Inr \<lparr>oi_product_id = p_id p, oi_name = mpi_name ?it, oi_price_rub = price, oi_qty = 2\<rparr>, tea_menu\<lparr>db := committed tea_menu\<rparr>)"
    using menu_price_is_charged[OF prods inv run list.set_intros(1), of ?it 2] by auto
  then show ?thesis
    by simp
qed

text \<open>The converse fails: the checkout does not ask whether the product is offered.\<close>

theorem unavailable_product_is_sold:
  "(case fst (get_menu ref_platform ''pickup'' (tea_menu\<lparr>now := 50000\<rparr>)) of
      Inr menu \<Rightarrow> list_all (\<lambda>c. \<not> list_ex mpi_available (mc_products c)) menu | Inl _ \<Rightarrow> False)
   \<and> fst (resolve_checkout_item \<lparr>ci_product_id = tea, ci_qty = 2\<rparr>
        (tea_menu\<lparr>now := 50000, committed := (committed tea_menu)\<lparr>products :=
           map (\<lambda>p. p\<lparr>p_is_active := False\<rparr>) (products (committed tea_menu))\<rparr>\<rparr>))
     = Inr \<lparr>oi_product_id = tea, oi_name = ''Tea'', oi_price_rub = 150, oi_qty = 2\<rparr>"
  by code_simp

end
