(* ===== verification/Admin_Routes.thy ===== *)
theory Admin_Routes
  imports Menu_Service Menu_Tools Menu_Import Zone_Tools Promotion_Tools Schedule_Tools Restock_Tools Staff_Service
begin

text \<open>
  The administration API (app/api/routes/admin.py): the menu, schedule, zone,
  promotion and staff forms on top of the agents and services. A receipt is read
  by the trace analyzer from the store of the VM, a package of its own: the
  argument \<open>receipts\<close> answers for a trace id, with ValueError when the trace is
  not there; \<open>transitions\<close> is the store's list of observed transitions. A handler
  that forwards to a language model gets the payload's instruction as it is.
  Pages are their template's context.
\<close>

section \<open>Answers\<close>

text \<open>
  The body of an answer: the keys a handler does not set are None, \<open>aa_view\<close> is
  the list a form refreshes with.
\<close>

record 'v AdminAnswer =
  aa_ok :: bool
  aa_error :: "string option"
  aa_command :: "json option"
  aa_result :: "json option"
  aa_receipt :: "json option"
  aa_view :: 'v

definition admin_refused :: "string option \<Rightarrow> 'v \<Rightarrow> 'v AdminAnswer" where
  "admin_refused why view = \<lparr>aa_ok = False, aa_error = why, aa_command = None, aa_result = None,
     aa_receipt = None, aa_view = view\<rparr>"

text \<open>A trace that is not found costs the receipt, not the answer.\<close>

definition receipt_or_none :: "(string \<Rightarrow> json result) \<Rightarrow> string \<Rightarrow> (world, json option) io" where
  "receipt_or_none receipts tid = (case receipts tid of
       Inr r \<Rightarrow> ret (Some r)
     | Inl (ValueError _) \<Rightarrow> ret None
     | Inl e \<Rightarrow> raise e)"

definition payload_get :: "string \<Rightarrow> (string \<times> json) list \<Rightarrow> json \<Rightarrow> json" where
  "payload_get k payload dflt = (case map_of payload k of None \<Rightarrow> dflt | Some v \<Rightarrow> v)"

text \<open>\<open>{**payload, k: v}\<close>\<close>

definition dict_set :: "string \<Rightarrow> json \<Rightarrow> (string \<times> json) list \<Rightarrow> (string \<times> json) list" where
  "dict_set k v kvs = (if k \<in> fst ` set kvs then map (\<lambda>(k', x). (k', if k' = k then v else x)) kvs
     else kvs @ [(k, v)])"

section \<open>Orders, receipts and observed transitions\<close>

definition admin_list_orders :: "platform \<Rightarrow> OrderState option \<Rightarrow> (world, OrderRead list) io" where
  "admin_list_orders pf state = fetch_orders pf state"

definition get_order_receipt :: "platform \<Rightarrow> (string \<Rightarrow> json result) \<Rightarrow> uuid \<Rightarrow> (world, json) io" where
  "get_order_receipt pf receipts order_id =
     bind_io (get_order pf order_id) (\<lambda>order.
       case order of
         None \<Rightarrow> raise (HTTPException 404)
       | Some ord \<Rightarrow> (case or_trace_id ord of
             None \<Rightarrow> raise (HTTPException 404)
           | Some tid \<Rightarrow> lift_result (receipts tid)))"

definition list_transitions ::
  "(string \<Rightarrow> string option \<Rightarrow> 'r list) \<Rightarrow> string \<Rightarrow> string option \<Rightarrow> (world, 'r list) io" where
  "list_transitions transitions prog model = ret (transitions prog model)"

section \<open>Menu\<close>

record CategoryRef =
  crf_id :: uuid
  crf_name :: string

record CategoryFull =
  cfl_id :: uuid
  cfl_name :: string
  cfl_parent_name :: "string option"
  cfl_time_period :: string
  cfl_fulfillment_scope :: string
  cfl_sort :: int
  cfl_is_active :: bool

definition fetch_categories_ref :: "platform \<Rightarrow> (world, CategoryRef list) io" where
  "fetch_categories_ref pf = with_session (select_db (\<lambda>d.
     map (\<lambda>c. \<lparr>crf_id = cat_id c, crf_name = cat_name c\<rparr>)
       (order_by (\<lambda>a b. db_le pf (cat_name a) (cat_name b)) (rows_where cat_is_active (categories d)))))"

definition category_before :: "platform \<Rightarrow> category_row \<Rightarrow> category_row \<Rightarrow> bool" where
  "category_before pf a b \<longleftrightarrow> (if cat_sort a \<noteq> cat_sort b then cat_sort a < cat_sort b
     else db_le pf (cat_name a) (cat_name b))"

definition category_full :: "category_row list \<Rightarrow> category_row \<Rightarrow> CategoryFull" where
  "category_full cs c = \<lparr>cfl_id = cat_id c, cfl_name = cat_name c,
     cfl_parent_name = (case cat_parent_id c of
        None \<Rightarrow> None | Some p \<Rightarrow> map_option cat_name (first_where (\<lambda>k. cat_id k = p) cs)),
     cfl_time_period = cat_time_period c, cfl_fulfillment_scope = cat_fulfillment_scope c,
     cfl_sort = cat_sort c, cfl_is_active = cat_is_active c\<rparr>"

definition fetch_categories_full :: "platform \<Rightarrow> (world, CategoryFull list) io" where
  "fetch_categories_full pf = with_session (select_db (\<lambda>d.
     map (category_full (categories d)) (order_by (category_before pf) (categories d))))"

definition import_menu_csv :: "platform \<Rightarrow> (trace \<Rightarrow> string) \<Rightarrow> string result \<Rightarrow> (world, ImportReport) io" where
  "import_menu_csv pf snapshot_hash upload = import_csv pf snapshot_hash upload"

definition menu_category_apply ::
  "platform \<Rightarrow> (string \<Rightarrow> json result) \<Rightarrow> (string \<times> json) list \<Rightarrow> (world, CategoryRef list AdminAnswer) io" where
  "menu_category_apply pf receipts payload =
     bind_io (apply_category pf (JObj payload)) (\<lambda>ap.
     bind_io (fetch_categories_ref pf) (\<lambda>cats.
     bind_io (receipt_or_none receipts (apr_trace_id ap)) (\<lambda>rc.
     ret \<lparr>aa_ok = apr_applied ap, aa_error = apr_error ap, aa_command = None, aa_result = apr_result ap,
          aa_receipt = rc, aa_view = cats\<rparr>)))"

definition menu_category_update ::
  "platform \<Rightarrow> (string \<Rightarrow> json result) \<Rightarrow> uuid \<Rightarrow> (string \<times> json) list
     \<Rightarrow> (world, (CategoryRef list \<times> CategoryFull list) AdminAnswer) io" where
  "menu_category_update pf receipts category_id payload =
     bind_io (update_category pf (JObj (dict_set ''category_id'' (JStr category_id) payload))) (\<lambda>ap.
     bind_io (fetch_categories_full pf) (\<lambda>categories_full.
     bind_io (fetch_categories_ref pf) (\<lambda>categories_ref.
     bind_io (receipt_or_none receipts (apr_trace_id ap)) (\<lambda>rc.
     ret \<lparr>aa_ok = apr_applied ap, aa_error = apr_error ap, aa_command = None, aa_result = apr_result ap,
          aa_receipt = rc, aa_view = (categories_ref, categories_full)\<rparr>))))"

definition menu_product_apply ::
  "platform \<Rightarrow> (string \<Rightarrow> json result) \<Rightarrow> (string \<times> json) list
     \<Rightarrow> (world, (ProductAdminRow list \<times> IncompleteCounts) AdminAnswer) io" where
  "menu_product_apply pf receipts payload =
     bind_io (apply_menu pf (JObj payload)) (\<lambda>ap.
     bind_io (get_admin_data pf) (\<lambda>data.
     bind_io (receipt_or_none receipts (apr_trace_id ap)) (\<lambda>rc.
     ret \<lparr>aa_ok = apr_applied ap, aa_error = apr_error ap, aa_command = None, aa_result = apr_result ap,
          aa_receipt = rc, aa_view = data\<rparr>)))"

text \<open>Here a missing receipt is not caught.\<close>

definition menu_product_update ::
  "platform \<Rightarrow> (string \<Rightarrow> json result) \<Rightarrow> string \<Rightarrow> (string \<times> json) list
     \<Rightarrow> (world, (ProductAdminRow list \<times> IncompleteCounts) AdminAnswer) io" where
  "menu_product_update pf receipts product_id payload =
     bind_io (update_product pf (JObj (dict_set ''product_id'' (JStr product_id) payload))) (\<lambda>ap.
     bind_io (get_admin_data pf) (\<lambda>data.
     bind_io (lift_result (receipts (apr_trace_id ap))) (\<lambda>rc.
     ret \<lparr>aa_ok = apr_applied ap, aa_error = apr_error ap, aa_command = None, aa_result = apr_result ap,
          aa_receipt = Some rc, aa_view = data\<rparr>)))"

definition menu_products_generate_skus ::
  "platform \<Rightarrow> (world, SkuGenerationResult \<times> ProductAdminRow list \<times> IncompleteCounts) io" where
  "menu_products_generate_skus pf =
     bind_io (generate_missing_skus pf) (\<lambda>result.
     bind_io (get_admin_data pf) (\<lambda>(prods, counts). ret (result, prods, counts)))"

text \<open>\<open>report\<close> is the report of the last import of this process.\<close>

definition menu_admin_ui :: "platform \<Rightarrow> ImportReport option \<Rightarrow> (world, ProductAdminRow list \<times> IncompleteCounts
     \<times> CategoryRef list \<times> CategoryFull list \<times> ImportReport option) io" where
  "menu_admin_ui pf report =
     bind_io (get_admin_data pf) (\<lambda>(prods, counts).
     bind_io (fetch_categories_ref pf) (\<lambda>cats.
     bind_io (fetch_categories_full pf) (\<lambda>cats_full.
     ret (prods, counts, cats, cats_full, report))))"

section \<open>Instructions: schedule, zones, promotions\<close>

definition collected :: "AgentResult \<Rightarrow> json option" where
  "collected c = (if agr_success c then agr_command c else None)"

definition unparseable :: "AgentResult \<Rightarrow> string option" where
  "unparseable c = Some (first_text (agr_error c) ''unparseable instruction'')"

text \<open>
  The common shape of the three handlers: collect, and on a command apply it;
  the view is read last. A command that is JSON null counts as none.
\<close>

definition instruct ::
  "(string \<Rightarrow> json result) \<Rightarrow> (json \<Rightarrow> (world, AgentResult) io) \<Rightarrow> (json \<Rightarrow> (world, ApplyResult) io)
     \<Rightarrow> (world, 'v) io \<Rightarrow> (string \<times> json) list \<Rightarrow> (world, 'v AdminAnswer) io" where
  "instruct receipts collect apply_it look payload =
     bind_io (collect (payload_get ''instruction'' payload (JStr []))) (\<lambda>c.
       case (case collected c of Some JNull \<Rightarrow> None | x \<Rightarrow> x) of
         None \<Rightarrow> bind_io look (\<lambda>view. ret (admin_refused (unparseable c) view))
       | Some command \<Rightarrow>
           bind_io (apply_it command) (\<lambda>ap.
           bind_io look (\<lambda>view.
           bind_io (receipt_or_none receipts (apr_trace_id ap)) (\<lambda>rc.
           ret \<lparr>aa_ok = apr_applied ap, aa_error = apr_error ap, aa_command = Some command, aa_result = None,
                aa_receipt = rc, aa_view = view\<rparr>))))"

definition schedule_admin_ui :: "platform \<Rightarrow> (world, (string \<times> AdminWindows) list) io" where
  "schedule_admin_ui pf = get_admin_windows pf"

definition schedule_apply_route ::
  "platform \<Rightarrow> (string \<Rightarrow> json result) \<Rightarrow> (string \<times> json) list
     \<Rightarrow> (world, (string \<times> AdminWindows) list AdminAnswer) io" where
  "schedule_apply_route pf receipts payload =
     instruct receipts (collect_schedule pf) (apply_schedule pf) (get_admin_windows pf) payload"

record ZoneView =
  zv_id :: uuid
  zv_name :: string
  zv_delivery_time_minutes :: int
  zv_is_active :: bool
  zv_delivery_fee_rub :: int

definition zone_view :: "zone_row list \<Rightarrow> ZoneView list" where
  "zone_view zs = map (\<lambda>z. \<lparr>zv_id = z_id z, zv_name = z_name z,
     zv_delivery_time_minutes = z_delivery_time_minutes z, zv_is_active = z_is_active z,
     zv_delivery_fee_rub = z_delivery_fee_rub z\<rparr>) zs"

definition look_at_zones :: "platform \<Rightarrow> (world, ZoneView list) io" where
  "look_at_zones pf = bind_io (list_all_zones pf) (\<lambda>zs. ret (zone_view zs))"

definition zones_admin_ui :: "platform \<Rightarrow> (world, zone_row list \<times> ZoneView list) io" where
  "zones_admin_ui pf = bind_io (list_all_zones pf) (\<lambda>zs. ret (zs, zone_view zs))"

definition zone_apply_route ::
  "platform \<Rightarrow> (string \<Rightarrow> json result) \<Rightarrow> (string \<times> json) list \<Rightarrow> (world, ZoneView list AdminAnswer) io" where
  "zone_apply_route pf receipts payload =
     instruct receipts (collect_zone pf) (apply_zone pf) (look_at_zones pf) payload"

text \<open>The zone is looked up by its id; the command names it.\<close>

definition zone_update_route ::
  "platform \<Rightarrow> (string \<Rightarrow> json result) \<Rightarrow> uuid \<Rightarrow> (string \<times> json) list \<Rightarrow> (world, ZoneView list AdminAnswer) io" where
  "zone_update_route pf receipts zone_id payload =
     bind_io (zone_by_id zone_id) (\<lambda>zone.
       case zone of
         None \<Rightarrow> raise (HTTPException 404)
       | Some z \<Rightarrow>
           bind_io (apply_zone pf (JObj [(''action'', JStr ''update''), (''target_zone_name'', JStr (z_name z)),
              (''name'', json_get ''name'' payload),
              (''delivery_time_minutes'', json_get ''delivery_time_minutes'' payload),
              (''delivery_fee_rub'', json_get ''delivery_fee_rub'' payload)])) (\<lambda>ap.
           bind_io (look_at_zones pf) (\<lambda>view.
           bind_io (receipt_or_none receipts (apr_trace_id ap)) (\<lambda>rc.
           ret \<lparr>aa_ok = apr_applied ap, aa_error = apr_error ap, aa_command = None, aa_result = apr_result ap,
                aa_receipt = rc, aa_view = view\<rparr>))))"

definition promotion_apply_route ::
  "platform \<Rightarrow> (string \<Rightarrow> json result) \<Rightarrow> (string \<times> json) list \<Rightarrow> (world, PromotionRead list AdminAnswer) io" where
  "promotion_apply_route pf receipts payload =
     instruct receipts (manage_promotion pf) (apply_promotion pf) list_promotions payload"

section \<open>Staff\<close>

definition messengers_admin_ui :: "(world, Staff list \<times> string list) io" where
  "messengers_admin_ui = bind_io list_all_staff (\<lambda>staff.
     ret (staff, map StaffRole_value [StaffRole.kitchen, StaffRole.courier, StaffRole.admin, StaffRole.staff]))"

definition staff_refused :: "string \<Rightarrow> (world, Staff list AdminAnswer) io" where
  "staff_refused why = bind_io list_all_staff (\<lambda>staff. ret (admin_refused (Some why) staff))"

definition staff_answer :: "json option \<Rightarrow> (world, Staff list AdminAnswer) io" where
  "staff_answer created = bind_io list_all_staff (\<lambda>staff. ret \<lparr>aa_ok = True, aa_error = None, aa_command = None,
     aa_result = created, aa_receipt = None, aa_view = staff\<rparr>)"

definition is_blank :: "json \<Rightarrow> bool" where
  "is_blank v \<longleftrightarrow> v = JNull \<or> v = JStr []"

definition optional_id :: "json \<Rightarrow> (world, int option) io" where
  "optional_id v = (if is_blank v then ret None else bind_io (lift_result (py_int v)) (\<lambda>n. ret (Some n)))"

definition optional_zalo_id :: "platform \<Rightarrow> json \<Rightarrow> string option" where
  "optional_zalo_id pf v = (if is_blank v then None else Some (py_strip (py_str (repr_of pf) v)))"

definition conflict_text :: string where
  "conflict_text = ''max_user_id, telegram_user_id or zalo_user_id already assigned to another staff row''"

text \<open>The answer of \<open>staff_apply\<close> carries the new id as \<open>aa_result\<close>.\<close>

definition staff_apply_route :: "platform \<Rightarrow> (string \<times> json) list \<Rightarrow> (world, Staff list AdminAnswer) io" where
  "staff_apply_route pf payload =
     (let given = json_get ''name'' payload;
          name = py_strip (if py_truthy given then py_str (repr_of pf) given else [])
      in if name = [] then staff_refused ''name is required''
         else case role_value (json_get ''role'' payload) of
           Inl _ \<Rightarrow> staff_refused (''invalid role: '' @ repr_of pf (json_get ''role'' payload))
         | Inr v \<Rightarrow> (case (case v of JStr s \<Rightarrow> StaffRole_of s | _ \<Rightarrow> Inl (ValueError ''StaffRole'')) of
             Inl e \<Rightarrow> raise e
           | Inr role \<Rightarrow>
             bind_io (catch_io
               (bind_io (optional_id (json_get ''max_user_id'' payload)) (\<lambda>mx.
                bind_io (optional_id (json_get ''telegram_user_id'' payload)) (\<lambda>tg.
                bind_io (create_staff name role mx tg (optional_zalo_id pf (json_get ''zalo_user_id'' payload))) (\<lambda>created.
                ret (Inr created)))))
               (\<lambda>e. case e of
                   StaffConflictError \<Rightarrow> ret (Inl conflict_text)
                 | TypeError _ \<Rightarrow> ret (Inl ''max_user_id/telegram_user_id must be integers'')
                 | ValueError _ \<Rightarrow> ret (Inl ''max_user_id/telegram_user_id must be integers'')
                 | _ \<Rightarrow> raise e)) (\<lambda>outcome.
             case outcome of
               Inl why \<Rightarrow> staff_refused why
             | Inr created \<Rightarrow> staff_answer (Some (JStr (sf_id created))))))"

text \<open>The fields of an update, in the order the handler collects them; Left is a refusal.\<close>

definition role_field :: "platform \<Rightarrow> (string \<times> json) list \<Rightarrow> string + (string \<times> json) list" where
  "role_field pf payload = (case map_of payload ''role'' of
       None \<Rightarrow> Inr []
     | Some v \<Rightarrow> (case role_value v of
           Inl _ \<Rightarrow> Inl (''invalid role: '' @ repr_of pf v)
         | Inr v' \<Rightarrow> Inr [(''role'', v')]))"

definition id_field :: "string \<Rightarrow> (string \<times> json) list \<Rightarrow> string + (string \<times> json) list" where
  "id_field key payload = (case map_of payload key of
       None \<Rightarrow> Inr []
     | Some raw \<Rightarrow>
         if is_blank raw then Inr [(key, JNull)]
         else (case py_int raw of
             Inl _ \<Rightarrow> Inl (key @ '' must be an integer'')
           | Inr n \<Rightarrow> Inr [(key, JInt n)]))"

definition staff_update_fields :: "platform \<Rightarrow> (string \<times> json) list \<Rightarrow> string + (string \<times> json) list" where
  "staff_update_fields pf payload =
     (case role_field pf payload of Inl why \<Rightarrow> Inl why | Inr role \<Rightarrow>
      case id_field ''max_user_id'' payload of Inl why \<Rightarrow> Inl why | Inr mx \<Rightarrow>
      case id_field ''telegram_user_id'' payload of Inl why \<Rightarrow> Inl why | Inr tg \<Rightarrow>
        Inr (concat (map (\<lambda>k. case map_of payload k of None \<Rightarrow> [] | Some v \<Rightarrow> [(k, v)]) [''name'', ''active''])
          @ role @ mx @ tg
          @ (case map_of payload ''zalo_user_id'' of
               None \<Rightarrow> []
             | Some raw \<Rightarrow> [(''zalo_user_id'',
                 (case optional_zalo_id pf raw of None \<Rightarrow> JNull | Some s \<Rightarrow> JStr s))])))"

definition staff_update_route ::
  "platform \<Rightarrow> uuid \<Rightarrow> (string \<times> json) list \<Rightarrow> (world, Staff list AdminAnswer) io" where
  "staff_update_route pf staff_id payload = (case staff_update_fields pf payload of
       Inl why \<Rightarrow> staff_refused why
     | Inr flds \<Rightarrow>
         bind_io (catch_io (bind_io (update_staff staff_id flds) (\<lambda>u. ret (Inr u)))
           (\<lambda>e. case e of StaffConflictError \<Rightarrow> ret (Inl conflict_text) | _ \<Rightarrow> raise e)) (\<lambda>outcome.
         case outcome of
           Inl why \<Rightarrow> staff_refused why
         | Inr None \<Rightarrow> raise (HTTPException 404)
         | Inr (Some _) \<Rightarrow> staff_answer None))"

end
