(* ===== verification/Order_Routes.thy ===== *)
theory Order_Routes
  imports Payment_Properties Agent_Core
begin

text \<open>
  The internal routes of orders (app/api/routes/orders.py): creation, events and
  the payment of a confirmed order. The body of a payment is the amount and
  method it names; its currency and return_url are never read.
\<close>

definition ALLOWED_PAY_METHODS :: "string list" where
  "ALLOWED_PAY_METHODS = [''yookassa_sbp'', ''yookassa_sberbank'']"

definition orders_create_order :: "platform \<Rightarrow> uuid \<Rightarrow> json list \<Rightarrow> string \<Rightarrow> (world, OrderRead) io" where
  "orders_create_order pf customer_id items delivery_address = create_order pf customer_id items delivery_address"

definition orders_trigger_event ::
  "platform \<Rightarrow> uuid \<Rightarrow> OrderEvent \<Rightarrow> (world, (OrderState, OrderEvent) TransitionResult) io" where
  "orders_trigger_event pf order_id body = transition_order pf order_id body"

record PaymentInitResponse =
  pir_confirmation_url :: string
  pir_confirmation_token :: "string option"
  pir_payment_id :: string
  pir_trace_id :: string

definition pay_order :: "platform \<Rightarrow> uuid \<Rightarrow> rat \<Rightarrow> string \<Rightarrow> (world, PaymentInitResponse) io" where
  "pay_order pf order_id amount payment_method =
     bind_io (get_order pf order_id) (\<lambda>order.
       case order of
         None \<Rightarrow> raise (HTTPException 404)
       | Some ord \<Rightarrow>
           if or_state ord \<noteq> OrderState.CONFIRMED then raise (HTTPException 409)
           else (case or_total_rub ord of
              None \<Rightarrow> raise (HTTPException 409)
            | Some total_rub \<Rightarrow>
                if amount \<noteq> of_int total_rub then raise (HTTPException 409)
                else if payment_method \<notin> set ALLOWED_PAY_METHODS then raise (HTTPException 400)
                else bind_io (create_payment pf order_id (of_int total_rub) ''RUB'' None
                       (Some (YOOKASSA_RETURN_URL (cfg pf) @ ''?order_id='' @ order_id))
                       (or_customer_phone ord) ''redirect''
                       (Some [(''type'', JStr (if payment_method = ''yookassa_sbp'' then ''sbp'' else ''sberbank''))]))
                     (\<lambda>result.
                       ret \<lparr>pir_confirmation_url = pi_confirmation_url result,
                            pir_confirmation_token = (if pi_confirmation_token result = [] then None
                                                      else Some (pi_confirmation_token result)),
                            pir_payment_id = pi_payment_id result,
                            pir_trace_id = pi_trace_id result\<rparr>)))"

section \<open>What a payment request of the route does\<close>

lemma no_commit_coerce: "no_commit (coerce_items pf raws)"
  unfolding coerce_items_def coerce_item_def
  by (intro no_commit_intros)

lemma get_order_Inr:
  assumes "get_order pf oid w = (Inr (Some ord), w1)"
  shows "committed w1 = committed w \<and> (\<exists>r. first_where (\<lambda>r. o_id r = oid) (orders (committed w)) = Some r
    \<and> o_state r = OrderState_value (or_state ord) \<and> or_total_rub ord = o_total_rub r
    \<and> or_customer_phone ord = map_option cu_phone (customer_of (committed w) r))"
  using assms no_commitD[OF no_commit_coerce]
  by (fastforce simp: get_order_def with_session_apply bind_io_apply read_row_def OrderState_of_iff
      split: option.splits sum.splits prod.splits)

text \<open>C10. A payment request of the internal route that is answered was for a CONFIRMED order with a
recorded total and named exactly this total: the provider was asked for the total of the
order by the method that was named, one of the curated two, with a redirect back to the
configured page for this order, the one new payment is PENDING with
that amount in RUB, and the order waits for it.\<close>

theorem pay_order_charges_total:
  assumes "vm_ok pf" and "pay_order pf oid amount pm w = (Inr res, w')"
  shows "\<exists>row total i amt payload data. first_where (\<lambda>r. o_id r = oid) (orders (committed w)) = Some row
    \<and> o_state row = ''CONFIRMED'' \<and> o_total_rub row = Some total \<and> amount = of_int total
    \<and> http_post pf ''https://api.yookassa.ru/v3/payments'' (JObj payload) = Inr data
    \<and> json_get ''amount'' payload = JObj [(''value'', JStr (fixed2 (of_int total))), (''currency'', JStr ''RUB'')]
    \<and> json_get ''confirmation'' payload = JObj [(''type'', JStr ''redirect''),
        (''return_url'', JStr (YOOKASSA_RETURN_URL (cfg pf) @ ''?order_id='' @ oid))]
    \<and> pm \<in> {''yookassa_sbp'', ''yookassa_sberbank''}
    \<and> json_get ''payment_method_data'' payload =
        JObj [(''type'', JStr (if pm = ''yookassa_sbp'' then ''sbp'' else ''sberbank''))]
    \<and> numeric_12_2 (of_int total) = Inr amt
    \<and> payments (committed w') = payments (committed w) @
        [\<lparr>pay_id = i, pay_order_id = oid, pay_provider_id = pir_payment_id res, pay_amount = amt,
          pay_currency = ''RUB'', pay_state = ''PENDING''\<rparr>]
    \<and> order_state_in (committed w') oid = Some ''PAYMENT_PENDING''"
proof -
  let ?pmd = "Some [(''type'', JStr (if pm = ''yookassa_sbp'' then ''sbp'' else ''sberbank''))]"
  let ?url = "Some (YOOKASSA_RETURN_URL (cfg pf) @ ''?order_id='' @ oid)"
  obtain ord w1 total result where
    o: "get_order pf oid w = (Inr (Some ord), w1)" and st: "or_state ord = OrderState.CONFIRMED"
    and tot: "or_total_rub ord = Some total" "amount = of_int total"
    and cp: "create_payment pf oid (of_int total) ''RUB'' None ?url (or_customer_phone ord) ''redirect'' ?pmd w1
        = (Inr result, w')"
    and res: "pir_payment_id res = pi_payment_id result" and pm: "pm \<in> {''yookassa_sbp'', ''yookassa_sberbank''}"
    using assms(2) unfolding pay_order_def by (elim io_elims) (auto simp: ALLOWED_PAY_METHODS_def intro: that)
  obtain row where row: "committed w1 = committed w" "first_where (\<lambda>r. o_id r = oid) (orders (committed w)) = Some row"
      "o_state row = ''CONFIRMED''" "o_total_rub row = Some total"
    using get_order_Inr[OF o] st tot by auto
  obtain i amt s where pay: "numeric_12_2 (of_int total) = Inr amt"
      "payments (committed w') = payments (committed w1) @
        [\<lparr>pay_id = i, pay_order_id = oid, pay_provider_id = pi_payment_id result, pay_amount = amt,
          pay_currency = ''RUB'', pay_state = ''PENDING''\<rparr>]"
      "order_state_in (committed w1) oid = Some (OrderState_value s)"
      "order_state_in (committed w') oid =
        Some (OrderState_value (if s = OrderState.CONFIRMED then OrderState.PAYMENT_PENDING else s))"
    using create_payment_effect[OF assms(1) cp] by blast
  have "OrderState_value s = OrderState_value OrderState.CONFIRMED"
    using pay(3) row(1-3) by (simp add: order_state_in_def)
  then have "s = OrderState.CONFIRMED" by (metis OrderState_of_iff sum.inject(2))
  moreover obtain payload data where "http_post pf ''https://api.yookassa.ru/v3/payments'' (JObj payload) = Inr data"
      "json_get ''amount'' payload = JObj [(''value'', JStr (fixed2 (of_int total))), (''currency'', JStr ''RUB'')]"
      "json_get ''confirmation'' payload = JObj [(''type'', JStr ''redirect''),
        (''return_url'', JStr (YOOKASSA_RETURN_URL (cfg pf) @ ''?order_id='' @ oid))]"
      "json_get ''payment_method_data'' payload =
        JObj [(''type'', JStr (if pm = ''yookassa_sbp'' then ''sbp'' else ''sberbank''))]"
    using cp
    by (auto simp: create_payment_def client_create_payment_def bind_io_Inr_iff Let_def optional_field_def
        split: if_splits option.splits)
  ultimately show ?thesis
    using row tot(2) pay res pm by (intro exI conjI) auto
qed

definition confirmed_world :: world where
  "confirmed_world = sample_world\<lparr>committed := sample_db\<lparr>orders := [sample_order ''o-new'' OrderState.CONFIRMED]\<rparr>\<rparr>"

theorem pay_order_charges_total_witness:
  "\<exists>i amt. numeric_12_2 399 = Inr amt
     \<and> payments (committed (snd (pay_order shop_platform ''o-new'' 399 ''yookassa_sbp'' confirmed_world)))
       = payments (committed confirmed_world) @
         [\<lparr>pay_id = i, pay_order_id = ''o-new'', pay_provider_id = ''yk-2'', pay_amount = amt,
           pay_currency = ''RUB'', pay_state = ''PENDING''\<rparr>]"
proof -
  let ?t = "pay_order shop_platform ''o-new'' 399 ''yookassa_sbp'' confirmed_world"
  let ?r = "\<lparr>pir_confirmation_url = ''https://pay'', pir_confirmation_token = None, pir_payment_id = ''yk-2'',
              pir_trace_id = ''u0''\<rparr>"
  have "fst ?t = Inr ?r" by code_simp
  then have t: "?t = (Inr ?r, snd ?t)" by (simp add: prod_eq_iff)
  obtain total i amt where "(399 :: rat) = of_int total" "numeric_12_2 (of_int total) = Inr amt"
     "payments (committed (snd ?t)) = payments (committed confirmed_world) @
         [\<lparr>pay_id = i, pay_order_id = ''o-new'', pay_provider_id = ''yk-2'', pay_amount = amt,
           pay_currency = ''RUB'', pay_state = ''PENDING''\<rparr>]"
    using pay_order_charges_total[OF vm_ok_shop t] by auto
  then show ?thesis by metis
qed

end
