(* ===== verification/Delivery_Service.thy ===== *)
theory Delivery_Service
  imports Kitchen_Service Samples
begin

text \<open>
  Delivery tasks: the repository of the delivery_tasks table
  (app/repositories/delivery_repo.py), DeliveryService
  (app/services/delivery_service.py) and its routes (app/api/routes/delivery.py),
  with the routes of the kitchen (app/api/routes/kitchen.py), which have the same
  shape. Unlike orders and tickets a task moves without a governed program: the
  transition executor writes through the repository and the session is always
  committed.
\<close>

section \<open>Repository (app/repositories/delivery_repo.py)\<close>

definition task_state_in :: "database \<Rightarrow> uuid \<Rightarrow> string option" where
  "task_state_in d i = map_option dt_state (first_where (\<lambda>r. dt_id r = i) (delivery_tasks d))"

definition set_task_state :: "uuid \<Rightarrow> string \<Rightarrow> database \<Rightarrow> database" where
  "set_task_state i st d =
     d\<lparr>delivery_tasks := update_where (\<lambda>r. dt_id r = i) (\<lambda>r. r\<lparr>dt_state := st\<rparr>) (delivery_tasks d)\<rparr>"

definition DeliveryRepository_get_state :: "uuid \<Rightarrow> (world, DeliveryState) io" where
  "DeliveryRepository_get_state task_id =
     bind_io (select_db (\<lambda>d. task_state_in d task_id)) (\<lambda>row.
       case row of None \<Rightarrow> raise NoResultFound | Some v \<Rightarrow> lift_result (DeliveryState_of v))"

definition DeliveryRepository_write_state :: "uuid \<Rightarrow> DeliveryState \<Rightarrow> (world, unit) io" where
  "DeliveryRepository_write_state task_id s = update_db (set_task_state task_id (DeliveryState_value s))"

definition DeliveryRepository_create :: "uuid \<Rightarrow> (world, uuid) io" where
  "DeliveryRepository_create order_id =
     bind_io new_uuid (\<lambda>task_id.
     bind_io (select_db (\<lambda>d. first_where (\<lambda>r. dt_id r = task_id) (delivery_tasks d) \<noteq> None)) (\<lambda>dup.
     bind_io (select_db (\<lambda>d. first_where (\<lambda>r. o_id r = order_id) (orders d) = None)) (\<lambda>orphan.
       if dup then raise (IntegrityError ''delivery_tasks_pkey'')
       else if orphan then raise (IntegrityError ''delivery_tasks_order_id_fkey'')
       else bind_io (modify_io (\<lambda>w. w\<lparr>db := (db w)\<lparr>delivery_tasks := delivery_tasks (db w) @
              [\<lparr>dt_id = task_id, dt_order_id = order_id,
                dt_state = DeliveryState_value DeliveryState.UNASSIGNED, dt_created_at = now w\<rparr>]\<rparr>\<rparr>)) (\<lambda>_.
            ret task_id))))"

section \<open>Service (app/services/delivery_service.py)\<close>

text \<open>The courier of a task is not read back by any statement: the field is always None.\<close>

record DeliveryTaskRead =
  dtr_id :: uuid
  dtr_order_id :: uuid
  dtr_state :: DeliveryState
  dtr_courier_id :: "uuid option"

definition create_task :: "uuid \<Rightarrow> (world, DeliveryTaskRead) io" where
  "create_task order_id = with_session (
     bind_io (DeliveryRepository_create order_id) (\<lambda>task_id.
     bind_io commit (\<lambda>_.
     ret \<lparr>dtr_id = task_id, dtr_order_id = order_id, dtr_state = DeliveryState.UNASSIGNED,
          dtr_courier_id = None\<rparr>)))"

definition transition_task ::
  "uuid \<Rightarrow> DeliveryEvent \<Rightarrow> (world, (DeliveryState, DeliveryEvent) TransitionResult) io" where
  "transition_task task_id event = with_session (
     bind_io (DeliveryFSM_transition DeliveryRepository_get_state DeliveryRepository_write_state task_id event)
       (\<lambda>result.
     bind_io commit (\<lambda>_. ret result)))"

definition list_tasks :: "DeliveryState option \<Rightarrow> (world, DeliveryTaskRead list) io" where
  "list_tasks state_filter = with_session (
     bind_io (select_db (\<lambda>d. sort_key (\<lambda>r. - dt_created_at r)
        (rows_where (\<lambda>r. case state_filter of None \<Rightarrow> True | Some s \<Rightarrow> dt_state r = DeliveryState_value s)
           (delivery_tasks d)))) (\<lambda>rows.
     fold_io (\<lambda>r acc.
        bind_io (lift_result (DeliveryState_of (dt_state r))) (\<lambda>s.
        ret (acc @ [\<lparr>dtr_id = dt_id r, dtr_order_id = dt_order_id r, dtr_state = s, dtr_courier_id = None\<rparr>])))
       rows []))"

section \<open>Routes (app/api/routes/delivery.py, app/api/routes/kitchen.py)\<close>

definition delivery_list_tasks :: "DeliveryState option \<Rightarrow> (world, DeliveryTaskRead list) io" where
  "delivery_list_tasks state = list_tasks state"

definition delivery_create_task :: "uuid \<Rightarrow> (world, DeliveryTaskRead) io" where
  "delivery_create_task order_id = create_task order_id"

definition delivery_trigger_event ::
  "uuid \<Rightarrow> DeliveryEvent \<Rightarrow> (world, (DeliveryState, DeliveryEvent) TransitionResult) io" where
  "delivery_trigger_event task_id body = transition_task task_id body"

definition kitchen_list_tickets :: "KitchenState option \<Rightarrow> (world, KitchenTicketRead list) io" where
  "kitchen_list_tickets state = list_tickets state"

definition kitchen_create_ticket :: "uuid \<Rightarrow> (world, KitchenTicketRead) io" where
  "kitchen_create_ticket order_id = create_ticket order_id"

definition kitchen_trigger_event ::
  "platform \<Rightarrow> uuid \<Rightarrow> KitchenEvent \<Rightarrow> (world, (KitchenState, KitchenEvent) TransitionResult) io" where
  "kitchen_trigger_event pf ticket_id body = transition_ticket pf ticket_id body"

section \<open>Lemmas\<close>

lemma task_state_in_set:
  "task_state_in (set_task_state t st d) i =
     (if i = t then map_option (\<lambda>_. st) (task_state_in d i) else task_state_in d i)"
  by (simp add: task_state_in_def set_task_state_def first_where_update_key option.map_comp comp_def)

lemma DeliveryRepository_get_state_Inr:
  "DeliveryRepository_get_state i w = (Inr s, w') \<longleftrightarrow>
     w' = w \<and> task_state_in (db w) i = Some (DeliveryState_value s)"
  by (auto simp: DeliveryRepository_get_state_def DeliveryState_of_iff split: option.splits)

lemma task_get_state_pure: "snd (DeliveryRepository_get_state i w) = w"
  by (auto simp: DeliveryRepository_get_state_def split: option.splits)

lemma task_get_state_fst:
  "fst (DeliveryRepository_get_state i w) = Inr s \<longleftrightarrow> task_state_in (db w) i = Some (DeliveryState_value s)"
  using DeliveryRepository_get_state_Inr[of i w s] by (metis prod.collapse prod.inject task_get_state_pure)

interpretation delivery_cell: state_cell DeliveryRepository_get_state DeliveryRepository_write_state
proof
  show "snd (DeliveryRepository_get_state eid w) = w" for eid w
    by (rule task_get_state_pure)
  show "fst (DeliveryRepository_write_state eid s w) = Inr ()" for eid s w
    by (simp add: DeliveryRepository_write_state_def)
  show "fst (DeliveryRepository_get_state eid (snd (DeliveryRepository_write_state eid s w))) = Inr s"
    if "fst (DeliveryRepository_get_state eid w) = Inr s0" for eid w s s0
    using that by (simp add: task_get_state_fst DeliveryRepository_write_state_def task_state_in_set)
  show "fst (DeliveryRepository_get_state eid' (snd (DeliveryRepository_write_state eid s w)))
      = fst (DeliveryRepository_get_state eid' w)" if "eid \<noteq> eid'" for eid eid' s w
    using that
    by (simp add: DeliveryRepository_get_state_def DeliveryRepository_write_state_def task_state_in_set
        bind_io_apply split: option.splits)
qed

text \<open>One event on a stored task: the executor's answer, and the row it names.\<close>

lemma transition_task_run:
  assumes "task_state_in (committed w) t = Some (DeliveryState_value s)"
  shows "transition_task t ev w = (case map_of (DELIVERY_TRANSITIONS s) ev of
      None \<Rightarrow> (Inr (rejected ev (EventNotAllowed ev s)), w\<lparr>db := committed w\<rparr>)
    | Some s' \<Rightarrow> (Inr (accepted s'),
        w\<lparr>db := set_task_state t (DeliveryState_value s') (committed w),
          committed := set_task_state t (DeliveryState_value s') (committed w)\<rparr>))"
proof -
  let ?w = "w\<lparr>db := committed w\<rparr>"
  have "fst (DeliveryRepository_get_state t ?w) = Inr s"
    using assms by (simp add: task_get_state_fst)
  note step = delivery_cell.transition_eq[OF this, of DELIVERY_TRANSITIONS ev]
  show ?thesis
    unfolding transition_task_def with_session_apply DeliveryFSM_transition_def bind_io_apply step
    by (simp add: DeliveryRepository_write_state_def split: option.splits)
qed

lemma transition_task_unknown:
  "task_state_in (committed w) t = None \<Longrightarrow> transition_task t ev w = (Inl NoResultFound, w\<lparr>db := committed w\<rparr>)"
  by (simp add: transition_task_def with_session_apply DeliveryFSM_transition_def fsm_transition_def
      DeliveryRepository_get_state_def bind_io_apply)

section \<open>A sequence of events\<close>

text \<open>
  What a client of the machine expects of a list of events: each one moves the
  state along its edge, or is turned down and leaves the state alone.
\<close>

fun fsm_answers :: "('s, 'e) graph \<Rightarrow> 's \<Rightarrow> 'e list \<Rightarrow> ('s, 'e) TransitionResult list \<times> 's" where
  "fsm_answers T s [] = ([], s)"
| "fsm_answers T s (e # es) = (case map_of (T s) e of
       None \<Rightarrow> (case fsm_answers T s es of (rs, s') \<Rightarrow> (rejected e (EventNotAllowed e s) # rs, s'))
     | Some s1 \<Rightarrow> (case fsm_answers T s1 es of (rs, s') \<Rightarrow> (accepted s1 # rs, s')))"

definition deliver_step ::
  "uuid \<Rightarrow> DeliveryEvent \<Rightarrow> (DeliveryState, DeliveryEvent) TransitionResult list
     \<Rightarrow> (world, (DeliveryState, DeliveryEvent) TransitionResult list) io" where
  "deliver_step t e rs = bind_io (delivery_trigger_event t e) (\<lambda>r. ret (rs @ [r]))"

definition deliver_events ::
  "uuid \<Rightarrow> DeliveryEvent list \<Rightarrow> (world, (DeliveryState, DeliveryEvent) TransitionResult list) io" where
  "deliver_events t es = fold_io (deliver_step t) es []"

lemma fsm_answers_accepted:
  assumes "\<And>s e s'. (e, s') \<in> set (T s) \<Longrightarrow> rank s' < (rank s :: nat)"
  shows "length (filter success (fst (fsm_answers T s es))) + rank (snd (fsm_answers T s es)) \<le> rank s"
proof (induction es arbitrary: s)
  case (Cons e es)
  show ?case
  proof (cases "map_of (T s) e")
    case None
    then show ?thesis using Cons[of s] by (simp add: case_prod_beta)
  next
    case (Some s1)
    have "rank s1 < rank s" by (rule assms[OF map_of_SomeD[OF Some]])
    then show ?thesis using Some Cons[of s1] by (simp add: case_prod_beta)
  qed
qed simp

lemma deliver_step_run:
  assumes "task_state_in (committed w) t = Some (DeliveryState_value s)"
  shows "\<exists>r s1 w1. deliver_step t e acc w = (Inr (acc @ [r]), w1)
    \<and> task_state_in (committed w1) t = Some (DeliveryState_value s1)
    \<and> (\<forall>i. i \<noteq> t \<longrightarrow> task_state_in (committed w1) i = task_state_in (committed w) i)
    \<and> (committed w1)\<lparr>delivery_tasks := delivery_tasks (committed w)\<rparr> = committed w
    \<and> (\<forall>es. fsm_answers DELIVERY_TRANSITIONS s (e # es) =
         (r # fst (fsm_answers DELIVERY_TRANSITIONS s1 es), snd (fsm_answers DELIVERY_TRANSITIONS s1 es)))"
proof (cases "map_of (DELIVERY_TRANSITIONS s) e")
  case None
  then show ?thesis
    using assms
    by (intro exI[of _ "rejected e (EventNotAllowed e s)"] exI[of _ s] exI[of _ "w\<lparr>db := committed w\<rparr>"])
      (simp add: deliver_step_def bind_io_apply delivery_trigger_event_def transition_task_run case_prod_beta)
next
  case (Some s1)
  let ?d = "set_task_state t (DeliveryState_value s1) (committed w)"
  have "?d\<lparr>delivery_tasks := delivery_tasks (committed w)\<rparr> = committed w"
    by (simp add: set_task_state_def)
  then show ?thesis
    using assms Some
    by (intro exI[of _ "accepted s1"] exI[of _ s1] exI[of _ "w\<lparr>db := ?d, committed := ?d\<rparr>"])
      (simp add: deliver_step_def bind_io_apply delivery_trigger_event_def transition_task_run case_prod_beta
        task_state_in_set)
qed

lemma delivery_frame_trans:
  assumes "d2\<lparr>delivery_tasks := delivery_tasks d1\<rparr> = d1" "d1\<lparr>delivery_tasks := delivery_tasks d0\<rparr> = (d0 :: database)"
  shows "d2\<lparr>delivery_tasks := delivery_tasks d0\<rparr> = d0"
proof -
  have "(d2\<lparr>delivery_tasks := delivery_tasks d1\<rparr>)\<lparr>delivery_tasks := delivery_tasks d0\<rparr> = d0"
    unfolding assms(1) by (rule assms(2))
  then show ?thesis by simp
qed

lemma deliver_events_run:
  assumes "task_state_in (committed w) t = Some (DeliveryState_value s)"
  shows "\<exists>w'. fold_io (deliver_step t) es acc w = (Inr (acc @ fst (fsm_answers DELIVERY_TRANSITIONS s es)), w')
    \<and> task_state_in (committed w') t = Some (DeliveryState_value (snd (fsm_answers DELIVERY_TRANSITIONS s es)))
    \<and> (\<forall>i. i \<noteq> t \<longrightarrow> task_state_in (committed w') i = task_state_in (committed w) i)
    \<and> (committed w')\<lparr>delivery_tasks := delivery_tasks (committed w)\<rparr> = committed w"
  using assms
proof (induction es arbitrary: w s acc)
  case (Cons e es)
  obtain r s1 w1 where step: "deliver_step t e acc w = (Inr (acc @ [r]), w1)"
      "task_state_in (committed w1) t = Some (DeliveryState_value s1)"
      "\<And>i. i \<noteq> t \<Longrightarrow> task_state_in (committed w1) i = task_state_in (committed w) i"
      "(committed w1)\<lparr>delivery_tasks := delivery_tasks (committed w)\<rparr> = committed w"
      "fsm_answers DELIVERY_TRANSITIONS s (e # es) =
         (r # fst (fsm_answers DELIVERY_TRANSITIONS s1 es), snd (fsm_answers DELIVERY_TRANSITIONS s1 es))"
    using deliver_step_run[OF Cons.prems, of e acc] by blast
  obtain w' where rest: "fold_io (deliver_step t) es (acc @ [r]) w1
        = (Inr ((acc @ [r]) @ fst (fsm_answers DELIVERY_TRANSITIONS s1 es)), w')"
      "task_state_in (committed w') t = Some (DeliveryState_value (snd (fsm_answers DELIVERY_TRANSITIONS s1 es)))"
      "\<And>i. i \<noteq> t \<Longrightarrow> task_state_in (committed w') i = task_state_in (committed w1) i"
      "(committed w')\<lparr>delivery_tasks := delivery_tasks (committed w1)\<rparr> = committed w1"
    using Cons.IH[OF step(2), of "acc @ [r]"] by blast
  have "fold_io (deliver_step t) (e # es) acc w
      = (Inr (acc @ fst (fsm_answers DELIVERY_TRANSITIONS s (e # es))), w')"
    unfolding step(5) using step(1) rest(1) by simp
  then show ?case
    using rest(2,3) step(3,5) delivery_frame_trans[OF rest(4) step(4)] by (intro exI[of _ w']) simp
qed (simp add: task_state_in_def)

text \<open>C29. The delivery route follows the transition table under any list of events on a task:
the answers are those of the table, the task ends in the state the accepted events lead to,
no other task and no other table changes, and at most as many events are accepted as the
rank of the first state allows.\<close>

theorem delivery_events_refine:
  assumes "task_state_in (committed w) t = Some (DeliveryState_value s)"
    and "fsm_answers DELIVERY_TRANSITIONS s es = (rs, s')"
  shows "\<exists>w'. deliver_events t es w = (Inr rs, w')
    \<and> (\<forall>i. task_state_in (committed w') i =
          (if i = t then Some (DeliveryState_value s') else task_state_in (committed w) i))
    \<and> (committed w')\<lparr>delivery_tasks := delivery_tasks (committed w)\<rparr> = committed w
    \<and> length (filter success rs) + delivery_rank s' \<le> delivery_rank s"
proof -
  have "length (filter success rs) + delivery_rank s' \<le> delivery_rank s"
    using fsm_answers_accepted[of DELIVERY_TRANSITIONS delivery_rank s es, OF dg.rank_decreases] assms(2) by simp
  moreover obtain w' where "fold_io (deliver_step t) es [] w = (Inr rs, w')"
      "task_state_in (committed w') t = Some (DeliveryState_value s')"
      "\<And>i. i \<noteq> t \<Longrightarrow> task_state_in (committed w') i = task_state_in (committed w) i"
      "(committed w')\<lparr>delivery_tasks := delivery_tasks (committed w)\<rparr> = committed w"
    using deliver_events_run[OF assms(1), of es "[]"] assms(2) by auto
  ultimately show ?thesis
    by (intro exI[of _ w']) (simp add: deliver_events_def)
qed

definition delivery_world :: world where
  "delivery_world = sample_world\<lparr>committed := sample_db\<lparr>delivery_tasks :=
     [\<lparr>dt_id = ''d1'', dt_order_id = ''o-paid'', dt_state = ''ASSIGNED'', dt_created_at = 1\<rparr>]\<rparr>\<rparr>"

theorem delivery_events_refine_witness:
  "\<exists>w'. deliver_events ''d1'' [DeliveryEvent.ASSIGN, DeliveryEvent.PICKUP, DeliveryEvent.START_ROUTE] delivery_world
      = (Inr [rejected DeliveryEvent.ASSIGN (EventNotAllowed DeliveryEvent.ASSIGN DeliveryState.ASSIGNED),
              accepted DeliveryState.PICKED_UP, accepted DeliveryState.ON_ROUTE], w')
    \<and> task_state_in (committed w') ''d1'' = Some ''ON_ROUTE''"
proof -
  have "task_state_in (committed delivery_world) ''d1'' = Some (DeliveryState_value DeliveryState.ASSIGNED)"
    by code_simp
  then show ?thesis
    using delivery_events_refine[of delivery_world "''d1''" DeliveryState.ASSIGNED
        "[DeliveryEvent.ASSIGN, DeliveryEvent.PICKUP, DeliveryEvent.START_ROUTE]"]
    by fastforce
qed

end
