(* ===== verification/Web_Auth.thy ===== *)
theory Web_Auth
  imports Platform
begin

text \<open>
  The gate of the browser surfaces (app/web/auth.py) and how app/main.py puts it
  before the routers. A request is its method, the two headers the guard reads and
  the Basic credentials as FastAPI's HTTPBasic hands them over. \<open>ip_ok\<close> is the
  check of the ipaddress library on a host in brackets.
\<close>

record request =
  rq_method :: string
  rq_origin :: "string option"
  rq_host :: "string option"
  rq_credentials :: "(string \<times> string) option"

section \<open>urlparse(url).netloc\<close>

definition ASCII_LETTERS :: string where
  "ASCII_LETTERS = ''abcdefghijklmnopqrstuvwxyzABCDEFGHIJKLMNOPQRSTUVWXYZ''"

definition SCHEME_CHARS :: string where
  "SCHEME_CHARS = ASCII_LETTERS @ ''0123456789+-.''"

text \<open>Leading control characters and spaces go, tabs and line ends go everywhere.\<close>

definition clean_url :: "string \<Rightarrow> string" where
  "clean_url u = filter (\<lambda>c. c \<notin> {CHR 0x09, CHR 0x0A, CHR 0x0D}) (dropWhile (\<lambda>c. of_char c \<le> (32 :: nat)) u)"

definition drop_scheme :: "string \<Rightarrow> string" where
  "drop_scheme u = (let scheme = takeWhile (\<lambda>c. c \<noteq> CHR '':'') u in
     if length scheme < length u \<and> scheme \<noteq> [] \<and> hd scheme \<in> set ASCII_LETTERS \<and> set scheme \<subseteq> set SCHEME_CHARS
     then drop (Suc (length scheme)) u else u)"

definition url_netloc :: "(string \<Rightarrow> bool) \<Rightarrow> string \<Rightarrow> string result" where
  "url_netloc ip_ok url = (let u = drop_scheme (clean_url url) in
     if take 2 u \<noteq> ''//'' then Inr []
     else let netloc = takeWhile (\<lambda>c. c \<notin> set ''/?#'') (drop 2 u);
              opens = CHR ''['' \<in> set netloc; closes = CHR '']'' \<in> set netloc
          in if opens \<noteq> closes then Inl (ValueError ''Invalid IPv6 URL'')
             else if opens \<and> \<not> ip_ok netloc then Inl (ValueError ''Invalid IPv6 URL'')
             else Inr netloc)"

section \<open>The two dependencies (app/web/auth.py)\<close>

definition MUTATING_METHODS :: "string list" where
  "MUTATING_METHODS = [''POST'', ''PUT'', ''PATCH'', ''DELETE'']"

definition require_same_origin :: "(string \<Rightarrow> bool) \<Rightarrow> request \<Rightarrow> (world, unit) io" where
  "require_same_origin ip_ok rq =
     (if rq_method rq \<notin> set MUTATING_METHODS then ret ()
      else case rq_origin rq of
        None \<Rightarrow> ret ()
      | Some origin \<Rightarrow>
          if origin = [] then ret ()
          else bind_io (lift_result (url_netloc ip_ok origin)) (\<lambda>origin_netloc.
            let host = (case rq_host rq of None \<Rightarrow> [] | Some h \<Rightarrow> h)
            in if origin_netloc = [] \<or> host = [] \<or> origin_netloc \<noteq> host then raise (HTTPException 403)
               else ret ()))"

definition get_current_username :: "platform \<Rightarrow> (string \<times> string) option \<Rightarrow> (world, string) io" where
  "get_current_username pf credentials = (case credentials of
       None \<Rightarrow> raise (HTTPException 401)
     | Some (username, password) \<Rightarrow>
         if username \<noteq> DASHBOARD_USER (cfg pf) then raise (HTTPException 401)
         else if DASHBOARD_PASSWORD_HASH (cfg pf) = [] then raise (HTTPException 401)
         else if \<not> verify_password pf password (DASHBOARD_PASSWORD_HASH (cfg pf)) then raise (HTTPException 401)
         else ret username)"

section \<open>Routers behind the gate (app/main.py)\<close>

definition internal_api_auth :: "platform \<Rightarrow> request \<Rightarrow> (world, 'a) io \<Rightarrow> (world, 'a) io" where
  "internal_api_auth pf rq handler = bind_io (get_current_username pf (rq_credentials rq)) (\<lambda>_. handler)"

definition admin_auth :: "platform \<Rightarrow> (string \<Rightarrow> bool) \<Rightarrow> request \<Rightarrow> (world, 'a) io \<Rightarrow> (world, 'a) io" where
  "admin_auth pf ip_ok rq handler =
     bind_io (get_current_username pf (rq_credentials rq)) (\<lambda>_.
     bind_io (require_same_origin ip_ok rq) (\<lambda>_. handler))"

section \<open>What passes\<close>

definition authorised :: "platform \<Rightarrow> request \<Rightarrow> bool" where
  "authorised pf rq \<longleftrightarrow> (\<exists>u p. rq_credentials rq = Some (u, p) \<and> u = DASHBOARD_USER (cfg pf)
     \<and> DASHBOARD_PASSWORD_HASH (cfg pf) \<noteq> [] \<and> verify_password pf p (DASHBOARD_PASSWORD_HASH (cfg pf)))"

definition same_origin :: "(string \<Rightarrow> bool) \<Rightarrow> request \<Rightarrow> bool" where
  "same_origin ip_ok rq \<longleftrightarrow> rq_method rq \<in> set MUTATING_METHODS \<longrightarrow> rq_origin rq \<notin> {None, Some []} \<longrightarrow>
     (\<exists>h. rq_host rq = Some h \<and> h \<noteq> [] \<and> url_netloc ip_ok (the (rq_origin rq)) = Inr h)"

lemma get_current_username_run:
  "get_current_username pf (rq_credentials rq) w =
     (if authorised pf rq then Inr (DASHBOARD_USER (cfg pf)) else Inl (HTTPException 401), w)"
  by (auto simp: get_current_username_def authorised_def split: option.splits)

lemma require_same_origin_run:
  "snd (require_same_origin ip_ok rq w) = w \<and> (fst (require_same_origin ip_ok rq w) = Inr () \<longleftrightarrow> same_origin ip_ok rq)"
  by (auto simp: require_same_origin_def same_origin_def bind_io_apply Let_def split: option.splits sum.splits)

lemma internal_api_auth_run:
  "internal_api_auth pf rq m w = (if authorised pf rq then m w else (Inl (HTTPException 401), w))"
  by (simp add: internal_api_auth_def bind_io_apply get_current_username_run)

lemma admin_auth_passes: "authorised pf rq \<Longrightarrow> same_origin ip_ok rq \<Longrightarrow> admin_auth pf ip_ok rq m w = m w"
  using require_same_origin_run[of ip_ok rq w]
  by (cases "require_same_origin ip_ok rq w") (simp add: admin_auth_def bind_io_apply get_current_username_run)

lemma admin_auth_stops:
  assumes "\<not> (authorised pf rq \<and> same_origin ip_ok rq)"
  shows "snd (admin_auth pf ip_ok rq m w) = w"
proof (cases "authorised pf rq")
  case True
  obtain r where r: "require_same_origin ip_ok rq w = (r, w)"
    using require_same_origin_run[of ip_ok rq w] by (metis prod.collapse)
  then obtain e where "r = Inl e"
    using assms True require_same_origin_run[of ip_ok rq w] by (cases r) auto
  then show ?thesis using r by (simp add: admin_auth_def bind_io_apply get_current_username_run)
qed (simp add: admin_auth_def bind_io_apply get_current_username_run)

end
