(* ===== verification/Dashboard_Routes.thy ===== *)
theory Dashboard_Routes
  imports Admin_Routes Order_Routes Delivery_Service Inventory_Service Web_Auth
begin

text \<open>
  The dashboard of the restaurant (app/web/routes.py): boards of orders and
  tickets, the stock panel, promotions, statistics. A page is the context of its
  template; the boards' columns carry Russian titles in the code and are named by
  what they hold here.
\<close>

section \<open>Boards\<close>

datatype board_column = NewColumn | QueueColumn | CookingColumn | ReadyColumn | IssuedColumn | CancelledColumn

definition COLUMN_GROUPING :: "(board_column \<times> OrderState list) list" where
  "COLUMN_GROUPING =
     [(NewColumn, [OrderState.DRAFT]),
      (QueueColumn, [OrderState.CONFIRMED, OrderState.PAYMENT_PENDING, OrderState.PAID]),
      (CookingColumn, [OrderState.COOKING]),
      (ReadyColumn, [OrderState.PACKING, OrderState.COURIER_ASSIGNED, OrderState.DELIVERING]),
      (IssuedColumn, [OrderState.DELIVERED, OrderState.CLOSED]),
      (CancelledColumn, [OrderState.CANCELLED])]"

definition KITCHEN_COLUMNS :: "(board_column \<times> KitchenState list) list" where
  "KITCHEN_COLUMNS =
     [(NewColumn, [KitchenState.NEW]),
      (QueueColumn, [KitchenState.QUEUED]),
      (CookingColumn, [KitchenState.PREPARING]),
      (ReadyColumn, [KitchenState.READY]),
      (IssuedColumn, [KitchenState.HANDED_OFF])]"

text \<open>The first column whose states contain the state; a row with no column is dropped.\<close>

definition put_in_column ::
  "(board_column \<times> 's list) list \<Rightarrow> ('r \<Rightarrow> 's) \<Rightarrow> 'r \<Rightarrow> (board_column \<times> 'r list) list \<Rightarrow> (board_column \<times> 'r list) list" where
  "put_in_column grouping state_of r cols =
     (case List.find (\<lambda>(_, states). state_of r \<in> set states) grouping of
        None \<Rightarrow> cols
      | Some (c, _) \<Rightarrow> map (\<lambda>(c', rs). (c', if c' = c then rs @ [r] else rs)) cols)"

definition group_rows ::
  "(board_column \<times> 's list) list \<Rightarrow> ('r \<Rightarrow> 's) \<Rightarrow> 'r list \<Rightarrow> (board_column \<times> 'r list) list" where
  "group_rows grouping state_of rows =
     fold (put_in_column grouping state_of) rows (map (\<lambda>(c, _). (c, [])) grouping)"

definition group_orders :: "OrderRead list \<Rightarrow> (board_column \<times> OrderRead list) list" where
  "group_orders rows = group_rows COLUMN_GROUPING or_state rows"

definition group_kitchen_tickets :: "KitchenTicketRead list \<Rightarrow> (board_column \<times> KitchenTicketRead list) list" where
  "group_kitchen_tickets rows = group_rows KITCHEN_COLUMNS ktr_state rows"

definition active_count :: "(board_column \<times> OrderRead list) list \<Rightarrow> nat" where
  "active_count cols = sum_list (map (\<lambda>(c, rs). if c \<in> {IssuedColumn, CancelledColumn} then 0 else length rs) cols)"

definition dashboard_home :: "platform \<Rightarrow> (world, (board_column \<times> OrderRead list) list
     \<times> (board_column \<times> KitchenTicketRead list) list \<times> nat) io" where
  "dashboard_home pf =
     bind_io (fetch_orders pf None) (\<lambda>ords.
     bind_io (list_tickets None) (\<lambda>tickets.
     ret (group_orders ords, group_kitchen_tickets tickets, active_count (group_orders ords))))"

definition orders_board_partial :: "platform \<Rightarrow> (world, (board_column \<times> OrderRead list) list) io" where
  "orders_board_partial pf = bind_io (fetch_orders pf None) (\<lambda>ords. ret (group_orders ords))"

text \<open>\<open>orders_by_id\<close> is a dict: of two rows with one id the last stays.\<close>

definition kitchen_board_partial ::
  "platform \<Rightarrow> (world, (board_column \<times> KitchenTicketRead list) list \<times> (uuid \<Rightarrow> OrderRead option)) io" where
  "kitchen_board_partial pf =
     bind_io (list_tickets None) (\<lambda>tickets.
     bind_io (fetch_orders pf None) (\<lambda>all_orders.
     ret (group_kitchen_tickets tickets, map_of (map (\<lambda>x. (or_id x, x)) (rev all_orders)))))"

definition kitchen_ticket_event ::
  "platform \<Rightarrow> uuid \<Rightarrow> string \<Rightarrow> (world, (board_column \<times> KitchenTicketRead list) list \<times> (uuid \<Rightarrow> OrderRead option)) io" where
  "kitchen_ticket_event pf ticket_id event =
     bind_io (lift_result (KitchenEvent_of event)) (\<lambda>ev.
     bind_io (transition_ticket pf ticket_id ev) (\<lambda>_. kitchen_board_partial pf))"

section \<open>Stock\<close>

definition inventory_panel_partial :: "platform \<Rightarrow> (world, InventoryItemRead list) io" where
  "inventory_panel_partial pf = list_inventory pf"

definition inventory_sync :: "platform \<Rightarrow> (world, InventoryItemRead list \<times> InventorySyncResult) io" where
  "inventory_sync pf = bind_io sync_from_menu (\<lambda>result. bind_io (list_inventory pf) (\<lambda>items. ret (items, result)))"

definition inventory_items :: "platform \<Rightarrow> (world, InventoryItemRead list) io" where
  "inventory_items pf = list_inventory pf"

definition inventory_sync_json :: "platform \<Rightarrow> (world, int \<times> int \<times> InventoryItemRead list) io" where
  "inventory_sync_json pf = bind_io sync_from_menu (\<lambda>result. bind_io (list_inventory pf) (\<lambda>items.
     ret (isr_created result, isr_skipped_no_sku result, items)))"

definition inventory_set_quantity :: "string \<Rightarrow> int \<Rightarrow> (world, InventoryItemRead) io" where
  "inventory_set_quantity sku quantity =
     catch_io (set_quantity sku quantity)
       (\<lambda>e. case e of ValueError _ \<Rightarrow> raise (HTTPException 404) | _ \<Rightarrow> raise e)"

definition inventory_restock :: "platform \<Rightarrow> string \<Rightarrow> (world, InventoryItemRead list AdminAnswer) io" where
  "inventory_restock pf instruction =
     bind_io (manage_restock pf (JStr instruction)) (\<lambda>c.
       case (case collected c of Some JNull \<Rightarrow> None | x \<Rightarrow> x) of
         None \<Rightarrow> bind_io (list_inventory pf) (\<lambda>items. ret (admin_refused (unparseable c) items))
       | Some command \<Rightarrow>
           bind_io (apply_restock pf command) (\<lambda>ap.
           bind_io (list_inventory pf) (\<lambda>items.
           ret \<lparr>aa_ok = apr_applied ap, aa_error = apr_error ap, aa_command = Some command, aa_result = None,
                aa_receipt = None, aa_view = items\<rparr>)))"

definition inventory_movements_summary :: "int option \<Rightarrow> int option \<Rightarrow> (world, MovementsSummary) io" where
  "inventory_movements_summary from_date to_date = movements_summary from_date to_date"

definition export_filename :: "int option \<Rightarrow> int option \<Rightarrow> string" where
  "export_filename from_date to_date = ''inventory_movements'' @
     (if from_date = None \<and> to_date = None then []
      else ''_'' @ (case from_date of None \<Rightarrow> ''start'' | Some d \<Rightarrow> iso_date d)
         @ ''_'' @ (case to_date of None \<Rightarrow> ''now'' | Some d \<Rightarrow> iso_date d))"

definition inventory_export_csv :: "platform \<Rightarrow> int option \<Rightarrow> int option \<Rightarrow> (world, string \<times> string) io" where
  "inventory_export_csv pf from_date to_date =
     bind_io (export_movements_csv pf from_date to_date) (\<lambda>csv_text.
     ret (csv_text, export_filename from_date to_date @ ''.csv''))"

section \<open>Promotions, statistics and receipts\<close>

definition promotions_panel_partial :: "(world, PromotionRead list) io" where
  "promotions_panel_partial = list_promotions"

record observed =
  ob_program_name :: string
  ob_from_step :: string
  ob_to_step :: string
  ob_model_id :: string
  ob_count :: int

definition observed_key :: "observed \<Rightarrow> string \<times> string \<times> string \<times> string" where
  "observed_key t = (ob_program_name t, ob_from_step t, ob_to_step t, ob_model_id t)"

definition ORDER_STATES :: "OrderState list" where
  "ORDER_STATES = [OrderState.DRAFT, OrderState.CONFIRMED, OrderState.PAYMENT_PENDING, OrderState.PAID,
     OrderState.COOKING, OrderState.PACKING, OrderState.COURIER_ASSIGNED, OrderState.DELIVERING,
     OrderState.DELIVERED, OrderState.CLOSED, OrderState.CANCELLED]"

definition state_counts :: "OrderRead list \<Rightarrow> (string \<times> nat) list" where
  "state_counts ords = map (\<lambda>s. (OrderState_value s, length (filter (\<lambda>x. or_state x = s) ords))) ORDER_STATES"

definition add_observed :: "observed \<Rightarrow> observed list \<Rightarrow> observed list" where
  "add_observed t seen = (if observed_key t \<in> observed_key ` set seen then seen else seen @ [t])"

definition stats_dashboard ::
  "platform \<Rightarrow> (string \<Rightarrow> string option \<Rightarrow> observed list) \<Rightarrow> (world, (string \<times> nat) list \<times> observed list \<times> int) io" where
  "stats_dashboard pf transitions =
     bind_io (fetch_orders pf None) (\<lambda>ords.
       let ts = fold add_observed (concat (map (\<lambda>(_, p). transitions (program_name p) None) EVENT_PROGRAM_MAP)) []
       in ret (state_counts ords, ts, (case map ob_count ts of [] \<Rightarrow> 0 | c # cs \<Rightarrow> fold max cs c)))"

definition order_receipt_viewer :: "platform \<Rightarrow> (string \<Rightarrow> json result) \<Rightarrow> uuid \<Rightarrow> (world, json) io" where
  "order_receipt_viewer pf receipts order_id =
     bind_io (get_order pf order_id) (\<lambda>order.
       case order of
         None \<Rightarrow> raise (HTTPException 404)
       | Some ord \<Rightarrow> (case or_trace_id ord of
             None \<Rightarrow> raise (HTTPException 404)
           | Some tid \<Rightarrow> lift_result (receipts tid)))"

section \<open>The protected surface (app/main.py)\<close>

text \<open>
  Every route behind the gate of app/main.py, with its path and body parameters:
  the internal JSON routers, the administration API, and the dashboard.
\<close>

datatype internal_call =
    CreateOrder uuid "json list" string | OrderEventCall uuid OrderEvent | PayOrder uuid rat string
  | ListTickets "KitchenState option" | CreateTicket uuid | TicketEvent uuid KitchenEvent
  | ListTasks "DeliveryState option" | CreateTask uuid | TaskEvent uuid DeliveryEvent

datatype browser_call =
    ListOrders "OrderState option" | OrderReceipt uuid | Transitions string "string option"
  | ImportCsv "string result" | CategoryApply "(string \<times> json) list" | CategoryUpdate uuid "(string \<times> json) list"
  | ProductApply "(string \<times> json) list" | ProductUpdate string "(string \<times> json) list" | GenerateSkus | MenuUi
  | ScheduleUi | ScheduleApply "(string \<times> json) list" | ZonesUi | ZoneApply "(string \<times> json) list"
  | ZoneUpdate uuid "(string \<times> json) list" | PromotionApply "(string \<times> json) list" | MessengersUi
  | StaffApply "(string \<times> json) list" | StaffUpdate uuid "(string \<times> json) list"
  | DashboardHome | StaticPage | OrdersPartial | KitchenPartial | KitchenTicketEvent uuid string
  | InventoryPartial | InventorySync | InventoryItems | InventorySyncJson | SetQuantity string int
  | Restock string | MovementsSummaryCall "int option" "int option" | Export "int option" "int option"
  | PromotionsPartial | Stats | ReceiptViewer uuid

record surface_env =
  env_receipts :: "string \<Rightarrow> json result"
  env_transitions :: "string \<Rightarrow> string option \<Rightarrow> observed list"
  env_snapshot_hash :: "trace \<Rightarrow> string"
  env_last_report :: "ImportReport option"
  env_ip_ok :: "string \<Rightarrow> bool"

fun internal_method :: "internal_call \<Rightarrow> string" where
  "internal_method (ListTickets _) = ''GET''"
| "internal_method (ListTasks _) = ''GET''"
| "internal_method _ = ''POST''"

fun browser_method :: "browser_call \<Rightarrow> string" where
  "browser_method (ImportCsv _) = ''POST''"
| "browser_method (CategoryApply _) = ''POST''"
| "browser_method (CategoryUpdate _ _) = ''PATCH''"
| "browser_method (ProductApply _) = ''POST''"
| "browser_method (ProductUpdate _ _) = ''PATCH''"
| "browser_method GenerateSkus = ''POST''"
| "browser_method (ScheduleApply _) = ''POST''"
| "browser_method (ZoneApply _) = ''POST''"
| "browser_method (ZoneUpdate _ _) = ''PATCH''"
| "browser_method (PromotionApply _) = ''POST''"
| "browser_method (StaffApply _) = ''POST''"
| "browser_method (StaffUpdate _ _) = ''PATCH''"
| "browser_method (KitchenTicketEvent _ _) = ''POST''"
| "browser_method InventorySync = ''POST''"
| "browser_method InventorySyncJson = ''POST''"
| "browser_method (SetQuantity _ _) = ''PATCH''"
| "browser_method (Restock _) = ''POST''"
| "browser_method _ = ''GET''"

definition answered :: "(world, 'a) io \<Rightarrow> (world, unit) io" where
  "answered m = bind_io m (\<lambda>_. ret ())"

fun internal_handler :: "platform \<Rightarrow> internal_call \<Rightarrow> (world, unit) io" where
  "internal_handler pf (CreateOrder c items address) = answered (orders_create_order pf c items address)"
| "internal_handler pf (OrderEventCall i ev) = answered (orders_trigger_event pf i ev)"
| "internal_handler pf (PayOrder i amount pm) = answered (pay_order pf i amount pm)"
| "internal_handler pf (ListTickets s) = answered (kitchen_list_tickets s)"
| "internal_handler pf (CreateTicket i) = answered (kitchen_create_ticket i)"
| "internal_handler pf (TicketEvent i ev) = answered (kitchen_trigger_event pf i ev)"
| "internal_handler pf (ListTasks s) = answered (delivery_list_tasks s)"
| "internal_handler pf (CreateTask i) = answered (delivery_create_task i)"
| "internal_handler pf (TaskEvent i ev) = answered (delivery_trigger_event i ev)"

fun browser_handler :: "platform \<Rightarrow> surface_env \<Rightarrow> browser_call \<Rightarrow> (world, unit) io" where
  "browser_handler pf env (ListOrders s) = answered (admin_list_orders pf s)"
| "browser_handler pf env (OrderReceipt i) = answered (get_order_receipt pf (env_receipts env) i)"
| "browser_handler pf env (Transitions p m) = answered (list_transitions (env_transitions env) p m)"
| "browser_handler pf env (ImportCsv upload) = answered (import_menu_csv pf (env_snapshot_hash env) upload)"
| "browser_handler pf env (CategoryApply p) = answered (menu_category_apply pf (env_receipts env) p)"
| "browser_handler pf env (CategoryUpdate i p) = answered (menu_category_update pf (env_receipts env) i p)"
| "browser_handler pf env (ProductApply p) = answered (menu_product_apply pf (env_receipts env) p)"
| "browser_handler pf env (ProductUpdate i p) = answered (menu_product_update pf (env_receipts env) i p)"
| "browser_handler pf env GenerateSkus = answered (menu_products_generate_skus pf)"
| "browser_handler pf env MenuUi = answered (menu_admin_ui pf (env_last_report env))"
| "browser_handler pf env ScheduleUi = answered (schedule_admin_ui pf)"
| "browser_handler pf env (ScheduleApply p) = answered (schedule_apply_route pf (env_receipts env) p)"
| "browser_handler pf env ZonesUi = answered (zones_admin_ui pf)"
| "browser_handler pf env (ZoneApply p) = answered (zone_apply_route pf (env_receipts env) p)"
| "browser_handler pf env (ZoneUpdate i p) = answered (zone_update_route pf (env_receipts env) i p)"
| "browser_handler pf env (PromotionApply p) = answered (promotion_apply_route pf (env_receipts env) p)"
| "browser_handler pf env MessengersUi = answered messengers_admin_ui"
| "browser_handler pf env (StaffApply p) = answered (staff_apply_route pf p)"
| "browser_handler pf env (StaffUpdate i p) = answered (staff_update_route pf i p)"
| "browser_handler pf env DashboardHome = answered (dashboard_home pf)"
| "browser_handler pf env StaticPage = ret ()"
| "browser_handler pf env OrdersPartial = answered (orders_board_partial pf)"
| "browser_handler pf env KitchenPartial = answered (kitchen_board_partial pf)"
| "browser_handler pf env (KitchenTicketEvent i ev) = answered (kitchen_ticket_event pf i ev)"
| "browser_handler pf env InventoryPartial = answered (inventory_panel_partial pf)"
| "browser_handler pf env InventorySync = answered (inventory_sync pf)"
| "browser_handler pf env InventoryItems = answered (inventory_items pf)"
| "browser_handler pf env InventorySyncJson = answered (inventory_sync_json pf)"
| "browser_handler pf env (SetQuantity sku n) = answered (inventory_set_quantity sku n)"
| "browser_handler pf env (Restock t) = answered (inventory_restock pf t)"
| "browser_handler pf env (MovementsSummaryCall a b) = answered (inventory_movements_summary a b)"
| "browser_handler pf env (Export a b) = answered (inventory_export_csv pf a b)"
| "browser_handler pf env PromotionsPartial = answered promotions_panel_partial"
| "browser_handler pf env Stats = answered (stats_dashboard pf (env_transitions env))"
| "browser_handler pf env (ReceiptViewer i) = answered (order_receipt_viewer pf (env_receipts env) i)"

datatype surface_call = Internal internal_call | Browser browser_call

definition surface_method :: "surface_call \<Rightarrow> string" where
  "surface_method call = (case call of Internal c \<Rightarrow> internal_method c | Browser c \<Rightarrow> browser_method c)"

definition protected_surface :: "platform \<Rightarrow> surface_env \<Rightarrow> request \<Rightarrow> surface_call \<Rightarrow> (world, unit) io" where
  "protected_surface pf env rq call =
     (if rq_method rq \<noteq> surface_method call then raise (HTTPException 405)
      else case call of
          Internal c \<Rightarrow> internal_api_auth pf rq (internal_handler pf c)
        | Browser c \<Rightarrow> admin_auth pf (env_ip_ok env) rq (browser_handler pf env c))"

end
