(* ===== verification/Surface_Properties.thy ===== *)
theory Surface_Properties
  imports Dashboard_Routes "HOL-Library.Multiset"
begin

text \<open>
  What the protected surface keeps: who may change the database through it, what
  the boards show, and two places where it does more than its guard or its
  documentation says.
\<close>

section \<open>Reading routes\<close>

lemma no_commit_lookups [no_commit_intros]:
  "no_commit (gets_io f)" "no_commit (lift_result r)" "no_commit (list_tickets s)" "no_commit (list_tasks t)"
  "no_commit (fetch_orders pf st)" "no_commit (get_order pf oid)" "no_commit (list_inventory pf)"
  "no_commit list_promotions" "no_commit list_all_staff" "no_commit (get_admin_data pf)"
  "no_commit (list_all_zones pf)" "no_commit (get_admin_windows pf)" "no_commit (fetch_categories_ref pf)"
  "no_commit (fetch_categories_full pf)" "no_commit (movements_summary a b)" "no_commit (export_movements_csv pf a b)"
proof -
  show gets: "no_commit (gets_io f)" for f :: "world \<Rightarrow> 'x"
    by (simp add: no_commit_def)
  show lift: "no_commit (lift_result r)" for r :: "'y result"
    by (simp add: no_commit_def)
  note [no_commit_intros] = gets lift no_commit_coerce
  have rows: "no_commit (read_row pf r)" for pf r
    unfolding read_row_def by (intro no_commit_intros)
  have pair: "(\<And>a b. no_commit (f a b acc)) \<Longrightarrow> no_commit ((case p of (a, b) \<Rightarrow> f a b) acc)"
    for p :: "'a1 \<times> 'b1" and f :: "'a1 \<Rightarrow> 'b1 \<Rightarrow> 'c1 \<Rightarrow> (world, 'd1) io" and acc
    by (cases p) simp
  note [no_commit_intros] = rows pair
  show "no_commit (list_tickets s)" "no_commit (list_tasks t)" "no_commit (list_inventory pf)"
    "no_commit list_promotions" "no_commit list_all_staff" "no_commit (get_admin_data pf)"
    "no_commit (list_all_zones pf)" "no_commit (get_admin_windows pf)" "no_commit (fetch_categories_ref pf)"
    "no_commit (fetch_categories_full pf)" "no_commit (export_movements_csv pf a b)"
    unfolding list_tickets_def list_tasks_def list_inventory_def read_inventory_def list_promotions_def
      read_promotion_def list_all_staff_def get_admin_data_def list_all_zones_def get_admin_windows_def
      fetch_categories_ref_def fetch_categories_full_def export_movements_csv_def
    by (intro no_commit_intros)+
  show "no_commit (movements_summary a b)"
    unfolding movements_summary_def Let_def by (intro no_commit_intros)
  show "no_commit (fetch_orders pf st)" "no_commit (get_order pf oid)"
    unfolding fetch_orders_def get_order_def by (intro no_commit_intros)+
qed

lemma no_commit_answered [no_commit_intros]: "no_commit m \<Longrightarrow> no_commit (answered m)"
  unfolding answered_def by (intro no_commit_intros)

lemma reading_internal: "internal_method c = ''GET'' \<Longrightarrow> no_commit (internal_handler pf c)"
  by (cases c)
     (simp_all add: kitchen_list_tickets_def delivery_list_tasks_def no_commit_answered no_commit_lookups)

lemma reading_browser: "browser_method c = ''GET'' \<Longrightarrow> no_commit (browser_handler pf env c)"
proof -
  have "no_commit (admin_list_orders pf s)" "no_commit (get_order_receipt pf rc i)"
    "no_commit (list_transitions tr p m)" "no_commit (menu_admin_ui pf rep)" "no_commit (schedule_admin_ui pf)"
    "no_commit (zones_admin_ui pf)" "no_commit messengers_admin_ui" "no_commit (dashboard_home pf)"
    "no_commit (orders_board_partial pf)" "no_commit (kitchen_board_partial pf)"
    "no_commit (inventory_panel_partial pf)" "no_commit (inventory_items pf)"
    "no_commit (inventory_movements_summary a b)" "no_commit (inventory_export_csv pf a b)"
    "no_commit promotions_panel_partial" "no_commit (stats_dashboard pf tr')" "no_commit (order_receipt_viewer pf rc i)"
    for s rc i p m rep a b tr' and tr :: "string \<Rightarrow> string option \<Rightarrow> observed list"
    unfolding admin_list_orders_def get_order_receipt_def list_transitions_def menu_admin_ui_def schedule_admin_ui_def
      zones_admin_ui_def messengers_admin_ui_def dashboard_home_def orders_board_partial_def kitchen_board_partial_def
      inventory_panel_partial_def inventory_items_def inventory_movements_summary_def inventory_export_csv_def
      promotions_panel_partial_def stats_dashboard_def order_receipt_viewer_def Let_def
    by (intro no_commit_intros)+
  note nc = this
  show "browser_method c = ''GET'' \<Longrightarrow> no_commit (browser_handler pf env c)"
    by (cases c) (simp_all add: no_commit_answered nc)
qed

text \<open>C5. Whoever changes the database through the administration API, the dashboard or the
internal routers holds the configured user name and the password behind the configured hash,
and used a mutating method: no GET route writes. On the two browser surfaces a request that
carries an Origin header names the host of the request in it.\<close>

theorem surface_changes_only_authorised:
  assumes "protected_surface pf env rq call w = (r, w')" and "committed w' \<noteq> committed w"
  shows "authorised pf rq \<and> rq_method rq \<in> {''POST'', ''PATCH''}
    \<and> (case call of Internal _ \<Rightarrow> True
       | Browser _ \<Rightarrow> rq_origin rq \<in> {None, Some []} \<or>
           (\<exists>h. rq_host rq = Some h \<and> url_netloc (env_ip_ok env) (the (rq_origin rq)) = Inr h))"
proof -
  have m: "rq_method rq = surface_method call"
    using assms by (auto simp: protected_surface_def split: if_splits)
  show ?thesis
  proof (cases call)
    case (Internal c)
    have run: "internal_api_auth pf rq (internal_handler pf c) w = (r, w')"
      using assms(1) m Internal by (simp add: protected_surface_def)
    then have auth: "authorised pf rq" and h: "internal_handler pf c w = (r, w')"
      using assms(2) by (auto simp: internal_api_auth_run split: if_splits)
    have "internal_method c \<noteq> ''GET''"
      using no_commitD[OF reading_internal h] assms(2) by blast
    then have "internal_method c = ''POST''" by (cases c) simp_all
    then show ?thesis using auth m Internal by (simp add: surface_method_def)
  next
    case (Browser c)
    have run: "admin_auth pf (env_ip_ok env) rq (browser_handler pf env c) w = (r, w')"
      using assms(1) m Browser by (simp add: protected_surface_def)
    have auth: "authorised pf rq" "same_origin (env_ip_ok env) rq"
      using admin_auth_stops[of pf rq "env_ip_ok env" "browser_handler pf env c" w] run assms(2) by auto
    then have h: "browser_handler pf env c w = (r, w')"
      using run by (simp add: admin_auth_passes)
    have "browser_method c \<noteq> ''GET''"
      using no_commitD[OF reading_browser h] assms(2) by blast
    then have bm: "browser_method c \<in> {''POST'', ''PATCH''}" by (cases c) simp_all
    then have "rq_method rq \<in> set MUTATING_METHODS"
      using m Browser by (auto simp: surface_method_def MUTATING_METHODS_def)
    then show ?thesis
      using auth bm m Browser by (auto simp: surface_method_def same_origin_def)
  qed
qed

definition sample_env :: surface_env where
  "sample_env = \<lparr>env_receipts = (\<lambda>t. Inl (ValueError t)), env_transitions = (\<lambda>_ _. []),
     env_snapshot_hash = (\<lambda>_. ''hash''), env_last_report = None, env_ip_ok = (\<lambda>_. False)\<rparr>"

definition boss_request :: "string option \<Rightarrow> request" where
  "boss_request origin = \<lparr>rq_method = ''PATCH'', rq_origin = origin, rq_host = Some ''shop'',
     rq_credentials = Some (''boss'', ''pw'')\<rparr>"

theorem surface_changes_only_authorised_witness:
  "authorised ref_platform (boss_request (Some ''http://shop''))
   \<and> map inv_quantity (inventory (committed (snd (protected_surface ref_platform sample_env
       (boss_request (Some ''http://shop'')) (Browser (SetQuantity ''tea'' 9)) sample_world)))) = [9]"
proof -
  let ?t = "protected_surface ref_platform sample_env (boss_request (Some ''http://shop''))
       (Browser (SetQuantity ''tea'' 9)) sample_world"
  have q: "map inv_quantity (inventory (committed (snd ?t))) = [9]" by code_simp
  have q0: "map inv_quantity (inventory (committed sample_world)) = [5]" by code_simp
  have "committed (snd ?t) \<noteq> committed sample_world"
  proof
    assume "committed (snd ?t) = committed sample_world"
    then show False using q q0 by simp
  qed
  from surface_changes_only_authorised[OF prod.collapse[symmetric] this] show ?thesis
    using q by blast
qed

section \<open>Boards\<close>

definition columns_cover :: "(board_column \<times> 's list) list \<Rightarrow> bool" where
  "columns_cover grouping \<longleftrightarrow> distinct (map fst grouping) \<and> (\<forall>s. \<exists>(c, states) \<in> set grouping. s \<in> set states)"

definition board_ok :: "(board_column \<times> 's list) list \<Rightarrow> ('r \<Rightarrow> 's) \<Rightarrow> (board_column \<times> 'r list) list \<Rightarrow> bool" where
  "board_ok grouping state_of cols \<longleftrightarrow> map fst cols = map fst grouping
     \<and> (\<forall>(c, rs) \<in> set cols. \<forall>r \<in> set rs. \<exists>states. (c, states) \<in> set grouping \<and> state_of r \<in> set states)"

lemma add_to_column:
  assumes "distinct (map fst cols)" "c \<in> fst ` set cols"
  shows "mset (concat (map snd (map (\<lambda>(c', rs). (c', if c' = c then rs @ [r] else rs)) cols)))
    = add_mset r (mset (concat (map snd cols)))"
  using assms
proof (induction cols)
  case (Cons p cols)
  obtain c' rs where p: "p = (c', rs)" by (cases p)
  show ?case
  proof (cases "c' = c")
    case True
    then have "map (\<lambda>(c', rs). (c', if c' = c then rs @ [r] else rs)) cols = cols"
      using Cons.prems p by (intro map_idI) (auto simp: image_iff)
    then show ?thesis using True p by simp
  qed (use Cons p in auto)
qed simp

lemma put_in_column_ok:
  assumes "columns_cover grouping" "board_ok grouping state_of cols"
  shows "board_ok grouping state_of (put_in_column grouping state_of r cols)
    \<and> mset (concat (map snd (put_in_column grouping state_of r cols))) = add_mset r (mset (concat (map snd cols)))"
proof -
  obtain c states where f: "List.find (\<lambda>(_, states). state_of r \<in> set states) grouping = Some (c, states)"
    using assms(1) by (cases "List.find (\<lambda>(_, states). state_of r \<in> set states) grouping")
      (fastforce simp: columns_cover_def find_None_iff)+
  then have m: "(c, states) \<in> set grouping" "state_of r \<in> set states"
    by (auto simp: find_Some_iff) (metis nth_mem)
  have k: "map fst cols = map fst grouping" using assms(2) by (simp add: board_ok_def)
  have "c \<in> set (map fst cols)" unfolding k using m(1) by force
  then have c: "c \<in> fst ` set cols" by simp
  have "distinct (map fst cols)" using assms(1) k by (simp add: columns_cover_def)
  from add_to_column[OF this c, of r]
  have "mset (concat (map snd (put_in_column grouping state_of r cols))) = add_mset r (mset (concat (map snd cols)))"
    by (simp add: put_in_column_def f)
  moreover have "board_ok grouping state_of (put_in_column grouping state_of r cols)"
    using assms(2) m k
    by (auto simp: put_in_column_def f board_ok_def case_prod_beta comp_def split: if_splits)
  ultimately show ?thesis by blast
qed

lemma group_rows_ok:
  assumes "columns_cover grouping"
  shows "board_ok grouping state_of (group_rows grouping state_of rows)
    \<and> mset (concat (map snd (group_rows grouping state_of rows))) = mset rows"
proof -
  have "board_ok grouping state_of cols \<Longrightarrow> board_ok grouping state_of (fold (put_in_column grouping state_of) rows cols)
    \<and> mset (concat (map snd (fold (put_in_column grouping state_of) rows cols)))
      = mset rows + mset (concat (map snd cols))" for cols
  proof (induction rows arbitrary: cols)
    case (Cons r rows)
    then show ?case using put_in_column_ok[OF assms Cons.prems, of r] by simp
  qed simp
  moreover have "board_ok grouping state_of (map (\<lambda>(c, _). (c, [])) grouping)"
    by (auto simp: board_ok_def)
  moreover have "concat (map snd (map (\<lambda>(c, _). (c, [])) grouping)) = ([] :: 'b list)"
    by (induction grouping) auto
  ultimately show ?thesis unfolding group_rows_def by fastforce
qed

lemma order_columns_cover: "columns_cover COLUMN_GROUPING"
  unfolding columns_cover_def
proof (intro conjI allI)
  show "\<exists>(c, states) \<in> set COLUMN_GROUPING. s \<in> set states" for s
    by (cases s) (simp_all add: COLUMN_GROUPING_def)
qed (simp add: COLUMN_GROUPING_def)

lemma kitchen_columns_cover: "columns_cover KITCHEN_COLUMNS"
  unfolding columns_cover_def
proof (intro conjI allI)
  show "\<exists>(c, states) \<in> set KITCHEN_COLUMNS. s \<in> set states" for s
    by (cases s) (simp_all add: KITCHEN_COLUMNS_def)
qed (simp add: KITCHEN_COLUMNS_def)

text \<open>C26. The boards lose nothing and show nothing twice: the columns of the order board hold
exactly the orders, those of the kitchen board exactly the tickets, each in a column of its
state, and the counts of the statistics page add up to the number of orders.\<close>

theorem boards_show_everything_once:
  "mset (concat (map snd (group_orders ords))) = mset ords
   \<and> board_ok COLUMN_GROUPING or_state (group_orders ords)
   \<and> mset (concat (map snd (group_kitchen_tickets tickets))) = mset tickets
   \<and> board_ok KITCHEN_COLUMNS ktr_state (group_kitchen_tickets tickets)
   \<and> sum_list (map snd (state_counts ords)) = length ords"
proof -
  have "sum_list (map (\<lambda>s. length (filter (\<lambda>x. or_state x = s) ords)) ORDER_STATES) = length ords"
  proof (induction ords)
    case (Cons x xs)
    have "sum_list (map (\<lambda>s. length (filter (\<lambda>x. or_state x = s) (x # xs))) ORDER_STATES)
        = sum_list (map (\<lambda>s. if or_state x = s then 1 else 0) ORDER_STATES)
          + sum_list (map (\<lambda>s. length (filter (\<lambda>x. or_state x = s) xs)) ORDER_STATES)"
      unfolding sum_list_addf[symmetric] by (intro arg_cong[where f = sum_list] map_cong refl) simp
    moreover have "sum_list (map (\<lambda>s. if or_state x = s then 1 else (0 :: nat)) ORDER_STATES) = 1"
      by (cases "or_state x") (simp_all add: ORDER_STATES_def)
    ultimately show ?case using Cons by simp
  qed (simp add: ORDER_STATES_def)
  then show ?thesis
    using group_rows_ok[OF order_columns_cover, of or_state ords]
      group_rows_ok[OF kitchen_columns_cover, of ktr_state tickets]
    by (simp add: group_orders_def group_kitchen_tickets_def state_counts_def comp_def)
qed

section \<open>A place where the surface surprises\<close>

text \<open>The form of a retired zone edits the active zone that took its name: the zone is found by
its id, but the command that is applied names it.\<close>

definition renamed_zones :: world where
  "renamed_zones = sample_world\<lparr>committed := empty_db\<lparr>delivery_zones :=
     [\<lparr>z_id = ''old'', z_external_id = None, z_name = ''City'', z_delivery_time_minutes = 60, z_is_active = False,
       z_delivery_fee_rub = 50\<rparr>,
      \<lparr>z_id = ''new'', z_external_id = None, z_name = ''City'', z_delivery_time_minutes = 30, z_is_active = True,
       z_delivery_fee_rub = 99\<rparr>]\<rparr>\<rparr>"

theorem retired_zone_form_edits_active_zone:
  "case zone_update_route ref_platform (\<lambda>t. Inr (JStr t)) ''old'' [(''delivery_fee_rub'', JInt 0)] renamed_zones of
     (r, w') \<Rightarrow> map_sum id aa_ok r = Inr True
       \<and> map (\<lambda>z. (z_id z, z_delivery_fee_rub z)) (delivery_zones (committed w')) = [(''old'', 50), (''new'', 0)]"
  by code_simp

end
