(* ===== verification/Customer_Routes.thy ===== *)
theory Customer_Routes
  imports Checkout_Properties Schedule_Service Staff_Channels
begin

text \<open>
  The public pages of the shop (app/web/customer_routes.py) and the two other doors
  of customers: the return from the payment page and the Telegram bot
  (app/webhooks/telegram.py). Pages are the context of their template; the label of
  a state is the state.
\<close>

section \<open>Pages\<close>

definition shop_checkout :: "platform \<Rightarrow> (world, MenuWindowContext \<times> bool) io" where
  "shop_checkout pf = bind_io (get_menu_window_context pf BusinessScheduleState.OPEN) (\<lambda>window.
     ret (window, \<not> mwc_is_open window))"

definition shop_closed :: "platform \<Rightarrow> (world, MenuWindowContext) io" where
  "shop_closed pf = get_menu_window_context pf BusinessScheduleState.OPEN"

text \<open>Where the browser is sent after a payment.\<close>

definition payment_return :: "string option \<Rightarrow> string" where
  "payment_return order_id = (case order_id of
       None \<Rightarrow> ''/''
     | Some i \<Rightarrow> if i = [] then ''/'' else case parse_uuid i of Inl _ \<Rightarrow> ''/'' | Inr _ \<Rightarrow> ''/thanks/'' @ i)"

record ThanksPage =
  tp_order :: "OrderRead option"
  tp_delivery_fee :: "int option"
  tp_goods_total :: "int option"
  tp_state :: "OrderState option"

definition shown_fee :: "platform \<Rightarrow> OrderRead \<Rightarrow> int \<Rightarrow> int" where
  "shown_fee pf ord goods = (case or_total_rub ord of
       Some amount \<Rightarrow> amount - goods + (case or_discount_rub ord of None \<Rightarrow> 0 | Some d \<Rightarrow> d)
     | None \<Rightarrow> if or_delivery_address ord \<noteq> [] then DELIVERY_FEE (cfg pf) else 0)"

definition shop_thanks :: "platform \<Rightarrow> string \<Rightarrow> (world, ThanksPage) io" where
  "shop_thanks pf order_id =
     bind_io (case parse_uuid order_id of Inl _ \<Rightarrow> ret None | Inr i \<Rightarrow> get_order pf i) (\<lambda>order.
     ret (case order of
         None \<Rightarrow> \<lparr>tp_order = None, tp_delivery_fee = None, tp_goods_total = None, tp_state = None\<rparr>
       | Some ord \<Rightarrow> let goods = goods_total (or_items ord)
           in \<lparr>tp_order = Some ord, tp_delivery_fee = Some (shown_fee pf ord goods),
               tp_goods_total = Some goods, tp_state = Some (or_state ord)\<rparr>))"

section \<open>The Telegram bot (app/webhooks/telegram.py)\<close>

text \<open>
  The answer is a status code and the greeting that is sent, if any: its chat and
  the address of the button. Sending never fails the answer. A body that is not
  JSON is None.
\<close>

definition open_app_markup :: "string \<Rightarrow> string option" where
  "open_app_markup miniapp_url = (if miniapp_url = [] then None else Some miniapp_url)"

definition telegram_update :: "platform \<Rightarrow> string \<Rightarrow> (string \<times> json) list \<Rightarrow> (string \<times> string option) option" where
  "telegram_update pf miniapp_url update = (case json_get ''message'' update of
       JObj message \<Rightarrow> (case json_get ''text'' message of
           JStr t \<Rightarrow>
             if take 6 t \<noteq> ''/start'' then None
             else (case json_get ''chat'' message of
                 JObj chat \<Rightarrow>
                   if json_get ''id'' chat = JNull then None
                   else Some (py_str (repr_of pf) (json_get ''id'' chat), open_app_markup miniapp_url)
               | _ \<Rightarrow> None)
         | _ \<Rightarrow> None)
     | _ \<Rightarrow> None)"

definition telegram_webhook ::
  "platform \<Rightarrow> string \<Rightarrow> string option \<Rightarrow> json option \<Rightarrow> (world, nat \<times> (string \<times> string option) option) io" where
  "telegram_webhook pf miniapp_url secret body =
     (if TELEGRAM_WEBHOOK_SECRET (cfg pf) = [] then ret (403, None)
      else bind_io (compare_digest (case secret of None \<Rightarrow> [] | Some s \<Rightarrow> s) (TELEGRAM_WEBHOOK_SECRET (cfg pf))) (\<lambda>ok.
        if \<not> ok then ret (403, None)
        else case body of
            None \<Rightarrow> ret (200, None)
          | Some (JObj update) \<Rightarrow> ret (200, telegram_update pf miniapp_url update)
          | Some _ \<Rightarrow> raise (AttributeError ''get'')))"

text \<open>A greeting goes out only for the configured secret, and nothing is stored.\<close>

lemma telegram_webhook_gate:
  assumes "telegram_webhook pf url secret body w = (Inr (status, Some greeting), w')"
  shows "w' = w \<and> secret = Some (TELEGRAM_WEBHOOK_SECRET (cfg pf)) \<and> TELEGRAM_WEBHOOK_SECRET (cfg pf) \<noteq> []"
  using assms
  by (auto simp: telegram_webhook_def compare_digest_def bind_io_apply split: if_splits option.splits json.splits)

section \<open>What the page after an order shows\<close>

lemma get_order_of_row:
  assumes "first_where (\<lambda>r. o_id r = i) (orders (committed w)) = Some row" "o_state row = OrderState_value s"
    and "o_items row = map dump_order_item items" "\<And>it. parse_order_item pf (dump_order_item it) = Some it"
  shows "\<exists>ord. get_order pf i w = (Inr (Some ord), w\<lparr>db := committed w\<rparr>) \<and> or_items ord = items
    \<and> or_state ord = s \<and> or_total_rub ord = o_total_rub row \<and> or_discount_rub ord = Some (o_discount_rub row)"
proof -
  have one: "coerce_item pf (dump_order_item it) v = (Inr it, v)" for it v
    using assms(4)[of it] by (simp add: coerce_item_def dump_order_item_def)
  have "fold_io (\<lambda>raw acc. bind_io (coerce_item pf raw) (\<lambda>it. ret (acc @ [it]))) (map dump_order_item items) acc v
      = (Inr (acc @ items), v)" for acc v
    by (induction items arbitrary: acc) (simp_all add: bind_io_apply one)
  then have "coerce_items pf (map dump_order_item items) v = (Inr items, v)" for v
    by (simp add: coerce_items_def)
  then show ?thesis
    using assms(1-3) by (simp add: get_order_def with_session_apply bind_io_apply read_row_def)
qed

definition charged_fee :: "platform \<Rightarrow> string \<Rightarrow> PromoEffect option \<Rightarrow> int option \<Rightarrow> int" where
  "charged_fee pf mode effect fee = (if mode = ''pickup'' \<or> (\<exists>e. effect = Some e \<and> pe_free_delivery e) then 0
     else case fee of Some f \<Rightarrow> f | None \<Rightarrow> DELIVERY_FEE (cfg pf))"

text \<open>C12. The page a customer sees after an order shows the price of the goods as they are
stored and, when the discount does not exceed it, exactly the delivery fee that was charged:
none for a pickup or free delivery, else that of the zone or the default. The stored item
texts are read back as they were written.\<close>

theorem thanks_page_shows_charged_fee:
  assumes "idle w" and placed: "place_order pf body w = (Inr (customer, ord, amt), w')"
    and "\<And>it. parse_order_item pf (dump_order_item it) = Some it" and "parse_uuid url_id = Inr (or_id ord)"
  shows "\<exists>items effect page w''.
      those (map (snapshot_of (products (committed w))) (cr_items body)) = Some items
    \<and> fst (resolve_promo_effect pf (cr_promo_code body) (goods_total items) w) = Inr effect
    \<and> shop_thanks pf url_id w' = (Inr page, w'') \<and> committed w'' = committed w'
    \<and> tp_goods_total page = Some (goods_total items) \<and> tp_state page = Some OrderState.DRAFT
    \<and> ((case effect of None \<Rightarrow> 0 | Some e \<Rightarrow> pe_discount_rub e) \<le> goods_total items \<and> 0 \<le> goods_total items \<longrightarrow>
         tp_delivery_fee page = Some (charged_fee pf (cr_delivery_mode body) effect (zone_fee (committed w) (cr_zone_id body))))"
proof -
  obtain items effect row where eff:
      "those (map (snapshot_of (products (committed w))) (cr_items body)) = Some items"
      "fst (resolve_promo_effect pf (cr_promo_code body) (goods_total items) w) = Inr effect"
      "amt = compute_checkout_total pf items (cr_delivery_mode body) effect (zone_fee (committed w) (cr_zone_id body))"
      "orders (committed w') = orders (committed w) @ [row]" "o_id row = or_id ord"
      "o_state row = OrderState_value OrderState.DRAFT" "o_items row = map dump_order_item items"
      "o_total_rub row = Some amt" "o_discount_rub row = (case effect of None \<Rightarrow> 0 | Some e \<Rightarrow> pe_discount_rub e)"
      "first_where (\<lambda>r. o_id r = or_id ord) (orders (committed w)) = None"
    using place_order_effect[OF assms(1) placed] by auto
  have "first_where (\<lambda>r. o_id r = or_id ord) (orders (committed w')) = Some row"
    using eff(4,5,10) by (simp add: first_where_append)
  from get_order_of_row[OF this eff(6,7) assms(3)] obtain seen where seen:
      "get_order pf (or_id ord) w' = (Inr (Some seen), w'\<lparr>db := committed w'\<rparr>)" "or_items seen = items"
      "or_state seen = OrderState.DRAFT" "or_total_rub seen = Some amt" "or_discount_rub seen = Some (o_discount_rub row)"
    using eff(8) by auto
  let ?page = "\<lparr>tp_order = Some seen, tp_delivery_fee = Some (shown_fee pf seen (goods_total items)),
     tp_goods_total = Some (goods_total items), tp_state = Some OrderState.DRAFT\<rparr>"
  have "shop_thanks pf url_id w' = (Inr ?page, w'\<lparr>db := committed w'\<rparr>)"
    using seen assms(4) by (simp add: shop_thanks_def bind_io_apply Let_def)
  moreover have "shown_fee pf seen (goods_total items)
      = charged_fee pf (cr_delivery_mode body) effect (zone_fee (committed w) (cr_zone_id body))"
    if "(case effect of None \<Rightarrow> 0 | Some e \<Rightarrow> pe_discount_rub e) \<le> goods_total items" "0 \<le> goods_total items"
    using that seen(4,5) eff(3,9)
    by (cases effect) (auto simp: shown_fee_def charged_fee_def compute_checkout_total_def Let_def max_def
        split: option.splits)
  ultimately show ?thesis
    using eff(1,2) by (intro exI[of _ items] exI[of _ effect] exI[of _ ?page] exI[of _ "w'\<lparr>db := committed w'\<rparr>"]) simp
qed

definition thanks_world :: world where
  "thanks_world = sample_world\<lparr>uuids := (\<lambda>_. ''00000000-0000-0000-0000-00000000000f'')\<rparr>"

theorem thanks_page_shows_charged_fee_witness:
  "\<exists>items effect page w''. those (map (snapshot_of (products (committed thanks_world))) (cr_items sample_request)) = Some items
     \<and> shop_thanks ref_platform ''{0000000000000000000000000000000F}''
         (snd (place_order ref_platform sample_request thanks_world)) = (Inr page, w'')
     \<and> tp_goods_total page = Some (goods_total items)"
proof -
  let ?t = "place_order ref_platform sample_request thanks_world"
  have i: "idle thanks_world" by code_simp
  have u: "parse_uuid ''{0000000000000000000000000000000F}'' = Inr ''00000000-0000-0000-0000-00000000000f''"
    by code_simp
  have "map_option (or_id \<circ> fst \<circ> snd) (case fst ?t of Inl _ \<Rightarrow> None | Inr x \<Rightarrow> Some x)
      = Some ''00000000-0000-0000-0000-00000000000f''" by code_simp
  then obtain c r a where t: "?t = (Inr (c, r, a), snd ?t)" and r: "or_id r = ''00000000-0000-0000-0000-00000000000f''"
    by (cases "fst ?t") (auto simp: prod_eq_iff)
  have items: "parse_order_item ref_platform (dump_order_item it) = Some it" for it by simp
  show ?thesis
    using thanks_page_shows_charged_fee[OF i t items u[folded r]] by blast
qed

end
