(* ===== verification/Service_Agents.thy ===== *)
theory Service_Agents
  imports Agent_Core
begin

text \<open>
  The order agent and the support agent: a collect phase each
  (app/agents/order_agent.py, app/agents/support_agent.py, their programs and
  tools). Their validators answer with a number only and keep no reason, so a
  rejection reads as the report of the failure step. With them the chain of model
  providers (app/llm/fallback.py, app/programs/llm_fallback_program.py,
  app/tools/llm_fallback_tools.py), whose clients are answers here.
\<close>

section \<open>Validators and collect phases\<close>

text \<open>0 or 1, without a reason; \<open>json.loads\<close> raises nothing but ValueError on a text.\<close>

definition validate_sentinel :: "platform \<Rightarrow> ((string \<times> json) list \<Rightarrow> bool) \<Rightarrow> world tool" where
  "validate_sentinel pf judge kw = (case map_of kw ''llm_output'' of
       Some (JStr s) \<Rightarrow>
         if py_strip s = [] then ret (JInt 0)
         else (case json_loads pf s of
             Inr (JObj data) \<Rightarrow> ret (JInt (if judge data then 1 else 0))
           | _ \<Rightarrow> ret (JInt 0))
     | Some v \<Rightarrow> if py_truthy v then raise (AttributeError ''strip'') else ret (JInt 0)
     | None \<Rightarrow> raise (TypeError ''llm_output''))"

definition is_text :: "json \<Rightarrow> bool" where
  "is_text v = (case v of JStr _ \<Rightarrow> True | _ \<Rightarrow> False)"

definition is_list :: "json \<Rightarrow> bool" where
  "is_list v = (case v of JList _ \<Rightarrow> True | _ \<Rightarrow> False)"

definition order_command_ok :: "(string \<times> json) list \<Rightarrow> bool" where
  "order_command_ok data \<longleftrightarrow> map_of data ''customer_id'' \<noteq> None
     \<and> is_list (json_get ''items'' data) \<and> is_text (json_get ''delivery_address'' data)"

definition support_command_ok :: "(string \<times> json) list \<Rightarrow> bool" where
  "support_command_ok data \<longleftrightarrow> map_of data ''support_ticket_id'' \<noteq> None \<and> map_of data ''customer_id'' \<noteq> None
     \<and> is_text (json_get ''issue_type'' data) \<and> is_text (json_get ''description'' data)"

definition validate_order_command :: "platform \<Rightarrow> world tool" where
  "validate_order_command pf = validate_sentinel pf order_command_ok"

definition validate_support_command :: "platform \<Rightarrow> world tool" where
  "validate_support_command pf = validate_sentinel pf support_command_ok"

definition collect_order_command :: "world tool" where
  "collect_order_command = pass_command"

definition collect_support_command :: "world tool" where
  "collect_support_command = pass_command"

definition PROGRAM_COLLECT_ORDER :: program where
  "PROGRAM_COLLECT_ORDER = collect_program ''order_agent_collect'' ''validate_order_command'' ''collect_order_command''"

definition PROGRAM_COLLECT_SUPPORT :: program where
  "PROGRAM_COLLECT_SUPPORT = collect_program ''support_agent_collect'' ''validate_support_command'' ''collect_support_command''"

definition ORDER_AGENT_TOOLS :: "platform \<Rightarrow> (string \<times> world tool) list" where
  "ORDER_AGENT_TOOLS pf =
     [(''validate_order_command'', validate_order_command pf),
      (''collect_order_command'', collect_order_command),
      (''report_collect_failure'', report_collect_failure pf)]"

definition SUPPORT_AGENT_TOOLS :: "platform \<Rightarrow> (string \<times> world tool) list" where
  "SUPPORT_AGENT_TOOLS pf =
     [(''validate_support_command'', validate_support_command pf),
      (''collect_support_command'', collect_support_command),
      (''report_collect_failure'', report_collect_failure pf)]"

definition collect_plain ::
  "platform \<Rightarrow> (string \<Rightarrow> world tool option) \<Rightarrow> program \<Rightarrow> kwargs \<Rightarrow> (world, AgentResult) io" where
  "collect_plain pf tools p ctx =
     (if \<not> validates pf p then raise (RuntimeError (program_name p))
      else bind_io (run_program pf tools p ctx) (\<lambda>tr. ret (collect_outcome pf tr None)))"

definition input_field :: "string \<Rightarrow> json \<Rightarrow> (string \<times> json) list \<Rightarrow> string \<times> json" where
  "input_field k dflt input_data = (k, case map_of input_data k of None \<Rightarrow> dflt | Some v \<Rightarrow> v)"

definition collect_order :: "platform \<Rightarrow> (string \<times> json) list \<Rightarrow> (world, AgentResult) io" where
  "collect_order pf input_data = collect_plain pf
     (governed pf ORDER_AGENT_TOOL_CAPABILITIES (ORDER_AGENT_TOOLS pf)) PROGRAM_COLLECT_ORDER
     [input_field ''input_text'' (JStr []) input_data, input_field ''customer_id'' (JStr []) input_data,
      input_field ''items'' (JList []) input_data, input_field ''delivery_address'' (JStr []) input_data]"

definition collect_support :: "platform \<Rightarrow> (string \<times> json) list \<Rightarrow> (world, AgentResult) io" where
  "collect_support pf input_data = collect_plain pf
     (governed pf SUPPORT_AGENT_TOOL_CAPABILITIES (SUPPORT_AGENT_TOOLS pf)) PROGRAM_COLLECT_SUPPORT
     [input_field ''input_text'' (JStr []) input_data, input_field ''ticket_id'' (JStr []) input_data,
      input_field ''customer_id'' (JStr []) input_data, input_field ''issue_type'' (JStr []) input_data]"

section \<open>The phases meet their contract\<close>

definition sentinel_accepts :: "platform \<Rightarrow> ((string \<times> json) list \<Rightarrow> bool) \<Rightarrow> string \<Rightarrow> bool" where
  "sentinel_accepts pf judge t \<longleftrightarrow> py_strip t \<noteq> [] \<and> (\<exists>data. json_loads pf t = Inr (JObj data) \<and> judge data)"

lemma validate_sentinel_run:
  "validate_sentinel pf judge [(''llm_output'', JStr t)] w = (Inr (JInt (if sentinel_accepts pf judge t then 1 else 0)), w)"
  by (auto simp: validate_sentinel_def sentinel_accepts_def split: sum.splits json.splits)

text \<open>A phase whose validator keeps no reason either.\<close>

locale sentinel_phase = collect_phase +
  assumes keeps_no_reason: "validate pf [(''llm_output'', JStr t)] w = (Inr (JInt (if accepts pf t then 1 else 0)), w)"
begin

lemma collect_plain_safe:
  assumes "vm_ok pf" "collect_plain pf (governed pf caps (tools pf)) (collect_program n vtool ctool) ctx w = (r, w')"
  shows "w' = w \<and> (\<exists>res. r = Inr res \<and> (agr_success res \<longrightarrow> (\<exists>raw. agr_raw_output res = Some raw \<and> accepts pf raw
        \<and> agr_command res = (case json_loads pf raw of Inr v \<Rightarrow> Some v | Inl _ \<Rightarrow> None))))"
proof -
  let ?p = "collect_program n vtool ctool" and ?T = "governed pf caps (tools pf)"
  obtain tr w1 where run: "run_vm pf ?T ?p ctx w = (tr, w1)" by fastforce
  have "trace_status tr = trace_status.FAILED \<and> w1 = w
    \<or> (\<exists>t b. validate pf [(''llm_output'', JStr t)] w = (Inr (JInt (if b then 1 else 0)), w1)
         \<and> trace_status tr = trace_status.SUCCESS
         \<and> map_of (trace_steps tr) ''confirm_command'' = (if b then Some (JStr t) else None))"
  proof (rule collect_exec)
    show "?T vtool = Some (validate pf)" "?T ctool = Some pass_command"
      "?T ''report_collect_failure'' = Some (report_collect_failure pf)"
      by (rule governed_permitted[OF assms(1)]; simp add: registered permitted)+
    show "\<exists>b w2. validate pf [(''llm_output'', JStr t)] w = (Inr (JInt (if b then 1 else 0)), w2)" for t
      using keeps_no_reason by blast
    show "vm_exec ?T (program_steps ?p) ctx 0 [] w (trace_status tr) (trace_steps tr) w1"
      by (rule run_vm_exec[OF assms(1) forward_collect run])
  qed
  then have "w1 = w \<and> (trace_status tr = trace_status.SUCCESS \<longrightarrow>
      (\<exists>t. map_of (trace_steps tr) ''confirm_command'' = (if accepts pf t then Some (JStr t) else None)))"
    by (auto simp: keeps_no_reason split: if_splits)
  moreover have "r = Inr (collect_outcome pf tr None)" "w' = w1"
    using assms run validates_forward[OF assms(1) forward_collect]
    by (auto simp: collect_plain_def bind_io_apply run_program_def)
  ultimately show ?thesis
    by (auto simp: collect_outcome_def step_text_def Let_def split: if_splits)
qed

end

interpretation order_collect: sentinel_phase ORDER_AGENT_TOOLS ORDER_AGENT_TOOL_CAPABILITIES
  "''validate_order_command''" "''collect_order_command''" validate_order_command
  "\<lambda>pf. sentinel_accepts pf order_command_ok"
  by unfold_locales
    (simp_all add: ORDER_AGENT_TOOLS_def ORDER_AGENT_TOOL_CAPABILITIES_def collect_order_command_def judges_def
      validate_order_command_def validate_sentinel_run same_diagnostics)

interpretation support_collect: sentinel_phase SUPPORT_AGENT_TOOLS SUPPORT_AGENT_TOOL_CAPABILITIES
  "''validate_support_command''" "''collect_support_command''" validate_support_command
  "\<lambda>pf. sentinel_accepts pf support_command_ok"
  by unfold_locales
    (simp_all add: SUPPORT_AGENT_TOOLS_def SUPPORT_AGENT_TOOL_CAPABILITIES_def collect_support_command_def judges_def
      validate_support_command_def validate_sentinel_run same_diagnostics)

text \<open>Whatever the model answers, the order agent writes nothing and hands on only an accepted command.\<close>

lemma order_agent_safe:
  assumes "vm_ok pf" "collect_order pf input_data w = (r, w')"
  shows "w' = w \<and> (\<exists>res. r = Inr res \<and> (agr_success res \<longrightarrow>
    (\<exists>data. agr_command res = Some (JObj data) \<and> order_command_ok data)))"
  using order_collect.collect_plain_safe[OF assms(1) assms(2)[unfolded collect_order_def PROGRAM_COLLECT_ORDER_def]]
  by (auto simp: sentinel_accepts_def)

lemma support_agent_safe:
  assumes "vm_ok pf" "collect_support pf input_data w = (r, w')"
  shows "w' = w \<and> (\<exists>res. r = Inr res \<and> (agr_success res \<longrightarrow>
    (\<exists>data. agr_command res = Some (JObj data) \<and> support_command_ok data)))"
  using support_collect.collect_plain_safe[OF assms(1) assms(2)[unfolded collect_support_def PROGRAM_COLLECT_SUPPORT_def]]
  by (auto simp: sentinel_accepts_def)

text \<open>The validator promises a customer_id that is a text and items that are objects; it checks neither.\<close>

lemma order_command_with_bad_fields:
  "order_command_ok [(''customer_id'', JNull), (''items'', JList [JInt 7]), (''delivery_address'', JStr [])]"
  by code_simp

section \<open>Model providers (app/llm/fallback.py, app/tools/llm_fallback_tools.py)\<close>

text \<open>What waiting for a provider ends with.\<close>

datatype attempt = Completed string | TimedOut | Broken string

text \<open>\<open>FallbackLLMAdapter.complete\<close>: the providers in their order, the first text wins.\<close>

fun try_providers :: "(string \<times> attempt) list \<Rightarrow> string list \<Rightarrow> string result" where
  "try_providers [] errors = Inl (RuntimeError ''All LLM providers failed'')"
| "try_providers ((name, Completed t) # ps) errors = Inr t"
| "try_providers ((name, TimedOut) # ps) errors = try_providers ps (errors @ [name])"
| "try_providers ((name, Broken e) # ps) errors = try_providers ps (errors @ [name])"

definition adapter_complete :: "(string \<Rightarrow> attempt) \<Rightarrow> string result" where
  "adapter_complete answer = try_providers (map (\<lambda>n. (n, answer n)) [''GigaChat'', ''NvidiaNIM'']) []"

text \<open>The texts of a run, kept under its trace id.\<close>

type_synonym llm_outputs = "string \<Rightarrow> string option"

definition output_slot :: "string option \<Rightarrow> string" where
  "output_slot tid = (case tid of Some t \<Rightarrow> if t = [] then ''__fallback__'' else t | None \<Rightarrow> ''__fallback__'')"

definition attempt_provider :: "attempt \<Rightarrow> string option result" where
  "attempt_provider a = (case a of
       Completed t \<Rightarrow> Inr (Some t)
     | TimedOut \<Rightarrow> Inr None
     | Broken e \<Rightarrow> Inl (ValueError e))"

definition attempt_tool :: "attempt \<Rightarrow> string option \<Rightarrow> (llm_outputs, int) io" where
  "attempt_tool a tid = bind_io (lift_result (attempt_provider a)) (\<lambda>t. case t of
       None \<Rightarrow> ret 0
     | Some text \<Rightarrow> bind_io (modify_io (\<lambda>m. m(output_slot tid \<mapsto> text))) (\<lambda>_. ret 1))"

definition finalize_success :: "string option \<Rightarrow> string option \<Rightarrow> (llm_outputs, string) io" where
  "finalize_success llm_text tid = bind_io (gets_io (\<lambda>m. case llm_text of Some t \<Rightarrow> Some t | None \<Rightarrow> m (output_slot tid)))
     (\<lambda>t. ret (first_text t ''OK''))"

definition PROVIDER_FALLBACK :: program where
  "PROVIDER_FALLBACK = \<lparr>program_name = ''provider_fallback'', program_steps =
     (let attempt = (\<lambda>name out nxt. ToolStep name name
            [(''prompt'', CtxVar ''prompt''), (''timeout_seconds'', Lit (JInt 15))] out (Some nxt));
          final = (\<lambda>name out. ToolStep name ''finalize_success'' [(''result'', OutputOf out)] ''final_result'' None)
      in [attempt ''attempt_nvidia_nim'' ''nvidia_nim_result'' ''check_nvidia_nim'',
          ConditionStep ''check_nvidia_nim'' ''nvidia_nim_result'' (Less_Than 1) ''attempt_yandexgpt'' ''success_nvidia_nim'',
          attempt ''attempt_yandexgpt'' ''yandexgpt_result'' ''check_yandexgpt'',
          ConditionStep ''check_yandexgpt'' ''yandexgpt_result'' (Less_Than 1) ''attempt_gigachat'' ''success_yandexgpt'',
          attempt ''attempt_gigachat'' ''gigachat_result'' ''success_gigachat'',
          final ''success_nvidia_nim'' ''nvidia_nim_result'',
          final ''success_yandexgpt'' ''yandexgpt_result'',
          final ''success_gigachat'' ''gigachat_result''])\<rparr>"

lemma adapter_complete_first:
  "adapter_complete answer = Inr t \<longleftrightarrow> answer ''GigaChat'' = Completed t
     \<or> (\<forall>u. answer ''GigaChat'' \<noteq> Completed u) \<and> answer ''NvidiaNIM'' = Completed t"
  by (cases "answer ''GigaChat''"; cases "answer ''NvidiaNIM''") (simp_all add: adapter_complete_def)

text \<open>
  The fallback program goes forward, but none of its conditions names a step: they
  name output keys, against the convention the other programs state.
\<close>

lemma provider_fallback_forward: "forward_program PROVIDER_FALLBACK"
  by code_simp

lemma provider_fallback_dangling:
  "list_all (\<lambda>s. case s of ConditionStep _ ref _ _ _ \<Rightarrow> step_index ref (program_steps PROVIDER_FALLBACK) = None | _ \<Rightarrow> True)
     (program_steps PROVIDER_FALLBACK)"
  by code_simp

text \<open>A text that was captured is what the run ends with.\<close>

lemma captured_text_is_final:
  assumes "attempt_tool a tid m = (Inr 1, m')"
  shows "\<exists>t. a = Completed t \<and> finalize_success None tid m' = (Inr (if t = [] then ''OK'' else t), m')"
  using assms
  by (cases a) (auto simp: attempt_tool_def attempt_provider_def finalize_success_def bind_io_apply first_text_def)

end
