(* ===== verification/Receipts.thy ===== *)
theory Receipts
  imports Py_Text
begin

text \<open>
  Execution receipts and their summary: TraceAnalyzer._build_receipt
  (app/services/trace_analyzer.py), NarrativeReceiptService
  (app/services/narrative_receipt_service.py) and the repository of narrative
  receipts (app/repositories/narrative_receipt_repo.py). A stored trace is what
  the analyzer reads of nano_vm's Trace; its hash, duration, cost and metrics are
  values of that package.
\<close>

section \<open>Stored traces and receipts\<close>

record stored_step =
  ss_step_id :: string
  ss_status :: string
  ss_error :: "string option"

record 'm stored_trace =
  sd_trace_id :: string
  sd_status :: string
  sd_steps :: "stored_step list"
  sd_duration_ms :: "rat option"
  sd_total_cost_usd :: "rat option"
  sd_snapshot_hash :: string
  sd_step_metrics :: 'm

record RejectedTransition =
  rt_step_id :: string
  rt_step_index :: nat
  rt_error :: string

record TraceHealthReport =
  th_total_steps :: nat
  th_successful_steps :: nat
  th_failed_steps :: nat
  th_total_duration_ms :: "rat option"
  th_total_cost_usd :: "rat option"

record 'm ExecutionReceipt =
  er_trace_id :: string
  er_trace_hash :: string
  er_final_status :: string
  er_resumable :: bool
  er_replayable :: bool
  er_blocked_actions :: int
  er_escalations :: int
  er_rejected_transitions :: "RejectedTransition list"
  er_health :: TraceHealthReport
  er_step_metrics :: 'm

definition failed_steps :: "stored_step list \<Rightarrow> RejectedTransition list" where
  "failed_steps steps = concat (map (\<lambda>(idx, s). if ss_status s = ''failed''
     then [\<lparr>rt_step_id = ss_step_id s, rt_step_index = idx,
            rt_error = (case ss_error s of Some e \<Rightarrow> if e = [] then ''Unknown error'' else e | None \<Rightarrow> ''Unknown error'')\<rparr>]
     else []) (zip [0..<length steps] steps))"

definition build_receipt :: "'m stored_trace \<Rightarrow> 'm ExecutionReceipt" where
  "build_receipt tr = \<lparr>er_trace_id = sd_trace_id tr, er_trace_hash = sd_snapshot_hash tr,
     er_final_status = sd_status tr, er_resumable = (sd_status tr = ''suspended''),
     er_replayable = (sd_status tr = ''failed''), er_blocked_actions = 0, er_escalations = 0,
     er_rejected_transitions = failed_steps (sd_steps tr),
     er_health = \<lparr>th_total_steps = length (sd_steps tr),
        th_successful_steps = length (filter (\<lambda>s. ss_status s = ''success'') (sd_steps tr)),
        th_failed_steps = length (filter (\<lambda>s. ss_status s = ''failed'') (sd_steps tr)),
        th_total_duration_ms = sd_duration_ms tr, th_total_cost_usd = sd_total_cost_usd tr\<rparr>,
     er_step_metrics = sd_step_metrics tr\<rparr>"

definition receipt :: "(string \<Rightarrow> 'm stored_trace option) \<Rightarrow> string \<Rightarrow> 'm ExecutionReceipt result" where
  "receipt get_trace tid = (case get_trace tid of
       None \<Rightarrow> Inl (ValueError (''Trace not found: '' @ tid))
     | Some tr \<Rightarrow> Inr (build_receipt tr))"

section \<open>Narrative receipts\<close>

record NarrativeReceipt =
  nr_decision :: string
  nr_reason :: string
  nr_rules :: "string list"
  nr_trace_ids :: "string list"

definition join_texts :: "string \<Rightarrow> string list \<Rightarrow> string" where
  "join_texts sep ts = (case ts of [] \<Rightarrow> [] | t # us \<Rightarrow> t @ concat (map (\<lambda>u. sep @ u) us))"

text \<open>The rules and reasons one receipt adds.\<close>

definition matched :: "'m ExecutionReceipt \<Rightarrow> string list" where
  "matched er = (if er_rejected_transitions er \<noteq> [] then [''rejected_transitions_detected''] else [])
     @ (if er_rejected_transitions er \<noteq> [] \<and> er_final_status er = ''failed'' then [''execution_failed''] else [])
     @ (if 0 < er_blocked_actions er then [''actions_blocked''] else [])
     @ (if 0 < er_escalations er then [''escalations_raised''] else [])"

definition reasons_of :: "'m ExecutionReceipt \<Rightarrow> string list" where
  "reasons_of er = (if er_rejected_transitions er \<noteq> []
       then [''Trace '' @ er_trace_id er @ '': rejected transition(s) at step(s) ''
             @ join_texts '', '' (map rt_step_id (er_rejected_transitions er))] else [])
     @ (if 0 < er_blocked_actions er
        then [''Trace '' @ er_trace_id er @ '': '' @ int_str (er_blocked_actions er) @ '' action(s) blocked''] else [])
     @ (if 0 < er_escalations er
        then [''Trace '' @ er_trace_id er @ '': '' @ int_str (er_escalations er) @ '' escalation(s)''] else [])"

definition generate_narrative :: "'m ExecutionReceipt list \<Rightarrow> NarrativeReceipt" where
  "generate_narrative ers =
     (let rules = concat (map matched ers);
          reasons = concat (map reasons_of ers);
          (decision, rules', reasons') =
            (if ''actions_blocked'' \<in> set rules \<or> ''escalations_raised'' \<in> set rules then (''escalate'', rules, reasons)
             else if ''rejected_transitions_detected'' \<in> set rules \<or> ''execution_failed'' \<in> set rules
             then (''reject'', rules, reasons)
             else (''approve'', rules @ [''all_transitions_successful''],
                   reasons @ [''All transitions completed successfully'']))
      in \<lparr>nr_decision = decision, nr_reason = join_texts ''; '' reasons', nr_rules = rules',
          nr_trace_ids = map er_trace_id ers\<rparr>)"

text \<open>
  The table of narrative receipts with the time of each row; \<open>session\<close> tells whether
  the caller passed one of its own.
\<close>

type_synonym narrative_table = "(int \<times> NarrativeReceipt) list"

definition save_narrative :: "int \<Rightarrow> NarrativeReceipt \<Rightarrow> narrative_table \<Rightarrow> narrative_table" where
  "save_narrative time r t = t @ [(time, r)]"

text \<open>Without a session of the caller, the session is left without commit and the row is gone.\<close>

definition save_receipt :: "bool \<Rightarrow> int \<Rightarrow> NarrativeReceipt \<Rightarrow> narrative_table \<Rightarrow> narrative_table" where
  "save_receipt own_session time r t = (if own_session then save_narrative time r t else t)"

definition find_by_trace_id :: "string \<Rightarrow> narrative_table \<Rightarrow> NarrativeReceipt option" where
  "find_by_trace_id tid t = (case sort_key (\<lambda>(time, _). - time) (filter (\<lambda>(_, r). tid \<in> set (nr_trace_ids r)) t) of
       [] \<Rightarrow> None
     | (_, r) # _ \<Rightarrow> Some r)"

section \<open>Lemmas\<close>

lemma failed_steps_from:
  "length (concat (map (\<lambda>(idx, s). if ss_status s = ''failed''
     then [\<lparr>rt_step_id = ss_step_id s, rt_step_index = idx,
            rt_error = (case ss_error s of Some e \<Rightarrow> if e = [] then ''Unknown error'' else e | None \<Rightarrow> ''Unknown error'')\<rparr>]
     else []) (zip [k..<k + length steps] steps))) = length (filter (\<lambda>s. ss_status s = ''failed'') steps)"
proof (induction steps arbitrary: k)
  case (Cons s steps)
  have "zip [k..<k + length (s # steps)] (s # steps) = (k, s) # zip [Suc k..<Suc k + length steps] steps"
    by (simp add: upt_conv_Cons del: upt_Suc)
  then show ?case using Cons[of "Suc k"] by simp
qed simp

lemma failed_steps_count: "length (failed_steps steps) = length (filter (\<lambda>s. ss_status s = ''failed'') steps)"
  using failed_steps_from[of 0 steps] by (simp add: failed_steps_def)

lemma failed_steps_point:
  assumes "t \<in> set (failed_steps steps)"
  shows "rt_step_index t < length steps \<and> rt_step_id t = ss_step_id (steps ! rt_step_index t)
    \<and> ss_status (steps ! rt_step_index t) = ''failed'' \<and> rt_error t \<noteq> []"
proof -
  obtain i s where p: "(i, s) \<in> set (zip [0..<length steps] steps)" "ss_status s = ''failed''"
      "rt_step_id t = ss_step_id s" "rt_step_index t = i"
      "rt_error t = (case ss_error s of Some e \<Rightarrow> if e = [] then ''Unknown error'' else e | None \<Rightarrow> ''Unknown error'')"
    using assms unfolding failed_steps_def set_concat set_map UN_iff by (elim bexE imageE) (simp split: if_splits prod.splits)
  have "i < length steps \<and> s = steps ! i"
    using p(1) by (simp add: set_zip) (elim exE conjE, simp)
  moreover have "rt_error t \<noteq> []" unfolding p(5) by (simp split: option.splits)
  ultimately show ?thesis using p(2-4) by simp
qed

lemma matched_built:
  "matched (build_receipt tr) = (if failed_steps (sd_steps tr) = [] then []
     else ''rejected_transitions_detected'' # (if sd_status tr = ''failed'' then [''execution_failed''] else []))"
  by (simp add: matched_def build_receipt_def)

text \<open>A summary of receipts that were built from traces approves exactly when no step of
any trace failed and rejects otherwise; it never escalates. Its rules name a failed execution
exactly when a failed trace with a failed step is among them, and every rejected transition of
a receipt points at the failed step it stands for.\<close>

theorem narrative_reflects_failures:
  fixes traces :: "'m stored_trace list"
  defines "n \<equiv> generate_narrative (map build_receipt traces)"
  shows "nr_decision n = (if \<forall>tr \<in> set traces. \<forall>s \<in> set (sd_steps tr). ss_status s \<noteq> ''failed''
       then ''approve'' else ''reject'')
   \<and> (''execution_failed'' \<in> set (nr_rules n) \<longleftrightarrow>
        (\<exists>tr \<in> set traces. sd_status tr = ''failed'' \<and> (\<exists>s \<in> set (sd_steps tr). ss_status s = ''failed'')))
   \<and> nr_trace_ids n = map sd_trace_id traces
   \<and> (\<forall>tr \<in> set traces. \<forall>t \<in> set (er_rejected_transitions (build_receipt tr)).
        ss_step_id (sd_steps tr ! rt_step_index t) = rt_step_id t
        \<and> ss_status (sd_steps tr ! rt_step_index t) = ''failed'')
   \<and> (\<forall>tr \<in> set traces. length (er_rejected_transitions (build_receipt tr)) = th_failed_steps (er_health (build_receipt tr)))"
proof -
  have none: "failed_steps steps = [] \<longleftrightarrow> (\<forall>s \<in> set steps. ss_status s \<noteq> ''failed'')" for steps
    unfolding length_0_conv[symmetric] failed_steps_count by (simp add: filter_empty_conv)
  let ?rules = "concat (map matched (map build_receipt traces))"
  have r1: "''rejected_transitions_detected'' \<in> set ?rules \<longleftrightarrow> (\<exists>tr \<in> set traces. failed_steps (sd_steps tr) \<noteq> [])"
    by (auto simp: matched_built split: if_splits)
  have r2: "''execution_failed'' \<in> set ?rules \<longleftrightarrow>
      (\<exists>tr \<in> set traces. sd_status tr = ''failed'' \<and> failed_steps (sd_steps tr) \<noteq> [])"
    by (auto simp: matched_built split: if_splits)
  have r3: "''actions_blocked'' \<notin> set ?rules" "''escalations_raised'' \<notin> set ?rules"
    by (auto simp: matched_built split: if_splits)
  have ids: "map er_trace_id (map build_receipt traces) = map sd_trace_id traces"
    by (simp add: build_receipt_def)
  have dec: "nr_decision n = (if ''rejected_transitions_detected'' \<in> set ?rules \<or> ''execution_failed'' \<in> set ?rules
      then ''reject'' else ''approve'')"
    and rules: "''execution_failed'' \<in> set (nr_rules n) \<longleftrightarrow> ''execution_failed'' \<in> set ?rules"
    and tids: "nr_trace_ids n = map sd_trace_id traces"
    unfolding n_def generate_narrative_def Let_def using r3 ids by simp_all
  have points: "t \<in> set (er_rejected_transitions (build_receipt tr)) \<Longrightarrow>
      ss_step_id (sd_steps tr ! rt_step_index t) = rt_step_id t \<and> ss_status (sd_steps tr ! rt_step_index t) = ''failed''"
    for t and tr :: "'m stored_trace"
    using failed_steps_point[of t "sd_steps tr"] by (simp add: build_receipt_def)
  have counts: "length (er_rejected_transitions (build_receipt tr)) = th_failed_steps (er_health (build_receipt tr))"
    for tr :: "'m stored_trace"
    by (simp add: build_receipt_def failed_steps_count)
  show ?thesis
    using dec rules tids points counts r1 r2 unfolding none by auto
qed

text \<open>A receipt saved without a session of the caller is not found again.\<close>

lemma saved_receipt_is_lost: "find_by_trace_id tid (save_receipt False time r []) = None"
  by (simp add: save_receipt_def find_by_trace_id_def)

end
