(* ===== verification/Split_SQL.thy ===== *)
theory Split_SQL
  imports Py_Text
begin

text \<open>
  The splitter of migration scripts (src/migrations/_split_sql.py): one pass over
  the text with the lexical mode as its state. Semicolons inside quotes, dollar
  quotes and comments do not end a statement. The reference is a lexical grammar of
  tokens that is written down without the modes and steps of the scanner.
\<close>

section \<open>The scanner\<close>

abbreviation dollar :: char where "dollar \<equiv> CHR 0x24"
abbreviation squote :: char where "squote \<equiv> CHR 0x27"
abbreviation dquote' :: char where "dquote' \<equiv> CHR 0x22"
abbreviation semicolon :: char where "semicolon \<equiv> CHR 0x3B"

datatype sql_mode = In_Code | In_Single | In_Double | In_Line | In_Block | In_Dollar string

definition tag_char :: "char \<Rightarrow> bool" where
  "tag_char c \<longleftrightarrow> is_digit c \<or> 65 \<le> code c \<and> code c \<le> 90 \<or> 97 \<le> code c \<and> code c \<le> 122 \<or> c = CHR ''_''"

text \<open>The dollar tag at the beginning of \<open>$ # r\<close>: no name, or one that starts with no digit.\<close>

definition dollar_tag :: "string \<Rightarrow> string option" where
  "dollar_tag r =
     (let name = takeWhile tag_char r in
      if name \<noteq> [] \<and> is_digit (hd name) then None
      else case dropWhile tag_char r of
        c # _ \<Rightarrow> if c = dollar then Some (dollar # name @ [dollar]) else None
      | [] \<Rightarrow> None)"

definition starts_with :: "char \<Rightarrow> string \<Rightarrow> bool" where
  "starts_with c r \<longleftrightarrow> (case r of d # _ \<Rightarrow> d = c | [] \<Rightarrow> False)"

text \<open>
  One round of the loop at \<open>ch # r\<close>, outside of a semicolon in code: the mode that
  follows, what is appended to the buffer, and what is left to read. The slash that
  closes a block comment is skipped without being appended.
\<close>

fun sql_step :: "sql_mode \<Rightarrow> char \<Rightarrow> string \<Rightarrow> sql_mode \<times> string \<times> string" where
  "sql_step In_Line ch r = (if ch = CHR 0x0A then In_Code else In_Line, [ch], r)"
| "sql_step In_Block ch r = (if ch = CHR ''*'' \<and> starts_with (CHR ''/'') r then (In_Code, [ch], tl r) else (In_Block, [ch], r))"
| "sql_step In_Single ch r =
     (if ch = squote then (if starts_with squote r then (In_Single, [ch, squote], tl r) else (In_Code, [ch], r))
      else (In_Single, [ch], r))"
| "sql_step In_Double ch r =
     (if ch = dquote' then (if starts_with dquote' r then (In_Double, [ch, dquote'], tl r) else (In_Code, [ch], r))
      else (In_Double, [ch], r))"
| "sql_step (In_Dollar tag) ch r =
     (if ch = dollar \<and> take (length tag) (ch # r) = tag then (In_Code, tag, drop (length tag - 1) r)
      else (In_Dollar tag, [ch], r))"
| "sql_step In_Code ch r =
     (if ch = CHR ''-'' \<and> starts_with (CHR ''-'') r then (In_Line, [ch, CHR ''-''], tl r)
      else if ch = CHR ''/'' \<and> starts_with (CHR ''*'') r then (In_Block, [ch, CHR ''*''], tl r)
      else if ch = squote then (In_Single, [ch], r)
      else if ch = dquote' then (In_Double, [ch], r)
      else if ch = dollar then (case dollar_tag r of
          Some tag \<Rightarrow> (In_Dollar tag, tag, drop (length tag - 1) r)
        | None \<Rightarrow> (In_Code, [ch], r))
      else (In_Code, [ch], r))"

lemma sql_step_shorter: "sql_step m ch r = (m', out, r') \<Longrightarrow> length r' \<le> length r"
  by (cases m) (auto split: if_splits option.splits)

definition flush_statement :: "string \<Rightarrow> string list" where
  "flush_statement buf = (let stmt = py_strip buf in if stmt = [] then [] else [stmt])"

function split_loop :: "sql_mode \<Rightarrow> string \<Rightarrow> string \<Rightarrow> string list" where
  "split_loop m buf [] = flush_statement buf"
| "split_loop m buf (ch # r) =
     (if m = In_Code \<and> ch = semicolon then flush_statement buf @ split_loop In_Code [] r
      else case sql_step m ch r of (m', out, r') \<Rightarrow> split_loop m' (buf @ out) r')"
  by pat_completeness auto

termination
  by (relation "measure (\<lambda>(m, buf, s). length s)") (auto dest!: sql_step_shorter[OF sym])

definition split_sql_statements :: "string \<Rightarrow> string list" where
  "split_sql_statements sql = split_loop In_Code [] sql"

section \<open>The lexical grammar\<close>

text \<open>
  What the pieces of a script are, without reference to the scanner: a string or a
  quoted name between its quotes, an inner quote doubled; a comment up to the end
  of its line or to the first closing mark; a body between two equal dollar tags, up
  to the first such tag; and single characters. Escape strings with backslashes
  and nested comments, which PostgreSQL has and the splitter does not know, are outside
  this grammar.
\<close>

datatype sql_token =
    Literal string
  | Quoted_Name string
  | Line_Comment string
  | Block_Comment string
  | Dollar_Body string string
  | Plain char

abbreviation newline_char :: char where "newline_char \<equiv> CHR 0x0A"

definition doubled :: "char \<Rightarrow> string \<Rightarrow> string" where
  "doubled q s = concat (map (\<lambda>c. if c = q then [q, q] else [c]) s)"

definition tag_text :: "string \<Rightarrow> string" where
  "tag_text name = dollar # name @ [dollar]"

fun token_text :: "sql_token \<Rightarrow> string" where
  "token_text (Literal s) = squote # doubled squote s @ [squote]"
| "token_text (Quoted_Name s) = dquote' # doubled dquote' s @ [dquote']"
| "token_text (Line_Comment s) = ''--'' @ s @ [newline_char]"
| "token_text (Block_Comment s) = ''/*'' @ s @ ''*/''"
| "token_text (Dollar_Body name s) = tag_text name @ s @ tag_text name"
| "token_text (Plain c) = [c]"

definition tag_name :: "string \<Rightarrow> bool" where
  "tag_name name \<longleftrightarrow> list_all (\<lambda>c. c \<in> set ''ABCDEFGHIJKLMNOPQRSTUVWXYZabcdefghijklmnopqrstuvwxyz_0123456789'') name
     \<and> (name = [] \<or> hd name \<notin> set ''0123456789'')"

text \<open>The mark \<open>q\<close> behind \<open>s\<close> is the first one.\<close>

definition closes_first :: "string \<Rightarrow> string \<Rightarrow> bool" where
  "closes_first q s \<longleftrightarrow> list_all (\<lambda>i. take (length q) (drop i (s @ q)) \<noteq> q) [0..<length s]"

definition begins_with :: "string \<Rightarrow> string \<Rightarrow> bool" where
  "begins_with q s \<longleftrightarrow> take (length q) s = q"

text \<open>A dollar tag starts here.\<close>

definition opens_body :: "string \<Rightarrow> bool" where
  "opens_body s \<longleftrightarrow> list_ex (\<lambda>n. tag_name (take n s) \<and> begins_with [dollar] (drop n s)) [0..<length s]"

text \<open>
  A token is itself before what follows: the closing quote is not doubled, and a single
  character neither separates statements nor starts another token.
\<close>

fun fits :: "sql_token \<Rightarrow> string \<Rightarrow> bool" where
  "fits (Literal s) rest \<longleftrightarrow> \<not> begins_with [squote] rest"
| "fits (Quoted_Name s) rest \<longleftrightarrow> \<not> begins_with [dquote'] rest"
| "fits (Line_Comment s) rest \<longleftrightarrow> newline_char \<notin> set s"
| "fits (Block_Comment s) rest \<longleftrightarrow> closes_first ''*/'' s"
| "fits (Dollar_Body name s) rest \<longleftrightarrow> tag_name name \<and> closes_first (tag_text name) s"
| "fits (Plain c) rest \<longleftrightarrow> c \<notin> {semicolon, squote, dquote'} \<and> \<not> (c = CHR ''-'' \<and> begins_with ''-'' rest)
     \<and> \<not> (c = CHR ''/'' \<and> begins_with ''*'' rest) \<and> \<not> (c = dollar \<and> opens_body rest)"

definition tokens_text :: "sql_token list \<Rightarrow> string" where
  "tokens_text ts = concat (map token_text ts)"

text \<open>The tokens of one statement, with what follows the statement in the script.\<close>

fun lexed :: "sql_token list \<Rightarrow> string \<Rightarrow> bool" where
  "lexed [] rest \<longleftrightarrow> True"
| "lexed (t # ts) rest \<longleftrightarrow> fits t (tokens_text ts @ rest) \<and> lexed ts rest"

text \<open>The slash that closes a block comment is lost, everything else is kept.\<close>

fun token_kept :: "sql_token \<Rightarrow> string" where
  "token_kept (Block_Comment s) = ''/*'' @ s @ ''*''"
| "token_kept t = token_text t"

definition statement_of :: "sql_token list \<Rightarrow> string" where
  "statement_of ts = py_strip (concat (map token_kept ts))"

section \<open>The scanner reads the grammar\<close>

lemma closes_first_Cons:
  "closes_first q (c # s) \<longleftrightarrow> take (length q) (c # s @ q) \<noteq> q \<and> closes_first q s"
proof -
  have "[0..<Suc (length s)] = 0 # map Suc [0..<length s]"
    by (simp add: map_Suc_upt upt_conv_Cons del: upt_Suc)
  then show ?thesis by (simp add: closes_first_def list.pred_map comp_def del: upt_Suc)
qed

lemma begins_with_starts: "begins_with [c] r = starts_with c r"
  by (cases r) (simp_all add: begins_with_def starts_with_def)

lemma starts_with_more: "c \<noteq> semicolon \<Longrightarrow> starts_with c (r @ semicolon # u) = starts_with c r"
  by (cases r) (auto simp: starts_with_def)

lemma semicolon_no_tag: "\<not> tag_char semicolon"
  by code_simp

lemma dollar_tag_more: "dollar_tag (r @ semicolon # u) = dollar_tag r"
proof (cases "\<forall>c \<in> set r. tag_char c")
  case True
  then have all: "takeWhile tag_char (r @ semicolon # u) = r" "dropWhile tag_char (r @ semicolon # u) = semicolon # u"
      "takeWhile tag_char r = r" "dropWhile tag_char r = []"
    using semicolon_no_tag by (simp_all add: takeWhile_append2 dropWhile_append2 takeWhile_eq_all_conv[THEN iffD2]
        dropWhile_eq_Nil_conv[THEN iffD2])
  show ?thesis unfolding dollar_tag_def all by simp
next
  case False
  then obtain c where "c \<in> set r" "\<not> tag_char c" by blast
  then have "takeWhile tag_char (r @ semicolon # u) = takeWhile tag_char r"
      "dropWhile tag_char (r @ semicolon # u) = dropWhile tag_char r @ semicolon # u" "dropWhile tag_char r \<noteq> []"
    by (auto simp: dropWhile_eq_Nil_conv)
  then show ?thesis by (cases "dropWhile tag_char r") (simp_all add: dollar_tag_def Let_def)
qed

lemma tag_char_set:
  "tag_char c \<longleftrightarrow> c \<in> set ''ABCDEFGHIJKLMNOPQRSTUVWXYZabcdefghijklmnopqrstuvwxyz_0123456789''"
  "is_digit c \<longleftrightarrow> c \<in> set ''0123456789''"
proof -
  have "\<forall>c. tag_char c = (c \<in> set ''ABCDEFGHIJKLMNOPQRSTUVWXYZabcdefghijklmnopqrstuvwxyz_0123456789'')
      \<and> is_digit c = (c \<in> set ''0123456789'')"
    by code_simp
  then show "tag_char c \<longleftrightarrow> c \<in> set ''ABCDEFGHIJKLMNOPQRSTUVWXYZabcdefghijklmnopqrstuvwxyz_0123456789''"
    "is_digit c \<longleftrightarrow> c \<in> set ''0123456789''" by blast+
qed

lemma tag_name_iff: "tag_name name \<longleftrightarrow> list_all tag_char name \<and> (name = [] \<or> \<not> is_digit (hd name))"
  unfolding tag_name_def tag_char_set ..

lemma dollar_no_tag: "\<not> tag_char dollar"
  by code_simp

lemma dollar_tag_name:
  assumes "tag_name name"
  shows "dollar_tag (name @ dollar # r) = Some (tag_text name)"
proof -
  have "takeWhile tag_char (name @ dollar # r) = name" "dropWhile tag_char (name @ dollar # r) = dollar # r"
    using assms dollar_no_tag by (simp_all add: tag_name_iff list_all_iff takeWhile_append2 dropWhile_append2)
  then show ?thesis using assms by (simp add: dollar_tag_def Let_def tag_text_def tag_name_iff)
qed

lemma opens_body_tag: "dollar_tag r = None \<longleftrightarrow> \<not> opens_body r"
proof -
  have "opens_body r" if "dollar_tag r = Some tag" for tag
  proof -
    let ?n = "length (takeWhile tag_char r)"
    have r: "take ?n r = takeWhile tag_char r" "drop ?n r = dropWhile tag_char r"
      by (metis takeWhile_eq_take) (metis dropWhile_eq_drop)
    have "\<exists>u. dropWhile tag_char r = dollar # u \<and> (takeWhile tag_char r = [] \<or> \<not> is_digit (hd (takeWhile tag_char r)))"
      using that unfolding dollar_tag_def Let_def by (cases "dropWhile tag_char r") (simp_all del: dropWhile_eq_Nil_conv split: if_splits)
    then obtain u where u: "dropWhile tag_char r = dollar # u" "takeWhile tag_char r = [] \<or> \<not> is_digit (hd (takeWhile tag_char r))"
      by blast
    have "?n < length r" using arg_cong[OF r(2), of length] u(1) by simp
    moreover have "tag_name (take ?n r)" using u(2) unfolding r tag_name_iff list_all_iff by (auto dest: set_takeWhileD)
    moreover have "begins_with [dollar] (drop ?n r)" unfolding r u(1) by (simp add: begins_with_def)
    ultimately show ?thesis by (auto simp: opens_body_def list_ex_iff)
  qed
  moreover have "dollar_tag r \<noteq> None" if n: "tag_name (take n r)" "begins_with [dollar] (drop n r)" for n
  proof -
    obtain u where "drop n r = dollar # u" using n(2) by (cases "drop n r") (simp_all add: begins_with_def)
    then have "r = take n r @ dollar # u" by (metis append_take_drop_id)
    then show ?thesis using dollar_tag_name[OF n(1), of u] by (metis option.distinct(1))
  qed
  then have "opens_body r \<Longrightarrow> dollar_tag r \<noteq> None" by (auto simp only: opens_body_def list_ex_iff)
  ultimately show ?thesis by (cases "dollar_tag r") auto
qed

lemma read_quoted:
  "\<not> starts_with squote rest \<Longrightarrow> split_loop In_Single buf (doubled squote s @ squote # rest)
     = split_loop In_Code (buf @ doubled squote s @ [squote]) rest"
  "\<not> starts_with dquote' rest \<Longrightarrow> split_loop In_Double buf (doubled dquote' s @ dquote' # rest)
     = split_loop In_Code (buf @ doubled dquote' s @ [dquote']) rest"
proof (induction s arbitrary: buf)
  case (Cons c s)
  case 1
  then show ?case using Cons.IH(1) by (auto simp: doubled_def starts_with_def)
next
  case (Cons c s)
  case 2
  then show ?case using Cons.IH(2) by (auto simp: doubled_def starts_with_def)
qed (auto simp: doubled_def)

lemma read_line:
  "newline_char \<notin> set s \<Longrightarrow> split_loop In_Line buf (s @ newline_char # rest)
     = split_loop In_Code (buf @ s @ [newline_char]) rest"
  by (induction s arbitrary: buf) auto

lemma read_block:
  "closes_first ''*/'' s \<Longrightarrow> split_loop In_Block buf (s @ ''*/'' @ rest) = split_loop In_Code (buf @ s @ ''*'') rest"
proof (induction s arbitrary: buf)
  case Nil
  then show ?case by (simp add: starts_with_def)
next
  case (Cons c s)
  have "\<not> (c = CHR ''*'' \<and> starts_with (CHR ''/'') (s @ ''*/'' @ rest))"
    using Cons.prems by (cases s) (auto simp: closes_first_Cons starts_with_def)
  then show ?case using Cons by (auto simp: closes_first_Cons)
qed

lemma read_dollar:
  "closes_first (tag_text name) s \<Longrightarrow> split_loop (In_Dollar (tag_text name)) buf (s @ tag_text name @ rest)
     = split_loop In_Code (buf @ s @ tag_text name) rest"
proof (induction s arbitrary: buf)
  case Nil
  then show ?case by (simp add: tag_text_def)
next
  case (Cons c s)
  let ?t = "tag_text name"
  have "take (length ?t) (c # s @ ?t @ rest) = take (length ?t) ((c # s @ ?t) @ rest)" by simp
  also have "\<dots> = take (length ?t) (c # s @ ?t)" by (simp only: take_append) simp
  finally have "take (length ?t) (c # s @ ?t @ rest) \<noteq> ?t"
    using Cons.prems by (simp only: closes_first_Cons simp_thms)
  then show ?case using Cons by (simp add: closes_first_Cons)
qed

lemma read_token:
  assumes "fits t rest"
  shows "split_loop In_Code buf (token_text t @ rest) = split_loop In_Code (buf @ token_kept t) rest"
proof (cases t)
  case (Dollar_Body name s)
  then have "dollar_tag (name @ dollar # s @ tag_text name @ rest) = Some (tag_text name)"
    "closes_first (tag_text name) s"
    using assms by (simp_all add: dollar_tag_name)
  then show ?thesis
    using Dollar_Body read_dollar[of name s "buf @ tag_text name" rest] by (simp add: tag_text_def)
next
  case (Plain c)
  have "dollar_tag rest = None" if "c = dollar"
    using assms Plain that by (simp add: opens_body_tag)
  then have "sql_step In_Code c rest = (In_Code, [c], rest)"
    using assms Plain by (simp add: begins_with_starts)
  moreover have "c \<noteq> semicolon" using assms Plain by simp
  ultimately show ?thesis using Plain by simp
next
  case (Literal s)
  then show ?thesis using assms read_quoted(1)[of rest "buf @ [squote]" s] by (simp add: begins_with_starts)
next
  case (Quoted_Name s)
  then show ?thesis using assms read_quoted(2)[of rest "buf @ [dquote']" s] by (simp add: begins_with_starts)
next
  case (Line_Comment s)
  then show ?thesis using assms read_line[of s "buf @ ''--''" rest] by (simp add: starts_with_def)
next
  case (Block_Comment s)
  then show ?thesis using assms read_block[of s "buf @ ''/*''" rest] by (simp add: starts_with_def)
qed

lemma read_tokens:
  "lexed ts rest \<Longrightarrow> split_loop In_Code buf (tokens_text ts @ rest)
     = split_loop In_Code (buf @ concat (map token_kept ts)) rest"
proof (induction ts arbitrary: buf)
  case (Cons t ts)
  then show ?case using read_token[of t "tokens_text ts @ rest" buf] by (simp add: tokens_text_def)
qed (simp add: tokens_text_def)

text \<open>A statement ends at its semicolon whatever comes next.\<close>

lemma lexed_more: "lexed ts [semicolon] \<Longrightarrow> lexed ts (semicolon # u)"
proof (induction ts)
  case (Cons t ts)
  have "fits t (r @ [semicolon]) \<Longrightarrow> fits t (r @ semicolon # u)" for r
    using starts_with_more[of _ r "[]"] starts_with_more[of _ r u] dollar_tag_more[of r "[]"] dollar_tag_more[of r u]
    by (cases t) (auto simp: begins_with_starts simp flip: opens_body_tag)
  then show ?case using Cons by simp
qed simp

text \<open>C25. Semicolons separate statements and nothing else does: a script of statements, each a list
of tokens of the grammar above and ended by a semicolon, with a last
statement that may lack it, is split into exactly the texts of these statements without
outer white space, the empty ones left out. A text is complete but for the slash that
closes a block comment, which is lost.\<close>

theorem split_respects_statements:
  assumes "list_all (\<lambda>ts. lexed ts [semicolon]) ss" "lexed tail []"
  shows "split_sql_statements (concat (map (\<lambda>ts. tokens_text ts @ [semicolon]) ss) @ tokens_text tail)
    = filter (\<lambda>s. s \<noteq> []) (map statement_of (ss @ [tail]))"
  using assms(1)
proof (induction ss)
  case Nil
  then show ?case
    using read_tokens[OF assms(2), of "[]"]
    by (simp add: split_sql_statements_def flush_statement_def statement_of_def Let_def)
next
  case (Cons ts ss)
  let ?rest = "concat (map (\<lambda>ts. tokens_text ts @ [semicolon]) ss) @ tokens_text tail"
  have "split_loop In_Code [] (tokens_text ts @ semicolon # ?rest)
      = flush_statement (concat (map token_kept ts)) @ split_loop In_Code [] ?rest"
    using Cons.prems read_tokens[of ts "semicolon # ?rest" "[]"] lexed_more[of ts ?rest] by simp
  then show ?case
    using Cons by (simp add: split_sql_statements_def flush_statement_def statement_of_def Let_def)
qed

definition sample_script :: "sql_token list list" where
  "sample_script =
     [map Plain ''SELECT '' @ [Literal (''x;'' @ [squote] @ ''y--''), Plain (CHR '',''), Quoted_Name ''a;b''],
      map Plain '' DO '' @ [Dollar_Body ''b'' '' BEGIN f(); END '', Plain (CHR '' '')],
      [Line_Comment '' one; two''] @ map Plain ''SELECT 2-1 '' @ [Block_Comment '' c; ''],
      map Plain ''  '']"

theorem split_respects_statements_witness:
  "split_sql_statements (concat (map (\<lambda>ts. tokens_text ts @ [semicolon]) sample_script) @ tokens_text (map Plain ''COMMIT''))
     = [''SELECT '' @ squote # ''x;'' @ [squote, squote] @ ''y--'' @ [squote] @ '','' @ [dquote'] @ ''a;b'' @ [dquote'],
        ''DO $b$ BEGIN f(); END $b$'',
        ''-- one; two'' @ newline_char # ''SELECT 2-1 /* c; *'', ''COMMIT'']"
proof -
  have "list_all (\<lambda>ts. lexed ts [semicolon]) sample_script" "lexed (map Plain ''COMMIT'') []" by code_simp+
  moreover have "filter (\<lambda>s. s \<noteq> []) (map statement_of (sample_script @ [map Plain ''COMMIT'']))
      = [''SELECT '' @ squote # ''x;'' @ [squote, squote] @ ''y--'' @ [squote] @ '','' @ [dquote'] @ ''a;b'' @ [dquote'],
         ''DO $b$ BEGIN f(); END $b$'',
         ''-- one; two'' @ newline_char # ''SELECT 2-1 /* c; *'', ''COMMIT'']"
    by code_simp
  ultimately show ?thesis using split_respects_statements by simp
qed

text \<open>A block comment that lost its slash swallows what follows in its statement and the next one.\<close>

theorem block_comment_left_open:
  "split_sql_statements ''/* a */ SELECT 1; SELECT 2;'' = [''/* a * SELECT 1'', ''SELECT 2'']
   \<and> split_sql_statements ''/* a * SELECT 1; SELECT 2;'' = [''/* a * SELECT 1; SELECT 2;'']"
  by code_simp

end
