(* ===== verification/Messenger_Clients.thy ===== *)
theory Messenger_Clients
  imports Platform
begin

text \<open>
  The transport clients of the messengers (app/services/max_client.py,
  app/services/zalo_client.py, app/services/notification_service.py) and the tools that
  notify customers: the request
  each operation makes and what it makes of the answer. The wire is a log of
  requests and the answers of the other side; a client catches the failures of the
  HTTP library, not those of a body that has an unexpected shape.
\<close>

section \<open>Requests and answers\<close>

record http_request =
  hq_method :: string
  hq_url :: string
  hq_params :: "(string \<times> json) list"
  hq_headers :: "(string \<times> string) list"
  hq_body :: "json option"

text \<open>
  A parsed body, a status that \<open>raise_for_status\<close> refuses, a body that is not JSON, or no
  answer at all.
\<close>

datatype http_answer = Answered json | Refused nat string | NotJson string | Unreachable string

record wire =
  wire_answer :: "http_request \<Rightarrow> http_answer"
  wire_log :: "http_request list"

definition send_request :: "http_request \<Rightarrow> (wire, http_answer) io" where
  "send_request q = (\<lambda>w. (Inr (wire_answer w q), w\<lparr>wire_log := wire_log w @ [q]\<rparr>))"

text \<open>\<open>data.get(k, dflt)\<close>\<close>

definition dict_get :: "string \<Rightarrow> json \<Rightarrow> json \<Rightarrow> json result" where
  "dict_get k dflt v = (case v of
       JObj kvs \<Rightarrow> Inr (case map_of kvs k of None \<Rightarrow> dflt | Some x \<Rightarrow> x)
     | _ \<Rightarrow> Inl (AttributeError ''get''))"

section \<open>MAX\<close>

record MaxClient =
  mx_token :: string
  mx_base_url :: string

definition MaxClient_init :: "string \<Rightarrow> string option \<Rightarrow> string \<Rightarrow> MaxClient" where
  "MaxClient_init token base_url dflt = \<lparr>mx_token = token,
     mx_base_url = (case base_url of Some u \<Rightarrow> if u = [] then dflt else u | None \<Rightarrow> dflt)\<rparr>"

definition MaxClient_configured :: "MaxClient \<Rightarrow> bool" where
  "MaxClient_configured c \<longleftrightarrow> mx_token c \<noteq> []"

definition MaxClient_headers :: "MaxClient \<Rightarrow> (string \<times> string) list" where
  "MaxClient_headers c = [(''Authorization'', mx_token c), (''Content-Type'', ''application/json'')]"

definition max_request :: "MaxClient \<Rightarrow> string \<Rightarrow> string \<Rightarrow> string \<times> json \<Rightarrow> (string \<times> json) list \<Rightarrow> http_request" where
  "max_request c meth path param body = \<lparr>hq_method = meth, hq_url = mx_base_url c @ path, hq_params = [param],
     hq_headers = MaxClient_headers c, hq_body = Some (JObj body)\<rparr>"

definition text_body :: "string \<Rightarrow> json list \<Rightarrow> (string \<times> json) list" where
  "text_body txt attachments = (''text'', JStr txt) # (if attachments = [] then [] else [(''attachments'', JList attachments)])"

text \<open>\<open>(data.get("message") or {}).get("body", {}).get("mid")\<close>\<close>

definition message_mid :: "json \<Rightarrow> json result" where
  "message_mid data = (case dict_get ''message'' JNull data of
       Inl e \<Rightarrow> Inl e
     | Inr msg \<Rightarrow> (case dict_get ''body'' (JObj []) (if py_truthy msg then msg else JObj []) of
           Inl e \<Rightarrow> Inl e
         | Inr body \<Rightarrow> dict_get ''mid'' JNull body))"

text \<open>A message counts as sent when the answer says so or carries its id.\<close>

definition MaxClient_send_message :: "MaxClient \<Rightarrow> int \<Rightarrow> string \<Rightarrow> json list \<Rightarrow> (wire, json) io" where
  "MaxClient_send_message c user_id txt attachments =
     (if \<not> MaxClient_configured c then ret JNull
      else bind_io (send_request (max_request c ''POST'' ''/messages'' (''user_id'', JInt user_id) (text_body txt attachments))) (\<lambda>a.
        case a of
          Answered data \<Rightarrow>
            bind_io (lift_result (message_mid data)) (\<lambda>mid.
            bind_io (lift_result (dict_get ''success'' JNull data)) (\<lambda>ok.
            ret (if py_truthy ok \<or> py_truthy mid then mid else JNull)))
        | _ \<Rightarrow> ret JNull))"

definition reported_success :: "http_answer \<Rightarrow> (wire, bool) io" where
  "reported_success a = (case a of
       Answered data \<Rightarrow> bind_io (lift_result (dict_get ''success'' (JBool False) data)) (\<lambda>ok. ret (py_truthy ok))
     | _ \<Rightarrow> ret False)"

definition MaxClient_edit_message :: "MaxClient \<Rightarrow> string \<Rightarrow> string \<Rightarrow> json list \<Rightarrow> (wire, bool) io" where
  "MaxClient_edit_message c message_id txt attachments =
     (if \<not> MaxClient_configured c then ret False
      else bind_io (send_request (max_request c ''PUT'' ''/messages'' (''message_id'', JStr message_id) (text_body txt attachments)))
        reported_success)"

definition answer_body :: "string option \<Rightarrow> string option \<Rightarrow> json list option \<Rightarrow> (string \<times> json) list" where
  "answer_body notification message_text attachments =
     (case notification of Some t \<Rightarrow> if t = [] then [] else [(''notification'', JStr t)] | None \<Rightarrow> [])
     @ (if message_text = None \<and> attachments = None then []
        else [(''message'', JObj [(''text'', JStr (case message_text of Some t \<Rightarrow> t | None \<Rightarrow> [])),
                                (''attachments'', JList (case attachments of Some as \<Rightarrow> as | None \<Rightarrow> []))])])"

definition MaxClient_answer_callback ::
  "MaxClient \<Rightarrow> string \<Rightarrow> string option \<Rightarrow> string option \<Rightarrow> json list option \<Rightarrow> (wire, bool) io" where
  "MaxClient_answer_callback c callback_id notification message_text attachments =
     (if \<not> MaxClient_configured c then ret False
      else bind_io (send_request (max_request c ''POST'' ''/answers'' (''callback_id'', JStr callback_id)
          (answer_body notification message_text attachments)))
        reported_success)"

section \<open>Zalo\<close>

record ZaloClient =
  zc_app_id :: string
  zc_secret_key :: string
  zc_base_url :: string

definition ZaloClient_configured :: "ZaloClient \<Rightarrow> bool" where
  "ZaloClient_configured c \<longleftrightarrow> zc_app_id c \<noteq> [] \<and> zc_secret_key c \<noteq> []"

definition appsecret_proof :: "platform \<Rightarrow> ZaloClient \<Rightarrow> string \<Rightarrow> string" where
  "appsecret_proof pf c access_token = hmac_sha256 pf (zc_secret_key c) access_token"

text \<open>\<open>k in data\<close>\<close>

fun occurs_in :: "string \<Rightarrow> string \<Rightarrow> bool" where
  "occurs_in k [] \<longleftrightarrow> k = []"
| "occurs_in k (c # cs) \<longleftrightarrow> take (length k) (c # cs) = k \<or> occurs_in k cs"

definition json_contains :: "string \<Rightarrow> json \<Rightarrow> bool result" where
  "json_contains k data = (case data of
       JObj kvs \<Rightarrow> Inr (map_of kvs k \<noteq> None)
     | JList xs \<Rightarrow> Inr (JStr k \<in> set xs)
     | JStr s \<Rightarrow> Inr (occurs_in k s)
     | _ \<Rightarrow> Inl (TypeError ''in''))"

datatype ZaloProfileError = ZaloProfileError string

definition profile_request :: "platform \<Rightarrow> ZaloClient \<Rightarrow> string \<Rightarrow> http_request" where
  "profile_request pf c access_token = \<lparr>hq_method = ''GET'', hq_url = zc_base_url c @ ''/me'',
     hq_params = [(''fields'', JStr ''id,name,picture'')],
     hq_headers = [(''access_token'', access_token), (''appsecret_proof'', appsecret_proof pf c access_token)],
     hq_body = None\<rparr>"

definition get_user_profile :: "platform \<Rightarrow> ZaloClient \<Rightarrow> string \<Rightarrow> (wire, ZaloProfileError + json) io" where
  "get_user_profile pf c access_token =
     (if \<not> ZaloClient_configured c then ret (Inl (ZaloProfileError ''ZALO_APP_ID/ZALO_APP_SECRET_KEY not configured''))
      else bind_io (send_request (profile_request pf c access_token)) (\<lambda>a.
        case a of
          Refused status _ \<Rightarrow> ret (Inl (ZaloProfileError (''Zalo /me HTTP '' @ nat_str status)))
        | NotJson _ \<Rightarrow> ret (Inl (ZaloProfileError ''Zalo /me returned non-JSON response''))
        | Unreachable _ \<Rightarrow> ret (Inl (ZaloProfileError ''Zalo /me request failed''))
        | Answered data \<Rightarrow>
            bind_io (lift_result (json_contains ''error'' data)) (\<lambda>failed.
            if failed then ret (Inl (ZaloProfileError (''Zalo /me error response: '' @ py_str (repr_of pf) data)))
            else bind_io (lift_result (json_contains ''id'' data)) (\<lambda>known.
            if known then ret (Inr data)
            else ret (Inl (ZaloProfileError (''Zalo /me error response: '' @ py_str (repr_of pf) data)))))))"

section \<open>Telegram\<close>

definition BASE_URL :: string where
  "BASE_URL = ''https://api.telegram.org/bot''"

definition telegram_request :: "string \<Rightarrow> string \<Rightarrow> string \<Rightarrow> json option \<Rightarrow> http_request" where
  "telegram_request token chat_id txt reply_markup = \<lparr>hq_method = ''POST'', hq_url = BASE_URL @ token @ ''/sendMessage'',
     hq_params = [], hq_headers = [],
     hq_body = Some (JObj ([(''chat_id'', JStr chat_id), (''text'', JStr txt), (''parse_mode'', JStr ''HTML'')]
       @ (case reply_markup of Some m \<Rightarrow> [(''reply_markup'', m)] | None \<Rightarrow> [])))\<rparr>"

definition TelegramClient_send_message :: "string \<Rightarrow> string \<Rightarrow> string \<Rightarrow> json option \<Rightarrow> (wire, json) io" where
  "TelegramClient_send_message token chat_id txt reply_markup =
     bind_io (send_request (telegram_request token chat_id txt reply_markup)) (\<lambda>a.
       case a of
         Answered data \<Rightarrow> ret data
       | Refused _ why \<Rightarrow> raise (HTTPError why)
       | NotJson why \<Rightarrow> raise (ValueError why)
       | Unreachable why \<Rightarrow> raise (HTTPError why))"

definition send_telegram :: "string \<Rightarrow> string \<Rightarrow> string \<Rightarrow> (wire, unit) io" where
  "send_telegram token chat_id message =
     (if token = [] then ret ()
      else catch_io (bind_io (TelegramClient_send_message token chat_id message None) (\<lambda>_. ret ())) (\<lambda>_. ret ()))"

definition send_sms :: "string \<Rightarrow> string \<Rightarrow> (wire, unit) io" where
  "send_sms phone message = ret ()"

text \<open>
  The tools that tell a customer about an order (app/tools/notification_tools.py). The
  Russian sentences around the order id are an argument.
\<close>

datatype notice = Confirmed | PaymentReceived | Cooking | Delivered | Failed

definition notify_order :: "platform \<Rightarrow> string \<Rightarrow> string \<Rightarrow> (string \<times> json) list \<Rightarrow> (wire, string) io" where
  "notify_order pf token message kwargs =
     bind_io (send_telegram token (py_str (repr_of pf) (case map_of kwargs ''chat_id'' of Some v \<Rightarrow> v | None \<Rightarrow> JStr [])) message)
       (\<lambda>_. ret ''NOTIFIED'')"

definition notify_order_confirmed ::
  "platform \<Rightarrow> string \<Rightarrow> (notice \<Rightarrow> string \<Rightarrow> string) \<Rightarrow> string \<Rightarrow> (string \<times> json) list \<Rightarrow> (wire, string) io" where
  "notify_order_confirmed pf token sentence order_id kwargs = notify_order pf token (sentence Confirmed order_id) kwargs"

definition notify_payment_received ::
  "platform \<Rightarrow> string \<Rightarrow> (notice \<Rightarrow> string \<Rightarrow> string) \<Rightarrow> string \<Rightarrow> (string \<times> json) list \<Rightarrow> (wire, string) io" where
  "notify_payment_received pf token sentence order_id kwargs = notify_order pf token (sentence PaymentReceived order_id) kwargs"

definition notify_order_cooking ::
  "platform \<Rightarrow> string \<Rightarrow> (notice \<Rightarrow> string \<Rightarrow> string) \<Rightarrow> string \<Rightarrow> (string \<times> json) list \<Rightarrow> (wire, string) io" where
  "notify_order_cooking pf token sentence order_id kwargs = notify_order pf token (sentence Cooking order_id) kwargs"

definition notify_order_delivered ::
  "platform \<Rightarrow> string \<Rightarrow> (notice \<Rightarrow> string \<Rightarrow> string) \<Rightarrow> string \<Rightarrow> (string \<times> json) list \<Rightarrow> (wire, string) io" where
  "notify_order_delivered pf token sentence order_id kwargs = notify_order pf token (sentence Delivered order_id) kwargs"

definition notify_order_failed ::
  "platform \<Rightarrow> string \<Rightarrow> (notice \<Rightarrow> string \<Rightarrow> string) \<Rightarrow> string \<Rightarrow> (string \<times> json) list \<Rightarrow> (wire, string) io" where
  "notify_order_failed pf token sentence order_id kwargs = notify_order pf token (sentence Failed order_id) kwargs"

section \<open>What callers may rely on\<close>

named_theorems client_defs "definitions of the transport clients"

lemmas [client_defs] = MaxClient_send_message_def MaxClient_edit_message_def MaxClient_answer_callback_def
  reported_success_def get_user_profile_def TelegramClient_send_message_def send_telegram_def send_request_def
  bind_io_apply catch_io_apply lift_result_apply

text \<open>Without its token a client keeps silent: no request leaves the process.\<close>

lemma unconfigured_is_silent:
  assumes "mx_token c = []"
  shows "MaxClient_send_message c u t as w = (Inr JNull, w)" "MaxClient_edit_message c m t as w = (Inr False, w)"
    "MaxClient_answer_callback c i n mt oas w = (Inr False, w)" "send_telegram [] chat msg w = (Inr (), w)"
  using assms by (simp_all add: client_defs MaxClient_configured_def)

text \<open>A failed exchange is a negative answer, never an exception, and every call makes one
request with the token.\<close>

theorem max_failures_are_answers:
  assumes "mx_token c \<noteq> []"
    and "\<And>q data. wire_answer w q \<noteq> Answered data"
  shows "fst (MaxClient_send_message c u t as w) = Inr JNull" "fst (MaxClient_edit_message c m t as w) = Inr False"
    "fst (MaxClient_answer_callback c i n mt oas w) = Inr False"
    "\<exists>q. wire_log (snd (MaxClient_send_message c u t as w)) = wire_log w @ [q]
       \<and> map_of (hq_headers q) ''Authorization'' = Some (mx_token c)"
  using assms
  by (auto simp: client_defs MaxClient_configured_def max_request_def MaxClient_headers_def split: http_answer.splits)

text \<open>
  MAX may deny success although the message was delivered; the id in the answer
  decides then. A body of another shape than an object is not caught.
\<close>

theorem delivered_despite_denial:
  assumes "mx_token c \<noteq> []" and "\<And>q. wire_answer w q = Answered (JObj [(''success'', JBool False),
      (''message'', JObj [(''body'', JObj [(''mid'', JStr (ch # mid))])])])"
  shows "fst (MaxClient_send_message c u t as w) = Inr (JStr (ch # mid))"
  using assms by (simp add: client_defs MaxClient_configured_def message_mid_def dict_get_def)

theorem odd_max_body_escapes:
  assumes "mx_token c \<noteq> []" and "\<And>q. wire_answer w q = Answered (JList xs)"
  shows "fst (MaxClient_send_message c u t as w) = Inl (AttributeError ''get'')"
    "fst (MaxClient_edit_message c m t as w) = Inl (AttributeError ''get'')"
  using assms by (simp_all add: client_defs MaxClient_configured_def message_mid_def dict_get_def)

text \<open>A profile that is an object names an id and no error, and it was asked for with the proof
that only the holder of the secret key can compute.\<close>

theorem profile_is_proved:
  assumes "get_user_profile pf c token w = (Inr (Inr (JObj kvs)), w')"
  shows "map_of kvs ''id'' \<noteq> None \<and> map_of kvs ''error'' = None
    \<and> wire_answer w (profile_request pf c token) = Answered (JObj kvs)
    \<and> map_of (hq_headers (profile_request pf c token)) ''appsecret_proof'' = Some (hmac_sha256 pf (zc_secret_key c) token)
    \<and> wire_log w' = wire_log w @ [profile_request pf c token]"
  using assms
  by (auto simp: client_defs json_contains_def profile_request_def appsecret_proof_def
      split: if_splits http_answer.splits json.splits)

text \<open>Notifications are fire and forget: whatever the wire answers, nothing is raised.\<close>

theorem notifications_never_raise:
  "fst (send_telegram token chat msg w) = Inr () \<and> fst (send_sms phone msg w) = Inr ()
   \<and> length (wire_log (snd (send_telegram token chat msg w))) = length (wire_log w) + (if token = [] then 0 else 1)"
  by (auto simp: client_defs send_sms_def split: http_answer.splits)

lemma tools_notify_whatever_happens: "fst (notify_order pf token msg kwargs w) = Inr ''NOTIFIED''"
  by (auto simp: notify_order_def client_defs split: http_answer.splits)

end
