(* ===== verification/Web_Headers.thy ===== *)
theory Web_Headers
  imports Prelude
begin

text \<open>
  The response headers of the web application: the policy with a nonce for each
  request (app/web/csp.py), the marker that keeps the site out of search engines
  (NoIndexMiddleware of app/main.py), and the pages that only render a template
  with the nonce (app/web/customer_routes.py, app/web/telegram_routes.py).
\<close>

section \<open>The nonce\<close>

definition B64_ALPHABET :: string where
  "B64_ALPHABET = ''ABCDEFGHIJKLMNOPQRSTUVWXYZabcdefghijklmnopqrstuvwxyz0123456789-_''"

abbreviation b64 :: "nat \<Rightarrow> char" where "b64 i \<equiv> B64_ALPHABET ! i"

text \<open>\<open>base64.urlsafe_b64encode\<close> on bytes\<close>

fun urlsafe_b64encode :: "nat list \<Rightarrow> string" where
  "urlsafe_b64encode [] = []"
| "urlsafe_b64encode [a] = [b64 (a div 4), b64 (a mod 4 * 16), CHR ''='', CHR ''='']"
| "urlsafe_b64encode [a, b] = [b64 (a div 4), b64 (a mod 4 * 16 + b div 16), b64 (b mod 16 * 4), CHR ''='']"
| "urlsafe_b64encode (a # b # c # bs) =
     b64 (a div 4) # b64 (a mod 4 * 16 + b div 16) # b64 (b mod 16 * 4 + c div 64) # b64 (c mod 64)
     # urlsafe_b64encode bs"

definition make_nonce :: "nat list \<Rightarrow> string" where
  "make_nonce token_bytes = rev (dropWhile (\<lambda>c. c = CHR ''='') (rev (urlsafe_b64encode token_bytes)))"

text \<open>What a request carries: the scope of the middleware and the state of the request.\<close>

record http_scope =
  sc_type :: string
  sc_csp_nonce :: "string option"
  sc_state_nonce :: "string option"

definition csp_nonce :: "nat list \<Rightarrow> (http_scope, string) io" where
  "csp_nonce token_bytes = (\<lambda>rq. case sc_state_nonce rq of
       Some n \<Rightarrow> (Inr n, rq)
     | None \<Rightarrow> (let n = (case sc_csp_nonce rq of Some s \<Rightarrow> if s = [] then make_nonce token_bytes else s
                         | None \<Rightarrow> make_nonce token_bytes)
               in (Inr n, rq\<lparr>sc_state_nonce := Some n\<rparr>)))"

section \<open>Headers and middleware\<close>

type_synonym headers = "(string \<times> string) list"

text \<open>Names are lower case on the wire; setting a header replaces the first and drops the others.\<close>

definition get_header :: "string \<Rightarrow> headers \<Rightarrow> string option" where
  "get_header k hs = map_of hs k"

fun set_header :: "string \<Rightarrow> string \<Rightarrow> headers \<Rightarrow> headers" where
  "set_header k v [] = [(k, v)]"
| "set_header k v ((k', v') # hs) =
     (if k' = k then (k, v) # filter (\<lambda>(k'', _). k'' \<noteq> k) hs else (k', v') # set_header k v hs)"

datatype asgi_message = ResponseStart nat headers | OtherMessage string

text \<open>An application sends its messages and may raise, after any of them.\<close>

type_synonym asgi_app = "http_scope \<Rightarrow> asgi_message list \<times> exn option"

definition no_index :: "asgi_message \<Rightarrow> asgi_message" where
  "no_index m = (case m of
       ResponseStart status hs \<Rightarrow> ResponseStart status (set_header ''x-robots-tag'' ''noindex, nofollow'' hs)
     | OtherMessage b \<Rightarrow> OtherMessage b)"

definition NoIndexMiddleware :: "asgi_app \<Rightarrow> asgi_app" where
  "NoIndexMiddleware app scope = (if sc_type scope \<noteq> ''http'' then app scope else apfst (map no_index) (app scope))"

definition YOOKASSA_ORIGIN :: string where "YOOKASSA_ORIGIN = ''https://yookassa.ru''"

definition MAX_BRIDGE_ORIGIN :: string where "MAX_BRIDGE_ORIGIN = ''https://st.max.ru''"

definition TELEGRAM_BRIDGE_ORIGIN :: string where "TELEGRAM_BRIDGE_ORIGIN = ''https://telegram.org''"

definition source_quoted :: "string \<Rightarrow> string" where
  "source_quoted s = CHR 0x27 # s @ [CHR 0x27]"

definition csp_directives :: "string \<Rightarrow> string list list" where
  "csp_directives nonce =
     [[''default-src'', source_quoted ''self''],
      [''img-src'', source_quoted ''self'', ''data:''],
      [''script-src'', source_quoted (''nonce-'' @ nonce), source_quoted ''self'', YOOKASSA_ORIGIN, MAX_BRIDGE_ORIGIN, TELEGRAM_BRIDGE_ORIGIN],
      [''style-src'', source_quoted ''self'', source_quoted ''unsafe-inline''],
      [''connect-src'', source_quoted ''self''],
      [''frame-src'', source_quoted ''self'', ''https://yookassa.ru'', ''https:''],
      [''base-uri'', source_quoted ''self''],
      [''form-action'', source_quoted ''self'']]"

fun joined :: "string \<Rightarrow> string list \<Rightarrow> string" where
  "joined sep [] = []"
| "joined sep [x] = x"
| "joined sep (x # y # ys) = x @ sep @ joined sep (y # ys)"

definition build_csp_header :: "string \<Rightarrow> string" where
  "build_csp_header nonce = joined ''; '' (map (joined '' '') (csp_directives nonce))"

definition html :: "headers \<Rightarrow> bool" where
  "html hs \<longleftrightarrow> take 9 (case get_header ''content-type'' hs of Some t \<Rightarrow> t | None \<Rightarrow> []) = ''text/html''"

definition with_csp :: "string \<Rightarrow> asgi_message \<Rightarrow> asgi_message" where
  "with_csp nonce m = (case m of
       ResponseStart status hs \<Rightarrow>
         if html hs
         then ResponseStart status (set_header ''content-security-policy'' (build_csp_header nonce) hs)
         else ResponseStart status hs
     | OtherMessage b \<Rightarrow> OtherMessage b)"

definition CSPMiddleware :: "nat list \<Rightarrow> asgi_app \<Rightarrow> asgi_app" where
  "CSPMiddleware token_bytes app scope =
     (if sc_type scope \<noteq> ''http'' then app scope
      else let nonce = make_nonce token_bytes
           in apfst (map (with_csp nonce)) (app (scope\<lparr>sc_csp_nonce := Some nonce\<rparr>)))"

text \<open>
  app/main.py adds the two middlewares, the policy last, so it is the outer of
  the two. The framework's own handler of uncaught exceptions stays outside
  both: the 500 answer it makes of an exception that leaves the site is not among
  the messages here, and neither middleware sees it.
\<close>

definition site :: "nat list \<Rightarrow> asgi_app \<Rightarrow> asgi_app" where
  "site token_bytes app = CSPMiddleware token_bytes (NoIndexMiddleware app)"

section \<open>Pages that only render a template\<close>

record page =
  pg_template :: string
  pg_csp_nonce :: "string option"

datatype legal_page = Agreement | Offer | Privacy | Requisites

definition legal :: "legal_page \<Rightarrow> (http_scope, page) io" where
  "legal p = ret \<lparr>pg_template = (case p of Agreement \<Rightarrow> ''customer/agreement.html'' | Offer \<Rightarrow> ''customer/offer.html''
     | Privacy \<Rightarrow> ''customer/privacy.html'' | Requisites \<Rightarrow> ''customer/requisites.html''), pg_csp_nonce = None\<rparr>"

definition nonce_page :: "string \<Rightarrow> nat list \<Rightarrow> (http_scope, page) io" where
  "nonce_page template token_bytes = bind_io (csp_nonce token_bytes) (\<lambda>n.
     ret \<lparr>pg_template = template, pg_csp_nonce = Some n\<rparr>)"

definition shop_index :: "nat list \<Rightarrow> (http_scope, page) io" where
  "shop_index = nonce_page ''customer/index.html''"

definition shop_menu :: "nat list \<Rightarrow> (http_scope, page) io" where
  "shop_menu = nonce_page ''customer/menu.html''"

definition shop_cart :: "nat list \<Rightarrow> (http_scope, page) io" where
  "shop_cart = nonce_page ''customer/cart.html''"

definition telegram_staff_panel :: "nat list \<Rightarrow> (http_scope, page) io" where
  "telegram_staff_panel = nonce_page ''telegram_staff.html''"

text \<open>\<open>asset_version\<close>: the time of the last change, 0 for a file that cannot be read.\<close>

definition asset_version :: "(string \<Rightarrow> int option) \<Rightarrow> string \<Rightarrow> int" where
  "asset_version mtime rel_path = (case mtime rel_path of Some t \<Rightarrow> t | None \<Rightarrow> 0)"

section \<open>Lemmas\<close>

lemma b64_in: "i < 64 \<Longrightarrow> b64 i \<in> set B64_ALPHABET"
  by (rule nth_mem) (simp add: B64_ALPHABET_def)

lemma sextets:
  fixes a b c :: nat
  assumes "a < 256" "b < 256" "c < 256"
  shows "a div 4 < 64" "a mod 4 * 16 + b div 16 < 64" "b mod 16 * 4 + c div 64 < 64" "c mod 64 < 64"
proof -
  have q: "a div 4 < 64" "b div 16 < 16" "c div 64 < 4"
    using assms less_mult_imp_div_less[of a 64 4] less_mult_imp_div_less[of b 16 16]
      less_mult_imp_div_less[of c 4 64] by simp_all
  have r: "a mod 4 < 4" "b mod 16 < 16" by simp_all
  show "a div 4 < 64" by (rule q(1))
  show "a mod 4 * 16 + b div 16 < 64" using q(2) r(1) by linarith
  show "b mod 16 * 4 + c div 64 < 64" using q(3) r(2) by linarith
  show "c mod 64 < 64" by simp
qed

lemma urlsafe_b64encode_shape:
  assumes "\<forall>b \<in> set bs. b < 256"
  shows "\<exists>core k. urlsafe_b64encode bs = core @ replicate k (CHR ''='') \<and> set core \<subseteq> set B64_ALPHABET
    \<and> length core = (4 * length bs + 2) div 3"
  using assms
proof (induction bs rule: urlsafe_b64encode.induct)
  case 1
  then show ?case by (intro exI[of _ "[]"] exI[of _ 0]) simp
next
  case (2 a)
  then show ?case using sextets[of a 0 0] b64_in
    by (intro exI[of _ "[b64 (a div 4), b64 (a mod 4 * 16)]"] exI[of _ 2]) (simp add: numeral_2_eq_2)
next
  case (3 a b)
  then show ?case using sextets[of a b 0] b64_in
    by (intro exI[of _ "[b64 (a div 4), b64 (a mod 4 * 16 + b div 16), b64 (b mod 16 * 4)]"] exI[of _ 1]) simp
next
  case (4 a b c bs)
  obtain core k where k: "urlsafe_b64encode bs = core @ replicate k (CHR ''='')" "set core \<subseteq> set B64_ALPHABET"
    "length core = (4 * length bs + 2) div 3" using 4 by auto
  let ?core = "b64 (a div 4) # b64 (a mod 4 * 16 + b div 16) # b64 (b mod 16 * 4 + c div 64) # b64 (c mod 64) # core"
  have "set ?core \<subseteq> set B64_ALPHABET"
    using 4(2) sextets[of a b c] b64_in k(2) by simp
  moreover have "urlsafe_b64encode (a # b # c # bs) = ?core @ replicate k (CHR ''='')"
    using k(1) by simp
  moreover have "(4 * length (a # b # c # bs) + 2) div 3 = 4 + (4 * length bs + 2) div 3"
    by simp
  then have "length ?core = (4 * length (a # b # c # bs) + 2) div 3"
    using k(3) by simp
  ultimately show ?case by blast
qed

lemma make_nonce_core:
  assumes "\<forall>b \<in> set bs. b < 256"
  shows "set (make_nonce bs) \<subseteq> set B64_ALPHABET" "length (make_nonce bs) = (4 * length bs + 2) div 3"
proof -
  obtain core k where k: "urlsafe_b64encode bs = core @ replicate k (CHR ''='')" "set core \<subseteq> set B64_ALPHABET"
    "length core = (4 * length bs + 2) div 3"
    using urlsafe_b64encode_shape[OF assms] by blast
  have "CHR ''='' \<notin> set B64_ALPHABET" by (simp add: B64_ALPHABET_def)
  then have "dropWhile (\<lambda>c. c = CHR ''='') (rev core) = rev core"
    using k(2) by (cases "rev core") (auto simp: rev_eq_Cons_iff)
  then have "make_nonce bs = core"
    unfolding make_nonce_def k(1) by (simp add: dropWhile_append2 dropWhile_append)
  then show "set (make_nonce bs) \<subseteq> set B64_ALPHABET" "length (make_nonce bs) = (4 * length bs + 2) div 3"
    using k by simp_all
qed

text \<open>How a browser reads the policy: directives between semicolons, words between blanks.\<close>

fun split_char :: "char \<Rightarrow> string \<Rightarrow> string list" where
  "split_char c [] = [[]]"
| "split_char c (x # xs) = (if x = c then [] # split_char c xs
     else (case split_char c xs of [] \<Rightarrow> [[x]] | w # ws \<Rightarrow> (x # w) # ws))"

definition words_of :: "string \<Rightarrow> string list" where
  "words_of d = filter (\<lambda>w. w \<noteq> []) (split_char (CHR '' '') d)"

definition parse_policy :: "string \<Rightarrow> string list list" where
  "parse_policy h = map words_of (split_char (CHR '';'') h)"

lemma split_char_not_Nil: "split_char c s \<noteq> []"
  by (induction s) (auto split: list.splits)

lemma split_char_append:
  "c \<notin> set x \<Longrightarrow> split_char c (x @ c # r) = x # split_char c r" "c \<notin> set x \<Longrightarrow> split_char c x = [x]"
  by (induction x) auto

lemma words_of_joined:
  "\<forall>w \<in> set ws. CHR '' '' \<notin> set w \<and> w \<noteq> [] \<Longrightarrow> words_of (joined '' '' ws) = ws"
  by (induction "'' '' :: string" ws rule: joined.induct) (simp_all add: words_of_def split_char_append)

lemma parse_policy_joined:
  assumes "ds \<noteq> []" "\<forall>d \<in> set ds. CHR '';'' \<notin> set (joined '' '' d) \<and> words_of (joined '' '' d) = d"
  shows "parse_policy (joined ''; '' (map (joined '' '') ds)) = ds"
  using assms
proof (induction ds rule: induct_list012)
  case (3 d e ds)
  obtain w ws where r: "split_char (CHR '';'') (joined ''; '' (map (joined '' '') (e # ds))) = w # ws"
    by (metis split_char_not_Nil list.exhaust)
  have "map words_of (w # ws) = e # ds"
    using 3 r by (simp add: parse_policy_def)
  then show ?case
    using 3(4) r by (simp add: parse_policy_def split_char_append words_of_def)
qed (simp_all add: parse_policy_def split_char_append)

lemma set_joined: "set (joined sep ws) \<subseteq> set sep \<union> \<Union> (set ` set ws)"
  by (induction sep ws rule: joined.induct) auto

text \<open>Whatever the random bytes are, the policy has the eight directives, and the nonce is one
word of one of them.\<close>

lemma policy_words:
  assumes "\<forall>b \<in> set bs. b < 256"
  shows "parse_policy (build_csp_header (make_nonce bs)) = csp_directives (make_nonce bs)"
proof -
  let ?n = "make_nonce bs"
  have n: "CHR '' '' \<notin> set ?n" "CHR '';'' \<notin> set ?n"
    using make_nonce_core(1)[OF assms] by (auto simp: B64_ALPHABET_def)
  have "\<forall>d \<in> set (csp_directives ?n). \<forall>w \<in> set d. CHR '' '' \<notin> set w \<and> CHR '';'' \<notin> set w \<and> w \<noteq> []"
    using n by (simp add: csp_directives_def source_quoted_def YOOKASSA_ORIGIN_def MAX_BRIDGE_ORIGIN_def TELEGRAM_BRIDGE_ORIGIN_def)
  then have "\<forall>d \<in> set (csp_directives ?n). CHR '';'' \<notin> set (joined '' '' d) \<and> words_of (joined '' '' d) = d"
    using set_joined words_of_joined by fastforce
  then show ?thesis
    unfolding build_csp_header_def by (intro parse_policy_joined) (simp_all add: csp_directives_def)
qed

lemma get_set_header: "get_header k (set_header k' v hs) = (if k = k' then Some v else get_header k hs)"
proof (induction hs)
  case (Cons h hs)
  have "map_of (filter (\<lambda>(k'', _). k'' \<noteq> k') hs) k = (if k = k' then None else map_of hs k)"
    by (induction hs) auto
  then show ?case using Cons by (cases h) (auto simp: get_header_def)
qed (simp add: get_header_def)

lemma set_header_once: "length (filter (\<lambda>(k', _). k' = k) (set_header k v hs)) = 1"
proof (induction hs)
  case (Cons h hs)
  have "filter (\<lambda>(k', _). k' = k) (filter (\<lambda>(k', _). k' \<noteq> k) hs) = []" by (auto simp: filter_empty_conv)
  then show ?case using Cons by (cases h) auto
qed simp

lemma set_header_others:
  "k \<noteq> k' \<Longrightarrow> filter (\<lambda>(k'', _). k'' = k) (set_header k' v hs) = filter (\<lambda>(k'', _). k'' = k) hs"
proof (induction hs)
  case (Cons h hs)
  have "filter (\<lambda>(k'', _). k'' = k) (filter (\<lambda>(k'', _). k'' \<noteq> k') hs) = filter (\<lambda>(k'', _). k'' = k) hs"
    using Cons.prems by (induction hs) auto
  then show ?case using Cons by (cases h) auto
qed simp

text \<open>What a message of the application is when it leaves the site.\<close>

definition header_count :: "string \<Rightarrow> headers \<Rightarrow> nat" where
  "header_count k hs = length (filter (\<lambda>(k', _). k' = k) hs)"

definition guarded :: "string \<Rightarrow> asgi_message \<Rightarrow> asgi_message \<Rightarrow> bool" where
  "guarded n m m' \<longleftrightarrow> (case m of
       OtherMessage b \<Rightarrow> m' = OtherMessage b
     | ResponseStart status hs \<Rightarrow> (\<exists>hs'. m' = ResponseStart status hs'
         \<and> header_count ''x-robots-tag'' hs' = 1 \<and> get_header ''x-robots-tag'' hs' = Some ''noindex, nofollow''
         \<and> get_header ''content-security-policy'' hs' =
             (if html hs then Some (build_csp_header n) else get_header ''content-security-policy'' hs)
         \<and> (html hs \<longrightarrow> header_count ''content-security-policy'' hs' = 1)
         \<and> (\<forall>k. k \<notin> {''x-robots-tag'', ''content-security-policy''} \<longrightarrow> get_header k hs' = get_header k hs)))"

lemma header_count_set: "header_count k (set_header k' v hs) = (if k = k' then 1 else header_count k hs)"
  by (simp add: header_count_def set_header_once set_header_others)

lemma guarded_message: "guarded n m (with_csp n (no_index m))"
  by (cases m) (auto simp: guarded_def with_csp_def no_index_def html_def get_set_header header_count_set)

text \<open>C40. Every response an application starts to an HTTP request is marked for search
engines exactly once, even when the application raises afterwards; an HTML response carries
exactly one policy, whose nonce is the one every page of the request gets, again
and again within the request. Other headers, other messages and what the application
raises pass as they are, and so does everything of another protocol.\<close>

theorem page_and_header_share_nonce:
  assumes "sc_state_nonce scope = None" "0 < length bs" "\<forall>b \<in> set bs. b < 256"
  shows "if sc_type scope = ''http''
    then let n = make_nonce bs; scope' = scope\<lparr>sc_csp_nonce := Some n\<rparr>; st = scope'\<lparr>sc_state_nonce := Some n\<rparr> in
      list_all2 (guarded n) (fst (app scope')) (fst (site bs app scope)) \<and> snd (site bs app scope) = snd (app scope')
      \<and> csp_nonce other scope' = (Inr n, st) \<and> csp_nonce another st = (Inr n, st)
      \<and> parse_policy (build_csp_header n) = csp_directives n
    else site bs app scope = app scope"
proof (cases "sc_type scope = ''http''")
  case True
  define n where "n = make_nonce bs"
  let ?scope = "scope\<lparr>sc_csp_nonce := Some n\<rparr>"
  have ne: "n \<noteq> []"
    using make_nonce_core(2)[OF assms(3)] assms(2) unfolding n_def by (cases bs) auto
  have out: "site bs app scope = apfst (map (\<lambda>m. with_csp n (no_index m))) (app ?scope)"
    using True by (cases "app ?scope") (simp add: site_def CSPMiddleware_def NoIndexMiddleware_def Let_def n_def[symmetric] o_def)
  have "list_all2 (guarded n) (fst (app ?scope)) (fst (site bs app scope))"
    by (simp add: out list_all2_map2 guarded_message list.rel_refl)
  moreover have "parse_policy (build_csp_header n) = csp_directives n"
    unfolding n_def by (rule policy_words[OF assms(3)])
  ultimately show ?thesis
    using True assms(1) ne by (simp add: Let_def out csp_nonce_def n_def[symmetric])
qed (simp add: site_def CSPMiddleware_def NoIndexMiddleware_def)

text \<open>A page that is sent before its application fails: it leaves marked, and so does the failure.\<close>

definition cart_app :: asgi_app where
  "cart_app scope = (case shop_cart [] scope of
       (Inr p, _) \<Rightarrow> ([ResponseStart 200 [(''content-type'', ''text/html; charset=utf-8'')],
                      OtherMessage (case pg_csp_nonce p of Some n \<Rightarrow> n | None \<Rightarrow> [])], Some (ValueError ''template''))
     | (Inl e, _) \<Rightarrow> ([], Some e))"

theorem page_and_header_share_nonce_witness:
  "\<exists>hs. site [255, 255, 255] cart_app \<lparr>sc_type = ''http'', sc_csp_nonce = None, sc_state_nonce = None\<rparr>
       = ([ResponseStart 200 hs, OtherMessage ''____''], Some (ValueError ''template''))
     \<and> header_count ''x-robots-tag'' hs = 1
     \<and> get_header ''content-security-policy'' hs = Some (build_csp_header ''____'')"
proof -
  let ?scope = "\<lparr>sc_type = ''http'', sc_csp_nonce = None, sc_state_nonce = None\<rparr>"
  let ?hs = "[(''content-type'', ''text/html; charset=utf-8''), (''x-robots-tag'', ''noindex, nofollow''),
     (''content-security-policy'', build_csp_header ''____'')]"
  have run: "site [255, 255, 255] cart_app ?scope = ([ResponseStart 200 ?hs, OtherMessage ''____''], Some (ValueError ''template''))"
    by code_simp
  have app: "cart_app \<lparr>sc_type = ''http'', sc_csp_nonce = Some ''____'', sc_state_nonce = None\<rparr>
      = ([ResponseStart 200 [(''content-type'', ''text/html; charset=utf-8'')], OtherMessage ''____''], Some (ValueError ''template''))"
    and n: "make_nonce [255, 255, 255] = ''____''"
    by code_simp+
  have h: "html [(''content-type'', ''text/html; charset=utf-8'')]" by code_simp
  have "sc_state_nonce ?scope = None" "0 < length [255, 255, 255 :: nat]" "\<forall>b \<in> set [255, 255, 255 :: nat]. b < 256"
    by simp_all
  from page_and_header_share_nonce[OF this, where app = cart_app and other = "[]" and another = "[]"] have "guarded ''____''
      (ResponseStart 200 [(''content-type'', ''text/html; charset=utf-8'')]) (ResponseStart 200 ?hs)"
    by (simp add: run app n Let_def)
  then show ?thesis using run h by (simp add: guarded_def)
qed

end
