(* ===== verification/Scripts.thy ===== *)
theory Scripts
  imports Zone_Tools Menu_Tools Csv_Text Samples
begin

text \<open>
  The maintenance scripts (src/scripts): the import of the delivery zones, the
  seed of the categories, the preparation of the first product file, and the
  clean-up of skus that were minted twice. The rows of a data file are arguments;
  what a script prints is left out.
\<close>

section \<open>Delivery zones (import_delivery_zones.py)\<close>

record zone_entry =
  ze_id :: int
  ze_name :: string
  ze_delivery_time_minutes :: int
  ze_is_active :: "bool option"

definition entry_zone :: "zone_entry \<Rightarrow> uuid \<Rightarrow> zone_row" where
  "entry_zone e i = \<lparr>z_id = i, z_external_id = Some (int_str (ze_id e)), z_name = ze_name e,
     z_delivery_time_minutes = ze_delivery_time_minutes e,
     z_is_active = (case ze_is_active e of Some b \<Rightarrow> b | None \<Rightarrow> True), z_delivery_fee_rub = 99\<rparr>"

text \<open>INSERT ... ON CONFLICT DO NOTHING: a row that a unique index refuses is skipped.\<close>

definition import_zone :: "platform \<Rightarrow> zone_entry \<Rightarrow> unit \<Rightarrow> (world, unit) io" where
  "import_zone pf e _ =
     bind_io (check_varchar 255 (int_str (ze_id e))) (\<lambda>_.
     bind_io (check_varchar 255 (ze_name e)) (\<lambda>_.
     bind_io (check_int4 (ze_delivery_time_minutes e)) (\<lambda>_.
     bind_io new_uuid (\<lambda>i.
     bind_io (select_db delivery_zones) (\<lambda>zs.
       let zs' = zs @ [entry_zone e i]
       in if zones_wf pf zs' then write_zones pf zs' else ret ())))))"

definition import_zones :: "platform \<Rightarrow> zone_entry list \<Rightarrow> (world, nat) io" where
  "import_zones pf zones =
     bind_io (with_session (bind_io (fold_io (import_zone pf) zones ()) (\<lambda>_. commit))) (\<lambda>_.
     bind_io (with_session (select_db (\<lambda>d. length (rows_where z_is_active (delivery_zones d))))) (\<lambda>active_count.
       if active_count = 3 then ret active_count else raise (AssertionError ''Expected 3 active zones'')))"

section \<open>Categories (seed_categories.py)\<close>

record category_entry =
  ce_id :: int
  ce_name :: string
  ce_parent :: "string option"
  ce_menu_period :: string
  ce_sort :: int
  ce_is_active :: bool

definition entry_category :: "category_entry \<Rightarrow> uuid \<Rightarrow> category_row" where
  "entry_category c i = \<lparr>cat_id = i, cat_external_id = Some (int_str (ce_id c)), cat_name = ce_name c, cat_parent_id = None,
     cat_time_period = ce_menu_period c, cat_fulfillment_scope = ce_menu_period c, cat_sort = ce_sort c,
     cat_is_active = ce_is_active c\<rparr>"

text \<open>The table has no unique index but its key, so every run inserts every row.\<close>

definition seed_category :: "category_entry \<Rightarrow> (string \<rightharpoonup> uuid) \<Rightarrow> (world, string \<rightharpoonup> uuid) io" where
  "seed_category c name_to_id =
     bind_io (check_varchar 255 (int_str (ce_id c))) (\<lambda>_.
     bind_io (check_varchar 255 (ce_name c)) (\<lambda>_.
     bind_io (check_int4 (ce_sort c)) (\<lambda>_.
     bind_io new_uuid (\<lambda>i.
     bind_io (select_db categories) (\<lambda>cs.
       let cs' = cs @ [entry_category c i]
       in if \<not> key_unique cat_id cs' then ret name_to_id
          else bind_io (write_categories cs') (\<lambda>_. ret (name_to_id(ce_name c \<mapsto> i))))))))"

text \<open>The UPDATE names the row, so it reaches every category of that name.\<close>

definition seed_parent :: "(string \<rightharpoonup> uuid) \<Rightarrow> category_entry \<Rightarrow> unit \<Rightarrow> (world, unit) io" where
  "seed_parent name_to_id c _ = (case ce_parent c of
       None \<Rightarrow> ret ()
     | Some parent_name \<Rightarrow>
         if parent_name = [] then ret ()
         else (case name_to_id parent_name of
             None \<Rightarrow> ret ()
           | Some parent_id \<Rightarrow> update_db (\<lambda>d. d\<lparr>categories :=
               update_where (\<lambda>r. cat_name r = ce_name c) (\<lambda>r. r\<lparr>cat_parent_id := Some parent_id\<rparr>) (categories d)\<rparr>)))"

definition seed :: "category_entry list \<Rightarrow> (world, nat) io" where
  "seed cats =
     bind_io (with_session (bind_io (fold_io seed_category cats Map.empty) (\<lambda>ids. bind_io commit (\<lambda>_. ret ids)))) (\<lambda>ids.
     bind_io (with_session (bind_io (fold_io (seed_parent ids) cats ()) (\<lambda>_. commit))) (\<lambda>_.
     bind_io (with_session (select_db (\<lambda>d. length (categories d)))) (\<lambda>n.
       if n = 24 then ret n else raise (AssertionError ''Expected 24 categories''))))"

section \<open>The first product file (prepare_products_csv.py)\<close>

text \<open>\<open>{str(external_id): name}\<close>: the last row of an id wins.\<close>

definition load_category_id_to_name :: "database \<Rightarrow> string \<rightharpoonup> string" where
  "load_category_id_to_name d = map_of (rev (map (\<lambda>r.
     (case cat_external_id r of Some i \<Rightarrow> i | None \<Rightarrow> ''None'', cat_name r)) (categories d)))"

definition resolve_category_id :: "platform \<Rightarrow> (string \<times> json) list \<Rightarrow> (string \<rightharpoonup> string) \<Rightarrow> string" where
  "resolve_category_id pf row id_to_name = (let raw = json_get ''category_id'' row in
     if raw = JNull \<or> raw = JStr [] then []
     else case id_to_name (py_str (repr_of pf) raw) of Some n \<Rightarrow> n | None \<Rightarrow> [])"

text \<open>The csv writer writes None as an empty cell and anything else as its text.\<close>

definition cell_text :: "platform \<Rightarrow> json \<Rightarrow> string" where
  "cell_text pf v = (case v of JNull \<Rightarrow> [] | _ \<Rightarrow> py_str (repr_of pf) v)"

definition product_cells :: "platform \<Rightarrow> (string \<rightharpoonup> string) \<Rightarrow> (string \<times> json) list \<Rightarrow> string list" where
  "product_cells pf id_to_name row =
     [cell_text pf (case map_of row ''name'' of Some v \<Rightarrow> v | None \<Rightarrow> JStr []),
      resolve_category_id pf row id_to_name, [], cell_text pf (json_get ''price_rub'' row), []]"

definition prepare :: "platform \<Rightarrow> (string \<times> json) list list \<Rightarrow> (world, string) io" where
  "prepare pf prods = with_session (select_db (\<lambda>d. concat (map writerow
     ([''Name'', ''Category'', ''Description'', ''Price Rub'', ''Photo Url'']
      # map (product_cells pf (load_category_id_to_name d)) prods))))"

section \<open>Duplicate skus (cleanup_duplicate_item_skus.py)\<close>

record candidate =
  cd_product_id :: uuid
  cd_item_sku :: string
  cd_legacy_sku :: string

text \<open>trim() of the database takes blanks only.\<close>

definition sql_trim :: "string \<Rightarrow> string" where
  "sql_trim s = rev (dropWhile (\<lambda>c. c = CHR '' '') (rev (dropWhile (\<lambda>c. c = CHR '' '') s)))"

definition find_candidates :: "platform \<Rightarrow> database \<Rightarrow> candidate list" where
  "find_candidates pf d = concat (map (\<lambda>p. case p_sku p of
       None \<Rightarrow> []
     | Some sku \<Rightarrow>
         if take 5 sku \<noteq> ''ITEM-'' then []
         else map (\<lambda>i. \<lparr>cd_product_id = p_id p, cd_item_sku = sku, cd_legacy_sku = inv_sku i\<rparr>)
           (filter (\<lambda>i. db_lower pf (sql_trim (inv_name i)) = db_lower pf (sql_trim (p_name p)) \<and> inv_sku i \<noteq> sku
              \<and> (\<forall>p2 \<in> set (products d). p_sku p2 \<noteq> Some (inv_sku i))) (inventory d))) (products d))"

definition relink :: "candidate \<Rightarrow> unit \<Rightarrow> (world, unit) io" where
  "relink c _ =
     bind_io (select_db products) (\<lambda>ps.
     bind_io (write_products (update_where (\<lambda>p. p_id p = cd_product_id c) (\<lambda>p. p\<lparr>p_sku := Some (cd_legacy_sku c)\<rparr>) ps)) (\<lambda>_.
     update_db (\<lambda>d. d\<lparr>inventory := delete_where (\<lambda>i. inv_sku i = cd_item_sku c) (inventory d)\<rparr>)))"

definition apply_cleanup :: "candidate list \<Rightarrow> (world, unit) io" where
  "apply_cleanup cs = bind_io (fold_io relink cs ()) (\<lambda>_. commit)"

text \<open>The number of candidates found; nothing is written without \<open>--apply\<close>.\<close>

definition run_cleanup :: "platform \<Rightarrow> bool \<Rightarrow> (world, nat) io" where
  "run_cleanup pf apply_it = with_session (
     bind_io (select_db (find_candidates pf)) (\<lambda>cs.
       if cs = [] \<or> \<not> apply_it then ret (length cs)
       else bind_io (apply_cleanup cs) (\<lambda>_. ret (length cs))))"

section \<open>What the scripts leave behind\<close>

lemma fold_io_append: "fold_io f (xs @ ys) s = bind_io (fold_io f xs s) (fold_io f ys)"
proof (induction xs arbitrary: s)
  case (Cons x xs)
  show ?case by (rule ext) (auto simp: Cons bind_io_apply split: prod.splits sum.splits)
qed (simp add: bind_io_def ret_def)

text \<open>The prepared file reads back as the header and one line for each product.\<close>

theorem prepared_file_reads_back:
  assumes "prepare pf rows w = (Inr text, w')"
    and "\<forall>r \<in> set rows. \<forall>cell \<in> set (product_cells pf (load_category_id_to_name (committed w)) r). int (length cell) \<le> FIELD_LIMIT"
  shows "csv_reader text = Inr ([''Name'', ''Category'', ''Description'', ''Price Rub'', ''Photo Url'']
    # map (product_cells pf (load_category_id_to_name (committed w))) rows)"
proof -
  have "text = concat (map writerow ([''Name'', ''Category'', ''Description'', ''Price Rub'', ''Photo Url'']
      # map (product_cells pf (load_category_id_to_name (committed w))) rows))"
    using assms(1) by (auto simp: prepare_def with_session_apply)
  then show ?thesis
    using assms(2) by (auto simp: FIELD_LIMIT_def intro!: csv_round_trip simp del: concat.simps list.map)
qed

text \<open>Identifiers that the database will give are not in use yet.\<close>

definition fresh_ids :: "world \<Rightarrow> uuid list \<Rightarrow> bool" where
  "fresh_ids w used \<longleftrightarrow> inj (uuids w) \<and> (\<forall>n \<ge> uuid_next w. uuids w n \<notin> set used)"

lemma fresh_ids_next:
  assumes "fresh_ids w used" "uuids w' = uuids w" "uuid_next w' = Suc (uuid_next w)"
    "set used' \<subseteq> insert (uuids w (uuid_next w)) (set used)"
  shows "uuids w (uuid_next w) \<notin> set used" "fresh_ids w' used'"
proof -
  show "uuids w (uuid_next w) \<notin> set used" using assms(1) by (simp add: fresh_ids_def)
  have "uuids w n \<noteq> uuids w (uuid_next w)" if "Suc (uuid_next w) \<le> n" for n
    using assms(1) that by (auto simp: fresh_ids_def dest: injD)
  then show "fresh_ids w' used'"
    using assms by (auto simp: fresh_ids_def)
qed

lemma seed_category_run:
  assumes "seed_category c ids w = (Inr ids', w')"
  shows "uuids w' = uuids w \<and> uuid_next w' = Suc (uuid_next w)
    \<and> categories (db w') = (let cs = categories (db w) @ [entry_category c (uuids w (uuid_next w))]
        in if key_unique cat_id cs then cs else categories (db w))"
  using assms
  by (auto simp: seed_category_def bind_io_Inr_iff check_varchar_def check_int4_def Let_def write_categories_def
      split: if_splits)

definition period_ok :: "category_entry \<Rightarrow> bool" where
  "period_ok c \<longleftrightarrow> ce_menu_period c \<in> set TIME_PERIODS \<and> ce_menu_period c \<in> set FULFILLMENT_SCOPES"

definition seedable :: "category_entry \<Rightarrow> bool" where
  "seedable c \<longleftrightarrow> length (int_str (ce_id c)) \<le> 255 \<and> length (ce_name c) \<le> 255 \<and> int4 (ce_sort c)
     \<and> period_ok c"

lemma entry_checks [simp]: "category_checks (entry_category c i) = period_ok c" "cat_id (entry_category c i) = i"
  by (simp_all add: category_checks_def entry_category_def period_ok_def)

text \<open>The table a seeding session works on.\<close>

definition seed_ready :: "world \<Rightarrow> bool" where
  "seed_ready w \<longleftrightarrow> fresh_ids w (map cat_id (categories (db w))) \<and> key_unique cat_id (categories (db w))"

lemma seed_category_iff:
  assumes "seed_ready w"
  shows "(\<exists>ids' w'. seed_category c ids w = (Inr ids', w')) \<longleftrightarrow> seedable c \<and> list_all category_checks (categories (db w))"
proof -
  have "key_unique cat_id (categories (db w) @ [entry_category c (uuids w (uuid_next w))])"
    using assms by (auto simp: seed_ready_def fresh_ids_def key_unique_append)
  then show ?thesis
    by (auto simp: seed_category_def seedable_def bind_io_apply bind_io_Inr_iff check_varchar_def check_int4_def Let_def
        write_categories_def new_uuid_apply split: if_splits)
qed

lemma seed_category_step:
  assumes "seed_category c ids w = (Inr ids', w')" "seed_ready w"
  shows "categories (db w') = categories (db w) @ [entry_category c (uuids w (uuid_next w))]" "seed_ready w'"
    "seedable c" "list_all category_checks (categories (db w'))"
proof -
  let ?cs = "categories (db w) @ [entry_category c (uuids w (uuid_next w))]"
  have "key_unique cat_id ?cs"
    using assms(2) by (auto simp: seed_ready_def fresh_ids_def key_unique_append)
  then have w': "categories (db w') = ?cs" "key_unique cat_id (categories (db w'))" "uuids w' = uuids w"
    "uuid_next w' = Suc (uuid_next w)"
    using seed_category_run[OF assms(1)] by (simp_all add: Let_def)
  then show "categories (db w') = ?cs" by simp
  have "fresh_ids w' (map cat_id (categories (db w')))"
    by (rule fresh_ids_next(2)[OF _ w'(3,4)]) (use assms(2) w'(1) in \<open>auto simp: seed_ready_def\<close>)
  then show "seed_ready w'" using w'(2) by (simp add: seed_ready_def)
  have "seedable c \<and> list_all category_checks (categories (db w))"
    using seed_category_iff[OF assms(2)] assms(1) by blast
  then show "seedable c" "list_all category_checks (categories (db w'))"
    using w'(1) by (simp_all add: seedable_def)
qed

lemma seed_categories_run:
  assumes "fold_io seed_category cats ids w = (Inr ids', w')" "seed_ready w"
  shows "length (categories (db w')) = length (categories (db w)) + length cats \<and> seed_ready w'
    \<and> list_all seedable cats \<and> (cats \<noteq> [] \<longrightarrow> list_all category_checks (categories (db w')))"
  using assms
proof (induction cats arbitrary: ids w)
  case (Cons c cats)
  obtain ids1 w1 where run: "seed_category c ids w = (Inr ids1, w1)" "fold_io seed_category cats ids1 w1 = (Inr ids', w')"
    using Cons.prems(1) by (auto simp: bind_io_Inr_iff)
  note one = seed_category_step[OF run(1) Cons.prems(2)]
  from Cons.IH[OF run(2) one(2)] show ?case
    using one run(2) by (cases cats) auto
qed simp

lemma seed_categories_succeed:
  assumes "list_all seedable cats" "list_all category_checks (categories (db w))" "seed_ready w"
  shows "\<exists>ids' w'. fold_io seed_category cats ids w = (Inr ids', w')"
  using assms
proof (induction cats arbitrary: ids w)
  case (Cons c cats)
  obtain ids1 w1 where one: "seed_category c ids w = (Inr ids1, w1)"
    using seed_category_iff[OF Cons.prems(3), of c ids] Cons.prems(1,2) by auto
  from Cons.IH[OF _ seed_category_step(4,2)[OF one Cons.prems(3)]] show ?case
    using one Cons.prems(1) by simp
qed simp

definition orphans :: "category_row list \<Rightarrow> category_row list" where
  "orphans cs = map (\<lambda>r. r\<lparr>cat_parent_id := None\<rparr>) cs"

lemma orphans_columns [simp]:
  "length (orphans cs) = length cs" "map cat_id (orphans cs) = map cat_id cs"
  "list_all category_checks (orphans cs) = list_all category_checks cs"
  by (simp_all add: orphans_def comp_def list_all_iff category_checks_def)

lemma same_orphans:
  assumes "orphans cs = orphans cs'"
  shows "length cs = length cs'" "map cat_id cs = map cat_id cs'" "list_all category_checks cs = list_all category_checks cs'"
  using assms orphans_columns by metis+

text \<open>The second pass links rows, it neither adds nor drops one.\<close>

lemma seed_parents_run:
  "\<exists>w'. fold_io (seed_parent ids) cats () w = (Inr (), w') \<and> uuids w' = uuids w \<and> uuid_next w' = uuid_next w
     \<and> orphans (categories (db w')) = orphans (categories (db w))"
proof (induction cats arbitrary: w)
  case (Cons c cats)
  have "\<exists>w1. seed_parent ids c () w = (Inr (), w1) \<and> uuids w1 = uuids w \<and> uuid_next w1 = uuid_next w
     \<and> orphans (categories (db w1)) = orphans (categories (db w))"
    by (auto simp: seed_parent_def update_where_def orphans_def split: option.splits)
  then show ?case using Cons.IH by (fastforce simp: bind_io_apply)
qed simp

lemma seed_effect:
  assumes "seed_ready (w\<lparr>db := committed w\<rparr>)" "cats \<noteq> []"
    "fold_io seed_category cats Map.empty (w\<lparr>db := committed w\<rparr>) = (Inr ids, w1)"
  shows "\<exists>w'. seed cats w = (if length (categories (committed w')) = 24 then Inr 24
        else Inl (AssertionError ''Expected 24 categories''), w')
    \<and> length (categories (committed w')) = length (categories (committed w)) + length cats
    \<and> seed_ready w' \<and> idle w' \<and> list_all seedable cats \<and> list_all category_checks (categories (committed w'))"
proof -
  let ?w1 = "w1\<lparr>committed := db w1\<rparr>"
  obtain w2 where w2: "fold_io (seed_parent ids) cats () ?w1 = (Inr (), w2)" "uuids w2 = uuids w1"
    "uuid_next w2 = uuid_next w1" "orphans (categories (db w2)) = orphans (categories (db w1))"
    using seed_parents_run[of ids cats ?w1] by auto
  note same = same_orphans[OF w2(4)]
  note one = seed_categories_run[OF assms(3,1)]
  let ?w' = "w2\<lparr>committed := db w2\<rparr>"
  have "seed cats w = (if length (categories (db w2)) = 24 then Inr 24
      else Inl (AssertionError ''Expected 24 categories''), ?w')"
    using assms(3) w2(1) by (simp add: seed_def with_session_apply bind_io_apply)
  moreover have "seed_ready ?w'"
    using one same(2) w2(2,3) by (simp add: seed_ready_def fresh_ids_def key_unique_def)
  ultimately show ?thesis
    using one same(1,3) assms(2) by (intro exI[of _ ?w']) (simp add: idle_def)
qed

lemma import_zone_run:
  assumes "import_zone pf e () w = (Inr (), w')"
  shows "uuids w' = uuids w \<and> uuid_next w' = Suc (uuid_next w)
    \<and> db w' = (db w)\<lparr>delivery_zones := (let zs = delivery_zones (db w) @ [entry_zone e (uuids w (uuid_next w))]
        in if zones_wf pf zs then zs else delivery_zones (db w))\<rparr>"
  using assms
  by (auto simp: import_zone_def bind_io_Inr_iff check_varchar_def check_int4_def Let_def write_zones_def zones_wf_def
      split: if_splits)

definition name_taken :: "platform \<Rightarrow> zone_entry \<Rightarrow> zone_row list \<Rightarrow> bool" where
  "name_taken pf e zs \<longleftrightarrow> (\<exists>r \<in> set zs. z_is_active r \<and> db_lower pf (z_name r) = db_lower pf (ze_name e))"

definition for_sale :: "zone_entry \<Rightarrow> bool" where
  "for_sale e \<longleftrightarrow> ze_is_active e \<noteq> Some False"

lemma import_taken:
  assumes "name_taken pf e (delivery_zones (db w))" "for_sale e"
    "import_zone pf e () w0 = (Inr (), w1)"
  shows "import_zone pf e () w = (Inr (), w\<lparr>uuid_next := Suc (uuid_next w)\<rparr>)"
proof -
  have "\<not> index_unique (active_name pf) (delivery_zones (db w) @ [entry_zone e i])" for i
    using assms(1,2)
    by (auto simp: index_unique_append name_taken_def active_name_def entry_zone_def for_sale_def split: option.splits)
  then have "\<not> zones_wf pf (delivery_zones (db w) @ [entry_zone e i])" for i
    by (simp add: zones_wf_def)
  moreover have "length (int_str (ze_id e)) \<le> 255" "length (ze_name e) \<le> 255" "int4 (ze_delivery_time_minutes e)"
    using assms(3) by (auto simp: import_zone_def bind_io_Inr_iff check_varchar_def check_int4_def split: if_splits)
  ultimately show ?thesis
    by (simp add: import_zone_def bind_io_apply check_varchar_def check_int4_def new_uuid_apply Let_def)
qed

lemma import_all_taken:
  assumes "\<forall>e \<in> set zones. name_taken pf e (delivery_zones (db w)) \<and> for_sale e \<and> (\<exists>w0 w1. import_zone pf e () w0 = (Inr (), w1))"
  shows "\<exists>k. fold_io (import_zone pf) zones () w = (Inr (), w\<lparr>uuid_next := k\<rparr>)"
  using assms
proof (induction zones arbitrary: w)
  case Nil
  show ?case by (intro exI[of _ "uuid_next w"]) simp
next
  case (Cons e zones)
  then have "import_zone pf e () w = (Inr (), w\<lparr>uuid_next := Suc (uuid_next w)\<rparr>)"
    using import_taken by fastforce
  then show ?case using Cons.IH[of "w\<lparr>uuid_next := Suc (uuid_next w)\<rparr>"] Cons.prems by simp
qed

lemma import_zones_run:
  assumes "fold_io (import_zone pf) zones () w = (Inr (), w')" "fresh_ids w (map z_id (delivery_zones (db w)))"
    "zones_wf pf (delivery_zones (db w))" "\<forall>e \<in> set zones. for_sale e"
  shows "(\<forall>e \<in> set zones. name_taken pf e (delivery_zones (db w')) \<and> (\<exists>w0 w1. import_zone pf e () w0 = (Inr (), w1)))
    \<and> set (delivery_zones (db w)) \<subseteq> set (delivery_zones (db w'))"
  using assms
proof (induction zones arbitrary: w)
  case (Cons e zones)
  obtain w1 where run: "import_zone pf e () w = (Inr (), w1)" "fold_io (import_zone pf) zones () w1 = (Inr (), w')"
    using Cons.prems(1) by (auto simp: bind_io_Inr_iff)
  let ?zs = "delivery_zones (db w)" and ?r = "entry_zone e (uuids w (uuid_next w))"
  have w1: "uuids w1 = uuids w" "uuid_next w1 = Suc (uuid_next w)"
    "delivery_zones (db w1) = (if zones_wf pf (?zs @ [?r]) then ?zs @ [?r] else ?zs)"
    using import_zone_run[OF run(1)] by (simp_all add: Let_def)
  have new: "uuids w (uuid_next w) \<notin> set (map z_id ?zs)" using Cons.prems(2) by (simp add: fresh_ids_def)
  have act: "z_is_active ?r" "z_name ?r = ze_name e"
    using Cons.prems(4) by (auto simp: entry_zone_def for_sale_def split: option.splits)
  have "name_taken pf e (delivery_zones (db w1))"
  proof (cases "zones_wf pf (?zs @ [?r])")
    case True
    then show ?thesis using w1(3) act by (auto simp: name_taken_def)
  next
    case False
    have "key_unique z_id (?zs @ [?r])"
      using Cons.prems(3) new by (auto simp: zones_wf_def key_unique_append entry_zone_def)
    then obtain q where "q \<in> set ?zs" "active_name pf q = active_name pf ?r"
      using False Cons.prems(3) act by (auto simp: zones_wf_def index_unique_append)
    then show ?thesis using w1(3) False act by (auto simp: name_taken_def active_name_def split: if_splits)
  qed
  moreover have "fresh_ids w1 (map z_id (delivery_zones (db w1)))"
    by (rule fresh_ids_next(2)[OF Cons.prems(2) w1(1,2)]) (auto simp: w1(3) entry_zone_def)
  moreover have "zones_wf pf (delivery_zones (db w1))" using w1(3) Cons.prems(3) by simp
  moreover have "set ?zs \<subseteq> set (delivery_zones (db w1))" using w1(3) by auto
  ultimately show ?case
    using Cons.IH[OF run(2)] Cons.prems(4) run(1) by (fastforce simp: name_taken_def)
qed simp

lemma import_zone_keeps: "import_zone pf e () w = (Inr (), w') \<Longrightarrow> committed w' = committed w"
  by (auto simp: import_zone_def bind_io_Inr_iff check_varchar_def check_int4_def Let_def write_zones_def split: if_splits)

text \<open>The zone file can be imported again: every zone is there under its name, so the second run
skips all of them and ends as the first did.\<close>

theorem import_zones_repeats:
  assumes "fresh_ids w (map z_id (delivery_zones (committed w)))" "zones_wf pf (delivery_zones (committed w))"
    and "\<forall>e \<in> set zones. for_sale e" and "import_zones pf zones w = (Inr n, w1)"
  shows "\<exists>w2. import_zones pf zones w1 = (Inr n, w2) \<and> committed w2 = committed w1"
proof -
  let ?w = "w\<lparr>db := committed w\<rparr>"
  obtain wa where a: "fold_io (import_zone pf) zones () ?w = (Inr (), wa)"
    and w1: "w1 = wa\<lparr>committed := db wa\<rparr>" "n = 3" "length (rows_where z_is_active (delivery_zones (db wa))) = 3"
    using assms(4)
    by (auto simp: import_zones_def with_session_apply bind_io_Inr_iff split: if_splits prod.splits sum.splits)
  have "fresh_ids ?w (map z_id (delivery_zones (db ?w)))" "zones_wf pf (delivery_zones (db ?w))"
    using assms(1,2) by (simp_all add: fresh_ids_def)
  from import_zones_run[OF a this assms(3)]
  have "\<forall>e \<in> set zones. name_taken pf e (delivery_zones (db w1)) \<and> for_sale e \<and> (\<exists>w0 w1. import_zone pf e () w0 = (Inr (), w1))"
    using w1(1) assms(3) by auto
  from import_all_taken[OF this] obtain k where k: "fold_io (import_zone pf) zones () w1 = (Inr (), w1\<lparr>uuid_next := k\<rparr>)"
    by blast
  have "w1\<lparr>db := committed w1\<rparr> = w1" using w1(1) by simp
  then show ?thesis
    using k w1 by (simp add: import_zones_def with_session_apply bind_io_apply)
qed

text \<open>The category seed can not: a second run inserts every category again.\<close>

theorem seed_cannot_be_repeated:
  assumes "seed_ready (w\<lparr>db := committed w\<rparr>)" and "cats \<noteq> []" "seed cats w = (Inr n, w1)"
  shows "\<exists>w2. seed cats w1 = (Inl (AssertionError ''Expected 24 categories''), w2)
    \<and> length (categories (committed w2)) = 24 + length cats"
proof -
  obtain ids wa where "fold_io seed_category cats Map.empty (w\<lparr>db := committed w\<rparr>) = (Inr ids, wa)"
    using assms(3) by (auto simp: seed_def bind_io_apply with_session_apply split: prod.splits sum.splits)
  from seed_effect[OF assms(1,2) this] assms(3)
  have one: "length (categories (committed w1)) = 24" "seed_ready w1" "idle w1" "list_all seedable cats"
    "list_all category_checks (categories (committed w1))"
    by (auto split: if_splits)
  then have w1: "w1\<lparr>db := committed w1\<rparr> = w1" by (simp add: idle_def)
  obtain ids' wb where "fold_io seed_category cats Map.empty (w1\<lparr>db := committed w1\<rparr>) = (Inr ids', wb)"
    using seed_categories_succeed[OF one(4) _ one(2), of Map.empty] one(3,5) w1 by (auto simp: idle_def)
  from seed_effect[OF _ assms(2) this] one(1,2) w1 show ?thesis
    using assms(2) by auto
qed

text \<open>The clean-up writes two columns: skus of products, and rows of skus it replaces.\<close>

lemma relink_run:
  assumes "fold_io relink cs () w = (Inr (), w')"
  shows "\<exists>ps. db w' = (db w)\<lparr>products := ps, inventory := filter (\<lambda>i. inv_sku i \<notin> cd_item_sku ` set cs) (inventory (db w))\<rparr>
    \<and> map (\<lambda>p. p\<lparr>p_sku := None\<rparr>) ps = map (\<lambda>p. p\<lparr>p_sku := None\<rparr>) (products (db w))
    \<and> (cs \<noteq> [] \<longrightarrow> index_unique p_sku ps)"
  using assms
proof (induction cs arbitrary: w)
  case (Cons c cs)
  obtain w1 where run: "relink c () w = (Inr (), w1)" "fold_io relink cs () w1 = (Inr (), w')"
    using Cons.prems by (auto simp: bind_io_Inr_iff)
  let ?ps = "update_where (\<lambda>p. p_id p = cd_product_id c) (\<lambda>p. p\<lparr>p_sku := Some (cd_legacy_sku c)\<rparr>) (products (db w))"
  have w1: "db w1 = (db w)\<lparr>products := ?ps, inventory := filter (\<lambda>i. inv_sku i \<noteq> cd_item_sku c) (inventory (db w))\<rparr>"
    and idx: "index_unique p_sku ?ps"
    using run(1) by (auto simp: relink_def bind_io_Inr_iff write_products_def delete_where_def split: if_splits)
  have same: "map (\<lambda>p. p\<lparr>p_sku := None\<rparr>) ?ps = map (\<lambda>p. p\<lparr>p_sku := None\<rparr>) (products (db w))"
    by (simp add: update_where_def)
  obtain ps where ps: "db w' = (db w1)\<lparr>products := ps,
      inventory := filter (\<lambda>i. inv_sku i \<notin> cd_item_sku ` set cs) (inventory (db w1))\<rparr>"
    "map (\<lambda>p. p\<lparr>p_sku := None\<rparr>) ps = map (\<lambda>p. p\<lparr>p_sku := None\<rparr>) (products (db w1))" "cs \<noteq> [] \<longrightarrow> index_unique p_sku ps"
    using Cons.IH[OF run(2)] by blast
  have "filter (\<lambda>i. inv_sku i \<notin> cd_item_sku ` set cs) (filter (\<lambda>i. inv_sku i \<noteq> cd_item_sku c) (inventory (db w)))
      = filter (\<lambda>i. inv_sku i \<notin> cd_item_sku ` set (c # cs)) (inventory (db w))"
    unfolding filter_filter by (rule filter_cong) auto
  then have "db w' = (db w)\<lparr>products := ps,
      inventory := filter (\<lambda>i. inv_sku i \<notin> cd_item_sku ` set (c # cs)) (inventory (db w))\<rparr>"
    unfolding ps(1) w1 by simp
  moreover have "index_unique p_sku ps"
  proof (cases cs)
    case Nil
    then have "db w' = db w1" using run(2) by simp
    then have "products (db w') = ?ps" using w1 by simp
    moreover have "products (db w') = ps" using ps(1) by simp
    ultimately show ?thesis using idx by simp
  qed (use ps(3) in simp)
  moreover have "map (\<lambda>p. p\<lparr>p_sku := None\<rparr>) ps = map (\<lambda>p. p\<lparr>p_sku := None\<rparr>) (products (db w))"
    using ps(2) same unfolding w1 by simp
  ultimately show ?case by blast
next
  case Nil
  then have "w' = w" by simp
  then show ?case by (intro exI[of _ "products (db w)"]) simp
qed

lemma relinks_no_commit: "no_commit (fold_io relink cs ())"
  unfolding relink_def write_products_def by (intro no_commit_intros)

theorem cleanup_touches_skus_only:
  assumes "run_cleanup pf apply_it w = (r, w')"
  shows "committed w' = committed w \<or> apply_it \<and> (\<exists>ps. committed w' = (committed w)\<lparr>products := ps,
      inventory := filter (\<lambda>i. inv_sku i \<notin> cd_item_sku ` set (find_candidates pf (committed w))) (inventory (committed w))\<rparr>
    \<and> map (\<lambda>p. p\<lparr>p_sku := None\<rparr>) ps = map (\<lambda>p. p\<lparr>p_sku := None\<rparr>) (products (committed w))
    \<and> index_unique p_sku ps \<and> r = Inr (length (find_candidates pf (committed w))))"
proof (cases "fold_io relink (find_candidates pf (committed w)) () (w\<lparr>db := committed w\<rparr>)")
  case (Pair res w1)
  let ?cs = "find_candidates pf (committed w)"
  show ?thesis
  proof (cases "?cs = [] \<or> \<not> apply_it")
    case True
    then show ?thesis using assms by (auto simp: run_cleanup_def with_session_apply)
  next
    case False
    show ?thesis
    proof (cases res)
      case (Inl e)
      have "committed w1 = committed w" using relinks_no_commit[of ?cs] Pair no_commitD by fastforce
      then show ?thesis
        using assms False Pair Inl by (auto simp: run_cleanup_def apply_cleanup_def with_session_apply bind_io_apply)
    next
      case (Inr u)
      then have "committed w' = db w1" "r = Inr (length ?cs)"
        using assms False Pair by (auto simp: run_cleanup_def apply_cleanup_def with_session_apply bind_io_apply)
      then show ?thesis
        using relink_run[of ?cs "w\<lparr>db := committed w\<rparr>" w1] Pair Inr False by auto
    qed
  qed
qed

text \<open>The row that goes is not checked for stock: five burgers counted under the new sku are gone.\<close>

theorem cleanup_can_drop_stock:
  "let w = sample_world\<lparr>committed := empty_db\<lparr>
       products := [\<lparr>p_id = ''p'', p_name = ''Burger'', p_category_id = None, p_time_period_override = None,
         p_price_rub = None, p_description = None, p_image_url = None, p_is_active = True, p_sku = Some ''ITEM-1'', p_sort = 0\<rparr>],
       inventory := [\<lparr>inv_sku = ''burger-firm'', inv_name = '' burger'', inv_quantity = 0, inv_state = ''OUT_OF_STOCK''\<rparr>,
         \<lparr>inv_sku = ''ITEM-1'', inv_name = ''Burger'', inv_quantity = 5, inv_state = ''AVAILABLE''\<rparr>]\<rparr>\<rparr>
   in case run_cleanup ref_platform True w of (r, w') \<Rightarrow> r = Inr 1
      \<and> map (\<lambda>i. (inv_sku i, inv_quantity i)) (inventory (committed w')) = [(''burger-firm'', 0)]
      \<and> map p_sku (products (committed w')) = [Some ''burger-firm'']"
  by code_simp

end
