(* ===== verification/Startup.thy ===== *)
theory Startup
  imports Service_Agents Menu_Tools Promotion_Tools Schedule_Tools Zone_Tools Restock_Tools Menu_Import Kitchen_Service
begin

text \<open>
  What is fixed when the application starts: the policy of every governed VM
  (app/policy/policy_snapshot.py) beside the tools that VM registers, and the
  validation of the programs (app/startup.py, src/scripts/validate_all_programs.py).
\<close>

section \<open>Policies\<close>

text \<open>The arguments of \<open>PolicySnapshot.from_config\<close>: configuration, id and version.\<close>

datatype PolicySnapshot = from_config (pol_config: "(string \<times> capabilities) list") (policy_id: string) (policy_version: string)

definition pol_capabilities :: "PolicySnapshot \<Rightarrow> capabilities" where
  "pol_capabilities s = (case map_of (pol_config s) ''tool_capabilities'' of Some c \<Rightarrow> c | None \<Rightarrow> [])"

definition ORDERS_POLICY_CONFIG :: "(string \<times> capabilities) list" where
  "ORDERS_POLICY_CONFIG = [(''tool_capabilities'', ORDERS_TOOL_CAPABILITIES)]"

definition KITCHEN_POLICY_CONFIG :: "(string \<times> capabilities) list" where
  "KITCHEN_POLICY_CONFIG = [(''tool_capabilities'', KITCHEN_TOOL_CAPABILITIES)]"

definition DELIVERY_POLICY_CONFIG :: "(string \<times> capabilities) list" where
  "DELIVERY_POLICY_CONFIG = [(''tool_capabilities'', DELIVERY_TOOL_CAPABILITIES)]"

definition ORDER_AGENT_POLICY_CONFIG :: "(string \<times> capabilities) list" where
  "ORDER_AGENT_POLICY_CONFIG = [(''tool_capabilities'', ORDER_AGENT_TOOL_CAPABILITIES)]"

definition MENU_AGENT_POLICY_CONFIG :: "(string \<times> capabilities) list" where
  "MENU_AGENT_POLICY_CONFIG = [(''tool_capabilities'', MENU_AGENT_TOOL_CAPABILITIES)]"

definition MENU_AGENT_APPLY_POLICY_CONFIG :: "(string \<times> capabilities) list" where
  "MENU_AGENT_APPLY_POLICY_CONFIG = [(''tool_capabilities'', MENU_AGENT_APPLY_TOOL_CAPABILITIES)]"

definition MENU_AGENT_APPLY_CATEGORY_POLICY_CONFIG :: "(string \<times> capabilities) list" where
  "MENU_AGENT_APPLY_CATEGORY_POLICY_CONFIG = [(''tool_capabilities'', MENU_AGENT_APPLY_CATEGORY_TOOL_CAPABILITIES)]"

definition MENU_AGENT_UPDATE_PRODUCT_POLICY_CONFIG :: "(string \<times> capabilities) list" where
  "MENU_AGENT_UPDATE_PRODUCT_POLICY_CONFIG = [(''tool_capabilities'', MENU_AGENT_UPDATE_PRODUCT_TOOL_CAPABILITIES)]"

definition SCHEDULE_AGENT_POLICY_CONFIG :: "(string \<times> capabilities) list" where
  "SCHEDULE_AGENT_POLICY_CONFIG = [(''tool_capabilities'', SCHEDULE_AGENT_TOOL_CAPABILITIES)]"

definition SCHEDULE_AGENT_APPLY_POLICY_CONFIG :: "(string \<times> capabilities) list" where
  "SCHEDULE_AGENT_APPLY_POLICY_CONFIG = [(''tool_capabilities'', SCHEDULE_AGENT_APPLY_TOOL_CAPABILITIES)]"

definition PROMOTION_AGENT_POLICY_CONFIG :: "(string \<times> capabilities) list" where
  "PROMOTION_AGENT_POLICY_CONFIG = [(''tool_capabilities'', PROMOTION_AGENT_TOOL_CAPABILITIES)]"

definition PROMOTION_AGENT_APPLY_POLICY_CONFIG :: "(string \<times> capabilities) list" where
  "PROMOTION_AGENT_APPLY_POLICY_CONFIG = [(''tool_capabilities'', PROMOTION_AGENT_APPLY_TOOL_CAPABILITIES)]"

definition INVENTORY_AGENT_POLICY_CONFIG :: "(string \<times> capabilities) list" where
  "INVENTORY_AGENT_POLICY_CONFIG = [(''tool_capabilities'', INVENTORY_AGENT_TOOL_CAPABILITIES)]"

definition INVENTORY_AGENT_APPLY_POLICY_CONFIG :: "(string \<times> capabilities) list" where
  "INVENTORY_AGENT_APPLY_POLICY_CONFIG = [(''tool_capabilities'', INVENTORY_AGENT_APPLY_TOOL_CAPABILITIES)]"

definition SUPPORT_AGENT_POLICY_CONFIG :: "(string \<times> capabilities) list" where
  "SUPPORT_AGENT_POLICY_CONFIG = [(''tool_capabilities'', SUPPORT_AGENT_TOOL_CAPABILITIES)]"

definition MENU_AGENT_UPDATE_CATEGORY_POLICY_CONFIG :: "(string \<times> capabilities) list" where
  "MENU_AGENT_UPDATE_CATEGORY_POLICY_CONFIG = [(''tool_capabilities'', MENU_AGENT_UPDATE_CATEGORY_TOOL_CAPABILITIES)]"

definition ZONE_AGENT_POLICY_CONFIG :: "(string \<times> capabilities) list" where
  "ZONE_AGENT_POLICY_CONFIG = [(''tool_capabilities'', ZONE_AGENT_TOOL_CAPABILITIES)]"

definition ZONE_AGENT_APPLY_POLICY_CONFIG :: "(string \<times> capabilities) list" where
  "ZONE_AGENT_APPLY_POLICY_CONFIG = [(''tool_capabilities'', ZONE_AGENT_APPLY_TOOL_CAPABILITIES)]"

definition MENU_IMPORT_POLICY_CONFIG :: "(string \<times> capabilities) list" where
  "MENU_IMPORT_POLICY_CONFIG = [(''tool_capabilities'', MENU_IMPORT_TOOL_CAPABILITIES)]"

definition ORDER_AGENT_POLICY_SNAPSHOT :: PolicySnapshot where
  "ORDER_AGENT_POLICY_SNAPSHOT = from_config ORDER_AGENT_POLICY_CONFIG ''order-agent-v1'' ''1.0.0''"

definition ORDERS_POLICY_SNAPSHOT :: PolicySnapshot where
  "ORDERS_POLICY_SNAPSHOT = from_config ORDERS_POLICY_CONFIG ''orders-v1'' ''1.0.0''"

definition KITCHEN_POLICY_SNAPSHOT :: PolicySnapshot where
  "KITCHEN_POLICY_SNAPSHOT = from_config KITCHEN_POLICY_CONFIG ''kitchen-v1'' ''1.0.0''"

definition DELIVERY_POLICY_SNAPSHOT :: PolicySnapshot where
  "DELIVERY_POLICY_SNAPSHOT = from_config DELIVERY_POLICY_CONFIG ''delivery-v1'' ''1.0.0''"

definition MENU_AGENT_POLICY_SNAPSHOT :: PolicySnapshot where
  "MENU_AGENT_POLICY_SNAPSHOT = from_config MENU_AGENT_POLICY_CONFIG ''menu-agent-v1'' ''1.0.0''"

definition MENU_AGENT_APPLY_POLICY_SNAPSHOT :: PolicySnapshot where
  "MENU_AGENT_APPLY_POLICY_SNAPSHOT = from_config MENU_AGENT_APPLY_POLICY_CONFIG ''menu-agent-apply-v1'' ''1.0.0''"

definition MENU_AGENT_APPLY_CATEGORY_POLICY_SNAPSHOT :: PolicySnapshot where
  "MENU_AGENT_APPLY_CATEGORY_POLICY_SNAPSHOT = from_config MENU_AGENT_APPLY_CATEGORY_POLICY_CONFIG ''menu-agent-apply-category-v1'' ''1.0.0''"

definition MENU_AGENT_UPDATE_PRODUCT_POLICY_SNAPSHOT :: PolicySnapshot where
  "MENU_AGENT_UPDATE_PRODUCT_POLICY_SNAPSHOT = from_config MENU_AGENT_UPDATE_PRODUCT_POLICY_CONFIG ''menu-agent-update-product-v1'' ''1.0.0''"

definition MENU_AGENT_UPDATE_CATEGORY_POLICY_SNAPSHOT :: PolicySnapshot where
  "MENU_AGENT_UPDATE_CATEGORY_POLICY_SNAPSHOT = from_config MENU_AGENT_UPDATE_CATEGORY_POLICY_CONFIG ''menu-agent-update-category-v1'' ''1.0.0''"

definition SCHEDULE_AGENT_POLICY_SNAPSHOT :: PolicySnapshot where
  "SCHEDULE_AGENT_POLICY_SNAPSHOT = from_config SCHEDULE_AGENT_POLICY_CONFIG ''schedule-agent-v1'' ''1.0.0''"

definition SCHEDULE_AGENT_APPLY_POLICY_SNAPSHOT :: PolicySnapshot where
  "SCHEDULE_AGENT_APPLY_POLICY_SNAPSHOT = from_config SCHEDULE_AGENT_APPLY_POLICY_CONFIG ''schedule-agent-apply-v1'' ''1.0.0''"

definition ZONE_AGENT_POLICY_SNAPSHOT :: PolicySnapshot where
  "ZONE_AGENT_POLICY_SNAPSHOT = from_config ZONE_AGENT_POLICY_CONFIG ''zone-agent-v1'' ''1.0.0''"

definition ZONE_AGENT_APPLY_POLICY_SNAPSHOT :: PolicySnapshot where
  "ZONE_AGENT_APPLY_POLICY_SNAPSHOT = from_config ZONE_AGENT_APPLY_POLICY_CONFIG ''zone-agent-apply-v1'' ''1.0.0''"

definition PROMOTION_AGENT_POLICY_SNAPSHOT :: PolicySnapshot where
  "PROMOTION_AGENT_POLICY_SNAPSHOT = from_config PROMOTION_AGENT_POLICY_CONFIG ''promotion-agent-v1'' ''1.0.0''"

definition PROMOTION_AGENT_APPLY_POLICY_SNAPSHOT :: PolicySnapshot where
  "PROMOTION_AGENT_APPLY_POLICY_SNAPSHOT = from_config PROMOTION_AGENT_APPLY_POLICY_CONFIG ''promotion-agent-apply-v1'' ''1.0.0''"

definition INVENTORY_AGENT_POLICY_SNAPSHOT :: PolicySnapshot where
  "INVENTORY_AGENT_POLICY_SNAPSHOT = from_config INVENTORY_AGENT_POLICY_CONFIG ''inventory-agent-v1'' ''1.0.0''"

definition INVENTORY_AGENT_APPLY_POLICY_SNAPSHOT :: PolicySnapshot where
  "INVENTORY_AGENT_APPLY_POLICY_SNAPSHOT = from_config INVENTORY_AGENT_APPLY_POLICY_CONFIG ''inventory-agent-apply-v1'' ''1.0.0''"

definition SUPPORT_AGENT_POLICY_SNAPSHOT :: PolicySnapshot where
  "SUPPORT_AGENT_POLICY_SNAPSHOT = from_config SUPPORT_AGENT_POLICY_CONFIG ''support-agent-v1'' ''1.0.0''"

definition MENU_IMPORT_POLICY_SNAPSHOT :: PolicySnapshot where
  "MENU_IMPORT_POLICY_SNAPSHOT = from_config MENU_IMPORT_POLICY_CONFIG ''menu-import-v1'' ''1.0.0''"

text \<open>The agents with the tools they register, phase by phase, and the VMs of the services.\<close>

definition AGENT_VMS :: "platform \<Rightarrow> (PolicySnapshot \<times> (string \<times> world tool) list) list" where
  "AGENT_VMS pf =
     [(ORDER_AGENT_POLICY_SNAPSHOT, ORDER_AGENT_TOOLS pf),
      (SUPPORT_AGENT_POLICY_SNAPSHOT, SUPPORT_AGENT_TOOLS pf),
      (MENU_AGENT_POLICY_SNAPSHOT, MENU_AGENT_TOOLS pf),
      (MENU_AGENT_APPLY_POLICY_SNAPSHOT, MENU_APPLY_TOOLS pf),
      (MENU_AGENT_APPLY_CATEGORY_POLICY_SNAPSHOT, MENU_APPLY_CATEGORY_TOOLS pf),
      (MENU_AGENT_UPDATE_PRODUCT_POLICY_SNAPSHOT, UPDATE_PRODUCT_TOOLS pf),
      (MENU_AGENT_UPDATE_CATEGORY_POLICY_SNAPSHOT, UPDATE_CATEGORY_TOOLS pf),
      (SCHEDULE_AGENT_POLICY_SNAPSHOT, SCHEDULE_AGENT_TOOLS pf),
      (SCHEDULE_AGENT_APPLY_POLICY_SNAPSHOT, SCHEDULE_APPLY_TOOLS pf),
      (ZONE_AGENT_POLICY_SNAPSHOT, ZONE_AGENT_TOOLS pf),
      (ZONE_AGENT_APPLY_POLICY_SNAPSHOT, ZONE_APPLY_TOOLS pf),
      (PROMOTION_AGENT_POLICY_SNAPSHOT, PROMOTION_AGENT_TOOLS pf),
      (PROMOTION_AGENT_APPLY_POLICY_SNAPSHOT, PROMOTION_APPLY_TOOLS pf),
      (INVENTORY_AGENT_POLICY_SNAPSHOT, RESTOCK_AGENT_TOOLS pf),
      (INVENTORY_AGENT_APPLY_POLICY_SNAPSHOT, RESTOCK_APPLY_TOOLS pf)]"

definition SERVICE_VMS :: "platform \<Rightarrow> (PolicySnapshot \<times> (string \<times> world tool) list) list" where
  "SERVICE_VMS pf =
     [(ORDERS_POLICY_SNAPSHOT, ORDER_TOOLS pf),
      (KITCHEN_POLICY_SNAPSHOT, KITCHEN_TOOLS),
      (MENU_IMPORT_POLICY_SNAPSHOT, MENU_IMPORT_TOOLS pf)]"

section \<open>Validation at startup\<close>

definition ALL_PROGRAMS :: "program list" where
  "ALL_PROGRAMS = [PROGRAM_REQUEST_PAYMENT, PROGRAM_PAYMENT_CONFIRMATION, PROGRAM_START_COOKING, PROGRAM_CONFIRM,
     PROGRAM_PAYMENT_FAILED, PROGRAM_CANCEL, PROVIDER_FALLBACK, PROGRAM_COLLECT_MENU, PROGRAM_COLLECT_ORDER,
     PROGRAM_COLLECT_PROMOTION, PROGRAM_COLLECT_SUPPORT]"

datatype IssueSeverity = ERROR | WARNING

text \<open>A report that is not valid stops the start when one of its issues is an error.\<close>

fun validate_each :: "platform \<Rightarrow> (program \<Rightarrow> IssueSeverity list) \<Rightarrow> program list \<Rightarrow> bool" where
  "validate_each pf issues [] = False"
| "validate_each pf issues (p # ps) =
     ((\<not> validates pf p \<and> ERROR \<in> set (issues p)) \<or> validate_each pf issues ps)"

definition validate_all_programs :: "platform \<Rightarrow> (program \<Rightarrow> IssueSeverity list) \<Rightarrow> unit result" where
  "validate_all_programs pf issues = (if validate_each pf issues ALL_PROGRAMS
     then Inl (RuntimeError ''Program validation failed'') else Inr ())"

definition validate_main :: "platform \<Rightarrow> (program \<Rightarrow> IssueSeverity list) \<Rightarrow> int" where
  "validate_main pf issues = (case validate_all_programs pf issues of Inl _ \<Rightarrow> 1 | Inr _ \<Rightarrow> 0)"

section \<open>Least privilege and a clean start\<close>

named_theorems policy_defs "definitions of the policies"

lemmas [policy_defs] = ORDER_AGENT_POLICY_SNAPSHOT_def ORDERS_POLICY_SNAPSHOT_def KITCHEN_POLICY_SNAPSHOT_def DELIVERY_POLICY_SNAPSHOT_def MENU_AGENT_POLICY_SNAPSHOT_def MENU_AGENT_APPLY_POLICY_SNAPSHOT_def MENU_AGENT_APPLY_CATEGORY_POLICY_SNAPSHOT_def MENU_AGENT_UPDATE_PRODUCT_POLICY_SNAPSHOT_def MENU_AGENT_UPDATE_CATEGORY_POLICY_SNAPSHOT_def SCHEDULE_AGENT_POLICY_SNAPSHOT_def SCHEDULE_AGENT_APPLY_POLICY_SNAPSHOT_def ZONE_AGENT_POLICY_SNAPSHOT_def ZONE_AGENT_APPLY_POLICY_SNAPSHOT_def PROMOTION_AGENT_POLICY_SNAPSHOT_def PROMOTION_AGENT_APPLY_POLICY_SNAPSHOT_def INVENTORY_AGENT_POLICY_SNAPSHOT_def INVENTORY_AGENT_APPLY_POLICY_SNAPSHOT_def SUPPORT_AGENT_POLICY_SNAPSHOT_def MENU_IMPORT_POLICY_SNAPSHOT_def
  ORDERS_POLICY_CONFIG_def KITCHEN_POLICY_CONFIG_def DELIVERY_POLICY_CONFIG_def ORDER_AGENT_POLICY_CONFIG_def MENU_AGENT_POLICY_CONFIG_def MENU_AGENT_APPLY_POLICY_CONFIG_def MENU_AGENT_APPLY_CATEGORY_POLICY_CONFIG_def MENU_AGENT_UPDATE_PRODUCT_POLICY_CONFIG_def SCHEDULE_AGENT_POLICY_CONFIG_def SCHEDULE_AGENT_APPLY_POLICY_CONFIG_def PROMOTION_AGENT_POLICY_CONFIG_def PROMOTION_AGENT_APPLY_POLICY_CONFIG_def INVENTORY_AGENT_POLICY_CONFIG_def INVENTORY_AGENT_APPLY_POLICY_CONFIG_def SUPPORT_AGENT_POLICY_CONFIG_def MENU_AGENT_UPDATE_CATEGORY_POLICY_CONFIG_def ZONE_AGENT_POLICY_CONFIG_def ZONE_AGENT_APPLY_POLICY_CONFIG_def MENU_IMPORT_POLICY_CONFIG_def
  DELIVERY_TOOL_CAPABILITIES_def INVENTORY_AGENT_APPLY_TOOL_CAPABILITIES_def INVENTORY_AGENT_TOOL_CAPABILITIES_def KITCHEN_TOOL_CAPABILITIES_def MENU_AGENT_APPLY_CATEGORY_TOOL_CAPABILITIES_def MENU_AGENT_APPLY_TOOL_CAPABILITIES_def MENU_AGENT_TOOL_CAPABILITIES_def MENU_AGENT_UPDATE_CATEGORY_TOOL_CAPABILITIES_def MENU_AGENT_UPDATE_PRODUCT_TOOL_CAPABILITIES_def MENU_IMPORT_TOOL_CAPABILITIES_def ORDERS_TOOL_CAPABILITIES_def ORDER_AGENT_TOOL_CAPABILITIES_def PROMOTION_AGENT_APPLY_TOOL_CAPABILITIES_def PROMOTION_AGENT_TOOL_CAPABILITIES_def SCHEDULE_AGENT_APPLY_TOOL_CAPABILITIES_def SCHEDULE_AGENT_TOOL_CAPABILITIES_def SUPPORT_AGENT_TOOL_CAPABILITIES_def ZONE_AGENT_APPLY_TOOL_CAPABILITIES_def ZONE_AGENT_TOOL_CAPABILITIES_def

named_theorems registry_defs "definitions of the tool registries"

lemmas [registry_defs] = ORDER_TOOLS_def KITCHEN_TOOLS_def MENU_IMPORT_TOOLS_def ORDER_AGENT_TOOLS_def SUPPORT_AGENT_TOOLS_def MENU_AGENT_TOOLS_def MENU_APPLY_TOOLS_def MENU_APPLY_CATEGORY_TOOLS_def UPDATE_PRODUCT_TOOLS_def UPDATE_CATEGORY_TOOLS_def SCHEDULE_AGENT_TOOLS_def SCHEDULE_APPLY_TOOLS_def ZONE_AGENT_TOOLS_def ZONE_APPLY_TOOLS_def PROMOTION_AGENT_TOOLS_def PROMOTION_APPLY_TOOLS_def RESTOCK_AGENT_TOOLS_def RESTOCK_APPLY_TOOLS_def

definition is_write :: "string \<Rightarrow> bool" where
  "is_write c \<longleftrightarrow> drop (length c - 6) c = '':write''"

text \<open>
  Every agent phase is granted exactly the tools it registers, and of these exactly
  one may write: the terminal step. Validators and reports only read. The VMs of
  the services register only tools they are granted.
\<close>

theorem least_privilege:
  "\<forall>(pol, tools) \<in> set (AGENT_VMS pf). map fst (pol_capabilities pol) = map fst tools
     \<and> list_all (\<lambda>(_, cs). length cs = 1) (pol_capabilities pol)
     \<and> map (\<lambda>(_, cs). is_write (hd cs)) (pol_capabilities pol) = [False, True, False]"
  "\<forall>(pol, tools) \<in> set (SERVICE_VMS pf). list_all (\<lambda>(n, _). map_of (pol_capabilities pol) n \<noteq> None) tools"
  by (simp_all add: AGENT_VMS_def SERVICE_VMS_def pol_capabilities_def policy_defs registry_defs is_write_def)

text \<open>The programs of this repository pass, whatever the validator says of other ones.\<close>

theorem startup_succeeds:
  assumes "vm_ok pf"
  shows "validate_all_programs pf issues = Inr () \<and> validate_main pf issues = 0"
proof -
  have "\<forall>p \<in> set ALL_PROGRAMS. forward_program p"
    by (simp add: ALL_PROGRAMS_def PROGRAM_COLLECT_MENU_def PROGRAM_COLLECT_ORDER_def PROGRAM_COLLECT_PROMOTION_def
        PROGRAM_COLLECT_SUPPORT_def provider_fallback_forward)
  then have "\<forall>p \<in> set ALL_PROGRAMS. validates pf p"
    using validates_forward[OF assms] by blast
  then have "\<not> validate_each pf issues ps" if "set ps \<subseteq> set ALL_PROGRAMS" for ps
    using that by (induction ps) auto
  then show ?thesis by (simp add: validate_all_programs_def validate_main_def)
qed

end
