(* ===== verification/Spec2Isabelle.thy ===== *)
theory Spec2Isabelle
  imports Order_Properties Kitchen_Properties Payment_Properties Checkout_Properties
    Staff_Properties Zone_Properties Promotion_Properties Menu_Properties
    Inventory_Properties Import_Properties Schedule_Properties
    Surface_Properties Customer_Routes Service_Agents Receipts Split_SQL
    Messenger_Clients Web_Headers Scripts Startup
begin

text \<open>
  \<^bold>\<open>A verified model of the backend of a food-delivery service.\<close>

  The program (src/app) takes orders from a web shop and messenger Mini Apps,
  collects payments through YooKassa, runs kitchen tickets and courier tasks, and lets
  language-model agents administer the menu, the delivery zones, the
  promotions, the stock and the opening hours. Every change of an order, a ticket or an agent-administered table
  is the run of a governed program: a list of steps, some deterministic and some
  tool calls, that an execution VM performs under a capability policy. The model
  follows the code down to the SQL statements, which act on tables kept as lists
  of rows; a session works on its own view and only a commit is visible to others.

  \<^bold>\<open>Parts.\<close> Each theory names the files it models in its opening text.

  \<^item> Vocabulary: Prelude (exceptions, state-passing computations, JSON, SQL
    statements on lists of rows), Py_Text (strip, lower, int, str, UUID of Python),
    Float64 (binary64 arithmetic), Decimal_Text (decimal.Decimal), Nano_VM (programs
    as data, the contract of the VM and a reference VM that meets it), Database (the
    tables and the world a request runs in), Platform (everything the repository
    does not own: settings, VM, HTTP, HMAC, JSON parser), Unique_Index (partial
    unique indexes of the schema).
  \<^item> Machines: Fsm_Core (fsm/core/base.py), Order_Domain, Kitchen_Domain,
    Aux_Domains (domains/*/fsm.py).
  \<^item> Governed orders: Policy_Snapshot, Programs, Inventory_Tools, Order_Tools,
    Kitchen_Tools, Staff_Notify, Order_Service, Kitchen_Service. OrderService runs
    the program of an event with the tools of its registry and commits when the VM
    reports success; the kitchen hand-off cascades into the order.
  \<^item> Money: Pricing, Idempotency, Payment_Service, Customer_Service, Webapp_Auth,
    Checkout. The checkout places an order at a price computed from stored rows and
    creates a payment; the provider webhook confirms or fails it.
  \<^item> Staff: Staff_Service, Staff_Channels. The MAX webhook and the Mini App routes
    authenticate a staff member and pass events to the order and kitchen services.
  \<^item> Agents: Agent_Core (the two-phase convention and its contracts), Zone_Tools,
    Promotion_Tools, Menu_Tools, Restock_Tools, Schedule_Tools; Service_Agents holds
    the order and support agents, which only collect, and the chain of model
    providers.
  \<^item> Back office: Inventory_Service (synchronisation with the menu, quantities, daily
    totals and the export), Csv_Text (the csv reader and writer of Python as state
    machines), Menu_Import (upload parsing, the governed upsert, generated skus),
    Schedule_Service (service windows and what customers see of them), Menu_Service
    (the menu with its availability), Delivery_Service (courier tasks).
  \<^item> HTTP surface: Web_Auth (Basic credentials and the origin guard), Order_Routes
    (the pay endpoint), Admin_Routes (api/routes/admin.py), Dashboard_Routes
    (web/routes.py, and the wiring of main.py that puts every protected route behind
    its guard), Customer_Routes (the storefront pages that compute something and
    the Telegram webhook).
    Web_Headers holds the two middlewares of main.py with the nonces and headers they
    add (web/csp.py) and the pages that only pass a nonce to a template; the error
    handler of the framework, outside both, is not modelled.
  \<^item> Around the program: Receipts (what is told about a stored trace), Split_SQL
    (the scanner that cuts a migration script into statements, against a lexical
    grammar of SQL tokens, stated without the scanner), Messenger_Clients
    (the requests of the MAX, Zalo and Telegram clients and what they make of the
    answers), Startup (the policies as objects with the tools each of them governs, and the
    check of the programs at startup), Scripts (src/scripts: the import of zones and
    categories, the preparation of the product file, the cleanup of skus).
  \<^item> Properties: one theory per area, Order_Properties, Kitchen_Properties,
    Payment_Properties, Checkout_Properties, Staff_Properties, Zone_Properties,
    Promotion_Properties, Menu_Properties, Inventory_Properties (the ledger explains
    the stock, the export reads back), Import_Properties (an import is idempotent),
    Schedule_Properties (commands refine a calendar), Surface_Properties (who may
    change anything through the protected routes, what the boards show);
    Samples holds the worlds on which
    the witnesses are evaluated.

  \<^bold>\<open>Correspondence.\<close> A table is a list of records named after its row; a service
  method is a definition of the same name that takes the platform record first and
  threads the world record (\<open>db\<close> is the session's view, \<open>committed\<close> what others
  see). A raise is an \<open>exn\<close> value of a sum; an HTTPException is the answer with its
  status code. A tool takes its keyword arguments as a JSON object.

  \<^bold>\<open>Groups of lemmas.\<close> \<open>no_commit_intros\<close>, \<open>verdict_intros\<close> and
  \<open>yields_intros\<close> are syntax-directed rules that show that a computation commits
  nothing, changes nothing, or returns values with a property; \<open>io_elims\<close> takes a
  successful computation apart. The locales state the contracts between parts:
  \<open>execution_vm\<close> (what the services rely on of the VM), \<open>fsm_graph\<close> and
  \<open>ranked_graph\<close> (transition tables), \<open>state_cell\<close> (repositories),
  \<open>outside_orders\<close> and \<open>outside_payments\<close> (what the order machinery, and then the
  payment service, leave alone; Table_Frame and Payment_Service), \<open>collect_phase\<close>
  and \<open>apply_phase\<close> with \<open>sentinel_phase\<close> (agents). Each is interpreted on the model's definitions.

  \<^bold>\<open>Bounds and fuel.\<close> Programs have no jumps back, so the reference VM runs them
  with as many units of fuel as they have steps (shown enough in Nano_VM). INTEGER
  columns hold 32-bit values and reject others with DataError. Amounts of the
  discount computation are bounded by 2 powi 53 kopecks-scaled units where the
  statement says so, since binary64 is exact there.

  \<^bold>\<open>Parameters.\<close> The VM with executor and validator (third-party packages), the
  YooKassa and Zalo HTTP APIs, json.loads, HMAC and SHA-256, and the lower() of the
  database are fields of the platform. Hypotheses on them are named (\<open>vm_ok\<close>) and
  met by \<open>ref_platform\<close> of Platform.

  \<^bold>\<open>Not modelled.\<close> The rendering of templates (a page is the data handed to its
  template), the parsing of requests by the web framework, telemetry (telemetry.py,
  db_nano.py) and log lines, connection set-up (db.py) and the execution of migrations
  (the schema they produce is modelled), the third-party clients behind
  llm/providers.py, scripts/seed_demo_menu.py (it writes a column that migration 014
  has dropped), and the choices of the language models, which are arguments here. Texts outside
  latin-1 are represented by their structure; times are whole seconds. Concurrent sessions
  are modelled by the order of whole requests only.
\<close>

end
